(* ===== verification/Vci_Prelude.thy ===== *)
theory Vci_Prelude
  imports
    Main
    "HOL-Library.AList"
    "HOL-Library.Char_ord"
    "HOL-Library.List_Lexorder"
    "HOL-Library.Word"
begin

text \<open>
  Shared foundations of the development.

  \<^item> Go's strings are byte sequences: \<open>string\<close> is a list of \<open>char\<close>, one per byte. The functions of
    Go's \<open>strings\<close> package that the sources call are defined here, under Go's names.
  \<^item> Go's \<open>int\<close> and \<open>int64\<close> are 64 bits wide: \<open>wrap64\<close> is the value a sum or a product keeps.
  \<^item> A directory is an association list; \<open>dir_names\<close> is what \<open>os.ReadDir\<close> lists.
\<close>

section \<open>Collections of facts\<close>

named_theorems io_simps \<open>unfolding rules of the programs\<close>
named_theorems string_simps \<open>unfolding rules of the string functions\<close>

section \<open>Machine integers\<close>

definition wrap64 :: "int \<Rightarrow> int" where
  "wrap64 x = sint (word_of_int x :: 64 word)"

lemma wrap64_eq: "wrap64 x = (x + 2 ^ 63) mod 2 ^ 64 - 2 ^ 63"
proof -
  have "wrap64 x = signed_take_bit 63 x"
    unfolding wrap64_def by (simp add: signed_of_int)
  then show ?thesis
    by (simp add: signed_take_bit_eq_take_bit_shift take_bit_eq_mod)
qed

lemma wrap64_id [simp]:
  assumes "- (2 ^ 63) \<le> x" and "x < 2 ^ 63"
  shows "wrap64 x = x"
proof -
  from assms have "(x + 2 ^ 63) mod 2 ^ 64 = x + 2 ^ 63"
    by (intro mod_pos_pos_trivial) auto
  then show ?thesis by (simp add: wrap64_eq)
qed

section \<open>Strings\<close>

text \<open>
  The functions of the package \<open>strings\<close>. Separators are single bytes in every call of the
  sources, so \<open>Split\<close> takes a \<open>char\<close>.
\<close>

definition HasPrefix :: "string \<Rightarrow> string \<Rightarrow> bool" where
  [string_simps]: "HasPrefix s p \<longleftrightarrow> take (length p) s = p"

definition HasSuffix :: "string \<Rightarrow> string \<Rightarrow> bool" where
  [string_simps]: "HasSuffix s p \<longleftrightarrow> length p \<le> length s \<and> drop (length s - length p) s = p"

fun Contains :: "string \<Rightarrow> string \<Rightarrow> bool" where
  "Contains [] sub = (sub = [])"
| "Contains (c # cs) sub = (HasPrefix (c # cs) sub \<or> Contains cs sub)"

definition ContainsAny :: "string \<Rightarrow> string \<Rightarrow> bool" where
  [string_simps]: "ContainsAny s cs \<longleftrightarrow> list_ex (\<lambda>c. c \<in> set cs) s"

definition TrimPrefix :: "string \<Rightarrow> string \<Rightarrow> string" where
  [string_simps]: "TrimPrefix s p = (if HasPrefix s p then drop (length p) s else s)"

definition TrimSuffix :: "string \<Rightarrow> string \<Rightarrow> string" where
  [string_simps]: "TrimSuffix s p = (if HasSuffix s p then take (length s - length p) s else s)"

fun Split :: "char \<Rightarrow> string \<Rightarrow> string list" where
  "Split c [] = [[]]"
| "Split c (x # xs) =
     (if x = c then [] # Split c xs else (x # hd (Split c xs)) # tl (Split c xs))"

fun Join :: "string list \<Rightarrow> string \<Rightarrow> string" where
  "Join [] sep = []"
| "Join [x] sep = x"
| "Join (x # y # ys) sep = x @ sep @ Join (y # ys) sep"

lemma HasPrefix_append [simp]: "HasPrefix (p @ s) p"
  by (simp add: HasPrefix_def)

lemma HasPrefix_iff: "HasPrefix s p \<longleftrightarrow> (\<exists>t. s = p @ t)"
  by (auto simp: HasPrefix_def) (metis append_take_drop_id)

lemma HasPrefix_Nil [simp]: "HasPrefix s []"
  by (simp add: HasPrefix_def)

lemma HasSuffix_append [simp]: "HasSuffix (s @ p) p"
  by (simp add: HasSuffix_def)

lemma HasSuffix_iff: "HasSuffix s p \<longleftrightarrow> (\<exists>t. s = t @ p)"
  by (auto simp: HasSuffix_def) (metis append_take_drop_id)

lemma TrimPrefix_append [simp]: "TrimPrefix (p @ s) p = s"
  by (simp add: TrimPrefix_def)

lemma TrimSuffix_append [simp]: "TrimSuffix (s @ p) p = s"
  by (simp add: TrimSuffix_def)

lemma Contains_iff: "Contains s sub \<longleftrightarrow> (\<exists>a b. s = a @ sub @ b)"
proof (induction s)
  case Nil
  show ?case by simp
next
  case (Cons c cs)
  have "(\<exists>a b. c # cs = a @ sub @ b)
      \<longleftrightarrow> (\<exists>b. c # cs = sub @ b) \<or> (\<exists>a b. cs = a @ sub @ b)"
    by (metis append_Cons append_Nil list.inject neq_Nil_conv)
  with Cons.IH show ?case by (simp add: HasPrefix_iff)
qed

lemma Split_not_Nil [simp]: "Split c s \<noteq> []"
  by (cases s) auto

text \<open>The same with the piece so far as an accumulator, for evaluation.\<close>

fun split_from :: "char \<Rightarrow> string \<Rightarrow> string \<Rightarrow> string list" where
  "split_from c acc [] = [rev acc]"
| "split_from c acc (x # xs) = (if x = c then rev acc # split_from c [] xs else split_from c (x # acc) xs)"

lemma split_from_Split: "split_from c acc s = (case Split c s of [] \<Rightarrow> [] | p # ps \<Rightarrow> (rev acc @ p) # ps)"
  by (induction c acc s rule: split_from.induct) (auto split: list.splits)

lemma Split_code [code]: "Split c s = split_from c [] s"
  by (simp add: split_from_Split split: list.splits)

lemma Join_Split [simp]: "Join (Split c s) [c] = s"
proof (induction s)
  case Nil
  show ?case by simp
next
  case (Cons x xs)
  obtain y ys where yys: "Split c xs = y # ys" by (cases "Split c xs") simp_all
  with Cons.IH show ?case by (cases ys) auto
qed

lemma Split_no_sep: "part \<in> set (Split c s) \<Longrightarrow> c \<notin> set part"
proof (induction s arbitrary: part)
  case Nil
  then show ?case by simp
next
  case (Cons x xs)
  have hd: "c \<notin> set (hd (Split c xs))"
    by (rule Cons.IH) (rule hd_in_set, simp)
  from Cons.prems Cons.IH hd show ?case
    by (auto split: if_splits dest: list.set_sel(2) [rotated])
qed

lemma Split_sep_free: "c \<notin> set s \<Longrightarrow> Split c s = [s]"
  by (induction s) auto

lemma Split_append_sep: "c \<notin> set s \<Longrightarrow> Split c (s @ c # t) = s # Split c t"
  by (induction s) auto

lemma Split_Join:
  "xs \<noteq> [] \<Longrightarrow> (\<And>x. x \<in> set xs \<Longrightarrow> c \<notin> set x) \<Longrightarrow> Split c (Join xs [c]) = xs"
  by (induction xs "[c]" rule: Join.induct) (auto simp: Split_sep_free Split_append_sep)

lemma set_Split: "set s = \<Union> (set ` set (Split c s)) \<union> (if c \<in> set s then {c} else {})"
proof (induction s)
  case Nil
  show ?case by simp
next
  case (Cons x xs)
  obtain y ys where yys: "Split c xs = y # ys" by (cases "Split c xs") simp_all
  from Cons.IH show ?case by (auto simp: yys split: if_splits)
qed

subsection \<open>Runes\<close>

text \<open>
  \<open>for _, r := range s\<close> and the functions on Unicode classes decode UTF-8; a byte that starts no
  valid sequence is the rune U+FFFD, of width one.
\<close>

definition cont :: "nat \<Rightarrow> nat \<Rightarrow> nat \<Rightarrow> bool" where
  "cont lo hi b \<longleftrightarrow> lo \<le> b \<and> b \<le> hi"

definition utf8_tail :: "nat \<Rightarrow> nat list \<Rightarrow> (nat \<times> nat) option" where
  "utf8_tail b bs =
     (if cont 194 223 b then
        (case bs of
           b1 # _ \<Rightarrow> if cont 128 191 b1 then Some ((b - 192) * 64 + (b1 - 128), 1) else None
         | _ \<Rightarrow> None)
      else if cont 224 239 b then
        (case bs of
           b1 # b2 # _ \<Rightarrow>
             if cont (if b = 224 then 160 else 128) (if b = 237 then 159 else 191) b1 \<and> cont 128 191 b2
             then Some (((b - 224) * 64 + (b1 - 128)) * 64 + (b2 - 128), 2) else None
         | _ \<Rightarrow> None)
      else if cont 240 244 b then
        (case bs of
           b1 # b2 # b3 # _ \<Rightarrow>
             if cont (if b = 240 then 144 else 128) (if b = 244 then 143 else 191) b1
                \<and> cont 128 191 b2 \<and> cont 128 191 b3
             then Some ((((b - 240) * 64 + (b1 - 128)) * 64 + (b2 - 128)) * 64 + (b3 - 128), 3)
             else None
         | _ \<Rightarrow> None)
      else None)"

fun runes_of :: "nat list \<Rightarrow> nat list" where
  "runes_of [] = []"
| "runes_of (b # bs) =
     (if b < 128 then b # runes_of bs
      else case utf8_tail b bs of
          Some (r, n) \<Rightarrow> r # runes_of (drop n bs)
        | None \<Rightarrow> 65533 # runes_of bs)"

definition runes :: "string \<Rightarrow> nat list" where
  "runes s = runes_of (map of_char s)"

definition IsSpace :: "nat \<Rightarrow> bool" where
  "IsSpace r \<longleftrightarrow> r \<in> {9, 10, 11, 12, 13, 32, 133, 160, 5760, 8232, 8233, 8239, 8287, 12288}
     \<or> (8192 \<le> r \<and> r \<le> 8202)"

lemma IsSpace_code [code]: "IsSpace r = (if r < 128 then r \<in> {9, 10, 11, 12, 13, 32}
     else r \<in> {133, 160, 5760, 8232, 8233, 8239, 8287, 12288} \<or> (8192 \<le> r \<and> r \<le> 8202))"
  by (auto simp: IsSpace_def)

text \<open>
  \<open>ToLower\<close> on one rune, as far as a comparison with ASCII text can tell: the ASCII letters, and
  the two other code points whose lower case is ASCII.
\<close>

definition lower_rune :: "nat \<Rightarrow> nat" where
  "lower_rune r = (if 65 \<le> r \<and> r \<le> 90 then r + 32 else if r = 304 then 105 else if r = 8490 then 107 else r)"

definition trim_runes :: "nat list \<Rightarrow> nat list" where
  "trim_runes rs = rev (dropWhile IsSpace (rev (dropWhile IsSpace rs)))"

text \<open>\<open>strings.TrimSpace(s) == ""\<close>.\<close>

definition blank :: "string \<Rightarrow> bool" where
  "blank s \<longleftrightarrow> list_all IsSpace (runes s)"

text \<open>A control character, as the validators test it: below 0x20, or 0x7f.\<close>

definition control_rune :: "nat \<Rightarrow> bool" where
  "control_rune r \<longleftrightarrow> r < 32 \<or> r = 127"

definition has_control :: "string \<Rightarrow> bool" where
  "has_control s \<longleftrightarrow> list_ex control_rune (runes s)"

lemma utf8_tail_ge: "utf8_tail b bs = Some (r, n) \<Longrightarrow> 128 \<le> r"
  by (auto simp: utf8_tail_def cont_def split: if_splits list.splits)

lemma utf8_tail_cont:
  "utf8_tail b bs = Some (r, n) \<Longrightarrow> n \<le> length bs \<and> (\<forall>x \<in> set (take n bs). 128 \<le> x)"
  by (auto simp: utf8_tail_def cont_def numeral_2_eq_2 numeral_3_eq_3 split: if_splits list.splits)

text \<open>An ASCII byte is a rune of its own: a test on ASCII runes is a test on bytes.\<close>

lemma ascii_runes_of: "r < 128 \<Longrightarrow> r \<in> set (runes_of bs) \<longleftrightarrow> r \<in> set bs"
proof (induction bs rule: runes_of.induct)
  case 1
  then show ?case by simp
next
  case (2 b bs)
  show ?case
  proof (cases "b < 128")
    case True
    with 2 show ?thesis by auto
  next
    case False
    show ?thesis
    proof (cases "utf8_tail b bs")
      case None
      with 2 False show ?thesis by auto
    next
      case (Some rn)
      obtain q n where rn: "rn = (q, n)" by force
      from Some rn have q: "128 \<le> q" and tk: "\<forall>x \<in> set (take n bs). 128 \<le> x"
        by (auto dest: utf8_tail_ge utf8_tail_cont)
      have "set bs = set (take n bs) \<union> set (drop n bs)"
        by (metis append_take_drop_id set_append)
      with tk 2(4) have "r \<in> set bs \<longleftrightarrow> r \<in> set (drop n bs)" by auto
      with 2 Some rn False q show ?thesis by auto
    qed
  qed
qed

lemma ascii_runes: "r < 128 \<Longrightarrow> r \<in> set (runes s) \<longleftrightarrow> (\<exists>c \<in> set s. of_char c = r)"
  by (auto simp: runes_def ascii_runes_of)

lemma control_rune_ascii: "control_rune r \<Longrightarrow> r < 128"
  by (auto simp: control_rune_def)

lemma has_control_iff: "has_control s \<longleftrightarrow> (\<exists>c \<in> set s. control_rune (of_char c))"
  unfolding has_control_def list_ex_iff by (metis ascii_runes control_rune_ascii)

section \<open>Decimal numbers\<close>

definition digit :: "nat \<Rightarrow> char" where
  "digit n = char_of (48 + n)"

fun nat_text :: "nat \<Rightarrow> string" where
  "nat_text n = (if n < 10 then [digit n] else nat_text (n div 10) @ [digit (n mod 10)])"

declare nat_text.simps [simp del]

definition itoa :: "int \<Rightarrow> string" where
  "itoa i = (if i < 0 then CHR ''-'' # nat_text (nat (- i)) else nat_text (nat i))"

definition is_digit :: "char \<Rightarrow> bool" where
  "is_digit c \<longleftrightarrow> 48 \<le> (of_char c :: nat) \<and> of_char c \<le> (57 :: nat)"

definition digits_value :: "string \<Rightarrow> nat" where
  "digits_value s = foldl (\<lambda>n c. 10 * n + (of_char c - 48)) 0 s"

lemma digits_value_snoc: "digits_value (s @ [c]) = 10 * digits_value s + (of_char c - 48)"
  by (simp add: digits_value_def)

lemma digit_facts: "n < 10 \<Longrightarrow> is_digit (digit n) \<and> of_char (digit n) = 48 + n"
  by (simp add: is_digit_def digit_def of_char_of)

text \<open>Printing and reading a number.\<close>

lemma nat_text_value: "list_all is_digit (nat_text n) \<and> nat_text n \<noteq> [] \<and> digits_value (nat_text n) = n"
proof (induction n rule: nat_text.induct)
  case (1 n)
  show ?case
  proof (cases "n < 10")
    case True
    then show ?thesis
      by (simp add: nat_text.simps [of n] digit_facts digits_value_def)
  next
    case False
    with 1 show ?thesis
      by (simp add: nat_text.simps [of n] digit_facts digits_value_snoc)
  qed
qed

section \<open>Directories\<close>

type_synonym 'a dir = "(string \<times> 'a) list"

definition dir_names :: "'a dir \<Rightarrow> string list" where
  "dir_names d = sort (remdups (map fst d))"

lemma set_dir_names [simp]: "set (dir_names d) = fst ` set d"
  by (simp add: dir_names_def)

lemma dir_names_dom: "set (dir_names d) = dom (map_of d)"
  by (simp add: dom_map_of_conv_image_fst)

lemma distinct_dir_names [simp]: "distinct (dir_names d)"
  by (simp add: dir_names_def)

lemma sorted_dir_names [simp]: "sorted (dir_names d)"
  by (simp add: dir_names_def)

end
