(* ===== verification/Vci_IO.thy ===== *)
theory Vci_IO
  imports Vci_Prelude
begin

text \<open>
  Errors, programs on a state, and the rules that compose their properties.

  An \<open>err\<close> is a Go error value: what the operating system returned, one of the sentinel values the
  sources compare with \<open>errors.Is\<close>, or the result of \<open>fmt.Errorf\<close>, with (\<open>EWrap\<close>) or without
  (\<open>Errf\<close>) a wrapped error. The format string is kept, so that \<open>err_text\<close> gives the message the
  classification of the command line searches.
\<close>

section \<open>Errors\<close>

datatype sentinel =
    ErrRunNotFound
  | ErrNoCapacity
  | ErrHostedFallbackNotConfigured
  | ErrHostedFallbackInvalid
  | ErrHostedSourceUnavailable
  | ErrHostedSourceIntegrityFailed
  | ErrUnsupportedRuntime
  | ErrRuntimeImageRequired
  | ErrRuntimeImageInvalid
  | ErrRuntimeUnavailable
  | ErrRuntimeImageNotFound
  | ErrTargetUnavailable
  | ErrTargetSelect
  | ErrSubmoduleUnavailable
  | ErrLFSContentUnavailable
  | ErrInvalidLogStream
  | ErrLogNotFound
  | ErrArtifactNotFound
  | ErrInvalidArtifactPath
  | ErrNotGitRepository
  | ErrBundleEmpty

fun sentinel_text :: "sentinel \<Rightarrow> string" where
  "sentinel_text ErrRunNotFound = ''run not found''"
| "sentinel_text ErrNoCapacity = ''scheduler: no available capacity on any eligible machine''"
| "sentinel_text ErrHostedFallbackNotConfigured = ''hosted fallback not configured''"
| "sentinel_text ErrHostedFallbackInvalid = ''hosted fallback invalid''"
| "sentinel_text ErrHostedSourceUnavailable = ''hosted source unavailable''"
| "sentinel_text ErrHostedSourceIntegrityFailed = ''hosted source integrity failed''"
| "sentinel_text ErrUnsupportedRuntime = ''unsupported runtime''"
| "sentinel_text ErrRuntimeImageRequired = ''runtime image required''"
| "sentinel_text ErrRuntimeImageInvalid = ''runtime image invalid''"
| "sentinel_text ErrRuntimeUnavailable = ''runtime_unavailable''"
| "sentinel_text ErrRuntimeImageNotFound = ''runtime_image_not_found''"
| "sentinel_text ErrTargetUnavailable = ''target unavailable''"
| "sentinel_text ErrTargetSelect = ''target selection required''"
| "sentinel_text ErrSubmoduleUnavailable = ''source: submodule unavailable''"
| "sentinel_text ErrLFSContentUnavailable = ''source: lfs content unavailable''"
| "sentinel_text ErrInvalidLogStream = ''invalid log stream''"
| "sentinel_text ErrLogNotFound = ''log not found''"
| "sentinel_text ErrArtifactNotFound = ''artifact not found''"
| "sentinel_text ErrInvalidArtifactPath = ''invalid artifact path''"
| "sentinel_text ErrNotGitRepository = ''source is not a Git repository''"
| "sentinel_text ErrBundleEmpty = ''source bundle range is empty''"

datatype err =
    ENotExist
  | EOs string
  | ESent sentinel
  | EBusy string
  | Errf string "string list"
  | EWrap string "string list" err

text \<open>\<open>%q\<close>: the quotation of \<open>strconv.Quote\<close> on ASCII text.\<close>

definition hex_digit :: "nat \<Rightarrow> char" where
  "hex_digit n = ''0123456789abcdef'' ! n"

fun quote_char :: "char \<Rightarrow> string" where
  "quote_char c =
     (let n = of_char c :: nat; bs = CHR 0x5C in
      if n = 34 \<or> n = 92 then [bs, c]
      else if n = 7 then [bs, CHR ''a''] else if n = 8 then [bs, CHR ''b'']
      else if n = 12 then [bs, CHR ''f''] else if n = 10 then [bs, CHR ''n'']
      else if n = 13 then [bs, CHR ''r''] else if n = 9 then [bs, CHR ''t'']
      else if n = 11 then [bs, CHR ''v'']
      else if n < 32 \<or> n = 127 then [bs, CHR ''x'', hex_digit (n div 16), hex_digit (n mod 16)]
      else [c])"

definition go_quote :: "string \<Rightarrow> string" where
  "go_quote s = [CHR 0x22] @ concat (map quote_char s) @ [CHR 0x22]"

text \<open>The verbs the sources use: \<open>%q\<close> quotes, \<open>%w\<close> is the wrapped error, every other verb is
  replaced by its argument's text.\<close>

fun render :: "string \<Rightarrow> string list \<Rightarrow> string \<Rightarrow> string" where
  "render [] args w = []"
| "render [c] args w = [c]"
| "render (c # d # cs) args w =
     (if c \<noteq> CHR ''%'' then c # render (d # cs) args w
      else if d = CHR ''w'' then w @ render cs args w
      else case args of
          [] \<Rightarrow> render cs [] w
        | a # as \<Rightarrow> (if d = CHR ''q'' then go_quote a else a) @ render cs as w)"

fun err_text :: "err \<Rightarrow> string" where
  "err_text ENotExist = ''no such file or directory''"
| "err_text (EOs s) = s"
| "err_text (ESent s) = sentinel_text s"
| "err_text (EBusy live) =
     render ''coordinator is running another build (%s); run %q to block until it finishes''
       [live, ''vci wait-ready''] []"
| "err_text (Errf f args) = render f args []"
| "err_text (EWrap f args e) = render f args (err_text e)"

text \<open>\<open>errors.Is\<close> follows wrapped errors; \<open>os.IsNotExist\<close> looks at the error itself only.\<close>

fun err_is :: "err \<Rightarrow> sentinel \<Rightarrow> bool" where
  "err_is (ESent s) t = (s = t)"
| "err_is (EWrap f args e) t = err_is e t"
| "err_is _ t = False"

fun IsNotExist :: "err \<Rightarrow> bool" where
  "IsNotExist ENotExist = True"
| "IsNotExist _ = False"

lemma IsNotExist_iff: "IsNotExist e \<longleftrightarrow> e = ENotExist"
  by (cases e) auto

fun is_not_exist :: "err \<Rightarrow> bool" where
  "is_not_exist ENotExist = True"
| "is_not_exist (EWrap f args e) = is_not_exist e"
| "is_not_exist _ = False"

fun as_busy :: "err \<Rightarrow> string option" where
  "as_busy (EBusy live) = Some live"
| "as_busy (EWrap f args e) = as_busy e"
| "as_busy _ = None"

section \<open>Programs\<close>

type_synonym 'a result = "err + 'a"
type_synonym ('s, 'a) io = "'s \<Rightarrow> 'a result \<times> 's"

definition ret :: "'a \<Rightarrow> ('s, 'a) io" where
  [io_simps]: "ret x = (\<lambda>w. (Inr x, w))"

definition throw :: "err \<Rightarrow> ('s, 'a) io" where
  [io_simps]: "throw e = (\<lambda>w. (Inl e, w))"

definition bindE :: "('s, 'a) io \<Rightarrow> ('a \<Rightarrow> ('s, 'b) io) \<Rightarrow> ('s, 'b) io" where
  [io_simps]: "bindE m f = (\<lambda>w. case m w of (Inl e, w') \<Rightarrow> (Inl e, w') | (Inr x, w') \<Rightarrow> f x w')"

text \<open>\<open>x, err := m\<close> without a return on error: the caller sees the result as a value.\<close>

definition attempt :: "('s, 'a) io \<Rightarrow> ('s, 'a result) io" where
  [io_simps]: "attempt m = (\<lambda>w. case m w of (r, w') \<Rightarrow> (Inr r, w'))"

text \<open>\<open>return fmt.Errorf(f, args, err)\<close> on an error of \<open>m\<close>.\<close>

definition wrapE :: "string \<Rightarrow> string list \<Rightarrow> ('s, 'a) io \<Rightarrow> ('s, 'a) io" where
  [io_simps]: "wrapE f args m = (\<lambda>w. case m w of (Inl e, w') \<Rightarrow> (Inl (EWrap f args e), w') | r \<Rightarrow> r)"

definition asks :: "('s \<Rightarrow> 'a) \<Rightarrow> ('s, 'a) io" where
  [io_simps]: "asks f = (\<lambda>w. (Inr (f w), w))"

definition modify :: "('s \<Rightarrow> 's) \<Rightarrow> ('s, unit) io" where
  [io_simps]: "modify g = (\<lambda>w. (Inr (), g w))"

definition lift_result :: "'a result \<Rightarrow> ('s, 'a) io" where
  [io_simps]: "lift_result r = (\<lambda>w. (r, w))"

definition guard :: "bool \<Rightarrow> err \<Rightarrow> ('s, unit) io" where
  [io_simps]: "guard b e = (if b then ret () else throw e)"

text \<open>A loop that stops at the first error, and one that passes an accumulator on.\<close>

primrec forE :: "'a list \<Rightarrow> ('a \<Rightarrow> ('s, unit) io) \<Rightarrow> ('s, unit) io" where
  "forE [] f = ret ()"
| "forE (x # xs) f = bindE (f x) (\<lambda>_. forE xs f)"

primrec foldE :: "('b \<Rightarrow> 'a \<Rightarrow> ('s, 'b) io) \<Rightarrow> 'b \<Rightarrow> 'a list \<Rightarrow> ('s, 'b) io" where
  "foldE f acc [] = ret acc"
| "foldE f acc (x # xs) = bindE (f acc x) (\<lambda>acc'. foldE f acc' xs)"

text \<open>Validators return an error or nothing: \<open>checks\<close> is the first error of a sequence of tests,
  \<open>each\<close> that of a loop.\<close>

definition ensure :: "bool \<Rightarrow> err \<Rightarrow> unit result" where
  "ensure b e = (if b then Inr () else Inl e)"

fun checks :: "unit result list \<Rightarrow> unit result" where
  "checks [] = Inr ()"
| "checks (Inr u # rs) = checks rs"
| "checks (Inl e # rs) = Inl e"

definition each :: "('a \<Rightarrow> unit result) \<Rightarrow> 'a list \<Rightarrow> unit result" where
  "each f xs = checks (map f xs)"

definition wrapR :: "string \<Rightarrow> string list \<Rightarrow> 'a result \<Rightarrow> 'a result" where
  "wrapR f args r = (case r of Inl e \<Rightarrow> Inl (EWrap f args e) | Inr x \<Rightarrow> Inr x)"

lemma ensure_ok [simp]: "ensure b e = Inr u \<longleftrightarrow> b"
  by (simp add: ensure_def)

lemma wrapR_ok [simp]: "wrapR f args r = Inr x \<longleftrightarrow> r = Inr x"
  by (auto simp: wrapR_def split: sum.splits)

lemma checks_Cons_ok [simp]: "checks (r # rs) = Inr u \<longleftrightarrow> r = Inr u \<and> checks rs = Inr u"
  by (cases r) auto

lemma checks_Nil_ok: "checks [] = Inr u"
  by simp

lemma each_ok [simp]: "each f xs = Inr u \<longleftrightarrow> (\<forall>x \<in> set xs. f x = Inr u)"
  unfolding each_def by (induction xs) auto

section \<open>The operating system\<close>

text \<open>
  What every component reads of the machine: the faults still to come (\<open>None\<close> lets a call succeed,
  \<open>Some m\<close> makes it fail with the text \<open>m\<close>; an exhausted list means no further fault), the
  clock in nanoseconds (\<open>0\<close> is Go's zero time), the bytes \<open>crypto/rand\<close> will return, and whether the
  platform is Windows. The components extend this record with the files they own.
\<close>

record os_state =
  faults :: "string option list"
  clock :: int
  entropy :: "nat list"
  windows :: bool

definition os_call :: "('a os_state_scheme, unit) io" where
  [io_simps]: "os_call = (\<lambda>w. case faults w of
       [] \<Rightarrow> (Inr (), w)
     | None # fs \<Rightarrow> (Inr (), w\<lparr>faults := fs\<rparr>)
     | Some m # fs \<Rightarrow> (Inl (EOs m), w\<lparr>faults := fs\<rparr>))"

primrec calls :: "nat \<Rightarrow> ('a os_state_scheme, unit) io" where
  "calls 0 = ret ()"
| "calls (Suc n) = bindE os_call (\<lambda>_. calls n)"

text \<open>Reading a file that the state holds as \<open>Some\<close> contents, or \<open>None\<close> when it does not exist.\<close>

definition read_file :: "('a os_state_scheme \<Rightarrow> 'b option) \<Rightarrow> ('a os_state_scheme, 'b) io" where
  [io_simps]: "read_file f = bindE os_call (\<lambda>_. bindE (asks f) (\<lambda>x.
     case x of None \<Rightarrow> throw ENotExist | Some d \<Rightarrow> ret d))"

text \<open>\<open>time.Now().UTC()\<close>.\<close>

definition Now :: "('a os_state_scheme, int) io" where
  [io_simps]: "Now = asks clock"

text \<open>Opening and syncing a directory after a rename; Windows cannot sync directories, so there the
  sync's error is dropped.\<close>

definition sync_parent :: "('a os_state_scheme, unit) io" where
  [io_simps]: "sync_parent = bindE os_call (\<lambda>_. bindE (attempt os_call) (\<lambda>r.
     bindE (asks windows) (\<lambda>win. case r of Inr _ \<Rightarrow> ret () | Inl e \<Rightarrow> if win then ret () else throw e)))"

text \<open>\<open>rand.Read\<close> fills \<open>n\<close> bytes or fails.\<close>

definition rand_read :: "nat \<Rightarrow> ('a os_state_scheme, nat list) io" where
  [io_simps]: "rand_read n = bindE os_call (\<lambda>_. \<lambda>w.
     (Inr (map (\<lambda>b. b mod 256) (take n (entropy w @ replicate n 0))), w\<lparr>entropy := drop n (entropy w)\<rparr>))"

abbreviation second :: int where "second \<equiv> 1000000000"
abbreviation minute :: int where "minute \<equiv> 60 * second"

section \<open>Guarantees\<close>

text \<open>
  \<open>always R m\<close>: whatever the state, running \<open>m\<close> relates the state before to the state after by
  \<open>R\<close>, on success and on every error path. For a reflexive and transitive \<open>R\<close> the property
  composes over programs, which the locale states once for all relations.
\<close>

named_theorems always_intro \<open>composition rules for guarantees\<close>

definition always :: "('s \<Rightarrow> 's \<Rightarrow> bool) \<Rightarrow> ('s, 'a) io \<Rightarrow> bool" where
  "always R m \<longleftrightarrow> (\<forall>w. R w (snd (m w)))"

lemma alwaysI: "(\<And>w r w'. m w = (r, w') \<Longrightarrow> R w w') \<Longrightarrow> always R m"
  unfolding always_def by (metis prod.collapse)

lemma alwaysD: "always R m \<Longrightarrow> m w = (r, w') \<Longrightarrow> R w w'"
  by (metis always_def snd_conv)

lemma always_mono: "always R m \<Longrightarrow> (\<And>u v. R u v \<Longrightarrow> S u v) \<Longrightarrow> always S m"
  by (simp add: always_def)

lemma always_if [always_intro]:
  "(b \<Longrightarrow> always R m) \<Longrightarrow> (\<not> b \<Longrightarrow> always R n) \<Longrightarrow> always R (if b then m else n)"
  by simp

lemma always_case_option [always_intro]:
  "(x = None \<Longrightarrow> always R m) \<Longrightarrow> (\<And>y. x = Some y \<Longrightarrow> always R (f y)) \<Longrightarrow>
    always R (case x of None \<Rightarrow> m | Some y \<Rightarrow> f y)"
  by (cases x) auto

lemma always_case_sum [always_intro]:
  "(\<And>e. x = Inl e \<Longrightarrow> always R (f e)) \<Longrightarrow> (\<And>y. x = Inr y \<Longrightarrow> always R (g y)) \<Longrightarrow>
    always R (case x of Inl e \<Rightarrow> f e | Inr y \<Rightarrow> g y)"
  by (cases x) auto

lemma always_case_prod [always_intro]:
  "(\<And>a b. x = (a, b) \<Longrightarrow> always R (f a b)) \<Longrightarrow> always R (case x of (a, b) \<Rightarrow> f a b)"
  by (cases x) auto

lemma always_case_list [always_intro]:
  "(x = [] \<Longrightarrow> always R m) \<Longrightarrow> (\<And>y ys. x = y # ys \<Longrightarrow> always R (f y ys)) \<Longrightarrow>
    always R (case x of [] \<Rightarrow> m | y # ys \<Rightarrow> f y ys)"
  by (cases x) auto

lemma always_let [always_intro]: "always R (f x) \<Longrightarrow> always R (let y = x in f y)"
  by simp

locale guarantee =
  fixes R :: "'s \<Rightarrow> 's \<Rightarrow> bool"
  assumes refl: "R w w"
    and trans: "R u v \<Longrightarrow> R v w \<Longrightarrow> R u w"
begin

lemma always_ret [always_intro]: "always R (ret x)"
  by (simp add: always_def ret_def refl)

lemma always_throw [always_intro]: "always R (throw e)"
  by (simp add: always_def throw_def refl)

lemma always_asks [always_intro]: "always R (asks f)"
  by (simp add: always_def asks_def refl)

lemma always_lift_result [always_intro]: "always R (lift_result r)"
  by (simp add: always_def lift_result_def refl)

lemma always_guard [always_intro]: "always R (guard b e)"
  by (simp add: guard_def always_ret always_throw)

text \<open>What follows runs only on a result the first program can return.\<close>

lemma always_bind_result:
  assumes "always R m" and "\<And>x w w'. m w = (Inr x, w') \<Longrightarrow> always R (f x)"
  shows "always R (bindE m f)"
proof (rule alwaysI)
  fix w r w'
  assume "bindE m f w = (r, w')"
  then consider e where "m w = (Inl e, w')" | x w1 where "m w = (Inr x, w1)" and "f x w1 = (r, w')"
    by (auto simp: bindE_def split: prod.splits sum.splits)
  then show "R w w'"
  proof cases
    case 1
    with assms(1) show ?thesis by (auto dest: alwaysD)
  next
    case 2
    with assms show ?thesis by (blast intro: trans dest: alwaysD)
  qed
qed

lemma always_bindE [always_intro]:
  "always R m \<Longrightarrow> (\<And>x. always R (f x)) \<Longrightarrow> always R (bindE m f)"
  by (rule always_bind_result)

lemma always_attempt [always_intro]: "always R m \<Longrightarrow> always R (attempt m)"
  by (auto simp: always_def attempt_def split: prod.split) (metis snd_conv)

lemma always_wrapE [always_intro]: "always R m \<Longrightarrow> always R (wrapE f args m)"
  by (auto simp: always_def wrapE_def split: prod.split sum.split) (metis snd_conv)+

lemma always_forE [always_intro]: "(\<And>x. always R (f x)) \<Longrightarrow> always R (forE xs f)"
  by (induction xs) (auto intro: always_intro)

lemma always_foldE [always_intro]:
  "(\<And>acc x. always R (f acc x)) \<Longrightarrow> always R (foldE f acc xs)"
  by (induction xs arbitrary: acc) (auto intro: always_intro)

end

text \<open>A relation that does not look at the faults or at the random bytes is kept by the calls.\<close>

locale os_guarantee = guarantee R for R :: "'a os_state_scheme \<Rightarrow> 'a os_state_scheme \<Rightarrow> bool" +
  assumes faults: "faults w = f # fs \<Longrightarrow> R w (w\<lparr>faults := fs\<rparr>)"
    and entropy: "R w (w\<lparr>entropy := bs\<rparr>)"
begin

lemma always_os_call [always_intro]: "always R os_call"
  by (auto simp: always_def os_call_def refl faults split: list.split option.split)

lemma always_calls [always_intro]: "always R (calls n)"
  by (induction n) (auto intro: always_intro)

lemma always_Now [always_intro]: "always R Now"
  unfolding Now_def by (intro always_intro)

lemma always_read_file [always_intro]: "always R (read_file f)"
  unfolding read_file_def by (intro always_intro)

lemma always_sync_parent [always_intro]: "always R sync_parent"
  unfolding sync_parent_def by (intro always_intro)

lemma always_rand_read [always_intro]: "always R (rand_read n)"
  unfolding rand_read_def
  by (intro always_bindE always_os_call) (auto simp: always_def intro: entropy)

end

text \<open>An invariant of the state is the relation that carries it from before to after.\<close>

locale os_invariant =
  fixes I :: "'a os_state_scheme \<Rightarrow> bool"
  assumes inv_faults: "I w \<Longrightarrow> I (w\<lparr>faults := fs\<rparr>)"
    and inv_entropy: "I w \<Longrightarrow> I (w\<lparr>entropy := bs\<rparr>)"

sublocale os_invariant \<subseteq> kept: os_guarantee "\<lambda>w w'. I w \<longrightarrow> I w'"
  by unfold_locales (auto intro: inv_faults inv_entropy)

definition keeps :: "('s \<Rightarrow> bool) \<Rightarrow> ('s, 'a) io \<Rightarrow> bool" where
  "keeps I m \<longleftrightarrow> always (\<lambda>w w'. I w \<longrightarrow> I w') m"

lemma keepsD: "keeps I m \<Longrightarrow> I w \<Longrightarrow> m w = (r, w') \<Longrightarrow> I w'"
  unfolding keeps_def by (blast dest: alwaysD)

lemma keepsI: "(\<And>w r w'. I w \<Longrightarrow> m w = (r, w') \<Longrightarrow> I w') \<Longrightarrow> keeps I m"
  unfolding keeps_def by (blast intro: alwaysI)

section \<open>Results of composed programs\<close>

lemma bindE_Inr: "bindE m f w = (Inr y, w') \<longleftrightarrow> (\<exists>x w1. m w = (Inr x, w1) \<and> f x w1 = (Inr y, w'))"
  by (auto simp: bindE_def split: prod.splits sum.splits)

lemma bindE_Inl: "bindE m f w = (Inl e, w') \<longleftrightarrow>
    m w = (Inl e, w') \<or> (\<exists>x w1. m w = (Inr x, w1) \<and> f x w1 = (Inl e, w'))"
  by (auto simp: bindE_def split: prod.splits sum.splits)

lemma bindE_cases:
  assumes "bindE m f w = (r, w')"
  obtains (error) e where "m w = (Inl e, w')" and "r = Inl e"
  | (step) x w1 where "m w = (Inr x, w1)" and "f x w1 = (r, w')"
  using assms by (auto simp: bindE_def split: prod.splits sum.splits)

text \<open>The same, when the first program keeps a guarantee.\<close>

lemma bind_always_cases:
  assumes "always R m" and "bindE m f w = (r, w')"
  obtains (error) e where "R w w'" and "r = Inl e"
  | (step) x w1 where "R w w1" and "m w = (Inr x, w1)" and "f x w1 = (r, w')"
  using assms(2) by (rule bindE_cases) (use that in \<open>auto dest: alwaysD [OF assms(1)]\<close>)

lemma attempt_eq: "attempt m w = (r, w') \<longleftrightarrow> (\<exists>q. r = Inr q \<and> m w = (q, w'))"
  by (auto simp: attempt_def split: prod.splits)

lemma os_call_ok [simp]: "faults w = [] \<Longrightarrow> os_call w = (Inr (), w)"
  by (simp add: os_call_def)

lemma calls_ok [simp]: "faults w = [] \<Longrightarrow> calls n w = (Inr (), w)"
  by (induction n) (simp_all add: bindE_def ret_def)

lemma sync_parent_ok [simp]: "faults w = [] \<Longrightarrow> sync_parent w = (Inr (), w)"
  by (simp add: sync_parent_def bindE_def attempt_def asks_def ret_def)

lemma wrapE_Inr [simp]: "wrapE f args m w = (Inr x, w') \<longleftrightarrow> m w = (Inr x, w')"
  by (auto simp: wrapE_def split: prod.splits sum.splits)

lemma ret_eq [simp]: "ret x w = (r, w') \<longleftrightarrow> r = Inr x \<and> w' = w"
  by (auto simp: ret_def)

lemma throw_eq [simp]: "throw e w = (r, w') \<longleftrightarrow> r = Inl e \<and> w' = w"
  by (auto simp: throw_def)

lemma asks_eq [simp]: "asks f w = (r, w') \<longleftrightarrow> r = Inr (f w) \<and> w' = w"
  by (auto simp: asks_def)

lemma modify_eq [simp]: "modify g w = (r, w') \<longleftrightarrow> r = Inr () \<and> w' = g w"
  by (auto simp: modify_def)

lemma lift_result_eq [simp]: "lift_result q w = (r, w') \<longleftrightarrow> q = r \<and> w' = w"
  by (auto simp: lift_result_def)

lemma guard_eq [simp]: "guard b e w = (r, w') \<longleftrightarrow> ensure b e = r \<and> w' = w"
  by (auto simp: guard_def ensure_def)

lemma guard_bind: "bindE (guard b e) f w = (if b then f () w else (Inl e, w))"
  by (simp add: bindE_def guard_def ret_def throw_def)

lemma lift_bind: "bindE (lift_result r) f w = (case r of Inl e \<Rightarrow> (Inl e, w) | Inr x \<Rightarrow> f x w)"
  by (simp add: bindE_def lift_result_def split: sum.split)

lemma attempt_bind: "bindE (attempt m) f w = (case m w of (r, w') \<Rightarrow> f r w')"
  by (simp add: bindE_def attempt_def split: prod.split)

text \<open>Evaluation of a program on a given state, one call at a time.\<close>

lemma bind_eval: "bindE m f w = (case m w of (Inl e, w') \<Rightarrow> (Inl e, w') | (Inr x, w') \<Rightarrow> f x w')"
  by (simp add: bindE_def)

lemma wrap_eval: "wrapE f args m w = (case m w of (Inl e, w') \<Rightarrow> (Inl (EWrap f args e), w') | r \<Rightarrow> r)"
  by (simp add: wrapE_def)

lemma attempt_eval: "attempt m w = (case m w of (r, w') \<Rightarrow> (Inr r, w'))"
  by (simp add: attempt_def)

lemma unit_eval: "ret x w = (Inr x, w)" "throw e w = (Inl e, w)" "asks g w = (Inr (g w), w)" "modify h w = (Inr (), h w)"
  "lift_result r w = (r, w)" "guard b e w = (if b then Inr () else Inl e, w)" "Now v = (Inr (clock v), v)"
  by (simp_all add: ret_def throw_def asks_def modify_def lift_result_def guard_def Now_def)

lemmas io_eval = bind_eval wrap_eval attempt_eval unit_eval

section \<open>Programs that only consult the system\<close>

text \<open>\<open>quiet\<close>: nothing changed but the faults and random bytes consumed.\<close>

definition quiet :: "'a os_state_scheme \<Rightarrow> 'a os_state_scheme \<Rightarrow> bool" where
  "quiet w w' \<longleftrightarrow> (\<exists>fs bs. w' = w\<lparr>faults := fs, entropy := bs\<rparr>)"

interpretation quiet: os_guarantee quiet
proof
  fix u v w :: "'a os_state_scheme"
  show "quiet w w"
    unfolding quiet_def by (rule exI [of _ "faults w"], rule exI [of _ "entropy w"]) simp
  assume "quiet u v" and "quiet v w"
  then show "quiet u w" unfolding quiet_def by force
next
  fix w :: "'a os_state_scheme" and fs :: "string option list" and bs
  show "quiet w (w\<lparr>faults := fs\<rparr>)"
    unfolding quiet_def by (rule exI [of _ fs], rule exI [of _ "entropy w"]) simp
  show "quiet w (w\<lparr>entropy := bs\<rparr>)"
    unfolding quiet_def by (rule exI [of _ "faults w"], rule exI [of _ bs]) simp
qed

lemma quietI: "w' = w\<lparr>faults := faults w', entropy := entropy w'\<rparr> \<Longrightarrow> quiet w w'"
  unfolding quiet_def by blast

lemma quietD: "quiet w w' \<Longrightarrow> \<exists>fs bs. w' = w\<lparr>faults := fs, entropy := bs\<rparr>"
  by (simp add: quiet_def)

lemma quiet_clock: "quiet w w' \<Longrightarrow> clock w' = clock w \<and> windows w' = windows w"
  by (auto simp: quiet_def)

lemma os_call_quiet: "os_call w = (r, w') \<Longrightarrow> quiet w w'"
  by (rule alwaysD [OF quiet.always_os_call])

lemma calls_quiet: "calls n w = (r, w') \<Longrightarrow> quiet w w'"
  by (rule alwaysD [OF quiet.always_calls])

lemma sync_parent_quiet: "sync_parent w = (r, w') \<Longrightarrow> quiet w w'"
  by (rule alwaysD [OF quiet.always_sync_parent])

lemma read_file_quiet: "read_file f w = (r, w') \<Longrightarrow> quiet w w'"
  by (rule alwaysD [OF quiet.always_read_file])

lemma read_file_Inr: "read_file f w = (Inr d, w') \<Longrightarrow> f w' = Some d \<and> quiet w w'"
  by (auto simp: read_file_def bindE_Inr dest: os_call_quiet split: option.splits)

lemma read_file_ok: "faults w = [] \<Longrightarrow> read_file f w = ((case f w of None \<Rightarrow> Inl ENotExist | Some d \<Rightarrow> Inr d), w)"
  by (simp add: read_file_def bindE_def asks_def throw_def ret_def split: option.split)

section \<open>Faults\<close>

text \<open>\<open>spent\<close>: faults are only consumed, so that a program that starts without a fault ends without one.\<close>

definition spent :: "'a os_state_scheme \<Rightarrow> 'a os_state_scheme \<Rightarrow> bool" where
  "spent w w' \<longleftrightarrow> (faults w = [] \<longrightarrow> faults w' = [])"

interpretation spent: os_guarantee spent
  by unfold_locales (auto simp: spent_def)

lemma spentD: "always spent m \<Longrightarrow> m w = (r, w') \<Longrightarrow> faults w = [] \<Longrightarrow> faults w' = []"
  by (drule (1) alwaysD) (simp add: spent_def)

lemma spent_modify [always_intro]: "(\<And>w. faults (g w) = faults w) \<Longrightarrow> always spent (modify g)"
  by (simp add: always_def modify_def spent_def)

end
