(* ===== verification/Vci_Path.thy ===== *)
theory Vci_Path
  imports Vci_Prelude
begin

text \<open>
  Go's \<open>path/filepath\<close> on Unix, as far as the sources use it: \<open>Clean\<close>, \<open>Join\<close> (here \<open>FJoin\<close>),
  \<open>IsAbs\<close>, \<open>Base\<close>, \<open>Dir\<close>, \<open>Rel\<close>. All work on the segments between slashes; \<open>norm\<close> drops
  empty and dot segments and lets a parent segment cancel the segment before it.
  The lemmas say when joining below a root cannot leave it.
\<close>

abbreviation slash :: char where "slash \<equiv> CHR ''/''"

definition IsAbs :: "string \<Rightarrow> bool" where
  "IsAbs p \<longleftrightarrow> HasPrefix p ''/''"

fun norm_step :: "bool \<Rightarrow> string list \<Rightarrow> string \<Rightarrow> string list" where
  "norm_step rooted acc seg =
     (if seg = [] \<or> seg = ''.'' then acc
      else if seg = ''..'' then
        (case acc of
           [] \<Rightarrow> if rooted then [] else [''..'']
         | a # as \<Rightarrow> if a = ''..'' then ''..'' # acc else as)
      else seg # acc)"

definition norm :: "bool \<Rightarrow> string list \<Rightarrow> string list" where
  "norm rooted segs = rev (foldl (norm_step rooted) [] segs)"

definition path_segs :: "string \<Rightarrow> string list" where
  "path_segs p = norm (IsAbs p) (Split slash p)"

definition Clean :: "string \<Rightarrow> string" where
  "Clean p = (if IsAbs p then slash # Join (path_segs p) ''/''
     else if path_segs p = [] then ''.'' else Join (path_segs p) ''/'')"

definition FJoin :: "string list \<Rightarrow> string" where
  "FJoin es = (case dropWhile (\<lambda>e. e = []) es of [] \<Rightarrow> [] | xs \<Rightarrow> Clean (Join xs ''/''))"

definition Base :: "string \<Rightarrow> string" where
  "Base p = (if p = [] then ''.'' else
     (case dropWhile (\<lambda>c. c = slash) (rev p) of
        [] \<Rightarrow> ''/''
      | cs \<Rightarrow> rev (takeWhile (\<lambda>c. c \<noteq> slash) cs)))"

definition Dir :: "string \<Rightarrow> string" where
  "Dir p = Clean (rev (dropWhile (\<lambda>c. c \<noteq> slash) (rev p)))"

fun strip_common :: "string list \<Rightarrow> string list \<Rightarrow> string list \<times> string list" where
  "strip_common (a # as) (b # bs) = (if a = b then strip_common as bs else (a # as, b # bs))"
| "strip_common as bs = (as, bs)"

text \<open>\<open>Rel base target\<close>; \<open>None\<close> where Go returns an error.\<close>

definition Rel :: "string \<Rightarrow> string \<Rightarrow> string option" where
  "Rel base targ =
     (if Clean base = Clean targ then Some ''.''
      else if IsAbs base \<noteq> IsAbs targ then None
      else case strip_common (path_segs base) (path_segs targ) of (bs, ts) \<Rightarrow>
        if bs \<noteq> [] \<and> hd bs = ''..'' then None
        else Some (Join (replicate (length bs) ''..'' @ ts) ''/''))"

section \<open>Normal forms\<close>

definition plain_seg :: "string \<Rightarrow> bool" where
  "plain_seg s \<longleftrightarrow> s \<noteq> [] \<and> s \<noteq> ''.'' \<and> s \<noteq> ''..'' \<and> slash \<notin> set s"

lemma plain_segD: "plain_seg s \<Longrightarrow> Split slash s = [s]"
  by (simp add: plain_seg_def Split_sep_free)

lemma norm_step_plain: "plain_seg s \<Longrightarrow> norm_step r acc s = s # acc"
  by (simp add: plain_seg_def)

lemma foldl_plain:
  "(\<And>s. s \<in> set ss \<Longrightarrow> plain_seg s) \<Longrightarrow> foldl (norm_step r) acc ss = rev ss @ acc"
  by (induction ss arbitrary: acc) (simp_all add: norm_step_plain del: norm_step.simps)

lemma norm_append_plain:
  "(\<And>s. s \<in> set ss \<Longrightarrow> plain_seg s) \<Longrightarrow> norm r (xs @ ss) = norm r xs @ ss"
  by (simp add: norm_def foldl_plain)

lemma norm_step_rooted_plain:
  "slash \<notin> set seg \<Longrightarrow> list_all plain_seg acc \<Longrightarrow> list_all plain_seg (norm_step True acc seg)"
  by (cases acc) (auto simp: plain_seg_def)

lemma foldl_rooted_plain:
  "list_all (\<lambda>s. slash \<notin> set s) ss \<Longrightarrow> list_all plain_seg acc \<Longrightarrow>
    list_all plain_seg (foldl (norm_step True) acc ss)"
  by (induction ss arbitrary: acc) (simp_all add: norm_step_rooted_plain del: norm_step.simps)

lemma path_segs_rooted_plain: "IsAbs p \<Longrightarrow> s \<in> set (path_segs p) \<Longrightarrow> plain_seg s"
  using foldl_rooted_plain [of "Split slash p" "[]"] Split_no_sep
  by (auto simp: path_segs_def norm_def list_all_iff)

lemma Split_Join_concat:
  "xs \<noteq> [] \<Longrightarrow> Split slash (Join xs ''/'') = concat (map (Split slash) xs)"
proof (induction xs "''/''" rule: Join.induct)
  case (3 x y ys)
  have app: "Split slash (s @ slash # t) = Split slash s @ Split slash t" for s t
    by (induction s) auto
  from 3 show ?case by (simp add: app)
qed auto

lemma IsAbs_Join: "xs \<noteq> [] \<Longrightarrow> hd xs \<noteq> [] \<Longrightarrow> IsAbs (Join xs ''/'') = IsAbs (hd xs)"
  by (induction xs "''/''" rule: Join.induct)
    (auto simp: IsAbs_def HasPrefix_def neq_Nil_conv)

section \<open>Joining below a root\<close>

text \<open>
  Below an absolute root, plain segments are appended: nothing is cancelled, nothing escapes.
\<close>

lemma FJoin_segs:
  assumes root: "IsAbs root" and plain: "\<And>s. s \<in> set ss \<Longrightarrow> plain_seg s"
  shows "path_segs (Join (root # ss) ''/'') = path_segs root @ ss"
proof -
  have "concat (map (Split slash) ss) = ss"
    using plain by (induction ss) (simp_all add: plain_segD)
  moreover have "root \<noteq> []"
    using root by (auto simp: IsAbs_def HasPrefix_def)
  ultimately show ?thesis
    using root plain by (simp add: path_segs_def Split_Join_concat IsAbs_Join norm_append_plain)
qed

lemma FJoin_below:
  assumes root: "IsAbs root" and plain: "\<And>s. s \<in> set ss \<Longrightarrow> plain_seg s"
  shows "FJoin (root # ss) = slash # Join (path_segs root @ ss) ''/''"
proof -
  have ne: "root \<noteq> []"
    using root by (auto simp: IsAbs_def HasPrefix_def)
  with root have "IsAbs (Join (root # ss) ''/'')" by (simp add: IsAbs_Join)
  with ne FJoin_segs [OF root plain] show ?thesis by (simp add: FJoin_def Clean_def)
qed

lemma FJoin_IsAbs:
  "IsAbs root \<Longrightarrow> (\<And>s. s \<in> set ss \<Longrightarrow> plain_seg s) \<Longrightarrow> IsAbs (FJoin (root # ss))"
  by (simp add: FJoin_below IsAbs_def HasPrefix_def)

lemma Join_plain_inject:
  assumes "\<And>s. s \<in> set xs \<Longrightarrow> plain_seg s" and "\<And>s. s \<in> set ys \<Longrightarrow> plain_seg s"
    and "Join xs ''/'' = Join ys ''/''"
  shows "xs = ys"
proof (cases "xs = [] \<or> ys = []")
  case True
  have "Join zs ''/'' \<noteq> []" if "zs \<noteq> []" "\<And>s. s \<in> set zs \<Longrightarrow> plain_seg s" for zs
    using that by (cases zs; cases "tl zs") (auto simp: plain_seg_def neq_Nil_conv)
  with True assms show ?thesis by (metis Join.simps(1))
next
  case False
  have "Split slash (Join zs ''/'') = zs" if "zs \<noteq> []" "\<And>s. s \<in> set zs \<Longrightarrow> plain_seg s" for zs
    using that by (intro Split_Join) (auto simp: plain_seg_def)
  with False assms show ?thesis by metis
qed

lemma FJoin_inject:
  assumes "IsAbs root"
    and "\<And>s. s \<in> set xs \<Longrightarrow> plain_seg s" and "\<And>s. s \<in> set ys \<Longrightarrow> plain_seg s"
    and "FJoin (root # xs) = FJoin (root # ys)"
  shows "xs = ys"
proof -
  have "path_segs root @ xs = path_segs root @ ys"
    by (rule Join_plain_inject)
      (use assms path_segs_rooted_plain in \<open>auto simp: FJoin_below\<close>)
  then show ?thesis by simp
qed

end
