(* ===== verification/Vci_Model.thy ===== *)
theory Vci_Model
  imports Vci_IO Vci_Path
begin

text \<open>
  \<open>internal/model/model.go\<close>: run identifiers and names, the run state machine, the public error
  value, and the layout of the coordinator's state below its root.

  A run state is a Go string; the constructor \<open>RunOther\<close> stands for a string that is none of the
  declared states, which a record read from disk may hold. The locale \<open>path_segment\<close> is what the
  rest of the program relies on when it uses a checked name as one segment of a path; the name
  checks are its interpretations.
\<close>

section \<open>Identifiers and names\<close>

type_synonym run_id = string

definition alnum :: "char \<Rightarrow> bool" where
  "alnum c \<longleftrightarrow> (let n = of_char c :: nat in
     (48 \<le> n \<and> n \<le> 57) \<or> (65 \<le> n \<and> n \<le> 90) \<or> (97 \<le> n \<and> n \<le> 122))"

definition safe_char :: "char \<Rightarrow> bool" where
  "safe_char c \<longleftrightarrow> alnum c \<or> c = CHR ''.'' \<or> c = CHR ''_'' \<or> c = CHR ''-''"

definition ValidRunID :: "run_id \<Rightarrow> bool" where
  "ValidRunID rid \<longleftrightarrow> HasPrefix rid ''run_'' \<and> drop 4 rid \<noteq> [] \<and> list_all safe_char (drop 4 rid)"

definition ValidName :: "string \<Rightarrow> bool" where
  "ValidName s \<longleftrightarrow> (case s of [] \<Rightarrow> False | c # cs \<Rightarrow> alnum c \<and> list_all safe_char cs)"

section \<open>The run state machine\<close>

datatype run_state =
    RunQueued | RunStaging | RunRunning | RunCommitting
  | RunSucceeded | RunFailed | RunLost | RunAborted | RunUnavailable
  | RunAggregating | RunOther string

fun state_text :: "run_state \<Rightarrow> string" where
  "state_text RunQueued = ''queued''"
| "state_text RunStaging = ''staging''"
| "state_text RunRunning = ''running''"
| "state_text RunCommitting = ''committing''"
| "state_text RunSucceeded = ''succeeded''"
| "state_text RunFailed = ''failed''"
| "state_text RunLost = ''lost''"
| "state_text RunAborted = ''aborted''"
| "state_text RunUnavailable = ''unavailable''"
| "state_text RunAggregating = ''aggregating''"
| "state_text (RunOther s) = s"

fun Valid :: "run_state \<Rightarrow> bool" where
  "Valid (RunOther s) = False"
| "Valid _ = True"

definition CanTransition :: "run_state \<Rightarrow> run_state \<Rightarrow> bool" where
  "CanTransition from to =
     (if from = to then
        from \<noteq> RunSucceeded \<and> from \<noteq> RunFailed \<and> from \<noteq> RunLost \<and> from \<noteq> RunAborted \<and> from \<noteq> RunUnavailable
      else case from of
          RunQueued \<Rightarrow> to = RunStaging \<or> to = RunAborted \<or> to = RunUnavailable
        | RunStaging \<Rightarrow> to = RunRunning \<or> to = RunLost \<or> to = RunAborted \<or> to = RunUnavailable
        | RunRunning \<Rightarrow>
            to = RunCommitting \<or> to = RunFailed \<or> to = RunLost \<or> to = RunAborted \<or> to = RunUnavailable
        | RunCommitting \<Rightarrow>
            to = RunSucceeded \<or> to = RunFailed \<or> to = RunLost \<or> to = RunAborted \<or> to = RunUnavailable
        | RunLost \<Rightarrow> to = RunAborted
        | _ \<Rightarrow> False)"

definition Transition :: "run_state \<Rightarrow> run_state \<Rightarrow> unit result" where
  "Transition from to =
     (if \<not> Valid from \<or> \<not> Valid to
      then Inl (Errf ''invalid run state transition %q -> %q'' [state_text from, state_text to])
      else if \<not> CanTransition from to
      then Inl (Errf ''illegal run state transition %q -> %q'' [state_text from, state_text to])
      else Inr ())"

definition IsTerminal :: "run_state \<Rightarrow> bool" where
  "IsTerminal s \<longleftrightarrow>
     s = RunSucceeded \<or> s = RunFailed \<or> s = RunLost \<or> s = RunAborted \<or> s = RunUnavailable"

section \<open>Public errors\<close>

text \<open>A class is a string; the four of the program, and any other a remote response may name.\<close>

datatype failure_class = FailureUsage | FailureConfiguration | FailureInfrastructure | FailureState | FailureOther string

fun class_text :: "failure_class \<Rightarrow> string" where
  "class_text FailureUsage = ''usage''"
| "class_text FailureConfiguration = ''configuration''"
| "class_text FailureInfrastructure = ''infrastructure''"
| "class_text FailureState = ''state''"
| "class_text (FailureOther s) = s"

definition class_of :: "string \<Rightarrow> failure_class" where
  "class_of s = (case map_of (map (\<lambda>c. (class_text c, c)) [FailureUsage, FailureConfiguration, FailureInfrastructure, FailureState]) s of
       Some c \<Rightarrow> c
     | None \<Rightarrow> FailureOther s)"

record vci_error =
  e_code :: string
  e_class :: failure_class
  e_message :: string
  e_retryable :: bool

definition NewError :: "string \<Rightarrow> failure_class \<Rightarrow> string \<Rightarrow> bool \<Rightarrow> vci_error" where
  "NewError code class message retryable =
     \<lparr>e_code = code, e_class = class, e_message = message, e_retryable = retryable\<rparr>"

section \<open>Layout\<close>

text \<open>A \<open>Layout\<close> is its root; the fields name where state lives below it.\<close>

type_synonym layout = string

definition ConfigPath :: "layout \<Rightarrow> string" where "ConfigPath l = FJoin [l, ''config.toml'']"
definition StateDir :: "layout \<Rightarrow> string" where "StateDir l = FJoin [l, ''state'']"
definition RunsDir :: "layout \<Rightarrow> string" where "RunsDir l = FJoin [StateDir l, ''runs'']"
definition SourcesDir :: "layout \<Rightarrow> string" where "SourcesDir l = FJoin [StateDir l, ''sources'']"
definition BlobsDir :: "layout \<Rightarrow> string" where "BlobsDir l = FJoin [SourcesDir l, ''blobs'']"
definition ManifestsDir :: "layout \<Rightarrow> string" where "ManifestsDir l = FJoin [SourcesDir l, ''manifests'']"
definition WorkDir :: "layout \<Rightarrow> string" where "WorkDir l = FJoin [StateDir l, ''work'']"
definition LocksDir :: "layout \<Rightarrow> string" where "LocksDir l = FJoin [StateDir l, ''locks'']"
definition TempDir :: "layout \<Rightarrow> string" where "TempDir l = FJoin [StateDir l, ''tmp'']"
definition SourceCacheDir :: "layout \<Rightarrow> string" where "SourceCacheDir l = FJoin [StateDir l, ''source-cache'']"
definition SchedulerLockPath :: "layout \<Rightarrow> string" where
  "SchedulerLockPath l = FJoin [LocksDir l, ''scheduler.lock'']"
definition MachineClaimsDir :: "layout \<Rightarrow> string" where
  "MachineClaimsDir l = FJoin [StateDir l, ''machine-claims'']"
definition MachineClaimPath :: "layout \<Rightarrow> string \<Rightarrow> run_id \<Rightarrow> string" where
  "MachineClaimPath l machine rid = FJoin [MachineClaimsDir l, machine, rid @ ''.json'']"

definition RunDir :: "layout \<Rightarrow> string \<Rightarrow> string result" where
  "RunDir l rid = (if \<not> ValidName rid then Inl (Errf ''invalid run id %q'' [rid])
     else Inr (FJoin [RunsDir l, rid]))"

text \<open>\<open>Ensure\<close> creates and protects every directory of the layout, parents first.\<close>

definition layout_dirs :: "layout \<Rightarrow> string list" where
  "layout_dirs l = [l, StateDir l, RunsDir l, SourcesDir l, BlobsDir l, ManifestsDir l, WorkDir l,
     LocksDir l, TempDir l, SourceCacheDir l, MachineClaimsDir l]"

definition Ensure :: "layout \<Rightarrow> ('a os_state_scheme, unit) io" where
  "Ensure l = bindE (guard (l \<noteq> []) (Errf ''vci root is empty'' [])) (\<lambda>_.
     forE (layout_dirs l) (\<lambda>dir.
       bindE (wrapE ''create %s: %w'' [dir] os_call) (\<lambda>_. wrapE ''protect %s: %w'' [dir] os_call)))"

section \<open>Facts about names\<close>

lemma safe_char_no_slash: "safe_char c \<Longrightarrow> c \<noteq> slash"
  by (auto simp: safe_char_def alnum_def)

lemma alnum_safe: "alnum c \<Longrightarrow> safe_char c"
  by (simp add: safe_char_def)

lemma ValidName_safe: "ValidName s \<Longrightarrow> list_all safe_char s \<and> s \<noteq> []"
  by (auto simp: ValidName_def alnum_safe split: list.splits)

lemma ValidRunID_split: "ValidRunID rid \<Longrightarrow> \<exists>t. rid = ''run_'' @ t \<and> t \<noteq> [] \<and> list_all safe_char t"
  unfolding ValidRunID_def HasPrefix_iff by auto

lemma ValidRunID_ValidName: "ValidRunID rid \<Longrightarrow> ValidName rid"
  by (drule ValidRunID_split) (auto simp: ValidName_def alnum_def safe_char_def)

lemma ValidName_plain: "ValidName s \<Longrightarrow> plain_seg s"
  using safe_char_no_slash
  by (auto simp: ValidName_def plain_seg_def list_all_iff alnum_def split: list.splits)

text \<open>A checked name is one plain segment of a path.\<close>

locale path_segment =
  fixes valid :: "string \<Rightarrow> bool"
  assumes valid_plain: "valid s \<Longrightarrow> plain_seg s"
begin

lemma child_below: "IsAbs root \<Longrightarrow> valid s \<Longrightarrow> path_segs (Join [root, s] ''/'') = path_segs root @ [s]"
  using FJoin_segs [of root "[s]"] valid_plain by simp

lemma child_inject:
  assumes "IsAbs root" and "valid s" and "valid t" and "FJoin [root, s] = FJoin [root, t]"
  shows "s = t"
  using FJoin_inject [of root "[s]" "[t]"] assms valid_plain by simp

lemma child_abs: "IsAbs root \<Longrightarrow> valid s \<Longrightarrow> IsAbs (FJoin [root, s])"
  using FJoin_IsAbs [of root "[s]"] valid_plain by simp

end

interpretation name_seg: path_segment ValidName
  by unfold_locales (rule ValidName_plain)

interpretation run_id_seg: path_segment ValidRunID
  by unfold_locales (blast intro: ValidName_plain ValidRunID_ValidName)

section \<open>The life of a run\<close>

lemma Transition_ok: "Transition from to = Inr () \<longleftrightarrow> Valid from \<and> Valid to \<and> CanTransition from to"
  by (auto simp: Transition_def)

text \<open>Whether every step of a sequence of states is an allowed transition.\<close>

fun state_path :: "run_state list \<Rightarrow> bool" where
  "state_path (x # y # ys) = (Transition x y = Inr () \<and> state_path (y # ys))"
| "state_path _ = True"

lemma state_path_snoc: "state_path (xs @ [x, y]) \<longleftrightarrow> state_path (xs @ [x]) \<and> Transition x y = Inr ()"
  by (induction xs rule: state_path.induct) auto

fun trail :: "run_state \<Rightarrow> run_state list" where
  "trail RunStaging = [RunQueued, RunStaging]"
| "trail RunRunning = [RunQueued, RunStaging, RunRunning]"
| "trail RunCommitting = [RunQueued, RunStaging, RunRunning, RunCommitting]"
| "trail RunSucceeded = [RunQueued, RunStaging, RunRunning, RunCommitting, RunSucceeded]"
| "trail s = [s]"

lemma path_trail:
  "state_path xs \<Longrightarrow> xs \<noteq> [] \<Longrightarrow> hd xs = RunQueued \<Longrightarrow>
    last xs \<in> {RunQueued, RunStaging, RunRunning, RunCommitting, RunSucceeded} \<Longrightarrow>
    remdups_adj xs = trail (last xs)"
proof (induction xs rule: rev_induct)
  case (snoc y xs)
  show ?case
  proof (cases xs rule: rev_cases)
    case Nil
    with snoc.prems show ?thesis by simp
  next
    case (snoc zs x)
    with \<open>state_path (xs @ [y])\<close> have "state_path xs" and tr: "Transition x y = Inr ()" by (simp_all add: state_path_snoc)
    moreover have "hd xs = RunQueued" using snoc snoc.prems by (cases zs) auto
    moreover have "last xs = x" using snoc by simp
    moreover from tr snoc.prems have "x \<in> {RunQueued, RunStaging, RunRunning, RunCommitting, RunSucceeded}"
      by (cases x) (auto simp: Transition_ok CanTransition_def)
    ultimately have "remdups_adj xs = trail x" using snoc.IH snoc by simp
    with snoc tr snoc.prems show ?thesis
      by (cases x) (auto simp: remdups_adj_append_two Transition_ok CanTransition_def)
  qed
qed simp

text \<open>
  A run that goes from queued to succeeded by transitions that \<open>Transition\<close> accepts has passed
  exactly through queued, staging, running, committing and succeeded, in this order, apart from
  transitions of a state to itself.
\<close>

theorem success_path:
  assumes "state_path xs" and "xs \<noteq> []" and "hd xs = RunQueued" and "last xs = RunSucceeded"
  shows "remdups_adj xs = [RunQueued, RunStaging, RunRunning, RunCommitting, RunSucceeded]"
  using path_trail [OF assms(1-3)] assms(4) by simp

theorem success_path_witness:
  "remdups_adj [RunQueued, RunStaging, RunStaging, RunRunning, RunCommitting, RunSucceeded]
    = [RunQueued, RunStaging, RunRunning, RunCommitting, RunSucceeded]"
  by (rule success_path) (simp_all add: Transition_ok CanTransition_def)

lemma StateDir_abs: "IsAbs l \<Longrightarrow> IsAbs (StateDir l)"
  unfolding StateDir_def by (rule FJoin_IsAbs) (auto simp: plain_seg_def)

lemma MachineClaimsDir_abs: "IsAbs l \<Longrightarrow> IsAbs (MachineClaimsDir l)"
  unfolding MachineClaimsDir_def by (intro FJoin_IsAbs StateDir_abs) (auto simp: plain_seg_def)

lemma RunsDir_abs: "IsAbs l \<Longrightarrow> IsAbs (RunsDir l)"
  unfolding RunsDir_def by (intro FJoin_IsAbs StateDir_abs) (auto simp: plain_seg_def)

lemma claim_name_plain: "ValidRunID rid \<Longrightarrow> plain_seg (rid @ ''.json'')"
  using ValidRunID_ValidName ValidName_plain by (fastforce simp: plain_seg_def)

text \<open>
  The files of two runs, or of two machine claims, never share a path: below an absolute root the
  run directory and the claim path determine the run and the machine.
\<close>

theorem paths_unique:
  assumes "IsAbs l" and "ValidName m" and "ValidName m'" and "ValidRunID r" and "ValidRunID r'"
  shows "(MachineClaimPath l m r = MachineClaimPath l m' r' \<longrightarrow> m = m' \<and> r = r') \<and> (RunDir l r = RunDir l r' \<longrightarrow> r = r')"
proof (intro conjI impI)
  assume "MachineClaimPath l m r = MachineClaimPath l m' r'"
  then have "[m, r @ ''.json''] = [m', r' @ ''.json'']"
    unfolding MachineClaimPath_def
    by (rule FJoin_inject [OF MachineClaimsDir_abs, OF assms(1), rotated 2])
      (use assms in \<open>auto intro: ValidName_plain claim_name_plain\<close>)
  then show "m = m'" and "r = r'" by simp_all
next
  assume "RunDir l r = RunDir l r'"
  then have "FJoin [RunsDir l, r] = FJoin [RunsDir l, r']"
    using assms by (simp add: RunDir_def ValidRunID_ValidName)
  then show "r = r'"
    by (rule run_id_seg.child_inject [OF RunsDir_abs, OF assms(1,4,5)])
qed

theorem paths_unique_witness:
  "MachineClaimPath ''/root'' ''m1'' ''run_a'' \<noteq> MachineClaimPath ''/root'' ''m2'' ''run_a''"
proof -
  have "IsAbs ''/root''" and "ValidName ''m1''" and "ValidName ''m2''" and "ValidRunID ''run_a''"
    by (simp_all add: IsAbs_def HasPrefix_def ValidName_def ValidRunID_def alnum_def safe_char_def)
  with paths_unique [of "''/root''" "''m1''" "''m2''" "''run_a''" "''run_a''"] show ?thesis by auto
qed

end
