(* ===== verification/Vci_Glob.thy ===== *)
theory Vci_Glob
  imports Vci_Prelude
begin

text \<open>
  Go's \<open>path.Match\<close>: the pattern is cut into chunks at stars (\<open>scanChunk\<close>), each chunk is matched
  at the current position or, after a star, at the first later position before a slash
  (\<open>matchChunk\<close>), and a malformed pattern is an error even where the match has already failed.
  \<open>None\<close> is \<open>ErrBadPattern\<close>.
\<close>

section \<open>Matching\<close>

definition backslash :: char where
  "backslash = CHR 0x5C"

text \<open>\<open>utf8.DecodeRuneInString\<close>: the first rune, its width, and whether the bytes were valid.\<close>

fun decode_rune :: "string \<Rightarrow> nat \<times> nat \<times> bool" where
  "decode_rune [] = (65533, 0, False)"
| "decode_rune (c # cs) =
     (if of_char c < (128 :: nat) then (of_char c, 1, True)
      else case utf8_tail (of_char c) (map of_char cs) of
          Some (r, n) \<Rightarrow> (r, Suc n, True)
        | None \<Rightarrow> (65533, 1, False))"

definition getEsc :: "string \<Rightarrow> (nat \<times> string) option" where
  "getEsc chunk =
     (case chunk of
        [] \<Rightarrow> None
      | c # cs \<Rightarrow>
          if c = CHR ''-'' \<or> c = CHR '']'' then None
          else let body = (if c = backslash then cs else chunk) in
            case decode_rune body of (r, n, ok) \<Rightarrow>
              if body = [] \<or> \<not> ok \<or> drop n body = [] then None else Some (r, drop n body))"

lemma decode_rune_pos: "s \<noteq> [] \<Longrightarrow> decode_rune s = (r, n, v) \<Longrightarrow> 0 < n"
  by (cases s) (auto split: if_splits option.splits)

lemma getEsc_shorter:
  assumes "getEsc chunk = Some (r, rest)"
  shows "length rest < length chunk"
proof -
  obtain c cs where chunk: "chunk = c # cs" using assms by (cases chunk) (auto simp: getEsc_def)
  define body where "body = (if c = backslash then cs else chunk)"
  obtain q n v where dec: "decode_rune body = (q, n, v)" by (cases "decode_rune body") auto
  from assms have "body \<noteq> []" and rest: "rest = drop n body"
    by (auto simp: getEsc_def chunk body_def [unfolded chunk, symmetric] Let_def dec split: if_splits)
  with dec have "0 < n" by (blast intro: decode_rune_pos)
  with \<open>body \<noteq> []\<close> have "length rest < length body" by (simp add: rest)
  also have "length body \<le> length chunk" by (simp add: body_def chunk)
  finally show ?thesis .
qed

text \<open>The ranges of a character class, after the optional negation: whether the rune is in one of
  them, and the rest of the chunk after the closing bracket.\<close>

function class_ranges :: "nat \<Rightarrow> nat \<Rightarrow> bool \<Rightarrow> string \<Rightarrow> (bool \<times> string) option" where
  "class_ranges r nrange hit chunk =
     (if chunk \<noteq> [] \<and> hd chunk = CHR '']'' \<and> 0 < nrange then Some (hit, tl chunk)
      else case getEsc chunk of
          None \<Rightarrow> None
        | Some (lo, rest) \<Rightarrow>
            if hd rest = CHR ''-'' then
              (case getEsc (tl rest) of
                 None \<Rightarrow> None
               | Some (hi, rest') \<Rightarrow> class_ranges r (Suc nrange) (hit \<or> (lo \<le> r \<and> r \<le> hi)) rest')
            else class_ranges r (Suc nrange) (hit \<or> lo = r) rest)"
  by pat_completeness auto
termination
proof (relation "measure (\<lambda>(r, n, h, chunk). length chunk)", goal_cases)
  case 1
  show ?case by simp
next
  case (2 r nrange hit chunk a x y b c d)
  then have "length y < length chunk" and "length d < length (tl y)"
    by (auto dest: getEsc_shorter)
  then show ?case by simp
next
  case (3 r nrange hit chunk a x y)
  then show ?case by (auto dest: getEsc_shorter)
qed

declare class_ranges.simps [simp del]

lemma class_ranges_shorter: "class_ranges r n h chunk = Some (m, rest) \<Longrightarrow> length rest < length chunk"
proof (induction r n h chunk rule: class_ranges.induct)
  case (1 r n h chunk)
  show ?case
  proof (cases "chunk \<noteq> [] \<and> hd chunk = CHR '']'' \<and> 0 < n")
    case True
    with "1.prems" show ?thesis
      by (auto simp: class_ranges.simps [of r n h chunk])
  next
    case False
    then show ?thesis
      using "1.prems" "1.IH"
      by (simp add: class_ranges.simps [of r n h chunk] split: option.splits prod.splits if_splits)
        (fastforce dest: getEsc_shorter)+
  qed
qed

text \<open>\<open>matchChunk\<close>: \<open>failed\<close> records that the match is lost, after which the chunk is only parsed.
  The result is \<open>None\<close> for a bad pattern, \<open>Some None\<close> for no match, \<open>Some (Some rest)\<close> for a match.\<close>

function match_chunk :: "bool \<Rightarrow> string \<Rightarrow> string \<Rightarrow> string option option" where
  "match_chunk failed [] s = Some (if failed then None else Some s)"
| "match_chunk failed (c # cs) s =
     (let failed = (failed \<or> s = []) in
      if c = CHR ''['' then
        (let (r, n, ok) = decode_rune s;
             s' = (if failed then s else drop n s);
             neg = (cs \<noteq> [] \<and> hd cs = CHR ''^'');
             body = (if neg then tl cs else cs)
         in case class_ranges (if failed then 0 else r) 0 False body of
              None \<Rightarrow> None
            | Some (hit, rest) \<Rightarrow> match_chunk (failed \<or> hit = neg) rest s')
      else if c = CHR ''?'' then
        (let (r, n, ok) = decode_rune s in
         match_chunk (failed \<or> hd s = CHR ''/'') cs (if failed then s else drop n s))
      else if c = backslash then
        (case cs of
           [] \<Rightarrow> None
         | d # ds \<Rightarrow> match_chunk (failed \<or> d \<noteq> hd s) ds (if failed then s else tl s))
      else match_chunk (failed \<or> c \<noteq> hd s) cs (if failed then s else tl s))"
  by pat_completeness auto
termination
  by (relation "measure (\<lambda>(f, chunk, s). length chunk)")
    (auto dest!: class_ranges_shorter split: if_splits)

fun scan_len :: "bool \<Rightarrow> string \<Rightarrow> nat" where
  "scan_len inrange [] = 0"
| "scan_len inrange (c # cs) =
     (if c = backslash then (case cs of [] \<Rightarrow> 1 | d # ds \<Rightarrow> Suc (Suc (scan_len inrange ds)))
      else if c = CHR ''['' then Suc (scan_len True cs)
      else if c = CHR '']'' then Suc (scan_len False cs)
      else if c = CHR ''*'' \<and> \<not> inrange then 0
      else Suc (scan_len inrange cs))"

definition scanChunk :: "string \<Rightarrow> bool \<times> string \<times> string" where
  "scanChunk pattern =
     (let p = dropWhile (\<lambda>c. c = CHR ''*'') pattern; i = scan_len False p
      in (pattern \<noteq> [] \<and> hd pattern = CHR ''*'', take i p, drop i p))"

text \<open>The first match of \<open>chunk\<close> after skipping one or more bytes, none of them a slash; \<open>final\<close> says
  that no pattern is left, so the match must exhaust the name.\<close>

fun star_search :: "string \<Rightarrow> bool \<Rightarrow> string \<Rightarrow> string option option" where
  "star_search chunk final [] = Some None"
| "star_search chunk final (c # cs) =
     (if c = CHR ''/'' then Some None
      else case match_chunk False chunk cs of
          None \<Rightarrow> None
        | Some (Some t) \<Rightarrow> if final \<and> t \<noteq> [] then star_search chunk final cs else Some (Some t)
        | Some None \<Rightarrow> star_search chunk final cs)"

lemma scan_len_le: "scan_len inrange p \<le> length p"
  by (induction inrange p rule: scan_len.induct) (auto split: list.splits)

lemma scan_len_pos: "p \<noteq> [] \<Longrightarrow> hd p \<noteq> CHR ''*'' \<Longrightarrow> 0 < scan_len False p"
  by (cases p) (auto split: list.splits)

lemma length_dropWhile_less: "p \<noteq> [] \<Longrightarrow> P (hd p) \<Longrightarrow> length (dropWhile P p) < length p"
  by (cases p) (auto simp: le_imp_less_Suc length_dropWhile_le)

lemma scanChunk_shorter: "p \<noteq> [] \<Longrightarrow> scanChunk p = (star, chunk, rest) \<Longrightarrow> length rest < length p"
proof (cases "hd p = CHR ''*''")
  case True
  assume "p \<noteq> []" and "scanChunk p = (star, chunk, rest)"
  with True show ?thesis
    using length_dropWhile_less [of p "\<lambda>c. c = CHR ''*''"] by (auto simp: scanChunk_def Let_def)
next
  case False
  assume p: "p \<noteq> []" and s: "scanChunk p = (star, chunk, rest)"
  from False p have "dropWhile (\<lambda>c. c = CHR ''*'') p = p" by (cases p) auto
  with s scan_len_pos [OF p False] p show ?thesis by (auto simp: scanChunk_def Let_def)
qed

text \<open>What is left of the pattern must parse.\<close>

function well_formed :: "string \<Rightarrow> bool" where
  "well_formed p =
     (if p = [] then True
      else case scanChunk p of (star, chunk, rest) \<Rightarrow>
        match_chunk False chunk [] \<noteq> None \<and> well_formed rest)"
  by pat_completeness auto
termination
  by (relation "measure length") (auto dest: scanChunk_shorter [OF _ sym])

declare well_formed.simps [simp del]

function path_match :: "string \<Rightarrow> string \<Rightarrow> bool option" where
  "path_match p name =
     (if p = [] then Some (name = [])
      else case scanChunk p of (star, chunk, rest) \<Rightarrow>
        if star \<and> chunk = [] then Some (CHR ''/'' \<notin> set name)
        else case match_chunk False chunk name of
            None \<Rightarrow> None
          | Some m \<Rightarrow>
              if m \<noteq> None \<and> (the m = [] \<or> rest \<noteq> []) then path_match rest (the m)
              else case (if star then star_search chunk (rest = []) name else Some None) of
                  None \<Rightarrow> None
                | Some (Some t) \<Rightarrow> path_match rest t
                | Some None \<Rightarrow> if well_formed rest then Some False else None)"
  by pat_completeness auto
termination
  by (relation "measure (\<lambda>(p, name). length p)") (auto dest: scanChunk_shorter [OF _ sym])

declare path_match.simps [simp del]

lemmas glob_eval = path_match.simps well_formed.simps scanChunk_def class_ranges.simps getEsc_def Let_def backslash_def

end
