(* ===== verification/Vci_Config.thy ===== *)
theory Vci_Config
  imports Vci_Model Vci_Glob
begin

text \<open>
  \<open>internal/config/config.go\<close> and \<open>internal/config/validation.go\<close>: the configuration of a root,
  its validation, and the locked read-modify-write of the configuration file.

  A Go map is an association list whose order is the order in which \<open>range\<close> visits it; the theorems
  hold for every order. The TOML library is the parameter \<open>toml\<close>: decoding into a given value, which
  also reports the keys it did not know, and encoding. Regular expressions are written as recognisers.
\<close>

section \<open>Data\<close>

type_synonym 'a go_map = "(string \<times> 'a) list"

record bundle_cache_policy =
  MaxEntries :: int
  MaxCacheBytes :: int
  AdmissionBytes :: int

record machine =
  MaxConcurrent :: int
  Host :: string
  Runtime :: string
  Image :: string
  Snapshot :: string
  OS :: string
  SourcePaths :: "string go_map"
  BundleCache :: bundle_cache_policy

record hosted_fallback =
  URL :: string
  Commit :: string

record project =
  TargetMachines :: "string list"
  Command :: "string list"
  Commands :: "string list go_map"
  Environment :: "string go_map"
  Artifacts :: "string list"
  ExcludedPaths :: "string list"
  HostedFallback :: hosted_fallback

record config =
  SchemaVersion :: int
  Orchestrator :: string
  StdoutBytes :: int
  StderrBytes :: int
  RetentionBytes :: int
  Machines :: "machine go_map"
  Projects :: "project go_map"

definition supportedSchemaVersions :: "int \<Rightarrow> bool" where
  "supportedSchemaVersions v \<longleftrightarrow> v = 1 \<or> v = 2"

definition OrchestratorSelf :: string where "OrchestratorSelf = ''self''"

definition DefaultBundleCache :: bundle_cache_policy where
  "DefaultBundleCache = \<lparr>MaxEntries = 5, MaxCacheBytes = 5 * 2 ^ 30, AdmissionBytes = 50 * 2 ^ 20\<rparr>"

definition EffectiveBundleCache :: "bundle_cache_policy \<Rightarrow> bundle_cache_policy" where
  "EffectiveBundleCache p =
     \<lparr>MaxEntries = (if MaxEntries p \<le> 0 then MaxEntries DefaultBundleCache else MaxEntries p),
      MaxCacheBytes = (if MaxCacheBytes p \<le> 0 then MaxCacheBytes DefaultBundleCache else MaxCacheBytes p),
      AdmissionBytes = (if AdmissionBytes p \<le> 0 then AdmissionBytes DefaultBundleCache else AdmissionBytes p)\<rparr>"

definition EffectiveCapacity :: "machine \<Rightarrow> int" where
  "EffectiveCapacity m = (if MaxConcurrent m \<le> 0 then 1 else MaxConcurrent m)"

definition ResolveCommand :: "project \<Rightarrow> string \<Rightarrow> string list" where
  "ResolveCommand p machine =
     (case map_of (Commands p) machine of
        Some cmd \<Rightarrow> if cmd \<noteq> [] then cmd else Command p
      | None \<Rightarrow> Command p)"

definition DefaultLogLimit :: int where "DefaultLogLimit = 4 * 2 ^ 20"
definition DefaultRetention :: int where "DefaultRetention = 512 * 2 ^ 20"

definition Defaults :: config where
  "Defaults = \<lparr>SchemaVersion = 2, Orchestrator = OrchestratorSelf,
     StdoutBytes = DefaultLogLimit, StderrBytes = DefaultLogLimit, RetentionBytes = DefaultRetention,
     Machines = [], Projects = []\<rparr>"

section \<open>Validation of fields\<close>

definition space_or_control :: "nat \<Rightarrow> bool" where
  "space_or_control r \<longleftrightarrow> IsSpace r \<or> control_rune r"

text \<open>The bytes of \<open>" \t\r\n\v\f\x00"\<close>.\<close>

definition blank_bytes :: string where
  "blank_bytes = [CHR 0x20, CHR 0x09, CHR 0x0D, CHR 0x0A, CHR 0x0B, CHR 0x0C, CHR 0x00]"

definition ValidateMachineHost :: "string \<Rightarrow> unit result" where
  "ValidateMachineHost host =
     (if host = [] then Inr () else checks
       [ensure (\<not> HasPrefix host ''-'') (Errf ''machine host %q looks like an option flag'' [host]),
        ensure (\<not> list_ex space_or_control (runes host))
          (Errf ''machine host %q contains whitespace or control characters'' [host]),
        ensure (\<not> Contains host ''://'') (Errf ''machine host %q must not use a scheme'' [host]),
        ensure (''..'' \<notin> set (Split slash host))
          (Errf ''machine host %q must not contain a .. segment'' [host])])"

definition ValidateMachineOS :: "string \<Rightarrow> unit result" where
  "ValidateMachineOS os =
     ensure (map lower_rune (trim_runes (runes os))
         \<in> runes ` set [[], ''windows'', ''linux'', ''darwin''])
       (Errf ''invalid os %q (want windows, linux, darwin, or empty)'' [os])"

definition ValidateOrchestrator :: "string \<Rightarrow> unit result" where
  "ValidateOrchestrator v = checks
     [ensure (v \<noteq> []) (Errf ''orchestrator value is empty'' []),
      ensure (\<not> HasPrefix v ''-'') (Errf ''orchestrator value %q looks like an option flag'' [v]),
      ensure (\<not> list_ex space_or_control (runes v))
        (Errf ''orchestrator value %q contains whitespace or control characters'' [v])]"

definition validateSourcePath :: "string \<Rightarrow> string \<Rightarrow> string \<Rightarrow> unit result" where
  "validateSourcePath machine project v = checks
     [ensure (v \<noteq> []) (Errf ''machine %q source path for project %q is empty'' [machine, project]),
      ensure (\<not> has_control v)
        (Errf ''machine %q source path for project %q contains control characters'' [machine, project])]"

text \<open>\<open>path.ErrBadPattern\<close>.\<close>

definition ErrBadPattern :: err where "ErrBadPattern = Errf ''syntax error in pattern'' []"

definition match_error :: "string \<Rightarrow> unit result" where
  "match_error g = (if path_match g [] = None then Inl ErrBadPattern else Inr ())"

definition ValidateExcludedPaths :: "string \<Rightarrow> string list \<Rightarrow> unit result" where
  "ValidateExcludedPaths project globs = each (\<lambda>g. checks
     [ensure (g \<noteq> []) (Errf ''project %q has an empty excluded path'' [project]),
      ensure (g \<noteq> ''.git'' \<and> g \<noteq> ''.vci'')
        (Errf ''project %q reserved path %q cannot be an exclusion'' [project, g]),
      ensure (\<not> HasPrefix g ''/'') (Errf ''project %q excluded path %q must not be absolute'' [project, g]),
      ensure (\<not> Contains g ''..'')
        (Errf ''project %q excluded path %q must not contain a parent reference'' [project, g]),
      ensure (\<not> has_control g) (Errf ''project %q excluded path %q contains control characters'' [project, g]),
      wrapR ''project %q excluded path %q is not a valid glob: %w'' [project, g] (match_error g)]) globs"

definition validEnvKey :: "string \<Rightarrow> bool" where
  "validEnvKey k \<longleftrightarrow> (case k of [] \<Rightarrow> False | c # cs \<Rightarrow>
     (c = CHR ''_'' \<or> (alnum c \<and> \<not> is_digit c)) \<and> list_all (\<lambda>d. d = CHR ''_'' \<or> alnum d) cs)"

definition ValidateProjectEnvironment :: "string \<Rightarrow> string go_map \<Rightarrow> unit result" where
  "ValidateProjectEnvironment name env = each (\<lambda>(key, _).
     ensure (validEnvKey key)
       (Errf ''project %q environment key %q is not a valid POSIX identifier'' [name, key])) env"

definition validateArtifactGlob :: "string \<Rightarrow> unit result" where
  "validateArtifactGlob glob = checks
     [ensure (glob \<noteq> []) (Errf ''artifact glob is empty'' []),
      ensure (\<not> ContainsAny glob blank_bytes)
        (Errf ''artifact glob %q contains whitespace or control characters'' [glob]),
      ensure (\<not> HasPrefix glob ''-'') (Errf ''artifact glob %q starts with a flag-like character'' [glob]),
      ensure (\<not> Contains glob ''://'') (Errf ''artifact glob %q must not use a scheme'' [glob]),
      ensure (\<not> HasPrefix glob ''/'') (Errf ''artifact glob %q must not be an absolute path'' [glob]),
      ensure (''..'' \<notin> set (Split slash glob))
        (Errf ''artifact glob %q must not contain a .. segment'' [glob]),
      wrapR ''artifact glob %q is not a valid path.Match pattern: %w'' [glob] (match_error glob)]"

definition ValidateProjectArtifacts :: "string \<Rightarrow> string list \<Rightarrow> unit result" where
  "ValidateProjectArtifacts name globs = each (\<lambda>(i, glob).
     wrapR ''project %q artifact[%d]: %w'' [name, itoa (int i)] (validateArtifactGlob glob))
       (enumerate 0 globs)"

section \<open>Hosted fallback\<close>

abbreviation invalid_fallback :: "string \<Rightarrow> err" where
  "invalid_fallback f \<equiv> EWrap f [] (ESent ErrHostedFallbackInvalid)"

text \<open>\<open>hostedURLRe\<close>, with its groups: scheme, user, host, port with its colon, path.\<close>

definition url_path_char :: "char \<Rightarrow> bool" where
  "url_path_char c \<longleftrightarrow> c \<notin> set ''?#'' \<and> of_char c \<notin> {9, 10, 12, 13, 32 :: nat}"

definition url_rest :: "string \<Rightarrow> (string \<times> string \<times> string) option" where
  "url_rest s =
     (let host = takeWhile safe_char s; r = dropWhile safe_char s;
          (port, path) = (if HasPrefix r '':''
             then (CHR '':'' # takeWhile is_digit (tl r), dropWhile is_digit (tl r)) else ([], r))
      in if host \<noteq> [] \<and> port \<noteq> '':'' \<and> HasPrefix path ''/'' \<and> list_all url_path_char path
         then Some (host, port, path) else None)"

definition hostedURLRe :: "string \<Rightarrow> (string \<times> string \<times> string \<times> string \<times> string) option" where
  "hostedURLRe raw =
     (let scheme = (if HasPrefix raw ''https://'' then ''https'' else ''ssh'');
          s = TrimPrefix raw (scheme @ ''://'');
          user = takeWhile safe_char s; r = dropWhile safe_char s
      in if \<not> HasPrefix raw (scheme @ ''://'') then None
         else if user \<noteq> [] \<and> HasPrefix r ''@''
         then map_option (\<lambda>hpp. (scheme, user, hpp)) (url_rest (tl r))
         else map_option (\<lambda>hpp. (scheme, [], hpp)) (url_rest s))"

definition lower_char :: "char \<Rightarrow> char" where
  "lower_char c = (let n = of_char c :: nat in if 65 \<le> n \<and> n \<le> 90 then char_of (n + 32) else c)"

fun index_of :: "string \<Rightarrow> string \<Rightarrow> nat option" where
  "index_of sub [] = (if sub = [] then Some 0 else None)"
| "index_of sub (c # cs) = (if HasPrefix (c # cs) sub then Some 0 else map_option Suc (index_of sub cs))"

text \<open>Whether the text between the scheme and the last at-sign holds a colon.\<close>

definition userinfo_password :: "string \<Rightarrow> bool" where
  "userinfo_password raw =
     (case index_of ''://'' raw of
        None \<Rightarrow> False
      | Some i \<Rightarrow> let after = drop (i + 3) raw; tail = takeWhile (\<lambda>c. c \<noteq> CHR ''@'') (rev after) in
          CHR ''@'' \<in> set after \<and> CHR '':'' \<in> set (take (length after - length tail - 1) after))"

definition validateHostedURL :: "string \<Rightarrow> string result" where
  "validateHostedURL raw =
     (case checks
        [ensure (raw \<noteq> []) (invalid_fallback ''%w: url is empty''),
         ensure (\<not> ContainsAny raw blank_bytes)
           (invalid_fallback ''%w: url contains whitespace or control characters''),
         ensure (\<not> HasPrefix raw ''-'') (invalid_fallback ''%w: url starts with a flag-like character''),
         ensure (Contains raw ''://'' \<or> \<not> Contains raw '':'' \<or> HasPrefix raw ''https:'' \<or> HasPrefix raw ''ssh:'')
           (invalid_fallback ''%w: scp-style urls are not supported''),
         ensure (\<not> userinfo_password raw)
           (invalid_fallback ''%w: userinfo must not include a password'')] of
        Inl e \<Rightarrow> Inl e
      | Inr _ \<Rightarrow>
          (case hostedURLRe raw of
             None \<Rightarrow> Inl (invalid_fallback ''%w: url must be https://host/path or ssh://[user@]host/path'')
           | Some (scheme, user, host, port, path) \<Rightarrow>
               if user \<noteq> [] \<and> scheme = ''https''
               then Inl (invalid_fallback ''%w: https url must not include userinfo'')
               else if port \<noteq> [] \<and> (digits_value (tl port) < 1 \<or> 65535 < digits_value (tl port))
               then Inl (invalid_fallback ''%w: port must be a numeric 1..65535'')
               else Inr (scheme @ ''://'' @ (if user \<noteq> [] then user @ ''@'' else [])
                 @ map lower_char host @ port @ path)))"

definition lower_hex :: "char \<Rightarrow> bool" where
  "lower_hex c \<longleftrightarrow> is_digit c \<or> (97 \<le> (of_char c :: nat) \<and> of_char c \<le> (102 :: nat))"

definition hostedCommitRe :: "string \<Rightarrow> bool" where
  "hostedCommitRe s \<longleftrightarrow> list_all lower_hex s \<and> (length s = 40 \<or> length s = 64)"

definition validateHostedCommit :: "string \<Rightarrow> string result" where
  "validateHostedCommit raw =
     (case checks
        [ensure (raw \<noteq> []) (invalid_fallback ''%w: commit is empty''),
         ensure (\<not> ContainsAny raw blank_bytes)
           (invalid_fallback ''%w: commit contains whitespace or control characters''),
         ensure (hostedCommitRe raw)
           (invalid_fallback ''%w: commit must be a full lowercase 40- or 64-char hex sha'')] of
        Inl e \<Rightarrow> Inl e
      | Inr _ \<Rightarrow> Inr raw)"

definition ValidateHosted :: "hosted_fallback \<Rightarrow> hosted_fallback result" where
  "ValidateHosted h =
     (if URL h = [] \<and> Commit h = [] then Inl (ESent ErrHostedFallbackNotConfigured)
      else if URL h = [] \<or> Commit h = [] then Inl (invalid_fallback ''%w: url and commit must be set together'')
      else case validateHostedURL (URL h) of
          Inl e \<Rightarrow> Inl e
        | Inr url \<Rightarrow>
            (case validateHostedCommit (Commit h) of
               Inl e \<Rightarrow> Inl e
             | Inr commit \<Rightarrow> Inr \<lparr>URL = url, Commit = commit\<rparr>))"

section \<open>Runtimes\<close>

definition image_tagged :: "string \<Rightarrow> bool" where
  "image_tagged s =
     (case Split (CHR '':'') s of
        [c] \<Rightarrow> ValidName c
      | [c, t] \<Rightarrow> ValidName c \<and> t \<noteq> [] \<and> length t \<le> 128 \<and> list_all safe_char t
      | _ \<Rightarrow> False)"

definition image_path :: "string list \<Rightarrow> bool" where
  "image_path segs \<longleftrightarrow> segs \<noteq> [] \<and> list_all ValidName (butlast segs) \<and> image_tagged (last segs)"

definition image_registry :: "string \<Rightarrow> bool" where
  "image_registry s =
     (case Split (CHR '':'') s of
        [h, p] \<Rightarrow> h \<noteq> [] \<and> list_all safe_char h \<and> p \<noteq> [] \<and> list_all is_digit p
      | _ \<Rightarrow> False)"

definition image_name :: "string \<Rightarrow> bool" where
  "image_name s =
     (let segs = Split slash s in image_path segs \<or> (image_registry (hd segs) \<and> image_path (tl segs)))"

definition image_digest :: "string \<Rightarrow> bool" where
  "image_digest s \<longleftrightarrow> HasPrefix s ''sha256:'' \<and> length (drop 7 s) = 64 \<and> list_all lower_hex (drop 7 s)"

definition allowedRuntimeImage :: "string \<Rightarrow> bool" where
  "allowedRuntimeImage s =
     (case Split (CHR ''@'') s of
        [n] \<Rightarrow> image_name n
      | [n, d] \<Rightarrow> image_name n \<and> image_digest d
      | _ \<Rightarrow> False)"

abbreviation invalid_image :: "string \<Rightarrow> err" where
  "invalid_image f \<equiv> EWrap f [] (ESent ErrRuntimeImageInvalid)"

definition validateRuntimeImage :: "string \<Rightarrow> unit result" where
  "validateRuntimeImage img = checks
     [ensure (img \<noteq> []) (invalid_image ''%w: image is empty''),
      ensure (\<not> ContainsAny img blank_bytes)
        (invalid_image ''%w: image contains whitespace or control characters''),
      ensure (\<not> HasPrefix img ''-'') (invalid_image ''%w: image starts with a flag-like character''),
      ensure (\<not> Contains img ''://'') (invalid_image ''%w: image must not use a scheme''),
      ensure (\<not> HasPrefix img ''/'' \<and> \<not> HasPrefix img ''./'' \<and> \<not> Contains img ''../'')
        (invalid_image ''%w: image must not be a path''),
      ensure (allowedRuntimeImage img)
        (EWrap ''%w: image %q does not match the verbatim allow-list'' [img] (ESent ErrRuntimeImageInvalid))]"

definition ValidateMachineRuntime :: "string \<Rightarrow> machine \<Rightarrow> unit result" where
  "ValidateMachineRuntime name m =
     (if Runtime m = [] then checks
        [ensure (Image m = []) (Errf ''machine %q has empty runtime but image %q'' [name, Image m]),
         ensure (Snapshot m = []) (Errf ''machine %q has empty runtime but snapshot %q'' [name, Snapshot m])]
      else if Runtime m = ''docker'' then checks
        [ensure (Image m \<noteq> [])
           (EWrap ''%w: machine %q runtime=docker requires image'' [name] (ESent ErrRuntimeImageRequired)),
         ensure (Snapshot m = []) (Errf ''machine %q runtime=docker must not set snapshot'' [name]),
         wrapR ''machine %q: %w'' [name] (validateRuntimeImage (Image m))]
      else if Runtime m = ''vm'' then checks
        [ensure (Image m = []) (Errf ''machine %q runtime=vm must not set image'' [name]),
         ensure (Snapshot m \<noteq> [])
           (EWrap ''%w: machine %q runtime=vm requires snapshot'' [name] (ESent ErrRuntimeImageRequired)),
         wrapR ''machine %q snapshot: %w'' [name] (validateRuntimeImage (Snapshot m))]
      else Inl (EWrap ''%w: machine %q runtime=%q is not supported'' [name, Runtime m]
        (ESent ErrUnsupportedRuntime)))"

section \<open>Validation of the configuration\<close>

definition has_key :: "'a go_map \<Rightarrow> string \<Rightarrow> bool" where
  "has_key m k \<longleftrightarrow> map_of m k \<noteq> None"

definition no_command :: "string list \<Rightarrow> bool" where
  "no_command cmd \<longleftrightarrow> cmd = [] \<or> blank (hd cmd)"

definition validateMachine :: "config \<Rightarrow> string \<times> machine \<Rightarrow> unit result" where
  "validateMachine cfg = (\<lambda>(name, m). checks
     [ensure (ValidName name) (Errf ''invalid machine name %q'' [name]),
      ensure (0 \<le> MaxConcurrent m) (Errf ''machine %q has negative max_concurrent'' [name]),
      ValidateMachineHost (Host m),
      wrapR ''machine %q: %w'' [name] (ValidateMachineOS (OS m)),
      ValidateMachineRuntime name m,
      each (\<lambda>(project, src). checks
        [ensure (ValidName project)
           (Errf ''machine %q source path key %q is not a valid name'' [name, project]),
         ensure (has_key (Projects cfg) project)
           (Errf ''machine %q source path references unknown project %q'' [name, project]),
         validateSourcePath name project src]) (SourcePaths m),
      ensure (0 \<le> MaxEntries (BundleCache m) \<and> 0 \<le> MaxCacheBytes (BundleCache m) \<and> 0 \<le> AdmissionBytes (BundleCache m))
        (Errf ''machine %q has negative bundle-cache policy'' [name])])"

definition validateTargets :: "config \<Rightarrow> string \<Rightarrow> string list \<Rightarrow> unit result" where
  "validateTargets cfg name ms = each (\<lambda>(i, m). checks
     [ensure (ValidName m) (Errf ''project %q has invalid machine %q'' [name, m]),
      ensure (m \<notin> set (take i ms)) (Errf ''project %q repeats machine %q'' [name, m]),
      ensure (has_key (Machines cfg) m) (Errf ''project %q references missing machine %q'' [name, m])])
     (enumerate 0 ms)"

definition validateProject :: "config \<Rightarrow> string \<times> project \<Rightarrow> unit result" where
  "validateProject cfg = (\<lambda>(name, p). checks
     [ensure (ValidName name) (Errf ''invalid project name %q'' [name]),
      ensure (TargetMachines p \<noteq> []) (Errf ''project %q has no machines'' [name]),
      ensure (\<not> no_command (Command p)) (Errf ''project %q has no command'' [name]),
      ValidateProjectEnvironment name (Environment p),
      (if URL (HostedFallback p) \<noteq> [] \<or> Commit (HostedFallback p) \<noteq> []
       then wrapR ''project %q hosted fallback: %w'' [name] (map_sum (\<lambda>e. e) (\<lambda>_. ()) (ValidateHosted (HostedFallback p)))
       else Inr ()),
      ValidateProjectArtifacts name (Artifacts p),
      ValidateExcludedPaths name (ExcludedPaths p),
      validateTargets cfg name (TargetMachines p),
      each (\<lambda>(machine, cmd). checks
        [ensure (machine \<in> set (TargetMachines p))
           (Errf ''project %q has command override for unattached machine %q'' [name, machine]),
         ensure (\<not> no_command cmd)
           (Errf ''project %q has empty command override for machine %q'' [name, machine])]) (Commands p)])"

definition validateCoordinator :: "config \<Rightarrow> unit result" where
  "validateCoordinator cfg = checks
     [ensure (0 < StdoutBytes cfg \<and> 0 < StderrBytes cfg) (Errf ''log limits are invalid'' []),
      ensure (0 < RetentionBytes cfg) (Errf ''retention is invalid'' []),
      each (validateMachine cfg) (Machines cfg),
      each (validateProject cfg) (Projects cfg)]"

definition validateClient :: "config \<Rightarrow> unit result" where
  "validateClient cfg = checks
     [ensure (Machines cfg = []) (Errf ''client root must not declare machines'' []),
      ensure (Projects cfg = []) (Errf ''client root must not declare projects'' []),
      ensure (RetentionBytes cfg = DefaultRetention) (Errf ''client root must not set retention policy'' []),
      ensure (StdoutBytes cfg = DefaultLogLimit \<and> StderrBytes cfg = DefaultLogLimit)
        (Errf ''client root must not set log limits'' [])]"

definition Validate :: "config \<Rightarrow> unit result" where
  "Validate cfg = checks
     [ensure (supportedSchemaVersions (SchemaVersion cfg))
        (Errf ''unsupported config schema version %d'' [itoa (SchemaVersion cfg)]),
      ValidateOrchestrator (Orchestrator cfg),
      (if Orchestrator cfg = OrchestratorSelf then validateCoordinator cfg else validateClient cfg)]"

section \<open>The configuration file\<close>

record toml_meta =
  orchestrator_defined :: bool
  Undecoded :: "string list"

record toml =
  toml_decode :: "string \<Rightarrow> config \<Rightarrow> (config \<times> toml_meta) result"
  toml_encode :: "config \<Rightarrow> string result"

record config_state = os_state +
  config_file :: "string option"

definition formatKeys :: "string list \<Rightarrow> string" where
  "formatKeys keys = Join (sort keys) '', ''"

definition Decode :: "toml \<Rightarrow> string \<Rightarrow> config result" where
  "Decode t data =
     (case toml_decode t data Defaults of
        Inl e \<Rightarrow> Inl (EWrap ''decode config: %w'' [] e)
      | Inr (cfg0, meta) \<Rightarrow>
          let cfg = (if orchestrator_defined meta then cfg0 else cfg0\<lparr>Orchestrator := OrchestratorSelf\<rparr>) in
          if Undecoded meta \<noteq> [] then Inl (Errf ''unknown config fields: %s'' [formatKeys (Undecoded meta)])
          else case Validate cfg of Inl e \<Rightarrow> Inl e | Inr _ \<Rightarrow> Inr cfg)"

definition LoadConfig :: "toml \<Rightarrow> ('a config_state_scheme, config) io" where
  "LoadConfig t = bindE (wrapE ''read config: %w'' [] (read_file config_file)) (\<lambda>data. lift_result (Decode t data))"

definition acquire :: "('a config_state_scheme, unit) io" where
  "acquire =
     bindE (wrapE ''create config directory: %w'' [] os_call) (\<lambda>_.
     bindE (wrapE ''open config lock: %w'' [] os_call) (\<lambda>_.
     wrapE ''lock config: %w'' [] os_call))"

definition saveLocked :: "toml \<Rightarrow> config \<Rightarrow> ('a config_state_scheme, unit) io" where
  "saveLocked t cfg =
     bindE (lift_result (Validate cfg)) (\<lambda>_.
     bindE (wrapE ''encode config: %w'' [] (lift_result (toml_encode t cfg))) (\<lambda>encoded.
     bindE (wrapE ''create config temp file: %w'' [] os_call) (\<lambda>_.
     bindE (wrapE ''protect config temp file: %w'' [] os_call) (\<lambda>_.
     bindE (wrapE ''write config temp file: %w'' [] os_call) (\<lambda>_.
     bindE (wrapE ''sync config temp file: %w'' [] os_call) (\<lambda>_.
     bindE (wrapE ''close config temp file: %w'' [] os_call) (\<lambda>_.
     bindE (wrapE ''publish config: %w'' [] os_call) (\<lambda>_.
     bindE (modify (config_file_update (\<lambda>_. Some encoded))) (\<lambda>_.
     wrapE ''sync config directory: %w'' [] sync_parent)))))))))"

definition InitializeConfig :: "toml \<Rightarrow> ('a config_state_scheme, unit) io" where
  "InitializeConfig t =
     bindE acquire (\<lambda>_.
     bindE (attempt (read_file config_file)) (\<lambda>r.
     case r of
       Inr _ \<Rightarrow> bindE (wrapE ''validate existing config: %w'' [] (LoadConfig t)) (\<lambda>_. ret ())
     | Inl e \<Rightarrow> if IsNotExist e then saveLocked t Defaults else throw (EWrap ''inspect config: %w'' [] e)))"

definition MutateConfig :: "toml \<Rightarrow> (config \<Rightarrow> config result) \<Rightarrow> ('a config_state_scheme, unit) io" where
  "MutateConfig t fn =
     bindE acquire (\<lambda>_.
     bindE (LoadConfig t) (\<lambda>cfg.
     bindE (lift_result (fn cfg)) (\<lambda>cfg'.
     saveLocked t cfg')))"

section \<open>What validation guarantees\<close>

lemma each_enumerate_ok:
  "each f (enumerate n xs) = Inr () \<longleftrightarrow> (\<forall>i < length xs. f (n + i, xs ! i) = Inr ())"
proof -
  have "set (enumerate n xs) = (\<lambda>i. (n + i, xs ! i)) ` {..<length xs}"
  proof (rule set_eqI)
    fix p :: "nat \<times> 'a"
    show "p \<in> set (enumerate n xs) \<longleftrightarrow> p \<in> (\<lambda>i. (n + i, xs ! i)) ` {..<length xs}"
      by (cases p) (auto simp: in_set_enumerate_eq intro!: image_eqI [where x = "fst p - n"])
  qed
  then show ?thesis by auto
qed

lemma distinct_iff_fresh: "distinct xs \<longleftrightarrow> (\<forall>i < length xs. xs ! i \<notin> set (take i xs))"
proof (induction xs rule: rev_induct)
  case Nil
  show ?case by simp
next
  case (snoc x xs)
  have "(\<forall>i < length (xs @ [x]). (xs @ [x]) ! i \<notin> set (take i (xs @ [x])))
      \<longleftrightarrow> (\<forall>i < length xs. xs ! i \<notin> set (take i xs)) \<and> x \<notin> set xs"
    by (auto simp: less_Suc_eq nth_append)
  with snoc show ?case by auto
qed

lemma validateTargets_ok:
  "validateTargets cfg name ms = Inr () \<longleftrightarrow>
     distinct ms \<and> (\<forall>m \<in> set ms. ValidName m \<and> has_key (Machines cfg) m)"
  unfolding validateTargets_def each_enumerate_ok distinct_iff_fresh all_set_conv_all_nth
  by auto

lemma Validate_machine:
  assumes "Validate cfg = Inr ()" and "Orchestrator cfg = OrchestratorSelf"
    and "map_of (Machines cfg) name = Some m"
  shows "validateMachine cfg (name, m) = Inr ()"
  using assms by (auto simp: Validate_def validateCoordinator_def dest: map_of_SomeD)

lemma Validate_project:
  assumes "Validate cfg = Inr ()" and "Orchestrator cfg = OrchestratorSelf"
    and "map_of (Projects cfg) name = Some p"
  shows "validateProject cfg (name, p) = Inr ()"
  using assms by (auto simp: Validate_def validateCoordinator_def dest: map_of_SomeD)

lemma Validate_client:
  "Validate cfg = Inr () \<Longrightarrow> Orchestrator cfg \<noteq> OrchestratorSelf \<Longrightarrow> Machines cfg = [] \<and> Projects cfg = []"
  by (simp add: Validate_def validateClient_def)

lemma blank_Nil [simp]: "blank []"
  by (simp add: blank_def runes_def)

lemma validateProject_commands:
  assumes "validateProject cfg (name, p) = Inr ()" and "m \<in> set (TargetMachines p)"
  shows "ResolveCommand p m \<noteq> [] \<and> \<not> blank (hd (ResolveCommand p m))"
  using assms
  by (auto simp: validateProject_def ResolveCommand_def no_command_def dest!: map_of_SomeD
      split: option.splits)

section \<open>What the file operations guarantee\<close>

text \<open>\<open>file_to T\<close>: the file is unchanged, or one of \<open>T\<close>.\<close>

definition file_to :: "string option set \<Rightarrow> 'a config_state_scheme \<Rightarrow> 'a config_state_scheme \<Rightarrow> bool" where
  "file_to T w w' \<longleftrightarrow> config_file w' = config_file w \<or> config_file w' \<in> T"

interpretation file_to: os_guarantee "file_to T" for T
  by unfold_locales (auto simp: file_to_def)

lemma file_to_modify [always_intro]: "x \<in> T \<Longrightarrow> always (file_to T) (modify (config_file_update (\<lambda>_. x)))"
  by (simp add: always_def modify_def file_to_def)

lemma saveLocked_to:
  "always (file_to {Some b |b. toml_encode t cfg = Inr b \<and> Validate cfg = Inr ()}) (saveLocked t cfg)"
  unfolding saveLocked_def
  by (rule file_to.always_bind_result, intro always_intro,
      rule file_to.always_bind_result, intro always_intro, intro always_intro)
    (auto split: sum.splits)

lemma LoadConfig_quiet: "always quiet (LoadConfig t)"
  unfolding LoadConfig_def by (intro always_intro)

lemma acquire_quiet: "always quiet acquire"
  unfolding acquire_def by (intro always_intro)

lemma LoadConfig_Inr:
  assumes "LoadConfig t w = (Inr cfg, w')"
  shows "\<exists>data. config_file w = Some data \<and> Decode t data = Inr cfg \<and> config_file w' = Some data"
proof -
  from assms obtain data w1 where "read_file config_file w = (Inr data, w1)" and "Decode t data = Inr cfg" and "w' = w1"
    by (auto simp: LoadConfig_def bindE_Inr)
  then show ?thesis by (auto dest!: read_file_Inr simp: quiet_def)
qed

lemma Decode_valid: "Decode t data = Inr cfg \<Longrightarrow> Validate cfg = Inr ()"
  by (auto simp: Decode_def Let_def split: sum.splits prod.splits if_splits)

lemma saveLocked_Inr:
  assumes "saveLocked t cfg w = (Inr (), w')"
  shows "Validate cfg = Inr () \<and> (\<exists>b. toml_encode t cfg = Inr b \<and> config_file w' = Some b)"
proof -
  from assms obtain b w1 where "Validate cfg = Inr ()" and "toml_encode t cfg = Inr b"
      and "sync_parent (w1\<lparr>config_file := Some b\<rparr>) = (Inr (), w')"
    by (auto simp: saveLocked_def bindE_Inr)
  then show ?thesis by (auto dest!: sync_parent_quiet simp: quiet_def)
qed

text \<open>The outcome of a mutation: the new contents are those of a validated change of the old.\<close>

definition mutated :: "toml \<Rightarrow> (config \<Rightarrow> config result) \<Rightarrow> string option \<Rightarrow> string option \<Rightarrow> bool" where
  "mutated t fn old new \<longleftrightarrow> (\<exists>data cfg cfg' b. old = Some data \<and> Decode t data = Inr cfg \<and> fn cfg = Inr cfg'
     \<and> Validate cfg' = Inr () \<and> toml_encode t cfg' = Inr b \<and> new = Some b)"

lemma quiet_config_file: "quiet w w' \<Longrightarrow> config_file w' = config_file w"
  by (auto simp: quiet_def)

lemma MutateConfig_cases:
  assumes "MutateConfig t fn w = (r, w')"
  obtains e where "config_file w' = config_file w" and "r = Inl e"
  | data cfg cfg' w1 where "config_file w = Some data" and "Decode t data = Inr cfg" and "fn cfg = Inr cfg'"
      and "config_file w1 = Some data" and "saveLocked t cfg' w1 = (r, w')"
  using assms unfolding MutateConfig_def
proof (elim bindE_cases)
  fix e
  assume "acquire w = (Inl e, w')" and "r = Inl e"
  then show thesis using that(1) by (blast dest: alwaysD [OF acquire_quiet] quiet_config_file)
next
  fix w0 e u
  assume "acquire w = (Inr u, w0)" and "LoadConfig t w0 = (Inl e, w')" and "r = Inl e"
  then show thesis
    using that(1) by (metis alwaysD [OF acquire_quiet] alwaysD [OF LoadConfig_quiet] quiet_config_file)
next
  fix w0 w1 cfg e u
  assume "acquire w = (Inr u, w0)" and "LoadConfig t w0 = (Inr cfg, w1)"
    and "lift_result (fn cfg) w1 = (Inl e, w')" and "r = Inl e"
  then show thesis
    using that(1)
    by (metis alwaysD [OF acquire_quiet] alwaysD [OF LoadConfig_quiet] quiet_config_file lift_result_eq)
next
  fix w0 w1 w2 cfg cfg' u
  assume acq: "acquire w = (Inr u, w0)" and ld: "LoadConfig t w0 = (Inr cfg, w1)"
    and fn: "lift_result (fn cfg) w1 = (Inr cfg', w2)" and sv: "saveLocked t cfg' w2 = (r, w')"
  from acq have "config_file w0 = config_file w" by (blast dest: alwaysD [OF acquire_quiet] quiet_config_file)
  with LoadConfig_Inr [OF ld] fn sv show thesis using that(2) by auto
qed

lemma MutateConfig_Inr:
  assumes "MutateConfig t fn w = (Inr (), w')"
  shows "mutated t fn (config_file w) (config_file w')"
  using assms by (rule MutateConfig_cases) (auto simp: mutated_def dest!: saveLocked_Inr)

lemma MutateConfig_any:
  assumes "MutateConfig t fn w = (r, w')"
  shows "config_file w' = config_file w \<or> mutated t fn (config_file w) (config_file w')"
  using assms
proof (rule MutateConfig_cases)
  fix data cfg cfg' w1
  assume *: "config_file w = Some data" "Decode t data = Inr cfg" "fn cfg = Inr cfg'"
    "config_file w1 = Some data" "saveLocked t cfg' w1 = (r, w')"
  from alwaysD [OF saveLocked_to *(5)] * show ?thesis by (auto simp: mutated_def file_to_def)
qed simp

text \<open>
  C3: A mutation of the configuration is all or nothing on every fault path: the file keeps its old
  contents, or it holds the encoding of a configuration that \<open>Validate\<close> accepts and that the change
  produced from the old one; success implies the latter.
\<close>

theorem MutateConfig_atomic:
  assumes "MutateConfig t fn w = (r, w')"
  shows "(config_file w' = config_file w \<or> mutated t fn (config_file w) (config_file w'))
    \<and> (r = Inr () \<longrightarrow> mutated t fn (config_file w) (config_file w'))"
  using assms by (auto dest: MutateConfig_any MutateConfig_Inr)

text \<open>
  C36: In a configuration that \<open>Validate\<close> accepts for a coordinator, every project runs on at least
  one machine, on no machine twice, only on machines that are configured, with a capacity of at least
  one each and a non-blank command for each; every source path names a configured project.
\<close>

theorem Validate_coherent:
  assumes "Validate cfg = Inr ()" and "Orchestrator cfg = OrchestratorSelf"
    and "map_of (Projects cfg) name = Some p"
  shows "ValidName name \<and> TargetMachines p \<noteq> [] \<and> distinct (TargetMachines p)
    \<and> (\<forall>m \<in> set (TargetMachines p). \<exists>mach. map_of (Machines cfg) m = Some mach
         \<and> 1 \<le> EffectiveCapacity mach \<and> ResolveCommand p m \<noteq> [] \<and> \<not> blank (hd (ResolveCommand p m))
         \<and> (\<forall>(q, src) \<in> set (SourcePaths mach). has_key (Projects cfg) q))"
proof -
  have p: "validateProject cfg (name, p) = Inr ()" by (rule Validate_project [OF assms])
  have targets: "validateTargets cfg name (TargetMachines p) = Inr ()"
    and "ValidName name" and "TargetMachines p \<noteq> []"
    using p by (simp_all add: validateProject_def)
  moreover have "\<exists>mach. map_of (Machines cfg) m = Some mach
         \<and> 1 \<le> EffectiveCapacity mach \<and> ResolveCommand p m \<noteq> [] \<and> \<not> blank (hd (ResolveCommand p m))
         \<and> (\<forall>(q, src) \<in> set (SourcePaths mach). has_key (Projects cfg) q)" if m: "m \<in> set (TargetMachines p)" for m
  proof -
    from targets m obtain mach where mach: "map_of (Machines cfg) m = Some mach"
      by (auto simp: validateTargets_ok has_key_def)
    with Validate_machine [OF assms(1,2) mach] validateProject_commands [OF p m] show ?thesis
      by (auto simp: validateMachine_def EffectiveCapacity_def)
  qed
  ultimately show ?thesis by (auto simp: validateTargets_ok)
qed

section \<open>A concrete configuration\<close>

definition example_machine :: machine where
  "example_machine = \<lparr>MaxConcurrent = 2, Host = [], Runtime = [], Image = [], Snapshot = [], OS = [],
     SourcePaths = [], BundleCache = \<lparr>MaxEntries = 0, MaxCacheBytes = 0, AdmissionBytes = 0\<rparr>\<rparr>"

definition example_project :: project where
  "example_project = \<lparr>TargetMachines = [''m1''], Command = [''make''], Commands = [], Environment = [],
     Artifacts = [''out/*.txt''], ExcludedPaths = [], HostedFallback = \<lparr>URL = [], Commit = []\<rparr>\<rparr>"

definition example_config :: config where
  "example_config = Defaults\<lparr>Machines := [(''m1'', example_machine)], Projects := [(''p1'', example_project)]\<rparr>"

definition example_toml :: toml where
  "example_toml =
     \<lparr>toml_decode = (\<lambda>s c. if s = ''one'' then Inr (example_config, \<lparr>orchestrator_defined = True, Undecoded = []\<rparr>)
        else if s = ''two'' then Inr (example_config\<lparr>SchemaVersion := 1\<rparr>, \<lparr>orchestrator_defined = True, Undecoded = []\<rparr>)
        else Inl (Errf ''syntax'' [])),
      toml_encode = (\<lambda>c. if c = example_config then Inr ''one''
        else if c = example_config\<lparr>SchemaVersion := 1\<rparr> then Inr ''two'' else Inl (Errf ''encode'' []))\<rparr>"

definition example_config_state :: config_state where
  "example_config_state = \<lparr>faults = [], clock = 0, entropy = [], windows = False, config_file = Some ''one''\<rparr>"

lemmas validate_eval = Validate_def validateCoordinator_def validateMachine_def validateProject_def
  validateTargets_def ValidateOrchestrator_def ValidateMachineHost_def ValidateMachineOS_def
  ValidateMachineRuntime_def ValidateProjectEnvironment_def ValidateProjectArtifacts_def
  ValidateExcludedPaths_def validateArtifactGlob_def match_error_def supportedSchemaVersions_def
  OrchestratorSelf_def DefaultLogLimit_def DefaultRetention_def Defaults_def ValidName_def alnum_def
  safe_char_def space_or_control_def control_rune_def runes_def IsSpace_def trim_runes_def blank_def
  no_command_def has_key_def HasPrefix_def ContainsAny_def blank_bytes_def ensure_def each_def wrapR_def
  glob_eval

lemma example_config_valid: "Validate example_config = Inr ()"
  by (simp add: validate_eval example_config_def example_machine_def example_project_def)

lemma example_config_neq: "example_config\<lparr>SchemaVersion := 1\<rparr> \<noteq> example_config"
  by (simp add: example_config_def Defaults_def)

lemma example_config_valid1: "Validate (example_config\<lparr>SchemaVersion := 1\<rparr>) = Inr ()"
  by (simp add: validate_eval example_config_def example_machine_def example_project_def)

theorem Validate_coherent_witness:
  "TargetMachines example_project \<noteq> [] \<and> (\<exists>mach. map_of (Machines example_config) ''m1'' = Some mach \<and> 1 \<le> EffectiveCapacity mach)"
proof -
  have "Orchestrator example_config = OrchestratorSelf"
    and "map_of (Projects example_config) ''p1'' = Some example_project"
    by (simp_all add: example_config_def Defaults_def)
  from Validate_coherent [OF example_config_valid this] show ?thesis
    by (auto simp: example_project_def)
qed

theorem MutateConfig_atomic_witness:
  "config_file (snd (MutateConfig example_toml (\<lambda>c. Inr (c\<lparr>SchemaVersion := 1\<rparr>)) example_config_state)) \<noteq> Some ''one''"
proof -
  let ?fn = "\<lambda>c :: config. (Inr (c\<lparr>SchemaVersion := 1\<rparr>) :: config result)"
  have run: "MutateConfig example_toml ?fn example_config_state = (Inr (), example_config_state\<lparr>config_file := Some ''two''\<rparr>)"
    using example_config_valid example_config_valid1 example_config_neq
    by (simp add: MutateConfig_def LoadConfig_def saveLocked_def acquire_def Decode_def io_simps
        example_config_state_def example_toml_def)
  from MutateConfig_atomic [OF run] run show ?thesis
    by (auto simp: mutated_def example_config_state_def)
qed

end
