(* ===== verification/Vci_Process.thy ===== *)
theory Vci_Process
  imports Vci_Model
begin

text \<open>
  \<open>internal/process/process.go\<close>: the writer that bounds a captured log, and the execution record that
  a worker keeps for cancellation. Starting and signalling processes (\<open>Native\<close>, \<open>terminate\<close>) belongs
  to the operating system and is a parameter of the components that use it.
\<close>

section \<open>Bounded log writers\<close>

text \<open>
  The writer below is an \<open>io.Writer\<close>: from its state and the bytes it gets it returns its new state,
  the number of bytes it took, and its error. A limit is an \<open>int64\<close>; a negative limit means none.
\<close>

record 's limit_writer =
  lw_w :: 's
  lw_max :: int
  lw_n :: int
  lw_truncated :: bool

type_synonym 's writer = "'s \<Rightarrow> string \<Rightarrow> 's \<times> nat \<times> err option"

definition New :: "'s \<Rightarrow> int \<Rightarrow> 's limit_writer" where
  "New w limit = \<lparr>lw_w = w, lw_max = limit, lw_n = 0, lw_truncated = False\<rparr>"

definition Write :: "'s writer \<Rightarrow> 's limit_writer \<Rightarrow> string \<Rightarrow> 's limit_writer \<times> nat \<times> err option" where
  "Write write l p =
     (if 0 \<le> lw_max l \<and> lw_max l \<le> lw_n l then (l\<lparr>lw_truncated := True\<rparr>, length p, None)
      else
        let cut = (0 \<le> lw_max l \<and> lw_max l - lw_n l < int (length p));
            allowed = (if cut then take (nat (lw_max l - lw_n l)) p else p);
            (w', n, e) = write (lw_w l) allowed
        in (l\<lparr>lw_w := w', lw_n := wrap64 (lw_n l + int n), lw_truncated := (lw_truncated l \<or> cut)\<rparr>,
            length p, e))"

fun writes :: "'s writer \<Rightarrow> 's limit_writer \<Rightarrow> string list \<Rightarrow> 's limit_writer" where
  "writes write l [] = l"
| "writes write l (p # ps) = writes write (fst (Write write l p)) ps"

section \<open>Execution records\<close>

datatype cancellation_phase =
    CancellationNone | CancellationRequested | CancellationTerminating | CancellationReaped
  | CancellationKilled | CancellationOther string

fun phase_text :: "cancellation_phase \<Rightarrow> string" where
  "phase_text CancellationNone = []"
| "phase_text CancellationRequested = ''requested''"
| "phase_text CancellationTerminating = ''terminating''"
| "phase_text CancellationReaped = ''reaped''"
| "phase_text CancellationKilled = ''killed''"
| "phase_text (CancellationOther s) = s"

record execution =
  x_SchemaVersion :: int
  x_RunID :: run_id
  x_Owner :: string
  x_PID :: int
  x_PGID :: int
  x_StartedAt :: int
  x_CancellationRequestedAt :: "int option"
  x_CancellationPhase :: cancellation_phase

definition hex_bytes :: "nat list \<Rightarrow> string" where
  "hex_bytes bs = concat (map (\<lambda>b. [hex_digit (b div 16), hex_digit (b mod 16)]) bs)"

definition NewOwner :: "('a os_state_scheme, string) io" where
  "NewOwner = bindE (rand_read 16) (\<lambda>buf. ret (''worker-'' @ hex_bytes buf))"

definition ValidateExecution :: "execution \<Rightarrow> run_id \<Rightarrow> unit result" where
  "ValidateExecution e rid = checks
     [ensure (x_SchemaVersion e = 1)
        (Errf ''unsupported execution schema version %d'' [itoa (x_SchemaVersion e)]),
      ensure (x_RunID e = rid \<and> ValidRunID rid) (Errf ''execution run mismatch'' []),
      ensure (8 \<le> length (x_Owner e)) (Errf ''execution owner is invalid'' []),
      ensure (0 < x_PID e \<and> 0 < x_PGID e) (Errf ''execution process identity is invalid'' []),
      ensure (x_StartedAt e \<noteq> 0) (Errf ''execution start time is missing'' []),
      (case x_CancellationPhase e of
         CancellationOther s \<Rightarrow> Inl (Errf ''invalid cancellation phase %q'' [s])
       | _ \<Rightarrow> Inr ())]"

section \<open>Properties\<close>

text \<open>A writer that obeys \<open>io.Writer\<close>: it takes at most the bytes offered, and all of them unless it
  reports an error; \<open>out\<close> is what it has taken.\<close>

definition writer_ok :: "('s \<Rightarrow> string) \<Rightarrow> 's writer \<Rightarrow> bool" where
  "writer_ok out write \<longleftrightarrow> (\<forall>s p s' n e. write s p = (s', n, e) \<longrightarrow>
     n \<le> length p \<and> out s' = out s @ take n p \<and> (e = None \<longrightarrow> n = length p))"

text \<open>The counter of a limited writer is what went through, and stays within the limit.\<close>

definition lw_inv :: "('s \<Rightarrow> string) \<Rightarrow> 's limit_writer \<Rightarrow> bool" where
  "lw_inv out l \<longleftrightarrow> 0 \<le> lw_max l \<and> lw_max l < 2 ^ 63 \<and> lw_n l = int (length (out (lw_w l))) \<and> lw_n l \<le> lw_max l"

lemma Write_inv:
  assumes "writer_ok out write" and "lw_inv out l"
  shows "lw_inv out (fst (Write write l p)) \<and> lw_max (fst (Write write l p)) = lw_max l"
proof (cases "lw_max l \<le> lw_n l")
  case True
  with assms(2) show ?thesis by (simp add: Write_def lw_inv_def)
next
  case False
  define allowed where "allowed = (if lw_max l - lw_n l < int (length p) then take (nat (lw_max l - lw_n l)) p else p)"
  obtain w' n e where wr: "write (lw_w l) allowed = (w', n, e)" by (cases "write (lw_w l) allowed") auto
  with assms(1) have n: "n \<le> length allowed" and out: "out w' = out (lw_w l) @ take n allowed"
    unfolding writer_ok_def by blast+
  have "int (length allowed) \<le> lw_max l - lw_n l"
    using False by (auto simp: allowed_def min_def)
  with n assms(2) have bound: "0 \<le> lw_n l + int n" "lw_n l + int n \<le> lw_max l"
    by (auto simp: lw_inv_def)
  with assms(2) have "wrap64 (lw_n l + int n) = lw_n l + int n" by (simp add: lw_inv_def)
  with False assms(2) wr n out bound show ?thesis
    by (auto simp: Write_def lw_inv_def Let_def allowed_def)
qed

lemma writes_inv:
  assumes "writer_ok out write" and "lw_inv out l"
  shows "lw_inv out (writes write l ps) \<and> lw_max (writes write l ps) = lw_max l"
  using assms(2) by (induction ps arbitrary: l) (auto dest: Write_inv [OF assms(1)] simp: Write_inv [OF assms(1)])

text \<open>A reliable writer: \<open>Write\<close> passes the part of its input that the limit leaves room for.\<close>

lemma Write_reliable:
  assumes ok: "writer_ok out write" and inv: "lw_inv out l" and rel: "\<And>s p. snd (snd (write s p)) = None"
    and room: "out (lw_w l) = take (nat (lw_max l)) sent"
    and trunc: "lw_truncated l \<longleftrightarrow> lw_max l < int (length sent)" and ne: "p \<noteq> []"
  shows "out (lw_w (fst (Write write l p))) = take (nat (lw_max l)) (sent @ p)
    \<and> (lw_truncated (fst (Write write l p)) \<longleftrightarrow> lw_max l < int (length (sent @ p)))"
proof (cases "lw_max l \<le> lw_n l")
  case True
  with inv room have full: "nat (lw_max l) \<le> length sent"
    by (auto simp: lw_inv_def)
  then have "lw_max l < int (length (sent @ p))" using ne by (cases p) auto
  with full show ?thesis using True inv room by (auto simp: Write_def lw_inv_def)
next
  case False
  define allowed where "allowed = (if lw_max l - lw_n l < int (length p) then take (nat (lw_max l - lw_n l)) p else p)"
  obtain w' n e where wr: "write (lw_w l) allowed = (w', n, e)" by (cases "write (lw_w l) allowed") auto
  with rel [of "lw_w l" allowed] have "e = None" by simp
  with ok wr have out: "out w' = out (lw_w l) @ allowed" unfolding writer_ok_def by fastforce
  from False inv room have sent: "length sent < nat (lw_max l)" "lw_n l = int (length sent)"
    by (auto simp: lw_inv_def min_def split: if_splits)
  have "allowed = take (nat (lw_max l) - length sent) p"
    using sent by (auto simp: allowed_def nat_diff_distrib')
  with sent out room have "out w' = take (nat (lw_max l)) (sent @ p)" by simp
  moreover have "0 \<le> lw_max l" using inv by (simp add: lw_inv_def)
  ultimately show ?thesis
    using False wr sent trunc by (auto simp: Write_def Let_def allowed_def)
qed

lemma writes_reliable:
  assumes ok: "writer_ok out write" and rel: "\<And>s p. snd (snd (write s p)) = None"
  shows "lw_inv out l \<Longrightarrow> out (lw_w l) = take (nat (lw_max l)) sent \<Longrightarrow>
    (lw_truncated l \<longleftrightarrow> lw_max l < int (length sent)) \<Longrightarrow> [] \<notin> set ps \<Longrightarrow>
    out (lw_w (writes write l ps)) = take (nat (lw_max l)) (sent @ concat ps)
    \<and> (lw_truncated (writes write l ps) \<longleftrightarrow> lw_max l < int (length (sent @ concat ps)))"
proof (induction ps arbitrary: l sent)
  case Nil
  then show ?case by simp
next
  case (Cons p ps)
  from Cons.prems have ne: "p \<noteq> []" by auto
  note step = Write_reliable [OF ok Cons.prems(1) rel Cons.prems(2,3) ne] Write_inv [OF ok Cons.prems(1), of p]
  from Cons.IH [of "fst (Write write l p)" "sent @ p"] step Cons.prems(4) show ?case by auto
qed

text \<open>
  A log captured through a \<open>LimitWriter\<close> never exceeds its limit, whatever the sizes of the
  writes and whichever of them the underlying file refuses or cuts short.
\<close>

theorem log_within_limit:
  assumes "writer_ok out write" and "out w = []" and "0 \<le> limit" and "limit < 2 ^ 63"
  shows "int (length (out (lw_w (writes write (New w limit) ps)))) \<le> limit"
  using writes_inv [OF assms(1), of "New w limit" ps] assms by (auto simp: lw_inv_def New_def)

text \<open>
  When the file takes every write, the captured log is exactly the first \<open>limit\<close> bytes of the
  output, and \<open>Truncated\<close> reports exactly whether something was lost.
\<close>

theorem log_is_prefix:
  assumes "writer_ok out write" and "\<And>s p. snd (snd (write s p)) = None" and "out w = []"
    and "0 \<le> limit" and "limit < 2 ^ 63" and "[] \<notin> set ps"
  shows "out (lw_w (writes write (New w limit) ps)) = take (nat limit) (concat ps)
    \<and> (lw_truncated (writes write (New w limit) ps) \<longleftrightarrow> limit < int (length (concat ps)))"
  using writes_reliable [OF assms(1,2), of "New w limit" "[]" ps] assms by (auto simp: lw_inv_def New_def)

definition file_writer :: "string writer" where
  "file_writer s p = (s @ p, length p, None)"

lemma file_writer_ok: "writer_ok (\<lambda>s. s) file_writer"
  by (simp add: writer_ok_def file_writer_def)

theorem log_within_limit_witness:
  "length (lw_w (writes file_writer (New [] 3) [''ab'', ''cd'', ''ef''])) \<le> 3"
  using log_within_limit [OF file_writer_ok, of "[]" 3 "[''ab'', ''cd'', ''ef'']"] by simp

theorem log_is_prefix_witness:
  "lw_w (writes file_writer (New [] 3) [''ab'', ''cd'', ''ef'']) = ''abc''
    \<and> lw_truncated (writes file_writer (New [] 3) [''ab'', ''cd'', ''ef''])"
  using log_is_prefix [OF file_writer_ok, of "[]" 3 "[''ab'', ''cd'', ''ef'']"]
  by (simp add: file_writer_def)

end
