(* ===== verification/Vci_Store.thy ===== *)
theory Vci_Store
  imports Vci_Config Vci_Process
begin

text \<open>
  \<open>internal/store/store.go\<close>: the durable state of runs, and the execution files of
  \<open>internal/process\<close> that live beside it.

  The directory of runs is an association list from names to entries. A run's directory holds its
  record, lease, result and execution file, each absent, unreadable as JSON (\<open>Garbled\<close>), or a value;
  its logs and artifacts are nodes of a file tree. JSON files are replaced atomically: every call
  before the rename leaves the old contents, every failure after it leaves the new. The advisory lock
  on a run makes each operation one step; interleavings are sequences of operations.
  A file that holds \<open>Json r\<close> decodes to \<open>r\<close> for every reader of it.
\<close>

section \<open>Data\<close>

datatype node = Regular string | SymlinkTo string | Special | Folder "(string \<times> node) list"

datatype 'a json = Garbled | Json 'a

datatype 'a entry = Stray | Sub 'a

text \<open>The configuration snapshot that a run keeps (\<open>buildStagedSnapshot\<close>, \<open>runSnapshot\<close>).\<close>

record run_snapshot =
  sn_project :: string
  sn_project_config :: project
  sn_machine :: string
  sn_machines :: "machine go_map"
  sn_stdout_bytes :: int
  sn_stderr_bytes :: int
  sn_retention :: int
  sn_source_head :: string
  sn_provenance :: "string go_map option"

record run_record =
  RunSchemaVersion :: int
  ID :: run_id
  Project :: string
  Machine :: string
  State :: run_state
  SourceDigest :: string
  SourcePath :: string
  ConfigDigest :: string
  ConfigSnapshot :: "run_snapshot json"
  RunCommand :: "string list"
  QueuedAt :: int
  UpdatedAt :: int
  CancellationRequestedAt :: "int option"
  ParentRunID :: run_id
  Children :: "run_id list"

record exec_result =
  xr_ExitCode :: int
  xr_Signaled :: bool
  xr_Signal :: string
  xr_ResolvedExecutable :: string
  xr_StartedAt :: int
  xr_FinishedAt :: int

record build_result =
  br_RunID :: run_id
  br_Project :: string
  br_Machine :: string
  br_State :: run_state
  br_SourceDigest :: string
  br_ConfigDigest :: string
  br_ConfigSnapshot :: "run_snapshot json"
  br_ExitCode :: int
  br_Failure :: string
  br_StdoutPath :: string
  br_StderrPath :: string
  br_StdoutTruncated :: bool
  br_StderrTruncated :: bool
  br_Artifacts :: "string list"
  br_ArtifactsTruncated :: bool
  br_Warnings :: "string list"
  br_Executor :: exec_result

record lease =
  LeaseRunID :: run_id
  Owner :: string
  ExpiresAt :: int

record run_dir =
  run_json :: "run_record json option"
  lease_json :: "lease json option"
  result_json :: "build_result json option"
  execution_json :: "execution json option"
  log_files :: "node dir"
  artifacts_dir :: "node option"
  submission_lc :: "string option"
  cleanup_pending :: "string option"
  run_mtime :: int

definition empty_run :: "int \<Rightarrow> run_dir" where
  "empty_run now = \<lparr>run_json = None, lease_json = None, result_json = None, execution_json = None,
     log_files = [], artifacts_dir = None, submission_lc = None, cleanup_pending = None, run_mtime = now\<rparr>"

record store_state = config_state +
  runs :: "run_dir entry dir"

section \<open>The files of a run\<close>

definition not_a_directory :: err where "not_a_directory = EOs ''not a directory''"

definition entry_dir :: "run_dir entry option \<Rightarrow> run_dir result" where
  "entry_dir e = (case e of
       None \<Rightarrow> Inl ENotExist
     | Some Stray \<Rightarrow> Inl not_a_directory
     | Some (Sub d) \<Rightarrow> Inr d)"

definition entry_file :: "(run_dir \<Rightarrow> 'b option) \<Rightarrow> run_dir entry option \<Rightarrow> 'b result" where
  "entry_file f e = (case entry_dir e of
       Inl x \<Rightarrow> Inl x
     | Inr d \<Rightarrow> (case f d of None \<Rightarrow> Inl ENotExist | Some x \<Rightarrow> Inr x))"

definition read_run :: "(run_dir \<Rightarrow> 'b option) \<Rightarrow> run_id \<Rightarrow> ('a store_state_scheme, 'b) io" where
  "read_run f rid = bindE os_call (\<lambda>_. bindE (asks (\<lambda>w. entry_file f (map_of (runs w) rid))) lift_result)"

definition decode_json :: "'b json \<Rightarrow> 'b result" where
  "decode_json j = (case j of Garbled \<Rightarrow> Inl (Errf ''invalid JSON'' []) | Json x \<Rightarrow> Inr x)"

definition add_run :: "run_id \<Rightarrow> 'a store_state_scheme \<Rightarrow> 'a store_state_scheme" where
  "add_run rid w = (case map_of (runs w) rid of
       None \<Rightarrow> w\<lparr>runs := AList.update rid (Sub (empty_run (clock w))) (runs w)\<rparr>
     | Some _ \<Rightarrow> w)"

definition put_run :: "run_id \<Rightarrow> (run_dir \<Rightarrow> run_dir) \<Rightarrow> 'a store_state_scheme \<Rightarrow> 'a store_state_scheme" where
  "put_run rid upd w = (case map_of (runs w) rid of
       Some (Sub d) \<Rightarrow> w\<lparr>runs := AList.update rid (Sub ((upd d)\<lparr>run_mtime := clock w\<rparr>)) (runs w)\<rparr>
     | _ \<Rightarrow> w)"

definition in_run :: "run_id \<Rightarrow> ('a store_state_scheme, unit) io" where
  "in_run rid = bindE (asks (\<lambda>w. entry_dir (map_of (runs w) rid))) (\<lambda>e. bindE (lift_result e) (\<lambda>_. ret ()))"

text \<open>\<open>os.MkdirAll\<close> of a run's directory.\<close>

definition mkdir_run :: "run_id \<Rightarrow> ('a store_state_scheme, unit) io" where
  "mkdir_run rid = bindE os_call (\<lambda>_. bindE (modify (add_run rid)) (\<lambda>_. in_run rid))"

definition Acquire :: "run_id \<Rightarrow> ('a store_state_scheme, unit) io" where
  "Acquire rid =
     bindE (wrapE ''create lock directory: %w'' [] (mkdir_run rid)) (\<lambda>_.
     bindE (wrapE ''open lock: %w'' [] os_call) (\<lambda>_.
     wrapE ''lock: %w'' [] os_call))"

text \<open>Create a temporary file, chmod, write, sync, close, rename, then sync the directory.\<close>

definition atomicJSON :: "run_id \<Rightarrow> (run_dir \<Rightarrow> run_dir) \<Rightarrow> ('a store_state_scheme, unit) io" where
  "atomicJSON rid upd =
     bindE os_call (\<lambda>_. bindE (in_run rid) (\<lambda>_. bindE (calls 5) (\<lambda>_.
     bindE (modify (put_run rid upd)) (\<lambda>_. sync_parent))))"

definition atomicPrivateJSON :: "run_id \<Rightarrow> (run_dir \<Rightarrow> run_dir) \<Rightarrow> ('a store_state_scheme, unit) io" where
  "atomicPrivateJSON rid upd =
     bindE (mkdir_run rid) (\<lambda>_. bindE os_call (\<lambda>_. bindE (in_run rid) (\<lambda>_. bindE (calls 5) (\<lambda>_.
     bindE (modify (put_run rid upd)) (\<lambda>_. calls 2)))))"

definition WriteExecution :: "run_id \<Rightarrow> execution \<Rightarrow> ('a store_state_scheme, unit) io" where
  "WriteExecution rid e =
     bindE (lift_result (ValidateExecution e (x_RunID e))) (\<lambda>_.
     atomicPrivateJSON rid (execution_json_update (\<lambda>_. Some (Json e))))"

definition ReadExecution :: "run_id \<Rightarrow> ('a store_state_scheme, execution) io" where
  "ReadExecution rid =
     bindE (read_run execution_json rid) (\<lambda>j.
     bindE (wrapE ''decode execution: %w'' [] (lift_result (decode_json j))) (\<lambda>e.
     bindE (lift_result (ValidateExecution e rid)) (\<lambda>_. ret e)))"

definition RemoveExecution :: "run_id \<Rightarrow> ('a store_state_scheme, unit) io" where
  "RemoveExecution rid =
     bindE (attempt (read_run execution_json rid)) (\<lambda>r. case r of
       Inl e \<Rightarrow> if IsNotExist e then ret () else throw e
     | Inr _ \<Rightarrow> modify (put_run rid (execution_json_update (\<lambda>_. None))))"

section \<open>Run records\<close>

fun hex_text :: "nat \<Rightarrow> string" where
  "hex_text n = (if n < 16 then [hex_digit n] else hex_text (n div 16) @ [hex_digit (n mod 16)])"

declare hex_text.simps [simp del]

definition newID :: "int \<Rightarrow> ('a os_state_scheme, run_id) io" where
  "newID now = bindE (rand_read 6) (\<lambda>random.
     ret (''run_'' @ (if now < 0 then ''-'' else []) @ hex_text (nat \<bar>now\<bar>) @ ''_'' @ hex_bytes random))"

definition NewRunID :: "int \<Rightarrow> ('a os_state_scheme, run_id) io" where
  "NewRunID now = newID now"

text \<open>\<open>digest\<close> is the hexadecimal SHA-256 of the snapshot's JSON text.\<close>

definition newRun :: "(run_snapshot \<Rightarrow> string) \<Rightarrow> run_id \<Rightarrow> string \<Rightarrow> string \<Rightarrow> string list \<Rightarrow> string \<Rightarrow> run_snapshot
    \<Rightarrow> run_state \<Rightarrow> int \<Rightarrow> run_record result" where
  "newRun digest rid project machine command sourceDigest snapshot state now =
     (if \<not> ValidRunID rid then Inl (Errf ''invalid run id %q'' [rid])
      else Inr \<lparr>RunSchemaVersion = 1, ID = rid, Project = project, Machine = machine, State = state,
        SourceDigest = sourceDigest, SourcePath = [], ConfigDigest = digest snapshot,
        ConfigSnapshot = Json snapshot, RunCommand = command, QueuedAt = now, UpdatedAt = now,
        CancellationRequestedAt = None, ParentRunID = [], Children = []\<rparr>)"

definition NewRunFromID :: "(run_snapshot \<Rightarrow> string) \<Rightarrow> run_id \<Rightarrow> string \<Rightarrow> string \<Rightarrow> string list \<Rightarrow> string \<Rightarrow> run_snapshot
    \<Rightarrow> int \<Rightarrow> run_record result" where
  "NewRunFromID digest rid project machine command sourceDigest snapshot now =
     newRun digest rid project machine command sourceDigest snapshot RunQueued now"

definition NewStagedRunFromID :: "(run_snapshot \<Rightarrow> string) \<Rightarrow> run_id \<Rightarrow> string \<Rightarrow> string \<Rightarrow> string list \<Rightarrow> string
    \<Rightarrow> run_snapshot \<Rightarrow> int \<Rightarrow> run_record result" where
  "NewStagedRunFromID digest rid project machine command sourceDigest snapshot now =
     newRun digest rid project machine command sourceDigest snapshot RunStaging now"

definition NewRun :: "(run_snapshot \<Rightarrow> string) \<Rightarrow> string \<Rightarrow> string \<Rightarrow> string list \<Rightarrow> string \<Rightarrow> run_snapshot \<Rightarrow> int
    \<Rightarrow> ('a os_state_scheme, run_record) io" where
  "NewRun digest project machine command sourceDigest snapshot now =
     bindE (newID now) (\<lambda>rid. lift_result (NewRunFromID digest rid project machine command sourceDigest snapshot now))"

definition NewParentRun :: "(run_snapshot \<Rightarrow> string) \<Rightarrow> run_id \<Rightarrow> string \<Rightarrow> string list \<Rightarrow> run_id list \<Rightarrow> run_snapshot
    \<Rightarrow> int \<Rightarrow> run_record result" where
  "NewParentRun digest rid project command children snapshot now =
     (case newRun digest rid project [] command [] snapshot RunQueued now of
        Inl e \<Rightarrow> Inl e
      | Inr r \<Rightarrow> Inr (r\<lparr>Children := children\<rparr>))"

definition validateRecord :: "run_record \<Rightarrow> unit result" where
  "validateRecord r = checks
     [ensure (RunSchemaVersion r = 1) (Errf ''unsupported run schema version %d'' [itoa (RunSchemaVersion r)]),
      ensure (ValidRunID (ID r) \<and> Valid (State r)) (Errf ''invalid run record %q'' [ID r])]"

definition runDir :: "run_id \<Rightarrow> ('s, unit) io" where
  "runDir rid = guard (ValidName rid) (Errf ''invalid run id %q'' [rid])"

definition saveUnlocked :: "run_record \<Rightarrow> ('a store_state_scheme, unit) io" where
  "saveUnlocked r =
     bindE (lift_result (validateRecord r)) (\<lambda>_.
     bindE (runDir (ID r)) (\<lambda>_.
     atomicJSON (ID r) (run_json_update (\<lambda>_. Some (Json r)))))"

definition Save :: "run_record \<Rightarrow> ('a store_state_scheme, unit) io" where
  "Save r =
     bindE (lift_result (validateRecord r)) (\<lambda>_.
     bindE (runDir (ID r)) (\<lambda>_.
     bindE (mkdir_run (ID r)) (\<lambda>_.
     bindE (Acquire (ID r)) (\<lambda>_.
     saveUnlocked r))))"

definition loadPath :: "run_id \<Rightarrow> ('a store_state_scheme, run_record) io" where
  "loadPath rid =
     bindE (read_run run_json rid) (\<lambda>j.
     bindE (wrapE ''decode run: %w'' [] (lift_result (decode_json j))) (\<lambda>r.
     bindE (guard (ID r = rid) (Errf ''invalid run record %q'' [rid])) (\<lambda>_.
     bindE (lift_result (validateRecord r)) (\<lambda>_. ret r))))"

definition Load :: "run_id \<Rightarrow> ('a store_state_scheme, run_record) io" where
  "Load rid =
     bindE (guard (ValidRunID rid) (Errf ''invalid run id %q'' [rid])) (\<lambda>_.
     bindE (runDir rid) (\<lambda>_.
     loadPath rid))"

definition Mutate :: "run_id \<Rightarrow> (run_record \<Rightarrow> ('a store_state_scheme, run_record) io)
    \<Rightarrow> ('a store_state_scheme, run_record) io" where
  "Mutate rid fn =
     bindE (runDir rid) (\<lambda>_.
     bindE (Acquire rid) (\<lambda>_.
     bindE (loadPath rid) (\<lambda>before.
     bindE (fn before) (\<lambda>r.
     bindE (guard (\<not> (IsTerminal (State before) \<and> before \<noteq> r)) (Errf ''terminal run %s is immutable'' [rid])) (\<lambda>_.
     bindE (lift_result (validateRecord r)) (\<lambda>_.
     bindE (saveUnlocked r) (\<lambda>_. ret r)))))))"

definition transitionRecord :: "run_state \<Rightarrow> int \<Rightarrow> run_record \<Rightarrow> run_record result" where
  "transitionRecord to now r =
     (case Transition (State r) to of Inl e \<Rightarrow> Inl e | Inr _ \<Rightarrow> Inr (r\<lparr>State := to, UpdatedAt := now\<rparr>))"

definition StoreTransition :: "run_id \<Rightarrow> run_state \<Rightarrow> int \<Rightarrow> ('a store_state_scheme, run_record) io" where
  "StoreTransition rid to now = Mutate rid (\<lambda>r. lift_result (transitionRecord to now r))"

definition cancelRecord :: "run_id \<Rightarrow> int \<Rightarrow> run_record \<Rightarrow> ('a store_state_scheme, run_record) io" where
  "cancelRecord rid now r =
     (if State r = RunSucceeded \<or> State r = RunFailed \<or> State r = RunAborted
      then throw (Errf ''run %s cannot be cancelled from state %s'' [rid, state_text (State r)])
      else if CancellationRequestedAt r \<noteq> None then ret r
      else
        bindE (runDir rid) (\<lambda>_.
        bindE (attempt (ReadExecution rid)) (\<lambda>x.
        bindE (case x of
            Inl _ \<Rightarrow> ret ()
          | Inr e \<Rightarrow> WriteExecution rid
              (e\<lparr>x_CancellationRequestedAt := Some now, x_CancellationPhase := CancellationRequested\<rparr>)) (\<lambda>_.
        ret (r\<lparr>CancellationRequestedAt := Some now, UpdatedAt := now\<rparr>)))))"

definition RequestCancellation :: "run_id \<Rightarrow> int \<Rightarrow> ('a store_state_scheme, run_record) io" where
  "RequestCancellation rid now = Mutate rid (cancelRecord rid now)"

definition PublishResult :: "run_id \<Rightarrow> build_result \<Rightarrow> ('a store_state_scheme, unit) io" where
  "PublishResult rid v =
     bindE (runDir rid) (\<lambda>_.
     bindE (Acquire rid) (\<lambda>_.
     bindE (loadPath rid) (\<lambda>r.
     bindE (guard (\<not> IsTerminal (State r)) (Errf ''run %s is terminal'' [rid])) (\<lambda>_.
     bindE (attempt (read_run result_json rid)) (\<lambda>x. case x of
         Inr _ \<Rightarrow> throw (Errf ''run %s already has a result'' [rid])
       | Inl e \<Rightarrow> if \<not> IsNotExist e then throw e
                  else atomicJSON rid (result_json_update (\<lambda>_. Some (Json v))))))))"

definition ReadResult :: "run_id \<Rightarrow> ('a store_state_scheme, build_result json) io" where
  "ReadResult rid = bindE (runDir rid) (\<lambda>_. read_run result_json rid)"

section \<open>Scans\<close>

definition list_runs :: "('a store_state_scheme, string list) io" where
  "list_runs = bindE os_call (\<lambda>_. asks (\<lambda>w.
     filter (\<lambda>n. case map_of (runs w) n of Some (Sub _) \<Rightarrow> True | _ \<Rightarrow> False) (dir_names (runs w))))"

definition LoadQueuedChildren :: "('a store_state_scheme, run_record list) io" where
  "LoadQueuedChildren = bindE list_runs (foldE (\<lambda>out n.
     if \<not> ValidRunID n then ret out
     else bindE (attempt (Load n)) (\<lambda>x. case x of
         Inl _ \<Rightarrow> ret out
       | Inr r \<Rightarrow> ret (out @ (if State r = RunQueued \<and> ParentRunID r \<noteq> [] then [r] else [])))) [])"

definition LoadChildren :: "run_id \<Rightarrow> ('a store_state_scheme, run_record list) io" where
  "LoadChildren parent = bindE (Load parent) (\<lambda>p. foldE (\<lambda>out c.
     bindE (attempt (Load c)) (\<lambda>x. case x of Inl _ \<Rightarrow> ret out | Inr r \<Rightarrow> ret (out @ [r]))) [] (Children p))"

fun live_loop :: "string list \<Rightarrow> ('a store_state_scheme, run_id option) io" where
  "live_loop [] = ret None"
| "live_loop (n # ns) = bindE (attempt (read_run run_json n)) (\<lambda>x. case x of
       Inr (Json m) \<Rightarrow> if ParentRunID m = [] \<or> IsTerminal (State m) then live_loop ns
                       else ret (Some (ParentRunID m))
     | _ \<Rightarrow> live_loop ns)"

definition HasLiveBuild :: "('a store_state_scheme, run_id option) io" where
  "HasLiveBuild = bindE (attempt list_runs) (\<lambda>x. case x of Inl _ \<Rightarrow> ret None | Inr ns \<Rightarrow> live_loop ns)"

record tally =
  t_failed :: nat
  t_lost :: nat
  t_aborted :: nat
  t_unavailable :: nat
  t_terminal :: nat

fun tally_states :: "tally \<Rightarrow> run_state list \<Rightarrow> tally option" where
  "tally_states t [] = Some t"
| "tally_states t (s # ss) =
     (if \<not> IsTerminal s then None
      else let t1 = t\<lparr>t_terminal := t_terminal t + 1\<rparr> in
        tally_states (case s of
            RunFailed \<Rightarrow> t1\<lparr>t_failed := t_failed t + 1\<rparr>
          | RunLost \<Rightarrow> t1\<lparr>t_lost := t_lost t + 1\<rparr>
          | RunAborted \<Rightarrow> t1\<lparr>t_aborted := t_aborted t + 1\<rparr>
          | RunUnavailable \<Rightarrow> t1\<lparr>t_unavailable := t_unavailable t + 1\<rparr>
          | _ \<Rightarrow> t1) ss)"

definition AggregateState :: "run_record list \<Rightarrow> bool \<Rightarrow> run_state \<times> bool" where
  "AggregateState children parentAborted =
     (if parentAborted then (RunAborted, False)
      else case tally_states \<lparr>t_failed = 0, t_lost = 0, t_aborted = 0, t_unavailable = 0, t_terminal = 0\<rparr>
          (map State children) of
          None \<Rightarrow> (RunAggregating, False)
        | Some t \<Rightarrow>
            if t_terminal t = 0 then (RunAggregating, False)
            else if 0 < t_failed t \<or> 0 < t_lost t \<or> 0 < t_aborted t then (RunFailed, False)
            else (RunSucceeded, t_unavailable t = t_terminal t))"

section \<open>Leases\<close>

definition read_lease :: "run_id \<Rightarrow> ('a store_state_scheme, lease) io" where
  "read_lease rid = bindE (read_run lease_json rid) (\<lambda>j. lift_result (decode_json j))"

definition put_lease :: "run_id \<Rightarrow> lease \<Rightarrow> ('a store_state_scheme, unit) io" where
  "put_lease rid v = atomicJSON rid (lease_json_update (\<lambda>_. Some (Json v)))"

definition ClaimLease :: "run_id \<Rightarrow> string \<Rightarrow> int \<Rightarrow> int \<Rightarrow> ('a store_state_scheme, unit) io" where
  "ClaimLease rid owner now ttl =
     bindE (runDir rid) (\<lambda>_.
     bindE (mkdir_run rid) (\<lambda>_.
     bindE (Acquire rid) (\<lambda>_.
     bindE (attempt (read_lease rid)) (\<lambda>x.
     bindE (guard (case x of Inr v \<Rightarrow> \<not> now < ExpiresAt v | Inl _ \<Rightarrow> True)
       (Errf ''run %s is leased by %s'' [rid, case x of Inr v \<Rightarrow> Owner v | Inl _ \<Rightarrow> []])) (\<lambda>_.
     put_lease rid \<lparr>LeaseRunID = rid, Owner = owner, ExpiresAt = now + ttl\<rparr>)))))"

definition RenewLease :: "run_id \<Rightarrow> string \<Rightarrow> int \<Rightarrow> int \<Rightarrow> ('a store_state_scheme, unit) io" where
  "RenewLease rid owner now ttl =
     bindE (runDir rid) (\<lambda>_.
     bindE (Acquire rid) (\<lambda>_.
     bindE (read_lease rid) (\<lambda>v.
     bindE (guard (Owner v = owner \<and> now < ExpiresAt v) (Errf ''lease for %s is not owned by %s'' [rid, owner])) (\<lambda>_.
     put_lease rid (v\<lparr>ExpiresAt := now + ttl\<rparr>)))))"

definition ReleaseLease :: "run_id \<Rightarrow> string \<Rightarrow> ('a store_state_scheme, unit) io" where
  "ReleaseLease rid owner =
     bindE (runDir rid) (\<lambda>_.
     bindE (Acquire rid) (\<lambda>_.
     bindE (read_lease rid) (\<lambda>v.
     bindE (guard (Owner v = owner) (Errf ''lease for %s is not owned by %s'' [rid, owner])) (\<lambda>_.
     bindE os_call (\<lambda>_.
     modify (put_run rid (lease_json_update (\<lambda>_. None))))))))"

definition ReadLease :: "run_id \<Rightarrow> ('a store_state_scheme, lease) io" where
  "ReadLease rid = bindE (runDir rid) (\<lambda>_. read_lease rid)"

definition ReadHasNoLease :: "run_id \<Rightarrow> ('a store_state_scheme, bool) io" where
  "ReadHasNoLease rid = bindE (attempt (bindE (runDir rid) (\<lambda>_. attempt (read_run lease_json rid)))) (\<lambda>x.
     ret (case x of Inl _ \<Rightarrow> False | Inr (Inl e) \<Rightarrow> IsNotExist e | Inr (Inr _) \<Rightarrow> False))"

end
