(* ===== verification/Vci_Store_Laws.thy ===== *)
theory Vci_Store_Laws
  imports Vci_Store
begin

text \<open>
  What the store's operations guarantee, on every fault path.

  \<open>run_file f w rid\<close> is what a reader of one file of a run finds. \<open>idle\<close> is the effect of taking a
  run's lock and reading: at most an empty directory appears. The locale \<open>run_files\<close> states, for a
  file \<open>f\<close> and a condition \<open>P\<close>, that contents satisfying \<open>P\<close> are never replaced; the store's files
  are its interpretations. Sequences of lease operations are the step relation \<open>lease_steps\<close>.
\<close>

section \<open>Views of the state\<close>

definition run_file :: "(run_dir \<Rightarrow> 'b option) \<Rightarrow> 'a store_state_scheme \<Rightarrow> run_id \<Rightarrow> 'b option" where
  "run_file f w rid = (case map_of (runs w) rid of Some (Sub d) \<Rightarrow> f d | _ \<Rightarrow> None)"

text \<open>The record \<open>Load\<close> returns when the disk can be read.\<close>

definition record_of :: "'a store_state_scheme \<Rightarrow> run_id \<Rightarrow> run_record option" where
  "record_of w rid = (case run_file run_json w rid of
       Some (Json r) \<Rightarrow> if ValidRunID rid \<and> ID r = rid \<and> validateRecord r = Inr () then Some r else None
     | _ \<Rightarrow> None)"

lemma run_file_quiet: "quiet w w' \<Longrightarrow> run_file f w' rid = run_file f w rid"
  by (auto simp: quiet_def run_file_def)

lemma record_of_quiet: "quiet w w' \<Longrightarrow> record_of w' rid = record_of w rid"
  by (simp add: record_of_def run_file_quiet)

lemma run_file_put_run:
  "run_file f (put_run rid upd w) r =
     (if r = rid then (case map_of (runs w) rid of Some (Sub d) \<Rightarrow> f ((upd d)\<lparr>run_mtime := clock w\<rparr>) | _ \<Rightarrow> None)
      else run_file f w r)"
  by (auto simp: run_file_def put_run_def update_conv' split: option.splits entry.splits)

lemma run_file_Some: "run_file f w rid = Some x \<longleftrightarrow> (\<exists>d. map_of (runs w) rid = Some (Sub d) \<and> f d = Some x)"
  by (auto simp: run_file_def split: option.splits entry.splits)

text \<open>Taking a lock and reading.\<close>

definition idle :: "'a store_state_scheme \<Rightarrow> 'a store_state_scheme \<Rightarrow> bool" where
  "idle w w' \<longleftrightarrow> w'\<lparr>faults := [], entropy := [], runs := []\<rparr> = w\<lparr>faults := [], entropy := [], runs := []\<rparr>
     \<and> (\<forall>rid. map_of (runs w') rid = map_of (runs w) rid
          \<or> (map_of (runs w) rid = None \<and> map_of (runs w') rid = Some (Sub (empty_run (clock w)))))"

lemma idle_field:
  assumes "idle w w'" and "\<And>u fs bs rs. g (u\<lparr>faults := fs, entropy := bs, runs := rs\<rparr>) = g u"
  shows "g w' = g w"
proof -
  from assms(1) have "g (w'\<lparr>faults := [], entropy := [], runs := []\<rparr>) = g (w\<lparr>faults := [], entropy := [], runs := []\<rparr>)"
    by (simp only: idle_def)
  with assms(2) show ?thesis by simp
qed

lemma idle_clock: "idle w w' \<Longrightarrow> clock w' = clock w"
  by (erule idle_field) simp

interpretation idle: os_guarantee idle
proof
  fix u v w :: "'a store_state_scheme"
  show "idle w w" by (simp add: idle_def)
  assume uv: "idle u v" and vw: "idle v w"
  then have "clock v = clock u" by (simp add: idle_clock)
  with uv vw show "idle u w" unfolding idle_def by metis
next
  fix w :: "'a store_state_scheme" and fs bs
  show "idle w (w\<lparr>faults := fs\<rparr>)" and "idle w (w\<lparr>entropy := bs\<rparr>)" by (simp_all add: idle_def)
qed

lemma quiet_idle: "quiet w w' \<Longrightarrow> idle (w :: 'a store_state_scheme) w'"
  by (auto simp: quiet_def idle_def)

lemma idle_run_file:
  assumes "idle w w'" and "f (empty_run (clock w)) = None"
  shows "run_file f w' rid = run_file f w rid"
proof -
  from assms(1) have "map_of (runs w') rid = map_of (runs w) rid
      \<or> (map_of (runs w) rid = None \<and> map_of (runs w') rid = Some (Sub (empty_run (clock w))))"
    by (simp add: idle_def)
  with assms(2) show ?thesis by (auto simp: run_file_def)
qed

lemma idle_record_of: "idle w w' \<Longrightarrow> record_of w' rid = record_of w rid"
  by (simp add: record_of_def idle_run_file empty_run_def)

lemma idle_add_run [always_intro]: "always idle (modify (add_run rid))"
  by (auto simp: always_def modify_def idle_def add_run_def update_conv' split: option.split)

lemma idle_in_run [always_intro]: "always idle (in_run rid)"
  unfolding in_run_def by (intro always_intro)

lemma idle_mkdir_run [always_intro]: "always idle (mkdir_run rid)"
  unfolding mkdir_run_def by (intro always_intro)

lemma idle_Acquire [always_intro]: "always idle (Acquire rid)"
  unfolding Acquire_def by (intro always_intro)

lemma read_run_quiet [always_intro]: "always quiet (read_run f rid)"
  unfolding read_run_def by (intro always_intro)

lemma idle_runDir [always_intro]: "always idle (runDir rid)"
  unfolding runDir_def by (intro always_intro)

lemma quiet_runDir [always_intro]: "always quiet (runDir rid)"
  unfolding runDir_def by (intro always_intro)

lemma quiet_loadPath [always_intro]: "always quiet (loadPath rid)"
  unfolding loadPath_def by (intro always_intro)

lemma quiet_Load [always_intro]: "always quiet (Load rid)"
  unfolding Load_def by (intro always_intro)

lemma quiet_list_runs [always_intro]: "always quiet list_runs"
  unfolding list_runs_def by (intro always_intro)

lemma quiet_LoadQueuedChildren [always_intro]: "always quiet LoadQueuedChildren"
  unfolding LoadQueuedChildren_def by (intro always_intro)

lemma quiet_LoadChildren [always_intro]: "always quiet (LoadChildren rid)"
  unfolding LoadChildren_def by (intro always_intro)

lemma quiet_read_lease [always_intro]: "always quiet (read_lease rid)"
  unfolding read_lease_def by (intro always_intro)

lemma quiet_ReadExecution [always_intro]: "always quiet (ReadExecution rid)"
  unfolding ReadExecution_def by (intro always_intro)

lemma entry_file_Inr: "entry_file f e = Inr x \<longleftrightarrow> (\<exists>d. e = Some (Sub d) \<and> f d = Some x)"
  by (auto simp: entry_file_def entry_dir_def split: option.splits entry.splits)

lemma decode_json_Inr [simp]: "decode_json j = Inr x \<longleftrightarrow> j = Json x"
  by (cases j) (auto simp: decode_json_def)

lemma read_run_Inr:
  assumes "read_run f rid w = (Inr x, w')"
  shows "run_file f w rid = Some x"
proof -
  have "run_file f w' rid = Some x"
    using assms by (auto simp: read_run_def bindE_Inr run_file_Some entry_file_Inr)
  with run_file_quiet [OF alwaysD [OF read_run_quiet assms], of f rid] show ?thesis by simp
qed

lemma loadPath_Inr:
  assumes "loadPath rid w = (Inr r, w')"
  shows "run_file run_json w rid = Some (Json r) \<and> ID r = rid \<and> validateRecord r = Inr () \<and> quiet w w'"
  using assms alwaysD [OF quiet_loadPath assms]
  by (auto simp: loadPath_def bindE_Inr dest: read_run_Inr)

lemma Load_Inr:
  assumes "Load rid w = (Inr r, w')"
  shows "record_of w rid = Some r \<and> quiet w w'"
proof -
  from assms obtain "ValidRunID rid" and "loadPath rid w = (Inr r, w')"
    by (auto simp: Load_def bindE_Inr runDir_def)
  moreover have "ValidName rid" by (rule ValidRunID_ValidName) fact
  ultimately show ?thesis by (auto dest!: loadPath_Inr simp: record_of_def)
qed

lemma Load_ok:
  assumes "faults w = []" and "record_of w rid = Some r"
  shows "Load rid w = (Inr r, w)"
proof -
  from assms(2) obtain d where "map_of (runs w) rid = Some (Sub d)" and "run_json d = Some (Json r)"
      and "ValidRunID rid" and "ID r = rid" and "validateRecord r = Inr ()"
    by (auto simp: record_of_def run_file_Some split: option.splits json.splits if_splits)
  with assms(1) ValidRunID_ValidName show ?thesis
    by (simp add: Load_def runDir_def loadPath_def read_run_def decode_json_def bindE_def guard_def ret_def
        asks_def wrapE_def lift_result_def entry_file_def entry_dir_def)
qed

section \<open>Replacing a file\<close>

lemma put_run_os: "put_run rid upd (w\<lparr>faults := fs, entropy := bs\<rparr>) = (put_run rid upd w)\<lparr>faults := fs, entropy := bs\<rparr>"
  by (simp add: put_run_def split: option.split entry.split)

lemma quiet_put_run: "quiet w w1 \<Longrightarrow> quiet (put_run rid upd w) (put_run rid upd w1)"
  unfolding quiet_def using put_run_os by blast

lemma in_run_eq: "in_run rid w = (r, w') \<longleftrightarrow> map_sum (\<lambda>e. e) (\<lambda>_. ()) (entry_dir (map_of (runs w) rid)) = r \<and> w' = w"
  by (cases "entry_dir (map_of (runs w) rid)") (auto simp: in_run_def bindE_def asks_def lift_result_def ret_def)

lemma atomicJSON_cases:
  assumes "atomicJSON rid upd w = (res, w')"
  obtains e where "quiet w w'" and "res = Inl e"
  | d where "quiet (put_run rid upd w) w'" and "map_of (runs w) rid = Some (Sub d)"
  using assms unfolding atomicJSON_def
proof (elim bindE_cases)
  fix e assume "os_call w = (Inl e, w')" "res = Inl e"
  then show thesis using that(1) by (blast dest: os_call_quiet)
next
  fix e u w1 assume "os_call w = (Inr u, w1)" "in_run rid w1 = (Inl e, w')" "res = Inl e"
  then show thesis using that(1) by (auto simp: in_run_eq dest: os_call_quiet)
next
  fix e u v w1 w2
  assume "os_call w = (Inr u, w1)" "in_run rid w1 = (Inr v, w2)" "calls 5 w2 = (Inl e, w')" "res = Inl e"
  then show thesis using that(1) by (auto simp: in_run_eq dest!: os_call_quiet calls_quiet intro: quiet.trans)
next
  fix e u v x w1 w2 w3
  assume "modify (put_run rid upd) w3 = (Inl e, w')"
  then show thesis by simp
next
  fix u v x y w1 w2 w3 w4
  assume a: "os_call w = (Inr u, w1)" "in_run rid w1 = (Inr v, w2)" "calls 5 w2 = (Inr x, w3)"
    "modify (put_run rid upd) w3 = (Inr y, w4)" "sync_parent w4 = (res, w')"
  then have "quiet w w3" by (auto simp: in_run_eq dest!: os_call_quiet calls_quiet intro: quiet.trans)
  then have "quiet (put_run rid upd w) (put_run rid upd w3)" by (rule quiet_put_run)
  with a have "quiet (put_run rid upd w) w'" by (auto dest!: sync_parent_quiet intro: quiet.trans)
  moreover from a have "\<exists>d. map_of (runs w) rid = Some (Sub d)"
    by (auto simp: in_run_eq entry_dir_def quiet_def dest!: os_call_quiet split: option.splits entry.splits)
  ultimately show thesis using that(2) by blast
qed

section \<open>Files that are never replaced\<close>

definition keeps_file :: "(run_dir \<Rightarrow> 'b option) \<Rightarrow> (run_id \<Rightarrow> 'b \<Rightarrow> bool) \<Rightarrow> 'a store_state_scheme \<Rightarrow> 'a store_state_scheme \<Rightarrow> bool" where
  "keeps_file f P w w' \<longleftrightarrow> (\<forall>rid x. run_file f w rid = Some x \<and> P rid x \<longrightarrow> run_file f w' rid = Some x)"

lemma keeps_file_refl [simp]: "keeps_file f P w w"
  by (simp add: keeps_file_def)

locale run_files =
  fixes f :: "run_dir \<Rightarrow> 'b option"
  assumes mtime: "f (d\<lparr>run_mtime := t\<rparr>) = f d"
    and fresh: "f (empty_run t) = None"
begin

lemma idle_kept: "idle w w' \<Longrightarrow> keeps_file f P w w'"
  using fresh by (simp add: keeps_file_def idle_run_file)

lemma always_idle_kept: "always idle m \<Longrightarrow> always (keeps_file f P) m"
  by (erule always_mono) (rule idle_kept)

lemma always_quiet_kept: "always quiet m \<Longrightarrow> always (keeps_file f P) m"
  by (erule always_mono) (blast intro: idle_kept quiet_idle)

lemma read_kept: "read_run g rid w = (x, w') \<Longrightarrow> keeps_file f P w w'"
  by (rule alwaysD [OF always_quiet_kept [OF read_run_quiet]])

lemma quiet_kept_trans: "quiet u v \<Longrightarrow> keeps_file f P v w \<Longrightarrow> keeps_file f P u w"
  by (simp add: keeps_file_def run_file_quiet)

lemmas always_basic [always_intro] = always_idle_kept [OF idle_runDir] always_idle_kept [OF idle_mkdir_run]
  always_idle_kept [OF idle_Acquire] always_idle_kept [OF idle_in_run] always_quiet_kept [OF read_run_quiet]
  always_quiet_kept [OF quiet_loadPath] always_quiet_kept [OF quiet_Load] always_quiet_kept [OF quiet_list_runs]
  always_quiet_kept [OF quiet_LoadQueuedChildren] always_quiet_kept [OF quiet_LoadChildren]
  always_quiet_kept [OF quiet_read_lease] always_quiet_kept [OF quiet_ReadExecution]

lemma put_run_kept:
  assumes "\<And>d x. map_of (runs w) rid = Some (Sub d) \<Longrightarrow> f d = Some x \<Longrightarrow> P rid x \<Longrightarrow> f (upd d) = Some x"
  shows "keeps_file f P w (put_run rid upd w)"
  using assms by (auto simp: keeps_file_def run_file_put_run run_file_Some mtime split: if_splits option.splits entry.splits)

lemma atomicJSON_kept:
  assumes "atomicJSON rid upd w = (res, w')"
    and "\<And>d x. map_of (runs w) rid = Some (Sub d) \<Longrightarrow> f d = Some x \<Longrightarrow> P rid x \<Longrightarrow> f (upd d) = Some x"
  shows "keeps_file f P w w'"
  using assms(1)
proof (cases rule: atomicJSON_cases)
  case (1 e)
  then show ?thesis by (blast intro: idle_kept quiet_idle)
next
  case (2 d)
  from put_run_kept [OF assms(2)] have "keeps_file f P w (put_run rid upd w)" .
  with 2 show ?thesis by (simp add: keeps_file_def run_file_quiet)
qed

lemma always_atomicJSON_other [always_intro]:
  "(\<And>d. f (upd d) = f d) \<Longrightarrow> always (keeps_file f P) (atomicJSON rid upd)"
  by (rule alwaysI) (erule atomicJSON_kept, simp)

lemma always_put_run_other [always_intro]:
  "(\<And>d. f (upd d) = f d) \<Longrightarrow> always (keeps_file f P) (modify (put_run rid upd))"
  by (auto simp: always_def modify_def intro: put_run_kept)

lemma always_saveUnlocked_other:
  "(\<And>d x. f (run_json_update (\<lambda>_. x) d) = f d) \<Longrightarrow> always (keeps_file f P) (saveUnlocked r)"
  by (rule alwaysI) (auto simp: saveUnlocked_def runDir_def elim!: bindE_cases
      dest!: atomicJSON_kept [where P = P])

end

sublocale run_files \<subseteq> kept: os_guarantee "keeps_file f P" for P
proof
  fix u v w :: "'c store_state_scheme"
  show "keeps_file f P w w" by (simp add: keeps_file_def)
  assume "keeps_file f P u v" and "keeps_file f P v w"
  then show "keeps_file f P u w" by (simp add: keeps_file_def)
next
  fix w :: "'c store_state_scheme" and fs bs
  show "keeps_file f P w (w\<lparr>faults := fs\<rparr>)" and "keeps_file f P w (w\<lparr>entropy := bs\<rparr>)"
    by (simp_all add: keeps_file_def run_file_def)
qed

interpretation rec_file: run_files run_json
  by unfold_locales (simp_all add: empty_run_def)

interpretation result_file: run_files result_json
  by unfold_locales (simp_all add: empty_run_def)

interpretation lease_file: run_files lease_json
  by unfold_locales (simp_all add: empty_run_def)

interpretation execution_file: run_files execution_json
  by unfold_locales (simp_all add: empty_run_def)

section \<open>Mutation of a record\<close>

lemma validateRecord_name: "validateRecord r = Inr () \<Longrightarrow> ValidName (ID r)"
  by (simp add: validateRecord_def ValidRunID_ValidName)

lemma saveUnlocked_eq:
  "validateRecord r = Inr () \<Longrightarrow> saveUnlocked r = atomicJSON (ID r) (run_json_update (\<lambda>_. Some (Json r)))"
  by (simp add: saveUnlocked_def runDir_def validateRecord_name bindE_def lift_result_def guard_def ret_def fun_eq_iff)

lemma record_of_iff:
  "record_of w rid = Some r \<longleftrightarrow> run_file run_json w rid = Some (Json r) \<and> ID r = rid \<and> validateRecord r = Inr ()"
  by (auto simp: record_of_def validateRecord_def split: option.splits json.splits if_splits)

lemma lock_idle:
  "runDir rid w = (Inr u, w1) \<Longrightarrow> Acquire rid w1 = (v, w2) \<Longrightarrow> idle w w2"
  by (blast dest: alwaysD [OF idle_runDir] alwaysD [OF idle_Acquire] intro: idle.trans)

lemma lock_load:
  assumes "runDir rid w = (Inr u, w1)" and "Acquire rid w1 = (Inr v, w2)" and "loadPath rid w2 = (Inr r, w3)"
  shows "idle w w3 \<and> record_of w rid = Some r \<and> record_of w3 rid = Some r"
proof -
  have w2: "idle w w2" by (rule lock_idle [OF assms(1,2)])
  with assms(3) have w3: "idle w w3" by (blast dest: alwaysD [OF quiet_loadPath] intro: idle.trans quiet_idle)
  from assms(3) have "record_of w2 rid = Some r" by (auto simp: record_of_iff dest: loadPath_Inr)
  with w2 w3 show ?thesis by (simp add: idle_record_of)
qed

text \<open>Operations that lock a run and load its record, then continue with it.\<close>

lemma locked_cases:
  assumes "bindE (runDir rid) (\<lambda>_. bindE (Acquire rid) (\<lambda>_. bindE (loadPath rid) k)) w = (res, w')"
  obtains (lock) e where "idle w w'" and "res = Inl e"
  | (body) r w1 where "idle w w1" and "record_of w1 rid = Some r" and "k r w1 = (res, w')"
  using assms
proof (cases rule: bindE_cases)
  case (error e)
  then show ?thesis using lock by (blast dest: alwaysD [OF idle_runDir])
next
  case (step u w1)
  note u = step(1)
  from step(2) show ?thesis
  proof (cases rule: bindE_cases)
    case (error e)
    with u show ?thesis using lock by (blast dest: lock_idle)
  next
    case (step v w2)
    note v = step(1)
    from step(2) show ?thesis
    proof (cases rule: bindE_cases)
      case (error e)
      with u v show ?thesis
        using lock by (blast dest: lock_idle alwaysD [OF quiet_loadPath] intro: idle.trans quiet_idle)
    next
      case (step r w3)
      with u v show ?thesis using body by (blast dest: lock_load)
    qed
  qed
qed

lemma save_checked_cases:
  assumes "bindE (guard (\<not> (IsTerminal (State before) \<and> before \<noteq> r)) d) (\<lambda>_.
     bindE (lift_result (validateRecord r)) (\<lambda>_. bindE (saveUnlocked r) (\<lambda>_. ret r))) w = (res, w')"
  shows "(w' = w \<and> (\<exists>e. res = Inl e)) \<or> ((IsTerminal (State before) \<longrightarrow> r = before) \<and> validateRecord r = Inr ()
    \<and> (\<exists>q. atomicJSON (ID r) (run_json_update (\<lambda>_. Some (Json r))) w = (q, w')
         \<and> res = (case q of Inl e \<Rightarrow> Inl e | Inr _ \<Rightarrow> Inr r)))"
proof (cases "IsTerminal (State before) \<and> before \<noteq> r")
  case True
  with assms show ?thesis by (auto simp: bindE_def guard_def throw_def)
next
  case False
  show ?thesis
  proof (cases "validateRecord r")
    case (Inl e)
    with False assms show ?thesis by (auto simp: bindE_def guard_def ret_def lift_result_def)
  next
    case (Inr u)
    obtain q w1 where q: "atomicJSON (ID r) (run_json_update (\<lambda>_. Some (Json r))) w = (q, w1)" by force
    with Inr False assms show ?thesis
      by (auto simp: bindE_def guard_def ret_def lift_result_def saveUnlocked_eq split: sum.splits)
  qed
qed

lemma Mutate_cases:
  assumes "Mutate rid fn w = (res, w')"
  obtains (lock) e where "idle w w'" and "res = Inl e"
  | (callback) before w1 e where "idle w w1" and "record_of w1 rid = Some before"
      and "fn before w1 = (Inl e, w')" and "res = Inl e"
  | (refused) before w1 r e where "idle w w1" and "record_of w1 rid = Some before"
      and "fn before w1 = (Inr r, w')" and "res = Inl e"
  | (save) before w1 r w2 q where "idle w w1" and "record_of w1 rid = Some before"
      and "fn before w1 = (Inr r, w2)" and "IsTerminal (State before) \<Longrightarrow> r = before"
      and "validateRecord r = Inr ()"
      and "atomicJSON (ID r) (run_json_update (\<lambda>_. Some (Json r))) w2 = (q, w')"
      and "res = (case q of Inl e \<Rightarrow> Inl e | Inr _ \<Rightarrow> Inr r)"
  using assms unfolding Mutate_def
proof (cases rule: locked_cases)
  case (lock e)
  then show ?thesis by (rule that(1))
next
  case (body before w1)
  from body(3) show ?thesis
  proof (cases rule: bindE_cases)
    case (error e)
    show ?thesis by (rule callback [OF body(1,2) error])
  next
    case (step r w2)
    from save_checked_cases [OF step(2)] show ?thesis
    proof (elim disjE conjE exE)
      fix e
      assume "w' = w2" and "res = Inl e"
      with step(1) show ?thesis by (intro refused [OF body(1,2)]) simp_all
    next
      fix q
      assume "IsTerminal (State before) \<longrightarrow> r = before" and "validateRecord r = Inr ()"
        and "atomicJSON (ID r) (run_json_update (\<lambda>_. Some (Json r))) w2 = (q, w')"
        and "res = (case q of Inl e \<Rightarrow> Inl e | Inr _ \<Rightarrow> Inr r)"
      then show ?thesis by (intro save [OF body(1,2) step(1)]) simp_all
    qed
  qed
qed

definition terminal_json :: "run_id \<Rightarrow> run_record json \<Rightarrow> bool" where
  "terminal_json rid j = (case j of Json r \<Rightarrow> IsTerminal (State r) | Garbled \<Rightarrow> False)"

text \<open>A callback that leaves every record alone and returns a record of the same run.\<close>

definition tame :: "(run_record \<Rightarrow> ('a store_state_scheme, run_record) io) \<Rightarrow> bool" where
  "tame fn \<longleftrightarrow> (\<forall>b. always (keeps_file run_json (\<lambda>_ _. True)) (fn b))
     \<and> (\<forall>b w r w'. fn b w = (Inr r, w') \<longrightarrow> ID r = ID b)"

lemma keeps_file_weaken: "keeps_file f (\<lambda>_ _. True) w w' \<Longrightarrow> keeps_file f P w w'"
  by (simp add: keeps_file_def)

lemma Mutate_terminal:
  assumes "tame fn"
  shows "always (keeps_file run_json terminal_json) (Mutate rid fn)"
proof (rule alwaysI)
  fix w res w'
  assume "Mutate rid fn w = (res, w')"
  then show "keeps_file run_json terminal_json w w'"
  proof (cases rule: Mutate_cases)
    case lock
    then show ?thesis by (simp add: rec_file.idle_kept)
  next
    case (callback before w1 e)
    with assms have "keeps_file run_json (\<lambda>_ _. True) w1 w'" by (auto simp: tame_def dest: alwaysD)
    with callback(1) show ?thesis by (blast intro: rec_file.kept.trans rec_file.idle_kept keeps_file_weaken)
  next
    case (refused before w1 r e)
    with assms have "keeps_file run_json (\<lambda>_ _. True) w1 w'" by (auto simp: tame_def dest: alwaysD)
    with refused(1) show ?thesis by (blast intro: rec_file.kept.trans rec_file.idle_kept keeps_file_weaken)
  next
    case (save before w1 r w2 q)
    with assms have w12: "keeps_file run_json (\<lambda>_ _. True) w1 w2" and "ID r = ID before"
      unfolding tame_def by (blast dest: alwaysD)+
    with save(2) have rid: "ID r = rid" and "run_file run_json w2 rid = Some (Json before)"
      by (auto simp: keeps_file_def record_of_iff)
    then have "keeps_file run_json terminal_json w2 w'"
      by (intro rec_file.atomicJSON_kept [OF save(6)])
        (auto simp: run_file_Some terminal_json_def dest: save(4))
    with w12 rec_file.idle_kept [OF save(1), of "\<lambda>_ _. True"] show ?thesis by (simp add: keeps_file_def)
  qed
qed

lemma tame_pure: "(\<And>b r. fn b = Inr r \<Longrightarrow> ID r = ID b) \<Longrightarrow> tame (\<lambda>b. lift_result (fn b))"
  unfolding tame_def by (intro conjI allI rec_file.kept.always_lift_result) auto

lemma tame_transition: "tame (\<lambda>b. lift_result (transitionRecord to now b))"
  by (rule tame_pure) (auto simp: transitionRecord_def split: sum.splits)

lemma always_WriteExecution_rec [always_intro]: "always (keeps_file run_json P) (WriteExecution rid e)"
  unfolding WriteExecution_def atomicPrivateJSON_def by (intro always_intro) simp

lemma tame_cancel: "tame (cancelRecord rid now)"
  unfolding tame_def cancelRecord_def
  by (intro conjI allI always_intro) (auto simp: bindE_Inr split: if_splits)

text \<open>Operations on the other files of a run leave the records alone.\<close>

lemma put_lease_rec [always_intro]: "always (keeps_file run_json P) (put_lease rid v)"
  unfolding put_lease_def by (intro always_intro) simp

lemma ClaimLease_rec [always_intro]: "always (keeps_file run_json P) (ClaimLease rid owner now ttl)"
  unfolding ClaimLease_def by (intro always_intro)

lemma RenewLease_rec [always_intro]: "always (keeps_file run_json P) (RenewLease rid owner now ttl)"
  unfolding RenewLease_def by (intro always_intro)

lemma ReleaseLease_rec [always_intro]: "always (keeps_file run_json P) (ReleaseLease rid owner)"
  unfolding ReleaseLease_def by (intro always_intro) simp

lemma RemoveExecution_rec [always_intro]: "always (keeps_file run_json P) (RemoveExecution rid)"
  unfolding RemoveExecution_def by (intro always_intro) simp

lemma PublishResult_rec [always_intro]: "always (keeps_file run_json P) (PublishResult rid v)"
  unfolding PublishResult_def by (intro always_intro) simp

lemma Mutate_result [always_intro]:
  "(\<And>b. always (keeps_file result_json P) (fn b)) \<Longrightarrow> always (keeps_file result_json P) (Mutate rid fn)"
  unfolding Mutate_def by (intro always_intro result_file.always_saveUnlocked_other) simp_all

lemma cancelRecord_result [always_intro]: "always (keeps_file result_json P) (cancelRecord rid now b)"
  unfolding cancelRecord_def WriteExecution_def atomicPrivateJSON_def by (intro always_intro) simp

lemma Save_result [always_intro]: "always (keeps_file result_json P) (Save r)"
  unfolding Save_def by (intro always_intro result_file.always_saveUnlocked_other) simp

lemma read_run_missing:
  assumes "read_run f rid w = (Inl e, w')" and "IsNotExist e"
  shows "run_file f w' rid = None"
  using assms
  by (auto simp: read_run_def bindE_Inl os_call_def entry_file_def entry_dir_def not_a_directory_def run_file_def
      split: list.splits option.splits entry.splits sum.splits)

lemma read_run_missing_before:
  "read_run f rid w = (Inl e, w') \<Longrightarrow> IsNotExist e \<Longrightarrow> run_file f w rid = None"
  using read_run_missing [of f rid w e w'] run_file_quiet [of w w' f rid] alwaysD [OF read_run_quiet, of f rid w]
  by simp

lemma PublishResult_once: "always (keeps_file result_json (\<lambda>_ _. True)) (PublishResult rid v)"
proof (rule alwaysI)
  fix w res w'
  assume "PublishResult rid v w = (res, w')"
  then show "keeps_file result_json (\<lambda>_ _. True) w w'"
    unfolding PublishResult_def
  proof (cases rule: locked_cases)
    case lock
    then show ?thesis by (simp add: result_file.idle_kept)
  next
    case (body r w1)
    have "keeps_file result_json (\<lambda>_ _. True) w2 w'"
      if "read_run result_json rid w1 = (Inl e, w2)" "IsNotExist e"
        "atomicJSON rid (result_json_update (\<lambda>_. Some (Json v))) w2 = (res, w')" for e w2
      using read_run_missing [OF that(1,2)] by (intro result_file.atomicJSON_kept [OF that(3)]) (simp add: run_file_def)
    then have "keeps_file result_json (\<lambda>_ _. True) w1 w'"
      using body(3)
      by (auto simp: attempt_eq split: sum.splits if_splits elim!: bindE_cases
          dest!: result_file.read_kept [where P = "\<lambda>_ _. True"] simp: keeps_file_def)
    with body(1) show ?thesis by (blast intro: result_file.kept.trans result_file.idle_kept)
  qed
qed

section \<open>Interleavings of operations\<close>

text \<open>
  One step of the coordinator on its store: a run operation with any outcome, a \<open>Save\<close> (of a new record
  or over one that can still change), or the passing of time (with the faults still to come). The \<open>Save\<close> of
  a record over a terminal one is not a step: the store does not refuse it (\<open>terminal_saved_over\<close> below).
\<close>

inductive store_step :: "'a store_state_scheme \<Rightarrow> 'a store_state_scheme \<Rightarrow> bool" where
  mutate: "(\<And>b r. fn b = Inr r \<Longrightarrow> ID r = ID b) \<Longrightarrow> Mutate rid (\<lambda>b. lift_result (fn b)) w = (res, w') \<Longrightarrow> store_step w w'"
| cancel: "RequestCancellation rid now w = (res, w') \<Longrightarrow> store_step w w'"
| publish: "PublishResult rid v w = (res', w') \<Longrightarrow> store_step w w'"
| claim: "ClaimLease rid owner now ttl w = (res', w') \<Longrightarrow> store_step w w'"
| renew: "RenewLease rid owner now ttl w = (res', w') \<Longrightarrow> store_step w w'"
| release: "ReleaseLease rid owner w = (res', w') \<Longrightarrow> store_step w w'"
| execution: "WriteExecution rid e w = (res', w') \<Longrightarrow> store_step w w'"
| executed: "RemoveExecution rid w = (res', w') \<Longrightarrow> store_step w w'"
| save: "(\<And>j. run_file run_json w (ID r) = Some j \<Longrightarrow> \<not> terminal_json (ID r) j) \<Longrightarrow> Save r w = (res', w')
    \<Longrightarrow> store_step w w'"
| environment: "store_step w (w\<lparr>clock := t, faults := fs, entropy := bs\<rparr>)"

lemma Save_over:
  assumes "\<And>j. run_file run_json w (ID r) = Some j \<Longrightarrow> \<not> P (ID r) j" and "Save r w = (res, w')"
  shows "keeps_file run_json P w w'"
proof -
  have saved: "keeps_file run_json P w1 w'" if w1: "idle w w1" and sv: "saveUnlocked r w1 = (res, w')" for w1
  proof (cases "validateRecord r = Inr ()")
    case True
    have "run_file run_json w1 (ID r) = run_file run_json w (ID r)"
      using w1 by (simp add: idle_run_file empty_run_def)
    with assms(1) have "\<not> P (ID r) j" if "run_file run_json w1 (ID r) = Some j" for j using that by simp
    with sv show ?thesis
      unfolding saveUnlocked_eq [OF True] by (elim rec_file.atomicJSON_kept) (auto simp: run_file_def)
  next
    case False
    with sv show ?thesis
      by (cases "validateRecord r") (auto simp: saveUnlocked_def bindE_def lift_result_def)
  qed
  from assms(2) have "idle w w' \<or> (\<exists>w1. idle w w1 \<and> saveUnlocked r w1 = (res, w'))"
    unfolding Save_def
    by (auto simp: runDir_def elim!: bindE_cases dest!: alwaysD [OF idle_mkdir_run] alwaysD [OF idle_Acquire]
        intro: idle.refl idle.trans) (blast intro: idle.trans)
  then consider "idle w w'" | w1 where "idle w w1" and "saveUnlocked r w1 = (res, w')" by blast
  then show ?thesis
  proof cases
    case 1
    then show ?thesis by (rule rec_file.idle_kept)
  next
    case (2 w1)
    with saved rec_file.idle_kept [OF 2(1), of P] show ?thesis by (simp add: keeps_file_def)
  qed
qed

lemma store_step_terminal: "store_step w w' \<Longrightarrow> keeps_file run_json terminal_json w w'"
proof (induction rule: store_step.induct)
  case (mutate fn rid w res w')
  then show ?case by (blast intro: alwaysD [OF Mutate_terminal] tame_pure)
next
  case (cancel rid now w res w')
  then show ?case unfolding RequestCancellation_def by (blast intro: alwaysD [OF Mutate_terminal] tame_cancel)
next
  case (save w r res' w')
  from save(2) show ?case by (rule Save_over [rotated]) (rule save(1))
next
  case (environment w t fs bs)
  show ?case by (simp add: keeps_file_def run_file_def)
qed (blast dest: alwaysD [OF PublishResult_rec] alwaysD [OF ClaimLease_rec] alwaysD [OF RenewLease_rec]
    alwaysD [OF ReleaseLease_rec] alwaysD [OF always_WriteExecution_rec] alwaysD [OF RemoveExecution_rec])+

lemma store_step_result: "store_step w w' \<Longrightarrow> keeps_file result_json (\<lambda>_ _. True) w w'"
proof (induction rule: store_step.induct)
  case (mutate fn rid w res w')
  from mutate(2) show ?case by (rule alwaysD [rotated]) (intro always_intro)
next
  case (cancel rid now w res w')
  then show ?case unfolding RequestCancellation_def by (rule alwaysD [rotated]) (intro always_intro)
next
  case (publish rid v w res' w')
  then show ?case by (rule alwaysD [OF PublishResult_once])
next
  case (claim rid owner now ttl w res' w')
  then show ?case unfolding ClaimLease_def put_lease_def by (rule alwaysD [rotated]) (intro always_intro, simp)
next
  case (renew rid owner now ttl w res' w')
  then show ?case unfolding RenewLease_def put_lease_def by (rule alwaysD [rotated]) (intro always_intro, simp)
next
  case (release rid owner w res' w')
  then show ?case unfolding ReleaseLease_def by (rule alwaysD [rotated]) (intro always_intro, simp)
next
  case (execution rid e w res' w')
  then show ?case unfolding WriteExecution_def atomicPrivateJSON_def by (rule alwaysD [rotated]) (intro always_intro, simp)
next
  case (executed rid w res' w')
  then show ?case unfolding RemoveExecution_def by (rule alwaysD [rotated]) (intro always_intro, simp)
next
  case (save w r res' w')
  show ?case by (rule alwaysD [OF Save_result save(2)])
next
  case (environment w t fs bs)
  show ?case by (simp add: keeps_file_def run_file_def)
qed

lemma store_steps_terminal: "store_step\<^sup>*\<^sup>* w w' \<Longrightarrow> keeps_file run_json terminal_json w w'"
  by (induction rule: rtranclp_induct) (auto dest: store_step_terminal intro: rec_file.kept.trans)

lemma store_steps_result: "store_step\<^sup>*\<^sup>* w w' \<Longrightarrow> keeps_file result_json (\<lambda>_ _. True) w w'"
  by (induction rule: rtranclp_induct) (auto dest: store_step_result intro: result_file.kept.trans)

text \<open>
  C2: A terminal run record is immutable under the operations that read a record before they write it, and
  under everything else but one: no sequence of transitions and other mutations, cancellations, publications,
  lease operations, execution records and \<open>Save\<close>s of other records or over records that are not terminal,
  whatever their order, arguments and failures, changes any field of it. The one operation left out is a
  \<open>Save\<close> over the terminal record itself, which the store does not refuse (\<open>terminal_saved_over\<close>); the code
  can reach it when an abort falls between the two \<open>Save\<close>s of \<open>PrepareFromSubmission\<close>.
\<close>

theorem terminal_forever:
  assumes "store_step\<^sup>*\<^sup>* w w'" and "record_of w rid = Some r" and "IsTerminal (State r)"
  shows "record_of w' rid = Some r"
  using store_steps_terminal [OF assms(1)] assms(2,3)
  by (auto simp: record_of_iff keeps_file_def terminal_json_def)

text \<open>
  C23: A run's result is published at most once: a result file, once there, stays as it is through
  every sequence of store operations, and every later \<open>PublishResult\<close> for the run fails.
\<close>

theorem result_published_once:
  assumes "store_step\<^sup>*\<^sup>* w w'" and "run_file result_json w rid = Some v"
  shows "run_file result_json w' rid = Some v \<and> (\<forall>u res w''. PublishResult rid u w' = (res, w'') \<longrightarrow>
    (\<exists>e. res = Inl e) \<and> run_file result_json w'' rid = Some v)"
proof -
  have v: "run_file result_json w' rid = Some v"
    using store_steps_result [OF assms(1)] assms(2) by (simp add: keeps_file_def)
  have "(\<exists>e. res = Inl e) \<and> run_file result_json w'' rid = Some v" if p: "PublishResult rid u w' = (res, w'')" for u res w''
  proof
    show "run_file result_json w'' rid = Some v"
      using alwaysD [OF PublishResult_once p] v by (simp add: keeps_file_def)
    show "\<exists>e. res = Inl e"
      using p unfolding PublishResult_def
    proof (cases rule: locked_cases)
      case (body r w1)
      from body(1) v have "run_file result_json w1 rid = Some v" by (simp add: idle_run_file empty_run_def)
      with body(3) show ?thesis
        by (auto simp: attempt_eq elim!: bindE_cases split: sum.splits if_splits)
          (frule (1) read_run_missing_before, simp)
    qed simp
  qed
  with v show ?thesis by blast
qed

section \<open>Undisturbed runs\<close>

text \<open>What the operations do when no call fails.\<close>

lemma in_run_ok: "map_of (runs w) rid = Some (Sub d) \<Longrightarrow> in_run rid w = (Inr (), w)"
  by (simp add: in_run_eq entry_dir_def)

lemma add_run_ok: "map_of (runs w) rid = Some (Sub d) \<Longrightarrow> add_run rid w = w"
  by (simp add: add_run_def)

lemma mkdir_run_ok: "faults w = [] \<Longrightarrow> map_of (runs w) rid = Some (Sub d) \<Longrightarrow> mkdir_run rid w = (Inr (), w)"
  by (simp add: mkdir_run_def bindE_def modify_def add_run_ok in_run_ok)

lemma Acquire_ok: "faults w = [] \<Longrightarrow> map_of (runs w) rid = Some (Sub d) \<Longrightarrow> Acquire rid w = (Inr (), w)"
  by (simp add: Acquire_def bindE_def wrapE_def mkdir_run_ok)

lemma read_run_ok: "faults w = [] \<Longrightarrow> read_run f rid w = (entry_file f (map_of (runs w) rid), w)"
  by (simp add: read_run_def bindE_def asks_def lift_result_def)

lemma faults_put_run [simp]: "faults (put_run rid upd w) = faults w"
  by (simp add: put_run_def split: option.split entry.split)

lemma atomicJSON_ok:
  "faults w = [] \<Longrightarrow> map_of (runs w) rid = Some (Sub d) \<Longrightarrow> atomicJSON rid upd w = (Inr (), put_run rid upd w)"
  by (simp add: atomicJSON_def bindE_def modify_def in_run_ok)

lemma runDir_ok: "ValidName rid \<Longrightarrow> runDir rid w = (Inr (), w)"
  by (simp add: runDir_def)

lemma ClaimLease_ok:
  assumes "faults w = []" and "map_of (runs w) rid = Some (Sub d)" and "ValidName rid"
  shows "ClaimLease rid owner now ttl w =
    (case lease_json d of
       Some (Json v) \<Rightarrow> if now < ExpiresAt v then (Inl (Errf ''run %s is leased by %s'' [rid, Owner v]), w)
         else put_lease rid \<lparr>LeaseRunID = rid, Owner = owner, ExpiresAt = now + ttl\<rparr> w
     | _ \<Rightarrow> put_lease rid \<lparr>LeaseRunID = rid, Owner = owner, ExpiresAt = now + ttl\<rparr> w)"
  using assms
  by (auto simp: ClaimLease_def bindE_def runDir_ok mkdir_run_ok Acquire_ok attempt_def read_lease_def read_run_ok
      entry_file_def entry_dir_def lift_result_def decode_json_def guard_def ret_def throw_def
      split: option.splits json.splits)

lemma put_lease_ok:
  "faults w = [] \<Longrightarrow> map_of (runs w) rid = Some (Sub d) \<Longrightarrow>
    put_lease rid v w = (Inr (), put_run rid (lease_json_update (\<lambda>_. Some (Json v))) w)"
  by (simp add: put_lease_def atomicJSON_ok)

text \<open>\<open>Save\<close> does not look at the record it replaces, which may be terminal.\<close>

lemma terminal_saved_over:
  assumes "faults w = []" and "record_of w (ID r) = Some old" and "IsTerminal (State old)" and "validateRecord r = Inr ()"
  shows "\<exists>w'. Save r w = (Inr (), w') \<and> record_of w' (ID r) = Some r"
proof -
  from assms(2) obtain d where d: "map_of (runs w) (ID r) = Some (Sub d)" and valid: "ValidRunID (ID r)"
    by (auto simp: record_of_def run_file_Some split: option.splits json.splits if_splits)
  let ?w = "put_run (ID r) (run_json_update (\<lambda>_. Some (Json r))) w"
  have "Save r w = (Inr (), ?w)"
    using assms(1,4) d ValidRunID_ValidName [OF valid]
    by (simp add: Save_def bindE_def runDir_ok mkdir_run_ok Acquire_ok saveUnlocked_eq atomicJSON_ok lift_result_def)
  moreover have "record_of ?w (ID r) = Some r"
    using d valid assms(4) by (simp add: record_of_def run_file_put_run)
  ultimately show ?thesis by blast
qed

section \<open>Leases exclude other workers\<close>

text \<open>
  The steps of others while a lease of \<open>owner\<close> runs until \<open>T\<close>: lease operations of other workers on
  any run at times before \<open>T\<close>, operations on records, results and execution files, and the passing of time,
  on every fault path but one. \<open>Claim\<close> takes a lease file that it cannot read for one that is not there, so
  a claim is a step only when it can read the file if there is one: \<open>reads_lease\<close> runs its calls up to the
  read, and any later call, or an earlier one, may fail (\<open>unread_lease_claimed\<close> is the step left out).
\<close>

definition lock_run :: "run_id \<Rightarrow> ('a store_state_scheme, unit) io" where
  "lock_run rid = bindE (runDir rid) (\<lambda>_. bindE (mkdir_run rid) (\<lambda>_. Acquire rid))"

definition reads_lease :: "run_id \<Rightarrow> 'a store_state_scheme \<Rightarrow> bool" where
  "reads_lease rid w = (case lock_run rid w of
       (Inl e, w1) \<Rightarrow> True
     | (Inr _, w1) \<Rightarrow> run_file lease_json w1 rid = None \<or> \<not> isl (fst (read_run lease_json rid w1)))"

lemma idle_lock_run: "always idle (lock_run rid)"
  unfolding lock_run_def by (intro always_intro)

lemma reads_lease_ok: "faults w = [] \<Longrightarrow> reads_lease rid w"
proof -
  assume f: "faults w = []"
  have "always spent (lock_run rid)"
    unfolding lock_run_def Acquire_def mkdir_run_def in_run_def runDir_def
    by (intro always_intro) (simp_all add: add_run_def split: option.split)
  then have "faults w1 = []" if "lock_run rid w = (x, w1)" for x w1 using that f by (rule spentD)
  then show ?thesis
    by (auto simp: reads_lease_def read_run_ok run_file_def entry_file_def entry_dir_def split: prod.split sum.split option.splits entry.splits)
qed

text \<open>A claim of a run either fails without a write, or writes a lease over none or over one that has expired.\<close>

lemma ClaimLease_cases:
  assumes "ClaimLease rid other now ttl w = (res, w')" and "reads_lease rid w"
  obtains (refused) e where "res = Inl e" and "idle w w'"
  | (written) w1 where "idle w w1" and "put_lease rid \<lparr>LeaseRunID = rid, Owner = other, ExpiresAt = now + ttl\<rparr> w1 = (res, w')"
      and "\<And>v. run_file lease_json w rid = Some (Json v) \<Longrightarrow> \<not> now < ExpiresAt v"
proof -
  obtain x w1 where lk: "lock_run rid w = (x, w1)" by force
  have i1: "idle w w1" using idle_lock_run lk by (rule alwaysD)
  have same: "run_file lease_json w1 rid = run_file lease_json w rid" using i1 by (simp add: idle_run_file empty_run_def)
  have eq: "ClaimLease rid other now ttl w = bindE (lock_run rid) (\<lambda>_.
      bindE (attempt (read_lease rid)) (\<lambda>x.
      bindE (guard (case x of Inr v \<Rightarrow> \<not> now < ExpiresAt v | Inl _ \<Rightarrow> True)
        (Errf ''run %s is leased by %s'' [rid, case x of Inr v \<Rightarrow> Owner v | Inl _ \<Rightarrow> []])) (\<lambda>_.
      put_lease rid \<lparr>LeaseRunID = rid, Owner = other, ExpiresAt = now + ttl\<rparr>))) w"
    unfolding ClaimLease_def lock_run_def by (simp add: bindE_def split: prod.split sum.split)
  show thesis
  proof (cases x)
    case (Inl e)
    with assms(1) lk i1 show thesis by (intro refused) (auto simp: eq bindE_def)
  next
    case (Inr u)
    obtain y w2 where rd: "read_lease rid w1 = (y, w2)" by force
    have q: "quiet w1 w2" using quiet_read_lease rd by (rule alwaysD)
    have i2: "idle w w2" using i1 q by (blast intro: idle.trans quiet_idle)
    show thesis
    proof (cases "case y of Inr v \<Rightarrow> \<not> now < ExpiresAt v | Inl _ \<Rightarrow> True")
      case False
      with assms(1) lk Inr rd i2 show thesis
        by (cases y) (auto simp: eq bindE_def attempt_def guard_def throw_def intro: refused)
    next
      case True
      have "\<not> now < ExpiresAt v" if v: "run_file lease_json w rid = Some (Json v)" for v
      proof -
        have "\<not> isl (fst (read_run lease_json rid w1))"
          using assms(2) lk Inr v same by (simp add: reads_lease_def)
        then obtain j w3 where j: "read_run lease_json rid w1 = (Inr j, w3)"
          by (cases "read_run lease_json rid w1"; cases "fst (read_run lease_json rid w1)") auto
        then have "j = Json v" using read_run_Inr [OF j] same v by simp
        with rd j have "y = Inr v" by (simp add: read_lease_def bindE_def lift_result_def decode_json_def)
        with True show ?thesis by simp
      qed
      moreover have "put_lease rid \<lparr>LeaseRunID = rid, Owner = other, ExpiresAt = now + ttl\<rparr> w2 = (res, w')"
        using assms(1) lk Inr rd True by (auto simp: eq bindE_def attempt_def guard_def ret_def)
      ultimately show thesis using i2 by (intro written)
    qed
  qed
qed

inductive foreign_step :: "string \<Rightarrow> int \<Rightarrow> 'a store_state_scheme \<Rightarrow> 'a store_state_scheme \<Rightarrow> bool" for owner T where
  claim: "reads_lease rid w \<Longrightarrow> now < T \<Longrightarrow> ClaimLease rid other now ttl w = (res, w') \<Longrightarrow> foreign_step owner T w w'"
| renew: "other \<noteq> owner \<Longrightarrow> RenewLease rid other now ttl w = (res, w') \<Longrightarrow> foreign_step owner T w w'"
| release: "other \<noteq> owner \<Longrightarrow> ReleaseLease rid other w = (res, w') \<Longrightarrow> foreign_step owner T w w'"
| transition: "StoreTransition rid to now w = (res', w') \<Longrightarrow> foreign_step owner T w w'"
| cancel: "RequestCancellation rid now w = (res', w') \<Longrightarrow> foreign_step owner T w w'"
| publish: "PublishResult rid v w = (res, w') \<Longrightarrow> foreign_step owner T w w'"
| save: "Save r w = (res, w') \<Longrightarrow> foreign_step owner T w w'"
| execution: "WriteExecution rid e w = (res, w') \<Longrightarrow> foreign_step owner T w w'"
| executed: "RemoveExecution rid w = (res, w') \<Longrightarrow> foreign_step owner T w w'"
| environment: "foreign_step owner T w (w\<lparr>clock := t, faults := fs, entropy := bs\<rparr>)"

definition held :: "string \<Rightarrow> int \<Rightarrow> run_id \<Rightarrow> lease json \<Rightarrow> bool" where
  "held owner T rid j = (case j of Json v \<Rightarrow> Owner v = owner \<and> ExpiresAt v = T | Garbled \<Rightarrow> False)"

lemma Mutate_lease [always_intro]:
  "(\<And>b. always (keeps_file lease_json P) (fn b)) \<Longrightarrow> always (keeps_file lease_json P) (Mutate rid fn)"
  unfolding Mutate_def by (intro always_intro lease_file.always_saveUnlocked_other) simp_all

lemma lease_cases:
  assumes "bindE (runDir rid) (\<lambda>_. bindE (Acquire rid) (\<lambda>_. bindE (read_lease rid) k)) w = (res, w')"
  obtains (lock) e where "idle w w'" and "res = Inl e"
  | (body) v w1 where "idle w w1" and "run_file lease_json w1 rid = Some (Json v)" and "k v w1 = (res, w')"
  using assms
proof (cases rule: bindE_cases)
  case (error e)
  then show ?thesis using lock by (blast dest: alwaysD [OF idle_runDir])
next
  case (step u w1)
  note u = step(1)
  from step(2) show ?thesis
  proof (cases rule: bindE_cases)
    case (error e)
    with u show ?thesis using lock by (blast dest: lock_idle)
  next
    case (step x w2)
    note x = step(1)
    have w2: "idle w w2" by (rule lock_idle [OF u x])
    from step(2) show ?thesis
    proof (cases rule: bindE_cases)
      case (error e)
      with w2 show ?thesis
        using lock by (blast dest: alwaysD [OF quiet_read_lease] intro: idle.trans quiet_idle)
    next
      case (step v w3)
      have q: "quiet w2 w3" by (rule alwaysD [OF quiet_read_lease step(1)])
      from step(1) have "run_file lease_json w2 rid = Some (Json v)"
        by (auto simp: read_lease_def bindE_Inr dest: read_run_Inr)
      with q have "run_file lease_json w3 rid = Some (Json v)" by (simp add: run_file_quiet)
      moreover have "idle w w3" using w2 q by (blast intro: idle.trans quiet_idle)
      ultimately show ?thesis using step(2) body by blast
    qed
  qed
qed

lemma RenewLease_foreign:
  assumes "RenewLease rid other now ttl w = (res, w')" and "other \<noteq> owner"
  shows "keeps_file lease_json (held owner T) w w'"
  using assms(1) unfolding RenewLease_def
proof (cases rule: lease_cases)
  case lock
  then show ?thesis by (simp add: lease_file.idle_kept)
next
  case (body v w1)
  from body(2,3) assms(2) have "keeps_file lease_json (held owner T) w1 w'"
    by (auto simp: put_lease_def elim!: bindE_cases lease_file.atomicJSON_kept)
      (auto simp: held_def run_file_Some)
  with body(1) show ?thesis by (blast intro: lease_file.kept.trans lease_file.idle_kept)
qed

lemma ReleaseLease_foreign:
  assumes "ReleaseLease rid other w = (res, w')" and "other \<noteq> owner"
  shows "keeps_file lease_json (held owner T) w w'"
  using assms(1) unfolding ReleaseLease_def
proof (cases rule: lease_cases)
  case lock
  then show ?thesis by (simp add: lease_file.idle_kept)
next
  case (body v w1)
  have "keeps_file lease_json (held owner T) w2 (put_run rid (lease_json_update (\<lambda>_. None)) w2)"
    if "quiet w1 w2" "Owner v = other" for w2
    using body(2) that assms(2)
    by (intro lease_file.put_run_kept) (auto simp: held_def run_file_Some quiet_def)
  with body(2,3) assms(2) have "keeps_file lease_json (held owner T) w1 w'"
    by (auto elim!: bindE_cases dest!: os_call_quiet intro: lease_file.idle_kept quiet_idle lease_file.quiet_kept_trans)
  with body(1) show ?thesis by (blast intro: lease_file.kept.trans lease_file.idle_kept)
qed

lemma ClaimLease_foreign:
  assumes "ClaimLease rid other now ttl w = (res, w')" and "reads_lease rid w" and "now < T"
  shows "keeps_file lease_json (held owner T) w w'"
  using assms(1,2)
proof (cases rule: ClaimLease_cases)
  case refused
  then show ?thesis by (simp add: lease_file.idle_kept)
next
  case (written w1)
  have "\<not> held owner T rid x" if "map_of (runs w1) rid = Some (Sub d)" "lease_json d = Some x" for d x
  proof -
    from that have "run_file lease_json w1 rid = Some x" by (simp add: run_file_def)
    with written(1) have "run_file lease_json w rid = Some x" by (simp add: idle_run_file empty_run_def)
    with written(3) assms(3) show ?thesis by (auto simp: held_def split: json.split)
  qed
  then have "keeps_file lease_json (held owner T) w1 w'"
    using written(2) unfolding put_lease_def by (elim lease_file.atomicJSON_kept) blast
  with written(1) show ?thesis by (blast intro: lease_file.kept.trans lease_file.idle_kept)
qed

lemma foreign_step_held: "foreign_step owner T w w' \<Longrightarrow> keeps_file lease_json (held owner T) w w'"
proof (induction rule: foreign_step.induct)
  case (claim rid w now other ttl res w')
  then show ?case by (blast intro: ClaimLease_foreign)
next
  case (renew other rid now ttl w res w')
  then show ?case by (blast intro: RenewLease_foreign)
next
  case (release other rid w res w')
  then show ?case by (blast intro: ReleaseLease_foreign)
next
  case (transition rid to now w res' w')
  then show ?case unfolding StoreTransition_def by (rule alwaysD [rotated]) (intro always_intro)
next
  case (cancel rid now w res' w')
  then show ?case unfolding RequestCancellation_def cancelRecord_def WriteExecution_def atomicPrivateJSON_def
    by (rule alwaysD [rotated]) (intro always_intro, simp)
next
  case (publish rid v w res w')
  then show ?case unfolding PublishResult_def by (rule alwaysD [rotated]) (intro always_intro, simp)
next
  case (save r w res w')
  then show ?case unfolding Save_def
    by (rule alwaysD [rotated]) (intro always_intro lease_file.always_saveUnlocked_other, simp)
next
  case (execution rid e w res w')
  then show ?case unfolding WriteExecution_def atomicPrivateJSON_def by (rule alwaysD [rotated]) (intro always_intro, simp)
next
  case (executed rid w res w')
  then show ?case unfolding RemoveExecution_def by (rule alwaysD [rotated]) (intro always_intro, simp)
next
  case (environment w t fs bs)
  show ?case by (simp add: keeps_file_def run_file_def)
qed

lemma foreign_steps_held: "(foreign_step owner T)\<^sup>*\<^sup>* w w' \<Longrightarrow> keeps_file lease_json (held owner T) w w'"
  by (induction rule: rtranclp_induct) (auto dest: foreign_step_held intro: lease_file.kept.trans)

text \<open>
  C22: A worker's lease excludes every other worker until it expires, as long as those that claim the run can
  read it: whatever others do to the store before that time, on any fault path on which no claim fails to
  read an existing lease file, the lease stays as it is, and any attempt to claim the run that can read the
  lease is refused and leaves it there. The condition is needed, for \<open>Claim\<close> takes a lease that it cannot
  read for none (\<open>unread_lease_claimed\<close>).
\<close>

theorem lease_exclusive:
  assumes "(foreign_step owner T)\<^sup>*\<^sup>* w w'" and "run_file lease_json w rid = Some (Json v)"
    and "Owner v = owner" and "ExpiresAt v = T"
  shows "run_file lease_json w' rid = Some (Json v)
    \<and> (\<forall>other now ttl res w''. now < T \<longrightarrow> reads_lease rid w' \<longrightarrow> ClaimLease rid other now ttl w' = (res, w'')
        \<longrightarrow> (\<exists>e. res = Inl e) \<and> run_file lease_json w'' rid = Some (Json v))"
proof -
  have v: "run_file lease_json w' rid = Some (Json v)"
    using foreign_steps_held [OF assms(1)] assms(2-4) by (auto simp: keeps_file_def held_def)
  have "(\<exists>e. res = Inl e) \<and> run_file lease_json w'' rid = Some (Json v)"
    if "now < T" "reads_lease rid w'" "ClaimLease rid other now ttl w' = (res, w'')" for other now ttl res w''
    using that(3,2)
  proof (cases rule: ClaimLease_cases)
    case (refused e)
    then show ?thesis using v by (simp add: idle_run_file empty_run_def)
  next
    case written
    then show ?thesis using v that(1) assms(4) by blast
  qed
  with v show ?thesis by blast
qed

text \<open>What the condition excludes: one failed read, and a live lease of another worker is replaced.\<close>

lemma unread_lease_claimed:
  assumes "run_file lease_json w rid = Some (Json v)" and "ValidName rid" and "faults w = [None, None, None, None, Some m]"
  shows "\<exists>w'. ClaimLease rid other now ttl w = (Inr (), w')
    \<and> run_file lease_json w' rid = Some (Json \<lparr>LeaseRunID = rid, Owner = other, ExpiresAt = now + ttl\<rparr>)"
proof -
  from assms(1) obtain d where d: "map_of (runs w) rid = Some (Sub d)" by (auto simp: run_file_Some)
  show ?thesis
    using assms(2,3) d
    by (simp add: ClaimLease_def bindE_def runDir_ok mkdir_run_def Acquire_def wrapE_def os_call_def modify_def add_run_def
        in_run_def asks_def entry_dir_def lift_result_def attempt_def read_lease_def read_run_def guard_def ret_def
        put_lease_ok run_file_put_run)
qed

text \<open>
  A lease file that is not valid JSON counts as held for \<open>ReadHasNoLease\<close>, yet \<open>ClaimLease\<close>
  replaces it.
\<close>

lemma garbled_lease_claimed:
  assumes "faults w = []" and "run_file lease_json w rid = Some Garbled" and "ValidName rid"
  shows "fst (ReadHasNoLease rid w) = Inr False \<and> fst (ClaimLease rid owner now ttl w) = Inr ()"
  using assms
  by (auto simp: run_file_Some ReadHasNoLease_def bindE_def attempt_def runDir_ok read_run_ok entry_file_def
      entry_dir_def ret_def ClaimLease_ok put_lease_ok)

section \<open>Scans\<close>

lemma Load_missing:
  assumes "faults w = []" and "record_of w rid = None"
  shows "\<exists>e. Load rid w = (Inl e, w)"
proof -
  obtain res w' where ld: "Load rid w = (res, w')" by force
  have "w' = w"
    using ld assms(1)
    by (auto simp: Load_def runDir_def loadPath_def read_run_ok wrapE_def lift_result_def split: sum.splits elim!: bindE_cases)
  moreover have "\<exists>e. res = Inl e"
    using ld assms(2) by (cases res) (auto dest!: Load_Inr)
  ultimately show ?thesis using ld by blast
qed

lemma foldE_Load:
  assumes "faults w = []"
    and step: "\<And>out n. n \<in> set ns \<Longrightarrow> f out n w =
      (Inr (case record_of w n of None \<Rightarrow> out | Some r \<Rightarrow> out @ g r), w)"
  shows "foldE f out ns w = (Inr (out @ concat (map (\<lambda>n. case record_of w n of None \<Rightarrow> [] | Some r \<Rightarrow> g r) ns)), w)"
  using step
proof (induction ns arbitrary: out)
  case Nil
  show ?case by (simp add: ret_def)
next
  case (Cons n ns)
  from Cons.prems [of n out] Cons.IH [OF Cons.prems] show ?case
    by (cases "record_of w n") (simp_all add: bindE_def)
qed

lemma attempt_Load_step:
  assumes "faults w = []"
  shows "bindE (attempt (Load n)) (\<lambda>x. case x of Inl _ \<Rightarrow> ret out | Inr r \<Rightarrow> ret (out @ g r)) w
    = (Inr (case record_of w n of None \<Rightarrow> out | Some r \<Rightarrow> out @ g r), w)"
proof (cases "record_of w n")
  case None
  from Load_missing [OF assms None] obtain e where "Load n w = (Inl e, w)" by blast
  with None show ?thesis by (simp add: bindE_def attempt_def ret_def)
next
  case (Some r)
  with Load_ok [OF assms Some] show ?thesis by (simp add: bindE_def attempt_def ret_def)
qed

lemma LoadChildren_ok:
  assumes "faults w = []" and "record_of w parent = Some p"
  shows "LoadChildren parent w
    = (Inr (concat (map (\<lambda>n. case record_of w n of None \<Rightarrow> [] | Some r \<Rightarrow> [r]) (Children p))), w)"
proof -
  have "foldE (\<lambda>out c. bindE (attempt (Load c)) (\<lambda>x. case x of Inl _ \<Rightarrow> ret out | Inr r \<Rightarrow> ret (out @ [r]))) [] (Children p) w
    = (Inr ([] @ concat (map (\<lambda>n. case record_of w n of None \<Rightarrow> [] | Some r \<Rightarrow> [r]) (Children p))), w)"
    by (intro foldE_Load assms(1) attempt_Load_step)
  with Load_ok [OF assms] show ?thesis by (simp add: LoadChildren_def bindE_def)
qed

definition is_sub :: "'a entry option \<Rightarrow> bool" where
  "is_sub e = (case e of Some (Sub _) \<Rightarrow> True | _ \<Rightarrow> False)"

lemma list_runs_ok: "faults w = [] \<Longrightarrow> list_runs w = (Inr (filter (\<lambda>n. is_sub (map_of (runs w) n)) (dir_names (runs w))), w)"
  by (simp add: list_runs_def bindE_def asks_def is_sub_def)

lemma record_of_sub: "record_of w n = Some r \<Longrightarrow> is_sub (map_of (runs w) n) \<and> ValidRunID n \<and> n \<in> set (dir_names (runs w))"
  by (auto simp: record_of_iff run_file_Some is_sub_def validateRecord_def intro: rev_image_eqI [OF map_of_SomeD])

text \<open>The queued targets in the order of their names.\<close>

definition queued_children :: "'a store_state_scheme \<Rightarrow> run_record list" where
  "queued_children w = concat (map (\<lambda>n. case record_of w n of
      None \<Rightarrow> [] | Some r \<Rightarrow> if State r = RunQueued \<and> ParentRunID r \<noteq> [] then [r] else []) (dir_names (runs w)))"

lemma LoadQueuedChildren_ok:
  assumes "faults w = []"
  shows "LoadQueuedChildren w = (Inr (queued_children w), w)"
proof -
  let ?f = "\<lambda>out n. if \<not> ValidRunID n then ret out
     else bindE (attempt (Load n)) (\<lambda>x. case x of
         Inl _ \<Rightarrow> ret out
       | Inr r \<Rightarrow> ret (out @ (if State r = RunQueued \<and> ParentRunID r \<noteq> [] then [r] else [])))"
  let ?g = "\<lambda>r. if State r = RunQueued \<and> ParentRunID r \<noteq> [] then [r] else []"
  have f: "?f out n w = (Inr (case record_of w n of None \<Rightarrow> out | Some r \<Rightarrow> out @ ?g r), w)" for out n
  proof (cases "ValidRunID n")
    case True
    with True attempt_Load_step [OF assms, of n out ?g] show ?thesis by simp
  next
    case False
    then have "record_of w n = None" by (auto simp: record_of_def split: option.splits json.splits)
    with False show ?thesis by (simp add: ret_def)
  qed
  have "concat (map (\<lambda>n. case record_of w n of None \<Rightarrow> [] | Some r \<Rightarrow> ?g r) (filter (\<lambda>n. is_sub (map_of (runs w) n)) ns))
      = concat (map (\<lambda>n. case record_of w n of None \<Rightarrow> [] | Some r \<Rightarrow> ?g r) ns)" for ns
    by (induction ns) (auto split: option.splits dest: record_of_sub)
  then show ?thesis
    unfolding LoadQueuedChildren_def queued_children_def
    using foldE_Load [of w _ ?f ?g, OF assms f] by (simp add: bindE_def list_runs_ok assms)
qed

lemma live_loop_ok:
  "faults w = [] \<Longrightarrow> \<exists>x. live_loop ns w = (Inr x, w) \<and>
     (case x of
        None \<Rightarrow> \<forall>n \<in> set ns. \<forall>r. run_file run_json w n = Some (Json r) \<longrightarrow> ParentRunID r = [] \<or> IsTerminal (State r)
      | Some p \<Rightarrow> \<exists>n \<in> set ns. \<exists>r. run_file run_json w n = Some (Json r) \<and> ParentRunID r = p \<and> p \<noteq> [] \<and> \<not> IsTerminal (State r))"
proof (induction ns)
  case Nil
  show ?case by (simp add: ret_def)
next
  case (Cons n ns)
  then obtain x where x: "live_loop ns w = (Inr x, w)"
    and spec: "case x of
        None \<Rightarrow> \<forall>n \<in> set ns. \<forall>r. run_file run_json w n = Some (Json r) \<longrightarrow> ParentRunID r = [] \<or> IsTerminal (State r)
      | Some p \<Rightarrow> \<exists>n \<in> set ns. \<exists>r. run_file run_json w n = Some (Json r) \<and> ParentRunID r = p \<and> p \<noteq> [] \<and> \<not> IsTerminal (State r)"
    by blast
  show ?case
  proof (cases "\<exists>r. run_file run_json w n = Some (Json r) \<and> ParentRunID r \<noteq> [] \<and> \<not> IsTerminal (State r)")
    case True
    then obtain r d where r: "map_of (runs w) n = Some (Sub d)" "run_json d = Some (Json r)"
        "ParentRunID r \<noteq> []" "\<not> IsTerminal (State r)"
      by (auto simp: run_file_Some)
    then have "live_loop (n # ns) w = (Inr (Some (ParentRunID r)), w)"
      using Cons.prems by (simp add: bindE_def attempt_def read_run_ok entry_file_def entry_dir_def ret_def)
    with r show ?thesis by (auto simp: run_file_Some)
  next
    case False
    then have "live_loop (n # ns) w = live_loop ns w"
      using Cons.prems
      by (auto simp: bindE_def attempt_def read_run_ok entry_file_def entry_dir_def run_file_def
          split: option.splits entry.splits json.splits)
    with x spec False show ?thesis by (auto split: option.splits)
  qed
qed

lemma HasLiveBuild_spec_core:
  assumes "faults w = []"
  shows "\<exists>x. HasLiveBuild w = (Inr x, w)
    \<and> (x = None \<longleftrightarrow> (\<nexists>n r. run_file run_json w n = Some (Json r) \<and> ParentRunID r \<noteq> [] \<and> \<not> IsTerminal (State r)))
    \<and> (\<forall>p. x = Some p \<longrightarrow>
         (\<exists>n r. run_file run_json w n = Some (Json r) \<and> ParentRunID r = p \<and> \<not> IsTerminal (State r)))"
proof -
  define ns where "ns = filter (\<lambda>n. is_sub (map_of (runs w) n)) (dir_names (runs w))"
  have names: "n \<in> set ns" if "run_file run_json w n = Some j" for n j
    using that by (auto simp: ns_def run_file_Some is_sub_def intro: rev_image_eqI [OF map_of_SomeD])
  have run: "HasLiveBuild w = live_loop ns w"
    using assms by (simp add: HasLiveBuild_def bindE_def attempt_def list_runs_ok ns_def)
  from live_loop_ok [OF assms, of ns] obtain x where x: "live_loop ns w = (Inr x, w)"
    and spec: "case x of
        None \<Rightarrow> \<forall>n \<in> set ns. \<forall>r. run_file run_json w n = Some (Json r) \<longrightarrow> ParentRunID r = [] \<or> IsTerminal (State r)
      | Some p \<Rightarrow> \<exists>n \<in> set ns. \<exists>r. run_file run_json w n = Some (Json r) \<and> ParentRunID r = p \<and> p \<noteq> [] \<and> \<not> IsTerminal (State r)"
    by blast
  show ?thesis
  proof (cases x)
    case None
    with spec names have "\<nexists>n r. run_file run_json w n = Some (Json r) \<and> ParentRunID r \<noteq> [] \<and> \<not> IsTerminal (State r)"
      by auto
    with None x run show ?thesis by auto
  next
    case (Some p)
    with spec x run show ?thesis by auto
  qed
qed

text \<open>
  \<open>HasLiveBuild\<close> names a build exactly when some target run on disk is not terminal, and then
  names the parent of such a target.
\<close>

theorem HasLiveBuild_spec:
  assumes "faults w = []"
  shows "\<exists>x. HasLiveBuild w = (Inr x, w)
    \<and> (x = None \<longleftrightarrow> (\<nexists>n r. run_file run_json w n = Some (Json r) \<and> ParentRunID r \<noteq> [] \<and> \<not> IsTerminal (State r)))
    \<and> (\<forall>p. x = Some p \<longrightarrow>
         (\<exists>n r. run_file run_json w n = Some (Json r) \<and> ParentRunID r = p \<and> \<not> IsTerminal (State r)))"
  using assms by (rule HasLiveBuild_spec_core)

section \<open>Aggregation\<close>

lemma tally_states_eq:
  "tally_states t ss = (if list_all IsTerminal ss
     then Some (t\<lparr>t_failed := t_failed t + count_list ss RunFailed, t_lost := t_lost t + count_list ss RunLost,
       t_aborted := t_aborted t + count_list ss RunAborted, t_unavailable := t_unavailable t + count_list ss RunUnavailable,
       t_terminal := t_terminal t + length ss\<rparr>)
     else None)"
  by (induction ss arbitrary: t) (auto simp: Let_def IsTerminal_def split: run_state.split)

lemma count_list_all: "count_list (map f xs) x = length xs \<longleftrightarrow> (\<forall>y \<in> set xs. f y = x)"
proof (induction xs)
  case (Cons y ys)
  then show ?case using count_le_length [of "map f ys" x] by auto
qed simp

lemma count_list_pos: "0 < count_list (map f xs) x \<longleftrightarrow> (\<exists>y \<in> set xs. f y = x)"
  using count_list_0_iff [of "map f xs" x] by auto

lemma AggregateState_spec_core:
  "AggregateState cs aborted =
     (if aborted then (RunAborted, False)
      else if cs = [] \<or> (\<exists>c \<in> set cs. \<not> IsTerminal (State c)) then (RunAggregating, False)
      else if \<exists>c \<in> set cs. State c = RunFailed \<or> State c = RunLost \<or> State c = RunAborted then (RunFailed, False)
      else (RunSucceeded, \<forall>c \<in> set cs. State c = RunUnavailable))"
proof (cases "list_all IsTerminal (map State cs)")
  case True
  then show ?thesis
    by (auto simp: AggregateState_def tally_states_eq count_list_pos count_list_all list_all_iff)
next
  case False
  then show ?thesis
    by (auto simp: AggregateState_def tally_states_eq list_all_iff)
qed

text \<open>
  C32: The state of a build request: aborted if it was aborted; open while it has no target or a target
  is not terminal; failed if a target failed, was lost or was aborted; otherwise succeeded, with the
  flag that no machine responded exactly when every target was unavailable.
\<close>

theorem AggregateState_spec:
  "AggregateState cs aborted =
     (if aborted then (RunAborted, False)
      else if cs = [] \<or> (\<exists>c \<in> set cs. \<not> IsTerminal (State c)) then (RunAggregating, False)
      else if \<exists>c \<in> set cs. State c = RunFailed \<or> State c = RunLost \<or> State c = RunAborted then (RunFailed, False)
      else (RunSucceeded, \<forall>c \<in> set cs. State c = RunUnavailable))"
  by (rule AggregateState_spec_core)

section \<open>Fresh identifiers\<close>

lemma hex_digit_safe: "n < 16 \<Longrightarrow> safe_char (hex_digit n)"
proof -
  assume "n < 16"
  then have "n \<in> set [0..<16]" by simp
  moreover have "list_all (\<lambda>n. safe_char (hex_digit n)) [0..<16]"
    by (simp add: hex_digit_def safe_char_def alnum_def upt_rec)
  ultimately show ?thesis by (simp add: list_all_iff)
qed

lemma hex_text_safe: "list_all safe_char (hex_text n) \<and> hex_text n \<noteq> []"
proof (induction n rule: hex_text.induct)
  case (1 n)
  then show ?case by (cases "n < 16") (simp_all add: hex_text.simps [of n] hex_digit_safe)
qed

lemma hex_bytes_safe: "(\<And>b. b \<in> set bs \<Longrightarrow> b < 256) \<Longrightarrow> list_all safe_char (hex_bytes bs)"
  by (induction bs) (auto simp: hex_bytes_def intro!: hex_digit_safe less_mult_imp_div_less)

text \<open>Every identifier that \<open>newID\<close> mints is a valid run identifier.\<close>

theorem newID_valid:
  assumes "newID now w = (Inr rid, w')"
  shows "ValidRunID rid"
proof -
  from assms obtain es where rid: "rid = ''run_'' @ (if now < 0 then ''-'' else []) @ hex_text (nat \<bar>now\<bar>) @ ''_''
      @ hex_bytes (map (\<lambda>b. b mod 256) es)"
    unfolding newID_def rand_read_def by (auto simp: bindE_Inr simp del: map_append)
  have bs: "list_all safe_char (hex_bytes (map (\<lambda>b. b mod 256) es))"
    by (rule hex_bytes_safe) auto
  have dash: "safe_char (CHR ''-'')" "safe_char (CHR ''_'')" by (simp_all add: safe_char_def)
  from rid hex_text_safe [of "nat \<bar>now\<bar>"] bs dash show ?thesis
    by (auto simp: ValidRunID_def HasPrefix_def)
qed

section \<open>A concrete store\<close>

definition example_record :: "run_id \<Rightarrow> run_state \<Rightarrow> run_id \<Rightarrow> run_record" where
  "example_record rid state parent = \<lparr>RunSchemaVersion = 1, ID = rid, Project = ''p1'', Machine = ''m1'', State = state,
     SourceDigest = [], SourcePath = [], ConfigDigest = [], ConfigSnapshot = Garbled, RunCommand = [''make''],
     QueuedAt = 1, UpdatedAt = 1, CancellationRequestedAt = None, ParentRunID = parent, Children = []\<rparr>"

definition example_lease :: lease where
  "example_lease = \<lparr>LeaseRunID = ''run_a'', Owner = ''worker-1'', ExpiresAt = 100\<rparr>"

definition example_build_result :: build_result where
  "example_build_result = \<lparr>br_RunID = ''run_a'', br_Project = ''p1'', br_Machine = ''m1'', br_State = RunAborted,
     br_SourceDigest = [], br_ConfigDigest = [], br_ConfigSnapshot = Garbled, br_ExitCode = 0, br_Failure = [],
     br_StdoutPath = [], br_StderrPath = [], br_StdoutTruncated = False, br_StderrTruncated = False,
     br_Artifacts = [], br_ArtifactsTruncated = False, br_Warnings = [],
     br_Executor = \<lparr>xr_ExitCode = 0, xr_Signaled = False, xr_Signal = [], xr_ResolvedExecutable = [],
       xr_StartedAt = 0, xr_FinishedAt = 0\<rparr>\<rparr>"

definition example_store :: store_state where
  "example_store = \<lparr>faults = [], clock = 10, entropy = [], windows = False, config_file = None,
     runs = [(''run_a'', Sub ((empty_run 1)\<lparr>run_json := Some (Json (example_record ''run_a'' RunAborted [])),
         lease_json := Some (Json example_lease), result_json := Some (Json example_build_result)\<rparr>)),
       (''run_b'', Sub ((empty_run 1)\<lparr>run_json := Some (Json (example_record ''run_b'' RunQueued ''run_p''))\<rparr>))]\<rparr>"

lemma example_ids: "ValidRunID ''run_a''" "ValidRunID ''run_b''"
  by (simp_all add: ValidRunID_def HasPrefix_def safe_char_def alnum_def)

lemma example_record_of: "record_of example_store ''run_a'' = Some (example_record ''run_a'' RunAborted [])"
  by (simp add: record_of_iff run_file_def example_store_def validateRecord_def example_record_def example_ids)

theorem terminal_forever_witness:
  "record_of (snd (StoreTransition ''run_a'' RunRunning 20 example_store)) ''run_a'' = Some (example_record ''run_a'' RunAborted [])"
proof (rule terminal_forever [OF _ example_record_of])
  have "store_step example_store (snd (StoreTransition ''run_a'' RunRunning 20 example_store))"
    by (rule store_step.mutate [of "transitionRecord RunRunning 20" "''run_a''" _
          "fst (StoreTransition ''run_a'' RunRunning 20 example_store)"])
      (auto simp: StoreTransition_def transitionRecord_def split: sum.splits)
  then show "store_step\<^sup>*\<^sup>* example_store (snd (StoreTransition ''run_a'' RunRunning 20 example_store))" ..
qed (simp add: example_record_def IsTerminal_def)

theorem result_published_once_witness:
  "\<exists>e. fst (PublishResult ''run_a'' (example_build_result\<lparr>br_ExitCode := 1\<rparr>) example_store) = Inl e"
proof -
  have r: "run_file result_json example_store ''run_a'' = Some (Json example_build_result)"
    by (simp add: run_file_def example_store_def)
  show ?thesis
    using result_published_once [OF rtranclp.rtrancl_refl r] by (metis prod.collapse)
qed

theorem lease_exclusive_witness:
  "(\<exists>e. fst (ClaimLease ''run_a'' ''worker-2'' 50 30 example_store) = Inl e)
    \<and> run_file lease_json (snd (ClaimLease ''run_a'' ''worker-2'' 50 30 example_store)) ''run_a'' = Some (Json example_lease)"
proof -
  have v: "run_file lease_json example_store ''run_a'' = Some (Json example_lease)"
    and o: "Owner example_lease = ''worker-1''" and t: "ExpiresAt example_lease = 100"
    by (simp_all add: run_file_def example_store_def example_lease_def)
  have "reads_lease ''run_a'' example_store" by (rule reads_lease_ok) (simp add: example_store_def)
  moreover obtain res w'' where c: "ClaimLease ''run_a'' ''worker-2'' 50 30 example_store = (res, w'')" by force
  moreover have "(50 :: int) < 100" by simp
  ultimately have "(\<exists>e. res = Inl e) \<and> run_file lease_json w'' ''run_a'' = Some (Json example_lease)"
    using lease_exclusive [OF rtranclp.rtrancl_refl v o t] by blast
  with c show ?thesis by simp
qed

theorem HasLiveBuild_spec_witness: "fst (HasLiveBuild example_store) \<noteq> Inr None"
proof -
  have "faults example_store = []"
    and "run_file run_json example_store ''run_b'' = Some (Json (example_record ''run_b'' RunQueued ''run_p''))"
    by (simp_all add: run_file_def example_store_def)
  moreover have "ParentRunID (example_record ''run_b'' RunQueued ''run_p'') \<noteq> []"
    and "\<not> IsTerminal (State (example_record ''run_b'' RunQueued ''run_p''))"
    by (simp_all add: example_record_def IsTerminal_def)
  ultimately show ?thesis using HasLiveBuild_spec [of example_store] by auto
qed

theorem AggregateState_spec_witness:
  "AggregateState [example_record ''run_a'' RunUnavailable [], example_record ''run_b'' RunUnavailable []] False = (RunSucceeded, True)"
  by (simp add: AggregateState_spec example_record_def IsTerminal_def)

theorem newID_valid_witness: "ValidRunID ''run_a_010203040506''"
proof -
  let ?w = "example_store\<lparr>entropy := [1, 2, 3, 4, 5, 6]\<rparr>"
  have "newID 10 ?w = (Inr ''run_a_010203040506'', ?w\<lparr>entropy := []\<rparr>)"
    by (simp add: newID_def rand_read_def bindE_def ret_def example_store_def hex_text.simps hex_bytes_def hex_digit_def)
  then show ?thesis by (rule newID_valid)
qed

end
