(* ===== verification/Vci_Scheduler.thy ===== *)
theory Vci_Scheduler
  imports Vci_Store_Laws
begin

text \<open>
  \<open>internal/scheduler/scheduler.go\<close> and \<open>internal/scheduler/claims.go\<close>: machine slots as claim files.

  The claim tree is a directory per machine, each a directory of files; a file is a symbolic link, a
  special file, empty, not JSON, or a claim. Every operation runs under the scheduler lock and is one
  step. The scheduler reads run records through the interface \<open>recordLoader\<close>, here the argument \<open>load\<close>;
  the locale \<open>record_loader\<close> states what it relies on, and the store's \<open>Load\<close> provides it.
\<close>

section \<open>Sorting\<close>

text \<open>
  \<open>sort.Slice\<close>: insertion from the right, which is what Go runs on short slices. On a strict total
  order every sorting algorithm returns this list.
\<close>

fun insert_back :: "('a \<Rightarrow> 'a \<Rightarrow> bool) \<Rightarrow> 'a \<Rightarrow> 'a list \<Rightarrow> 'a list" where
  "insert_back lt x [] = [x]"
| "insert_back lt x (y # ys) = (if lt x y then y # insert_back lt x ys else x # y # ys)"

definition go_sort :: "('a \<Rightarrow> 'a \<Rightarrow> bool) \<Rightarrow> 'a list \<Rightarrow> 'a list" where
  "go_sort lt xs = rev (foldl (\<lambda>acc x. insert_back lt x acc) [] xs)"

section \<open>Data\<close>

record claim =
  ClaimSchema :: int
  ClaimMachine :: string
  ClaimRunID :: string
  CreatedAt :: int

datatype claim_node = ClaimFolder | ClaimLink | ClaimSpecial | ClaimEmpty | ClaimGarbled | ClaimJson claim

record sched_state = store_state +
  claims :: "claim_node dir entry dir"

record reservation =
  ResMachine :: string
  ResRunID :: run_id
  ResCreatedAt :: int

record machine_status =
  StMachine :: string
  StCapacity :: int
  StActive :: int
  StAvailable :: int

record machine_snapshot =
  snap_name :: string
  snap_capacity :: int
  snap_active :: int

record claim_info =
  ci_machine :: string
  ci_runID :: run_id
  ci_createdAt :: int

definition ClaimSchemaVersion :: int where "ClaimSchemaVersion = 1"

section \<open>Claim files\<close>

definition claim_name :: "run_id \<Rightarrow> string" where
  "claim_name rid = rid @ ''.json''"

text \<open>\<open>os.Lstat\<close> of a claim file.\<close>

definition claim_lookup :: "string \<Rightarrow> run_id \<Rightarrow> 'a sched_state_scheme \<Rightarrow> claim_node result" where
  "claim_lookup machine rid w = (case map_of (claims w) machine of
       None \<Rightarrow> Inl ENotExist
     | Some Stray \<Rightarrow> Inl not_a_directory
     | Some (Sub d) \<Rightarrow> (case map_of d (claim_name rid) of None \<Rightarrow> Inl ENotExist | Some n \<Rightarrow> Inr n))"

definition lstat_claim :: "string \<Rightarrow> run_id \<Rightarrow> ('a sched_state_scheme, claim_node) io" where
  "lstat_claim machine rid = bindE os_call (\<lambda>_. bindE (asks (claim_lookup machine rid)) lift_result)"

definition put_claim :: "string \<Rightarrow> run_id \<Rightarrow> claim_node \<Rightarrow> 'a sched_state_scheme \<Rightarrow> 'a sched_state_scheme" where
  "put_claim machine rid n w = (case map_of (claims w) machine of
       Some (Sub d) \<Rightarrow> w\<lparr>claims := AList.update machine (Sub (AList.update (claim_name rid) n d)) (claims w)\<rparr>
     | _ \<Rightarrow> w)"

definition del_claim :: "string \<Rightarrow> run_id \<Rightarrow> 'a sched_state_scheme \<Rightarrow> 'a sched_state_scheme" where
  "del_claim machine rid w = (case map_of (claims w) machine of
       Some (Sub d) \<Rightarrow> w\<lparr>claims := AList.update machine (Sub (AList.delete (claim_name rid) d)) (claims w)\<rparr>
     | _ \<Rightarrow> w)"

text \<open>\<open>os.Remove\<close> of a claim file whose absence is not an error.\<close>

definition remove_claim :: "string \<Rightarrow> run_id \<Rightarrow> ('a sched_state_scheme, unit) io" where
  "remove_claim machine rid =
     bindE (attempt (lstat_claim machine rid)) (\<lambda>x. case x of
       Inl e \<Rightarrow> if IsNotExist e then ret () else throw e
     | Inr _ \<Rightarrow> modify (del_claim machine rid))"

definition validateClaim :: "string \<Rightarrow> string \<Rightarrow> run_id \<Rightarrow> int \<Rightarrow> claim \<Rightarrow> reservation result" where
  "validateClaim path machine rid now c =
     (case checks
        [ensure (ClaimSchema c = ClaimSchemaVersion)
           (Errf ''claim %s has schema version %d, want %d'' [path, itoa (ClaimSchema c), itoa ClaimSchemaVersion]),
         ensure (ValidName (ClaimMachine c) \<and> ClaimMachine c = machine)
           (Errf ''claim %s has machine %q, want %q'' [path, ClaimMachine c, machine]),
         ensure (ValidRunID (ClaimRunID c) \<and> ClaimRunID c = rid)
           (Errf ''claim %s has run id %q, want %q'' [path, ClaimRunID c, rid]),
         ensure (CreatedAt c \<noteq> 0) (Errf ''claim %s has zero created_at'' [path]),
         ensure (\<not> now + minute < CreatedAt c)
           (Errf ''claim %s has future created_at %s'' [path, itoa (CreatedAt c)])] of
        Inl e \<Rightarrow> Inl e
      | Inr _ \<Rightarrow> Inr \<lparr>ResMachine = ClaimMachine c, ResRunID = ClaimRunID c, ResCreatedAt = CreatedAt c\<rparr>)"

definition validateClaimFile :: "layout \<Rightarrow> string \<Rightarrow> run_id \<Rightarrow> ('a sched_state_scheme, reservation) io" where
  "validateClaimFile l machine rid =
     (let path = MachineClaimPath l machine rid in
      bindE (lstat_claim machine rid) (\<lambda>n. case n of
          ClaimLink \<Rightarrow> throw (Errf ''claim %s is a symlink'' [path])
        | ClaimFolder \<Rightarrow> throw (Errf ''claim %s is not a regular file'' [path])
        | ClaimSpecial \<Rightarrow> throw (Errf ''claim %s is not a regular file'' [path])
        | ClaimEmpty \<Rightarrow> throw (Errf ''claim %s is empty'' [path])
        | ClaimGarbled \<Rightarrow> bindE os_call (\<lambda>_. throw (EWrap ''claim %s has invalid JSON: %w'' [path] (Errf ''invalid JSON'' [])))
        | ClaimJson c \<Rightarrow> bindE os_call (\<lambda>_. bindE Now (\<lambda>now. lift_result (validateClaim path machine rid now c)))))"

text \<open>The names \<open>os.ReadDir\<close> gives: the machines' directories, and the claim files of one machine.\<close>

definition machine_dirs :: "'a sched_state_scheme \<Rightarrow> string list" where
  "machine_dirs w = filter (\<lambda>m. is_sub (map_of (claims w) m) \<and> ValidName m) (dir_names (claims w))"

definition claim_files :: "'a sched_state_scheme \<Rightarrow> string \<Rightarrow> claim_node dir" where
  "claim_files w machine = (case map_of (claims w) machine of Some (Sub d) \<Rightarrow> d | _ \<Rightarrow> [])"

definition claim_ids :: "'a sched_state_scheme \<Rightarrow> string \<Rightarrow> run_id list" where
  "claim_ids w machine = (let d = claim_files w machine in
     map (\<lambda>n. TrimSuffix n ''.json'') (filter (\<lambda>n. map_of d n \<noteq> Some ClaimFolder \<and> HasSuffix n ''.json''
       \<and> ValidRunID (TrimSuffix n ''.json'')) (dir_names d)))"

definition enumerateMachine :: "layout \<Rightarrow> claim_info list \<Rightarrow> string \<Rightarrow> ('a sched_state_scheme, claim_info list) io" where
  "enumerateMachine l out machine =
     bindE os_call (\<lambda>_. bindE (asks (\<lambda>w. claim_ids w machine)) (foldE (\<lambda>out rid.
       bindE (wrapE ''scheduler: corrupt claim %s: %w'' [MachineClaimPath l machine rid] (validateClaimFile l machine rid)) (\<lambda>v.
       ret (out @ [\<lparr>ci_machine = machine, ci_runID = rid, ci_createdAt = ResCreatedAt v\<rparr>]))) out))"

definition enumerateClaims :: "layout \<Rightarrow> ('a sched_state_scheme, claim_info list) io" where
  "enumerateClaims l = bindE os_call (\<lambda>_. bindE (asks machine_dirs) (foldE (enumerateMachine l) []))"

definition countActiveByMachine :: "layout \<Rightarrow> ('a sched_state_scheme, string \<Rightarrow> int) io" where
  "countActiveByMachine l = bindE (enumerateClaims l) (\<lambda>cs.
     ret (foldl (\<lambda>counts c. counts(ci_machine c := counts (ci_machine c) + 1)) (\<lambda>_. 0) cs))"

type_synonym 's loader = "run_id \<Rightarrow> ('s, run_record) io"

definition reapOne :: "('a sched_state_scheme) loader \<Rightarrow> int \<Rightarrow> claim_info \<Rightarrow> ('a sched_state_scheme, int) io" where
  "reapOne load removed c =
     bindE (attempt (load (ci_runID c))) (\<lambda>x. case x of
       Inl e \<Rightarrow>
         if \<not> is_not_exist e then throw (EWrap ''scheduler: reap %s/%s: %w'' [ci_machine c, ci_runID c] e)
         else bindE (remove_claim (ci_machine c) (ci_runID c)) (\<lambda>_. ret (removed + 1))
     | Inr r \<Rightarrow>
         if \<not> IsTerminal (State r) then ret removed
         else bindE (remove_claim (ci_machine c) (ci_runID c)) (\<lambda>_. ret (removed + 1)))"

definition reapClaims :: "layout \<Rightarrow> ('a sched_state_scheme) loader \<Rightarrow> ('a sched_state_scheme, int) io" where
  "reapClaims l load = bindE (enumerateClaims l) (foldE (reapOne load) 0)"

definition add_machine_dir :: "string \<Rightarrow> 'a sched_state_scheme \<Rightarrow> 'a sched_state_scheme" where
  "add_machine_dir machine w = (case map_of (claims w) machine of
       None \<Rightarrow> w\<lparr>claims := AList.update machine (Sub []) (claims w)\<rparr>
     | Some _ \<Rightarrow> w)"

text \<open>A rename onto a directory fails; onto anything else it replaces it.\<close>

definition rename_claim :: "string \<Rightarrow> run_id \<Rightarrow> claim \<Rightarrow> ('a sched_state_scheme, unit) io" where
  "rename_claim machine rid c = bindE os_call (\<lambda>_. bindE (asks (claim_lookup machine rid)) (\<lambda>x.
     if x = Inr ClaimFolder then throw (EOs ''is a directory'')
     else modify (put_claim machine rid (ClaimJson c))))"

definition atomicWriteClaim :: "string \<Rightarrow> claim \<Rightarrow> ('a sched_state_scheme, unit) io" where
  "atomicWriteClaim machine c =
     bindE os_call (\<lambda>_. bindE (modify (add_machine_dir machine)) (\<lambda>_.
     bindE (asks (\<lambda>w. map_of (claims w) machine)) (\<lambda>e.
     bindE (guard (is_sub e) not_a_directory) (\<lambda>_.
     bindE (calls 6) (\<lambda>_.
     bindE (rename_claim machine (ClaimRunID c) c) (\<lambda>_.
     sync_parent))))))"

definition writeClaim :: "string \<Rightarrow> claim \<Rightarrow> ('a sched_state_scheme, unit) io" where
  "writeClaim machine c = atomicWriteClaim machine c"

section \<open>Choosing a machine\<close>

text \<open>The comparison of load ratios by cross-multiplication, in 64-bit arithmetic.\<close>

definition snap_less :: "machine_snapshot \<Rightarrow> machine_snapshot \<Rightarrow> bool" where
  "snap_less a b =
     (let li = wrap64 (snap_active a * snap_capacity b); ri = wrap64 (snap_active b * snap_capacity a) in
      if li \<noteq> ri then li < ri else snap_name a < snap_name b)"

definition computeMachineSnapshots :: "(string \<Rightarrow> int) \<Rightarrow> config \<Rightarrow> machine_snapshot list" where
  "computeMachineSnapshots active cfg = go_sort snap_less
     (map (\<lambda>(name, m). \<lparr>snap_name = name, snap_capacity = EffectiveCapacity m, snap_active = active name\<rparr>) (Machines cfg))"

definition validateRunAndCandidates :: "config \<Rightarrow> run_id \<Rightarrow> string list \<Rightarrow> unit result" where
  "validateRunAndCandidates cfg rid candidates = checks
     [ensure (ValidRunID rid) (Errf ''scheduler: invalid run id %q'' [rid]),
      ensure (candidates \<noteq> []) (Errf ''scheduler: no candidate machines'' []),
      each (\<lambda>name. ensure (has_key (Machines cfg) name)
        (Errf ''scheduler: candidate machine %q is not in the inventory'' [name])) candidates]"

definition chooseSlot :: "(string \<Rightarrow> int) \<Rightarrow> config \<Rightarrow> string list \<Rightarrow> machine_snapshot result" where
  "chooseSlot active cfg candidates =
     (case find (\<lambda>s. snap_name s \<in> set candidates \<and> snap_active s < snap_capacity s) (computeMachineSnapshots active cfg) of
        Some s \<Rightarrow> Inr s
      | None \<Rightarrow> Inl (ESent ErrNoCapacity))"

section \<open>Operations\<close>

definition withLock :: "('a sched_state_scheme, 'b) io \<Rightarrow> ('a sched_state_scheme, 'b) io" where
  "withLock m = bindE (wrapE ''scheduler: lock: %w'' []
     (bindE (wrapE ''create lock directory: %w'' [] os_call) (\<lambda>_.
      bindE (wrapE ''open lock: %w'' [] os_call) (\<lambda>_.
      wrapE ''lock: %w'' [] os_call)))) (\<lambda>_. m)"

definition future_claim :: "int \<Rightarrow> ('a sched_state_scheme, unit) io" where
  "future_claim now = bindE Now (\<lambda>t. guard (\<not> t + minute < now)
     (Errf ''scheduler: now is in the future; refused to publish a doomed claim'' []))"

definition ReserveAndPublish :: "layout \<Rightarrow> ('a sched_state_scheme) loader \<Rightarrow> config \<Rightarrow> run_id \<Rightarrow> string list \<Rightarrow> int
    \<Rightarrow> (string \<Rightarrow> ('a sched_state_scheme, unit) io) \<Rightarrow> ('a sched_state_scheme, unit) io" where
  "ReserveAndPublish l load cfg rid candidates now publish =
     bindE (lift_result (validateRunAndCandidates cfg rid candidates)) (\<lambda>_.
     bindE (future_claim now) (\<lambda>_.
     withLock (
       bindE (wrapE ''scheduler: reap claims: %w'' [] (reapClaims l load)) (\<lambda>_.
       bindE (wrapE ''scheduler: count active: %w'' [] (countActiveByMachine l)) (\<lambda>active.
       bindE (lift_result (chooseSlot active cfg candidates)) (\<lambda>snap.
       bindE (wrapE ''scheduler: write claim: %w'' [] (writeClaim (snap_name snap)
         \<lparr>ClaimSchema = ClaimSchemaVersion, ClaimMachine = snap_name snap, ClaimRunID = rid, CreatedAt = now\<rparr>)) (\<lambda>_.
       bindE (attempt (publish (snap_name snap))) (\<lambda>x. case x of
           Inr _ \<Rightarrow> ret ()
         | Inl e \<Rightarrow> bindE (attempt (remove_claim (snap_name snap) rid)) (\<lambda>y. case y of
               Inl e' \<Rightarrow> throw (EWrap ''scheduler: publish failed and rollback failed: publish=%w rollback=%v'' [err_text e'] e)
             | Inr _ \<Rightarrow> throw e)))))))))"

definition Reserve :: "layout \<Rightarrow> ('a sched_state_scheme) loader \<Rightarrow> config \<Rightarrow> string \<Rightarrow> run_id \<Rightarrow> int
    \<Rightarrow> ('a sched_state_scheme, unit) io" where
  "Reserve l load cfg machine rid now =
     bindE (guard (ValidName machine) (Errf ''scheduler: invalid machine name %q'' [machine])) (\<lambda>_.
     bindE (guard (ValidRunID rid) (Errf ''scheduler: invalid run id %q'' [rid])) (\<lambda>_.
     bindE (guard (has_key (Machines cfg) machine) (Errf ''scheduler: machine %q is not in the inventory'' [machine])) (\<lambda>_.
     bindE (future_claim now) (\<lambda>_.
     withLock (
       bindE (wrapE ''scheduler: reap claims: %w'' [] (reapClaims l load)) (\<lambda>_.
       bindE (wrapE ''scheduler: count active: %w'' [] (countActiveByMachine l)) (\<lambda>active.
       bindE (guard (active machine < EffectiveCapacity (the (map_of (Machines cfg) machine))) (ESent ErrNoCapacity)) (\<lambda>_.
       wrapE ''scheduler: write claim: %w'' [] (writeClaim machine
         \<lparr>ClaimSchema = ClaimSchemaVersion, ClaimMachine = machine, ClaimRunID = rid, CreatedAt = now\<rparr>)))))))))"

definition Release :: "layout \<Rightarrow> string \<Rightarrow> run_id \<Rightarrow> ('a sched_state_scheme, unit) io" where
  "Release l machine rid =
     bindE (guard (ValidName machine) (Errf ''scheduler: invalid machine name %q'' [machine])) (\<lambda>_.
     bindE (guard (ValidRunID rid) (Errf ''scheduler: invalid run id %q'' [rid])) (\<lambda>_.
     withLock (
       bindE (attempt (lstat_claim machine rid)) (\<lambda>x. case x of
         Inl e \<Rightarrow> if IsNotExist e then ret () else throw e
       | Inr _ \<Rightarrow>
           bindE (wrapE ''scheduler: refuse release of invalid claim: %w'' [] (validateClaimFile l machine rid)) (\<lambda>_.
           remove_claim machine rid)))))"

definition ReservationFor :: "layout \<Rightarrow> string \<Rightarrow> run_id \<Rightarrow> ('a sched_state_scheme, reservation) io" where
  "ReservationFor l machine rid =
     bindE (guard (ValidName machine) (Errf ''scheduler: invalid machine name %q'' [machine])) (\<lambda>_.
     bindE (guard (ValidRunID rid) (Errf ''scheduler: invalid run id %q'' [rid])) (\<lambda>_.
     withLock (validateClaimFile l machine rid)))"

definition Status :: "layout \<Rightarrow> ('a sched_state_scheme) loader \<Rightarrow> config \<Rightarrow> ('a sched_state_scheme, machine_status list) io" where
  "Status l load cfg = withLock (
     bindE (wrapE ''scheduler: reap claims: %w'' [] (reapClaims l load)) (\<lambda>_.
     bindE (countActiveByMachine l) (\<lambda>active.
     ret (map (\<lambda>s. \<lparr>StMachine = snap_name s, StCapacity = snap_capacity s, StActive = snap_active s,
       StAvailable = max 0 (snap_capacity s - snap_active s)\<rparr>) (computeMachineSnapshots active cfg)))))"

definition Reap :: "layout \<Rightarrow> ('a sched_state_scheme) loader \<Rightarrow> ('a sched_state_scheme, int) io" where
  "Reap l load = withLock (reapClaims l load)"

end
