(* ===== verification/Vci_Scheduler_Laws.thy ===== *)
theory Vci_Scheduler_Laws
  imports Vci_Scheduler "HOL-Library.Multiset"
begin

text \<open>
  What the scheduler guarantees: no machine ever holds more claims than its capacity, reaping removes
  exactly the claims whose run is gone or over, a failed publication leaves no claim, and the machine
  chosen is one with the smallest load. \<open>claim_count\<close> is the number of claims on a machine; the locale
  \<open>record_loader\<close> is the contract of the interface through which the scheduler reads run records.
\<close>

section \<open>Sorting\<close>

lemma mset_insert_back: "mset (insert_back lt x ys) = add_mset x (mset ys)"
  by (induction ys) auto

lemma mset_go_sort [simp]: "mset (go_sort lt xs) = mset xs"
proof -
  have "mset (foldl (\<lambda>acc x. insert_back lt x acc) acc xs) = mset acc + mset xs" for acc
    by (induction xs arbitrary: acc) (simp_all add: mset_insert_back)
  then show ?thesis by (simp add: go_sort_def)
qed

lemma set_go_sort [simp]: "set (go_sort lt xs) = set xs"
  by (metis mset_go_sort set_mset_mset)

text \<open>\<open>sort.Slice\<close> sorts where the comparison is a strict weak order.\<close>

definition weak_order_on :: "'a set \<Rightarrow> ('a \<Rightarrow> 'a \<Rightarrow> bool) \<Rightarrow> bool" where
  "weak_order_on S lt \<longleftrightarrow> (\<forall>x \<in> S. \<forall>y \<in> S. lt x y \<longrightarrow> \<not> lt y x)
     \<and> (\<forall>x \<in> S. \<forall>y \<in> S. \<forall>z \<in> S. \<not> lt y x \<longrightarrow> \<not> lt z y \<longrightarrow> \<not> lt z x)"

lemma weak_orderD:
  "weak_order_on S lt \<Longrightarrow> x \<in> S \<Longrightarrow> y \<in> S \<Longrightarrow> z \<in> S \<Longrightarrow> \<not> lt y x \<Longrightarrow> \<not> lt z y \<Longrightarrow> \<not> lt z x"
  unfolding weak_order_on_def by blast

lemma set_insert_back [simp]: "set (insert_back lt x ys) = insert x (set ys)"
  by (induction ys) auto

lemma insert_back_sorted:
  assumes "weak_order_on S lt" and "insert x (set ys) \<subseteq> S" and "sorted_wrt (\<lambda>a b. \<not> lt a b) ys"
  shows "sorted_wrt (\<lambda>a b. \<not> lt a b) (insert_back lt x ys)"
  using assms(2,3)
proof (induction ys)
  case Nil
  show ?case by simp
next
  case (Cons y ys)
  show ?case
  proof (cases "lt x y")
    case True
    with assms(1) Cons.prems(1) have "\<not> lt y x" by (simp add: weak_order_on_def)
    with True Cons show ?thesis by auto
  next
    case False
    have "\<not> lt x z" if "z \<in> set ys" for z
      using Cons.prems that False by (intro weak_orderD [OF assms(1), of z y x]) auto
    with False Cons.prems show ?thesis by auto
  qed
qed

lemma go_sort_sorted:
  assumes "weak_order_on (set xs) lt"
  shows "sorted_wrt (\<lambda>a b. \<not> lt b a) (go_sort lt xs)"
proof -
  have "set acc \<union> set ys \<subseteq> set xs \<Longrightarrow> sorted_wrt (\<lambda>a b. \<not> lt a b) acc \<Longrightarrow>
    sorted_wrt (\<lambda>a b. \<not> lt a b) (foldl (\<lambda>acc x. insert_back lt x acc) acc ys)" for acc ys
  proof (induction ys arbitrary: acc)
    case (Cons y ys)
    have "sorted_wrt (\<lambda>a b. \<not> lt a b) (insert_back lt y acc)"
      using Cons.prems by (intro insert_back_sorted [OF assms]) auto
    with Cons show ?case by simp
  qed simp
  from this [of "[]" xs] show ?thesis by (simp add: go_sort_def sorted_wrt_rev)
qed

section \<open>Choosing a machine\<close>

text \<open>Loads and capacities that fit: below \<open>2\<^sup>3\<^sup>1\<close> no product overflows.\<close>

definition small_snap :: "machine_snapshot \<Rightarrow> bool" where
  "small_snap s \<longleftrightarrow> 0 \<le> snap_active s \<and> snap_active s < 2 ^ 31 \<and> 0 < snap_capacity s \<and> snap_capacity s < 2 ^ 31"

lemma small_product:
  assumes "0 \<le> (a :: int)" "a < 2 ^ 31" "0 < b" "b < 2 ^ 31"
  shows "wrap64 (a * b) = a * b"
proof (rule wrap64_id)
  have "a * b \<le> 2 ^ 31 * 2 ^ 31" using assms by (intro mult_mono) auto
  then show "a * b < 2 ^ 63" by simp
  have "0 \<le> a * b" using assms by simp
  then show "- (2 ^ 63) \<le> a * b" by simp
qed

text \<open>Comparing loads by cross-multiplication is transitive.\<close>

lemma cross_le_trans:
  fixes xa xb xc ca cb cc :: int
  assumes "0 < ca" "0 < cb" "0 < cc" and p: "xa * cb \<le> xb * ca" and q: "xb * cc \<le> xc * cb"
  shows "xa * cc \<le> xc * ca" and "xa * cb < xb * ca \<Longrightarrow> xa * cc < xc * ca"
    and "xb * cc < xc * cb \<Longrightarrow> xa * cc < xc * ca"
proof -
  have p': "cb * (xa * cc) \<le> cc * (xb * ca)" using mult_left_mono [OF p, of cc] assms by (simp add: ac_simps)
  have q': "cc * (xb * ca) \<le> cb * (xc * ca)" using mult_left_mono [OF q, of ca] assms by (simp add: ac_simps)
  from order_trans [OF p' q'] assms(2) show "xa * cc \<le> xc * ca" by simp
  show "xa * cc < xc * ca" if "xa * cb < xb * ca"
  proof -
    have "cb * (xa * cc) < cc * (xb * ca)" using mult_strict_left_mono [OF that assms(3)] by (simp add: ac_simps)
    from less_le_trans [OF this q'] assms(2) show ?thesis by simp
  qed
  show "xa * cc < xc * ca" if "xb * cc < xc * cb"
  proof -
    have "cc * (xb * ca) < cb * (xc * ca)" using mult_strict_left_mono [OF that assms(1)] by (simp add: ac_simps)
    from le_less_trans [OF p' this] assms(2) show ?thesis by simp
  qed
qed

lemma snap_less_small:
  assumes "small_snap a" and "small_snap b"
  shows "snap_less a b \<longleftrightarrow> snap_active a * snap_capacity b < snap_active b * snap_capacity a
     \<or> (snap_active a * snap_capacity b = snap_active b * snap_capacity a \<and> snap_name a < snap_name b)"
  using assms by (auto simp: snap_less_def small_snap_def small_product Let_def)

lemma snap_less_weak_order:
  assumes "\<And>s. s \<in> S \<Longrightarrow> small_snap s"
  shows "weak_order_on S snap_less"
  unfolding weak_order_on_def
proof (intro conjI ballI impI)
  fix a b assume "a \<in> S" "b \<in> S" "snap_less a b"
  with assms show "\<not> snap_less b a" by (auto simp: snap_less_small)
next
  fix a b c
  assume S: "a \<in> S" "b \<in> S" "c \<in> S" and ba: "\<not> snap_less b a" and cb: "\<not> snap_less c b"
  let ?x = snap_active and ?c = snap_capacity
  from S assms have pos: "0 < ?c a" "0 < ?c b" "0 < ?c c" by (auto simp: small_snap_def)
  from S assms ba have p: "?x a * ?c b \<le> ?x b * ?c a" and pn: "?x a * ?c b = ?x b * ?c a \<Longrightarrow> snap_name a \<le> snap_name b"
    by (auto simp: snap_less_small)
  from S assms cb have q: "?x b * ?c c \<le> ?x c * ?c b" and qn: "?x b * ?c c = ?x c * ?c b \<Longrightarrow> snap_name b \<le> snap_name c"
    by (auto simp: snap_less_small)
  note t = cross_le_trans [OF pos p q]
  show "\<not> snap_less c a"
  proof (cases "?x a * ?c b = ?x b * ?c a \<and> ?x b * ?c c = ?x c * ?c b")
    case True
    with pn qn have "snap_name a \<le> snap_name c" by simp
    with t(1) S assms show ?thesis by (auto simp: snap_less_small)
  next
    case False
    with p q have "?x a * ?c b < ?x b * ?c a \<or> ?x b * ?c c < ?x c * ?c b" by auto
    with t(2,3) have "?x a * ?c c < ?x c * ?c a" by blast
    with S assms show ?thesis by (auto simp: snap_less_small)
  qed
qed

lemma find_sorted:
  assumes "find P xs = Some s" and "sorted_wrt R xs" and "y \<in> set xs" and "P y"
  shows "y = s \<or> R s y"
proof -
  from assms(1) obtain i where i: "i < length xs" "P (xs ! i)" "s = xs ! i" "\<forall>j < i. \<not> P (xs ! j)"
    by (auto simp: find_Some_iff)
  from assms(3) obtain j where j: "j < length xs" "y = xs ! j" by (auto simp: in_set_conv_nth)
  with i assms(4) have "i \<le> j" by (metis not_le_imp_less)
  with i j assms(2) show ?thesis by (cases "i = j") (auto simp: sorted_wrt_iff_nth_less)
qed

text \<open>The slot of a configured machine, as the chooser sees it.\<close>

definition slot :: "(string \<Rightarrow> int) \<Rightarrow> string \<times> machine \<Rightarrow> machine_snapshot" where
  "slot active = (\<lambda>(name, m). \<lparr>snap_name = name, snap_capacity = EffectiveCapacity m, snap_active = active name\<rparr>)"

lemma computeMachineSnapshots_slot: "computeMachineSnapshots active cfg = go_sort snap_less (map (slot active) (Machines cfg))"
  by (simp add: computeMachineSnapshots_def slot_def)

text \<open>
  C33: The machine \<open>chooseSlot\<close> picks is a candidate with a free slot whose load, relative to its
  capacity, is smallest among all candidates with a free slot; it reports that there is no capacity
  exactly when every configured candidate is full. The bounds keep the 64-bit products exact.
\<close>

theorem chooseSlot_least:
  assumes "\<And>name m. (name, m) \<in> set (Machines cfg) \<Longrightarrow> 0 \<le> active name \<and> active name < 2 ^ 31 \<and> MaxConcurrent m < 2 ^ 31"
  shows "case chooseSlot active cfg candidates of
      Inr s \<Rightarrow> s \<in> slot active ` set (Machines cfg) \<and> snap_name s \<in> set candidates \<and> snap_active s < snap_capacity s
        \<and> (\<forall>t \<in> slot active ` set (Machines cfg). snap_name t \<in> set candidates \<longrightarrow> snap_active t < snap_capacity t \<longrightarrow>
             snap_active s * snap_capacity t \<le> snap_active t * snap_capacity s)
    | Inl e \<Rightarrow> e = ESent ErrNoCapacity
        \<and> (\<forall>t \<in> slot active ` set (Machines cfg). snap_name t \<in> set candidates \<longrightarrow> snap_capacity t \<le> snap_active t)"
proof -
  let ?P = "\<lambda>s. snap_name s \<in> set candidates \<and> snap_active s < snap_capacity s"
  let ?S = "slot active ` set (Machines cfg)"
  have small: "small_snap t" if "t \<in> ?S" for t
    using that assms by (auto simp: small_snap_def slot_def EffectiveCapacity_def)
  have sorted: "sorted_wrt (\<lambda>a b. \<not> snap_less b a) (computeMachineSnapshots active cfg)"
    unfolding computeMachineSnapshots_slot by (rule go_sort_sorted [OF snap_less_weak_order]) (use small in auto)
  have set: "set (computeMachineSnapshots active cfg) = ?S" by (simp add: computeMachineSnapshots_slot)
  show ?thesis
  proof (cases "find ?P (computeMachineSnapshots active cfg)")
    case None
    then have "\<forall>t \<in> ?S. \<not> ?P t" by (simp add: find_None_iff set)
    with None show ?thesis by (auto simp: chooseSlot_def)
  next
    case (Some s)
    from Some set have s: "s \<in> ?S" "?P s" by (auto simp: find_Some_iff) 
    have "snap_active s * snap_capacity t \<le> snap_active t * snap_capacity s" if "t \<in> ?S" "?P t" for t
      using find_sorted [OF Some sorted, of t] that set small s by (auto simp: snap_less_small)
    with Some s show ?thesis by (auto simp: chooseSlot_def)
  qed
qed

section \<open>Claims on a machine\<close>

definition claim_at :: "'a sched_state_scheme \<Rightarrow> string \<Rightarrow> run_id \<Rightarrow> claim_node option" where
  "claim_at w machine rid = map_of (claim_files w machine) (claim_name rid)"

definition claim_set :: "'a sched_state_scheme \<Rightarrow> string \<Rightarrow> run_id set" where
  "claim_set w machine = {rid. ValidRunID rid \<and> (\<exists>n. claim_at w machine rid = Some n \<and> n \<noteq> ClaimFolder)}"

definition claim_count :: "'a sched_state_scheme \<Rightarrow> string \<Rightarrow> int" where
  "claim_count w machine = int (card (claim_set w machine))"

lemma claim_name_inject [simp]: "claim_name a = claim_name b \<longleftrightarrow> a = b"
  by (simp add: claim_name_def)

lemma set_claim_ids: "set (claim_ids w machine) = claim_set w machine"
proof (intro set_eqI iffI)
  fix rid
  assume "rid \<in> set (claim_ids w machine)"
  then obtain n where n: "n \<in> dom (map_of (claim_files w machine))" "rid = TrimSuffix n ''.json''"
      "map_of (claim_files w machine) n \<noteq> Some ClaimFolder" "HasSuffix n ''.json''" "ValidRunID rid"
    by (auto simp: claim_ids_def Let_def dir_names_dom simp del: set_dir_names)
  then have "n = claim_name rid" by (auto simp: HasSuffix_iff claim_name_def)
  with n(1,3,5) show "rid \<in> claim_set w machine" by (auto simp: claim_set_def claim_at_def)
next
  fix rid
  assume "rid \<in> claim_set w machine"
  then obtain n where n: "map_of (claim_files w machine) (claim_name rid) = Some n" "n \<noteq> ClaimFolder" "ValidRunID rid"
    by (auto simp: claim_set_def claim_at_def)
  then have "claim_name rid \<in> set (dir_names (claim_files w machine))" by (auto simp: dir_names_dom simp del: set_dir_names)
  moreover have "TrimSuffix (claim_name rid) ''.json'' = rid" "HasSuffix (claim_name rid) ''.json''"
    by (simp_all add: claim_name_def)
  ultimately show "rid \<in> set (claim_ids w machine)"
    using n unfolding claim_ids_def Let_def set_map
    by (intro image_eqI [where x = "claim_name rid"]) (auto simp del: set_dir_names)
qed

lemma distinct_claim_ids: "distinct (claim_ids w machine)"
  unfolding claim_ids_def Let_def
  by (auto simp: distinct_map HasSuffix_iff intro!: inj_onI)

lemma length_claim_ids: "int (length (claim_ids w machine)) = claim_count w machine"
  by (simp add: claim_count_def set_claim_ids [symmetric] distinct_card distinct_claim_ids)

lemma finite_claim_set [simp]: "finite (claim_set w machine)"
  by (metis set_claim_ids finite_set)

text \<open>Operations that remove claims and touch nothing else.\<close>

definition shrinks :: "'a sched_state_scheme \<Rightarrow> 'a sched_state_scheme \<Rightarrow> bool" where
  "shrinks w w' \<longleftrightarrow> w'\<lparr>faults := [], entropy := [], claims := []\<rparr> = w\<lparr>faults := [], entropy := [], claims := []\<rparr>
     \<and> (\<forall>m rid n. claim_at w' m rid = Some n \<longrightarrow> claim_at w m rid = Some n)"

interpretation shrinks: os_guarantee shrinks
  by unfold_locales (auto simp: shrinks_def claim_at_def claim_files_def)

lemma shrinks_field:
  assumes "shrinks w w'" and "\<And>u fs bs cs. g (u\<lparr>faults := fs, entropy := bs, claims := cs\<rparr>) = g u"
  shows "g w' = g w"
proof -
  from assms(1) have "g (w'\<lparr>faults := [], entropy := [], claims := []\<rparr>) = g (w\<lparr>faults := [], entropy := [], claims := []\<rparr>)"
    by (simp only: shrinks_def)
  with assms(2) show ?thesis by simp
qed

lemma shrinks_claim_set: "shrinks w w' \<Longrightarrow> claim_set w' m \<subseteq> claim_set w m"
  by (auto simp: shrinks_def claim_set_def)

lemma shrinks_count: "shrinks w w' \<Longrightarrow> claim_count w' m \<le> claim_count w m"
  by (simp add: claim_count_def card_mono shrinks_claim_set)

lemma shrinks_run_file: "shrinks w w' \<Longrightarrow> run_file f w' rid = run_file f w rid"
  by (erule shrinks_field) (simp add: run_file_def)

lemma shrinks_record_of: "shrinks w w' \<Longrightarrow> record_of w' rid = record_of w rid"
  by (simp add: record_of_def shrinks_run_file)

lemma quiet_claim_at: "quiet w w' \<Longrightarrow> claim_at (w' :: 'a sched_state_scheme) m rid = claim_at w m rid"
  by (auto simp: quiet_def claim_at_def claim_files_def)

lemma quiet_claim_set: "quiet w w' \<Longrightarrow> claim_set (w' :: 'a sched_state_scheme) m = claim_set w m"
  by (simp add: claim_set_def quiet_claim_at)

lemma quiet_shrinks: "quiet w w' \<Longrightarrow> shrinks (w :: 'a sched_state_scheme) w'"
  by (auto simp: quiet_def shrinks_def claim_at_def claim_files_def)

lemma claim_files_put:
  "claim_files (put_claim m rid n w) m' =
     (if m' = m \<and> is_sub (map_of (claims w) m) then AList.update (claim_name rid) n (claim_files w m) else claim_files w m')"
  by (auto simp: claim_files_def put_claim_def is_sub_def update_conv' split: option.splits entry.splits)

lemma claim_files_del:
  "claim_files (del_claim m rid w) m' = (if m' = m then AList.delete (claim_name rid) (claim_files w m) else claim_files w m')"
  by (auto simp: claim_files_def del_claim_def update_conv' split: option.splits entry.splits)

lemma claim_at_del: "claim_at (del_claim m rid w) m' rid' = (if m' = m \<and> rid' = rid then None else claim_at w m' rid')"
  by (simp add: claim_at_def claim_files_del delete_conv')

lemma claim_at_put:
  "claim_at (put_claim m rid n w) m' rid' =
     (if m' = m \<and> rid' = rid \<and> is_sub (map_of (claims w) m) then Some n else claim_at w m' rid')"
  by (simp add: claim_at_def claim_files_put update_conv')

lemma always_del_claim [always_intro]: "always shrinks (modify (del_claim m rid))"
  by (auto simp: always_def modify_def shrinks_def claim_at_del) (simp add: del_claim_def split: option.split entry.split)

lemma quiet_lstat_claim [always_intro]: "always quiet (lstat_claim m rid)"
  unfolding lstat_claim_def by (intro always_intro)

lemma always_quiet_shrinks: "always quiet m \<Longrightarrow> always shrinks (m :: ('a sched_state_scheme, 'b) io)"
  by (erule always_mono) (rule quiet_shrinks)

lemma shrinks_remove_claim [always_intro]: "always shrinks (remove_claim m rid)"
  unfolding remove_claim_def by (intro always_intro always_quiet_shrinks [OF quiet_lstat_claim])

lemma always_case_claim [always_intro]:
  "(\<And>c. n = ClaimJson c \<Longrightarrow> always R (f c)) \<Longrightarrow> (n = ClaimLink \<Longrightarrow> always R a) \<Longrightarrow> (n = ClaimFolder \<Longrightarrow> always R b) \<Longrightarrow>
   (n = ClaimSpecial \<Longrightarrow> always R d) \<Longrightarrow> (n = ClaimEmpty \<Longrightarrow> always R e) \<Longrightarrow> (n = ClaimGarbled \<Longrightarrow> always R g) \<Longrightarrow>
   always R (case n of ClaimFolder \<Rightarrow> b | ClaimLink \<Rightarrow> a | ClaimSpecial \<Rightarrow> d | ClaimEmpty \<Rightarrow> e | ClaimGarbled \<Rightarrow> g | ClaimJson c \<Rightarrow> f c)"
  by (cases n) auto

lemma quiet_validateClaimFile [always_intro]: "always quiet (validateClaimFile l m rid)"
  unfolding validateClaimFile_def by (intro always_intro)

lemma quiet_enumerateMachine [always_intro]: "always quiet (enumerateMachine l out m)"
  unfolding enumerateMachine_def by (intro always_intro)

lemma quiet_enumerateClaims [always_intro]: "always quiet (enumerateClaims l)"
  unfolding enumerateClaims_def by (intro always_intro)

lemma quiet_countActive [always_intro]: "always quiet (countActiveByMachine l)"
  unfolding countActiveByMachine_def by (intro always_intro)

section \<open>Counting\<close>

lemma quiet_claim_ids: "quiet w w' \<Longrightarrow> claim_ids (w' :: 'a sched_state_scheme) m = claim_ids w m"
  by (auto simp: quiet_def claim_ids_def claim_files_def)

lemma quiet_machine_dirs: "quiet w w' \<Longrightarrow> machine_dirs (w' :: 'a sched_state_scheme) = machine_dirs w"
  by (auto simp: quiet_def machine_dirs_def)

text \<open>A loop of quiet steps that append to an accumulator.\<close>

lemma foldE_appends:
  assumes "foldE f out xs w = (Inr out', w')"
    and step: "\<And>out x w1 out' w2. quiet w w1 \<Longrightarrow> f out x w1 = (Inr out', w2) \<Longrightarrow> quiet w1 w2 \<and> g out' = g out @ h x"
  shows "quiet w w' \<and> g out' = g out @ concat (map h xs)"
proof -
  have "quiet w w1 \<Longrightarrow> foldE f out xs w1 = (Inr out', w2) \<Longrightarrow> quiet w w2 \<and> g out' = g out @ concat (map h xs)" for w1 w2
  proof (induction xs arbitrary: out w1)
    case Nil
    then show ?case by simp
  next
    case (Cons x xs)
    from Cons.prems(2) obtain out1 w3 where fx: "f out x w1 = (Inr out1, w3)" and rest: "foldE f out1 xs w3 = (Inr out', w2)"
      by (auto simp: bindE_Inr)
    from step [OF Cons.prems(1) fx] have "quiet w1 w3" and g: "g out1 = g out @ h x" by auto
    with Cons.prems(1) have "quiet w w3" by (blast intro: quiet.trans)
    from Cons.IH [OF this rest] g show ?case by simp
  qed
  with assms(1) quiet.refl show ?thesis by blast
qed

definition claim_key :: "claim_info \<Rightarrow> string \<times> run_id" where
  "claim_key c = (ci_machine c, ci_runID c)"

lemma enumerateMachine_Inr:
  assumes "enumerateMachine l out m w = (Inr out', w')"
  shows "map claim_key out' = map claim_key out @ map (Pair m) (claim_ids w m)"
proof -
  from assms obtain w1 where oc: "os_call w = (Inr (), w1)"
    and fold: "foldE (\<lambda>out rid.
       bindE (wrapE ''scheduler: corrupt claim %s: %w'' [MachineClaimPath l m rid] (validateClaimFile l m rid)) (\<lambda>v.
       ret (out @ [\<lparr>ci_machine = m, ci_runID = rid, ci_createdAt = ResCreatedAt v\<rparr>]))) out (claim_ids w1 m) w1 = (Inr out', w')"
    by (auto simp: enumerateMachine_def bindE_Inr)
  from oc have "claim_ids w1 m = claim_ids w m" by (blast dest: os_call_quiet quiet_claim_ids)
  moreover have "quiet w1 w' \<and> map claim_key out' = map claim_key out @ concat (map (\<lambda>rid. [(m, rid)]) (claim_ids w1 m))"
    by (rule foldE_appends [OF fold]) (auto simp: bindE_Inr claim_key_def dest: alwaysD [OF quiet_validateClaimFile])
  ultimately show ?thesis by (simp add: concat_map_singleton)
qed

lemma enumerateClaims_Inr:
  assumes "enumerateClaims l w = (Inr cs, w')"
  shows "quiet w w' \<and> map claim_key cs = concat (map (\<lambda>m. map (Pair m) (claim_ids w m)) (machine_dirs w))"
proof -
  from assms obtain w1 where oc: "os_call w = (Inr (), w1)"
    and fold: "foldE (enumerateMachine l) [] (machine_dirs w1) w1 = (Inr cs, w')"
    by (auto simp: enumerateClaims_def bindE_Inr)
  have q: "quiet w w1" using oc by (rule os_call_quiet)
  have "quiet w1 w' \<and> map claim_key cs = map claim_key [] @ concat (map (\<lambda>m. map (Pair m) (claim_ids w1 m)) (machine_dirs w1))"
    by (rule foldE_appends [OF fold])
      (auto dest: alwaysD [OF quiet_enumerateMachine] simp: enumerateMachine_Inr quiet_claim_ids)
  with q show ?thesis by (auto simp: quiet_claim_ids quiet_machine_dirs intro: quiet.trans)
qed

lemma counts_eq:
  "foldl (\<lambda>counts c. counts(ci_machine c := counts (ci_machine c) + 1)) f cs m
    = f m + (int (length (filter (\<lambda>c. ci_machine c = m) cs)) :: int)"
  by (induction cs arbitrary: f) auto

lemma distinct_machine_dirs: "distinct (machine_dirs w)"
  by (simp add: machine_dirs_def)

lemma length_filter_concat:
  "distinct ms \<Longrightarrow> length (filter (\<lambda>k. fst k = m) (concat (map (\<lambda>x. map (Pair x) (h x)) ms)))
    = (if m \<in> set ms then length (h m) else 0)"
  by (induction ms) (auto simp: filter_map o_def filter_empty_conv)

lemma claim_ids_nodir: "ValidName m \<Longrightarrow> m \<notin> set (machine_dirs w) \<Longrightarrow> claim_ids w m = []"
  by (auto simp: machine_dirs_def claim_ids_def claim_files_def is_sub_def dir_names_dom dir_names_def [of "[]"] simp del: set_dir_names
      split: option.splits entry.splits)

lemma countActive_Inr:
  assumes "countActiveByMachine l w = (Inr active, w')" and "ValidName m"
  shows "active m = claim_count w m"
proof -
  from assms(1) obtain cs where en: "enumerateClaims l w = (Inr cs, w')"
    and active: "active = foldl (\<lambda>counts c. counts(ci_machine c := counts (ci_machine c) + 1)) (\<lambda>_. 0) cs"
    by (auto simp: countActiveByMachine_def bindE_Inr)
  have "length (filter (\<lambda>c. ci_machine c = m) cs) = length (filter (\<lambda>k. fst k = m) (map claim_key cs))"
    by (simp add: filter_map o_def claim_key_def)
  also have "\<dots> = (if m \<in> set (machine_dirs w) then length (claim_ids w m) else 0)"
    using enumerateClaims_Inr [OF en] by (simp add: length_filter_concat distinct_machine_dirs)
  also have "\<dots> = length (claim_ids w m)"
    using claim_ids_nodir [OF assms(2)] by auto
  finally show ?thesis by (simp add: active counts_eq length_claim_ids)
qed

lemma lstat_claim_absent:
  assumes "lstat_claim m rid w = (Inl e, w')" and "IsNotExist e"
  shows "claim_at w' m rid = None"
proof -
  from assms have "claim_lookup m rid w' = Inl ENotExist"
    by (auto simp: lstat_claim_def bindE_Inl os_call_def split: list.splits option.splits) (cases e; simp)+
  then show ?thesis
    by (auto simp: claim_lookup_def claim_at_def claim_files_def not_a_directory_def split: option.splits entry.splits)
qed

text \<open>Removing a claim file that may be absent.\<close>

lemma remove_claim_Inr:
  assumes "remove_claim m rid w = (Inr u, w')"
  shows "claim_at w' m' rid' = (if m' = m \<and> rid' = rid then None else claim_at w m' rid')"
proof -
  from assms obtain y w1 where ls: "lstat_claim m rid w = (y, w1)"
    and fin: "(case y of Inl e \<Rightarrow> if IsNotExist e then ret () else throw e | Inr _ \<Rightarrow> modify (del_claim m rid)) w1 = (Inr u, w')"
    by (auto simp: remove_claim_def bindE_Inr attempt_eq)
  have q: "quiet w w1" using ls by (rule alwaysD [OF quiet_lstat_claim])
  show ?thesis
  proof (cases y)
    case (Inl e)
    with fin have w': "w' = w1" and "IsNotExist e" by (auto split: if_splits)
    with lstat_claim_absent [of m rid w e w1] ls Inl have "claim_at w' m rid = None" by simp
    with w' show ?thesis by (auto simp: quiet_claim_at [OF q])
  next
    case (Inr n)
    with fin q show ?thesis by (simp add: claim_at_del quiet_claim_at)
  qed
qed

section \<open>The record loader\<close>

text \<open>
  What the scheduler relies on when it reads run records: reading changes nothing, a record it gets is
  the one on disk, and a run that is reported missing has no record.
\<close>

locale record_loader =
  fixes load :: "run_id \<Rightarrow> ('a sched_state_scheme, run_record) io"
  assumes load_quiet: "always quiet (load rid)"
    and load_record: "load rid w = (Inr r, w') \<Longrightarrow> record_of w rid = Some r"
    and load_missing: "load rid w = (Inl e, w') \<Longrightarrow> is_not_exist e \<Longrightarrow> run_file run_json w rid = None"
begin

lemma shrinks_reapOne [always_intro]: "always shrinks (reapOne load n c)"
  unfolding reapOne_def by (intro always_intro always_quiet_shrinks [OF load_quiet])

lemma shrinks_reapClaims [always_intro]: "always shrinks (reapClaims l load)"
  unfolding reapClaims_def by (intro always_intro always_quiet_shrinks [OF quiet_enumerateClaims])

text \<open>A claim survives the reaping of one claim iff it is another one, or its run is live.\<close>

lemma reapOne_Inr:
  assumes "reapOne load k c w = (Inr k', w')"
  shows "shrinks w w' \<and> (\<forall>m rid. (m, rid) \<noteq> claim_key c \<longrightarrow> claim_at w' m rid = claim_at w m rid)
    \<and> (if \<exists>r. record_of w (ci_runID c) = Some r \<and> \<not> IsTerminal (State r)
       then claim_at w' (ci_machine c) (ci_runID c) = claim_at w (ci_machine c) (ci_runID c) \<and> k' = k
       else claim_at w' (ci_machine c) (ci_runID c) = None \<and> k' = k + 1)"
proof -
  have sh: "shrinks w w'" using assms by (rule alwaysD [OF shrinks_reapOne])
  from assms obtain x w1 where ld: "load (ci_runID c) w = (x, w1)"
    and rest: "(case x of
       Inl e \<Rightarrow>
         if \<not> is_not_exist e then throw (EWrap ''scheduler: reap %s/%s: %w'' [ci_machine c, ci_runID c] e)
         else bindE (remove_claim (ci_machine c) (ci_runID c)) (\<lambda>_. ret (k + 1))
     | Inr r \<Rightarrow>
         if \<not> IsTerminal (State r) then ret k
         else bindE (remove_claim (ci_machine c) (ci_runID c)) (\<lambda>_. ret (k + 1))) w1 = (Inr k', w')"
    unfolding reapOne_def by (auto simp: bindE_Inr attempt_eq)
  have q: "quiet w w1" using ld by (rule alwaysD [OF load_quiet])
  have removed: "(\<forall>m rid. (m, rid) \<noteq> claim_key c \<longrightarrow> claim_at w' m rid = claim_at w m rid)
      \<and> claim_at w' (ci_machine c) (ci_runID c) = None \<and> k' = k + 1"
    if "bindE (remove_claim (ci_machine c) (ci_runID c)) (\<lambda>_. ret (k + 1)) w1 = (Inr k', w')"
  proof -
    from that have "remove_claim (ci_machine c) (ci_runID c) w1 = (Inr (), w')" and "k' = k + 1" by (auto simp: bindE_Inr)
    with remove_claim_Inr [OF this(1)] show ?thesis by (auto simp: claim_key_def quiet_claim_at [OF q])
  qed
  show ?thesis
  proof (cases x)
    case (Inl e)
    with rest have "is_not_exist e" by (auto split: if_splits)
    with ld Inl have "record_of w (ci_runID c) = None" by (auto simp: record_of_def dest: load_missing)
    with rest Inl removed sh \<open>is_not_exist e\<close> show ?thesis by simp
  next
    case (Inr r)
    with ld have r: "record_of w (ci_runID c) = Some r" by (auto dest: load_record)
    show ?thesis
    proof (cases "IsTerminal (State r)")
      case True
      with rest Inr removed sh r show ?thesis by simp
    next
      case False
      with rest Inr have "w' = w1" "k' = k" by simp_all
      with False sh r q show ?thesis by (simp add: quiet_claim_at)
    qed
  qed
qed

end

lemma read_run_err: "read_run f rid w = (Inl e, w') \<Longrightarrow> e = ENotExist \<or> (\<exists>m. e = EOs m)"
  by (auto simp: read_run_def bindE_Inl os_call_def entry_file_def entry_dir_def not_a_directory_def
      split: list.splits option.splits entry.splits sum.splits)

lemma Load_missing_file:
  assumes "Load rid w = (Inl e, w')" and "is_not_exist e"
  shows "run_file run_json w rid = None"
proof -
  have "\<exists>e. read_run run_json rid w = (Inl e, w') \<and> IsNotExist e"
    using assms
    by (auto simp: Load_def runDir_def loadPath_def bindE_Inl wrapE_def lift_result_def decode_json_def validateRecord_def
        ensure_def elim!: bindE_cases split: if_splits sum.splits json.splits prod.splits)
      (frule read_run_err, auto)
  then show ?thesis by (blast dest: read_run_missing_before)
qed

interpretation store_loader: record_loader Load
  by unfold_locales (auto intro: quiet_Load dest: Load_Inr Load_missing_file)

section \<open>Reaping\<close>

definition live_run :: "'a store_state_scheme \<Rightarrow> run_id \<Rightarrow> bool" where
  "live_run w rid = (case record_of w rid of Some r \<Rightarrow> \<not> IsTerminal (State r) | None \<Rightarrow> False)"

lemma live_run_iff: "live_run w rid \<longleftrightarrow> (\<exists>r. record_of w rid = Some r \<and> \<not> IsTerminal (State r))"
  by (auto simp: live_run_def split: option.splits)

lemma reap_fold:
  assumes "foldE (reapOne Load) k cs w = (Inr k', w')" and "distinct (map claim_key cs)"
  shows "shrinks w w' \<and> (\<forall>m rid. claim_at w' m rid =
      (if (m, rid) \<in> set (map claim_key cs) \<and> \<not> live_run w rid then None else claim_at w m rid))
    \<and> k' = k + int (length (filter (\<lambda>c. \<not> live_run w (ci_runID c)) cs))"
  using assms
proof (induction cs arbitrary: k w)
  case Nil
  then show ?case by (simp add: shrinks.refl)
next
  case (Cons c cs)
  from Cons.prems(1) obtain k1 w1 where one: "reapOne Load k c w = (Inr k1, w1)"
    and rest: "foldE (reapOne Load) k1 cs w1 = (Inr k', w')"
    by (auto simp: bindE_Inr)
  note r = store_loader.reapOne_Inr [OF one]
  from r have sh: "shrinks w w1" by simp
  then have live: "live_run w1 rid = live_run w rid" for rid by (simp add: live_run_def shrinks_record_of)
  from Cons.prems(2) have c: "claim_key c \<notin> set (map claim_key cs)" and "distinct (map claim_key cs)" by auto
  from Cons.IH [OF rest this(2)] have ih: "shrinks w1 w'"
      "\<And>m rid. claim_at w' m rid = (if (m, rid) \<in> set (map claim_key cs) \<and> \<not> live_run w rid then None else claim_at w1 m rid)"
      "k' = k1 + int (length (filter (\<lambda>c. \<not> live_run w (ci_runID c)) cs))"
    by (auto simp: live)
  from r have c1: "claim_at w1 m rid = (if (m, rid) = claim_key c \<and> \<not> live_run w rid then None else claim_at w m rid)" for m rid
    by (cases "(m, rid) = claim_key c") (auto simp: live_run_iff claim_key_def split: if_splits)
  have k1: "k1 = k + (if live_run w (ci_runID c) then 0 else 1)"
    using r by (auto simp: live_run_iff split: if_splits)
  show ?case
  proof (intro conjI allI)
    show "shrinks w w'" using sh ih(1) by (rule shrinks.trans)
    fix m rid
    show "claim_at w' m rid = (if (m, rid) \<in> set (map claim_key (c # cs)) \<and> \<not> live_run w rid then None else claim_at w m rid)"
      by (auto simp: ih(2) c1)
    show "k' = k + int (length (filter (\<lambda>c. \<not> live_run w (ci_runID c)) (c # cs)))"
      by (simp add: ih(3) k1)
  qed
qed

lemma distinct_pairs:
  "distinct ms \<Longrightarrow> (\<And>m. distinct (h m)) \<Longrightarrow> distinct (concat (map (\<lambda>m. map (Pair m) (h m)) ms))"
  by (induction ms) (auto simp: distinct_map intro!: inj_onI)

lemma distinct_claim_keys:
  "distinct (concat (map (\<lambda>m. map (Pair m) (claim_ids w m)) (machine_dirs w)))"
  by (intro distinct_pairs distinct_claim_ids distinct_machine_dirs)

lemma claim_set_dirs: "ValidName m \<Longrightarrow> rid \<in> claim_set w m \<Longrightarrow> m \<in> set (machine_dirs w)"
  by (metis claim_ids_nodir empty_iff list.set(1) set_claim_ids)

lemma Reap_exact_core:
  assumes "Reap l Load w = (Inr k, w')" and "ValidName m"
  shows "claim_set w' m = {rid \<in> claim_set w m. live_run w rid}
    \<and> (\<forall>rid. live_run w rid \<longrightarrow> claim_at w' m rid = claim_at w m rid) \<and> shrinks w w'"
proof -
  from assms(1) obtain w1 cs w2 where q: "quiet w w1" and en: "enumerateClaims l w1 = (Inr cs, w2)"
    and fold: "foldE (reapOne Load) 0 cs w2 = (Inr k, w')"
    by (auto simp: Reap_def withLock_def reapClaims_def bindE_Inr dest!: os_call_quiet)
      (blast intro: quiet.trans)
  from enumerateClaims_Inr [OF en] have q2: "quiet w w2"
    and keys: "map claim_key cs = concat (map (\<lambda>m. map (Pair m) (claim_ids w1 m)) (machine_dirs w1))"
    using q by (auto intro: quiet.trans)
  have dist: "distinct (map claim_key cs)" unfolding keys by (rule distinct_claim_keys)
  note r = reap_fold [OF fold dist]
  have live: "live_run w2 rid = live_run w rid" for rid
    using q2 by (simp add: live_run_def record_of_quiet)
  have at: "claim_at w' m rid = (if rid \<in> claim_set w m \<and> \<not> live_run w rid then None else claim_at w m rid)"
    if "ValidRunID rid" for rid
  proof -
    have "(m, rid) \<in> set (map claim_key cs) \<longleftrightarrow> rid \<in> claim_set w m"
      unfolding keys using claim_set_dirs [OF assms(2), of rid w1] quiet_claim_set [OF q, of m]
      by (auto simp: set_claim_ids)
    with r show ?thesis by (simp add: live quiet_claim_at [OF q2])
  qed
  have "claim_at w' m rid = claim_at w m rid" if "live_run w rid" for rid
    using r that by (simp add: live quiet_claim_at [OF q2])
  moreover have "claim_set w' m = {rid \<in> claim_set w m. live_run w rid}"
  proof (rule set_eqI)
    fix rid
    show "rid \<in> claim_set w' m \<longleftrightarrow> rid \<in> {rid \<in> claim_set w m. live_run w rid}"
    proof (cases "rid \<in> claim_set w m \<and> \<not> live_run w rid")
      case True
      with at [of rid] show ?thesis by (auto simp: claim_set_def)
    next
      case False
      with at [of rid] have "ValidRunID rid \<Longrightarrow> claim_at w' m rid = claim_at w m rid" by simp
      then have "rid \<in> claim_set w' m \<longleftrightarrow> rid \<in> claim_set w m" by (simp add: claim_set_def cong: conj_cong)
      with False show ?thesis by auto
    qed
  qed
  moreover have "shrinks w w'" using r q2 by (blast intro: shrinks.trans quiet_shrinks)
  ultimately show ?thesis by blast
qed

lemmas Reap_claim_set = Reap_exact_core [THEN conjunct1]

text \<open>
  C11: When \<open>Reap\<close> succeeds, on every machine exactly the claims whose run record is missing or
  terminal are gone, every other claim file is untouched, and nothing but claims has changed.
\<close>

theorem Reap_exact:
  assumes "Reap l Load w = (Inr k, w')" and "ValidName m"
  shows "claim_set w' m = {rid \<in> claim_set w m. live_run w rid}
    \<and> (\<forall>rid. live_run w rid \<longrightarrow> claim_at w' m rid = claim_at w m rid) \<and> shrinks w w'"
  by (rule Reap_exact_core [OF assms])

section \<open>Writing a claim\<close>

definition adds_claim :: "string \<Rightarrow> claim \<Rightarrow> 'a sched_state_scheme \<Rightarrow> 'a sched_state_scheme \<Rightarrow> bool" where
  "adds_claim m c w w' \<longleftrightarrow> w'\<lparr>faults := [], entropy := [], claims := []\<rparr> = w\<lparr>faults := [], entropy := [], claims := []\<rparr>
     \<and> (\<forall>m' rid. claim_at w' m' rid = claim_at w m' rid
          \<or> (m' = m \<and> rid = ClaimRunID c \<and> claim_at w' m' rid = Some (ClaimJson c)))"

interpretation adds_claim: os_guarantee "adds_claim m c" for m c
proof
  fix u v w :: "'a sched_state_scheme"
  show "adds_claim m c w w" by (simp add: adds_claim_def)
  assume "adds_claim m c u v" and "adds_claim m c v w"
  then show "adds_claim m c u w" unfolding adds_claim_def by metis
next
  fix w :: "'a sched_state_scheme" and fs bs
  show "adds_claim m c w (w\<lparr>faults := fs\<rparr>)" and "adds_claim m c w (w\<lparr>entropy := bs\<rparr>)"
    by (simp_all add: adds_claim_def claim_at_def claim_files_def)
qed

lemma claim_at_add_dir: "claim_at (add_machine_dir m w) m' rid = claim_at w m' rid"
  by (auto simp: claim_at_def claim_files_def add_machine_dir_def update_conv' split: option.splits entry.splits)

lemma always_add_machine_dir [always_intro]: "always (adds_claim m c) (modify (add_machine_dir m'))"
  by (auto simp: always_def modify_def adds_claim_def claim_at_add_dir) (simp add: add_machine_dir_def split: option.split)

lemma always_put_claim [always_intro]: "always (adds_claim m c) (modify (put_claim m (ClaimRunID c) (ClaimJson c)))"
  by (auto simp: always_def modify_def adds_claim_def claim_at_put) (simp add: put_claim_def split: option.split entry.split)

lemma always_writeClaim [always_intro]: "always (adds_claim m c) (writeClaim m c)"
  unfolding writeClaim_def atomicWriteClaim_def rename_claim_def by (intro always_intro)

lemma writeClaim_Inr:
  assumes "writeClaim m c w = (Inr (), w')"
  shows "claim_at w' m (ClaimRunID c) = Some (ClaimJson c)"
proof -
  from assms obtain w1 w2 w3 where sub: "is_sub (map_of (claims w1) m)" and cl: "calls 6 w1 = (Inr (), w2)"
    and oc: "os_call w2 = (Inr (), w3)" and sy: "sync_parent (put_claim m (ClaimRunID c) (ClaimJson c) w3) = (Inr (), w')"
    by (auto simp: writeClaim_def atomicWriteClaim_def rename_claim_def bindE_Inr split: if_splits)
  have "quiet w1 w3" using cl oc by (blast dest: calls_quiet os_call_quiet intro: quiet.trans)
  with sub have "is_sub (map_of (claims w3) m)" by (auto simp: quiet_def)
  then have "claim_at (put_claim m (ClaimRunID c) (ClaimJson c) w3) m (ClaimRunID c) = Some (ClaimJson c)"
    by (simp add: claim_at_put)
  with sy show ?thesis by (metis quiet_claim_at sync_parent_quiet)
qed

lemma adds_claim_field:
  assumes "adds_claim m c w w'" and "\<And>u fs bs cs. g (u\<lparr>faults := fs, entropy := bs, claims := cs\<rparr>) = g u"
  shows "g w' = g w"
proof -
  from assms(1) have "g (w'\<lparr>faults := [], entropy := [], claims := []\<rparr>) = g (w\<lparr>faults := [], entropy := [], claims := []\<rparr>)"
    by (simp only: adds_claim_def)
  with assms(2) show ?thesis by simp
qed

lemma adds_claim_set: "adds_claim m c w w' \<Longrightarrow> claim_set w' m' \<subseteq> (if m' = m then insert (ClaimRunID c) (claim_set w m) else claim_set w m')"
proof
  fix rid
  assume a: "adds_claim m c w w'" and "rid \<in> claim_set w' m'"
  then obtain n where n: "claim_at w' m' rid = Some n" "n \<noteq> ClaimFolder" "ValidRunID rid" by (auto simp: claim_set_def)
  from a have "claim_at w' m' rid = claim_at w m' rid \<or> (m' = m \<and> rid = ClaimRunID c)" by (auto simp: adds_claim_def)
  then have "claim_at w m' rid = Some n \<or> (m' = m \<and> rid = ClaimRunID c)" using n(1) by auto
  with n(2,3) show "rid \<in> (if m' = m then insert (ClaimRunID c) (claim_set w m) else claim_set w m')"
    by (auto simp: claim_set_def)
qed

lemma adds_claim_count:
  "adds_claim m c w w' \<Longrightarrow> claim_count w' m' \<le> (if m' = m then claim_count w m + 1 else claim_count w m')"
proof -
  assume "adds_claim m c w w'"
  from card_mono [OF _ adds_claim_set [OF this, of m']]
  have "card (claim_set w' m') \<le> card (if m' = m then insert (ClaimRunID c) (claim_set w m) else claim_set w m')" by simp
  also have "\<dots> \<le> (if m' = m then card (claim_set w m) + 1 else card (claim_set w m'))"
    by (simp add: card_insert_if)
  finally show ?thesis by (simp add: claim_count_def split: if_splits)
qed

section \<open>Capacity\<close>

definition within_capacity :: "config \<Rightarrow> 'a sched_state_scheme \<Rightarrow> bool" where
  "within_capacity cfg w \<longleftrightarrow>
     (\<forall>name m. map_of (Machines cfg) name = Some m \<longrightarrow> claim_count w name \<le> EffectiveCapacity m)"

lemma within_shrinks: "shrinks w w' \<Longrightarrow> within_capacity cfg w \<Longrightarrow> within_capacity cfg w'"
  unfolding within_capacity_def by (meson order_trans shrinks_count)

lemma within_adds:
  assumes "adds_claim name c w w'" and "within_capacity cfg w" and "map_of (Machines cfg) name = Some m"
    and "claim_count w name < EffectiveCapacity m"
  shows "within_capacity cfg w'"
  unfolding within_capacity_def
proof (intro allI impI)
  fix name' m'
  assume m': "map_of (Machines cfg) name' = Some m'"
  with assms(2) have "claim_count w name' \<le> EffectiveCapacity m'" by (simp add: within_capacity_def)
  with adds_claim_count [OF assms(1), of name'] assms(3,4) m' show "claim_count w' name' \<le> EffectiveCapacity m'"
    by (auto split: if_splits)
qed

text \<open>The capacity invariant looks at the claims only, so every rule of the guarantees applies to it.\<close>

interpretation capacity: os_invariant "within_capacity cfg" for cfg
  by unfold_locales (simp_all add: within_capacity_def claim_count_def claim_set_def claim_at_def claim_files_def)

lemma spent_read_run [always_intro]: "always spent (read_run f rid)"
  unfolding read_run_def by (intro always_intro)

lemma spent_loadPath [always_intro]: "always spent (loadPath r)"
  unfolding loadPath_def by (intro always_intro)

lemma spent_Load [always_intro]: "always spent (Load r)"
  unfolding Load_def runDir_def by (intro always_intro)

lemma spent_lstat_claim [always_intro]: "always spent (lstat_claim m r)"
  unfolding lstat_claim_def by (intro always_intro)

lemma spent_validateClaimFile [always_intro]: "always spent (validateClaimFile l m r)"
  unfolding validateClaimFile_def by (intro always_intro)

lemma faults_claims [simp]: "faults (del_claim m rid w) = faults w" "faults (put_claim m rid n w) = faults w"
  "faults (add_machine_dir m w) = faults w"
  by (simp_all add: del_claim_def put_claim_def add_machine_dir_def split: option.split entry.split)

lemma spent_remove_claim [always_intro]: "always spent (remove_claim m rid)"
  unfolding remove_claim_def by (intro always_intro) simp

lemma spent_enumerateClaims [always_intro]: "always spent (enumerateClaims l)"
  unfolding enumerateClaims_def enumerateMachine_def by (intro always_intro)

lemma spent_countActive [always_intro]: "always spent (countActiveByMachine l)"
  unfolding countActiveByMachine_def by (intro always_intro)

lemma spent_reapClaims [always_intro]: "always spent (reapClaims l Load)"
  unfolding reapClaims_def reapOne_def by (intro always_intro)

lemma spent_withLock [always_intro]: "always spent m \<Longrightarrow> always spent (withLock m)"
  unfolding withLock_def by (intro always_intro)

lemma withLock_cases:
  fixes w :: "'b sched_state_scheme"
  assumes "withLock m w = (res, w')"
  obtains (lock) e where "quiet w w'" and "res = Inl e"
  | (body) w1 where "quiet w w1" and "spent w w1" and "m w1 = (res, w')"
proof -
  let ?lock = "wrapE ''scheduler: lock: %w'' []
     (bindE (wrapE ''create lock directory: %w'' [] os_call) (\<lambda>_.
      bindE (wrapE ''open lock: %w'' [] os_call) (\<lambda>_.
      wrapE ''lock: %w'' [] os_call))) :: ('b sched_state_scheme, unit) io"
  have q: "always quiet ?lock" and sp: "always spent ?lock" by (intro always_intro)+
  from assms have "bindE ?lock (\<lambda>_. m) w = (res, w')" by (simp only: withLock_def)
  with q show thesis by (rule bind_always_cases) (use that alwaysD [OF sp] in blast)+
qed

lemma spent_future_claim: "always spent (future_claim now)"
  unfolding future_claim_def by (intro always_intro)

lemma future_claim_quiet [always_intro]: "always quiet (future_claim now)"
  unfolding future_claim_def by (intro always_intro)

text \<open>The common part of the reservations: lock, reap, count.\<close>

lemma reserve_prefix_cases:
  assumes "withLock (bindE (wrapE f1 [] (reapClaims l Load)) (\<lambda>_.
      bindE (wrapE f2 [] (countActiveByMachine l)) k)) w = (res, w')"
  obtains (stop) e where "shrinks w w'" and "res = Inl e"
  | (go) active w1 where "shrinks w w1" and "spent w w1" and "\<And>m. ValidName m \<Longrightarrow> active m = claim_count w1 m" and "k active w1 = (res, w')"
  using assms
proof (cases rule: withLock_cases)
  case (lock e)
  then show ?thesis using stop by (blast intro: quiet_shrinks)
next
  case (body w1)
  have w1: "shrinks w w1" using body(1) by (rule quiet_shrinks)
  have sp: "always spent (wrapE f1 [] (reapClaims l Load))" "always spent (wrapE f2 [] (countActiveByMachine l))"
    by (intro always_intro)+
  have "always shrinks (wrapE f1 [] (reapClaims l Load))" by (intro always_intro)
  from this body(3) show ?thesis
  proof (cases rule: bind_always_cases)
    case (error e)
    with w1 show ?thesis using stop by (blast intro: shrinks.trans)
  next
    case (step x w2)
    have w2: "shrinks w w2" using w1 step(1) by (rule shrinks.trans)
    have s2: "spent w w2" using body(2) alwaysD [OF sp(1) step(2)] by (rule spent.trans)
    have "always quiet (wrapE f2 [] (countActiveByMachine l))" by (intro always_intro)
    from this step(3) show ?thesis
    proof (cases rule: bind_always_cases)
      case (error e)
      with w2 show ?thesis using stop by (blast intro: shrinks.trans quiet_shrinks)
    next
      case (step active w3)
      have "active m = claim_count w3 m" if "ValidName m" for m
        using countActive_Inr [of l w2 active w3 m] step(2) that quiet_claim_set [OF step(1)] by (simp add: claim_count_def)
      moreover have "shrinks w w3" using w2 step(1) by (blast intro: shrinks.trans quiet_shrinks)
      moreover have "spent w w3" using s2 alwaysD [OF sp(2) step(2)] by (rule spent.trans)
      ultimately show ?thesis using step(3) go by blast
    qed
  qed
qed

definition new_claim :: "string \<Rightarrow> run_id \<Rightarrow> int \<Rightarrow> claim" where
  "new_claim machine rid now = \<lparr>ClaimSchema = ClaimSchemaVersion, ClaimMachine = machine, ClaimRunID = rid, CreatedAt = now\<rparr>"

lemma Reserve_cases:
  assumes "Reserve l Load cfg machine rid now w = (res, w')"
  obtains (refused) e where "shrinks w w'" and "res = Inl e"
  | (written) w1 q m where "shrinks w w1" and "ValidName machine" and "ValidRunID rid"
      and "map_of (Machines cfg) machine = Some m"
      and "claim_count w1 machine < EffectiveCapacity m" and "writeClaim machine (new_claim machine rid now) w1 = (q, w')"
      and "q = Inr () \<longleftrightarrow> res = Inr ()"
proof (cases "ValidName machine \<and> ValidRunID rid \<and> has_key (Machines cfg) machine")
  case False
  with assms have "w' = w" and "\<exists>e. res = Inl e" by (auto simp: Reserve_def guard_bind split: if_splits)
  with refused show thesis by (auto simp: shrinks.refl)
next
  case names: True
  with assms have "bindE (future_claim now) (\<lambda>_. withLock (
       bindE (wrapE ''scheduler: reap claims: %w'' [] (reapClaims l Load)) (\<lambda>_.
       bindE (wrapE ''scheduler: count active: %w'' [] (countActiveByMachine l)) (\<lambda>active.
       bindE (guard (active machine < EffectiveCapacity (the (map_of (Machines cfg) machine))) (ESent ErrNoCapacity)) (\<lambda>_.
       wrapE ''scheduler: write claim: %w'' [] (writeClaim machine
         \<lparr>ClaimSchema = ClaimSchemaVersion, ClaimMachine = machine, ClaimRunID = rid, CreatedAt = now\<rparr>)))))) w = (res, w')"
    by (simp add: Reserve_def guard_bind)
  with future_claim_quiet show thesis
  proof (cases rule: bind_always_cases)
    case error
    then show ?thesis using refused by (blast intro: quiet_shrinks)
  next
    case b: (step x w1)
    obtain m where m: "map_of (Machines cfg) machine = Some m" using names by (auto simp: has_key_def)
    have w1: "shrinks w w1" using b(1) by (rule quiet_shrinks)
    from b(3) show ?thesis
    proof (cases rule: reserve_prefix_cases)
      case (stop e)
      with w1 show ?thesis using refused by (blast intro: shrinks.trans)
    next
      case (go active w2)
      have w2: "shrinks w w2" using w1 go(1) by (rule shrinks.trans)
      show ?thesis
      proof (cases "active machine < EffectiveCapacity m")
        case True
        obtain q w3 where q: "writeClaim machine (new_claim machine rid now) w2 = (q, w3)" by force
        with True go(4) m have w3: "w3 = w'" and iff: "q = Inr () \<longleftrightarrow> res = Inr ()"
          by (auto simp: bindE_def guard_def ret_def wrapE_def new_claim_def split: sum.splits)
        have free: "claim_count w2 machine < EffectiveCapacity m"
          using \<open>active machine < EffectiveCapacity m\<close> go(3) names by simp
        show ?thesis by (rule written [OF w2 _ _ m free q [unfolded w3] iff]) (simp_all add: names)
      next
        case False
        with go(4) m w2 show ?thesis by (intro refused) (auto simp: bindE_def guard_def throw_def)
      qed
    qed
  qed
qed

lemma Reserve_within:
  assumes "Reserve l Load cfg machine rid now w = (res, w')" and "within_capacity cfg w"
  shows "within_capacity cfg w'"
  using assms(1)
proof (cases rule: Reserve_cases)
  case refused
  with assms(2) show ?thesis by (simp add: within_shrinks)
next
  case (written w1 q m)
  then show ?thesis
    using assms(2) by (blast intro: within_adds within_shrinks alwaysD [OF always_writeClaim])
qed

text \<open>Operations that leave the claims alone.\<close>

definition same_claims :: "'a sched_state_scheme \<Rightarrow> 'a sched_state_scheme \<Rightarrow> bool" where
  "same_claims w w' \<longleftrightarrow> claims w' = claims w"

interpretation same_claims: os_guarantee same_claims
  by unfold_locales (auto simp: same_claims_def)

lemma same_claims_at: "same_claims w w' \<Longrightarrow> claim_at w' m rid = claim_at w m rid"
  by (simp add: same_claims_def claim_at_def claim_files_def)

lemma within_same: "same_claims w w' \<Longrightarrow> within_capacity cfg w \<Longrightarrow> within_capacity cfg w'"
  by (simp add: within_capacity_def claim_count_def claim_set_def same_claims_at)

lemma same_claims_add_run [always_intro]: "always same_claims (modify (add_run rid))"
  by (auto simp: always_def modify_def same_claims_def add_run_def split: option.split)

lemma same_claims_put_run [always_intro]: "always same_claims (modify (put_run rid upd))"
  by (auto simp: always_def modify_def same_claims_def put_run_def split: option.split entry.split)

lemma always_quiet_same: "always quiet m \<Longrightarrow> always same_claims (m :: ('a sched_state_scheme, 'b) io)"
  by (erule always_mono) (auto simp: quiet_def same_claims_def)

lemmas same_claims_reads [always_intro] = always_quiet_same [OF read_run_quiet] always_quiet_same [OF quiet_loadPath]
  always_quiet_same [OF quiet_Load] always_quiet_same [OF quiet_read_lease] always_quiet_same [OF quiet_ReadExecution]
  always_quiet_same [OF quiet_runDir] always_quiet_same [OF quiet_LoadChildren] always_quiet_same [OF quiet_LoadQueuedChildren]

lemma same_claims_in_run [always_intro]: "always same_claims (in_run rid)"
  unfolding in_run_def by (intro always_intro)

lemma same_claims_Acquire [always_intro]: "always same_claims (Acquire rid)"
  unfolding Acquire_def mkdir_run_def by (intro always_intro)

lemma same_claims_atomicJSON [always_intro]: "always same_claims (atomicJSON rid upd)"
  unfolding atomicJSON_def by (intro always_intro)

lemma same_claims_saveUnlocked [always_intro]: "always same_claims (saveUnlocked r)"
  unfolding saveUnlocked_def by (intro always_intro)

lemma same_claims_Save [always_intro]: "always same_claims (Save r)"
  unfolding Save_def mkdir_run_def by (intro always_intro)

lemma same_claims_Mutate [always_intro]: "(\<And>b. always same_claims (fn b)) \<Longrightarrow> always same_claims (Mutate rid fn)"
  unfolding Mutate_def by (intro always_intro)

lemma same_claims_cancel [always_intro]: "always same_claims (cancelRecord rid now r)"
  unfolding cancelRecord_def WriteExecution_def atomicPrivateJSON_def mkdir_run_def by (intro always_intro)

lemma same_claims_store_step: "store_step w w' \<Longrightarrow> same_claims w w'"
proof (induction rule: store_step.induct)
  case (mutate fn rid w res w')
  from mutate(2) show ?case by (rule alwaysD [rotated]) (intro always_intro)
next
  case (cancel rid now w res w')
  then show ?case unfolding RequestCancellation_def by (rule alwaysD [rotated]) (intro always_intro)
next
  case (publish rid v w res' w')
  then show ?case unfolding PublishResult_def by (rule alwaysD [rotated]) (intro always_intro)
next
  case (claim rid owner now ttl w res' w')
  then show ?case unfolding ClaimLease_def put_lease_def mkdir_run_def by (rule alwaysD [rotated]) (intro always_intro)
next
  case (renew rid owner now ttl w res' w')
  then show ?case unfolding RenewLease_def put_lease_def by (rule alwaysD [rotated]) (intro always_intro)
next
  case (release rid owner w res' w')
  then show ?case unfolding ReleaseLease_def by (rule alwaysD [rotated]) (intro always_intro)
next
  case (execution rid e w res' w')
  then show ?case unfolding WriteExecution_def atomicPrivateJSON_def mkdir_run_def by (rule alwaysD [rotated]) (intro always_intro)
next
  case (executed rid w res' w')
  then show ?case unfolding RemoveExecution_def by (rule alwaysD [rotated]) (intro always_intro)
next
  case (save w r res' w')
  from save(2) show ?case by (rule alwaysD [OF same_claims_Save])
next
  case (environment w t fs bs)
  show ?case by (simp add: same_claims_def)
qed

lemma always_store_same: "always store_step\<^sup>*\<^sup>* m \<Longrightarrow> always same_claims m"
proof (erule always_mono)
  fix u v :: "'a sched_state_scheme"
  assume "store_step\<^sup>*\<^sup>* u v"
  then show "same_claims u v"
    by (induction rule: rtranclp_induct) (auto intro: same_claims.refl same_claims.trans same_claims_store_step)
qed

lemma shrinks_withLock: "always shrinks m \<Longrightarrow> always shrinks (withLock m)"
  unfolding withLock_def by (intro always_intro)

lemma shrinks_Release: "always shrinks (Release l m rid)"
  unfolding Release_def
  by (intro always_intro shrinks_withLock always_quiet_shrinks [OF quiet_lstat_claim] always_quiet_shrinks [OF quiet_validateClaimFile])

lemma shrinks_Reap: "always shrinks (Reap l Load)"
  unfolding Reap_def by (intro shrinks_withLock store_loader.shrinks_reapClaims)

lemma shrinks_Status: "always shrinks (Status l Load cfg)"
  unfolding Status_def by (intro shrinks_withLock always_intro always_quiet_shrinks [OF quiet_countActive])

lemma Validate_machine_name:
  "Validate cfg = Inr () \<Longrightarrow> map_of (Machines cfg) name = Some m \<Longrightarrow> ValidName name"
  using Validate_machine [of cfg name m] Validate_client [of cfg]
  by (cases "Orchestrator cfg = OrchestratorSelf") (auto simp: validateMachine_def)

text \<open>What follows a successful choice of a machine: write the claim, publish, undo on failure.\<close>

definition publish_claim :: "run_id \<Rightarrow> int \<Rightarrow> (string \<Rightarrow> ('a sched_state_scheme, unit) io) \<Rightarrow> machine_snapshot
    \<Rightarrow> ('a sched_state_scheme, unit) io" where
  "publish_claim rid now publish snap =
     bindE (wrapE ''scheduler: write claim: %w'' [] (writeClaim (snap_name snap) (new_claim (snap_name snap) rid now))) (\<lambda>_.
     bindE (attempt (publish (snap_name snap))) (\<lambda>x. case x of
         Inr _ \<Rightarrow> ret ()
       | Inl e \<Rightarrow> bindE (attempt (remove_claim (snap_name snap) rid)) (\<lambda>y. case y of
             Inl e' \<Rightarrow> throw (EWrap ''scheduler: publish failed and rollback failed: publish=%w rollback=%v'' [err_text e'] e)
           | Inr _ \<Rightarrow> throw e)))"

lemma ReserveAndPublish_cases:
  assumes "ReserveAndPublish l Load cfg rid candidates now publish w = (res, w')" and "Validate cfg = Inr ()"
    and "distinct (map fst (Machines cfg))"
  obtains (refused) e where "shrinks w w'" and "res = Inl e"
  | (chosen) w1 snap m where "shrinks w w1" and "spent w w1" and "map_of (Machines cfg) (snap_name snap) = Some m"
      and "claim_count w1 (snap_name snap) < EffectiveCapacity m" and "snap_name snap \<in> set candidates"
      and "publish_claim rid now publish snap w1 = (res, w')"
proof (cases "validateRunAndCandidates cfg rid candidates")
  case (Inl e)
  with assms(1) have "w' = w" and "res = Inl e" by (simp_all add: ReserveAndPublish_def lift_bind)
  with refused show ?thesis by (auto simp: shrinks.refl)
next
  case (Inr u)
  with assms(1) have "bindE (future_claim now) (\<lambda>_. withLock (
       bindE (wrapE ''scheduler: reap claims: %w'' [] (reapClaims l Load)) (\<lambda>_.
       bindE (wrapE ''scheduler: count active: %w'' [] (countActiveByMachine l)) (\<lambda>active.
       bindE (lift_result (chooseSlot active cfg candidates)) (publish_claim rid now publish))))) w = (res, w')"
    by (simp add: ReserveAndPublish_def lift_bind publish_claim_def [abs_def] new_claim_def)
  with future_claim_quiet show ?thesis
  proof (cases rule: bind_always_cases)
    case error
    then show ?thesis using refused by (blast intro: quiet_shrinks)
  next
    case (step x w1)
    have w1: "shrinks w w1" using step(1) by (rule quiet_shrinks)
    have s1: "spent w w1" using step(2) by (rule alwaysD [OF spent_future_claim])
    from step(3) show ?thesis
    proof (cases rule: reserve_prefix_cases)
      case (stop e)
      with w1 show ?thesis using refused by (blast intro: shrinks.trans)
    next
      case (go active w2)
      have w2: "shrinks w w2" using w1 go(1) by (rule shrinks.trans)
      show ?thesis
      proof (cases "chooseSlot active cfg candidates")
        case (Inl e)
        with go(4) w2 refused show ?thesis by (auto simp: lift_bind)
      next
        case (Inr snap)
        then have snap: "snap \<in> set (computeMachineSnapshots active cfg)" "snap_name snap \<in> set candidates"
            "snap_active snap < snap_capacity snap"
          by (auto simp: chooseSlot_def find_Some_iff split: option.splits)
        then obtain m where m: "(snap_name snap, m) \<in> set (Machines cfg)" "snap_capacity snap = EffectiveCapacity m"
            "snap_active snap = active (snap_name snap)"
          by (auto simp: computeMachineSnapshots_slot slot_def)
        from m(1) assms(3) have mo: "map_of (Machines cfg) (snap_name snap) = Some m" by simp
        with Validate_machine_name [OF assms(2)] go(3) m snap(3) have "claim_count w2 (snap_name snap) < EffectiveCapacity m" by simp
        with w2 mo snap(2) go(4) spent.trans [OF s1 go(2)] Inr chosen show ?thesis by (simp add: lift_bind)
      qed
    qed
  qed
qed

lemma ReserveAndPublish_within:
  assumes "ReserveAndPublish l Load cfg rid candidates now publish w = (res, w')" and "Validate cfg = Inr ()"
    and "distinct (map fst (Machines cfg))" and "\<And>m. always same_claims (publish m)" and "within_capacity cfg w"
  shows "within_capacity cfg w'"
  using assms(1-3)
proof (cases rule: ReserveAndPublish_cases)
  case refused
  with assms(5) show ?thesis by (simp add: within_shrinks)
next
  case (chosen w1 snap m)
  have w1: "within_capacity cfg w1" using chosen(1) assms(5) by (rule within_shrinks)
  have "always (adds_claim (snap_name snap) (new_claim (snap_name snap) rid now))
      (wrapE ''scheduler: write claim: %w'' [] (writeClaim (snap_name snap) (new_claim (snap_name snap) rid now)))"
    by (intro always_intro)
  from this chosen(6) [unfolded publish_claim_def] show ?thesis
  proof (cases rule: bind_always_cases)
    case (error e)
    with w1 chosen(3,4) show ?thesis by (blast intro: within_adds)
  next
    case (step x w2)
    from step(1) w1 chosen(3,4) have w2: "within_capacity cfg w2" by (blast intro: within_adds)
    obtain p w3 where p: "publish (snap_name snap) w2 = (p, w3)" by force
    have w3: "within_capacity cfg w3"
      using w2 alwaysD [OF assms(4) p] by (rule within_same [rotated])
    show ?thesis
    proof (cases p)
      case (Inr u)
      with step(3) p w3 show ?thesis by (simp add: attempt_bind)
    next
      case (Inl e)
      obtain y w4 where y: "remove_claim (snap_name snap) rid w3 = (y, w4)" by force
      with step(3) p Inl have "w' = w4" by (auto simp: attempt_bind split: sum.splits)
      with y w3 show ?thesis by (blast dest: alwaysD [OF shrinks_remove_claim] intro: within_shrinks)
    qed
  qed
qed

section \<open>Interleavings\<close>

text \<open>One step of the coordinator: any scheduler operation with any outcome, or a step on the store. What is
  published under the scheduler lock is a program of store steps.\<close>

inductive sched_step :: "config \<Rightarrow> 'a sched_state_scheme \<Rightarrow> 'a sched_state_scheme \<Rightarrow> bool" for cfg where
  reserve: "Reserve l Load cfg machine rid now w = (res, w') \<Longrightarrow> sched_step cfg w w'"
| reserve_publish: "(\<And>m. always store_step\<^sup>*\<^sup>* (publish m)) \<Longrightarrow>
    ReserveAndPublish l Load cfg rid candidates now publish w = (res, w') \<Longrightarrow> sched_step cfg w w'"
| release: "Release l machine rid w = (res, w') \<Longrightarrow> sched_step cfg w w'"
| reap: "Reap l Load w = (res', w') \<Longrightarrow> sched_step cfg w w'"
| status: "Status l Load cfg w = (st, w') \<Longrightarrow> sched_step cfg w w'"
| store: "store_step w w' \<Longrightarrow> sched_step cfg w w'"

lemma sched_step_within:
  assumes "sched_step cfg u v" and "Validate cfg = Inr ()" and "distinct (map fst (Machines cfg))" and "within_capacity cfg u"
  shows "within_capacity cfg v"
  using assms(1,4)
  by cases (auto intro: Reserve_within ReserveAndPublish_within [OF _ assms(2,3) always_store_same] within_same same_claims_store_step
      within_shrinks alwaysD [OF shrinks_Release] alwaysD [OF shrinks_Reap] alwaysD [OF shrinks_Status])

text \<open>
  C1: No machine is ever over its capacity: under a validated configuration, if every machine holds
  at most as many claims as its capacity allows, then so it does after any sequence of scheduler and
  store operations, whatever their order, arguments and failures.
\<close>

theorem capacity_never_exceeded:
  assumes "(sched_step cfg)\<^sup>*\<^sup>* w w'" and "Validate cfg = Inr ()" and "distinct (map fst (Machines cfg))"
    and "within_capacity cfg w"
  shows "within_capacity cfg w'"
  using assms(1,4)
proof (induction rule: rtranclp_induct)
  case (step u v)
  then show ?case using sched_step_within [OF step(2) assms(2,3)] by simp
qed

section \<open>Undisturbed operations\<close>

lemma withLock_ok: "faults w = [] \<Longrightarrow> withLock m w = m w"
  by (simp add: withLock_def bindE_def wrapE_def)

lemma claim_lookup_at: "claim_at w m rid = Some n \<Longrightarrow> claim_lookup m rid w = Inr n"
  by (auto simp: claim_at_def claim_files_def claim_lookup_def split: option.splits entry.splits)

lemma claim_at_sub: "claim_at w m rid = Some n \<Longrightarrow> is_sub (map_of (claims w) m)"
  by (auto simp: claim_at_def claim_files_def is_sub_def split: option.splits entry.splits)

lemma lstat_claim_ok: "faults w = [] \<Longrightarrow> lstat_claim m rid w = (claim_lookup m rid w, w)"
  by (simp add: lstat_claim_def bindE_def asks_def lift_result_def)

lemma validateClaimFile_json:
  assumes "claim_lookup m rid w = Inr (ClaimJson c)" and "\<And>p. validateClaim p m rid (clock w) c = Inr v" and "faults w = []"
  shows "validateClaimFile l m rid w = (Inr v, w)"
  using assms by (simp add: validateClaimFile_def Let_def bindE_def lstat_claim_ok Now_def asks_def lift_result_def)

lemma future_claim_Inr: "future_claim now w = (Inr u, w') \<Longrightarrow> w' = w \<and> now \<le> clock w + minute"
  by (auto simp: future_claim_def bindE_Inr Now_def)

lemma Reserve_Inr:
  assumes "Reserve l Load cfg machine rid now w = (Inr (), w')"
  shows "claim_at w' machine rid = Some (ClaimJson (new_claim machine rid now)) \<and> ValidName machine \<and> ValidRunID rid
    \<and> now \<le> clock w' + minute"
proof -
  have "now \<le> clock w + minute"
    using assms by (auto simp: Reserve_def guard_bind bindE_Inr dest!: future_claim_Inr split: if_splits)
  with assms show ?thesis
  proof (cases rule: Reserve_cases)
    case (written w1 q m)
    then have wr: "writeClaim machine (new_claim machine rid now) w1 = (Inr (), w')" by simp
    have "clock w1 = clock w" by (rule shrinks_field [OF written(1)]) simp
    moreover have "clock w' = clock w1"
      by (rule adds_claim_field [OF alwaysD [OF always_writeClaim wr]]) simp
    ultimately show ?thesis
      using writeClaim_Inr [OF wr] written \<open>now \<le> clock w + minute\<close> by (simp add: new_claim_def)
  qed simp
qed

text \<open>
  A reservation reads back: after a successful \<open>Reserve\<close> the worker's \<open>ReservationFor\<close> returns
  the machine, run and time of the reservation.
\<close>

theorem Reserve_ReservationFor:
  assumes "Reserve l Load cfg machine rid now w = (Inr (), w')" and "faults w' = []" and "now \<noteq> 0"
  shows "ReservationFor l' machine rid w' = (Inr \<lparr>ResMachine = machine, ResRunID = rid, ResCreatedAt = now\<rparr>, w')"
proof -
  note r = Reserve_Inr [OF assms(1)]
  then have "claim_lookup machine rid w' = Inr (ClaimJson (new_claim machine rid now))"
    by (blast dest: claim_lookup_at)
  moreover from r assms(3) have "validateClaim p machine rid (clock w') (new_claim machine rid now)
      = Inr \<lparr>ResMachine = machine, ResRunID = rid, ResCreatedAt = now\<rparr>" for p
    by (simp add: validateClaim_def new_claim_def ensure_def)
  ultimately have "validateClaimFile l' machine rid w' = (Inr \<lparr>ResMachine = machine, ResRunID = rid, ResCreatedAt = now\<rparr>, w')"
    using assms(2) by (rule validateClaimFile_json)
  with r assms(2) show ?thesis by (simp add: ReservationFor_def guard_bind withLock_ok)
qed

lemma writeClaim_Inl:
  "faults w = [] \<Longrightarrow> writeClaim m c w = (Inl e, w') \<Longrightarrow> claim_at w' m' rid = claim_at w m' rid"
  by (auto simp: writeClaim_def atomicWriteClaim_def rename_claim_def bindE_Inl bindE_Inr claim_at_add_dir split: if_splits)

lemma remove_claim_ok:
  "faults w = [] \<Longrightarrow> claim_at w m rid = Some n \<Longrightarrow> remove_claim m rid w = (Inr (), del_claim m rid w)"
  by (simp add: remove_claim_def attempt_bind lstat_claim_ok claim_lookup_at modify_def)

lemma spent_writeClaim: "always spent (writeClaim m c)"
  unfolding writeClaim_def atomicWriteClaim_def rename_claim_def by (intro always_intro) simp_all

lemma publish_claim_rollback:
  assumes "publish_claim rid now publish snap w = (Inl e, w')" and "faults w = []"
    and "\<And>m. always same_claims (publish m)" and "\<And>m. always spent (publish m)"
    and "claim_at w' m r = Some n"
  shows "claim_at w m r = Some n"
proof -
  let ?m = "snap_name snap" and ?c = "new_claim (snap_name snap) rid now"
  obtain q w1 where wr: "writeClaim ?m ?c w = (q, w1)" by force
  have ad: "adds_claim ?m ?c w w1" using wr by (rule alwaysD [OF always_writeClaim])
  show ?thesis
  proof (cases q)
    case (Inl e1)
    with assms(1) wr have "w' = w1" by (simp add: publish_claim_def bindE_def wrapE_def)
    with assms(5) writeClaim_Inl [OF assms(2) wr [unfolded Inl]] show ?thesis by simp
  next
    case (Inr u)
    have f1: "faults w1 = []" using spent_writeClaim wr assms(2) by (rule spentD)
    obtain x w2 where pub: "publish ?m w1 = (x, w2)" by force
    have f2: "faults w2 = []" using assms(4) pub f1 by (rule spentD)
    have at2: "claim_at w2 m' r' = claim_at w1 m' r'" for m' r'
      using alwaysD [OF assms(3) pub] by (rule same_claims_at)
    have "claim_at w2 ?m rid = Some (ClaimJson ?c)"
      using writeClaim_Inr [of ?m ?c w w1] wr Inr by (simp add: at2 new_claim_def)
    then have "w' = del_claim ?m rid w2"
      using assms(1) wr Inr pub by (auto simp: publish_claim_def bindE_def wrapE_def attempt_def remove_claim_ok [OF f2] throw_def
          ret_def split: sum.splits)
    then have "(m, r) \<noteq> (?m, rid)" and "claim_at w1 m r = Some n"
      using assms(5) by (auto simp: claim_at_del at2 split: if_splits)
    with ad show ?thesis by (simp add: adds_claim_def new_claim_def) metis
  qed
qed

text \<open>The two reports after which the claim may still be there: its write failed (perhaps after the rename,
  when the directory is synced), or the publication failed and then the removal.\<close>

definition claim_left :: "err \<Rightarrow> bool" where
  "claim_left e \<longleftrightarrow> (\<exists>e1. e = EWrap ''scheduler: write claim: %w'' [] e1)
     \<or> (\<exists>e1 e2. e = EWrap ''scheduler: publish failed and rollback failed: publish=%w rollback=%v'' [err_text e1] e2)"

lemma publish_claim_failed:
  assumes "publish_claim rid now publish snap w = (Inl e, w')" and "\<And>m. always same_claims (publish m)"
  shows "(\<forall>m r n. claim_at w' m r = Some n \<longrightarrow> claim_at w m r = Some n)
    \<or> claim_left e \<and> claim_at w' (snap_name snap) rid = Some (ClaimJson (new_claim (snap_name snap) rid now))
      \<and> (\<forall>m r n. claim_at w' m r = Some n \<longrightarrow> (m, r) = (snap_name snap, rid) \<or> claim_at w m r = Some n)"
proof -
  let ?m = "snap_name snap" and ?c = "new_claim (snap_name snap) rid now"
  obtain q w1 where wr: "writeClaim ?m ?c w = (q, w1)" by force
  have "adds_claim ?m ?c w w1" using wr by (rule alwaysD [OF always_writeClaim])
  then have ad: "claim_at w1 m r = claim_at w m r \<or> (m, r) = (?m, rid) \<and> claim_at w1 m r = Some (ClaimJson ?c)" for m r
    by (auto simp: adds_claim_def new_claim_def)
  show ?thesis
  proof (cases q)
    case (Inl e1)
    with assms(1) wr have "w' = w1" and "claim_left e" by (auto simp: publish_claim_def bindE_def wrapE_def claim_left_def)
    show ?thesis
    proof (cases "claim_at w1 ?m rid = claim_at w ?m rid")
      case True
      then have "claim_at w1 m r = Some n \<Longrightarrow> claim_at w m r = Some n" for m r n using ad [of m r] by auto
      then show ?thesis unfolding \<open>w' = w1\<close> by blast
    next
      case False
      then have "claim_at w1 ?m rid = Some (ClaimJson ?c)" using ad [of ?m rid] by blast
      moreover have "claim_at w1 m r = Some n \<Longrightarrow> (m, r) = (?m, rid) \<or> claim_at w m r = Some n" for m r n
        using ad [of m r] by auto
      ultimately show ?thesis using \<open>claim_left e\<close> unfolding \<open>w' = w1\<close> by blast
    qed
  next
    case (Inr u)
    obtain x w2 where pub: "publish ?m w1 = (x, w2)" by force
    have at2: "claim_at w2 m' r' = claim_at w1 m' r'" for m' r'
      using alwaysD [OF assms(2) pub] by (rule same_claims_at)
    obtain e2 where x: "x = Inl e2"
      using assms(1) wr Inr pub by (cases x) (auto simp: publish_claim_def bindE_def wrapE_def attempt_def ret_def)
    obtain y w3 where rm: "remove_claim ?m rid w2 = (y, w3)" by force
    have w': "w' = w3" using assms(1) wr Inr pub x rm
      by (auto simp: publish_claim_def bindE_def wrapE_def attempt_def throw_def split: sum.splits)
    show ?thesis
    proof (cases y)
      case (Inl e1)
      have sh: "claim_at w3 m r = Some n \<Longrightarrow> claim_at w1 m r = Some n" for m r n
        using alwaysD [OF shrinks_remove_claim rm] by (simp add: shrinks_def at2)
      have "claim_left e" using assms(1) wr Inr pub x rm Inl
        by (auto simp: publish_claim_def bindE_def wrapE_def attempt_def throw_def claim_left_def)
      moreover have others: "(m, r) = (?m, rid) \<or> claim_at w m r = Some n" if "claim_at w3 m r = Some n" for m r n
        using sh [OF that] ad [of m r] by auto
      moreover have "claim_at w3 ?m rid = Some k \<Longrightarrow> claim_at w ?m rid = Some k \<or> k = ClaimJson ?c" for k
        using sh [of ?m rid k] ad [of ?m rid] by auto
      ultimately show ?thesis unfolding w' by (cases "claim_at w3 ?m rid") blast+
    next
      case (Inr v)
      have "claim_at w m r = Some n" if "claim_at w3 m r = Some n" for m r n
        using remove_claim_Inr [OF rm [unfolded Inr], of m r] ad [of m r] at2 [of m r] that by (auto split: if_splits)
      then show ?thesis unfolding w' by blast
    qed
  qed
qed

text \<open>
  C24: What a failed \<open>ReserveAndPublish\<close> leaves behind, on every fault path. Either no new claim is there,
  or the error is one of the two that say so (the write of the claim failed, or the publication failed and
  its removal too) and exactly one claim is new: the one of this run on one of its candidates. When no call
  of the operating system fails, no new claim is there.
\<close>

theorem ReserveAndPublish_rollback:
  assumes "ReserveAndPublish l Load cfg rid candidates now publish w = (Inl e, w')"
    and "Validate cfg = Inr ()" and "distinct (map fst (Machines cfg))" and "\<And>m. always same_claims (publish m)"
  shows "((\<forall>m. claim_at w' m \<subseteq>\<^sub>m claim_at w m)
      \<or> claim_left e \<and> (\<exists>m \<in> set candidates. claim_at w' m rid = Some (ClaimJson (new_claim m rid now))
          \<and> (\<forall>m' r n. claim_at w' m' r = Some n \<longrightarrow> (m', r) = (m, rid) \<or> claim_at w m' r = Some n)))
    \<and> (faults w = [] \<and> (\<forall>m. always spent (publish m)) \<longrightarrow> (\<forall>m. claim_at w' m \<subseteq>\<^sub>m claim_at w m))"
  using assms(1-3)
proof (cases rule: ReserveAndPublish_cases)
  case refused
  then show ?thesis by (auto simp: shrinks_def map_le_def)
next
  case (chosen w1 snap m1)
  have sh: "claim_at w1 m r = Some n \<Longrightarrow> claim_at w m r = Some n" for m r n using chosen(1) by (simp add: shrinks_def)
  have "claim_at w' m \<subseteq>\<^sub>m claim_at w m" if "faults w = []" "\<forall>m. always spent (publish m)" for m
  proof -
    have "faults w1 = []" using chosen(2) that(1) by (simp add: spent_def)
    from publish_claim_rollback [OF chosen(6) this assms(4)] that(2) sh show ?thesis by (auto simp: map_le_def)
  qed
  moreover have "(\<forall>m. claim_at w' m \<subseteq>\<^sub>m claim_at w m)
      \<or> claim_left e \<and> (\<exists>m \<in> set candidates. claim_at w' m rid = Some (ClaimJson (new_claim m rid now))
          \<and> (\<forall>m' r n. claim_at w' m' r = Some n \<longrightarrow> (m', r) = (m, rid) \<or> claim_at w m' r = Some n))"
    using publish_claim_failed [OF chosen(6) assms(4)]
  proof (elim disjE conjE)
    assume "\<forall>m r n. claim_at w' m r = Some n \<longrightarrow> claim_at w1 m r = Some n"
    then have "\<forall>m. claim_at w' m \<subseteq>\<^sub>m claim_at w m" using sh by (auto simp: map_le_def)
    then show ?thesis ..
  qed (use chosen(5) sh in blast)
  ultimately show ?thesis by blast
qed

text \<open>
  A successful \<open>Release\<close> frees exactly one slot: the claim of the run on that machine is gone,
  every other claim, on every machine, is what it was, and releasing a claim that is not there succeeds
  and changes nothing.
\<close>

theorem Release_exact:
  assumes "Release l machine rid w = (Inr (), w')"
  shows "claim_at w' machine = (claim_at w machine)(rid := None)
    \<and> (\<forall>m. m \<noteq> machine \<longrightarrow> claim_at w' m = claim_at w m) \<and> shrinks w w'"
proof -
  have sh: "shrinks w w'" using assms by (rule alwaysD [OF shrinks_Release])
  from assms have "withLock (bindE (attempt (lstat_claim machine rid)) (\<lambda>x. case x of
         Inl e \<Rightarrow> if IsNotExist e then ret () else throw e
       | Inr _ \<Rightarrow>
           bindE (wrapE ''scheduler: refuse release of invalid claim: %w'' [] (validateClaimFile l machine rid)) (\<lambda>_.
           remove_claim machine rid))) w = (Inr (), w')"
    by (auto simp: Release_def guard_bind split: if_splits)
  then obtain w1 x w2 where q1: "quiet w w1" and ls: "lstat_claim machine rid w1 = (x, w2)"
    and rest: "(case x of Inl e \<Rightarrow> if IsNotExist e then ret () else throw e
       | Inr _ \<Rightarrow> bindE (wrapE ''scheduler: refuse release of invalid claim: %w'' [] (validateClaimFile l machine rid)) (\<lambda>_.
           remove_claim machine rid)) w2 = (Inr (), w')"
    by (cases rule: withLock_cases) (auto simp: bindE_Inr attempt_eq)
  have q2: "quiet w w2" using q1 alwaysD [OF quiet_lstat_claim ls] by (rule quiet.trans)
  show ?thesis
  proof (cases x)
    case (Inl e)
    with rest have "w' = w2" and "IsNotExist e" by (auto split: if_splits)
    with lstat_claim_absent [of machine rid w1 e w2] ls Inl have "claim_at w2 machine rid = None" by simp
    with \<open>w' = w2\<close> sh show ?thesis by (auto simp: fun_eq_iff quiet_claim_at [OF q2])
  next
    case (Inr n)
    with rest obtain w3 where q3: "quiet w2 w3" and rm: "remove_claim machine rid w3 = (Inr (), w')"
      by (auto simp: bindE_Inr dest: alwaysD [OF quiet_validateClaimFile])
    have "quiet w w3" using q2 q3 by (rule quiet.trans)
    with remove_claim_Inr [OF rm] sh show ?thesis by (auto simp: fun_eq_iff quiet_claim_at)
  qed
qed

end
