(* ===== verification/Vci_Scheduler_Examples.thy ===== *)
theory Vci_Scheduler_Examples
  imports Vci_Scheduler_Laws
begin

text \<open>
  The scheduler on concrete states: one machine of capacity two holding the claim of an aborted run
  and the claim of a queued run. The scheduler's laws are applied there, and the last section shows
  what \<open>Reserve\<close> does with a run that holds a claim already.
\<close>

section \<open>The states\<close>

definition example_layout :: layout where
  "example_layout = ''/vci''"

definition sched_with :: "run_id list \<Rightarrow> sched_state" where
  "sched_with rids = \<lparr>faults = [], clock = 10, entropy = [], windows = False, config_file = Some [], runs = runs example_store,
     claims = [(''m1'', Sub (map (\<lambda>r. (claim_name r, ClaimJson (new_claim ''m1'' r 5))) rids))]\<rparr>"

definition example_sched :: sched_state where
  "example_sched = sched_with [''run_a'', ''run_b'']"

lemma example_valid_m1: "ValidName ''m1''"
  by (simp add: ValidName_def alnum_def safe_char_def)

lemma sched_with_faults [simp]: "faults (sched_with rids) = []"
  by (simp add: sched_with_def)

lemma example_load:
  "record_of (sched_with rids) ''run_a'' = Some (example_record ''run_a'' RunAborted [])"
  "record_of (sched_with rids) ''run_b'' = Some (example_record ''run_b'' RunQueued ''run_p'')"
  by (simp_all add: record_of_iff run_file_def sched_with_def example_store_def validateRecord_def example_record_def example_ids)

lemma sched_with_at: "claim_at (sched_with rids) ''m1'' rid =
    (if rid \<in> set rids then Some (ClaimJson (new_claim ''m1'' rid 5)) else None)"
  by (induction rids) (auto simp: claim_at_def claim_files_def sched_with_def)

lemma sched_with_set: "claim_set (sched_with rids) ''m1'' = {rid \<in> set rids. ValidRunID rid}"
  by (auto simp: claim_set_def sched_with_at split: if_splits)

lemma sched_with_del: "del_claim ''m1'' rid (sched_with rids) = sched_with (filter (\<lambda>r. r \<noteq> rid) rids)"
proof -
  have "AList.delete (claim_name rid) (map (\<lambda>r. (claim_name r, c r)) rids) = map (\<lambda>r. (claim_name r, c r)) (filter (\<lambda>r. r \<noteq> rid) rids)"
    for c :: "run_id \<Rightarrow> claim_node"
    by (induction rids) auto
  then show ?thesis by (simp add: del_claim_def sched_with_def)
qed

lemma example_m1: "map_of (Machines example_config) ''m1'' = Some example_machine"
  "has_key (Machines example_config) ''m1''" "EffectiveCapacity example_machine = 2" "distinct (map fst (Machines example_config))"
  by (simp_all add: example_config_def Defaults_def has_key_def EffectiveCapacity_def example_machine_def)

lemma example_machine_of: "map_of (Machines example_config) name = Some m \<Longrightarrow> name = ''m1'' \<and> m = example_machine"
  by (simp add: example_config_def Defaults_def split: if_splits)

lemma example_claim_set: "claim_set example_sched ''m1'' = {''run_a'', ''run_b''}"
  by (auto simp: example_sched_def sched_with_set example_ids)

lemma example_within: "within_capacity example_config example_sched"
  unfolding within_capacity_def
proof (intro allI impI)
  fix name m
  assume "map_of (Machines example_config) name = Some m"
  then have "name = ''m1''" and "m = example_machine" by (blast dest: example_machine_of)+
  then show "claim_count example_sched name \<le> EffectiveCapacity m"
    by (simp add: claim_count_def example_claim_set example_m1)
qed

section \<open>Running the operations\<close>

lemma example_machine_dirs: "machine_dirs (sched_with rids) = [''m1'']"
  by (simp add: machine_dirs_def sched_with_def dir_names_def example_valid_m1 is_sub_def)

lemma example_validate:
  assumes "rid \<in> set rids" and "ValidRunID rid"
  shows "validateClaimFile l ''m1'' rid (sched_with rids) = (Inr \<lparr>ResMachine = ''m1'', ResRunID = rid, ResCreatedAt = 5\<rparr>, sched_with rids)"
proof (rule validateClaimFile_json)
  show "claim_lookup ''m1'' rid (sched_with rids) = Inr (ClaimJson (new_claim ''m1'' rid 5))"
    using assms by (simp add: sched_with_at claim_lookup_at)
  show "validateClaim p ''m1'' rid (clock (sched_with rids)) (new_claim ''m1'' rid 5)
      = Inr \<lparr>ResMachine = ''m1'', ResRunID = rid, ResCreatedAt = 5\<rparr>" for p
    using assms by (simp add: validateClaim_def new_claim_def example_valid_m1 sched_with_def ensure_def)
qed simp

lemma example_claim_ids: "claim_ids (sched_with [''run_a'', ''run_b'']) ''m1'' = [''run_a'', ''run_b'']"
  "claim_ids (sched_with [''run_b'']) ''m1'' = [''run_b'']"
  by (simp_all add: claim_ids_def claim_files_def sched_with_def claim_name_def dir_names_def example_ids HasSuffix_def TrimSuffix_def
      Let_def less_char_def less_eq_char_def)

lemma example_enumerate:
  "enumerateClaims l (sched_with [''run_a'', ''run_b'']) = (Inr [\<lparr>ci_machine = ''m1'', ci_runID = ''run_a'', ci_createdAt = 5\<rparr>,
     \<lparr>ci_machine = ''m1'', ci_runID = ''run_b'', ci_createdAt = 5\<rparr>], sched_with [''run_a'', ''run_b''])"
  "enumerateClaims l (sched_with [''run_b'']) = (Inr [\<lparr>ci_machine = ''m1'', ci_runID = ''run_b'', ci_createdAt = 5\<rparr>], sched_with [''run_b''])"
  by (simp_all add: enumerateClaims_def enumerateMachine_def bindE_def asks_def wrapE_def ret_def example_machine_dirs
      example_claim_ids example_validate example_ids)

lemma example_loads:
  "Load ''run_a'' (sched_with rids) = (Inr (example_record ''run_a'' RunAborted []), sched_with rids)"
  "Load ''run_b'' (sched_with rids) = (Inr (example_record ''run_b'' RunQueued ''run_p''), sched_with rids)"
  by (simp_all add: Load_ok example_load)

lemma example_reap:
  "reapClaims l Load (sched_with [''run_a'', ''run_b'']) = (Inr 1, sched_with [''run_b''])"
  "reapClaims l Load (sched_with [''run_b'']) = (Inr 0, sched_with [''run_b''])"
proof -
  have rm: "remove_claim ''m1'' ''run_a'' (sched_with [''run_a'', ''run_b'']) = (Inr (), sched_with [''run_b''])"
    using remove_claim_ok [of "sched_with [''run_a'', ''run_b'']" "''m1''" "''run_a''"] by (simp add: sched_with_at sched_with_del)
  have t: "IsTerminal (State (example_record ''run_a'' RunAborted []))" "\<not> IsTerminal (State (example_record ''run_b'' RunQueued ''run_p''))"
    by (simp_all add: example_record_def IsTerminal_def)
  show "reapClaims l Load (sched_with [''run_a'', ''run_b'']) = (Inr 1, sched_with [''run_b''])"
    by (simp add: reapClaims_def reapOne_def example_enumerate bindE_def attempt_def ret_def example_loads rm t)
  show "reapClaims l Load (sched_with [''run_b'']) = (Inr 0, sched_with [''run_b''])"
    by (simp add: reapClaims_def reapOne_def example_enumerate bindE_def attempt_def ret_def example_loads t)
qed

lemma example_count: "countActiveByMachine l (sched_with [''run_b'']) = (Inr ((\<lambda>_. 0)(''m1'' := 1)), sched_with [''run_b''])"
  by (simp add: countActiveByMachine_def bindE_def example_enumerate ret_def)

theorem Reap_exact_witness: "claim_set (snd (Reap example_layout Load example_sched)) ''m1'' = {''run_b''}"
proof -
  have r: "Reap example_layout Load example_sched = (Inr 1, sched_with [''run_b''])"
    by (simp add: example_sched_def Reap_def withLock_ok example_reap)
  have "claim_set (sched_with [''run_b'']) ''m1'' = {rid \<in> claim_set example_sched ''m1''. live_run example_sched rid}"
    using Reap_exact [OF r example_valid_m1] by blast
  moreover have "live_run example_sched ''run_b''" "\<not> live_run example_sched ''run_a''"
    by (simp_all add: example_sched_def live_run_def example_load example_record_def IsTerminal_def)
  moreover have "{x \<in> {a, b}. P x} = {b}" if "P b" and "\<not> P a" for P and a b :: run_id
    using that by auto
  ultimately show ?thesis unfolding r snd_conv example_claim_set by simp
qed

theorem chooseSlot_least_witness:
  "chooseSlot (\<lambda>_. 2) example_config [''m1''] = Inl (ESent ErrNoCapacity)"
proof -
  have m: "Machines example_config = [(''m1'', example_machine)]" by (simp add: example_config_def)
  have "MaxConcurrent example_machine = 2" by (simp add: example_machine_def)
  with chooseSlot_least [of example_config "\<lambda>_. 2" "[''m1'']"] show ?thesis
    by (cases "chooseSlot (\<lambda>_. 2) example_config [''m1'']") (simp_all add: m slot_def example_m1)
qed

theorem capacity_never_exceeded_witness:
  "claim_count (snd (Reserve example_layout Load example_config ''m1'' ''run_c'' 9 example_sched)) ''m1'' \<le> 2"
proof -
  let ?w = "snd (Reserve example_layout Load example_config ''m1'' ''run_c'' 9 example_sched)"
  have "sched_step example_config example_sched ?w"
    by (rule sched_step.reserve) (rule prod.collapse [symmetric])
  then have "(sched_step example_config)\<^sup>*\<^sup>* example_sched ?w" ..
  from capacity_never_exceeded [OF this example_config_valid example_m1(4) example_within]
  have "claim_count ?w ''m1'' \<le> EffectiveCapacity example_machine"
    using example_m1(1) unfolding within_capacity_def by blast
  then show ?thesis unfolding example_m1(3) .
qed

section \<open>Reserving twice\<close>

text \<open>A run that holds a claim already is reserved again as long as its machine has a free slot.\<close>

lemma example_writeClaim:
  "\<exists>w'. writeClaim ''m1'' (new_claim ''m1'' rid now) (sched_with rids) = (Inr (), w') \<and> faults w' = []"
proof -
  let ?w = "sched_with rids"
  obtain r w' where wr: "writeClaim ''m1'' (new_claim ''m1'' rid now) ?w = (r, w')" by force
  have "claim_lookup ''m1'' rid ?w \<noteq> Inr ClaimFolder"
    using sched_with_at [of rids rid] by (auto simp: claim_at_def claim_files_def claim_lookup_def split: option.splits entry.splits if_splits)
  moreover have "add_machine_dir ''m1'' ?w = ?w" and "is_sub (map_of (claims ?w) ''m1'')"
    by (simp_all add: add_machine_dir_def sched_with_def is_sub_def)
  ultimately have "r = Inr ()"
    using wr by (auto simp: writeClaim_def atomicWriteClaim_def rename_claim_def bindE_def modify_def asks_def new_claim_def guard_def ret_def)
  moreover have "faults w' = []" using spent_writeClaim wr by (rule spentD) simp
  ultimately show ?thesis using wr by blast
qed

lemma example_Reserve:
  assumes "ValidRunID rid"
  shows "\<exists>w'. Reserve l Load example_config ''m1'' rid 9 (sched_with [''run_b'']) = (Inr (), w') \<and> faults w' = []"
proof -
  let ?w = "sched_with [''run_b'']"
  obtain w' where w': "writeClaim ''m1'' (new_claim ''m1'' rid 9) ?w = (Inr (), w')" "faults w' = []"
    using example_writeClaim by blast
  have "future_claim 9 ?w = (Inr (), ?w)"
    by (simp add: future_claim_def bindE_def Now_def asks_def guard_def ret_def sched_with_def)
  with assms w' have "Reserve l Load example_config ''m1'' rid 9 ?w = (Inr (), w')"
    by (simp add: Reserve_def io_eval example_valid_m1 example_m1 withLock_ok example_reap example_count new_claim_def)
  with w'(2) show ?thesis by blast
qed

lemma reserved_twice:
  "claim_at (sched_with [''run_b'']) ''m1'' ''run_b'' \<noteq> None
    \<and> fst (Reserve l Load example_config ''m1'' ''run_b'' 9 (sched_with [''run_b''])) = Inr ()"
  using example_Reserve [OF example_ids(2), of l] by (auto simp: sched_with_at)

theorem Reserve_ReservationFor_witness:
  "\<exists>w'. Reserve example_layout Load example_config ''m1'' ''run_a'' 9 (sched_with [''run_b'']) = (Inr (), w')
    \<and> ReservationFor example_layout ''m1'' ''run_a'' w' = (Inr \<lparr>ResMachine = ''m1'', ResRunID = ''run_a'', ResCreatedAt = 9\<rparr>, w')"
proof -
  obtain w' where w': "Reserve example_layout Load example_config ''m1'' ''run_a'' 9 (sched_with [''run_b'']) = (Inr (), w')" "faults w' = []"
    using example_Reserve [OF example_ids(1)] by blast
  with Reserve_ReservationFor [OF w'] show ?thesis by simp
qed

theorem ReserveAndPublish_rollback_witness:
  "\<exists>e w'. ReserveAndPublish example_layout Load example_config ''run_a'' [''m1''] 9 (\<lambda>m. throw (ESent ErrRunNotFound)) (sched_with [''run_b'']) = (Inl e, w')
    \<and> claim_at w' ''m1'' ''run_a'' = None"
proof -
  let ?publish = "\<lambda>m. throw (ESent ErrRunNotFound)" and ?w = "sched_with [''run_b'']"
  obtain r w' where run: "ReserveAndPublish example_layout Load example_config ''run_a'' [''m1''] 9 ?publish ?w = (r, w')" by force
  have "\<exists>e. r = Inl e"
    using run by (cases r) (auto simp: ReserveAndPublish_def withLock_def bindE_Inr attempt_eq split: sum.splits,
        metis (full_types) old.unit.exhaust sumE)
  then obtain e where r: "r = Inl e" by blast
  have "claim_at w' ''m1'' \<subseteq>\<^sub>m claim_at ?w ''m1''"
    using ReserveAndPublish_rollback [OF run [unfolded r] example_config_valid example_m1(4) same_claims.always_throw]
      sched_with_faults spent.always_throw by blast
  moreover have "claim_at ?w ''m1'' ''run_a'' = None" by (simp add: sched_with_at)
  ultimately have "claim_at w' ''m1'' ''run_a'' = None" by (auto simp: map_le_def dom_def)
  with run r show ?thesis by blast
qed

theorem Release_exact_witness:
  "claim_at (snd (Release example_layout ''m1'' ''run_a'' example_sched)) ''m1'' ''run_b'' \<noteq> None
    \<and> claim_at (snd (Release example_layout ''m1'' ''run_a'' example_sched)) ''m1'' ''run_a'' = None"
proof -
  have at: "claim_at example_sched ''m1'' ''run_a'' = Some (ClaimJson (new_claim ''m1'' ''run_a'' 5))"
    and f: "faults example_sched = []" by (simp_all add: example_sched_def sched_with_at)
  have "Release example_layout ''m1'' ''run_a'' example_sched = (Inr (), del_claim ''m1'' ''run_a'' example_sched)"
    by (simp add: Release_def io_eval example_valid_m1 example_ids withLock_ok f lstat_claim_ok claim_lookup_at [OF at]
        remove_claim_ok [OF f at] example_validate [of "''run_a''" "[''run_a'', ''run_b'']", folded example_sched_def])
  from Release_exact [OF this] this show ?thesis by (simp add: example_sched_def sched_with_at)
qed

end
