(* ===== verification/Vci_Setup.thy ===== *)
theory Vci_Setup
  imports Vci_Scheduler_Examples
begin

text \<open>
  \<open>internal/app/configure.go\<close>: the setup operations on the inventory of machines and projects.

  Each operation is a change of the configuration (\<open>add_machine\<close>, \<open>remove_machine\<close>, ...), the closure
  the code passes to \<open>config.Mutate\<close>, run by \<open>MutateConfig\<close>. A Go map is an association list without
  order: \<open>range\<close> visits it in the order of the list, which is one of the orders Go may choose.
\<close>

section \<open>Changes of the configuration\<close>

definition add_machine :: "string \<Rightarrow> machine \<Rightarrow> config \<Rightarrow> config result" where
  "add_machine name m cfg =
     (if has_key (Machines cfg) name then Inl (Errf ''machine %q already exists'' [name])
      else Inr (cfg\<lparr>Machines := AList.update name m (Machines cfg)\<rparr>))"

definition update_machine :: "string \<Rightarrow> (machine \<Rightarrow> machine result) \<Rightarrow> config \<Rightarrow> config result" where
  "update_machine name mutate cfg = (case map_of (Machines cfg) name of
       None \<Rightarrow> Inl (Errf ''machine %q does not exist'' [name])
     | Some m \<Rightarrow> (case mutate m of
         Inl e \<Rightarrow> Inl e
       | Inr m' \<Rightarrow> Inr (cfg\<lparr>Machines := AList.update name m' (Machines cfg)\<rparr>)))"

definition remove_machine :: "string \<Rightarrow> config \<Rightarrow> config result" where
  "remove_machine name cfg =
     (if \<not> has_key (Machines cfg) name then Inl (Errf ''machine %q does not exist'' [name])
      else case find (\<lambda>(q, p). name \<in> set (TargetMachines p)) (Projects cfg) of
          Some (q, p) \<Rightarrow> Inl (Errf ''machine %q is attached to project %q'' [name, q])
        | None \<Rightarrow> Inr (cfg\<lparr>Machines := AList.delete name (Machines cfg)\<rparr>))"

definition add_project :: "string \<Rightarrow> project \<Rightarrow> config \<Rightarrow> config result" where
  "add_project name p cfg =
     (if has_key (Projects cfg) name then Inl (Errf ''project %q already exists'' [name])
      else Inr (cfg\<lparr>Projects := AList.update name p (Projects cfg)\<rparr>))"

definition update_project :: "string \<Rightarrow> (project \<Rightarrow> project result) \<Rightarrow> config \<Rightarrow> config result" where
  "update_project name mutate cfg = (case map_of (Projects cfg) name of
       None \<Rightarrow> Inl (Errf ''project %q does not exist'' [name])
     | Some p \<Rightarrow> (case mutate p of
         Inl e \<Rightarrow> Inl e
       | Inr p' \<Rightarrow> Inr (cfg\<lparr>Projects := AList.update name p' (Projects cfg)\<rparr>)))"

definition client_root :: "config \<Rightarrow> err" where
  "client_root cfg = Errf ''client root: orchestrator = %q'' [Orchestrator cfg]"

definition set_fallback :: "string \<Rightarrow> hosted_fallback \<Rightarrow> config \<Rightarrow> config result" where
  "set_fallback name h cfg =
     (if Orchestrator cfg \<noteq> OrchestratorSelf then Inl (client_root cfg)
      else case map_of (Projects cfg) name of
          None \<Rightarrow> Inl (Errf ''project %q does not exist'' [name])
        | Some p \<Rightarrow> Inr (cfg\<lparr>Projects := AList.update name (p\<lparr>HostedFallback := h\<rparr>) (Projects cfg)\<rparr>))"

section \<open>Operations\<close>

definition RequireCoordinatorRole :: "toml \<Rightarrow> ('a config_state_scheme, unit) io" where
  "RequireCoordinatorRole t = bindE (LoadConfig t) (\<lambda>cfg. guard (Orchestrator cfg = OrchestratorSelf) (client_root cfg))"

definition AddMachine :: "toml \<Rightarrow> string \<Rightarrow> machine \<Rightarrow> ('a config_state_scheme, unit) io" where
  "AddMachine t name m =
     bindE (guard (ValidName name) (Errf ''invalid machine name %q'' [name])) (\<lambda>_.
     bindE (guard (\<not> MaxConcurrent m < 0) (Errf ''machine %q has negative max_concurrent'' [name])) (\<lambda>_.
     bindE (lift_result (ValidateMachineHost (Host m))) (\<lambda>_.
     MutateConfig t (add_machine name m))))"

definition UpdateMachine :: "toml \<Rightarrow> string \<Rightarrow> (machine \<Rightarrow> machine result) \<Rightarrow> ('a config_state_scheme, unit) io" where
  "UpdateMachine t name mutate =
     bindE (guard (ValidName name) (Errf ''invalid machine name %q'' [name])) (\<lambda>_. MutateConfig t (update_machine name mutate))"

definition RemoveMachine :: "toml \<Rightarrow> string \<Rightarrow> ('a config_state_scheme, unit) io" where
  "RemoveMachine t name = MutateConfig t (remove_machine name)"

definition AddProject :: "toml \<Rightarrow> string \<Rightarrow> project \<Rightarrow> ('a config_state_scheme, unit) io" where
  "AddProject t name p =
     bindE (guard (ValidName name) (Errf ''invalid project name %q'' [name])) (\<lambda>_. MutateConfig t (add_project name p))"

definition UpdateProject :: "toml \<Rightarrow> string \<Rightarrow> (project \<Rightarrow> project result) \<Rightarrow> ('a config_state_scheme, unit) io" where
  "UpdateProject t name mutate =
     bindE (guard (ValidName name) (Errf ''invalid project name %q'' [name])) (\<lambda>_. MutateConfig t (update_project name mutate))"

definition SetHostedFallback :: "toml \<Rightarrow> string \<Rightarrow> string \<Rightarrow> string \<Rightarrow> ('a config_state_scheme, unit) io" where
  "SetHostedFallback t name url commit =
     bindE (guard (ValidName name) (Errf ''invalid project name %q'' [name])) (\<lambda>_.
     bindE (lift_result (ValidateHosted \<lparr>URL = url, Commit = commit\<rparr>)) (\<lambda>_.
     MutateConfig t (set_fallback name \<lparr>URL = url, Commit = commit\<rparr>)))"

definition ClearHostedFallback :: "toml \<Rightarrow> string \<Rightarrow> ('a config_state_scheme, unit) io" where
  "ClearHostedFallback t name =
     bindE (guard (ValidName name) (Errf ''invalid project name %q'' [name])) (\<lambda>_.
     MutateConfig t (set_fallback name \<lparr>URL = [], Commit = []\<rparr>))"

record machine_view =
  mv_Name :: string
  mv_Machine :: machine
  mv_Capacity :: int
  mv_Active :: int
  mv_Available :: int

record inventory =
  inv_Machines :: "machine_view list"
  inv_Projects :: "(string \<times> project) list"

definition machine_view_of :: "machine_status list \<Rightarrow> config \<Rightarrow> string \<Rightarrow> machine_view" where
  "machine_view_of statuses cfg name =
     (let m = the (map_of (Machines cfg) name); capacity = EffectiveCapacity m in
      case map_of (rev (map (\<lambda>s. (StMachine s, s)) statuses)) name of
        None \<Rightarrow> \<lparr>mv_Name = name, mv_Machine = m, mv_Capacity = capacity, mv_Active = 0, mv_Available = 0\<rparr>
      | Some s \<Rightarrow> \<lparr>mv_Name = name, mv_Machine = m, mv_Capacity = capacity, mv_Active = StActive s, mv_Available = StAvailable s\<rparr>)"

definition ReadInventory :: "toml \<Rightarrow> layout \<Rightarrow> ('a sched_state_scheme, inventory) io" where
  "ReadInventory t l =
     bindE (LoadConfig t) (\<lambda>cfg.
     bindE (Status l Load cfg) (\<lambda>statuses.
     ret \<lparr>inv_Machines = map (machine_view_of statuses cfg) (dir_names (Machines cfg)),
       inv_Projects = map (\<lambda>name. (name, the (map_of (Projects cfg) name))) (dir_names (Projects cfg))\<rparr>))"

definition Initialize :: "toml \<Rightarrow> layout \<Rightarrow> ('a config_state_scheme, unit) io" where
  "Initialize t l = bindE (Ensure l) (\<lambda>_. InitializeConfig t)"

section \<open>The configuration on disk\<close>

text \<open>
  What the code relies on of the TOML codec: a validated configuration that was encoded decodes to
  itself. Association lists stand for Go maps, so equality here is equality of the maps.
\<close>

definition codec_roundtrip :: "toml \<Rightarrow> bool" where
  "codec_roundtrip t \<longleftrightarrow> (\<forall>cfg data. Validate cfg = Inr () \<longrightarrow> toml_encode t cfg = Inr data \<longrightarrow> Decode t data = Inr cfg)"

definition current :: "toml \<Rightarrow> 'a config_state_scheme \<Rightarrow> config option" where
  "current t w = (case config_file w of None \<Rightarrow> None | Some d \<Rightarrow> (case Decode t d of Inl _ \<Rightarrow> None | Inr cfg \<Rightarrow> Some cfg))"

lemma current_iff: "current t w = Some cfg \<longleftrightarrow> (\<exists>d. config_file w = Some d \<and> Decode t d = Inr cfg)"
  by (auto simp: current_def split: option.splits sum.splits)

lemma current_valid: "current t w = Some cfg \<Longrightarrow> Validate cfg = Inr ()"
  by (auto simp: current_iff dest: Decode_valid)

lemma mutate_current:
  assumes "codec_roundtrip t" and "MutateConfig t fn w = (Inr (), w')"
  obtains cfg cfg' where "current t w = Some cfg" and "fn cfg = Inr cfg'" and "current t w' = Some cfg'"
  using MutateConfig_Inr [OF assms(2)] assms(1)
  by (auto simp: mutated_def codec_roundtrip_def current_iff)

text \<open>A change that is refused leaves the file alone.\<close>

lemma mutate_refused:
  assumes "MutateConfig t fn w = (r, w')" and "\<And>cfg. current t w = Some cfg \<Longrightarrow> \<exists>e. fn cfg = Inl e"
  shows "config_file w' = config_file w \<and> r \<noteq> Inr ()"
  using assms(1)
proof (cases rule: MutateConfig_cases)
  case (2 data cfg cfg' w1)
  then have "current t w = Some cfg" by (simp add: current_iff)
  with assms(2) 2 show ?thesis by auto
qed simp

lemma AddMachine_mutate:
  "AddMachine t name m w = (Inr (), w') \<Longrightarrow> ValidName name \<and> MutateConfig t (add_machine name m) w = (Inr (), w')"
  by (auto simp: AddMachine_def guard_bind lift_bind split: if_splits sum.splits)

text \<open>No project of a valid configuration runs on a machine that is not configured.\<close>

lemma Validate_targets_known:
  assumes "Validate cfg = Inr ()" and "\<not> has_key (Machines cfg) name"
  shows "find (\<lambda>(q, p). name \<in> set (TargetMachines p)) (Projects cfg) = None"
proof (cases "Orchestrator cfg = OrchestratorSelf")
  case True
  with assms have "validateProject cfg qp = Inr ()" if "qp \<in> set (Projects cfg)" for qp
    using that by (auto simp: Validate_def validateCoordinator_def)
  then show ?thesis
    using assms(2) by (fastforce simp: find_None_iff validateProject_def validateTargets_ok)
next
  case False
  with Validate_client [OF assms(1)] have "Projects cfg = []" by simp
  then show ?thesis by simp
qed

lemma delete_update_fresh: "k \<notin> fst ` set xs \<Longrightarrow> AList.delete k (AList.update k v xs) = xs"
  by (induction xs) auto

lemma add_remove_machine:
  assumes "Validate cfg = Inr ()" and "add_machine name m cfg = Inr cfg'"
  shows "remove_machine name cfg' = Inr cfg"
proof -
  from assms(2) have fresh: "\<not> has_key (Machines cfg) name" and cfg': "cfg' = cfg\<lparr>Machines := AList.update name m (Machines cfg)\<rparr>"
    by (auto simp: add_machine_def split: if_splits)
  from fresh have "name \<notin> fst ` set (Machines cfg)" by (simp add: has_key_def map_of_eq_None_iff)
  then have "AList.delete name (AList.update name m (Machines cfg)) = Machines cfg"
    by (rule delete_update_fresh)
  with Validate_targets_known [OF assms(1) fresh] show ?thesis
    by (simp add: remove_machine_def cfg' has_key_def update_conv')
qed

text \<open>
  Adding a machine and removing it again restores the configuration: the removal is never refused
  as attached, because no valid project could name the machine before it existed, and what is on disk
  afterwards decodes to what was there before.
\<close>

theorem AddMachine_RemoveMachine:
  assumes "codec_roundtrip t" and "AddMachine t name m w = (Inr (), w1)" and "RemoveMachine t name w1 = (r, w2)"
  shows "\<exists>cfg cfg'. current t w = Some cfg \<and> current t w1 = Some cfg' \<and> remove_machine name cfg' = Inr cfg
    \<and> (r = Inr () \<longrightarrow> current t w2 = current t w)"
proof -
  have "MutateConfig t (add_machine name m) w = (Inr (), w1)" using AddMachine_mutate [OF assms(2)] by simp
  with assms(1) obtain cfg cfg' where c: "current t w = Some cfg" "add_machine name m cfg = Inr cfg'" "current t w1 = Some cfg'"
    by (rule mutate_current)
  have rm: "remove_machine name cfg' = Inr cfg" by (rule add_remove_machine [OF current_valid [OF c(1)] c(2)])
  have "current t w2 = Some cfg" if "r = Inr ()"
    by (rule mutate_current [OF assms(1) assms(3) [unfolded that RemoveMachine_def]]) (use c(3) rm in auto)
  with c(1,3) rm show ?thesis by auto
qed

text \<open>
  A machine that a project runs on cannot be removed, and a client root keeps no hosted fallback:
  these refusals leave the configuration file as it was.
\<close>

theorem setup_refusals:
  assumes "current t w = Some cfg"
  shows "((\<exists>(q, p) \<in> set (Projects cfg). name \<in> set (TargetMachines p)) \<longrightarrow> RemoveMachine t name w = (r, w') \<longrightarrow>
      config_file w' = config_file w \<and> r \<noteq> Inr ())
    \<and> (Orchestrator cfg \<noteq> OrchestratorSelf \<longrightarrow> SetHostedFallback t name url commit w = (r, w') \<longrightarrow>
      config_file w' = config_file w \<and> r \<noteq> Inr ())"
proof (intro conjI impI)
  assume p: "\<exists>(q, p) \<in> set (Projects cfg). name \<in> set (TargetMachines p)" and run: "RemoveMachine t name w = (r, w')"
  from p have "find (\<lambda>(q, p). name \<in> set (TargetMachines p)) (Projects cfg) \<noteq> None" by (auto simp: find_None_iff)
  with assms have "config_file w' = config_file w \<and> r \<noteq> Inr ()"
    by (intro mutate_refused [OF run [unfolded RemoveMachine_def]]) (auto simp: remove_machine_def split: option.splits)
  then show "config_file w' = config_file w" and "r \<noteq> Inr ()" by simp_all
next
  assume o: "Orchestrator cfg \<noteq> OrchestratorSelf" and run: "SetHostedFallback t name url commit w = (r, w')"
  have "config_file w' = config_file w \<and> r \<noteq> Inr ()"
  proof (cases "ValidName name \<and> (\<exists>h. ValidateHosted \<lparr>URL = url, Commit = commit\<rparr> = Inr h)")
    case True
    with run have "MutateConfig t (set_fallback name \<lparr>URL = url, Commit = commit\<rparr>) w = (r, w')"
      by (auto simp: SetHostedFallback_def guard_bind lift_bind)
    with assms o show ?thesis by (elim mutate_refused) (simp add: set_fallback_def)
  next
    case False
    with run show ?thesis by (auto simp: SetHostedFallback_def guard_bind lift_bind split: if_splits sum.splits)
  qed
  then show "config_file w' = config_file w" and "r \<noteq> Inr ()" by simp_all
qed

section \<open>The inventory\<close>

lemma LoadConfig_current: "LoadConfig t w = (Inr cfg, w') \<Longrightarrow> current t w = Some cfg \<and> quiet w w'"
  using LoadConfig_Inr [of t w cfg w'] alwaysD [OF LoadConfig_quiet, of t w "Inr cfg" w'] by (auto simp: current_iff dest: quiet_config_file)

lemma mv_Name_of [simp]: "mv_Name (machine_view_of sts cfg name) = name"
  by (simp add: machine_view_of_def Let_def split: option.split)

text \<open>The status of a machine after the dead claims are reaped.\<close>

lemma Status_Inr:
  assumes "Status l Load cfg w = (Inr sts, w')" and "Validate cfg = Inr ()"
  shows "\<exists>active. (\<forall>m. ValidName m \<longrightarrow> active m = claim_count w' m)
    \<and> sts = map (\<lambda>s. \<lparr>StMachine = snap_name s, StCapacity = snap_capacity s, StActive = snap_active s,
         StAvailable = max 0 (snap_capacity s - snap_active s)\<rparr>) (computeMachineSnapshots active cfg)"
proof -
  from assms(1) obtain w1 w2 x active where ct: "countActiveByMachine l w2 = (Inr active, w')"
    and sts: "sts = map (\<lambda>s. \<lparr>StMachine = snap_name s, StCapacity = snap_capacity s, StActive = snap_active s,
         StAvailable = max 0 (snap_capacity s - snap_active s)\<rparr>) (computeMachineSnapshots active cfg)"
    unfolding Status_def by (cases rule: withLock_cases) (auto simp: bindE_Inr)
  have "quiet w2 w'" using ct by (rule alwaysD [OF quiet_countActive])
  then have "claim_count w' m = claim_count w2 m" for m by (simp add: claim_count_def quiet_claim_set)
  with countActive_Inr [OF ct] sts show ?thesis by auto
qed

lemma map_of_rev_unique:
  "distinct (map fst xs) \<Longrightarrow> map_of (rev xs) = map_of xs"
  by (rule map_of_eqI) (auto simp: rev_map [symmetric] intro: map_of_eq_Some_iff)

text \<open>
  The inventory tells the truth: it lists every configured machine once, in the order of their
  names, with its capacity, the number of claims it holds, and the slots that are free.
\<close>

theorem ReadInventory_spec:
  assumes "ReadInventory t l w = (Inr view, w')" and "current t w = Some cfg" and "distinct (map fst (Machines cfg))"
  shows "map mv_Name (inv_Machines view) = sort (map fst (Machines cfg))
    \<and> (\<forall>v \<in> set (inv_Machines view). map_of (Machines cfg) (mv_Name v) = Some (mv_Machine v)
        \<and> mv_Capacity v = EffectiveCapacity (mv_Machine v) \<and> mv_Active v = claim_count w' (mv_Name v)
        \<and> mv_Available v = max 0 (mv_Capacity v - mv_Active v))"
proof -
  from assms(1) obtain cfg' w1 sts where ld: "LoadConfig t w = (Inr cfg', w1)" and st: "Status l Load cfg' w1 = (Inr sts, w')"
    and view: "inv_Machines view = map (machine_view_of sts cfg') (dir_names (Machines cfg'))"
    by (auto simp: ReadInventory_def bindE_Inr)
  from LoadConfig_current [OF ld] assms(2) have [simp]: "cfg' = cfg" by simp
  have valid: "Validate cfg = Inr ()" by (rule current_valid [OF assms(2)])
  from Status_Inr [OF st] valid obtain active where act: "\<And>m. ValidName m \<Longrightarrow> active m = claim_count w' m"
    and sts: "sts = map (\<lambda>s. \<lparr>StMachine = snap_name s, StCapacity = snap_capacity s, StActive = snap_active s,
         StAvailable = max 0 (snap_capacity s - snap_active s)\<rparr>) (computeMachineSnapshots active cfg)"
    by auto
  let ?st = "\<lambda>s. \<lparr>StMachine = snap_name s, StCapacity = snap_capacity s, StActive = snap_active s,
         StAvailable = max 0 (snap_capacity s - snap_active s)\<rparr>"
  have one: "machine_view_of sts cfg name = \<lparr>mv_Name = name, mv_Machine = m, mv_Capacity = EffectiveCapacity m,
      mv_Active = claim_count w' name, mv_Available = max 0 (EffectiveCapacity m - claim_count w' name)\<rparr>"
    if m: "map_of (Machines cfg) name = Some m" for name m
  proof -
    let ?kv = "map (\<lambda>s. (StMachine s, s)) sts"
    have "mset (map fst ?kv) = mset (map fst (Machines cfg))"
      by (simp add: sts computeMachineSnapshots_slot o_def slot_def case_prod_unfold image_mset.compositionality)
    then have "distinct (map fst ?kv)" using assms(3) by (metis mset_eq_imp_distinct_iff)
    moreover have "(name, ?st (slot active (name, m))) \<in> set ?kv"
      using map_of_SomeD [OF m] by (force simp: sts computeMachineSnapshots_slot slot_def)
    ultimately have "map_of (rev ?kv) name = Some (?st (slot active (name, m)))"
      by (simp add: map_of_rev_unique)
    with act [OF Validate_machine_name [OF valid m]] m show ?thesis
      by (simp add: machine_view_of_def Let_def rev_map slot_def)
  qed
  show ?thesis
  proof (intro conjI ballI)
    show "map mv_Name (inv_Machines view) = sort (map fst (Machines cfg))"
      using assms(3) by (simp add: view o_def dir_names_def distinct_remdups_id)
  qed (auto simp: view one dir_names_dom simp del: set_dir_names)
qed

section \<open>A concrete setup\<close>

text \<open>A codec for a fixed list of configurations: the encoding of a configuration is its position, in unary.\<close>

fun position :: "'a \<Rightarrow> 'a list \<Rightarrow> nat option" where
  "position x [] = None"
| "position x (y # ys) = (if x = y then Some 0 else map_option Suc (position x ys))"

definition table_toml :: "config list \<Rightarrow> toml" where
  "table_toml cs =
     \<lparr>toml_decode = (\<lambda>s c. if length s < length cs then Inr (cs ! length s, \<lparr>orchestrator_defined = True, Undecoded = []\<rparr>)
        else Inl (Errf ''syntax'' [])),
      toml_encode = (\<lambda>c. case position c cs of None \<Rightarrow> Inl (Errf ''encode'' []) | Some i \<Rightarrow> Inr (replicate i (CHR ''i'')))\<rparr>"

lemma position_Some: "position x xs = Some i \<Longrightarrow> i < length xs \<and> xs ! i = x"
  by (induction xs arbitrary: i) (auto split: if_splits)

lemma table_roundtrip: "codec_roundtrip (table_toml cs)"
  by (auto simp: codec_roundtrip_def table_toml_def Decode_def dest!: position_Some split: option.splits)

definition two_machines :: config where
  "two_machines = example_config\<lparr>Machines := [(''m1'', example_machine), (''m2'', example_machine)]\<rparr>"

abbreviation two_toml :: toml where
  "two_toml \<equiv> table_toml [example_config, two_machines]"

abbreviation one_state :: config_state where
  "one_state \<equiv> example_config_state\<lparr>config_file := Some []\<rparr>"

lemma two_machines_valid: "Validate two_machines = Inr ()"
  by (simp add: validate_eval two_machines_def example_config_def example_machine_def example_project_def)

lemma two_machines_neq: "two_machines \<noteq> example_config"
  by (simp add: two_machines_def example_config_def Defaults_def)

lemma one_state_current: "current two_toml one_state = Some example_config"
  using example_config_valid by (simp add: current_def table_toml_def Decode_def)

lemma two_machines_added: "add_machine ''m2'' example_machine example_config = Inr two_machines"
  by (simp add: add_machine_def has_key_def two_machines_def example_config_def Defaults_def)

lemma example_AddMachine:
  "AddMachine two_toml ''m2'' example_machine one_state = (Inr (), one_state\<lparr>config_file := Some ''i''\<rparr>)"
proof -
  have pre: "ValidName ''m2''" "\<not> MaxConcurrent example_machine < 0" "ValidateMachineHost (Host example_machine) = Inr ()"
    by (simp_all add: ValidName_def alnum_def safe_char_def example_machine_def ValidateMachineHost_def)
  have "Decode two_toml [] = Inr example_config"
    using example_config_valid by (simp add: table_toml_def Decode_def)
  moreover have "toml_encode two_toml two_machines = Inr ''i''"
    using two_machines_neq by (simp add: table_toml_def)
  ultimately show ?thesis
    using pre two_machines_added two_machines_valid
    by (simp add: AddMachine_def MutateConfig_def LoadConfig_def saveLocked_def acquire_def read_file_def io_eval
        example_config_state_def)
qed

theorem AddMachine_RemoveMachine_witness:
  "remove_machine ''m2'' two_machines = Inr example_config"
proof -
  obtain r w2 where rm: "RemoveMachine two_toml ''m2'' (one_state\<lparr>config_file := Some ''i''\<rparr>) = (r, w2)" by force
  have "current two_toml (one_state\<lparr>config_file := Some ''i''\<rparr>) = Some two_machines"
    using two_machines_valid by (simp add: current_def table_toml_def Decode_def)
  with AddMachine_RemoveMachine [OF table_roundtrip example_AddMachine rm] show ?thesis
    by (auto simp: one_state_current)
qed

theorem setup_refusals_witness:
  "config_file (snd (RemoveMachine two_toml ''m1'' one_state)) = Some []"
proof -
  have "\<exists>(q, p) \<in> set (Projects example_config). ''m1'' \<in> set (TargetMachines p)"
    by (simp add: example_config_def example_project_def)
  with setup_refusals [OF one_state_current, of "''m1''" "fst (RemoveMachine two_toml ''m1'' one_state)"
      "snd (RemoveMachine two_toml ''m1'' one_state)"] show ?thesis by simp
qed

theorem ReadInventory_spec_witness:
  "\<exists>inventory w'. ReadInventory two_toml example_layout (sched_with [''run_b'']) = (Inr inventory, w')
    \<and> map mv_Name (inv_Machines inventory) = [''m1'']"
proof -
  let ?w = "sched_with [''run_b'']"
  have cur: "current two_toml ?w = Some example_config"
    using example_config_valid by (simp add: current_def table_toml_def Decode_def sched_with_def)
  then have "LoadConfig two_toml ?w = (Inr example_config, ?w)"
    by (auto simp: LoadConfig_def io_eval read_file_def current_iff)
  then obtain inventory w' where run: "ReadInventory two_toml example_layout ?w = (Inr inventory, w')"
    by (simp add: ReadInventory_def Status_def io_eval withLock_ok example_reap example_count)
  from ReadInventory_spec [OF run cur example_m1(4)] run show ?thesis by (auto simp: example_config_def)
qed

end
