(* ===== verification/Vci_Tree.thy ===== *)
theory Vci_Tree
  imports Vci_Store
begin

text \<open>
  File trees: what \<open>os.Lstat\<close>, \<open>os.MkdirAll\<close>, a write of a file and \<open>filepath.WalkDir\<close> do on them.
  A path is the list of its segments below the root of the tree. The trees are those vci writes:
  a symbolic link is an entry of its own and is never followed by the operations here.
\<close>

section \<open>Looking up\<close>

fun lookup_node :: "node \<Rightarrow> string list \<Rightarrow> node result" where
  "lookup_node n [] = Inr n"
| "lookup_node (Folder es) (k # ks) = (case map_of es k of None \<Rightarrow> Inl ENotExist | Some c \<Rightarrow> lookup_node c ks)"
| "lookup_node _ (k # ks) = Inl not_a_directory"

definition is_folder :: "node \<Rightarrow> bool" where
  "is_folder n = (case n of Folder _ \<Rightarrow> True | _ \<Rightarrow> False)"

definition is_regular :: "node \<Rightarrow> bool" where
  "is_regular n = (case n of Regular _ \<Rightarrow> True | _ \<Rightarrow> False)"

definition node_data :: "node \<Rightarrow> string" where
  "node_data n = (case n of Regular d \<Rightarrow> d | _ \<Rightarrow> [])"

section \<open>Writing\<close>

text \<open>\<open>os.MkdirAll\<close>: a missing segment is created, an existing folder is entered, anything else is an error.\<close>

fun make_dirs :: "string list \<Rightarrow> node option \<Rightarrow> node result" where
  "make_dirs [] None = Inr (Folder [])"
| "make_dirs [] (Some (Folder es)) = Inr (Folder es)"
| "make_dirs [] (Some n) = Inl not_a_directory"
| "make_dirs (k # ks) None = (case make_dirs ks None of Inl e \<Rightarrow> Inl e | Inr n \<Rightarrow> Inr (Folder [(k, n)]))"
| "make_dirs (k # ks) (Some (Folder es)) =
     (case make_dirs ks (map_of es k) of Inl e \<Rightarrow> Inl e | Inr n \<Rightarrow> Inr (Folder (AList.update k n es)))"
| "make_dirs (k # ks) (Some n) = Inl not_a_directory"

text \<open>Creating or truncating the file at a path whose parent exists.\<close>

fun write_node :: "string list \<Rightarrow> string \<Rightarrow> node option \<Rightarrow> node result" where
  "write_node [] d None = Inr (Regular d)"
| "write_node [] d (Some (Regular _)) = Inr (Regular d)"
| "write_node [] d (Some n) = Inl (EOs ''is not a regular file'')"
| "write_node (k # ks) d None = Inl ENotExist"
| "write_node (k # ks) d (Some (Folder es)) =
     (case write_node ks d (map_of es k) of Inl e \<Rightarrow> Inl e | Inr n \<Rightarrow> Inr (Folder (AList.update k n es)))"
| "write_node (k # ks) d (Some n) = Inl not_a_directory"

section \<open>Walking\<close>

lemma child_smaller [termination_simp]: "(k, c) \<in> set es \<Longrightarrow> size c < Suc (size_list (size_prod (\<lambda>_. 0) size) es)"
  by (induction es) auto

text \<open>The entries \<open>filepath.WalkDir\<close> visits, in its order: an entry, then its children by name.\<close>

fun visits :: "string list \<Rightarrow> node \<Rightarrow> (string list \<times> node) list" where
  "visits p (Folder es) = (p, Folder es) # concat (map (\<lambda>(k, c). visits (p @ [k]) c) (sort_key fst es))"
| "visits p n = [(p, n)]"

text \<open>
  The walk itself: reading each directory is a call that may fail, and \<open>f\<close> is the callback on every
  other entry; the first error ends the walk.
\<close>

definition walk_tree :: "('acc \<Rightarrow> string list \<Rightarrow> node \<Rightarrow> 'acc result) \<Rightarrow> 'acc \<Rightarrow> node \<Rightarrow> ('a os_state_scheme, 'acc) io" where
  "walk_tree f acc root = bindE os_call (\<lambda>_. foldE (\<lambda>acc (p, n).
     if is_folder n then bindE os_call (\<lambda>_. ret acc) else lift_result (f acc p n)) acc (visits [] root))"

section \<open>Well-formed trees\<close>

text \<open>Every name occurs once in its folder, is not empty and holds no slash.\<close>

fun wf_node :: "node \<Rightarrow> bool" where
  "wf_node (Folder es) \<longleftrightarrow> distinct (map fst es) \<and> (\<forall>(k, c) \<in> set es. k \<noteq> [] \<and> CHR ''/'' \<notin> set k \<and> wf_node c)"
| "wf_node _ \<longleftrightarrow> True"

lemma wf_child: "wf_node (Folder es) \<Longrightarrow> map_of es k = Some c \<Longrightarrow> wf_node c \<and> k \<noteq> [] \<and> CHR ''/'' \<notin> set k"
  by (auto dest!: map_of_SomeD)

text \<open>What the walk visits is what a lookup finds.\<close>

lemma visits_lookup:
  "wf_node n \<Longrightarrow> (q, m) \<in> set (visits p n) \<longleftrightarrow> (\<exists>r. q = p @ r \<and> lookup_node n r = Inr m)"
proof (induction p n arbitrary: q m rule: visits.induct)
  case (1 p es)
  have child: "(q, m) \<in> set (visits (p @ [k]) c) \<longleftrightarrow> (\<exists>r. q = (p @ [k]) @ r \<and> lookup_node c r = Inr m)"
    if "(k, c) \<in> set es" for k c
    using 1 that by auto
  have "(q, m) \<in> set (visits p (Folder es)) \<longleftrightarrow> (q = p \<and> m = Folder es)
      \<or> (\<exists>k c. (k, c) \<in> set es \<and> (q, m) \<in> set (visits (p @ [k]) c))"
    by auto
  also have "\<dots> \<longleftrightarrow> (q = p \<and> m = Folder es)
      \<or> (\<exists>k c. map_of es k = Some c \<and> (\<exists>r. q = p @ k # r \<and> lookup_node c r = Inr m))"
    using child 1(2) by (auto simp: map_of_eq_Some_iff)
  also have "\<dots> \<longleftrightarrow> (\<exists>r. q = p @ r \<and> lookup_node (Folder es) r = Inr m)" (is "?L \<longleftrightarrow> ?R")
  proof
    assume ?L then show ?R by (elim disjE exE conjE) force+
  next
    assume ?R
    then obtain r where "q = p @ r" and "lookup_node (Folder es) r = Inr m" by blast
    then show ?L by (cases r) (auto split: option.splits)
  qed
  finally show ?case .
qed (auto elim: lookup_node.elims)

lemma lookup_plain:
  "wf_node n \<Longrightarrow> lookup_node n r = Inr m \<Longrightarrow> s \<in> set r \<Longrightarrow> s \<noteq> [] \<and> CHR ''/'' \<notin> set s"
proof (induction n r arbitrary: m rule: lookup_node.induct)
  case (2 es k ks)
  then obtain c where c: "map_of es k = Some c" and "lookup_node c ks = Inr m" by (auto split: option.splits)
  with 2 wf_child [OF 2(2) c] show ?case by auto
qed auto

section \<open>Effect of writing\<close>

lemma make_dirs_lookup:
  "make_dirs ks n = Inr n' \<Longrightarrow> n = Some m \<Longrightarrow> lookup_node m r = Inr (Regular d) \<Longrightarrow> lookup_node n' r = Inr (Regular d)"
proof (induction ks n arbitrary: n' m r rule: make_dirs.induct)
  case (5 k ks es)
  then obtain c where c: "make_dirs ks (map_of es k) = Inr c" and n': "n' = Folder (AList.update k c es)"
    by (auto split: sum.splits)
  from 5 obtain j js where r: "r = j # js" by (cases r) auto
  have lk: "lookup_node (Folder es) (j # js) = Inr (Regular d)" using 5 r by simp
  show ?case
  proof (cases "j = k")
    case True
    with 5 r obtain b where "map_of es k = Some b" and "lookup_node b js = Inr (Regular d)" by (auto split: option.splits)
    with 5(1) [OF c] show ?thesis by (simp add: n' r True update_conv')
  next
    case False
    with lk show ?thesis by (simp add: n' r update_conv')
  qed
qed auto

lemma write_node_lookup:
  "write_node ks d n = Inr n' \<Longrightarrow> lookup_node n' ks = Inr (Regular d)"
  by (induction ks d n arbitrary: n' rule: write_node.induct) (auto split: sum.splits simp: update_conv')

lemma write_node_other:
  "write_node ks d n = Inr n' \<Longrightarrow> n = Some m \<Longrightarrow> r \<noteq> ks \<Longrightarrow> lookup_node m r = Inr (Regular x) \<Longrightarrow> lookup_node n' r = Inr (Regular x)"
proof (induction ks d n arbitrary: n' m r rule: write_node.induct)
  case (5 k ks d es)
  then obtain c where c: "write_node ks d (map_of es k) = Inr c" and n': "n' = Folder (AList.update k c es)"
    by (auto split: sum.splits)
  from 5 obtain j js where r: "r = j # js" by (cases r) auto
  have lk: "lookup_node (Folder es) (j # js) = Inr (Regular x)" using 5 r by simp
  show ?case
  proof (cases "j = k")
    case True
    with 5 r obtain b where "map_of es k = Some b" and "lookup_node b js = Inr (Regular x)" and "js \<noteq> ks"
      by (auto split: option.splits)
    with 5(1) [OF c] show ?thesis by (simp add: n' r True update_conv')
  next
    case False
    with lk show ?thesis by (simp add: n' r update_conv')
  qed
next
  case (2 d v)
  then show ?case by (cases r) auto
qed auto

section \<open>Bytes\<close>

text \<open>The bytes of the regular files of a tree.\<close>

fun tree_bytes :: "node \<Rightarrow> nat" where
  "tree_bytes (Regular d) = length d"
| "tree_bytes (Folder es) = sum_list (map (\<lambda>(k, c). tree_bytes c) es)"
| "tree_bytes _ = 0"

definition opt_bytes :: "node option \<Rightarrow> nat" where
  "opt_bytes n = (case n of None \<Rightarrow> 0 | Some m \<Rightarrow> tree_bytes m)"

lemma opt_bytes_simps [simp]: "opt_bytes None = 0" "opt_bytes (Some n) = tree_bytes n"
  by (simp_all add: opt_bytes_def)

lemma bytes_update:
  "sum_list (map (\<lambda>(k, c). tree_bytes c) (AList.update k n es)) + opt_bytes (map_of es k)
    = sum_list (map (\<lambda>(k, c). tree_bytes c) es) + tree_bytes n"
  by (induction es) auto

lemma make_dirs_bytes: "make_dirs ks n = Inr n' \<Longrightarrow> tree_bytes n' = opt_bytes n"
proof (induction ks n arbitrary: n' rule: make_dirs.induct)
  case (5 k ks es)
  then obtain c where c: "make_dirs ks (map_of es k) = Inr c" and n': "n' = Folder (AList.update k c es)"
    by (auto split: sum.splits)
  with 5(1) [OF c] bytes_update [of k c es] show ?case by simp
qed (auto split: sum.splits)

lemma write_node_bytes: "write_node ks d n = Inr n' \<Longrightarrow> tree_bytes n' \<le> opt_bytes n + length d"
proof (induction ks d n arbitrary: n' rule: write_node.induct)
  case (5 k ks d es)
  then obtain c where c: "write_node ks d (map_of es k) = Inr c" and n': "n' = Folder (AList.update k c es)"
    by (auto split: sum.splits)
  with 5(1) [OF c] bytes_update [of k c es] show ?case by simp
qed (auto split: sum.splits)

end
