(* ===== verification/Vci_Artifacts.thy ===== *)
theory Vci_Artifacts
  imports Vci_Tree Vci_Store_Laws Vci_Path
begin

text \<open>
  \<open>internal/app/data.go\<close>: collecting the artifacts of a run out of its workspace, and reading its
  logs and artifacts back.

  The workspace is a file tree that does not change while it is collected; the artifacts of a run are
  the tree \<open>artifacts_dir\<close> of its directory. Paths below both are lists of segments, and the strings of
  the code are those segments joined by slashes. A reader that the code returns is the contents it
  would deliver.
\<close>

section \<open>Globs\<close>

definition ArtifactCapBytes :: int where "ArtifactCapBytes = 64 * 2 ^ 20"

fun match_pairs :: "(string \<times> string) list \<Rightarrow> bool result" where
  "match_pairs [] = Inr True"
| "match_pairs ((g, s) # ps) = (case path_match g s of
       None \<Rightarrow> Inl ErrBadPattern
     | Some b \<Rightarrow> if b then match_pairs ps else Inr False)"

definition matchGlobSegments :: "string list \<Rightarrow> string \<Rightarrow> bool result" where
  "matchGlobSegments globSegments rel =
     (let relSegments = Split slash rel in
      if length relSegments < length globSegments then Inr False
      else match_pairs (zip (butlast globSegments) relSegments
        @ map (Pair (last globSegments)) (drop (length globSegments - 1) relSegments)))"

definition isExcludedArtifact :: "string \<Rightarrow> bool" where
  "isExcludedArtifact rel = list_ex (\<lambda>s. s = ''.git'' \<or> s = ''.vci'') (Split slash rel)"

definition rel_path :: "string list \<Rightarrow> string" where
  "rel_path p = (if p = [] then ''.'' else Join p ''/'')"

definition match_visit :: "string list \<Rightarrow> string list \<Rightarrow> string list \<Rightarrow> node \<Rightarrow> string list result" where
  "match_visit globSegments matches p n =
     (let rel = rel_path p in
      if isExcludedArtifact rel then Inr matches
      else case matchGlobSegments globSegments rel of
          Inl e \<Rightarrow> Inl e
        | Inr ok \<Rightarrow> Inr (if ok then matches @ [rel] else matches))"

definition matchWorkspaceGlob :: "node \<Rightarrow> string \<Rightarrow> ('a os_state_scheme, string list) io" where
  "matchWorkspaceGlob workspace glob = walk_tree (match_visit (Split slash glob)) [] workspace"

section \<open>Collecting\<close>

definition artifacts_of :: "'a store_state_scheme \<Rightarrow> run_id \<Rightarrow> node option" where
  "artifacts_of w rid = (case map_of (runs w) rid of Some (Sub d) \<Rightarrow> artifacts_dir d | _ \<Rightarrow> None)"

text \<open>A change below the artifact directory leaves the time stamp of the run's directory alone.\<close>

definition put_artifacts :: "run_id \<Rightarrow> node \<Rightarrow> 'a store_state_scheme \<Rightarrow> 'a store_state_scheme" where
  "put_artifacts rid n w = (case map_of (runs w) rid of
       Some (Sub d) \<Rightarrow> w\<lparr>runs := AList.update rid (Sub (d\<lparr>artifacts_dir := Some n\<rparr>)) (runs w)\<rparr>
     | _ \<Rightarrow> w)"

definition edit_artifacts :: "run_id \<Rightarrow> (node option \<Rightarrow> node result) \<Rightarrow> ('a store_state_scheme, unit) io" where
  "edit_artifacts rid f = bindE os_call (\<lambda>_. bindE (asks (\<lambda>w. f (artifacts_of w rid))) (\<lambda>x.
     bindE (lift_result x) (\<lambda>n. modify (put_artifacts rid n))))"

text \<open>Open the source, create or truncate the destination, copy.\<close>

definition copyRegular :: "run_id \<Rightarrow> string list \<Rightarrow> string \<Rightarrow> ('a store_state_scheme, unit) io" where
  "copyRegular rid segs data =
     bindE os_call (\<lambda>_.
     bindE (edit_artifacts rid (write_node segs [])) (\<lambda>_.
     edit_artifacts rid (write_node segs data)))"

record collecting =
  co_collected :: "string list"
  co_truncated :: bool
  co_used :: int

definition collect_one :: "node \<Rightarrow> run_id \<Rightarrow> collecting \<Rightarrow> string \<Rightarrow> ('a store_state_scheme, collecting) io" where
  "collect_one workspace rid c rel =
     (let segs = Split slash rel in
      bindE (attempt (bindE os_call (\<lambda>_. lift_result (lookup_node workspace segs)))) (\<lambda>x. case x of
          Inl _ \<Rightarrow> ret c
        | Inr n \<Rightarrow>
            if \<not> is_regular n then ret c
            else let size = int (length (node_data n)) in
              if ArtifactCapBytes < co_used c + size then ret (c\<lparr>co_truncated := True\<rparr>)
              else
                bindE (edit_artifacts rid (make_dirs (butlast segs))) (\<lambda>_.
                bindE (copyRegular rid segs (node_data n)) (\<lambda>_.
                ret (c\<lparr>co_used := co_used c + size, co_collected := co_collected c @ [rel]\<rparr>)))))"

text \<open>On an error the code returns what it has collected so far beside the error.\<close>

fun collect_files :: "node \<Rightarrow> run_id \<Rightarrow> collecting \<Rightarrow> string list \<Rightarrow> ('a store_state_scheme, collecting \<times> err option) io" where
  "collect_files workspace rid c [] = ret (c, None)"
| "collect_files workspace rid c (rel # rels) =
     bindE (attempt (collect_one workspace rid c rel)) (\<lambda>x. case x of
         Inl e \<Rightarrow> ret (c, Some e)
       | Inr c' \<Rightarrow> collect_files workspace rid c' rels)"

fun collect_globs :: "node \<Rightarrow> run_id \<Rightarrow> collecting \<Rightarrow> string list \<Rightarrow> ('a store_state_scheme, collecting \<times> err option) io" where
  "collect_globs workspace rid c [] = ret (c, None)"
| "collect_globs workspace rid c (glob # globs) =
     bindE (attempt (matchWorkspaceGlob workspace glob)) (\<lambda>x. case x of
         Inl e \<Rightarrow> ret (c, Some e)
       | Inr matches \<Rightarrow> bindE (collect_files workspace rid c matches) (\<lambda>(c', err). case err of
             Some e \<Rightarrow> ret (c', Some e)
           | None \<Rightarrow> collect_globs workspace rid c' globs))"

definition mkdir_artifacts :: "run_id \<Rightarrow> ('a store_state_scheme, unit) io" where
  "mkdir_artifacts rid = bindE (mkdir_run rid) (\<lambda>_. bindE (asks (\<lambda>w. artifacts_of w rid)) (\<lambda>x. case x of
       None \<Rightarrow> modify (put_run rid (artifacts_dir_update (\<lambda>_. Some (Folder []))))
     | Some n \<Rightarrow> guard (is_folder n) not_a_directory))"

definition CollectArtifacts :: "node \<Rightarrow> run_id \<Rightarrow> string list \<Rightarrow> ('a store_state_scheme, string list \<times> bool \<times> err option) io" where
  "CollectArtifacts workspace rid projectArtifacts =
     (if projectArtifacts = [] then ret ([], False, None)
      else bindE (attempt (wrapE ''mkdir artifacts: %w'' [] (mkdir_artifacts rid))) (\<lambda>x. case x of
          Inl e \<Rightarrow> ret ([], False, Some e)
        | Inr _ \<Rightarrow>
            bindE (collect_globs workspace rid \<lparr>co_collected = [], co_truncated = False, co_used = 0\<rparr> projectArtifacts)
              (\<lambda>(c, err). ret (co_collected c, co_truncated c, err))))"

section \<open>Reading back\<close>

definition not_found_or :: "('s, 'b) io \<Rightarrow> ('s, 'b) io" where
  "not_found_or m = bindE (attempt m) (\<lambda>x. case x of
       Inl e \<Rightarrow> if is_not_exist e then throw (ESent ErrRunNotFound) else throw e
     | Inr v \<Rightarrow> ret v)"

definition open_regular :: "err \<Rightarrow> ('a store_state_scheme \<Rightarrow> node result) \<Rightarrow> ('a store_state_scheme, string \<times> int) io" where
  "open_regular missing f =
     bindE (attempt (bindE os_call (\<lambda>_. bindE (asks f) lift_result))) (\<lambda>x. case x of
         Inl e \<Rightarrow> if IsNotExist e then throw missing else throw e
       | Inr n \<Rightarrow> bindE (guard (is_regular n) missing) (\<lambda>_. bindE os_call (\<lambda>_.
           ret (node_data n, int (length (node_data n))))))"

definition log_node :: "run_id \<Rightarrow> string \<Rightarrow> 'a store_state_scheme \<Rightarrow> node result" where
  "log_node rid name w = (case entry_dir (map_of (runs w) rid) of
       Inl e \<Rightarrow> Inl e
     | Inr d \<Rightarrow> (case map_of (log_files d) name of None \<Rightarrow> Inl ENotExist | Some n \<Rightarrow> Inr n))"

definition ReadLog :: "run_id \<Rightarrow> string \<Rightarrow> ('a store_state_scheme, string \<times> int) io" where
  "ReadLog rid stream =
     bindE (guard (ValidRunID rid) (Errf ''invalid run id %q'' [rid])) (\<lambda>_.
     bindE (guard (stream = ''stdout'' \<or> stream = ''stderr'') (EWrap ''%w: %q'' [stream] (ESent ErrInvalidLogStream))) (\<lambda>_.
     bindE (not_found_or (Load rid)) (\<lambda>_.
     bindE (runDir rid) (\<lambda>_.
     open_regular (EWrap ''%w: %s'' [stream] (ESent ErrLogNotFound)) (log_node rid (stream @ ''.log''))))))"

definition readArtifactsTruncated :: "run_id \<Rightarrow> ('a store_state_scheme, bool) io" where
  "readArtifactsTruncated rid = bindE (attempt (ReadResult rid)) (\<lambda>x. case x of
       Inl e \<Rightarrow> if IsNotExist e then ret False else throw e
     | Inr Garbled \<Rightarrow> ret False
     | Inr (Json r) \<Rightarrow> ret (br_ArtifactsTruncated r))"

definition ListArtifacts :: "run_id \<Rightarrow> ('a store_state_scheme, string list \<times> bool) io" where
  "ListArtifacts rid =
     bindE (guard (ValidRunID rid) (Errf ''invalid run id %q'' [rid])) (\<lambda>_.
     bindE (not_found_or (Load rid)) (\<lambda>_.
     bindE (runDir rid) (\<lambda>_.
     bindE (asks (\<lambda>w. artifacts_of w rid)) (\<lambda>x.
     bindE (case x of
         None \<Rightarrow> bindE os_call (\<lambda>_. ret [])
       | Some n \<Rightarrow> walk_tree (\<lambda>files p n. Inr (files @ [rel_path p])) [] n) (\<lambda>files.
     bindE (readArtifactsTruncated rid) (\<lambda>truncated.
     ret (sort files, truncated)))))))"

definition validateArtifactRel :: "string \<Rightarrow> unit result" where
  "validateArtifactRel rel = checks
     [ensure (rel \<noteq> []) (EWrap ''%w: path is empty'' [] (ESent ErrInvalidArtifactPath)),
      ensure (\<not> (HasPrefix rel ''/'' \<or> HasPrefix rel [backslash] \<or> IsAbs rel))
        (EWrap ''%w: path %q is absolute'' [rel] (ESent ErrInvalidArtifactPath)),
      ensure (\<not> HasPrefix rel ''-'') (EWrap ''%w: path %q starts with -'' [rel] (ESent ErrInvalidArtifactPath)),
      each (\<lambda>segment. checks
        [ensure (segment \<noteq> [] \<and> segment \<noteq> ''.'' \<and> segment \<noteq> ''..'')
           (EWrap ''%w: path %q contains an empty, dot, or parent segment'' [rel] (ESent ErrInvalidArtifactPath)),
         ensure (\<not> ContainsAny segment [CHR 0x00, CHR 0x09, CHR 0x0A, CHR 0x0D, CHR '' ''])
           (EWrap ''%w: path %q contains control or whitespace characters'' [rel] (ESent ErrInvalidArtifactPath)),
         ensure (ValidName segment) (EWrap ''%w: path segment %q is invalid'' [segment] (ESent ErrInvalidArtifactPath))])
        (Split slash rel),
      ensure (\<not> isExcludedArtifact rel) (EWrap ''%w: path %q is excluded'' [rel] (ESent ErrInvalidArtifactPath))]"

definition artifact_node :: "run_id \<Rightarrow> string \<Rightarrow> 'a store_state_scheme \<Rightarrow> node result" where
  "artifact_node rid rel w = (case artifacts_of w rid of None \<Rightarrow> Inl ENotExist | Some n \<Rightarrow> lookup_node n (Split slash rel))"

definition GetArtifact :: "run_id \<Rightarrow> string \<Rightarrow> ('a store_state_scheme, string \<times> int) io" where
  "GetArtifact rid rel =
     bindE (guard (ValidRunID rid) (Errf ''invalid run id %q'' [rid])) (\<lambda>_.
     bindE (lift_result (validateArtifactRel rel)) (\<lambda>_.
     bindE (not_found_or (Load rid)) (\<lambda>_.
     bindE (runDir rid) (\<lambda>_.
     open_regular (EWrap ''%w: %s'' [rel] (ESent ErrArtifactNotFound)) (artifact_node rid rel)))))"

section \<open>Effects\<close>

lemma artifacts_quiet: "quiet w w' \<Longrightarrow> artifacts_of (w' :: 'a store_state_scheme) rid = artifacts_of w rid"
  by (auto simp: quiet_def artifacts_of_def)

lemma artifacts_put: "artifacts_of w rid \<noteq> None \<Longrightarrow> artifacts_of (put_artifacts rid n w) rid = Some n"
  by (auto simp: artifacts_of_def put_artifacts_def update_conv' split: option.splits entry.splits)

lemma edit_artifacts_cases:
  assumes "edit_artifacts rid f w = (r, w')"
  obtains (stop) e where "artifacts_of w' rid = artifacts_of w rid" and "r = Inl e"
  | (edit) n w1 where "quiet w w1" and "f (artifacts_of w rid) = Inr n" and "w' = put_artifacts rid n w1" and "r = Inr ()"
  using assms unfolding edit_artifacts_def
proof (cases rule: bindE_cases)
  case (error e)
  then show ?thesis using stop by (blast dest: os_call_quiet artifacts_quiet)
next
  case (step x w1)
  have q: "quiet w w1" using step(1) by (rule os_call_quiet)
  with step(2) stop edit show ?thesis
    by (cases "f (artifacts_of w rid)") (auto simp: bind_eval unit_eval artifacts_quiet)
qed

definition same_artifacts :: "run_id \<Rightarrow> 'a store_state_scheme \<Rightarrow> 'a store_state_scheme \<Rightarrow> bool" where
  "same_artifacts rid w w' \<longleftrightarrow> artifacts_of w' rid = artifacts_of w rid"

interpretation same_artifacts: os_guarantee "same_artifacts rid" for rid
  by unfold_locales (auto simp: same_artifacts_def artifacts_of_def)

lemma same_artifacts_add_run [always_intro]: "always (same_artifacts rid) (modify (add_run rid'))"
  by (auto simp: always_def modify_def same_artifacts_def artifacts_of_def add_run_def update_conv' empty_run_def split: option.splits)

lemma same_artifacts_mkdir [always_intro]: "always (same_artifacts rid) (mkdir_run rid')"
  unfolding mkdir_run_def in_run_def by (intro always_intro)

lemma entry_dir_Inr [simp]: "entry_dir e = Inr d \<longleftrightarrow> e = Some (Sub d)"
  by (cases e rule: option.exhaust, simp_all add: entry_dir_def split: entry.split)

lemma mkdir_run_sub: "mkdir_run rid w = (Inr u, w') \<Longrightarrow> \<exists>d. map_of (runs w') rid = Some (Sub d)"
  by (auto simp: mkdir_run_def in_run_def bindE_Inr)

lemma mkdir_artifacts_cases:
  assumes "mkdir_artifacts rid w = (r, w')"
  obtains (stop) e where "r = Inl e" and "artifacts_of w' rid = artifacts_of w rid"
  | (made) n where "r = Inr ()" and "artifacts_of w' rid = Some n" and "artifacts_of w rid = None \<and> n = Folder [] \<or> artifacts_of w rid = Some n"
  using assms unfolding mkdir_artifacts_def
proof (cases rule: bindE_cases)
  case (error e)
  then show ?thesis using stop alwaysD [OF same_artifacts_mkdir, of rid w _ w' rid] by (auto simp: same_artifacts_def)
next
  case (step u w1)
  have same: "artifacts_of w1 rid = artifacts_of w rid"
    using alwaysD [OF same_artifacts_mkdir step(1), of rid] by (simp add: same_artifacts_def)
  show ?thesis
  proof (cases "artifacts_of w1 rid")
    case None
    obtain d where "map_of (runs w1) rid = Some (Sub d)" using mkdir_run_sub [OF step(1)] by blast
    with None step(2) have "r = Inr ()" and "artifacts_of w' rid = Some (Folder [])"
      by (auto simp: bind_eval unit_eval artifacts_of_def put_run_def update_conv')
    with None same show ?thesis using made by simp
  next
    case (Some n)
    with step(2) have "w' = w1" and "r = ensure (is_folder n) not_a_directory" by (auto simp: bind_eval asks_def)
    with Some same show ?thesis using made [of n] stop by (auto simp: ensure_def split: if_splits)
  qed
qed

text \<open>
  One file: either nothing changes, or it fails with no more bytes than before, or it is stored below the
  artifact directory with its contents in the workspace.
\<close>

lemma copyRegular_cases:
  assumes "copyRegular rid segs data w = (r, w')" and "artifacts_of w rid = Some n"
  obtains (stop) e m where "r = Inl e" and "artifacts_of w' rid = Some m" and "tree_bytes m \<le> tree_bytes n"
  | (stored) m m' where "r = Inr ()" and "write_node segs [] (Some n) = Inr m" and "write_node segs data (Some m) = Inr m'"
      and "artifacts_of w' rid = Some m'"
  using assms(1) unfolding copyRegular_def
proof (cases rule: bindE_cases)
  case (error e)
  with assms(2) show ?thesis using stop by (metis artifacts_quiet order_refl os_call_quiet)
next
  case (step x w1)
  have n1: "artifacts_of w1 rid = Some n" using step(1) assms(2) by (metis artifacts_quiet os_call_quiet)
  from step(2) show ?thesis
  proof (cases rule: bindE_cases)
    case (error e)
    from error(1) show ?thesis by (cases rule: edit_artifacts_cases) (use error n1 stop in auto)
  next
    case (step y w2)
    from step(1) obtain m where wr: "write_node segs [] (Some n) = Inr m" and n2: "artifacts_of w2 rid = Some m"
      by (cases rule: edit_artifacts_cases) (auto simp: n1 artifacts_put artifacts_quiet)
    from step(2) show ?thesis
    proof (cases rule: edit_artifacts_cases)
      case (stop e)
      with n2 write_node_bytes [OF wr] show ?thesis using that(1) [of e m] by simp
    next
      case (edit m' w3)
      with wr n2 show ?thesis using stored [of m m'] by (simp add: artifacts_put artifacts_quiet)
    qed
  qed
qed

lemma collect_one_cases:
  assumes "collect_one ws rid c rel w = (r, w')" and "artifacts_of w rid = Some n"
  obtains (skip) t where "r = Inr (c\<lparr>co_truncated := t\<rparr>)" and "artifacts_of w' rid = Some n"
  | (stop) e m where "r = Inl e" and "artifacts_of w' rid = Some m" and "tree_bytes m \<le> tree_bytes n"
  | (stored) d m1 m2 m3 where "lookup_node ws (Split slash rel) = Inr (Regular d)"
      and "co_used c + int (length d) \<le> ArtifactCapBytes"
      and "r = Inr (c\<lparr>co_used := co_used c + int (length d), co_collected := co_collected c @ [rel]\<rparr>)"
      and "make_dirs (butlast (Split slash rel)) (Some n) = Inr m1" and "write_node (Split slash rel) [] (Some m1) = Inr m2"
      and "write_node (Split slash rel) d (Some m2) = Inr m3" and "artifacts_of w' rid = Some m3"
proof -
  have same: "c\<lparr>co_truncated := co_truncated c\<rparr> = c" by simp
  obtain x w1 where x: "bindE os_call (\<lambda>_. lift_result (lookup_node ws (Split slash rel))) w = (x, w1)" by force
  have "always quiet (bindE os_call (\<lambda>_. lift_result (lookup_node ws (Split slash rel))))" by (intro always_intro)
  with x have "quiet w w1" by (blast dest: alwaysD)
  with assms(2) have n1: "artifacts_of w1 rid = Some n" by (simp add: artifacts_quiet)
  have found: "lookup_node ws (Split slash rel) = Inr m" if "x = Inr m" for m
    using x that by (auto simp: bindE_Inr)
  note run = assms(1) [unfolded collect_one_def Let_def attempt_bind x prod.case]
  show thesis
  proof (cases x)
    case (Inl e)
    with run n1 show ?thesis using skip [of "co_truncated c"] same by simp
  next
    case (Inr m)
    show ?thesis
    proof (cases "is_regular m \<and> co_used c + int (length (node_data m)) \<le> ArtifactCapBytes")
      case False
      with run Inr n1 show ?thesis using skip [of "co_truncated c"] skip [of True] same by (auto simp: not_le split: if_splits)
    next
      case True
      then obtain d where d: "m = Regular d" by (auto simp: is_regular_def split: node.splits)
      with True have cap: "co_used c + int (length d) \<le> ArtifactCapBytes" by (simp add: node_data_def)
      from run Inr d True have "bindE (edit_artifacts rid (make_dirs (butlast (Split slash rel)))) (\<lambda>_.
          bindE (copyRegular rid (Split slash rel) d) (\<lambda>_.
          ret (c\<lparr>co_used := co_used c + int (length d), co_collected := co_collected c @ [rel]\<rparr>))) w1 = (r, w')"
        by (simp add: node_data_def not_less [symmetric])
      then show ?thesis
      proof (cases rule: bindE_cases)
        case (error e)
        from error(1) show ?thesis by (cases rule: edit_artifacts_cases) (use error n1 stop in auto)
      next
        case (step u w2)
        from step(1) obtain m1 where mk: "make_dirs (butlast (Split slash rel)) (Some n) = Inr m1" and n2: "artifacts_of w2 rid = Some m1"
          by (cases rule: edit_artifacts_cases) (auto simp: n1 artifacts_put artifacts_quiet)
        obtain q w3 where cp: "copyRegular rid (Split slash rel) d w2 = (q, w3)" by force
        from cp n2 show ?thesis
        proof (cases rule: copyRegular_cases)
          case (stop e m)
          with step(2) cp make_dirs_bytes [OF mk] show ?thesis using that(2) [of e m] by (simp add: bind_eval)
        next
          case (stored m m')
          with step(2) cp found [OF Inr] d cap mk show ?thesis using that(3) [of d m1 m m'] by (simp add: bind_eval unit_eval)
        qed
      qed
    qed
  qed
qed

section \<open>The cap\<close>

lemma collect_one_bytes:
  assumes "collect_one ws rid c rel w = (r, w')" and "artifacts_of w rid = Some n"
    and "int (tree_bytes n) \<le> b + co_used c" and "co_used c \<le> ArtifactCapBytes"
  shows "\<exists>m. artifacts_of w' rid = Some m \<and> (case r of
      Inl e \<Rightarrow> int (tree_bytes m) \<le> b + co_used c
    | Inr c' \<Rightarrow> int (tree_bytes m) \<le> b + co_used c' \<and> co_used c' \<le> ArtifactCapBytes)"
  using assms(1,2)
proof (cases rule: collect_one_cases)
  case (stored d m1 m2 m3)
  have "tree_bytes m3 \<le> tree_bytes n + length d"
    using make_dirs_bytes [OF stored(4)] write_node_bytes [OF stored(5)] write_node_bytes [OF stored(6)] by simp
  with stored assms(3) show ?thesis by simp
qed (use assms(3,4) in auto)

lemma collect_files_bytes:
  assumes "collect_files ws rid c rels w = (Inr (c', err), w')" and "artifacts_of w rid = Some n"
    and "int (tree_bytes n) \<le> b + co_used c" and "co_used c \<le> ArtifactCapBytes"
  shows "\<exists>m. artifacts_of w' rid = Some m \<and> int (tree_bytes m) \<le> b + co_used c' \<and> co_used c' \<le> ArtifactCapBytes"
  using assms
proof (induction ws rid c rels arbitrary: w n rule: collect_files.induct)
  case (2 ws rid c rel rels)
  obtain x w1 where one: "collect_one ws rid c rel w = (x, w1)" by force
  from collect_one_bytes [OF one 2(3-5)] 2(2,5) one show ?case
    by (cases x) (auto simp: attempt_bind dest: 2(1))
qed auto

lemma collect_globs_bytes:
  assumes "collect_globs ws rid c globs w = (Inr (c', err), w')" and "artifacts_of w rid = Some n"
    and "int (tree_bytes n) \<le> b + co_used c" and "co_used c \<le> ArtifactCapBytes"
  shows "\<exists>m. artifacts_of w' rid = Some m \<and> int (tree_bytes m) \<le> b + co_used c' \<and> co_used c' \<le> ArtifactCapBytes"
  using assms
proof (induction ws rid c globs arbitrary: w n rule: collect_globs.induct)
  case (2 ws rid c glob globs)
  obtain x w1 where gl: "matchWorkspaceGlob ws glob w = (x, w1)" by force
  have "always quiet (matchWorkspaceGlob ws glob)" unfolding matchWorkspaceGlob_def walk_tree_def by (intro always_intro)
  with gl have n1: "artifacts_of w1 rid = Some n" using 2(3) by (metis alwaysD artifacts_quiet)
  show ?case
  proof (cases x)
    case (Inl e)
    with 2(2,4,5) gl n1 show ?thesis by (auto simp: attempt_bind)
  next
    case (Inr ms)
    with 2(2) gl obtain c1 err1 w2 where f: "collect_files ws rid c ms w1 = (Inr (c1, err1), w2)"
      and rest: "(case err1 of Some e \<Rightarrow> ret (c1, Some e) | None \<Rightarrow> collect_globs ws rid c1 globs) w2 = (Inr (c', err), w')"
      by (auto simp: attempt_bind bindE_Inr)
    from collect_files_bytes [OF f n1 2(4,5)] rest show ?thesis
      by (cases err1) (auto dest: 2(1))
  qed
qed auto

lemma collect_total: "\<exists>c' err w'. collect_files ws rid c rels w = (Inr (c', err), w')"
  "\<exists>c' err w'. collect_globs ws rid c globs w = (Inr (c', err), w')"
proof -
  show f: "\<exists>c' err w'. collect_files ws rid c rels w = (Inr (c', err), w')" for ws rid c rels and w :: "'a store_state_scheme"
    by (induction ws rid c rels arbitrary: w rule: collect_files.induct)
      (auto simp: attempt_bind unit_eval split: sum.splits prod.splits)
  show "\<exists>c' err w'. collect_globs ws rid c globs w = (Inr (c', err), w')"
  proof (induction ws rid c globs arbitrary: w rule: collect_globs.induct)
    case (2 ws rid c glob globs)
    obtain x w1 where gl: "matchWorkspaceGlob ws glob w = (x, w1)" by force
    show ?case
    proof (cases x)
      case (Inl e)
      with gl show ?thesis by (simp add: attempt_bind unit_eval)
    next
      case (Inr ms)
      obtain c1 err1 w2 where "collect_files ws rid c ms w1 = (Inr (c1, err1), w2)" using f by blast
      with gl Inr 2(1) [of c1 w2] show ?thesis
        by (cases err1) (auto simp: attempt_eval bind_eval unit_eval)
    qed
  qed (simp add: unit_eval)
qed

text \<open>The bytes of the artifacts of a run.\<close>

definition artifact_bytes :: "'a store_state_scheme \<Rightarrow> run_id \<Rightarrow> int" where
  "artifact_bytes w rid = int (opt_bytes (artifacts_of w rid))"

text \<open>
  C30: Collecting artifacts never adds more than \<open>ArtifactCapBytes\<close> to the artifacts of a run, on
  success and on every error path, whatever the workspace and the globs.
\<close>

theorem artifacts_within_cap:
  assumes "CollectArtifacts ws rid globs w = (r, w')"
  shows "artifact_bytes w' rid \<le> artifact_bytes w rid + ArtifactCapBytes"
proof (cases "globs = []")
  case True
  with assms show ?thesis by (auto simp: CollectArtifacts_def ArtifactCapBytes_def)
next
  case False
  obtain x w1 where mk: "mkdir_artifacts rid w = (x, w1)" by force
  then show ?thesis
  proof (cases rule: mkdir_artifacts_cases)
    case (stop e)
    with assms False mk show ?thesis
      by (auto simp: CollectArtifacts_def attempt_bind wrap_eval artifact_bytes_def ArtifactCapBytes_def)
  next
    case (made n)
    let ?c = "\<lparr>co_collected = [], co_truncated = False, co_used = 0\<rparr>"
    obtain c' err w2 where g: "collect_globs ws rid ?c globs w1 = (Inr (c', err), w2)" using collect_total(2) by blast
    with assms False mk made(1) have "w' = w2"
      by (auto simp: CollectArtifacts_def io_eval)
    moreover have "tree_bytes n = opt_bytes (artifacts_of w rid)" using made(3) by auto
    ultimately show ?thesis
      using collect_globs_bytes [OF g made(2), of "int (tree_bytes n)"] by (auto simp: artifact_bytes_def ArtifactCapBytes_def)
  qed
qed

section \<open>What is collected\<close>

definition matched :: "string list \<Rightarrow> string \<Rightarrow> bool" where
  "matched globSegments rel \<longleftrightarrow> \<not> isExcludedArtifact rel \<and> matchGlobSegments globSegments rel = Inr True"

lemma walk_fold:
  assumes "foldE (\<lambda>acc (p, n). if is_folder n then bindE os_call (\<lambda>_. ret acc) else lift_result (match_visit gs acc p n)) acc vs w = (Inr ms, w')"
  shows "ms = acc @ map (rel_path \<circ> fst) (filter (\<lambda>(p, n). \<not> is_folder n \<and> matched gs (rel_path p)) vs)"
  using assms
proof (induction vs arbitrary: acc w)
  case (Cons v vs)
  obtain p n where v: "v = (p, n)" by force
  let ?acc = "acc @ (if \<not> is_folder n \<and> matched gs (rel_path p) then [rel_path p] else [])"
  from Cons.prems obtain w1 where "foldE (\<lambda>acc (p, n). if is_folder n then bindE os_call (\<lambda>_. ret acc)
      else lift_result (match_visit gs acc p n)) ?acc vs w1 = (Inr ms, w')"
    by (auto simp: v bindE_Inr match_visit_def matched_def Let_def split: if_splits sum.splits)
  from Cons.IH [OF this] show ?case by (simp add: v)
qed simp

lemma matchWorkspaceGlob_Inr:
  "matchWorkspaceGlob ws glob w = (Inr ms, w') \<Longrightarrow>
    ms = map (rel_path \<circ> fst) (filter (\<lambda>(p, n). \<not> is_folder n \<and> matched (Split slash glob) (rel_path p)) (visits [] ws))"
  by (auto simp: matchWorkspaceGlob_def walk_tree_def bindE_Inr dest!: walk_fold)

lemma match_sound: "matchWorkspaceGlob ws glob w = (Inr ms, w') \<Longrightarrow> rel \<in> set ms \<Longrightarrow> matched (Split slash glob) rel"
  by (auto dest!: matchWorkspaceGlob_Inr)

lemma match_complete:
  assumes "matchWorkspaceGlob ws glob w = (Inr ms, w')" and "wf_node ws" and "lookup_node ws p = Inr (Regular d)"
    and "matched (Split slash glob) (rel_path p)"
  shows "rel_path p \<in> set ms"
proof -
  have "(p, Regular d) \<in> set (visits [] ws)" using assms(2,3) by (simp add: visits_lookup)
  with assms(1,4) show ?thesis by (force dest!: matchWorkspaceGlob_Inr simp: is_folder_def)
qed

text \<open>A collected path is a regular file of the workspace, stored under the same path with the same contents.\<close>

definition stored_copy :: "node \<Rightarrow> node \<Rightarrow> string \<Rightarrow> bool" where
  "stored_copy ws art rel \<longleftrightarrow> (\<exists>d. lookup_node ws (Split slash rel) = Inr (Regular d) \<and> lookup_node art (Split slash rel) = Inr (Regular d))"

lemma collect_one_stored:
  assumes "collect_one ws rid c rel w = (Inr c', w')" and "artifacts_of w rid = Some n"
    and "\<forall>x \<in> set (co_collected c). stored_copy ws n x"
  shows "\<exists>m. artifacts_of w' rid = Some m \<and> (\<forall>x \<in> set (co_collected c'). stored_copy ws m x)
    \<and> set (co_collected c') \<subseteq> insert rel (set (co_collected c))"
  using assms(1,2)
proof (cases rule: collect_one_cases)
  case (stored d m1 m2 m3)
  have "stored_copy ws m3 rel" using stored(1) write_node_lookup [OF stored(6)] by (simp add: stored_copy_def)
  moreover have "stored_copy ws m3 x" if "stored_copy ws n x" for x
  proof (cases "Split slash x = Split slash rel")
    case True
    with that stored(1) write_node_lookup [OF stored(6)] show ?thesis by (simp add: stored_copy_def)
  next
    case False
    with that show ?thesis
      using make_dirs_lookup [OF stored(4)] write_node_other [OF stored(5)] write_node_other [OF stored(6)]
      by (force simp: stored_copy_def)
  qed
  ultimately show ?thesis using assms(3) stored(3,7) by auto
qed (use assms(3) in auto)

lemma collect_files_stored:
  assumes "collect_files ws rid c rels w = (Inr (c', None), w')" and "artifacts_of w rid = Some n"
    and "\<forall>x \<in> set (co_collected c). stored_copy ws n x"
  shows "\<exists>m. artifacts_of w' rid = Some m \<and> (\<forall>x \<in> set (co_collected c'). stored_copy ws m x)
    \<and> set (co_collected c') \<subseteq> set rels \<union> set (co_collected c)"
  using assms
proof (induction ws rid c rels arbitrary: w n rule: collect_files.induct)
  case (2 ws rid c rel rels)
  obtain x w1 where one: "collect_one ws rid c rel w = (x, w1)" by force
  with 2(2) obtain c1 where x: "x = Inr c1" and rest: "collect_files ws rid c1 rels w1 = (Inr (c', None), w')"
    by (cases x) (auto simp: attempt_bind)
  from collect_one_stored [OF one [unfolded x] 2(3,4)] obtain m where m: "artifacts_of w1 rid = Some m"
      "\<forall>x \<in> set (co_collected c1). stored_copy ws m x" "set (co_collected c1) \<subseteq> insert rel (set (co_collected c))"
    by blast
  from 2(1) [OF rest m(1,2)] m(3) show ?case by auto
qed auto

lemma collect_globs_stored:
  assumes "collect_globs ws rid c globs w = (Inr (c', None), w')" and "artifacts_of w rid = Some n"
    and "\<forall>x \<in> set (co_collected c). stored_copy ws n x"
  shows "\<exists>m. artifacts_of w' rid = Some m \<and> (\<forall>x \<in> set (co_collected c'). stored_copy ws m x)
    \<and> (\<forall>x \<in> set (co_collected c'). x \<in> set (co_collected c) \<or> (\<exists>g \<in> set globs. matched (Split slash g) x))"
  using assms
proof (induction ws rid c globs arbitrary: w n rule: collect_globs.induct)
  case (2 ws rid c glob globs)
  obtain x w1 where gl: "matchWorkspaceGlob ws glob w = (x, w1)" by force
  have "always quiet (matchWorkspaceGlob ws glob)" unfolding matchWorkspaceGlob_def walk_tree_def by (intro always_intro)
  with gl have n1: "artifacts_of w1 rid = Some n" using 2(3) by (metis alwaysD artifacts_quiet)
  from 2(2) gl obtain ms c1 w2 where x: "x = Inr ms" and f: "collect_files ws rid c ms w1 = (Inr (c1, None), w2)"
    and rest: "collect_globs ws rid c1 globs w2 = (Inr (c', None), w')"
    by (cases x) (auto simp: attempt_bind bindE_Inr split: option.splits)
  from collect_files_stored [OF f n1 2(4)] obtain m where m: "artifacts_of w2 rid = Some m"
      "\<forall>x \<in> set (co_collected c1). stored_copy ws m x" "set (co_collected c1) \<subseteq> set ms \<union> set (co_collected c)" by blast
  from 2(1) [OF rest m(1,2)] m(3) match_sound [OF gl [unfolded x]] show ?case by fastforce
qed auto

text \<open>Without faults nothing is left out but what the cap cut off, which is reported.\<close>

lemma spent_edit [always_intro]: "always spent (edit_artifacts rid f)"
  unfolding edit_artifacts_def
  by (intro always_intro) (simp add: put_artifacts_def split: option.split entry.split)

lemma spent_collect_one: "always spent (collect_one ws rid c rel)"
  unfolding collect_one_def copyRegular_def by (intro always_intro)

lemma spent_collect_files: "always spent (collect_files ws rid c rels)"
  by (induction ws rid c rels rule: collect_files.induct) (auto intro!: always_intro spent_collect_one)

lemma collect_one_complete:
  assumes "collect_one ws rid c rel w = (Inr c', w')" and "faults w = []" and "\<not> co_truncated c'"
  shows "\<not> co_truncated c \<and> set (co_collected c) \<subseteq> set (co_collected c')
    \<and> ((\<exists>d. lookup_node ws (Split slash rel) = Inr (Regular d)) \<longrightarrow> rel \<in> set (co_collected c'))"
  using assms
  by (cases "lookup_node ws (Split slash rel)")
    (auto simp: collect_one_def Let_def attempt_bind bind_eval [of os_call] unit_eval is_regular_def bindE_Inr
      split: if_splits node.splits)

lemma collect_files_complete:
  assumes "collect_files ws rid c rels w = (Inr (c', None), w')" and "faults w = []" and "\<not> co_truncated c'"
  shows "\<not> co_truncated c \<and> faults w' = [] \<and> set (co_collected c) \<subseteq> set (co_collected c')
    \<and> (\<forall>rel \<in> set rels. (\<exists>d. lookup_node ws (Split slash rel) = Inr (Regular d)) \<longrightarrow> rel \<in> set (co_collected c'))"
  using assms
proof (induction ws rid c rels arbitrary: w rule: collect_files.induct)
  case (2 ws rid c rel rels)
  obtain x w1 where one: "collect_one ws rid c rel w = (x, w1)" by force
  with 2(2) obtain c1 where x: "x = Inr c1" and rest: "collect_files ws rid c1 rels w1 = (Inr (c', None), w')"
    by (cases x) (auto simp: attempt_bind)
  have f1: "faults w1 = []" using spent_collect_one one 2(3) by (rule spentD)
  from 2(1) [OF rest f1 2(4)] collect_one_complete [OF one [unfolded x] 2(3)] show ?case by auto
qed auto

lemma collect_globs_complete:
  assumes "collect_globs ws rid c globs w = (Inr (c', None), w')" and "faults w = []" and "\<not> co_truncated c'" and "wf_node ws"
  shows "\<not> co_truncated c \<and> set (co_collected c) \<subseteq> set (co_collected c')
    \<and> (\<forall>g p d. g \<in> set globs \<longrightarrow> p \<noteq> [] \<longrightarrow> lookup_node ws p = Inr (Regular d) \<longrightarrow> matched (Split slash g) (rel_path p)
         \<longrightarrow> rel_path p \<in> set (co_collected c'))"
  using assms
proof (induction ws rid c globs arbitrary: w rule: collect_globs.induct)
  case (2 ws rid c glob globs)
  obtain x w1 where gl: "matchWorkspaceGlob ws glob w = (x, w1)" by force
  have "always spent (matchWorkspaceGlob ws glob)" unfolding matchWorkspaceGlob_def walk_tree_def by (intro always_intro)
  then have f1: "faults w1 = []" using gl 2(3) by (rule spentD)
  from 2(2) gl obtain ms c1 w2 where x: "x = Inr ms" and f: "collect_files ws rid c ms w1 = (Inr (c1, None), w2)"
    and rest: "collect_globs ws rid c1 globs w2 = (Inr (c', None), w')"
    by (cases x) (auto simp: attempt_bind bindE_Inr split: option.splits)
  have split: "Split slash (rel_path p) = p" if "p \<noteq> []" "lookup_node ws p = Inr (Regular d)" for p d
    using that lookup_plain [OF 2(5) that(2)] by (simp add: rel_path_def Split_Join)
  have "faults w2 = []"
    by (rule spentD [OF spent_collect_files f f1])
  from 2(1) [OF rest this 2(4,5)] collect_files_complete [OF f f1] match_complete [OF gl [unfolded x] 2(5)] split
  show ?case by (auto 4 4)
qed auto

lemma spent_add_run: "faults (add_run rid w) = faults w" "faults (put_run rid upd w) = faults w"
  by (simp_all add: add_run_def put_run_def split: option.split entry.split)

lemma spent_mkdir_artifacts: "always spent (mkdir_artifacts rid)"
  unfolding mkdir_artifacts_def mkdir_run_def in_run_def by (intro always_intro) (simp_all add: spent_add_run)

lemma CollectArtifacts_run:
  assumes "CollectArtifacts ws rid globs w = (Inr (collected, truncated, err), w')" and "globs \<noteq> []"
    and "mkdir_artifacts rid w = (Inr (), w1)"
  obtains c where "collect_globs ws rid \<lparr>co_collected = [], co_truncated = False, co_used = 0\<rparr> globs w1 = (Inr (c, err), w')"
    and "collected = co_collected c" and "truncated = co_truncated c"
  using assms by (auto simp: CollectArtifacts_def attempt_bind wrap_eval bindE_Inr)

lemma CollectArtifacts_exact_aux:
  assumes "CollectArtifacts ws rid globs w = (Inr (collected, truncated, None), w')" and "globs \<noteq> []" and "wf_node ws"
  shows "\<exists>art. artifacts_of w' rid = Some art
    \<and> (\<forall>rel \<in> set collected. stored_copy ws art rel \<and> (\<exists>g \<in> set globs. matched (Split slash g) rel))
    \<and> (faults w = [] \<longrightarrow> \<not> truncated \<longrightarrow> (\<forall>g p d. g \<in> set globs \<longrightarrow> p \<noteq> [] \<longrightarrow> lookup_node ws p = Inr (Regular d)
         \<longrightarrow> matched (Split slash g) (rel_path p) \<longrightarrow> rel_path p \<in> set collected))"
proof -
  obtain x w1 where mk: "mkdir_artifacts rid w = (x, w1)" by force
  then show ?thesis
  proof (cases rule: mkdir_artifacts_cases)
    case (stop e)
    with assms(1,2) mk show ?thesis by (simp add: CollectArtifacts_def attempt_bind wrap_eval)
  next
    case (made n)
    have mk': "mkdir_artifacts rid w = (Inr (), w1)" using mk made(1) by simp
    from CollectArtifacts_run [OF assms(1,2) mk'] obtain c
      where g: "collect_globs ws rid \<lparr>co_collected = [], co_truncated = False, co_used = 0\<rparr> globs w1 = (Inr (c, None), w')"
        and c: "collected = co_collected c" "truncated = co_truncated c" by blast
    have "faults w1 = []" if "faults w = []"
      by (rule spentD [OF spent_mkdir_artifacts mk' that])
    with collect_globs_stored [OF g made(2)] collect_globs_complete [OF g _ _ assms(3)] c show ?thesis by auto
  qed
qed

text \<open>
  C25: When collection succeeds, every collected path is a regular file of the workspace that matches a
  glob and has no \<open>.git\<close> or \<open>.vci\<close> segment, and its copy has the same contents; without faults
  every such file is collected unless truncation is reported.
\<close>

theorem CollectArtifacts_exact:
  assumes "CollectArtifacts ws rid globs w = (Inr (collected, truncated, None), w')" and "globs \<noteq> []" and "wf_node ws"
  shows "\<exists>art. artifacts_of w' rid = Some art
    \<and> (\<forall>rel \<in> set collected. stored_copy ws art rel \<and> (\<exists>g \<in> set globs. matched (Split slash g) rel))
    \<and> (faults w = [] \<longrightarrow> \<not> truncated \<longrightarrow> (\<forall>g p d. g \<in> set globs \<longrightarrow> p \<noteq> [] \<longrightarrow> lookup_node ws p = Inr (Regular d)
         \<longrightarrow> matched (Split slash g) (rel_path p) \<longrightarrow> rel_path p \<in> set collected))"
  using assms by (rule CollectArtifacts_exact_aux)

section \<open>Confinement\<close>

lemma path_segs_slash_Join:
  assumes "\<And>s. s \<in> set xs \<Longrightarrow> plain_seg s"
  shows "path_segs (slash # Join xs ''/'') = xs"
proof -
  have "norm True ([] # Split slash (Join xs ''/'')) = xs"
  proof (cases "xs = []")
    case True
    then show ?thesis by (simp add: norm_def)
  next
    case False
    then have "Split slash (Join xs ''/'') = xs" using assms by (intro Split_Join) (auto simp: plain_seg_def)
    with norm_append_plain [of xs True "[[]]"] assms show ?thesis by (simp add: norm_def)
  qed
  then show ?thesis by (simp add: path_segs_def IsAbs_def HasPrefix_def)
qed

text \<open>
  C26: An artifact path that passes validation stays below the artifact directory: joined to an
  absolute directory it appends exactly its segments, none of which is empty, a dot or a parent.
\<close>

theorem artifact_path_confined:
  assumes "validateArtifactRel rel = Inr ()" and "IsAbs root"
  shows "path_segs (FJoin (root # Split slash rel)) = path_segs root @ Split slash rel
    \<and> list_all plain_seg (Split slash rel) \<and> ''.git'' \<notin> set (Split slash rel)"
proof -
  from assms(1) have plain: "\<And>s. s \<in> set (Split slash rel) \<Longrightarrow> plain_seg s"
    by (auto simp: validateArtifactRel_def plain_seg_def dest: Split_no_sep)
  from assms(1) have git: "''.git'' \<notin> set (Split slash rel)"
    by (auto simp: validateArtifactRel_def isExcludedArtifact_def list_ex_iff)
  have abs: "IsAbs (FJoin (root # Split slash rel))" using assms(2) plain by (rule FJoin_IsAbs)
  have all: "plain_seg s" if "s \<in> set (path_segs root @ Split slash rel)" for s
    using that plain path_segs_rooted_plain [OF assms(2)] by auto
  have "FJoin (root # Split slash rel) = slash # Join (path_segs root @ Split slash rel) ''/''"
    using assms(2) plain by (rule FJoin_below)
  with path_segs_slash_Join [of "path_segs root @ Split slash rel", OF all] have "path_segs (FJoin (root # Split slash rel)) = path_segs root @ Split slash rel" by simp
  with plain git show ?thesis by (simp add: list_all_iff)
qed

text \<open>
  C29: Round trip: an artifact that was collected and whose path passes validation is delivered by
  \<open>GetArtifact\<close> with the contents and size it had in the workspace.
\<close>

theorem collected_artifact_delivered:
  assumes "CollectArtifacts ws rid globs w = (Inr (collected, truncated, None), w')" and "globs \<noteq> []" and "wf_node ws"
    and "rel \<in> set collected" and "validateArtifactRel rel = Inr ()"
    and "faults w' = []" and "record_of w' rid = Some r"
  shows "\<exists>d. lookup_node ws (Split slash rel) = Inr (Regular d) \<and> GetArtifact rid rel w' = (Inr (d, int (length d)), w')"
proof -
  from CollectArtifacts_exact_aux [OF assms(1-3)] assms(4) obtain art d where art: "artifacts_of w' rid = Some art"
    and d: "lookup_node ws (Split slash rel) = Inr (Regular d)" "lookup_node art (Split slash rel) = Inr (Regular d)"
    by (fastforce simp: stored_copy_def)
  have ids: "ValidRunID rid" "ValidName rid"
    using assms(7) by (auto simp: record_of_iff validateRecord_def ValidRunID_ValidName)
  have "not_found_or (Load rid) w' = (Inr r, w')"
    using Load_ok [OF assms(6,7)] by (simp add: not_found_or_def io_eval)
  with ids assms(5,6) art d show ?thesis
    by (simp add: GetArtifact_def open_regular_def runDir_def artifact_node_def io_eval is_regular_def node_data_def)
qed

section \<open>A concrete collection\<close>

definition example_tree :: node where
  "example_tree = Folder [(''out'', Folder [(''a.txt'', Regular ''hello''), (''b.bin'', Regular ''xyz'')]), (''.git'', Folder [(''c.txt'', Regular ''no'')])]"

definition example_running :: store_state where
  "example_running = \<lparr>faults = [], clock = 10, entropy = [], windows = False, config_file = None,
     runs = [(''run_b'', Sub ((empty_run 1)\<lparr>run_json := Some (Json (example_record ''run_b'' RunRunning ''run_p''))\<rparr>))]\<rparr>"

abbreviation collected_run :: store_state where
  "collected_run \<equiv> example_running\<lparr>runs := [(''run_b'', Sub ((empty_run 1)\<lparr>run_json := Some (Json (example_record ''run_b'' RunRunning ''run_p'')),
     artifacts_dir := Some (Folder [(''out'', Folder [(''a.txt'', Regular ''hello'')])]), run_mtime := 10\<rparr>))]\<rparr>"

lemma example_visits: "visits [] example_tree =
  [([], example_tree), ([''.git''], Folder [(''c.txt'', Regular ''no'')]), ([''.git'', ''c.txt''], Regular ''no''),
   ([''out''], Folder [(''a.txt'', Regular ''hello''), (''b.bin'', Regular ''xyz'')]), ([''out'', ''a.txt''], Regular ''hello''),
   ([''out'', ''b.bin''], Regular ''xyz'')]"
  by (simp add: example_tree_def less_eq_char_def less_char_def)

lemma example_matches: "faults w = [] \<Longrightarrow> matchWorkspaceGlob example_tree ''out/*.txt'' w = (Inr [''out/a.txt''], w)"
  by (simp add: matchWorkspaceGlob_def walk_tree_def example_visits io_eval is_folder_def match_visit_def rel_path_def
      isExcludedArtifact_def matchGlobSegments_def Let_def glob_eval example_tree_def [symmetric])

lemma example_collect:
  "CollectArtifacts example_tree ''run_b'' [''out/*.txt''] example_running = (Inr ([''out/a.txt''], False, None), collected_run)"
proof -
  let ?w = "example_running\<lparr>runs := [(''run_b'', Sub ((empty_run 1)\<lparr>run_json := Some (Json (example_record ''run_b'' RunRunning ''run_p'')),
     artifacts_dir := Some (Folder []), run_mtime := 10\<rparr>))]\<rparr>"
  have "mkdir_artifacts ''run_b'' example_running = (Inr (), ?w)"
    by (simp add: mkdir_artifacts_def mkdir_run_def in_run_def io_eval example_running_def add_run_def entry_dir_def artifacts_of_def
        put_run_def empty_run_def)
  moreover have "collect_one example_tree ''run_b'' \<lparr>co_collected = [], co_truncated = False, co_used = 0\<rparr> ''out/a.txt'' ?w
      = (Inr \<lparr>co_collected = [''out/a.txt''], co_truncated = False, co_used = 5\<rparr>, collected_run)"
    by (simp add: collect_one_def Let_def io_eval example_tree_def is_regular_def node_data_def ArtifactCapBytes_def edit_artifacts_def
        copyRegular_def artifacts_of_def put_artifacts_def example_running_def)
  moreover have "faults ?w = []" by (simp add: example_running_def)
  ultimately show ?thesis by (simp add: CollectArtifacts_def io_eval example_matches)
qed

lemma example_tree_wf: "wf_node example_tree"
  by (simp add: example_tree_def)

theorem artifacts_within_cap_witness: "artifact_bytes collected_run ''run_b'' \<le> 64 * 2 ^ 20"
  using artifacts_within_cap [OF example_collect]
  by (simp add: artifact_bytes_def artifacts_of_def example_running_def empty_run_def ArtifactCapBytes_def)

theorem CollectArtifacts_exact_witness: "\<exists>art. artifacts_of collected_run ''run_b'' = Some art \<and> stored_copy example_tree art ''out/a.txt''"
  using CollectArtifacts_exact [OF example_collect _ example_tree_wf] by auto

lemma example_rel: "validateArtifactRel ''out/a.txt'' = Inr ()"
  by (simp add: validateArtifactRel_def HasPrefix_def IsAbs_def ContainsAny_def ValidName_def alnum_def safe_char_def
      isExcludedArtifact_def backslash_def)

theorem artifact_path_confined_witness: "path_segs (FJoin (''/vci/run'' # Split slash ''out/a.txt'')) = [''vci'', ''run'', ''out'', ''a.txt'']"
proof -
  have "IsAbs ''/vci/run''" by (simp add: IsAbs_def HasPrefix_def)
  from artifact_path_confined [OF example_rel this] show ?thesis
    by (simp add: path_segs_def norm_def IsAbs_def HasPrefix_def)
qed

theorem collected_artifact_delivered_witness: "GetArtifact ''run_b'' ''out/a.txt'' collected_run = (Inr (''hello'', 5), collected_run)"
proof -
  have "record_of collected_run ''run_b'' = Some (example_record ''run_b'' RunRunning ''run_p'')" and "faults collected_run = []"
    by (simp_all add: record_of_iff run_file_def example_running_def validateRecord_def example_record_def example_ids)
  with collected_artifact_delivered [OF example_collect _ example_tree_wf _ example_rel] show ?thesis
    by (auto simp: example_tree_def)
qed

end
