(* ===== verification/Vci_Lifecycle.thy ===== *)
theory Vci_Lifecycle
  imports Vci_Setup Vci_Artifacts
begin

text \<open>
  \<open>internal/app/lifecycle.go\<close>, \<open>internal/app/fanout.go\<close> and \<open>launch_unix.go\<close>: cancelling runs, starting
  the queued ones, admitting builds, and the summary of a build.

  The state adds the log of the workers that were started. A background loop of the worker
  (\<open>watchCancellation\<close>, \<open>renewLease\<close>) runs on the list of the events it receives: its stop channel, the
  end of its context, or a tick of its clock; its result says whether it cancelled the worker.
\<close>

section \<open>Cancelling\<close>

record app_state = sched_state +
  launched :: "run_id list"

definition ignore :: "('s, 'b) io \<Rightarrow> ('s, unit) io" where
  "ignore m = bindE (attempt m) (\<lambda>_. ret ())"

definition abortSingle :: "layout \<Rightarrow> run_record \<Rightarrow> ('a sched_state_scheme, run_record) io" where
  "abortSingle l r =
     (if State r = RunQueued then
        bindE Now (\<lambda>now.
        bindE (StoreTransition (ID r) RunAborted now) (\<lambda>aborted.
        bindE (ignore (Release l (Machine aborted) (ID r))) (\<lambda>_.
        ret aborted)))
      else if State r = RunStaging \<or> State r = RunRunning \<or> State r = RunCommitting then
        bindE Now (\<lambda>now. RequestCancellation (ID r) now)
      else if State r = RunLost then
        bindE (ignore (Release l (Machine r) (ID r))) (\<lambda>_. ret r)
      else throw (Errf ''run %s cannot be aborted from state %s'' [ID r, state_text (State r)]))"

definition abortChild :: "layout \<Rightarrow> run_record \<Rightarrow> ('a sched_state_scheme, unit) io" where
  "abortChild l child =
     (if IsTerminal (State child) then ret ()
      else bindE (attempt (abortSingle l child)) (\<lambda>x. case x of
          Inl _ \<Rightarrow> ret ()
        | Inr _ \<Rightarrow> ignore (Release l (Machine child) (ID child))))"

text \<open>The record a request is about: the parent of a target run when it can be read.\<close>

definition parent_or_self :: "run_record \<Rightarrow> ('a store_state_scheme, run_record) io" where
  "parent_or_self r =
     (if ParentRunID r \<noteq> [] then bindE (attempt (Load (ParentRunID r))) (\<lambda>x. case x of Inl _ \<Rightarrow> ret r | Inr p \<Rightarrow> ret p)
      else ret r)"

definition Abort :: "layout \<Rightarrow> run_id \<Rightarrow> ('a sched_state_scheme, run_record) io" where
  "Abort l rid =
     bindE (Load rid) (\<lambda>r0.
     bindE (parent_or_self r0) (\<lambda>r.
     if Children r \<noteq> [] then
       bindE (attempt (LoadChildren (ID r))) (\<lambda>x.
       bindE (forE (case x of Inl _ \<Rightarrow> [] | Inr cs \<Rightarrow> cs) (abortChild l)) (\<lambda>_.
       bindE Now (\<lambda>now. StoreTransition (ID r) RunAborted now)))
     else abortSingle l r))"

definition Abandon :: "layout \<Rightarrow> run_id \<Rightarrow> ('a sched_state_scheme, unit) io" where
  "Abandon l rid =
     bindE (Load rid) (\<lambda>r.
     bindE Now (\<lambda>now.
     bindE (if State r = RunQueued \<or> State r = RunStaging
       then bindE (StoreTransition rid RunAborted now) (\<lambda>_. ret ()) else ret ()) (\<lambda>_.
     ignore (Release l (Machine r) rid))))"

section \<open>The worker's background loops\<close>

datatype watch_event = WatchStop | WatchDone | WatchTick int

fun watchCancellation :: "run_id \<Rightarrow> watch_event list \<Rightarrow> ('a store_state_scheme, bool) io" where
  "watchCancellation rid [] = ret False"
| "watchCancellation rid (WatchStop # es) = ret False"
| "watchCancellation rid (WatchDone # es) = ret False"
| "watchCancellation rid (WatchTick t # es) =
     bindE (attempt (Load rid)) (\<lambda>x. case x of
         Inl _ \<Rightarrow> watchCancellation rid es
       | Inr r \<Rightarrow>
           if CancellationRequestedAt r = None then watchCancellation rid es
           else bindE (attempt (ReadExecution rid)) (\<lambda>y. bindE (case y of
                 Inl _ \<Rightarrow> ret ()
               | Inr e \<Rightarrow> ignore (WriteExecution rid (e\<lparr>x_CancellationPhase := CancellationTerminating\<rparr>))) (\<lambda>_.
               ret True)))"

fun renewLease :: "run_id \<Rightarrow> string \<Rightarrow> int \<Rightarrow> watch_event list \<Rightarrow> ('a store_state_scheme, bool) io" where
  "renewLease rid owner ttl [] = ret False"
| "renewLease rid owner ttl (WatchStop # es) = ret False"
| "renewLease rid owner ttl (WatchDone # es) = ret False"
| "renewLease rid owner ttl (WatchTick t # es) =
     bindE (attempt (RenewLease rid owner t ttl)) (\<lambda>x. case x of
         Inl _ \<Rightarrow> ret True
       | Inr _ \<Rightarrow> renewLease rid owner ttl es)"

definition cancellationRequested :: "run_id \<Rightarrow> ('a store_state_scheme, bool) io" where
  "cancellationRequested rid = bindE (attempt (Load rid)) (\<lambda>x.
     ret (case x of Inl _ \<Rightarrow> False | Inr r \<Rightarrow> CancellationRequestedAt r \<noteq> None))"

definition cancelledByWorker :: "bool \<Rightarrow> run_record result \<Rightarrow> bool" where
  "cancelledByWorker ctx_ended latest \<longleftrightarrow> ctx_ended \<or> (case latest of Inl _ \<Rightarrow> False | Inr r \<Rightarrow> CancellationRequestedAt r \<noteq> None)"

section \<open>Starting queued runs\<close>

definition Launch :: "run_id \<Rightarrow> ('a app_state_scheme, unit) io" where
  "Launch rid =
     bindE (wrapE ''resolve Vci executable: %w'' [] os_call) (\<lambda>_.
     bindE os_call (\<lambda>_.
     bindE (wrapE ''start detached run: %w'' [] os_call) (\<lambda>_.
     bindE (modify (launched_update (\<lambda>rids. rids @ [rid]))) (\<lambda>_.
     os_call))))"

definition dispatchChild :: "layout \<Rightarrow> config \<Rightarrow> int \<Rightarrow> run_record \<Rightarrow> ('a app_state_scheme, unit) io" where
  "dispatchChild l cfg now child =
     bindE (attempt (Reserve l Load cfg (Machine child) (ID child) now)) (\<lambda>x. case x of
         Inl _ \<Rightarrow> ret ()
       | Inr _ \<Rightarrow> bindE (attempt (Launch (ID child))) (\<lambda>y. case y of
             Inl _ \<Rightarrow> ignore (Release l (Machine child) (ID child))
           | Inr _ \<Rightarrow> ret ()))"

definition DispatchPending :: "toml \<Rightarrow> layout \<Rightarrow> ('a app_state_scheme, unit) io" where
  "DispatchPending t l =
     bindE (attempt (LoadConfig t)) (\<lambda>x. case x of
         Inl _ \<Rightarrow> ret ()
       | Inr cfg \<Rightarrow> bindE Now (\<lambda>now. bindE (attempt LoadQueuedChildren) (\<lambda>y. case y of
             Inl _ \<Rightarrow> ret ()
           | Inr queued \<Rightarrow> forE queued (dispatchChild l cfg now))))"

definition admitAndStage :: "('a sched_state_scheme, run_record) io \<Rightarrow> ('a sched_state_scheme, run_record) io" where
  "admitAndStage stage =
     bindE (bindE (wrapE ''create lock directory: %w'' [] os_call) (\<lambda>_.
       bindE (wrapE ''open lock: %w'' [] os_call) (\<lambda>_. wrapE ''lock: %w'' [] os_call))) (\<lambda>_.
     bindE HasLiveBuild (\<lambda>live. case live of
         Some parent \<Rightarrow> throw (EBusy parent)
       | None \<Rightarrow> stage))"

section \<open>Summaries\<close>

record target_view =
  tv_Machine :: string
  tv_State :: run_state
  tv_ExitCode :: int
  tv_Failure :: string
  tv_ErrorContext :: string
  tv_Warnings :: "string list"

record build_summary =
  bs_RunID :: run_id
  bs_Project :: string
  bs_State :: run_state
  bs_Targets :: "target_view list"
  bs_Succeeded :: nat
  bs_Failed :: nat
  bs_Lost :: nat
  bs_Unavailable :: nat
  bs_Aborted :: nat
  bs_NoMachineResponded :: bool
  bs_Warnings :: "string list"

definition last_n :: "nat \<Rightarrow> 'b list \<Rightarrow> 'b list" where
  "last_n n xs = drop (length xs - n) xs"

definition TrimRight :: "string \<Rightarrow> char \<Rightarrow> string" where
  "TrimRight s c = rev (dropWhile (\<lambda>x. x = c) (rev s))"

definition newline :: char where "newline = CHR 0x0A"

definition tail_text :: "string \<Rightarrow> string" where
  "tail_text data = Join (last_n 20 (Split newline (TrimRight (last_n 4096 data) newline))) [newline]"

definition tailLogStream :: "run_id \<Rightarrow> string \<Rightarrow> ('a store_state_scheme, string) io" where
  "tailLogStream rid stream = bindE (attempt (ReadLog rid stream)) (\<lambda>x. case x of
       Inl _ \<Rightarrow> ret []
     | Inr (data, n) \<Rightarrow> bindE (attempt os_call) (\<lambda>y. ret (case y of
           Inl _ \<Rightarrow> []
         | Inr _ \<Rightarrow> if data = [] then [] else tail_text data)))"

definition tailErrorContext :: "run_id \<Rightarrow> ('a store_state_scheme, string) io" where
  "tailErrorContext rid =
     bindE (tailLogStream rid ''stdout'') (\<lambda>out.
     bindE (tailLogStream rid ''stderr'') (\<lambda>err.
     ret (if out = [] then err else if err = [] then out
       else ''[stdout]'' @ [newline] @ out @ [newline, newline] @ ''[stderr]'' @ [newline] @ err)))"

definition target_of :: "run_record \<Rightarrow> ('a store_state_scheme, target_view) io" where
  "target_of child =
     (let tv = \<lparr>tv_Machine = Machine child, tv_State = State child, tv_ExitCode = 0, tv_Failure = [], tv_ErrorContext = [], tv_Warnings = []\<rparr> in
      if \<not> IsTerminal (State child) then ret tv
      else bindE (attempt (ReadResult (ID child))) (\<lambda>x.
        let tv1 = (case x of
            Inr (Json r) \<Rightarrow> tv\<lparr>tv_ExitCode := br_ExitCode r, tv_Failure := br_Failure r, tv_Warnings := br_Warnings r\<rparr>
          | _ \<Rightarrow> tv) in
        if State child = RunFailed \<or> State child = RunLost
        then bindE (tailErrorContext (ID child)) (\<lambda>ctx. ret (tv1\<lparr>tv_ErrorContext := ctx\<rparr>))
        else ret tv1))"

definition count_state :: "run_state \<Rightarrow> build_summary \<Rightarrow> build_summary" where
  "count_state s b = (case s of
       RunSucceeded \<Rightarrow> b\<lparr>bs_Succeeded := bs_Succeeded b + 1\<rparr>
     | RunFailed \<Rightarrow> b\<lparr>bs_Failed := bs_Failed b + 1\<rparr>
     | RunLost \<Rightarrow> b\<lparr>bs_Lost := bs_Lost b + 1\<rparr>
     | RunUnavailable \<Rightarrow> b\<lparr>bs_Unavailable := bs_Unavailable b + 1\<rparr>
     | RunAborted \<Rightarrow> b\<lparr>bs_Aborted := bs_Aborted b + 1\<rparr>
     | _ \<Rightarrow> b)"

definition parentSummary :: "run_record \<Rightarrow> ('a store_state_scheme, build_summary) io" where
  "parentSummary parent =
     bindE (LoadChildren (ID parent)) (\<lambda>children.
     bindE (foldE (\<lambda>b child. bindE (target_of child) (\<lambda>tv.
         ret ((count_state (State child) b)\<lparr>bs_Targets := bs_Targets b @ [tv]\<rparr>)))
       \<lparr>bs_RunID = ID parent, bs_Project = Project parent, bs_State = RunAggregating, bs_Targets = [], bs_Succeeded = 0,
         bs_Failed = 0, bs_Lost = 0, bs_Unavailable = 0, bs_Aborted = 0, bs_NoMachineResponded = False, bs_Warnings = []\<rparr>
       children) (\<lambda>b.
     let (state, noMachine) = AggregateState children (State parent = RunAborted) in
     ret (b\<lparr>bs_State := state, bs_NoMachineResponded := noMachine, bs_Warnings :=
       (if noMachine then [''every attached machine was unavailable'']
        else if 0 < bs_Unavailable b \<and> state = RunSucceeded
        then [nat_text (bs_Unavailable b) @ '' of '' @ nat_text (length children) @ '' machines unavailable'']
        else [])\<rparr>)))"

datatype summary_view = SumBuild build_summary | SumResult build_result | SumRecord run_record

definition legacySummary :: "run_record \<Rightarrow> ('a store_state_scheme, summary_view) io" where
  "legacySummary r =
     (if IsTerminal (State r) then bindE (attempt (ReadResult (ID r))) (\<lambda>x. ret (case x of
          Inr (Json v) \<Rightarrow> SumResult v
        | _ \<Rightarrow> SumRecord r))
      else ret (SumRecord r))"

definition BuildSummaryView :: "run_id \<Rightarrow> ('a store_state_scheme, summary_view) io" where
  "BuildSummaryView rid =
     bindE (Load rid) (\<lambda>r.
     bindE (if ParentRunID r \<noteq> [] then attempt (Load (ParentRunID r)) else ret (Inl ENotExist)) (\<lambda>x. case x of
         Inr parent \<Rightarrow> bindE (parentSummary parent) (\<lambda>b. ret (SumBuild b))
       | Inl _ \<Rightarrow> if Children r \<noteq> [] then bindE (parentSummary r) (\<lambda>b. ret (SumBuild b)) else legacySummary r))"

definition ResolveTarget :: "run_id \<Rightarrow> string \<Rightarrow> ('a store_state_scheme, run_id) io" where
  "ResolveTarget rid machine =
     bindE (attempt (Load rid)) (\<lambda>x. case x of
         Inl e \<Rightarrow> if IsNotExist e then throw (ESent ErrRunNotFound) else throw e
       | Inr r0 \<Rightarrow>
           bindE (parent_or_self r0) (\<lambda>r.
           if Children r = [] then ret rid
           else
             bindE (LoadChildren (ID r)) (\<lambda>children.
             if machine = [] then throw (EWrap ''%w: run %s targets %d machines (%s): select one with --machine''
               [ID r, nat_text (length children), Join (map Machine children) '', ''] (ESent ErrTargetSelect))
             else case find (\<lambda>c. Machine c = machine) children of
                 Some c \<Rightarrow> ret (ID c)
               | None \<Rightarrow> throw (EWrap ''%w: machine %q is not a target of run %s'' [machine, ID r] (ESent ErrTargetSelect)))))"

end
