(* ===== verification/Vci_Text.thy ===== *)
theory Vci_Text
  imports Vci_IO
begin

text \<open>
  The text functions of Go's library that the transport and the worker commands use: trimming white
  space, replacing bytes, case folding, decimal numbers with their range check, and the RFC 3339
  form of a time. A time is a number of nanoseconds since 1970 in UTC.
\<close>

section \<open>Trimming, replacing, folding\<close>

text \<open>A string as the list of its runes, each with the bytes that encode it.\<close>

fun rune_chunks :: "string \<Rightarrow> (nat \<times> string) list" where
  "rune_chunks [] = []"
| "rune_chunks (c # cs) =
     (if (of_char c :: nat) < 128 then (of_char c, [c]) # rune_chunks cs
      else case utf8_tail (of_char c) (map of_char cs) of
          Some (r, n) \<Rightarrow> (r, c # take n cs) # rune_chunks (drop n cs)
        | None \<Rightarrow> (65533, [c]) # rune_chunks cs)"

definition TrimSpace :: "string \<Rightarrow> string" where
  "TrimSpace s = concat (map snd (rev (dropWhile (IsSpace \<circ> fst) (rev (dropWhile (IsSpace \<circ> fst) (rune_chunks s))))))"

definition ReplaceAll :: "char \<Rightarrow> string \<Rightarrow> string \<Rightarrow> string" where
  "ReplaceAll old new s = concat (map (\<lambda>c. if c = old then new else [c]) s)"

fun ReplaceFirst :: "char \<Rightarrow> string \<Rightarrow> string \<Rightarrow> string" where
  "ReplaceFirst old new [] = []"
| "ReplaceFirst old new (c # cs) = (if c = old then new @ cs else c # ReplaceFirst old new cs)"

text \<open>Case folding of a rune, as far as a comparison with ASCII text can tell.\<close>

definition fold_rune :: "nat \<Rightarrow> nat" where
  "fold_rune r = (if 65 \<le> r \<and> r \<le> 90 then r + 32 else if r = 383 then 115 else if r = 8490 then 107 else r)"

lemma fold_rune_code [code]: "fold_rune r = (if r < 128 then (if 65 \<le> r \<and> r \<le> 90 then r + 32 else r)
     else if r = 383 then 115 else if r = 8490 then 107 else r)"
  by (auto simp: fold_rune_def)

definition EqualFold :: "string \<Rightarrow> string \<Rightarrow> bool" where
  "EqualFold s t \<longleftrightarrow> map fold_rune (runes s) = map fold_rune (runes t)"

lemma ReplaceAll_append: "ReplaceAll old new (s @ t) = ReplaceAll old new s @ ReplaceAll old new t"
  by (simp add: ReplaceAll_def)

lemma ReplaceAll_absent: "old \<notin> set s \<Longrightarrow> ReplaceAll old new s = s"
  by (induction s) (auto simp: ReplaceAll_def)

section \<open>Numbers\<close>

text \<open>\<open>strconv.Atoi\<close> and \<open>ParseInt(s, 10, 64)\<close>: an optional sign, digits, and the range of \<open>int64\<close>.\<close>

definition parse_digits :: "string \<Rightarrow> nat option" where
  "parse_digits s = (if s \<noteq> [] \<and> list_all is_digit s then Some (digits_value s) else None)"

definition signed_digits :: "string \<Rightarrow> int option" where
  "signed_digits s = (case s of
       [] \<Rightarrow> None
     | c # cs \<Rightarrow> if c = CHR ''-'' then map_option (\<lambda>n. - int n) (parse_digits cs)
         else if c = CHR ''+'' then map_option int (parse_digits cs)
         else map_option int (parse_digits s))"

definition Atoi :: "string \<Rightarrow> int result" where
  "Atoi s = (case signed_digits s of
       None \<Rightarrow> Inl (Errf ''strconv.Atoi: parsing %q: invalid syntax'' [s])
     | Some i \<Rightarrow> if - (2 ^ 63) \<le> i \<and> i < 2 ^ 63 then Inr i
         else Inl (Errf ''strconv.Atoi: parsing %q: value out of range'' [s]))"

lemma is_digit_sign: "\<not> is_digit (CHR ''-'')" "\<not> is_digit (CHR ''+'')"
  by (simp_all add: is_digit_def)

lemma nat_text_hd: "\<exists>c cs. nat_text n = c # cs \<and> is_digit c"
  using nat_text_value [of n] by (cases "nat_text n") auto

lemma signed_digits_itoa: "signed_digits (itoa i) = Some i"
proof (cases "i < 0")
  case True
  then show ?thesis
    using nat_text_value [of "nat (- i)"] by (simp add: itoa_def signed_digits_def parse_digits_def)
next
  case False
  obtain c cs where hd: "nat_text (nat i) = c # cs" and c: "is_digit c" using nat_text_hd by blast
  from c have "c \<noteq> CHR ''-''" "c \<noteq> CHR ''+''" using is_digit_sign by auto
  then show ?thesis
    using False hd nat_text_value [of "nat i"] by (simp add: itoa_def signed_digits_def parse_digits_def)
qed

lemma Atoi_itoa: "- (2 ^ 63) \<le> i \<Longrightarrow> i < 2 ^ 63 \<Longrightarrow> Atoi (itoa i) = Inr i"
  by (simp add: Atoi_def signed_digits_itoa)

section \<open>Times\<close>

definition leap_year :: "int \<Rightarrow> bool" where
  "leap_year y \<longleftrightarrow> y mod 4 = 0 \<and> (y mod 100 \<noteq> 0 \<or> y mod 400 = 0)"

text \<open>The days before the first of January of a year, counted from 1970.\<close>

definition year_start :: "int \<Rightarrow> int" where
  "year_start y = 365 * (y - 1) + (y - 1) div 4 - (y - 1) div 100 + (y - 1) div 400 - 719162"

definition month_start :: "int \<Rightarrow> int \<Rightarrow> int" where
  "month_start y m = year_start y + [0, 31, 59, 90, 120, 151, 181, 212, 243, 273, 304, 334] ! nat (m - 1)
     + (if 2 < m \<and> leap_year y then 1 else 0)"

text \<open>The year, month and day of a day number: the average length of a year gives the year up to one.\<close>

definition year_of :: "int \<Rightarrow> int" where
  "year_of d = (let y = (d + 719162) * 400 div 146097 + 1 in
     if d < year_start y then y - 1 else if year_start (y + 1) \<le> d then y + 1 else y)"

definition month_of :: "int \<Rightarrow> int \<Rightarrow> int" where
  "month_of y d = (case filter (\<lambda>m. month_start y m \<le> d) [12, 11, 10, 9, 8, 7, 6, 5, 4, 3, 2, 1] of
     [] \<Rightarrow> 1 | m # _ \<Rightarrow> m)"

definition pad :: "nat \<Rightarrow> int \<Rightarrow> string" where
  "pad n i = (let s = itoa i in replicate (n - length s) (CHR ''0'') @ s)"

text \<open>\<open>t.UTC().Format(time.RFC3339)\<close>, for years of four digits.\<close>

definition rfc3339 :: "int \<Rightarrow> string" where
  "rfc3339 t =
     (let secs = t div second; d = secs div 86400; s = secs mod 86400;
          y = year_of d; m = month_of y d in
      pad 4 y @ ''-'' @ pad 2 m @ ''-'' @ pad 2 (d - month_start y m + 1) @ ''T''
      @ pad 2 (s div 3600) @ '':'' @ pad 2 (s div 60 mod 60) @ '':'' @ pad 2 (s mod 60) @ ''Z'')"

end
