(* ===== verification/Vci_Shell.thy ===== *)
theory Vci_Shell
  imports Vci_Model Vci_Text
begin

text \<open>
  What a POSIX shell does with a command line of the kind the transport composes. \<open>sh_lex\<close> splits the
  text into words and \<open>&&\<close> and keeps how each character was quoted; \<open>sh_script\<close> runs the commands
  in order, with the tilde and the variables expanded by the values they have at that moment. Both
  give up with \<open>None\<close> on what they do not cover. This is documented behaviour of the shell; the
  transport's properties are stated over it.
\<close>

definition squote :: char where "squote = CHR 0x27"
definition dquote :: char where "dquote = CHR 0x22"
definition newline_char :: char where "newline_char = CHR 0x0A"
definition backslash :: char where "backslash = CHR 0x5C"

section \<open>Words\<close>

text \<open>
  A word is a list of items: a character that was not quoted, one that was, or the value of a
  variable. The reader covers the part of the shell's grammar the composed command uses (blanks,
  \<open>&&\<close>, quotes, a backslash, \<open>$NAME\<close>, and a variable in double quotes) and gives up with \<open>None\<close>
  on every other metacharacter, so that a result \<open>Some\<close> says that there is none outside quotes.
\<close>

datatype sh_item = Lit char | Quoted char | Var string | QVar string
datatype sh_token = Word "sh_item list" | AndIf

definition name_char :: "char \<Rightarrow> bool" where
  "name_char c \<longleftrightarrow> alnum c \<or> c = CHR ''_''"

definition plain_char :: "char \<Rightarrow> bool" where
  "plain_char c \<longleftrightarrow> alnum c \<or> c \<in> set ''_./:@~-=''"

definition add_items :: "sh_item list option \<Rightarrow> sh_item list \<Rightarrow> sh_item list option" where
  "add_items cur xs = Some ((case cur of None \<Rightarrow> [] | Some ys \<Rightarrow> ys) @ xs)"

definition flush :: "sh_item list option \<Rightarrow> sh_token list" where
  "flush cur = (case cur of None \<Rightarrow> [] | Some xs \<Rightarrow> [Word xs])"

lemma dropWhile_Cons_shorter: "dropWhile P xs = y # ys \<Longrightarrow> length ys < length xs"
  using length_dropWhile_le [of P xs] by simp

function sh_lex :: "sh_item list option \<Rightarrow> string \<Rightarrow> sh_token list option" where
  "sh_lex cur [] = Some (flush cur)"
| "sh_lex cur (c # cs) =
     (if c = CHR '' '' then map_option (\<lambda>ts. flush cur @ ts) (sh_lex None cs)
      else if c = squote then
        (case dropWhile (\<lambda>x. x \<noteq> squote) cs of
           [] \<Rightarrow> None
         | _ # rest \<Rightarrow> sh_lex (add_items cur (map Quoted (takeWhile (\<lambda>x. x \<noteq> squote) cs))) rest)
      else if c = backslash then
        (case cs of [] \<Rightarrow> None | d # rest \<Rightarrow> if d = newline_char then None else sh_lex (add_items cur [Quoted d]) rest)
      else if c = CHR ''$'' then
        (if takeWhile name_char cs = [] then None
         else sh_lex (add_items cur [Var (takeWhile name_char cs)]) (dropWhile name_char cs))
      else if c = dquote then
        (case cs of [] \<Rightarrow> None | d # rest \<Rightarrow>
           if d = CHR ''$'' \<and> takeWhile name_char rest \<noteq> [] then
             (case dropWhile name_char rest of
                e # rest' \<Rightarrow> if e = dquote then sh_lex (add_items cur [QVar (takeWhile name_char rest)]) rest' else None
              | [] \<Rightarrow> None)
           else None)
      else if c = CHR ''&'' then
        (case cs of d # rest \<Rightarrow> if d = CHR ''&'' then map_option (\<lambda>ts. flush cur @ AndIf # ts) (sh_lex None rest) else None
         | [] \<Rightarrow> None)
      else if plain_char c then sh_lex (add_items cur [Lit c]) cs
      else None)"
  by pat_completeness auto

termination
  by (relation "measure (\<lambda>(cur, s). length s)")
    (auto simp: less_Suc_eq_le length_dropWhile_le dest: dropWhile_Cons_shorter)

declare sh_lex.simps(2) [simp del]

subsection \<open>Reading back what was quoted\<close>

lemma lex_space [simp]: "sh_lex cur (CHR '' '' # s) = map_option (\<lambda>ts. flush cur @ ts) (sh_lex None s)"
  by (simp add: sh_lex.simps)

lemma add_items_add [simp]: "add_items (add_items cur xs) ys = add_items cur (xs @ ys)"
  by (simp add: add_items_def)

lemma flush_add_items [simp]: "flush (add_items None xs) = [Word xs]"
  by (simp add: flush_def add_items_def)

lemmas quote_chars = squote_def dquote_def backslash_def newline_char_def

lemma plain_char_not_meta:
  "plain_char c \<Longrightarrow> c \<noteq> CHR '' '' \<and> c \<noteq> squote \<and> c \<noteq> backslash \<and> c \<noteq> CHR ''$'' \<and> c \<noteq> dquote \<and> c \<noteq> CHR ''&''"
  by (auto simp: plain_char_def alnum_def quote_chars)

lemma lex_plain: "list_all plain_char s \<Longrightarrow> sh_lex (Some ys) (s @ rest) = sh_lex (Some (ys @ map Lit s)) rest"
proof (induction s arbitrary: ys)
  case Nil
  then show ?case by simp
next
  case (Cons c cs)
  then show ?case
    using plain_char_not_meta [of c] by (simp add: sh_lex.simps(2) [of _ c] add_items_def)
qed

lemma lex_plain_start:
  assumes "list_all plain_char s" and "s \<noteq> []"
  shows "sh_lex cur (s @ rest) = sh_lex (add_items cur (map Lit s)) rest"
proof -
  from assms obtain c cs where s: "s = c # cs" by (cases s) auto
  with assms(1) show ?thesis
    using plain_char_not_meta [of c]
    by (simp add: sh_lex.simps(2) [of _ c] add_items_def lex_plain split: option.splits)
qed

lemma quote_run:
  "squote \<notin> set s \<Longrightarrow> sh_lex cur (squote # s @ squote # rest) = sh_lex (add_items cur (map Quoted s)) rest"
proof -
  assume "squote \<notin> set s"
  then have "dropWhile (\<lambda>x. x \<noteq> squote) (s @ squote # rest) = squote # rest"
    and "takeWhile (\<lambda>x. x \<noteq> squote) (s @ squote # rest) = s"
    by (induction s) auto
  then show ?thesis by (subst sh_lex.simps(2)) (simp add: squote_def)
qed

section \<open>Commands\<close>

record sh_state =
  cwd :: string
  vars :: "(string \<times> string) list"
  made :: "string list"
  executed :: "string list option"

definition var :: "(string \<times> string) list \<Rightarrow> string \<Rightarrow> string" where
  "var vs x = (case map_of vs x of None \<Rightarrow> [] | Some v \<Rightarrow> v)"

fun item_text :: "(string \<times> string) list \<Rightarrow> sh_item \<Rightarrow> string" where
  "item_text vs (Lit c) = [c]"
| "item_text vs (Quoted c) = [c]"
| "item_text vs (Var x) = var vs x"
| "item_text vs (QVar x) = var vs x"

definition word_text :: "(string \<times> string) list \<Rightarrow> sh_item list \<Rightarrow> string" where
  "word_text vs xs = concat (map (item_text vs) xs)"

fun is_split :: "sh_item \<Rightarrow> bool" where
  "is_split (Var x) = True"
| "is_split _ = False"

text \<open>An unquoted tilde at the start stands for the current value of \<open>HOME\<close>.\<close>

definition tilde :: "string \<Rightarrow> sh_item list \<Rightarrow> sh_item list option" where
  "tilde home xs = (case xs of
       Lit c # rest \<Rightarrow>
         if c \<noteq> CHR ''~'' then Some xs
         else if rest = [] \<or> hd rest = Lit (CHR ''/'') then Some (map Quoted home @ rest)
         else None
     | _ \<Rightarrow> Some xs)"

text \<open>An ordinary word. An unquoted variable would be split into fields, which is not covered.\<close>

definition expand :: "(string \<times> string) list \<Rightarrow> sh_item list \<Rightarrow> string option" where
  "expand vs xs = (if list_ex is_split xs then None else map_option (word_text vs) (tilde (var vs ''HOME'') xs))"

definition sh_name :: "string \<Rightarrow> bool" where
  "sh_name x \<longleftrightarrow> list_all name_char x \<and> x \<noteq> [] \<and> \<not> is_digit (hd x)"

text \<open>An assignment \<open>NAME=word\<close>, as a command or as an argument of \<open>export\<close>. A quoted name makes the
  argument an ordinary word whose text is split at its first equality sign.\<close>

definition assignment :: "(string \<times> string) list \<Rightarrow> sh_item list \<Rightarrow> (string \<times> string) option" where
  "assignment vs xs =
     (let name = takeWhile (\<lambda>x. x \<noteq> Lit (CHR ''='')) xs; rest = dropWhile (\<lambda>x. x \<noteq> Lit (CHR ''='')) xs in
      if rest = [] \<or> \<not> sh_name (word_text [] name) then None
      else if name = map Lit (word_text [] name)
      then map_option (\<lambda>v. (word_text [] name, word_text vs v)) (tilde (var vs ''HOME'') (tl rest))
      else map_option (\<lambda>t. (takeWhile (\<lambda>c. c \<noteq> CHR ''='') t, tl (dropWhile (\<lambda>c. c \<noteq> CHR ''='') t))) (expand vs xs))"

fun set_all :: "(string \<times> string) list \<Rightarrow> (string \<times> string) option list \<Rightarrow> (string \<times> string) list option" where
  "set_all vs [] = Some vs"
| "set_all vs (None # as) = None"
| "set_all vs (Some (x, v) # as) = set_all ((x, v) # vs) as"

fun collect :: "'a option list \<Rightarrow> 'a list option" where
  "collect [] = Some []"
| "collect (None # xs) = None"
| "collect (Some x # xs) = map_option (\<lambda>ys. x # ys) (collect xs)"

text \<open>One simple command; its words are expanded before it takes effect.\<close>

definition sh_command :: "sh_state \<Rightarrow> sh_item list list \<Rightarrow> sh_state option" where
  "sh_command st ws = (case ws of
       [] \<Rightarrow> None
     | w # args \<Rightarrow>
         if args = [] \<and> Lit (CHR ''='') \<in> set w then
           map_option (\<lambda>(x, v). st\<lparr>vars := (x, v) # vars st\<rparr>) (assignment (vars st) w)
         else if w = map Lit ''export'' then
           map_option (\<lambda>vs. st\<lparr>vars := vs\<rparr>) (set_all (vars st) (map (assignment (vars st)) args))
         else case collect (map (expand (vars st)) args) of
             None \<Rightarrow> None
           | Some vals \<Rightarrow>
               if w = map Lit ''cd'' \<and> length vals = 1 then Some (st\<lparr>cwd := hd vals\<rparr>)
               else if w = map Lit ''mkdir'' \<and> vals \<noteq> [] \<and> hd vals = ''-p'' then Some (st\<lparr>made := made st @ tl vals\<rparr>)
               else if w = map Lit ''exec'' then Some (st\<lparr>executed := Some vals\<rparr>)
               else None)"

text \<open>Commands joined by \<open>&&\<close>, each of which has to succeed; nothing runs after \<open>exec\<close>.\<close>

fun sh_tokens :: "sh_state \<Rightarrow> sh_item list list \<Rightarrow> sh_token list \<Rightarrow> sh_state option" where
  "sh_tokens st ws [] = sh_command st ws"
| "sh_tokens st ws (Word w # ts) = sh_tokens st (ws @ [w]) ts"
| "sh_tokens st ws (AndIf # ts) = (case sh_command st ws of
       None \<Rightarrow> None
     | Some st' \<Rightarrow> if executed st' \<noteq> None then Some st' else sh_tokens st' [] ts)"

definition sh_script :: "sh_state \<Rightarrow> string \<Rightarrow> sh_state option" where
  "sh_script st s = (case sh_lex None s of None \<Rightarrow> None | Some ts \<Rightarrow> sh_tokens st [] ts)"

definition login :: "string \<Rightarrow> sh_state" where
  "login home = \<lparr>cwd = home, vars = [(''HOME'', home)], made = [], executed = None\<rparr>"

lemma sh_tokens_words: "sh_tokens st ws (map Word xs @ ts) = sh_tokens st (ws @ xs) ts"
  by (induction xs arbitrary: ws) simp_all

lemma word_text_simps [simp]:
  "word_text vs (map Lit s) = s" "word_text vs (map Quoted s) = s" "word_text vs [] = []"
  "word_text vs (xs @ ys) = word_text vs xs @ word_text vs ys"
  "word_text vs (x # xs) = item_text vs x @ word_text vs xs"
  by (induction s) (simp_all add: word_text_def)

lemma collect_map_Some: "(\<And>x. x \<in> set xs \<Longrightarrow> f x = Some (g x)) \<Longrightarrow> collect (map f xs) = Some (map g xs)"
  by (induction xs) auto

end
