(* ===== verification/Vci_Host.thy ===== *)
theory Vci_Host
  imports Vci_Config Vci_Shell
begin

text \<open>
  \<open>internal/host/ssh.go\<close>: the transport to the workers. The process runner (\<open>ssh\<close>, \<open>scp\<close>, \<open>tar\<close>) is a
  parameter: from a command it gives the exit code, its error, what was printed, and whether the
  context had ended. The operations of the client say which command runs and how its outcome is read.
\<close>

section \<open>Hosts and remote paths\<close>

definition ValidateHost :: "string \<Rightarrow> unit result" where
  "ValidateHost host = (if host = [] then Inl (Errf ''remote host is empty'' []) else ValidateMachineHost host)"

definition ValidateRemotePath :: "string \<Rightarrow> unit result" where
  "ValidateRemotePath p =
     (let segments = Split slash p in checks
      [ensure (p \<noteq> []) (Errf ''remote path is empty'' []),
       ensure (\<not> HasPrefix p ''-'') (Errf ''remote path %q looks like an option flag'' [p]),
       ensure (\<not> has_control p) (Errf ''remote path %q contains control characters'' [p]),
       ensure (length segments = 5) (Errf ''remote path %q is not under ~/.vci/state/work'' [p]),
       ensure (take 4 segments = [''~'', ''.vci'', ''state'', ''work''])
         (Errf ''remote path %q is not under ~/.vci/state/work'' [p]),
       ensure (ValidName (concat (drop 4 segments)))
         (Errf ''remote path %q has invalid run segment %q'' [p, concat (drop 4 segments)])])"

definition RemoteWorkDir :: "run_id \<Rightarrow> string result" where
  "RemoteWorkDir rid = (if \<not> ValidRunID rid then Inl (Errf ''invalid run id %q'' [rid])
     else Inr (''~/.vci/state/work/'' @ rid))"

definition validateSeed :: "string \<Rightarrow> unit result" where
  "validateSeed seed = checks
     [ensure (seed \<noteq> []) (Errf ''seed path is empty'' []),
      ensure (\<not> HasPrefix seed ''-'') (Errf ''seed path %q looks like an option flag'' [seed]),
      ensure (\<not> has_control seed) (Errf ''seed path %q contains control characters'' [seed])]"

section \<open>Quoting\<close>

definition shellSafe :: "string \<Rightarrow> bool" where
  "shellSafe s \<longleftrightarrow> s \<noteq> [] \<and> list_all (\<lambda>c. alnum c \<or> c \<in> set ''_./:@~-'') s"

definition cmdSafe :: "string \<Rightarrow> bool" where
  "cmdSafe s \<longleftrightarrow> s \<noteq> [] \<and> list_all (\<lambda>c. alnum c \<or> c \<in> set ''_./:@~-'' \<or> c = backslash) s"

definition shellQuote :: "string \<Rightarrow> string" where
  "shellQuote value = [squote] @ ReplaceAll squote [squote, backslash, squote, squote] value @ [squote]"

definition shellSeed :: "string \<Rightarrow> string" where
  "shellSeed seed =
     (if HasPrefix seed ''~/'' then
        let suffix = TrimPrefix seed ''~'' in
        if shellSafe suffix then ''$HOME'' @ suffix else ''$HOME'' @ shellQuote suffix
      else if shellSafe seed then seed else shellQuote seed)"

definition remoteWord :: "string \<Rightarrow> string" where
  "remoteWord arg = (if \<not> HasPrefix arg ''~'' then arg
     else [dquote] @ ''$__vci_login_home'' @ [dquote] @ TrimPrefix arg ''~'')"

definition IsWindowsOS :: "string \<Rightarrow> bool" where
  "IsWindowsOS osKind \<longleftrightarrow> EqualFold (TrimSpace osKind) ''windows''"

definition WindowsRemotePath :: "string \<Rightarrow> string" where
  "WindowsRemotePath workDir = ReplaceFirst (CHR ''~'') ''%USERPROFILE%'' (ReplaceAll slash [backslash] workDir)"

definition cmdWord :: "string \<Rightarrow> string \<Rightarrow> string" where
  "cmdWord workDir arg =
     (if Contains arg workDir then WindowsRemotePath arg
      else if arg = [] then [dquote, dquote]
      else if cmdSafe arg then arg
      else [dquote] @ arg @ [dquote])"

section \<open>The remote command line\<close>

definition env_keys :: "string go_map \<Rightarrow> string list" where
  "env_keys env = filter (\<lambda>k. k \<noteq> []) (dir_names env)"

definition env_value :: "string go_map \<Rightarrow> string \<Rightarrow> string" where
  "env_value env k = (case map_of env k of None \<Rightarrow> [] | Some v \<Rightarrow> v)"

definition composeShellWindows :: "string \<Rightarrow> string list \<Rightarrow> string go_map \<Rightarrow> string" where
  "composeShellWindows workDir argv env =
     (let win = WindowsRemotePath workDir; q = [dquote]; bs = [backslash] in
      ''cd /D '' @ q @ win @ q @ '' && set '' @ q @ ''HOME='' @ win @ bs @ ''.home'' @ q
      @ '' && set '' @ q @ ''TMPDIR='' @ win @ bs @ ''.tmp'' @ q
      @ '' && if not exist '' @ q @ win @ bs @ ''.home'' @ q @ '' mkdir '' @ q @ win @ bs @ ''.home'' @ q
      @ '' && if not exist '' @ q @ win @ bs @ ''.tmp'' @ q @ '' mkdir '' @ q @ win @ bs @ ''.tmp'' @ q
      @ concat (map (\<lambda>k. '' && set '' @ q @ k @ ''='' @ env_value env k @ q) (env_keys env))
      @ '' && '' @ Join (map (cmdWord workDir) argv) '' '')"

definition shell_word :: "string \<Rightarrow> string \<Rightarrow> string" where
  "shell_word workDir arg = (if Contains arg workDir \<and> shellSafe arg then remoteWord arg else shellQuote arg)"

definition composeShell :: "string \<Rightarrow> string list \<Rightarrow> string go_map \<Rightarrow> string \<Rightarrow> string result" where
  "composeShell workDir argv env osKind =
     (case ValidateRemotePath workDir of
        Inl e \<Rightarrow> Inl e
      | Inr _ \<Rightarrow>
          if argv = [] then Inl (Errf ''remote argv is empty'' [])
          else if IsWindowsOS osKind then Inr (composeShellWindows workDir argv env)
          else Inr (''cd '' @ workDir @ '' && __vci_login_home=$HOME && export HOME='' @ workDir @ ''/.home TMPDIR=''
            @ workDir @ ''/.tmp && mkdir -p '' @ workDir @ ''/.home '' @ workDir @ ''/.tmp''
            @ concat (map (\<lambda>k. '' && export '' @ shellQuote k @ ''='' @ shellQuote (env_value env k)) (env_keys env))
            @ '' && exec '' @ Join (map (shell_word workDir) argv) '' ''))"

section \<open>The bundle cache's paths\<close>

definition cacheLayoutVersion :: string where "cacheLayoutVersion = ''v1''"

definition validCacheSegment :: "string \<Rightarrow> bool" where
  "validCacheSegment s \<longleftrightarrow> s \<noteq> [] \<and> s \<noteq> ''.'' \<and> s \<noteq> ''..'' \<and> \<not> ContainsAny s [backslash, slash]
     \<and> list_all (\<lambda>r. (97 \<le> r \<and> r \<le> 122) \<or> (65 \<le> r \<and> r \<le> 90) \<or> (48 \<le> r \<and> r \<le> 57) \<or> r = 46 \<or> r = 45 \<or> r = 95)
         (runes s)"

definition validateCacheSegment :: "string \<Rightarrow> string \<Rightarrow> unit result" where
  "validateCacheSegment what s = ensure (validCacheSegment s)
     (Errf (''cache %s %q must be a single path segment of letters, digits, '' @ Join (map shellQuote [''.'', ''-'', ''_'']) '', '')
       [what, s])"

definition cacheProjectDir :: "string \<Rightarrow> string \<Rightarrow> string result" where
  "cacheProjectDir cacheRoot project =
     (if cacheRoot = [] then Inl (Errf ''cache root is empty'' [])
      else case validateCacheSegment ''project'' project of
          Inl e \<Rightarrow> Inl e
        | Inr _ \<Rightarrow> Inr (cacheRoot @ ''/'' @ cacheLayoutVersion @ ''/'' @ project))"

definition cacheEntryPath :: "string \<Rightarrow> string \<Rightarrow> string \<Rightarrow> string result" where
  "cacheEntryPath cacheRoot project base =
     (case cacheProjectDir cacheRoot project of
        Inl e \<Rightarrow> Inl e
      | Inr projDir \<Rightarrow> (case validateCacheSegment ''base'' base of
            Inl e \<Rightarrow> Inl e
          | Inr _ \<Rightarrow> Inr (projDir @ ''/'' @ base)))"

section \<open>The client\<close>

record command =
  Executable :: string
  Args :: "string list"
  Stdin :: "string option"

record run_result =
  ExitCode :: int
  RunErr :: "err option"
  Output :: string
  ErrOutput :: string
  CtxErr :: "err option"

type_synonym 's runner = "command \<Rightarrow> 's \<Rightarrow> run_result \<times> 's"

definition exec :: "'s runner \<Rightarrow> string \<Rightarrow> string list \<Rightarrow> string option \<Rightarrow> ('s, run_result) io" where
  "exec runner exe args stdin = (\<lambda>w. case runner \<lparr>Executable = exe, Args = args, Stdin = stdin\<rparr> w of (r, w') \<Rightarrow> (Inr r, w'))"

text \<open>How an operation reads a remote exit: a failed transport, a failed remote command, or success.\<close>

definition remote_exit :: "string \<Rightarrow> string \<Rightarrow> run_result \<Rightarrow> unit result" where
  "remote_exit label host r =
     (case CtxErr r of
        Some e \<Rightarrow> Inl e
      | None \<Rightarrow>
          if ExitCode r \<noteq> 0 then Inl (Errf (label @ '' %s: remote exit %d'') [host, itoa (ExitCode r)])
          else case RunErr r of Some e \<Rightarrow> Inl (EWrap ''ssh %s: %w'' [host] e) | None \<Rightarrow> Inr ())"

definition need_runner :: "'s runner option \<Rightarrow> ('s, 's runner) io" where
  "need_runner c = (case c of None \<Rightarrow> throw (Errf ''ssh runner is required'' []) | Some r \<Rightarrow> ret r)"

definition RunRemote :: "'s runner option \<Rightarrow> string \<Rightarrow> string \<Rightarrow> string list \<Rightarrow> string go_map \<Rightarrow> string \<Rightarrow> ('s, int) io" where
  "RunRemote c host workDir argv env osKind =
     bindE (lift_result (ValidateHost host)) (\<lambda>_.
     bindE (lift_result (composeShell workDir argv env osKind)) (\<lambda>shell.
     bindE (need_runner c) (\<lambda>runner.
     bindE (exec runner ''ssh'' [host, shell] None) (\<lambda>r.
     case CtxErr r of
       Some e \<Rightarrow> throw e
     | None \<Rightarrow> (case RunErr r of
           None \<Rightarrow> ret (ExitCode r)
         | Some e \<Rightarrow> if ExitCode r \<noteq> 0 then ret (ExitCode r) else throw (EWrap ''ssh %s: %w'' [host] e))))))"

text \<open>A probe: a nonzero exit is an answer, and only a failed transport is an error.\<close>

definition probe_exit :: "string \<Rightarrow> run_result \<Rightarrow> bool result" where
  "probe_exit host r =
     (case CtxErr r of
        Some e \<Rightarrow> Inl e
      | None \<Rightarrow> (case RunErr r of
            Some e \<Rightarrow> if ExitCode r = 0 then Inl (EWrap ''ssh %s: %w'' [host] e) else Inr False
          | None \<Rightarrow> Inr (ExitCode r = 0)))"

definition ProbeSeedHead :: "'s runner option \<Rightarrow> string \<Rightarrow> string \<Rightarrow> ('s, string) io" where
  "ProbeSeedHead c host seed =
     bindE (lift_result (ValidateHost host)) (\<lambda>_.
     bindE (lift_result (validateSeed seed)) (\<lambda>_.
     bindE (need_runner c) (\<lambda>runner.
     bindE (exec runner ''ssh'' [host, ''git'', ''-C'', shellSeed seed, ''rev-parse'', ''HEAD''] None) (\<lambda>r.
     bindE (lift_result (probe_exit host r)) (\<lambda>ok.
     ret (if ok then TrimSpace (Output r) else []))))))"

definition StreamReconstruct :: "'s runner option \<Rightarrow> string \<Rightarrow> string \<Rightarrow> string \<Rightarrow> string option \<Rightarrow> ('s, unit) io" where
  "StreamReconstruct c host seed workDir payload =
     bindE (lift_result (ValidateHost host)) (\<lambda>_.
     bindE (guard (payload \<noteq> None) (Errf ''reconstruction payload is required'' [])) (\<lambda>_.
     bindE (need_runner c) (\<lambda>runner.
     bindE (lift_result (validateSeed seed)) (\<lambda>_.
     bindE (lift_result (ValidateRemotePath workDir)) (\<lambda>_.
     bindE (exec runner ''ssh'' [host, ''vci'', ''internal-reconstruct'', workDir, shellSeed seed] payload) (\<lambda>r.
     lift_result (remote_exit ''reconstruct'' host r)))))))"

definition ProbeBundleCache :: "'s runner option \<Rightarrow> string \<Rightarrow> string \<Rightarrow> string \<Rightarrow> string \<Rightarrow> ('s, bool) io" where
  "ProbeBundleCache c host cacheRoot project base =
     bindE (lift_result (ValidateHost host)) (\<lambda>_.
     bindE (need_runner c) (\<lambda>runner.
     bindE (lift_result (cacheEntryPath cacheRoot project base)) (\<lambda>entry.
     bindE (exec runner ''ssh'' [host, ''vci'', ''internal-probe-cache'', entry] None) (\<lambda>r.
     lift_result (probe_exit host r)))))"

text \<open>The two claim commands differ in their name and in the words of their error.\<close>

definition claim_command :: "string \<Rightarrow> string \<Rightarrow> 's runner option \<Rightarrow> string \<Rightarrow> string \<Rightarrow> string \<Rightarrow> string \<Rightarrow> string \<Rightarrow> ('s, unit) io" where
  "claim_command sub label c host cacheRoot project base claimID =
     bindE (lift_result (ValidateHost host)) (\<lambda>_.
     bindE (need_runner c) (\<lambda>runner.
     bindE (lift_result (validateCacheSegment ''claimID'' claimID)) (\<lambda>_.
     bindE (lift_result (cacheEntryPath cacheRoot project base)) (\<lambda>entry.
     bindE (exec runner ''ssh'' [host, ''vci'', sub, entry, claimID] None) (\<lambda>r.
     lift_result (remote_exit label host r))))))"

definition AcquireBundleClaim :: "'s runner option \<Rightarrow> string \<Rightarrow> string \<Rightarrow> string \<Rightarrow> string \<Rightarrow> string \<Rightarrow> ('s, unit) io" where
  "AcquireBundleClaim = claim_command ''internal-acquire-claim'' ''acquire claim''"

definition ReleaseBundleClaim :: "'s runner option \<Rightarrow> string \<Rightarrow> string \<Rightarrow> string \<Rightarrow> string \<Rightarrow> string \<Rightarrow> ('s, unit) io" where
  "ReleaseBundleClaim = claim_command ''internal-release-claim'' ''release claim''"

record reap_cache_result =
  Stale :: int
  Evicted :: int

definition bundleCachePartialTTL :: int where "bundleCachePartialTTL = 30 * minute"
definition bundleCacheClaimTTL :: int where "bundleCacheClaimTTL = 30 * minute"

text \<open>The leftmost match of \<open>stale=(\d+) evicted=(\d+)\<close>: the two runs of digits.\<close>

definition reap_line_at :: "string \<Rightarrow> (string \<times> string) option" where
  "reap_line_at s =
     (if \<not> HasPrefix s ''stale='' then None
      else
        let s1 = drop 6 s; m1 = takeWhile is_digit s1; s2 = dropWhile is_digit s1;
            m2 = takeWhile is_digit (drop 9 s2)
        in if m1 \<noteq> [] \<and> HasPrefix s2 '' evicted='' \<and> m2 \<noteq> [] then Some (m1, m2) else None)"

fun reapOutputRe :: "string \<Rightarrow> (string \<times> string) option" where
  "reapOutputRe [] = None"
| "reapOutputRe (c # cs) = (case reap_line_at (c # cs) of Some m \<Rightarrow> Some m | None \<Rightarrow> reapOutputRe cs)"

definition parseReapOutput :: "string \<Rightarrow> reap_cache_result result" where
  "parseReapOutput out =
     (case reapOutputRe out of
        None \<Rightarrow> Inl (Errf ''reap cache: no removal counts in output %q'' [TrimSpace out])
      | Some (m1, m2) \<Rightarrow> (case Atoi m1 of
            Inl e \<Rightarrow> Inl (EWrap ''reap cache: stale count %q: %w'' [m1] e)
          | Inr stale \<Rightarrow> (case Atoi m2 of
                Inl e \<Rightarrow> Inl (EWrap ''reap cache: evicted count %q: %w'' [m2] e)
              | Inr evicted \<Rightarrow> Inr \<lparr>Stale = stale, Evicted = evicted\<rparr>)))"

definition ReapBundleCache ::
  "'a os_state_scheme runner option \<Rightarrow> string \<Rightarrow> string \<Rightarrow> string \<Rightarrow> bundle_cache_policy \<Rightarrow> int
   \<Rightarrow> ('a os_state_scheme, reap_cache_result) io" where
  "ReapBundleCache c host cacheRoot project policy now0 =
     bindE (lift_result (ValidateHost host)) (\<lambda>_.
     bindE (need_runner c) (\<lambda>runner.
     bindE (lift_result (cacheProjectDir cacheRoot project)) (\<lambda>projDir.
     bindE (if now0 = 0 then Now else ret now0) (\<lambda>now.
     let refDir = projDir @ ''/.vci-reap'' in
     bindE (exec runner ''ssh''
       [host, ''vci'', ''internal-reap-cache'', projDir, refDir, refDir @ ''/partial'', refDir @ ''/claim'',
        rfc3339 (now - bundleCachePartialTTL), rfc3339 (now - bundleCacheClaimTTL),
        itoa (MaxEntries policy), itoa (MaxCacheBytes policy)] None) (\<lambda>r.
     bindE (lift_result (remote_exit ''reap cache'' host r)) (\<lambda>_.
     lift_result (parseReapOutput (Output r))))))))"

record no_seed_cache_spec =
  nc_Root :: string
  nc_Project :: string
  nc_Base :: string
  nc_UseCached :: bool
  nc_Admit :: bool
  nc_Evict :: bool
  nc_MaxEntries :: int
  nc_MaxBytes :: int
  nc_BundleBytes :: int
  nc_Now :: int

definition StreamNoSeedReconstruct ::
  "'a os_state_scheme runner option \<Rightarrow> string \<Rightarrow> string \<Rightarrow> no_seed_cache_spec \<Rightarrow> string option
   \<Rightarrow> ('a os_state_scheme, unit) io" where
  "StreamNoSeedReconstruct c host workDir cache payload =
     bindE (lift_result (ValidateHost host)) (\<lambda>_.
     bindE (guard (payload \<noteq> None) (Errf ''reconstruction payload is required'' [])) (\<lambda>_.
     bindE (need_runner c) (\<lambda>runner.
     bindE (lift_result (ValidateRemotePath workDir)) (\<lambda>_.
     bindE (if nc_Root cache \<noteq> [] then lift_result (cacheEntryPath (nc_Root cache) (nc_Project cache) (nc_Base cache))
       else ret []) (\<lambda>entry.
     bindE (guard (\<not> ((nc_UseCached cache \<or> nc_Admit cache) \<and> entry = []))
       (Errf ''no-seed cache reconstruction requires a cache entry'' [])) (\<lambda>_.
     bindE (if nc_Now cache = 0 then Now else ret (nc_Now cache)) (\<lambda>now.
     let args = [host, ''vci'', ''internal-reconstruct'', workDir, ''--no-seed'']
           @ (if nc_UseCached cache then [''--cache'', entry, ''--use-cached''] else [])
           @ (if nc_Admit cache then
                [''--cache'', entry, ''--admit'', itoa (nc_BundleBytes cache), rfc3339 now]
                @ (if nc_Evict cache then [''--evict'', itoa (nc_MaxEntries cache), itoa (nc_MaxBytes cache)] else [])
              else []) in
     bindE (exec runner ''ssh'' args payload) (\<lambda>r.
     lift_result (remote_exit ''reconstruct'' host r)))))))))"

section \<open>Copying workspaces\<close>

text \<open>
  \<open>StageRemote\<close> pipes \<open>tar\<close> into \<open>ssh\<close>; \<open>stat\<close> says whether the local workspace is a directory. The error
  of \<open>tar\<close> is reported before that of \<open>ssh\<close>.
\<close>

definition StageRemote ::
  "'a os_state_scheme runner \<Rightarrow> (string \<Rightarrow> ('a os_state_scheme, bool) io) \<Rightarrow> string \<Rightarrow> string \<Rightarrow> string
   \<Rightarrow> ('a os_state_scheme, unit) io" where
  "StageRemote runner stat host remoteWorkDir localWorkspace =
     bindE (lift_result (ValidateHost host)) (\<lambda>_.
     bindE (lift_result (ValidateRemotePath remoteWorkDir)) (\<lambda>_.
     bindE (guard (localWorkspace \<noteq> []) (Errf ''local workspace is required'' [])) (\<lambda>_.
     bindE (wrapE ''local workspace: %w'' [] (stat localWorkspace)) (\<lambda>is_dir.
     bindE (guard is_dir (Errf ''local workspace is not a directory'' [])) (\<lambda>_.
     bindE (wrapE ''tar stdout: %w'' [] os_call) (\<lambda>_.
     bindE (wrapE ''start tar: %w'' [] os_call) (\<lambda>_.
     bindE (exec runner ''tar'' [''-cf'', ''-'', ''-C'', localWorkspace, ''.''] None) (\<lambda>tar.
     bindE (exec runner ''ssh'' [host, ''vci'', ''internal-stage'', remoteWorkDir] (Some (Output tar))) (\<lambda>ssh.
     case RunErr tar of
       Some e \<Rightarrow> throw (EWrap ''archive workspace: %w'' [] e)
     | None \<Rightarrow> (case RunErr ssh of
           Some e \<Rightarrow> throw (EWrap ''ssh %s: %w'' [host] e)
         | None \<Rightarrow> ret ()))))))))))"

definition FetchRemote :: "'s runner \<Rightarrow> string \<Rightarrow> string \<Rightarrow> string \<Rightarrow> ('s, unit) io" where
  "FetchRemote runner host remoteWorkDir localDest =
     bindE (lift_result (ValidateHost host)) (\<lambda>_.
     bindE (lift_result (ValidateRemotePath remoteWorkDir)) (\<lambda>_.
     bindE (guard (localDest \<noteq> []) (Errf ''local fetch destination is required'' [])) (\<lambda>_.
     bindE (exec runner ''scp'' [''-r'', ''-q'', host @ '':'' @ remoteWorkDir, localDest] None) (\<lambda>r.
     case RunErr r of
       None \<Rightarrow> ret ()
     | Some e \<Rightarrow> throw (Errf ''scp %s: %s''
         [host, (if TrimSpace (ErrOutput r) = [] then err_text e else TrimSpace (ErrOutput r))])))))"

end
