(* ===== verification/Vci_Reaper.thy ===== *)
theory Vci_Reaper
  imports Vci_Lifecycle Vci_Host
begin

text \<open>
  \<open>internal/reaper/reaper.go\<close>, \<open>internal/reaper/capacity.go\<close> and \<open>Maintain\<close> of \<open>internal/app/lifecycle.go\<close>:
  the maintenance pass.

  The state adds what the pass deletes: the directories of \<open>state/work\<close> (with the times of their
  \<open>.tmp\<close> and \<open>.home\<close>, and their files), the source trees of the machine by the segments of their absolute
  paths (those under \<open>state/tmp\<close> and all others), and the cached blobs. Removing a tree removes its
  paths one by one and fails when one of them could not be removed. The runner of \<open>ssh\<close> is an argument.
\<close>

section \<open>State\<close>

record work_entry =
  we_dir :: bool
  we_mtime :: int
  we_tmp :: "int option"
  we_home :: "int option"
  we_files :: "node dir"

record tree_info =
  ti_dir :: bool
  ti_mtime :: int

record blob_entry =
  Path :: string
  Size :: int
  ModTime :: int

record reap_state = app_state +
  work :: "work_entry dir"
  trees :: "(string list \<times> tree_info) list"
  blobs :: "blob_entry list"

record reap_report =
  Removed :: int
  MarkedLost :: int
  QueuedAborted :: int
  TransferRemoved :: int
  PerRunTmpRemoved :: int
  WorkspacesRemoved :: int
  RemoteCleaned :: int
  SchedulerClaimsReleased :: int
  ArtifactsReaped :: int
  BundleCacheStaleRemoved :: int
  BundleCacheEvictedRemoved :: int

definition empty_report :: reap_report where
  "empty_report = \<lparr>Removed = 0, MarkedLost = 0, QueuedAborted = 0, TransferRemoved = 0, PerRunTmpRemoved = 0,
     WorkspacesRemoved = 0, RemoteCleaned = 0, SchedulerClaimsReleased = 0, ArtifactsReaped = 0,
     BundleCacheStaleRemoved = 0, BundleCacheEvictedRemoved = 0\<rparr>"

definition renewalGrace :: int where "renewalGrace = 10 * minute"
definition transferStaleAge :: int where "transferStaleAge = 30 * minute"
definition preStartGrace :: int where "preStartGrace = 60 * second"

section \<open>Runs\<close>

text \<open>The transition of one run, counted when it succeeds.\<close>

definition mark :: "run_id \<Rightarrow> run_state \<Rightarrow> int \<Rightarrow> (reap_report \<Rightarrow> reap_report) \<Rightarrow> reap_report
    \<Rightarrow> ('a store_state_scheme, reap_report) io" where
  "mark rid to now tick report = bindE (attempt (StoreTransition rid to now)) (\<lambda>x.
     ret (case x of Inl _ \<Rightarrow> report | Inr _ \<Rightarrow> tick report))"

definition mark_lost :: "run_id \<Rightarrow> int \<Rightarrow> reap_report \<Rightarrow> ('a store_state_scheme, reap_report) io" where
  "mark_lost rid now = mark rid RunLost now (MarkedLost_update (\<lambda>n. n + 1))"

definition reap_queued :: "layout \<Rightarrow> int \<Rightarrow> run_id \<Rightarrow> run_record \<Rightarrow> reap_report \<Rightarrow> ('a sched_state_scheme, reap_report) io" where
  "reap_queued l now rid r report =
     (if ParentRunID r \<noteq> [] then
        bindE (attempt (ReservationFor l (Machine r) rid)) (\<lambda>x. case x of
            Inr res \<Rightarrow> if preStartGrace \<le> now - ResCreatedAt res
              then bindE (ignore (Release l (Machine r) rid)) (\<lambda>_. ret report) else ret report
          | Inl _ \<Rightarrow> ret report)
      else if Children r = [] then
        bindE (ReadHasNoLease rid) (\<lambda>free.
          if free then mark rid RunAborted now (QueuedAborted_update (\<lambda>n. n + 1)) report else ret report)
      else ret report)"

definition reap_staging :: "layout \<Rightarrow> int \<Rightarrow> run_id \<Rightarrow> run_record \<Rightarrow> reap_report \<Rightarrow> ('a sched_state_scheme, reap_report) io" where
  "reap_staging l now rid r report =
     bindE (attempt (ReservationFor l (Machine r) rid)) (\<lambda>x. case x of
         Inl _ \<Rightarrow> mark_lost rid now report
       | Inr res \<Rightarrow> if now - ResCreatedAt res < preStartGrace then ret report else mark_lost rid now report)"

definition reap_run :: "layout \<Rightarrow> int \<Rightarrow> reap_report \<times> run_id list \<Rightarrow> run_id
    \<Rightarrow> ('a sched_state_scheme, reap_report \<times> run_id list) io" where
  "reap_run l now acc rid =
     (case acc of (report, active) \<Rightarrow>
      bindE (attempt (Load rid)) (\<lambda>x. case x of
          Inl _ \<Rightarrow> ret (report, active)
        | Inr r \<Rightarrow>
            if State r = RunQueued then bindE (reap_queued l now rid r report) (\<lambda>rep. ret (rep, active))
            else if State r \<noteq> RunStaging \<and> State r \<noteq> RunRunning \<and> State r \<noteq> RunCommitting then ret (report, active)
            else bindE (attempt (ReadLease rid)) (\<lambda>y. case y of
                Inr v \<Rightarrow>
                  if now - renewalGrace < ExpiresAt v then ret (report, rid # active)
                  else bindE (mark_lost rid now report) (\<lambda>rep. ret (rep, active))
              | Inl e \<Rightarrow>
                  if \<not> IsNotExist e then ret (report, active)
                  else if State r = RunStaging then bindE (reap_staging l now rid r report) (\<lambda>rep. ret (rep, active))
                  else bindE (mark_lost rid now report) (\<lambda>rep. ret (rep, active)))))"

section \<open>Work directories\<close>

definition del_work :: "string \<Rightarrow> 'a reap_state_scheme \<Rightarrow> 'a reap_state_scheme" where
  "del_work n w = w\<lparr>work := AList.delete n (work w)\<rparr>"

definition put_work :: "string \<Rightarrow> (work_entry \<Rightarrow> work_entry) \<Rightarrow> 'a reap_state_scheme \<Rightarrow> 'a reap_state_scheme" where
  "put_work n upd w = (case map_of (work w) n of None \<Rightarrow> w | Some e \<Rightarrow> w\<lparr>work := AList.update n (upd e) (work w)\<rparr>)"

text \<open>\<open>os.RemoveAll\<close> of a work directory: first its contents, then the directory.\<close>

definition removeTree :: "string \<Rightarrow> ('a reap_state_scheme, unit) io" where
  "removeTree n =
     bindE os_call (\<lambda>_. bindE (modify (put_work n (\<lambda>e. e\<lparr>we_tmp := None, we_home := None, we_files := []\<rparr>))) (\<lambda>_.
     bindE os_call (\<lambda>_. modify (del_work n))))"

definition reap_partial :: "int \<Rightarrow> run_id list \<Rightarrow> reap_report \<Rightarrow> string \<Rightarrow> ('a reap_state_scheme, reap_report) io" where
  "reap_partial now active report n =
     bindE (attempt os_call) (\<lambda>info. bindE (asks (\<lambda>w. map_of (work w) n)) (\<lambda>e.
     case (info, e) of
       (Inr _, Some d) \<Rightarrow>
         if now - minute < we_mtime d then ret report
         else
           let rid = TrimSuffix n ''.partial'' in
           if rid \<in> set active then ret report
           else
             bindE (attempt (Load rid)) (\<lambda>x. bindE (case x of
                 Inr r \<Rightarrow> if State r = RunStaging \<or> State r = RunRunning
                   then bindE (attempt (ReadLease rid)) (\<lambda>y. ret (case y of Inr _ \<Rightarrow> True | Inl _ \<Rightarrow> False))
                   else ret False
               | Inl _ \<Rightarrow> ret False) (\<lambda>leased.
             if leased then ret report
             else bindE (removeTree n) (\<lambda>_. ret (report\<lparr>Removed := Removed report + 1\<rparr>))))
     | _ \<Rightarrow> ret report))"

definition reap_partials :: "int \<Rightarrow> run_id list \<Rightarrow> reap_report \<Rightarrow> ('a reap_state_scheme, reap_report) io" where
  "reap_partials now active report =
     bindE os_call (\<lambda>_. bindE (asks (\<lambda>w. filter (\<lambda>n. HasSuffix n ''.partial'') (dir_names (work w))))
       (foldE (reap_partial now active) report))"

text \<open>One of \<open>.tmp\<close> and \<open>.home\<close>: \<open>get\<close> is its time of modification, if it exists.\<close>

definition reap_sub :: "int \<Rightarrow> (work_entry \<Rightarrow> int option) \<Rightarrow> (work_entry \<Rightarrow> work_entry) \<Rightarrow> string \<Rightarrow> int
    \<Rightarrow> ('a reap_state_scheme, int) io" where
  "reap_sub now get drop_it n removed =
     bindE (attempt os_call) (\<lambda>stat. bindE (asks (\<lambda>w. map_option get (map_of (work w) n))) (\<lambda>m.
     case (stat, m) of
       (Inr _, Some (Some t)) \<Rightarrow>
         if now - transferStaleAge < t then ret removed
         else bindE (attempt (bindE os_call (\<lambda>_. modify (put_work n drop_it)))) (\<lambda>x.
           ret (case x of Inr _ \<Rightarrow> removed + 1 | Inl _ \<Rightarrow> removed))
     | _ \<Rightarrow> ret removed))"

definition reap_workspace :: "int \<Rightarrow> int \<times> int \<Rightarrow> string \<Rightarrow> bool \<Rightarrow> ('a reap_state_scheme, int \<times> int) io" where
  "reap_workspace now acc n terminal =
     (case acc of (tmpRemoved, workspacesRemoved) \<Rightarrow>
      bindE (attempt (ReadLease n)) (\<lambda>y.
      let liveLease = (case y of Inr v \<Rightarrow> now - renewalGrace < ExpiresAt v | Inl _ \<Rightarrow> False) in
      bindE (if liveLease then ret tmpRemoved
        else bindE (reap_sub now we_tmp (we_tmp_update (\<lambda>_. None)) n tmpRemoved) (reap_sub now we_home (we_home_update (\<lambda>_. None)) n)) (\<lambda>tmp.
      if terminal \<and> \<not> liveLease then bindE (removeTree n) (\<lambda>_. ret (tmp, workspacesRemoved + 1))
      else ret (tmp, workspacesRemoved))))"

definition reap_work :: "int \<Rightarrow> int \<times> int \<Rightarrow> string \<Rightarrow> ('a reap_state_scheme, int \<times> int) io" where
  "reap_work now acc n =
     (if \<not> ValidRunID n then ret acc
      else bindE (attempt (Load n)) (\<lambda>x.
        reap_workspace now acc n (case x of Inr r \<Rightarrow> IsTerminal (State r) | Inl _ \<Rightarrow> False)))"

definition reapWorkDirs :: "int \<Rightarrow> ('a reap_state_scheme, int \<times> int) io" where
  "reapWorkDirs now =
     bindE os_call (\<lambda>_. bindE (asks (\<lambda>w. filter (\<lambda>n. (case map_of (work w) n of Some e \<Rightarrow> we_dir e | None \<Rightarrow> False)
         \<and> \<not> HasSuffix n ''.partial'') (dir_names (work w))))
       (foldE (reap_work now) (0, 0)))"

section \<open>Source trees\<close>

definition StagingPrefix :: string where "StagingPrefix = ''vci-source-''"
definition SnapshotPrefix :: string where "SnapshotPrefix = ''vci-snapshot-''"
definition HostedPrefix :: string where "HostedPrefix = ''vci-hosted-''"

definition below :: "string list \<Rightarrow> string list \<Rightarrow> bool" where
  "below p q \<longleftrightarrow> take (length p) q = p"

definition remove_path :: "err option \<Rightarrow> string list \<Rightarrow> ('a reap_state_scheme, err option) io" where
  "remove_path failed q =
     bindE (attempt (bindE os_call (\<lambda>_. modify (\<lambda>w. w\<lparr>trees := filter (\<lambda>t. fst t \<noteq> q) (trees w)\<rparr>)))) (\<lambda>x.
     ret (case (failed, x) of (None, Inl e) \<Rightarrow> Some e | _ \<Rightarrow> failed))"

definition RemoveAll :: "string list \<Rightarrow> ('a reap_state_scheme, unit) io" where
  "RemoveAll p =
     bindE (asks (\<lambda>w. filter (below p) (map fst (trees w)))) (\<lambda>ps.
     bindE (foldE remove_path None ps) (\<lambda>failed. case failed of None \<Rightarrow> ret () | Some e \<Rightarrow> throw e))"

definition transfer_name :: "string \<Rightarrow> bool" where
  "transfer_name n \<longleftrightarrow> HasPrefix n StagingPrefix \<or> HasPrefix n ''vci-source.'' \<or> HasPrefix n SnapshotPrefix
     \<or> HasPrefix n HostedPrefix"

text \<open>The entries of the temporary directory, with their kind and time.\<close>

definition temp_entries :: "layout \<Rightarrow> 'a reap_state_scheme \<Rightarrow> (string \<times> tree_info) list" where
  "temp_entries l w = (let base = path_segs (TempDir l) in
     map (\<lambda>(p, i). (last p, i)) (filter (\<lambda>(p, i). below base p \<and> length p = length base + 1) (trees w)))"

definition reap_transfer :: "layout \<Rightarrow> int \<Rightarrow> int \<Rightarrow> string \<Rightarrow> ('a reap_state_scheme, int) io" where
  "reap_transfer l now removed n =
     bindE (attempt os_call) (\<lambda>info. bindE (asks (\<lambda>w. map_of (temp_entries l w) n)) (\<lambda>e.
     case (info, e) of
       (Inr _, Some i) \<Rightarrow>
         if now - transferStaleAge < ti_mtime i then ret removed
         else bindE (RemoveAll (path_segs (TempDir l) @ [n])) (\<lambda>_. ret (removed + 1))
     | _ \<Rightarrow> ret removed))"

definition reapTransferDirs :: "layout \<Rightarrow> int \<Rightarrow> ('a reap_state_scheme, int) io" where
  "reapTransferDirs l now =
     bindE os_call (\<lambda>_. bindE (asks (\<lambda>w. filter (\<lambda>n. transfer_name n
         \<and> (case map_of (temp_entries l w) n of Some i \<Rightarrow> ti_dir i | None \<Rightarrow> False)) (dir_names (temp_entries l w))))
       (foldE (reap_transfer l now) 0))"

definition cleanSharedSource :: "layout \<Rightarrow> string \<Rightarrow> ('a reap_state_scheme, unit) io" where
  "cleanSharedSource l sourcePath =
     (if sourcePath = [] then ret ()
      else case Rel (TempDir l) sourcePath of
          None \<Rightarrow> ret ()
        | Some rel \<Rightarrow> if rel = ''.'' \<or> HasPrefix rel ''..'' then ret ()
            else ignore (RemoveAll (path_segs sourcePath)))"

section \<open>Builds\<close>

definition finish_parent :: "layout \<Rightarrow> int \<Rightarrow> run_record \<Rightarrow> ('a reap_state_scheme, unit) io" where
  "finish_parent l now parent =
     (if Children parent = [] \<or> IsTerminal (State parent) then ret ()
      else bindE (attempt (LoadChildren (ID parent))) (\<lambda>y. case y of
          Inl _ \<Rightarrow> ret ()
        | Inr children \<Rightarrow>
            let state = fst (AggregateState children (State parent = RunAborted)) in
            if state = RunAggregating then ret ()
            else bindE (attempt (Mutate (ID parent) (\<lambda>r. lift_result (Inr
                (if IsTerminal (State r) then r else r\<lparr>State := state, UpdatedAt := now\<rparr>))))) (\<lambda>z. case z of
                  Inl _ \<Rightarrow> ret ()
                | Inr _ \<Rightarrow> cleanSharedSource l (SourcePath parent))))"

definition aggregate_parent :: "layout \<Rightarrow> int \<Rightarrow> run_id \<Rightarrow> ('a reap_state_scheme, unit) io" where
  "aggregate_parent l now rid =
     bindE (attempt (Load rid)) (\<lambda>x. case x of Inl _ \<Rightarrow> ret () | Inr parent \<Rightarrow> finish_parent l now parent)"

definition aggregateParents :: "layout \<Rightarrow> int \<Rightarrow> ('a reap_state_scheme, unit) io" where
  "aggregateParents l now = bindE (attempt list_runs) (\<lambda>x. case x of
       Inl _ \<Rightarrow> ret ()
     | Inr ns \<Rightarrow> forE ns (aggregate_parent l now))"

section \<open>Artifacts\<close>

definition reap_artifacts :: "int \<Rightarrow> int \<Rightarrow> run_id \<Rightarrow> ('a store_state_scheme, int) io" where
  "reap_artifacts now reaped rid =
     (if \<not> ValidRunID rid then ret reaped
      else bindE (attempt (Load rid)) (\<lambda>x. case x of
          Inl _ \<Rightarrow> ret reaped
        | Inr r \<Rightarrow>
            if State r \<noteq> RunLost \<and> State r \<noteq> RunAborted then ret reaped
            else bindE (if UpdatedAt r \<noteq> 0 then ret (Some (UpdatedAt r))
              else bindE (attempt os_call) (\<lambda>info. bindE (asks (\<lambda>w. entry_dir (map_of (runs w) rid))) (\<lambda>d.
                ret (case (info, d) of (Inr _, Inr d) \<Rightarrow> Some (run_mtime d) | _ \<Rightarrow> None)))) (\<lambda>age. case age of
                None \<Rightarrow> ret reaped
              | Some t \<Rightarrow>
                  if \<not> t < now - transferStaleAge then ret reaped
                  else bindE (attempt (read_run artifacts_dir rid)) (\<lambda>stat. case stat of
                      Inl _ \<Rightarrow> ret reaped
                    | Inr _ \<Rightarrow> bindE os_call (\<lambda>_. bindE (modify (put_run rid (artifacts_dir_update (\<lambda>_. None)))) (\<lambda>_.
                        ret (reaped + 1)))))))"

definition ReapArtifacts :: "int \<Rightarrow> ('a store_state_scheme, int) io" where
  "ReapArtifacts now = bindE list_runs (foldE (reap_artifacts now) 0)"

section \<open>Remote copies\<close>

definition remoteHostFor :: "run_record \<Rightarrow> (string \<times> string) option" where
  "remoteHostFor r = (case ConfigSnapshot r of
       Garbled \<Rightarrow> None
     | Json snap \<Rightarrow>
         if sn_machine snap = [] then None
         else case map_of (sn_machines snap) (sn_machine snap) of
             None \<Rightarrow> None
           | Some m \<Rightarrow> if Host m = [] then None else Some (Host m, OS m))"

definition CleanupRemote :: "'s runner \<Rightarrow> string \<Rightarrow> string \<Rightarrow> string \<Rightarrow> ('s, unit) io" where
  "CleanupRemote ssh hostName remotePath osKind =
     bindE (lift_result (ValidateHost hostName)) (\<lambda>_.
     bindE (lift_result (ValidateRemotePath remotePath)) (\<lambda>_.
     bindE (exec ssh ''ssh'' [hostName, if IsWindowsOS osKind
         then ''rmdir /S /Q '' @ [dquote] @ WindowsRemotePath remotePath @ [dquote]
         else ''rm -rf -- '' @ remotePath] None) (\<lambda>r.
     case RunErr r of
       None \<Rightarrow> ret ()
     | Some e \<Rightarrow> throw (Errf ''cleanup remote %s: %s''
         [hostName, if TrimSpace (ErrOutput r) = [] then err_text e else TrimSpace (ErrOutput r)]))))"

definition reap_remote :: "('a store_state_scheme) runner \<Rightarrow> int \<Rightarrow> int \<Rightarrow> run_id \<Rightarrow> ('a store_state_scheme, int) io" where
  "reap_remote ssh now cleaned rid =
     (if \<not> ValidRunID rid then ret cleaned
      else bindE (attempt (Load rid)) (\<lambda>x. case x of
          Inl _ \<Rightarrow> ret cleaned
        | Inr r \<Rightarrow>
            if \<not> IsTerminal (State r) then ret cleaned
            else bindE (attempt (ReadLease rid)) (\<lambda>y.
              if (case y of Inr v \<Rightarrow> now - renewalGrace < ExpiresAt v | Inl _ \<Rightarrow> False) then ret cleaned
              else case (remoteHostFor r, RemoteWorkDir rid) of
                  (Some (hostName, osKind), Inr dir) \<Rightarrow>
                    bindE (attempt (CleanupRemote ssh hostName dir osKind)) (\<lambda>z.
                    ret (case z of Inr _ \<Rightarrow> cleaned + 1 | Inl _ \<Rightarrow> cleaned))
                | _ \<Rightarrow> ret cleaned)))"

definition reapRemoteTurds :: "('a store_state_scheme) runner \<Rightarrow> int \<Rightarrow> ('a store_state_scheme, int) io" where
  "reapRemoteTurds ssh now = bindE (attempt list_runs) (\<lambda>x. case x of
       Inl _ \<Rightarrow> ret 0
     | Inr ns \<Rightarrow> foldE (reap_remote ssh now) 0 ns)"

definition workerCacheRoot :: string where "workerCacheRoot = ''~/.vci/state/bundle-cache''"

definition attachedTo :: "project \<Rightarrow> string \<Rightarrow> bool" where
  "attachedTo project machine \<longleftrightarrow> machine \<in> set (TargetMachines project)"

definition reap_cache :: "('a os_state_scheme) runner \<Rightarrow> int \<Rightarrow> string \<times> machine \<Rightarrow> reap_report \<Rightarrow> string \<times> project
    \<Rightarrow> ('a os_state_scheme, reap_report) io" where
  "reap_cache ssh now m report p =
     (if \<not> attachedTo (snd p) (fst m) then ret report
      else bindE (attempt (ReapBundleCache (Some ssh) (Host (snd m)) workerCacheRoot (fst p)
          (EffectiveBundleCache (BundleCache (snd m))) now)) (\<lambda>x. ret (case x of
            Inl _ \<Rightarrow> report
          | Inr res \<Rightarrow> report\<lparr>BundleCacheStaleRemoved := BundleCacheStaleRemoved report + Stale res,
              BundleCacheEvictedRemoved := BundleCacheEvictedRemoved report + Evicted res\<rparr>)))"

definition ReapRemoteBundleCaches :: "('a os_state_scheme) runner \<Rightarrow> reap_report \<Rightarrow> config \<Rightarrow> int
    \<Rightarrow> ('a os_state_scheme, reap_report) io" where
  "ReapRemoteBundleCaches ssh report cfg now =
     foldE (\<lambda>rep m. if Host (snd m) = [] then ret rep else foldE (reap_cache ssh now m) rep (Projects cfg)) report (Machines cfg)"

section \<open>The sweep\<close>

definition Run :: "layout \<Rightarrow> ('a reap_state_scheme) runner \<Rightarrow> int \<Rightarrow> ('a reap_state_scheme, reap_report) io" where
  "Run l ssh now =
     bindE list_runs (\<lambda>ns.
     bindE (foldE (reap_run l now) (empty_report, []) ns) (\<lambda>(report, active).
     bindE (reap_partials now active report) (\<lambda>rep1.
     bindE (reapTransferDirs l now) (\<lambda>transfers.
     bindE (reapWorkDirs now) (\<lambda>(tmp, workspaces).
     bindE (reapRemoteTurds ssh now) (\<lambda>cleaned.
     bindE (Reap l Load) (\<lambda>released.
     bindE (ReapArtifacts now) (\<lambda>artifacts.
     bindE (aggregateParents l now) (\<lambda>_.
     ret (rep1\<lparr>TransferRemoved := transfers, PerRunTmpRemoved := tmp, WorkspacesRemoved := workspaces,
       RemoteCleaned := cleaned, SchedulerClaimsReleased := released, ArtifactsReaped := artifacts\<rparr>))))))))))"

section \<open>Retention\<close>

record retention_report =
  RemovedBytes :: int
  RemovedEntries :: int

definition files :: "('a reap_state_scheme, blob_entry list) io" where
  "files = bindE os_call (\<lambda>_. asks blobs)"

definition remove :: "string \<Rightarrow> ('a reap_state_scheme, unit) io" where
  "remove p = bindE os_call (\<lambda>_. modify (\<lambda>w. w\<lparr>blobs := filter (\<lambda>b. Path b \<noteq> p) (blobs w)\<rparr>))"

fun enforce_loop :: "int \<Rightarrow> int \<Rightarrow> retention_report \<Rightarrow> blob_entry list \<Rightarrow> ('a reap_state_scheme, retention_report) io" where
  "enforce_loop limit tot report [] = ret report"
| "enforce_loop limit tot report (e # es) =
     (if tot \<le> limit then ret report
      else bindE (remove (Path e)) (\<lambda>_. enforce_loop limit (wrap64 (tot - Size e))
        \<lparr>RemovedBytes = wrap64 (RemovedBytes report + Size e), RemovedEntries = RemovedEntries report + 1\<rparr> es))"

definition Enforce :: "int \<Rightarrow> ('a reap_state_scheme, retention_report) io" where
  "Enforce limit =
     bindE files (\<lambda>es.
     let entries = go_sort (\<lambda>a b. ModTime a < ModTime b) es;
         tot = foldl (\<lambda>t e. wrap64 (t + Size e)) 0 entries
     in enforce_loop limit tot \<lparr>RemovedBytes = 0, RemovedEntries = 0\<rparr> entries)"

definition Maintain :: "toml \<Rightarrow> layout \<Rightarrow> ('a reap_state_scheme) runner
    \<Rightarrow> ('a reap_state_scheme, reap_report \<times> retention_report) io" where
  "Maintain t l ssh =
     bindE (LoadConfig t) (\<lambda>cfg.
     bindE Now (\<lambda>now.
     bindE (Run l ssh now) (\<lambda>reaped0.
     bindE (ReapRemoteBundleCaches ssh reaped0 cfg now) (\<lambda>reaped.
     bindE (DispatchPending t l) (\<lambda>_.
     bindE (Enforce (RetentionBytes cfg)) (\<lambda>retained.
     ret (reaped, retained)))))))"

end
