(* ===== verification/Vci_Lifecycle_Laws.thy ===== *)
theory Vci_Lifecycle_Laws
  imports Vci_Lifecycle
begin

text \<open>
  What the lifecycle operations guarantee. Each of them is a sequence of scheduler and store steps and
  of worker launches, whatever fails on the way, so the invariants of those steps hold of every
  operation; on top of that, dispatching launches only runs that hold a claim, and a summary agrees
  with the target runs it counts.
\<close>

section \<open>Operations as steps\<close>

lemma environment_step: "quiet w w' \<Longrightarrow> sched_step cfg w w'"
  using store_step.environment [where w = w and t = "clock w"] by (auto simp: quiet_def intro: sched_step.store)

interpretation steps: os_guarantee "(sched_step cfg)\<^sup>*\<^sup>*" for cfg
proof
  fix w :: "'a sched_state_scheme" and fs :: "string option list" and bs
  have "quiet w (w\<lparr>faults := fs\<rparr>)" and "quiet w (w\<lparr>entropy := bs\<rparr>)"
    by (rule quietI, simp)+
  then show "(sched_step cfg)\<^sup>*\<^sup>* w (w\<lparr>faults := fs\<rparr>)" and "(sched_step cfg)\<^sup>*\<^sup>* w (w\<lparr>entropy := bs\<rparr>)"
    by (blast intro: environment_step)+
qed auto

lemma always_step: "(\<And>w r w'. m w = (r, w') \<Longrightarrow> sched_step cfg w w') \<Longrightarrow> always (sched_step cfg)\<^sup>*\<^sup>* m"
  by (rule alwaysI) blast

lemma always_quiet_steps: "always quiet m \<Longrightarrow> always (sched_step cfg)\<^sup>*\<^sup>* (m :: ('a sched_state_scheme, 'b) io)"
  by (erule always_mono) (blast intro: environment_step)

lemmas steps_reads [always_intro] = always_quiet_steps [OF quiet_Load] always_quiet_steps [OF quiet_LoadChildren]
  always_quiet_steps [OF quiet_LoadQueuedChildren] always_quiet_steps [OF quiet_ReadExecution]
  always_quiet_steps [OF LoadConfig_quiet]

lemma transitionRecord_ID: "transitionRecord to now b = Inr r \<Longrightarrow> ID r = ID b"
  by (auto simp: transitionRecord_def split: sum.splits)

lemma steps_StoreTransition [always_intro]: "always (sched_step cfg)\<^sup>*\<^sup>* (StoreTransition rid to now)"
  unfolding StoreTransition_def
  by (rule always_step) (blast intro: sched_step.store store_step.mutate transitionRecord_ID)

lemma steps_RequestCancellation [always_intro]: "always (sched_step cfg)\<^sup>*\<^sup>* (RequestCancellation rid now)"
  by (rule always_step) (blast intro: sched_step.store store_step.cancel)

lemma steps_WriteExecution [always_intro]: "always (sched_step cfg)\<^sup>*\<^sup>* (WriteExecution rid e)"
  by (rule always_step) (blast intro: sched_step.store store_step.execution)

lemma steps_RenewLease [always_intro]: "always (sched_step cfg)\<^sup>*\<^sup>* (RenewLease rid owner now ttl)"
  by (rule always_step) (blast intro: sched_step.store store_step.renew)

lemma steps_Release [always_intro]: "always (sched_step cfg)\<^sup>*\<^sup>* (Release l m rid)"
  by (rule always_step) (blast intro: sched_step.release)

lemma steps_Reserve [always_intro]: "always (sched_step cfg)\<^sup>*\<^sup>* (Reserve l Load cfg m rid now)"
  by (rule always_step) (blast intro: sched_step.reserve)

lemma steps_abortSingle [always_intro]: "always (sched_step cfg)\<^sup>*\<^sup>* (abortSingle l r)"
  unfolding abortSingle_def ignore_def by (intro always_intro)

lemma steps_abortChild [always_intro]: "always (sched_step cfg)\<^sup>*\<^sup>* (abortChild l r)"
  unfolding abortChild_def ignore_def by (intro always_intro)

lemma steps_Abort: "always (sched_step cfg)\<^sup>*\<^sup>* (Abort l rid)"
  unfolding Abort_def parent_or_self_def by (intro always_intro)

lemma steps_Abandon: "always (sched_step cfg)\<^sup>*\<^sup>* (Abandon l rid)"
  unfolding Abandon_def ignore_def by (intro always_intro)

lemma steps_watchCancellation: "always (sched_step cfg)\<^sup>*\<^sup>* (watchCancellation rid es)"
  by (induction rid es rule: watchCancellation.induct) (auto intro!: always_intro simp: ignore_def)

lemma steps_renewLease: "always (sched_step cfg)\<^sup>*\<^sup>* (renewLease rid owner ttl es)"
  by (induction rid owner ttl es rule: renewLease.induct) (auto intro!: always_intro)

section \<open>Invariants of the steps\<close>

text \<open>The scheduler's own operations leave the directories of the runs alone.\<close>

definition same_runs :: "'a sched_state_scheme \<Rightarrow> 'a sched_state_scheme \<Rightarrow> bool" where
  "same_runs w w' \<longleftrightarrow> runs w' = runs w"

lemma shrinks_same_runs: "shrinks w w' \<Longrightarrow> same_runs w w'"
  unfolding same_runs_def by (erule shrinks_field) simp

lemma adds_claim_same_runs: "adds_claim m c w w' \<Longrightarrow> same_runs w w'"
  unfolding same_runs_def by (erule adds_claim_field) simp

context run_files
begin

lemma same_runs_kept: "same_runs w w' \<Longrightarrow> keeps_file f P w w'"
  by (simp add: same_runs_def keeps_file_def run_file_def)

lemma shrinks_kept: "always shrinks m \<Longrightarrow> always (keeps_file f P) m"
  by (erule always_mono) (blast intro: same_runs_kept shrinks_same_runs)

lemma writeClaim_kept: "always (keeps_file f P) (writeClaim m c)"
  by (rule always_mono [OF always_writeClaim]) (blast intro: same_runs_kept adds_claim_same_runs)

lemma withLock_kept: "always (keeps_file f P) m \<Longrightarrow> always (keeps_file f P) (withLock m)"
  unfolding withLock_def by (intro always_intro)

text \<open>A kind of file that every store step keeps is kept by every step of the coordinator.\<close>

lemma sched_step_kept:
  assumes store: "\<And>u v :: 'c sched_state_scheme. store_step u v \<Longrightarrow> keeps_file f P u v"
    and step: "sched_step cfg w (w' :: 'c sched_state_scheme)"
  shows "keeps_file f P w w'"
  using step
proof cases
  case (reserve l machine rid now res)
  have "always (keeps_file f P) (Reserve l Load cfg machine rid now :: ('c sched_state_scheme, unit) io)"
    unfolding Reserve_def future_claim_def
    by (intro always_intro withLock_kept shrinks_kept [OF store_loader.shrinks_reapClaims] writeClaim_kept
        always_quiet_kept [OF quiet_countActive])
  with reserve show ?thesis by (blast dest: alwaysD)
next
  case (reserve_publish publish l rid candidates now res)
  have "keeps_file f P u v" if "store_step\<^sup>*\<^sup>* u v" for u v :: "'c sched_state_scheme"
    using that by (induction rule: rtranclp_induct) (auto intro: store kept.trans)
  then have pub: "always (keeps_file f P) (publish m)" for m
    using reserve_publish(1) by (blast intro: always_mono)
  have "always (keeps_file f P) (ReserveAndPublish l Load cfg rid candidates now publish)"
    unfolding ReserveAndPublish_def future_claim_def
    by (intro always_intro withLock_kept shrinks_kept [OF store_loader.shrinks_reapClaims] writeClaim_kept pub
        always_quiet_kept [OF quiet_countActive] shrinks_kept [OF shrinks_remove_claim])
  with reserve_publish show ?thesis by (blast dest: alwaysD)
next
  case (release l machine rid res)
  then show ?thesis by (blast intro: same_runs_kept shrinks_same_runs alwaysD [OF shrinks_Release])
next
  case (reap l res')
  then show ?thesis by (blast intro: same_runs_kept shrinks_same_runs alwaysD [OF shrinks_Reap])
next
  case (status l st)
  then show ?thesis by (blast intro: same_runs_kept shrinks_same_runs alwaysD [OF shrinks_Status])
next
  case store
  then show ?thesis by (rule assms(1))
qed

lemma sched_steps_kept:
  assumes "\<And>u v :: 'c sched_state_scheme. store_step u v \<Longrightarrow> keeps_file f P u v"
    and "(sched_step cfg)\<^sup>*\<^sup>* w (w' :: 'c sched_state_scheme)"
  shows "keeps_file f P w w'"
  using assms(2) by (induction rule: rtranclp_induct) (auto intro: kept.trans sched_step_kept [OF assms(1)])

end

lemma sched_steps_within:
  assumes "(sched_step cfg)\<^sup>*\<^sup>* u v" and "Validate cfg = Inr ()" and "distinct (map fst (Machines cfg))" and "within_capacity cfg u"
  shows "within_capacity cfg v"
  using assms(1,4) by (induction rule: rtranclp_induct) (auto intro: sched_step_within [OF _ assms(2,3)])

text \<open>What an operation of the coordinator may never do.\<close>

definition safe_change :: "config \<Rightarrow> 'a sched_state_scheme \<Rightarrow> 'a sched_state_scheme \<Rightarrow> bool" where
  "safe_change cfg w w' \<longleftrightarrow>
     (within_capacity cfg w \<longrightarrow> within_capacity cfg w')
     \<and> (\<forall>rid r. record_of w rid = Some r \<longrightarrow> IsTerminal (State r) \<longrightarrow> record_of w' rid = Some r)
     \<and> (\<forall>rid v. run_file result_json w rid = Some v \<longrightarrow> run_file result_json w' rid = Some v)"

lemma steps_safe:
  assumes "(sched_step cfg)\<^sup>*\<^sup>* w w'" and "Validate cfg = Inr ()" and "distinct (map fst (Machines cfg))"
  shows "safe_change cfg w w'"
proof -
  have "keeps_file run_json terminal_json w w'"
    by (rule rec_file.sched_steps_kept [OF store_step_terminal assms(1)])
  moreover have "keeps_file result_json (\<lambda>_ _. True) w w'"
    by (rule result_file.sched_steps_kept [OF store_step_result assms(1)])
  ultimately show ?thesis
    using sched_steps_within [OF assms] by (auto simp: safe_change_def record_of_iff keeps_file_def terminal_json_def)
qed

text \<open>
  C15: The cancellation paths are safe on every outcome: \<open>Abort\<close>, \<open>Abandon\<close> and the worker's two
  background loops, wherever they fail, never put a machine over its capacity, never change a terminal
  record and never replace or remove a published result.
\<close>

theorem cancellation_safe:
  assumes "Validate cfg = Inr ()" and "distinct (map fst (Machines cfg))"
  shows "always (safe_change cfg) (Abort l rid) \<and> always (safe_change cfg) (Abandon l rid)
    \<and> always (safe_change cfg) (watchCancellation rid es) \<and> always (safe_change cfg) (renewLease rid owner ttl es)"
  by (intro conjI always_mono [OF steps_Abort] always_mono [OF steps_Abandon] always_mono [OF steps_watchCancellation]
      always_mono [OF steps_renewLease] steps_safe assms)

section \<open>Dispatching\<close>

text \<open>Reserving for one run never takes the claim of another run that is live.\<close>

definition keeps_live :: "'a sched_state_scheme \<Rightarrow> 'a sched_state_scheme \<Rightarrow> bool" where
  "keeps_live w w' \<longleftrightarrow> runs w' = runs w
     \<and> (\<forall>m rid. live_run w rid \<longrightarrow> claim_at w m rid \<noteq> None \<longrightarrow> claim_at w' m rid \<noteq> None)"

lemma live_run_runs: "runs w' = runs w \<Longrightarrow> live_run w' rid = live_run w rid"
  by (simp add: live_run_def record_of_def run_file_def)

interpretation keeps_live: os_guarantee keeps_live
proof
  fix u v w :: "'a sched_state_scheme"
  show "keeps_live w w" by (simp add: keeps_live_def)
  assume uv: "keeps_live u v" and vw: "keeps_live v w"
  then have "live_run v rid = live_run u rid" for rid by (intro live_run_runs) (simp add: keeps_live_def)
  with uv vw show "keeps_live u w" unfolding keeps_live_def by metis
next
  fix w :: "'a sched_state_scheme" and fs bs
  show "keeps_live w (w\<lparr>faults := fs\<rparr>)" and "keeps_live w (w\<lparr>entropy := bs\<rparr>)"
    by (simp_all add: keeps_live_def claim_at_def claim_files_def)
qed

lemma quiet_keeps_live: "quiet w w' \<Longrightarrow> keeps_live (w :: 'a sched_state_scheme) w'"
  by (auto simp: keeps_live_def quiet_claim_at) (auto simp: quiet_def)

lemma always_quiet_live: "always quiet m \<Longrightarrow> always keeps_live (m :: ('a sched_state_scheme, 'b) io)"
  by (erule always_mono) (rule quiet_keeps_live)

lemma remove_claim_any:
  assumes "remove_claim m rid w = (q, w')"
  shows "runs w' = runs w \<and> (\<forall>m' rid'. (m', rid') \<noteq> (m, rid) \<longrightarrow> claim_at w' m' rid' = claim_at w m' rid')"
proof -
  have "runs w' = runs w" using alwaysD [OF shrinks_remove_claim assms] shrinks_same_runs by (auto simp: same_runs_def)
  moreover obtain y w1 where ls: "lstat_claim m rid w = (y, w1)"
    and fin: "(case y of Inl e \<Rightarrow> if IsNotExist e then ret () else throw e | Inr _ \<Rightarrow> modify (del_claim m rid)) w1 = (q, w')"
    using assms by (cases "lstat_claim m rid w") (simp add: remove_claim_def attempt_bind)
  have "quiet w w1" using ls by (rule alwaysD [OF quiet_lstat_claim])
  with fin have "\<forall>m' rid'. (m', rid') \<noteq> (m, rid) \<longrightarrow> claim_at w' m' rid' = claim_at w m' rid'"
    by (cases y) (auto simp: claim_at_del quiet_claim_at split: if_splits)
  ultimately show ?thesis by simp
qed

context record_loader
begin

lemma reapOne_live: "always keeps_live (reapOne load k c)"
proof (rule alwaysI)
  fix w r w'
  assume run: "reapOne load k c w = (r, w')"
  obtain x w1 where ld: "load (ci_runID c) w = (x, w1)" by force
  have q: "quiet w w1" using ld by (rule alwaysD [OF load_quiet])
  have removed: "keeps_live w w'" if "bindE (remove_claim (ci_machine c) (ci_runID c)) (\<lambda>_. ret (k + 1)) w1 = (r, w')"
    and dead: "\<not> live_run w (ci_runID c)"
  proof -
    from that(1) obtain y where "remove_claim (ci_machine c) (ci_runID c) w1 = (y, w')"
      by (auto simp: bind_eval split: prod.splits sum.splits)
    from remove_claim_any [OF this] q dead show ?thesis
      unfolding keeps_live_def by (metis quiet_claim_at prod.inject quiet_keeps_live keeps_live_def)
  qed
  show "keeps_live w w'"
  proof (cases x)
    case (Inl e)
    have "is_not_exist e \<Longrightarrow> \<not> live_run w (ci_runID c)"
      using ld Inl by (auto simp: live_run_def record_of_def dest: load_missing)
    with run ld Inl q removed show ?thesis
      by (auto simp: reapOne_def attempt_bind quiet_keeps_live split: if_splits)
  next
    case (Inr rec)
    then have "record_of w (ci_runID c) = Some rec" using ld by (auto dest: load_record)
    with run ld Inr q removed show ?thesis
      by (auto simp: reapOne_def attempt_bind quiet_keeps_live live_run_def split: if_splits)
  qed
qed

lemma reapClaims_live: "always keeps_live (reapClaims l load)"
  unfolding reapClaims_def by (intro always_intro always_quiet_live [OF quiet_enumerateClaims] reapOne_live)

end

lemma Reserve_live: "always keeps_live (Reserve l Load cfg m rid now)"
proof -
  have wr: "always keeps_live (writeClaim m c)" for m c
    by (rule always_mono [OF always_writeClaim])
      (auto simp: keeps_live_def adds_claim_same_runs [unfolded same_runs_def], metis adds_claim_def option.distinct(1))
  show ?thesis
    unfolding Reserve_def future_claim_def withLock_def
    by (intro always_intro store_loader.reapClaims_live wr always_quiet_live [OF quiet_countActive])
qed

lemma spent_Reserve: "always spent (Reserve l Load cfg m rid now)"
  unfolding Reserve_def by (intro always_intro spent_future_claim spent_writeClaim)

text \<open>The launch of one reserved child, with no fault to come.\<close>

lemma Launch_ok: "faults w = [] \<Longrightarrow> Launch rid w = (Inr (), w\<lparr>launched := launched w @ [rid]\<rparr>)"
  by (simp add: Launch_def io_eval)

lemma always_frame_launched:
  "always shrinks m \<Longrightarrow> m w = (r, w') \<Longrightarrow> launched w' = launched (w :: 'a app_state_scheme)"
  by (drule (1) alwaysD, erule shrinks_field) simp

lemma Reserve_launched:
  assumes "Reserve l Load cfg m rid now w = (r, w')"
  shows "launched w' = launched (w :: 'a app_state_scheme)"
  using assms
proof (cases rule: Reserve_cases)
  case refused
  show ?thesis by (rule shrinks_field [OF refused(1)]) simp
next
  case (written w1 q mach)
  have "launched w1 = launched w" by (rule shrinks_field [OF written(1)]) simp
  moreover have "launched w' = launched w1" by (rule adds_claim_field [OF alwaysD [OF always_writeClaim written(6)]]) simp
  ultimately show ?thesis by simp
qed

lemma dispatchChild_step:
  fixes w w' :: "'a app_state_scheme"
  assumes "dispatchChild l cfg now child w = (r, w')" and "faults w = []"
  shows "r = Inr () \<and> keeps_live w w' \<and> faults w' = [] \<and> (launched w' = launched w
    \<or> launched w' = launched w @ [ID child] \<and> claim_at w' (Machine child) (ID child) \<noteq> None)"
proof -
  obtain x w1 where rs: "Reserve l Load cfg (Machine child) (ID child) now w = (x, w1)" by force
  have f1: "faults w1 = []" using spent_Reserve rs assms(2) by (rule spentD)
  have live: "keeps_live w w1" using rs by (rule alwaysD [OF Reserve_live])
  note same = Reserve_launched [OF rs]
  show ?thesis
  proof (cases x)
    case (Inl e)
    with assms(1) rs f1 live same show ?thesis by (simp add: dispatchChild_def attempt_bind)
  next
    case (Inr u)
    then have ok: "Reserve l Load cfg (Machine child) (ID child) now w = (Inr (), w1)" using rs by simp
    from Inr assms(1) rs f1 have w': "w' = w1\<lparr>launched := launched w1 @ [ID child]\<rparr>" and "r = Inr ()"
      by (simp_all add: dispatchChild_def attempt_bind Launch_ok)
    moreover have "claim_at w1 (Machine child) (ID child) \<noteq> None" using Reserve_Inr [OF ok] by simp
    moreover have "claim_at w' m rid = claim_at w1 m rid" and "runs w' = runs w1" for m rid
      by (simp_all add: w' claim_at_def claim_files_def)
    ultimately show ?thesis using live same f1 by (simp add: keeps_live_def)
  qed
qed

definition dispatched :: "'a app_state_scheme \<Rightarrow> run_record list \<Rightarrow> 'a app_state_scheme \<Rightarrow> bool" where
  "dispatched w queued w' \<longleftrightarrow> keeps_live w w'
     \<and> (\<exists>xs. launched w' = launched w @ map ID xs \<and> set xs \<subseteq> set queued
          \<and> (\<forall>child \<in> set xs. claim_at w' (Machine child) (ID child) \<noteq> None))"

lemma dispatch_loop:
  fixes w w' :: "'a app_state_scheme"
  assumes "forE queued (dispatchChild l cfg now) w = (r, w')" and "faults w = []"
    and "\<And>child. child \<in> set queued \<Longrightarrow> live_run w (ID child)"
  shows "r = Inr () \<and> dispatched w queued w'"
  using assms
proof (induction queued arbitrary: w)
  case Nil
  then show ?case by (simp add: dispatched_def keeps_live.refl)
next
  case (Cons child queued)
  obtain x w1 where one: "dispatchChild l cfg now child w = (x, w1)" by force
  note step = dispatchChild_step [OF one Cons.prems(2)]
  then have x: "x = Inr ()" and kl: "keeps_live w w1" and f1: "faults w1 = []" by simp_all
  have rest: "forE queued (dispatchChild l cfg now) w1 = (r, w')" using Cons.prems(1) one x by (simp add: bind_eval)
  have live: "live_run w1 rid = live_run w rid" for rid
    using kl by (intro live_run_runs) (simp add: keeps_live_def)
  from Cons.IH [OF rest f1] Cons.prems(3) live have r: "r = Inr ()" and d: "dispatched w1 queued w'" by auto
  then obtain xs where kl': "keeps_live w1 w'" and xs: "launched w' = launched w1 @ map ID xs" "set xs \<subseteq> set queued"
      "\<forall>child \<in> set xs. claim_at w' (Machine child) (ID child) \<noteq> None"
    by (auto simp: dispatched_def)
  have kl'': "keeps_live w w'" using kl kl' by (rule keeps_live.trans)
  have kept: "claim_at w1 (Machine child) (ID child) \<noteq> None \<Longrightarrow> claim_at w' (Machine child) (ID child) \<noteq> None"
    using kl' live Cons.prems(3) [of child] by (simp add: keeps_live_def)
  from step show ?case
  proof (elim conjE disjE)
    assume "launched w1 = launched w"
    with r kl'' xs show ?thesis by (auto simp: dispatched_def)
  next
    assume "launched w1 = launched w @ [ID child]" and "claim_at w1 (Machine child) (ID child) \<noteq> None"
    with r kl'' xs kept show ?thesis by (auto simp: dispatched_def intro!: exI [of _ "child # xs"])
  qed
qed

lemma within_dispatchChild:
  "always (\<lambda>w w'. within_capacity cfg w \<longrightarrow> within_capacity cfg w') (dispatchChild l cfg now child)"
proof -
  let ?R = "\<lambda>w w' :: 'a app_state_scheme. within_capacity cfg w \<longrightarrow> within_capacity cfg w'"
  have "always ?R (Reserve l Load cfg m rid now)" for m rid
    by (rule alwaysI) (blast intro: Reserve_within)
  moreover have "always ?R (Release l m rid)" for m rid
    by (rule always_mono [OF shrinks_Release]) (blast intro: within_shrinks)
  moreover have "always ?R (modify (launched_update g))" for g
    by (simp add: always_def modify_def within_capacity_def claim_count_def claim_set_def claim_at_def claim_files_def)
  ultimately show ?thesis
    unfolding dispatchChild_def Launch_def ignore_def by (intro always_intro)
qed

lemma queued_children_record:
  "child \<in> set (queued_children w) \<Longrightarrow> record_of w (ID child) = Some child \<and> State child = RunQueued \<and> ParentRunID child \<noteq> []"
proof -
  assume "child \<in> set (queued_children w)"
  then obtain n where "record_of w n = Some child" and "State child = RunQueued" and "ParentRunID child \<noteq> []"
    by (auto simp: queued_children_def simp del: set_dir_names split: option.splits if_splits)
  then show ?thesis by (auto simp: record_of_iff)
qed

text \<open>
  C18: Dispatching without faults launches only queued target runs, each of which then holds a claim
  on its own machine; it changes no run directory, takes no claim of a live run, and no machine is put
  over its capacity.
\<close>

theorem DispatchPending_reserved:
  assumes "DispatchPending t l w = (r, w')" and "faults w = []" and "current t w = Some cfg" and "within_capacity cfg w"
  shows "r = Inr () \<and> within_capacity cfg w' \<and> keeps_live w w'
    \<and> (\<exists>xs. launched w' = launched w @ map ID xs \<and> (\<forall>child \<in> set xs. record_of w (ID child) = Some child
         \<and> State child = RunQueued \<and> ParentRunID child \<noteq> [] \<and> claim_at w' (Machine child) (ID child) \<noteq> None))"
proof -
  have "LoadConfig t w = (Inr cfg, w)"
    using assms(2,3) by (auto simp: LoadConfig_def io_eval read_file_def current_iff)
  with assms(1) have loop: "forE (queued_children w) (dispatchChild l cfg (clock w)) w = (r, w')"
    by (simp add: DispatchPending_def io_eval LoadQueuedChildren_ok [OF assms(2)])
  have live: "live_run w (ID child)" if "child \<in> set (queued_children w)" for child
    using queued_children_record [OF that] by (simp add: live_run_def IsTerminal_def)
  from dispatch_loop [OF loop assms(2) live] have r: "r = Inr ()" and d: "dispatched w (queued_children w) w'" by auto
  have "always (\<lambda>w w'. within_capacity cfg w \<longrightarrow> within_capacity cfg w') (forE (queued_children w) (dispatchChild l cfg (clock w)))"
    by (intro capacity.kept.always_forE within_dispatchChild)
  from alwaysD [OF this loop] assms(4) have within: "within_capacity cfg w'" by blast
  from d obtain xs where xs: "launched w' = launched w @ map ID xs" "set xs \<subseteq> set (queued_children w)"
      "\<forall>child \<in> set xs. claim_at w' (Machine child) (ID child) \<noteq> None" and kl: "keeps_live w w'"
    by (auto simp: dispatched_def)
  from xs(2,3) have "\<forall>child \<in> set xs. record_of w (ID child) = Some child
         \<and> State child = RunQueued \<and> ParentRunID child \<noteq> [] \<and> claim_at w' (Machine child) (ID child) \<noteq> None"
    by (blast dest: queued_children_record)
  with r within kl xs(1) show ?thesis by blast
qed

section \<open>Admission\<close>

lemma live_loop_parent: "live_loop ns w = (Inr (Some p), w') \<Longrightarrow> p \<noteq> []"
  by (induction ns arbitrary: w rule: live_loop.induct)
    (auto simp: attempt_bind split: prod.splits sum.splits json.splits if_splits)

lemma HasLiveBuild_parent: "HasLiveBuild w = (Inr (Some p), w') \<Longrightarrow> p \<noteq> []"
  by (auto simp: HasLiveBuild_def attempt_bind split: prod.splits sum.splits dest: live_loop_parent)

text \<open>A target run on disk that has not ended.\<close>

definition live_target :: "'a store_state_scheme \<Rightarrow> run_id \<Rightarrow> bool" where
  "live_target w p \<longleftrightarrow> (\<exists>n r. run_file run_json w n = Some (Json r) \<and> ParentRunID r = p \<and> p \<noteq> [] \<and> \<not> IsTerminal (State r))"

text \<open>
  C31: At most one build is in flight: without faults a build is admitted exactly when no target run
  on disk is live; otherwise it is refused as busy, naming the parent of a live target, and nothing
  changes. In particular a build whose targets were staged keeps every later one out until they end.
\<close>

theorem admission_exclusive:
  assumes "faults w = []"
  shows "if \<exists>p. live_target w p then \<exists>p. live_target w p \<and> admitAndStage stage w = (Inl (EBusy p), w)
    else admitAndStage stage w = stage w"
proof -
  obtain x where x: "HasLiveBuild w = (Inr x, w)" and none: "x = None \<longleftrightarrow> (\<nexists>p. live_target w p)"
    and some: "\<And>p. x = Some p \<Longrightarrow> \<exists>n r. run_file run_json w n = Some (Json r) \<and> ParentRunID r = p \<and> \<not> IsTerminal (State r)"
    using HasLiveBuild_spec_core [OF assms] by (auto simp: live_target_def)
  have run: "admitAndStage stage w = (case x of Some p \<Rightarrow> throw (EBusy p) | None \<Rightarrow> stage) w"
    using assms x by (simp add: admitAndStage_def io_eval)
  show ?thesis
  proof (cases x)
    case None
    with none run show ?thesis by simp
  next
    case (Some p)
    from HasLiveBuild_parent [OF x [unfolded Some]] some [OF Some] have "live_target w p" by (auto simp: live_target_def)
    with run Some show ?thesis by (auto simp: unit_eval)
  qed
qed

section \<open>Summaries\<close>

lemma target_of_state: "target_of child w = (Inr tv, w') \<Longrightarrow> tv_State tv = State child"
  by (auto simp: target_of_def Let_def bindE_Inr attempt_eq split: if_splits sum.splits json.splits)

lemma summary_fold:
  assumes "foldE (\<lambda>b child. bindE (target_of child) (\<lambda>tv. ret ((count_state (State child) b)\<lparr>bs_Targets := bs_Targets b @ [tv]\<rparr>))) b0 cs w = (Inr b, w')"
  shows "map tv_State (bs_Targets b) = map tv_State (bs_Targets b0) @ map State cs
    \<and> bs_Succeeded b = bs_Succeeded b0 + count_list (map State cs) RunSucceeded
    \<and> bs_Failed b = bs_Failed b0 + count_list (map State cs) RunFailed
    \<and> bs_Lost b = bs_Lost b0 + count_list (map State cs) RunLost
    \<and> bs_Unavailable b = bs_Unavailable b0 + count_list (map State cs) RunUnavailable
    \<and> bs_Aborted b = bs_Aborted b0 + count_list (map State cs) RunAborted"
  using assms
proof (induction cs arbitrary: b0 w)
  case (Cons c cs)
  from Cons.prems obtain tv w1 where tv: "target_of c w = (Inr tv, w1)"
    and rest: "foldE (\<lambda>b child. bindE (target_of child) (\<lambda>tv. ret ((count_state (State child) b)\<lparr>bs_Targets := bs_Targets b @ [tv]\<rparr>)))
      ((count_state (State c) b0)\<lparr>bs_Targets := bs_Targets b0 @ [tv]\<rparr>) cs w1 = (Inr b, w')"
    by (auto simp: bindE_Inr)
  from Cons.IH [OF rest] target_of_state [OF tv] show ?case
    by (cases "State c") (simp_all add: count_state_def)
qed simp

lemma count_list_total:
  "(\<And>x. x \<in> set xs \<Longrightarrow> x = a \<or> x = b) \<Longrightarrow> a \<noteq> b \<Longrightarrow> count_list xs a + count_list xs b = length xs"
  by (induction xs) auto

text \<open>
  A build summary is consistent: it has one view per readable target, its counts are the counts of
  those views' states, its state is the aggregate of them, and when it reports success every target
  succeeded or was unavailable.
\<close>

theorem parentSummary_consistent:
  assumes "parentSummary parent w = (Inr b, w')"
  shows "(\<exists>children w1. LoadChildren (ID parent) w = (Inr children, w1) \<and> map tv_State (bs_Targets b) = map State children
      \<and> (bs_State b, bs_NoMachineResponded b) = AggregateState children (State parent = RunAborted))
    \<and> bs_Succeeded b = count_list (map tv_State (bs_Targets b)) RunSucceeded
    \<and> bs_Failed b = count_list (map tv_State (bs_Targets b)) RunFailed
    \<and> bs_Unavailable b = count_list (map tv_State (bs_Targets b)) RunUnavailable
    \<and> (bs_State b = RunSucceeded \<longrightarrow> bs_Failed b = 0 \<and> bs_Lost b = 0 \<and> bs_Aborted b = 0
        \<and> bs_Succeeded b + bs_Unavailable b = length (bs_Targets b))"
proof -
  from assms obtain children w1 b1 where ld: "LoadChildren (ID parent) w = (Inr children, w1)"
    and fold: "foldE (\<lambda>b child. bindE (target_of child) (\<lambda>tv. ret ((count_state (State child) b)\<lparr>bs_Targets := bs_Targets b @ [tv]\<rparr>)))
       \<lparr>bs_RunID = ID parent, bs_Project = Project parent, bs_State = RunAggregating, bs_Targets = [], bs_Succeeded = 0,
         bs_Failed = 0, bs_Lost = 0, bs_Unavailable = 0, bs_Aborted = 0, bs_NoMachineResponded = False, bs_Warnings = []\<rparr>
       children w1 = (Inr b1, w')"
    and b: "\<exists>ws. b = b1\<lparr>bs_State := fst (AggregateState children (State parent = RunAborted)),
       bs_NoMachineResponded := snd (AggregateState children (State parent = RunAborted)), bs_Warnings := ws\<rparr>"
    unfolding parentSummary_def by (auto simp: bindE_Inr Let_def case_prod_beta)
  have ok: "\<forall>c \<in> set children. State c = RunSucceeded \<or> State c = RunUnavailable"
    if "fst (AggregateState children (State parent = RunAborted)) = RunSucceeded"
  proof
    fix c assume "c \<in> set children"
    with that show "State c = RunSucceeded \<or> State c = RunUnavailable"
      by (cases "State c") (auto simp: AggregateState_spec_core IsTerminal_def split: if_splits)
  qed
  have "count_list (map State children) RunFailed = 0 \<and> count_list (map State children) RunLost = 0
      \<and> count_list (map State children) RunAborted = 0
      \<and> count_list (map State children) RunSucceeded + count_list (map State children) RunUnavailable = length children"
    if "fst (AggregateState children (State parent = RunAborted)) = RunSucceeded"
    using ok [OF that] count_list_total [of "map State children" RunSucceeded RunUnavailable] by (auto simp: count_list_0_iff)
  note counts = this
  obtain ws where b': "b = b1\<lparr>bs_State := fst (AggregateState children (State parent = RunAborted)),
       bs_NoMachineResponded := snd (AggregateState children (State parent = RunAborted)), bs_Warnings := ws\<rparr>" using b by blast
  note f = summary_fold [OF fold, simplified]
  have targets: "map tv_State (bs_Targets b) = map State children" using f by (simp add: b')
  then have "length (bs_Targets b) = length children" by (metis length_map)
  with f ld counts targets show ?thesis by (simp add: b')
qed

lemma children_fold:
  assumes "foldE (\<lambda>out c. bindE (attempt (Load c)) (\<lambda>x. case x of Inl _ \<Rightarrow> ret out | Inr r \<Rightarrow> ret (out @ [r]))) out cs w = (Inr rs, w')"
    and "r \<in> set rs"
  shows "r \<in> set out \<or> record_of w (ID r) = Some r"
  using assms
proof (induction cs arbitrary: out w)
  case (Cons c cs)
  obtain x w1 where ld: "Load c w = (x, w1)" by force
  have q: "quiet w w1" using ld by (rule alwaysD [OF quiet_Load])
  from Cons.prems(1) ld have "foldE (\<lambda>out c. bindE (attempt (Load c)) (\<lambda>x. case x of Inl _ \<Rightarrow> ret out | Inr r \<Rightarrow> ret (out @ [r])))
      (case x of Inl _ \<Rightarrow> out | Inr r \<Rightarrow> out @ [r]) cs w1 = (Inr rs, w')"
    by (cases x) (auto simp: bindE_Inr attempt_eq)
  from Cons.IH [OF this Cons.prems(2)] show ?case
    using ld Load_Inr [of c w _ w1] by (cases x) (auto simp: record_of_quiet [OF q] record_of_iff)
qed simp

lemma LoadChildren_records: "LoadChildren p w = (Inr cs, w') \<Longrightarrow> c \<in> set cs \<Longrightarrow> record_of w (ID c) = Some c"
  by (auto simp: LoadChildren_def bindE_Inr record_of_quiet [OF alwaysD [OF quiet_Load]] dest!: children_fold)

text \<open>
  A log or artifact request resolves to the target run on the machine it names: the run it
  returns is a readable target of the request, on that machine, unless the request has no targets.
\<close>

theorem ResolveTarget_machine:
  assumes "ResolveTarget rid machine w = (Inr c, w')" and "c \<noteq> rid"
  shows "machine \<noteq> [] \<and> (\<exists>child. record_of w c = Some child \<and> Machine child = machine)"
proof -
  obtain x w0 where ld: "Load rid w = (x, w0)" by force
  with assms(1) obtain r0 where x: "x = Inr r0" by (cases x) (auto simp: ResolveTarget_def attempt_bind split: if_splits)
  from assms ld x obtain r w1 children w2 where ps: "parent_or_self r0 w0 = (Inr r, w1)"
    and lc: "LoadChildren (ID r) w1 = (Inr children, w2)" and m: "machine \<noteq> []"
    and c: "\<exists>child. find (\<lambda>c. Machine c = machine) children = Some child \<and> c = ID child"
    by (auto simp: ResolveTarget_def attempt_bind bindE_Inr split: if_splits option.splits)
  have "always quiet (parent_or_self r0)" unfolding parent_or_self_def by (intro always_intro quiet_Load)
  with ld ps have q: "quiet w w1" by (blast dest: alwaysD alwaysD [OF quiet_Load] intro: quiet.trans)
  from c obtain child where "child \<in> set children" and "Machine child = machine" and "c = ID child"
    by (auto simp: find_Some_iff in_set_conv_nth)
  with LoadChildren_records [OF lc] m show ?thesis by (auto simp: record_of_quiet [OF q])
qed

section \<open>Error context\<close>

lemma Join_append_tail: "\<exists>pre. Join (xs @ ys) [c] = pre @ Join ys [c]"
proof (cases "xs = [] \<or> ys = []")
  case False
  then have "Join (xs @ ys) [c] = Join xs [c] @ c # Join ys [c]"
    by (induction xs "[c]" rule: Join.induct) (auto simp: neq_Nil_conv)
  then show ?thesis by (intro exI [of _ "Join xs [c] @ [c]"]) simp
qed auto

lemma TrimRight_split: "\<exists>post. s = TrimRight s c @ post \<and> set post \<subseteq> {c}"
proof (intro exI conjI)
  show "s = TrimRight s c @ rev (takeWhile (\<lambda>x. x = c) (rev s))"
    by (simp add: TrimRight_def flip: rev_append)
  show "set (rev (takeWhile (\<lambda>x. x = c) (rev s))) \<subseteq> {c}"
    by (auto dest: set_takeWhileD)
qed

text \<open>
  The error context of a failed target is a bounded tail of its log: at most 4096 bytes and 20
  lines, and exactly the end of the log up to trailing line breaks.
\<close>

theorem tail_text_bounded:
  "length (tail_text data) \<le> 4096 \<and> length (Split newline (tail_text data)) \<le> 20
    \<and> (\<exists>pre post. data = pre @ tail_text data @ post \<and> set post \<subseteq> {newline})"
proof -
  define body where "body = TrimRight (last_n 4096 data) newline"
  define ls where "ls = last_n 20 (Split newline body)"
  have t: "tail_text data = Join ls [newline]" by (simp add: tail_text_def ls_def body_def)
  have "0 < length (Split newline body)" by simp
  then have ls: "ls \<noteq> []" "length ls \<le> 20" by (auto simp: ls_def last_n_def simp del: length_greater_0_conv)
  have nosep: "newline \<notin> set l" if "l \<in> set ls" for l
    using that Split_no_sep by (auto simp: ls_def last_n_def dest: in_set_dropD)
  have "Split newline body = take (length (Split newline body) - 20) (Split newline body) @ ls"
    by (simp add: ls_def last_n_def)
  with Join_append_tail [of "take (length (Split newline body) - 20) (Split newline body)" ls newline]
  obtain pre where pre: "body = pre @ tail_text data" unfolding t by (metis Join_Split)
  obtain post where post: "last_n 4096 data = body @ post" "set post \<subseteq> {newline}"
    using TrimRight_split [of "last_n 4096 data" newline] by (auto simp: body_def)
  have "data = take (length data - 4096) data @ last_n 4096 data" by (simp add: last_n_def)
  with pre post have "data = (take (length data - 4096) data @ pre) @ tail_text data @ post" by simp
  moreover have "length (last_n 4096 data) \<le> 4096" by (simp add: last_n_def)
  with pre post(1) have "length (tail_text data) \<le> 4096" by simp
  moreover have "Split newline (tail_text data) = ls" unfolding t using ls(1) nosep by (intro Split_Join) auto
  ultimately show ?thesis using ls(2) post(2) by metis
qed

section \<open>A concrete build\<close>

definition example_app :: app_state where
  "example_app = sched_state.extend (sched_with [''run_b'']) \<lparr>launched = []\<rparr>"

lemma example_app_simps [simp]: "faults example_app = []" "config_file example_app = Some []" "launched example_app = []"
  "claims example_app = claims (sched_with [''run_b''])" "runs example_app = runs example_store"
  by (simp_all add: example_app_def sched_state.defs sched_with_def)

lemma example_app_within: "within_capacity example_config example_app"
proof -
  have at: "claim_at example_app m rid = claim_at (sched_with [''run_b'']) m rid" for m rid
    by (simp add: claim_at_def claim_files_def)
  then have "claim_set example_app ''m1'' = {''run_b''}"
    using sched_with_set [of "[''run_b'']"] by (auto simp: claim_set_def example_ids)
  then have "claim_count example_app ''m1'' \<le> EffectiveCapacity example_machine" by (simp add: claim_count_def example_m1)
  then show ?thesis unfolding within_capacity_def by (blast dest: example_machine_of)
qed

theorem cancellation_safe_witness: "safe_change example_config example_sched (snd (Abort example_layout ''run_b'' example_sched))"
proof -
  have "always (safe_change example_config) (Abort example_layout ''run_b'' :: (sched_state, run_record) io)"
    by (rule cancellation_safe [OF example_config_valid example_m1(4), THEN conjunct1])
  then show ?thesis by (simp add: always_def)
qed

theorem DispatchPending_reserved_witness:
  "within_capacity example_config (snd (DispatchPending two_toml example_layout example_app))"
proof -
  have cur: "current two_toml example_app = Some example_config"
    using example_config_valid by (simp add: current_def table_toml_def Decode_def)
  obtain r w' where run: "DispatchPending two_toml example_layout example_app = (r, w')" by force
  from DispatchPending_reserved [OF run _ cur example_app_within] run show ?thesis by simp
qed

theorem admission_exclusive_witness: "\<exists>p. admitAndStage (throw ENotExist) (sched_with []) = (Inl (EBusy p), sched_with [])"
proof -
  have "live_target (sched_with []) ''run_p''"
    unfolding live_target_def
    by (rule exI [of _ "''run_b''"], rule exI [of _ "example_record ''run_b'' RunQueued ''run_p''"])
      (simp add: run_file_def sched_with_def example_store_def example_record_def IsTerminal_def)
  with admission_exclusive [OF sched_with_faults, of "[]" "throw ENotExist"] show ?thesis by (auto split: if_splits)
qed

definition example_parent :: run_record where
  "example_parent = (example_record ''run_p'' RunQueued [])\<lparr>Children := [''run_a'']\<rparr>"

definition example_build :: store_state where
  "example_build = \<lparr>faults = [], clock = 10, entropy = [], windows = False, config_file = None,
     runs = [(''run_a'', Sub ((empty_run 1)\<lparr>run_json := Some (Json (example_record ''run_a'' RunSucceeded ''run_p''))\<rparr>)),
       (''run_p'', Sub ((empty_run 1)\<lparr>run_json := Some (Json example_parent)\<rparr>))]\<rparr>"

lemma example_build_records:
  "record_of example_build ''run_a'' = Some (example_record ''run_a'' RunSucceeded ''run_p'')"
  "record_of example_build ''run_p'' = Some example_parent" "faults example_build = []"
  by (simp_all add: record_of_iff run_file_def example_build_def validateRecord_def example_record_def example_parent_def
      ValidRunID_def HasPrefix_def safe_char_def alnum_def)

lemma example_build_children:
  "LoadChildren ''run_p'' example_build = (Inr [example_record ''run_a'' RunSucceeded ''run_p''], example_build)"
  using LoadChildren_ok [OF example_build_records(3,2)]
  by (simp add: example_build_records example_parent_def)

theorem parentSummary_consistent_witness:
  "\<exists>b. parentSummary example_parent example_build = (Inr b, example_build) \<and> bs_Succeeded b = 1"
proof -
  have "ReadResult ''run_a'' example_build = (Inl ENotExist, example_build)"
    by (simp add: ReadResult_def runDir_def read_run_def io_eval example_build_records(3))
      (simp add: example_build_def entry_file_def entry_dir_def empty_run_def ValidName_def alnum_def safe_char_def)
  moreover have state: "State (example_record ''run_a'' RunSucceeded ''run_p'') = RunSucceeded" "ID (example_record ''run_a'' RunSucceeded ''run_p'') = ''run_a''"
    by (simp_all add: example_record_def)
  ultimately obtain tv where tv: "target_of (example_record ''run_a'' RunSucceeded ''run_p'') example_build = (Inr tv, example_build)"
    by (simp add: target_of_def Let_def io_eval IsTerminal_def)
  have "ID example_parent = ''run_p''" by (simp add: example_parent_def example_record_def)
  then obtain b where run: "parentSummary example_parent example_build = (Inr b, example_build)"
    using example_build_children by (simp add: parentSummary_def io_eval tv Let_def case_prod_beta)
  obtain children w1 where "LoadChildren (ID example_parent) example_build = (Inr children, w1)" and m: "map tv_State (bs_Targets b) = map State children"
    using parentSummary_consistent [OF run] by blast
  then have "map tv_State (bs_Targets b) = [RunSucceeded]"
    using example_build_children \<open>ID example_parent = ''run_p''\<close> state by auto
  moreover have "bs_Succeeded b = count_list (map tv_State (bs_Targets b)) RunSucceeded"
    using parentSummary_consistent [OF run] by blast
  ultimately have "bs_Succeeded b = 1" by simp
  with run show ?thesis by blast
qed

theorem ResolveTarget_machine_witness:
  "ResolveTarget ''run_p'' ''m1'' example_build = (Inr ''run_a'', example_build)
    \<and> (\<exists>child. record_of example_build ''run_a'' = Some child \<and> Machine child = ''m1'')"
proof -
  have "Load ''run_p'' example_build = (Inr example_parent, example_build)"
    by (simp add: Load_ok example_build_records)
  then have run: "ResolveTarget ''run_p'' ''m1'' example_build = (Inr ''run_a'', example_build)"
    using example_build_children
    by (simp add: ResolveTarget_def parent_or_self_def io_eval example_parent_def example_record_def)
  from ResolveTarget_machine [OF run] run show ?thesis by simp
qed

end
