(* ===== verification/Vci_Host_Laws.thy ===== *)
theory Vci_Host_Laws
  imports Vci_Host
begin

text \<open>Properties of the transport: what a worker's shell makes of the composed command.\<close>

text \<open>A quoted value reads back as its own characters, each of them quoted.\<close>

lemma lex_quote_from:
  "squote \<notin> set pre \<Longrightarrow>
   sh_lex cur (squote # pre @ ReplaceAll squote [squote, backslash, squote, squote] v @ squote # rest)
     = sh_lex (add_items cur (map Quoted (pre @ v))) rest"
proof (induction v arbitrary: pre cur)
  case Nil
  then show ?case by (simp add: ReplaceAll_def quote_run)
next
  case (Cons c v)
  show ?case
  proof (cases "c = squote")
    case False
    have "ReplaceAll squote [squote, backslash, squote, squote] (c # v) = c # ReplaceAll squote [squote, backslash, squote, squote] v"
      using False by (simp add: ReplaceAll_def)
    with Cons.IH [of "pre @ [c]" cur] Cons.prems False show ?thesis by simp
  next
    case True
    have "ReplaceAll squote [squote, backslash, squote, squote] (c # v)
        = squote # backslash # squote # squote # ReplaceAll squote [squote, backslash, squote, squote] v"
      using True by (simp add: ReplaceAll_def)
    moreover have "sh_lex cur' (backslash # squote # t) = sh_lex (add_items cur' [Quoted squote]) t" for cur' t
      by (subst sh_lex.simps(2)) (simp add: quote_chars)
    ultimately show ?thesis
      using Cons.prems True by (simp add: quote_run Cons.IH [of "[]", simplified])
  qed
qed

lemma lex_shellQuote: "sh_lex cur (shellQuote v @ rest) = sh_lex (add_items cur (map Quoted v)) rest"
  using lex_quote_from [of "[]" cur v rest] by (simp add: shellQuote_def)

section \<open>Remote paths\<close>

lemma ValidName_no_slash: "ValidName n \<Longrightarrow> slash \<notin> set n"
  using ValidName_plain [of n] by (simp add: plain_seg_def)

lemma plain_not_control:
  assumes "list_all plain_char s"
  shows "\<not> has_control s"
proof -
  have "\<not> control_rune (of_char c)" if "plain_char c" for c
  proof -
    have "32 \<le> (of_char c :: nat) \<and> of_char c \<noteq> (127 :: nat)"
      using that unfolding plain_char_def alnum_def Let_def by (elim disjE) (simp_all, auto)
    then show ?thesis by (simp add: control_rune_def)
  qed
  with assms show ?thesis by (auto simp: has_control_iff list_all_iff)
qed

lemma ValidName_plain_char: "ValidName n \<Longrightarrow> list_all plain_char n"
  by (drule ValidName_safe) (auto simp: list_all_iff safe_char_def plain_char_def)

lemma ValidateRemotePath_iff:
  "ValidateRemotePath p = Inr () \<longleftrightarrow> (\<exists>n. ValidName n \<and> p = ''~/.vci/state/work/'' @ n)"
proof
  assume ok: "ValidateRemotePath p = Inr ()"
  then have len: "length (Split slash p) = 5" and pre: "take 4 (Split slash p) = [''~'', ''.vci'', ''state'', ''work'']"
    and name: "ValidName (concat (drop 4 (Split slash p)))"
    by (simp_all add: ValidateRemotePath_def Let_def)
  obtain n where n: "drop 4 (Split slash p) = [n]"
    using len by (cases "drop 4 (Split slash p)") (auto simp: Cons_eq_append_conv dest: arg_cong [where f = length])
  with pre have "Split slash p = [''~'', ''.vci'', ''state'', ''work'', n]"
    by (metis append_Cons append_Nil append_take_drop_id)
  then have "p = Join [''~'', ''.vci'', ''state'', ''work'', n] ''/''" by (metis Join_Split)
  then have "p = ''~/.vci/state/work/'' @ n" by simp
  moreover have "ValidName n" using name unfolding n by simp
  ultimately show "\<exists>n. ValidName n \<and> p = ''~/.vci/state/work/'' @ n" by blast
next
  assume "\<exists>n. ValidName n \<and> p = ''~/.vci/state/work/'' @ n"
  then obtain n where n: "ValidName n" and p: "p = ''~/.vci/state/work/'' @ n" by blast
  have split: "Split slash p = [''~'', ''.vci'', ''state'', ''work'', n]"
  proof -
    have "p = Join [''~'', ''.vci'', ''state'', ''work'', n] ''/''" by (simp add: p)
    moreover have "Split slash (Join [''~'', ''.vci'', ''state'', ''work'', n] ''/'') = [''~'', ''.vci'', ''state'', ''work'', n]"
      using ValidName_no_slash [OF n] by (intro Split_Join) auto
    ultimately show ?thesis by (simp only:)
  qed
  have "\<not> has_control p"
    using ValidName_plain_char [OF n] unfolding p by (intro plain_not_control) (simp add: plain_char_def alnum_def)
  then show "ValidateRemotePath p = Inr ()"
    using n by (simp add: ValidateRemotePath_def Let_def split) (simp add: p HasPrefix_def)
qed

definition work_tail :: "string \<Rightarrow> string" where
  "work_tail wd = tl wd"

lemma ValidateRemotePath_shape:
  assumes "ValidateRemotePath wd = Inr ()"
  shows "wd = CHR ''~'' # work_tail wd" "\<exists>t. work_tail wd = slash # t"
    "list_all plain_char wd" "list_all plain_char (work_tail wd)"
proof -
  from assms obtain n where n: "ValidName n" and wd: "wd = ''~/.vci/state/work/'' @ n"
    unfolding ValidateRemotePath_iff by blast
  from ValidName_plain_char [OF n] show "wd = CHR ''~'' # work_tail wd" "\<exists>t. work_tail wd = slash # t"
    "list_all plain_char wd" "list_all plain_char (work_tail wd)"
    by (simp_all add: wd work_tail_def plain_char_def alnum_def)
qed

section \<open>The composed command\<close>

definition arg_items :: "string \<Rightarrow> string \<Rightarrow> sh_item list" where
  "arg_items wd arg =
     (if Contains arg wd \<and> shellSafe arg then
        if HasPrefix arg ''~'' then QVar ''__vci_login_home'' # map Lit (tl arg) else map Lit arg
      else map Quoted arg)"

definition env_items :: "string \<Rightarrow> string \<Rightarrow> sh_item list" where
  "env_items k v = map Quoted k @ Lit (CHR ''='') # map Quoted v"

definition prefix_tokens :: "string \<Rightarrow> sh_token list" where
  "prefix_tokens wd =
     [Word (map Lit ''cd''), Word (map Lit wd), AndIf, Word (map Lit ''__vci_login_home='' @ [Var ''HOME'']), AndIf,
      Word (map Lit ''export''), Word (map Lit (''HOME='' @ wd @ ''/.home'')), Word (map Lit (''TMPDIR='' @ wd @ ''/.tmp'')), AndIf,
      Word (map Lit ''mkdir''), Word (map Lit ''-p''), Word (map Lit (wd @ ''/.home''))]"

lemma shellSafe_plain: "shellSafe s \<Longrightarrow> list_all plain_char s"
  by (auto simp: shellSafe_def plain_char_def list_all_iff)

lemma lex_cons_plain: "plain_char c \<Longrightarrow> sh_lex cur (c # s) = sh_lex (add_items cur [Lit c]) s"
  using plain_char_not_meta [of c] by (simp add: sh_lex.simps(2))

lemma lex_andif: "sh_lex cur (CHR ''&'' # CHR ''&'' # s) = map_option (\<lambda>ts. flush cur @ AndIf # ts) (sh_lex None s)"
  by (simp add: sh_lex.simps(2) quote_chars)

lemma lex_var: "x \<noteq> [] \<Longrightarrow> list_all name_char x \<Longrightarrow> \<not> name_char c \<Longrightarrow>
    sh_lex cur (CHR ''$'' # x @ c # s) = sh_lex (add_items cur [Var x]) (c # s)"
  by (simp add: sh_lex.simps(2) [of cur "CHR ''$''"] quote_chars takeWhile_append2 list_all_iff dropWhile_append3)

lemma lex_home_var: "sh_lex cur (CHR ''$'' # CHR ''H'' # CHR ''O'' # CHR ''M'' # CHR ''E'' # CHR '' '' # s)
    = map_option (\<lambda>ts. flush (add_items cur [Var ''HOME'']) @ ts) (sh_lex None s)"
  using lex_var [of "''HOME''" "CHR '' ''" cur s] by (simp add: name_char_def alnum_def)

lemma lex_prefix:
  assumes "list_all plain_char wd" and "wd \<noteq> []"
  shows "sh_lex None (''cd '' @ wd @ '' && __vci_login_home=$HOME && export HOME='' @ wd @ ''/.home TMPDIR=''
      @ wd @ ''/.tmp && mkdir -p '' @ wd @ ''/.home '' @ wd @ ''/.tmp'' @ rest)
    = map_option (\<lambda>ts. prefix_tokens wd @ ts) (sh_lex (Some (map Lit (wd @ ''/.tmp''))) rest)"
proof -
  have "sh_lex None (wd @ t) = sh_lex (Some (map Lit wd)) t" for t
    using lex_plain_start [OF assms, of None t] by (simp add: add_items_def)
  then show ?thesis
    using assms
    by (simp add: lex_cons_plain lex_andif lex_plain lex_home_var plain_char_def alnum_def prefix_tokens_def
      add_items_def flush_def option.map_comp comp_def)
qed

lemma lex_env:
  "sh_lex (Some w) (concat (map (\<lambda>k. '' && export '' @ shellQuote k @ ''='' @ shellQuote (f k)) ks) @ '' && exec '' @ rest)
    = map_option (\<lambda>ts. Word w # concat (map (\<lambda>k. [AndIf, Word (map Lit ''export''), Word (env_items k (f k))]) ks)
        @ AndIf # Word (map Lit ''exec'') # ts) (sh_lex None rest)"
proof (induction ks arbitrary: w)
  case Nil
  show ?case
    by (simp add: lex_cons_plain lex_andif plain_char_def alnum_def add_items_def flush_def option.map_comp comp_def)
next
  case (Cons k ks)
  then show ?case
    by (simp add: lex_cons_plain lex_andif lex_shellQuote plain_char_def alnum_def add_items_def flush_def env_items_def
      option.map_comp comp_def)
qed

lemma lex_shell_word: "sh_lex None (shell_word wd arg @ rest) = sh_lex (Some (arg_items wd arg)) rest"
proof (cases "Contains arg wd \<and> shellSafe arg")
  case False
  then show ?thesis by (auto simp: shell_word_def arg_items_def lex_shellQuote add_items_def)
next
  case safe: True
  then have plain: "list_all plain_char arg" and ne: "arg \<noteq> []" by (auto simp: shellSafe_plain shellSafe_def)
  show ?thesis
  proof (cases "HasPrefix arg ''~''")
    case False
    with safe plain ne show ?thesis
      by (simp add: shell_word_def arg_items_def remoteWord_def lex_plain_start add_items_def)
  next
    case True
    then obtain t where t: "arg = CHR ''~'' # t" by (auto simp: HasPrefix_iff)
    have "sh_lex None (dquote # ''$__vci_login_home'' @ dquote # u) = sh_lex (Some [QVar ''__vci_login_home'']) u" for u
      by (subst sh_lex.simps(2)) (simp add: quote_chars name_char_def alnum_def add_items_def)
    with safe t plain True show ?thesis
      by (simp add: shell_word_def arg_items_def remoteWord_def TrimPrefix_def lex_plain)
  qed
qed

lemma lex_argv: "argv \<noteq> [] \<Longrightarrow>
    sh_lex None (Join (map (shell_word wd) argv) '' '') = Some (map (\<lambda>a. Word (arg_items wd a)) argv)"
proof (induction argv)
  case Nil
  then show ?case by simp
next
  case (Cons a as)
  show ?case
  proof (cases as)
    case Nil
    then show ?thesis using lex_shell_word [of wd a "[]"] by (simp add: flush_def)
  next
    case (Cons b bs)
    with Cons.IH have "sh_lex None (Join (map (shell_word wd) as) '' '') = Some (map (\<lambda>a. Word (arg_items wd a)) as)" by simp
    then show ?thesis
      using Cons by (simp add: lex_shell_word flush_def)
  qed
qed

lemma lex_composed:
  assumes "composeShell wd argv env os = Inr s" and "\<not> IsWindowsOS os"
  shows "sh_lex None s = Some (prefix_tokens wd @ Word (map Lit (wd @ ''/.tmp''))
      # concat (map (\<lambda>k. [AndIf, Word (map Lit ''export''), Word (env_items k (env_value env k))]) (env_keys env))
      @ AndIf # Word (map Lit ''exec'') # map (\<lambda>a. Word (arg_items wd a)) argv)"
proof -
  from assms have wd: "ValidateRemotePath wd = Inr ()" and ne: "argv \<noteq> []"
    by (auto simp: composeShell_def split: sum.splits if_splits)
  from assms have "s = ''cd '' @ wd @ '' && __vci_login_home=$HOME && export HOME='' @ wd @ ''/.home TMPDIR=''
      @ wd @ ''/.tmp && mkdir -p '' @ wd @ ''/.home '' @ wd @ ''/.tmp''
      @ (concat (map (\<lambda>k. '' && export '' @ shellQuote k @ ''='' @ shellQuote (env_value env k)) (env_keys env))
      @ '' && exec '' @ Join (map (shell_word wd) argv) '' '')"
    by (auto simp: composeShell_def split: sum.splits if_splits)
  moreover have "wd \<noteq> []" using ValidateRemotePath_shape(1) [OF wd] by auto
  ultimately show ?thesis
    using lex_prefix [OF ValidateRemotePath_shape(3) [OF wd]] lex_env lex_argv [OF ne] by simp
qed

section \<open>Running the composed command\<close>

text \<open>What an argument is on the worker: a path below the work directory that starts with the tilde is
  below the login home, and every other argument is itself.\<close>

definition remote_value :: "string \<Rightarrow> string \<Rightarrow> string \<Rightarrow> string" where
  "remote_value home wd arg = (if Contains arg wd \<and> shellSafe arg \<and> HasPrefix arg ''~'' then home @ tl arg else arg)"

lemma validEnvKey_sh_name: "validEnvKey k \<Longrightarrow> sh_name k \<and> k \<noteq> [] \<and> CHR ''='' \<notin> set k"
proof (cases k)
  case (Cons c cs)
  moreover have "\<not> alnum (CHR ''='')" and "\<not> is_digit (CHR ''_'')" by (simp_all add: alnum_def is_digit_def)
  moreover assume "validEnvKey k"
  ultimately show ?thesis by (auto simp: validEnvKey_def sh_name_def name_char_def list_all_iff)
qed (simp add: validEnvKey_def)

lemma expand_quoted [simp]: "expand vs (map Quoted s) = Some s"
proof -
  have "tilde h (map Quoted s) = Some (map Quoted s)" for h by (cases s) (simp_all add: tilde_def)
  moreover have "\<not> list_ex is_split (map Quoted s)" by (auto simp: list_ex_iff)
  ultimately show ?thesis by (simp add: expand_def)
qed

lemma not_split_Lit [simp]: "\<not> list_ex is_split (map Lit s)" "\<not> list_ex is_split (map Quoted s)"
  by (auto simp: list_ex_iff)

lemma expand_Lit: "\<not> HasPrefix s ''~'' \<Longrightarrow> expand vs (map Lit s) = Some s"
  by (cases s) (auto simp: expand_def tilde_def HasPrefix_def list_ex_iff)

lemma expand_tilde: "expand vs (map Lit (CHR ''~'' # slash # t)) = Some (var vs ''HOME'' @ slash # t)"
  by (simp add: expand_def tilde_def list_ex_iff)

lemma export_env:
  assumes "validEnvKey k"
  shows "sh_command st [map Lit ''export'', env_items k v] = Some (st\<lparr>vars := (k, v) # vars st\<rparr>)"
proof -
  note k = validEnvKey_sh_name [OF assms]
  have tw: "takeWhile (\<lambda>x. x \<noteq> Lit (CHR ''='')) (env_items k v) = map Quoted k"
    and dw: "dropWhile (\<lambda>x. x \<noteq> Lit (CHR ''='')) (env_items k v) = Lit (CHR ''='') # map Quoted v"
    by (induction k) (simp_all add: env_items_def)
  have word: "expand (vars st) (env_items k v) = Some (k @ CHR ''='' # v)"
    using k by (cases k) (auto simp: expand_def tilde_def env_items_def list_ex_iff)
  have "takeWhile (\<lambda>c. c \<noteq> CHR ''='') (k @ CHR ''='' # v) = k" "dropWhile (\<lambda>c. c \<noteq> CHR ''='') (k @ CHR ''='' # v) = CHR ''='' # v"
    using validEnvKey_sh_name [OF assms, THEN conjunct2, THEN conjunct2] by (induction k) auto
  moreover have "map Quoted k \<noteq> map Lit k" using k by (cases k) auto
  ultimately have "assignment (vars st) (env_items k v) = Some (k, v)"
    using k by (simp add: assignment_def tw dw word)
  then show ?thesis by (simp add: sh_command_def)
qed

lemma run_env:
  assumes "\<And>k. k \<in> set ks \<Longrightarrow> validEnvKey k"
  shows "sh_command st ws = Some st' \<Longrightarrow> executed st' = None \<Longrightarrow>
    sh_tokens st ws (concat (map (\<lambda>k. [AndIf, Word (map Lit ''export''), Word (env_items k (f k))]) ks)
        @ AndIf # Word (map Lit ''exec'') # map (\<lambda>a. Word (g a)) argv)
    = sh_command (st'\<lparr>vars := rev (map (\<lambda>k. (k, f k)) ks) @ vars st'\<rparr>) (map Lit ''exec'' # map g argv)"
  using assms
proof (induction ks arbitrary: st ws st')
  case Nil
  then show ?case
    using sh_tokens_words [of st' "[map Lit ''exec'']" "map g argv" "[]"] by (simp add: comp_def)
next
  case (Cons k ks)
  let ?st = "st'\<lparr>vars := (k, f k) # vars st'\<rparr>"
  from Cons.prems have "sh_command st' [map Lit ''export'', env_items k (f k)] = Some ?st" by (intro export_env) simp
  from Cons.IH [OF this] Cons.prems show ?case by simp
qed

lemma run_prefix:
  assumes "ValidateRemotePath wd = Inr ()"
  shows "\<exists>st ws. sh_tokens (login home) [] (prefix_tokens wd @ Word (map Lit (wd @ ''/.tmp'')) # ts) = sh_tokens st ws ts
    \<and> sh_command st ws = Some \<lparr>cwd = home @ work_tail wd,
        vars = [(''TMPDIR'', home @ work_tail wd @ ''/.tmp''), (''HOME'', home @ work_tail wd @ ''/.home''),
          (''__vci_login_home'', home), (''HOME'', home)],
        made = [home @ work_tail wd @ ''/.home'' @ work_tail wd @ ''/.home'', home @ work_tail wd @ ''/.home'' @ work_tail wd @ ''/.tmp''],
        executed = None\<rparr>"
proof -
  obtain t where t: "work_tail wd = slash # t" and wd: "wd = CHR ''~'' # slash # t"
    using ValidateRemotePath_shape(1,2) [OF assms] by auto
  have exp: "expand vs (Lit (CHR ''~'') # Lit slash # map Lit t @ map Lit x) = Some (var vs ''HOME'' @ slash # t @ x)"
    and exp0: "expand vs (Lit (CHR ''~'') # Lit slash # map Lit t) = Some (var vs ''HOME'' @ slash # t)" for vs x
    using expand_tilde [of vs "t @ x"] expand_tilde [of vs t] by simp_all
  note exps = exp [where x = "''/.home''", simplified] exp [where x = "''/.tmp''", simplified] exp0
  have asg: "assignment vs (map Lit x @ Lit (CHR ''='') # ys)
      = map_option (\<lambda>v. (x, word_text vs v)) (tilde (var vs ''HOME'') ys)" if "sh_name x" "CHR ''='' \<notin> set x" for vs x ys
  proof -
    have "takeWhile (\<lambda>i. i \<noteq> Lit (CHR ''='')) (map Lit x @ Lit (CHR ''='') # ys) = map Lit x"
      and "dropWhile (\<lambda>i. i \<noteq> Lit (CHR ''='')) (map Lit x @ Lit (CHR ''='') # ys) = Lit (CHR ''='') # ys"
      using that(2) by (induction x) auto
    with that(1) show ?thesis by (simp add: assignment_def)
  qed
  have til: "tilde h (Lit (CHR ''~'') # Lit slash # ys) = Some (map Quoted h @ Lit slash # ys)" for h ys
    by (simp add: tilde_def)
  have tv: "tilde h [Var x] = Some [Var x]" for h x by (simp add: tilde_def)
  note asgs = asg [of "''__vci_login_home''", simplified] asg [of "''HOME''", simplified] asg [of "''TMPDIR''", simplified]
  have dash: "expand vs [Lit (CHR ''-''), Lit (CHR ''p'')] = Some ''-p''" for vs
    using expand_Lit [of "''-p''" vs] by (simp add: HasPrefix_def)
  note run = dash sh_command_def login_def var_def asgs exps til tv expand_Lit HasPrefix_def
    sh_name_def name_char_def alnum_def is_digit_def
  let ?st = "\<lparr>cwd = home @ work_tail wd,
        vars = [(''TMPDIR'', home @ work_tail wd @ ''/.tmp''), (''HOME'', home @ work_tail wd @ ''/.home''),
          (''__vci_login_home'', home), (''HOME'', home)], made = [], executed = None\<rparr>"
  let ?ws = "[map Lit ''mkdir'', map Lit ''-p'', map Lit (wd @ ''/.home''), map Lit (wd @ ''/.tmp'')]"
  have "sh_tokens (login home) [] (prefix_tokens wd @ Word (map Lit (wd @ ''/.tmp'')) # ts) = sh_tokens ?st ?ws ts"
    unfolding t by (simp add: prefix_tokens_def wd run)
  moreover have "sh_command ?st ?ws = Some (?st\<lparr>made := [home @ work_tail wd @ ''/.home'' @ work_tail wd @ ''/.home'',
      home @ work_tail wd @ ''/.home'' @ work_tail wd @ ''/.tmp'']\<rparr>)"
    unfolding t by (simp add: wd run)
  ultimately show ?thesis by fastforce
qed

lemma map_of_env:
  "distinct ks \<Longrightarrow> map_of (rev (map (\<lambda>k. (k, f k)) ks) @ vs) x = (if x \<in> set ks then Some (f x) else map_of vs x)"
proof -
  assume "distinct ks"
  then have "map_of (rev (map (\<lambda>k. (k, f k)) ks)) x = (if x \<in> set ks then Some (f x) else None)"
    by (induction ks) (auto simp: map_add_def)
  then show ?thesis by (simp add: map_add_def split: option.splits)
qed

lemma expand_arg:
  assumes "map_of vs ''__vci_login_home'' = Some home"
  shows "expand vs (arg_items wd a) = Some (remote_value home wd a)"
proof (cases "Contains a wd \<and> shellSafe a \<and> HasPrefix a ''~''")
  case True
  then have "expand vs (QVar ''__vci_login_home'' # map Lit (tl a)) = Some (home @ tl a)"
    using assms by (simp add: expand_def tilde_def var_def)
  with True show ?thesis by (simp add: arg_items_def remote_value_def)
next
  case False
  then show ?thesis by (auto simp: arg_items_def remote_value_def expand_Lit)
qed

lemma composed_run:
  assumes "composeShell wd argv env os = Inr s" and "\<not> IsWindowsOS os"
    and keys: "\<And>k. k \<in> fst ` set env \<Longrightarrow> k = [] \<or> validEnvKey k" and login: "''__vci_login_home'' \<notin> fst ` set env"
  shows "sh_script (login home) s = Some \<lparr>cwd = home @ work_tail wd,
      vars = rev (map (\<lambda>k. (k, env_value env k)) (env_keys env))
        @ [(''TMPDIR'', home @ work_tail wd @ ''/.tmp''), (''HOME'', home @ work_tail wd @ ''/.home''),
           (''__vci_login_home'', home), (''HOME'', home)],
      made = [home @ work_tail wd @ ''/.home'' @ work_tail wd @ ''/.home'', home @ work_tail wd @ ''/.home'' @ work_tail wd @ ''/.tmp''],
      executed = Some (map (remote_value home wd) argv)\<rparr>"
proof -
  from assms(1) have wd: "ValidateRemotePath wd = Inr ()" by (auto simp: composeShell_def split: sum.splits)
  let ?ts = "concat (map (\<lambda>k. [AndIf, Word (map Lit ''export''), Word (env_items k (env_value env k))]) (env_keys env))
      @ AndIf # Word (map Lit ''exec'') # map (\<lambda>a. Word (arg_items wd a)) argv"
  define st0 where "st0 = \<lparr>cwd = home @ work_tail wd,
        vars = [(''TMPDIR'', home @ work_tail wd @ ''/.tmp''), (''HOME'', home @ work_tail wd @ ''/.home''),
          (''__vci_login_home'', home), (''HOME'', home)],
        made = [home @ work_tail wd @ ''/.home'' @ work_tail wd @ ''/.home'', home @ work_tail wd @ ''/.home'' @ work_tail wd @ ''/.tmp''],
        executed = None\<rparr>"
  obtain st ws where st: "sh_tokens (login home) [] (prefix_tokens wd @ Word (map Lit (wd @ ''/.tmp'')) # ?ts) = sh_tokens st ws ?ts"
    and cmd: "sh_command st ws = Some st0"
    using run_prefix [OF wd, of home ?ts] unfolding st0_def by blast
  have valid: "validEnvKey k" if "k \<in> set (env_keys env)" for k
    using that keys [of k] by (auto simp: env_keys_def)
  have unset: "''__vci_login_home'' \<notin> set (env_keys env)" using login by (auto simp: env_keys_def)
  let ?vs = "rev (map (\<lambda>k. (k, env_value env k)) (env_keys env))
      @ [(''TMPDIR'', home @ work_tail wd @ ''/.tmp''), (''HOME'', home @ work_tail wd @ ''/.home''),
         (''__vci_login_home'', home), (''HOME'', home)]"
  have "map_of ?vs ''__vci_login_home'' = Some home"
    using unset by (subst map_of_env) (simp_all add: env_keys_def)
  then have "collect (map (expand ?vs) (map (arg_items wd) argv)) = Some (map (remote_value home wd) argv)"
    using collect_map_Some [of argv "\<lambda>a. expand ?vs (arg_items wd a)" "remote_value home wd"] expand_arg
    by (simp add: comp_def)
  then have ex: "sh_command (st0\<lparr>vars := ?vs\<rparr>) (map Lit ''exec'' # map (arg_items wd) argv)
      = Some (st0\<lparr>vars := ?vs, executed := Some (map (remote_value home wd) argv)\<rparr>)"
    by (simp add: sh_command_def)
  have "executed st0 = None" "?vs = rev (map (\<lambda>k. (k, env_value env k)) (env_keys env)) @ vars st0" by (simp_all add: st0_def)
  with run_env [OF valid cmd, where f = "env_value env" and g = "arg_items wd" and argv = argv] ex
  have "sh_tokens st ws ?ts = Some (st0\<lparr>vars := ?vs, executed := Some (map (remote_value home wd) argv)\<rparr>)" by simp
  then show ?thesis
    unfolding sh_script_def lex_composed [OF assms(1,2)] option.case st by (simp add: st0_def)
qed

text \<open>
  C5: The command line sent to a POSIX worker does what was asked and nothing else, whatever bytes the
  arguments and the values of the environment hold: read and run by the shell it enters the run's work
  directory, sets \<open>HOME\<close>, \<open>TMPDIR\<close> and every variable of the project to exactly its value, and ends by
  executing exactly the given argument vector, in which only a path below the work directory that
  starts with a tilde is made absolute.
\<close>

theorem composeShell_faithful:
  assumes "composeShell wd argv env os = Inr s" and "\<not> IsWindowsOS os"
    and "\<And>k. k \<in> fst ` set env \<Longrightarrow> k = [] \<or> validEnvKey k" and "''__vci_login_home'' \<notin> fst ` set env"
  shows "\<exists>st. sh_script (login home) s = Some st
    \<and> cwd st = home @ tl wd
    \<and> executed st = Some (map (remote_value home wd) argv)
    \<and> (\<forall>k v. k \<noteq> [] \<and> map_of env k = Some v \<longrightarrow> var (vars st) k = v)
    \<and> (map_of env ''HOME'' = None \<longrightarrow> var (vars st) ''HOME'' = home @ tl wd @ ''/.home'')
    \<and> (map_of env ''TMPDIR'' = None \<longrightarrow> var (vars st) ''TMPDIR'' = home @ tl wd @ ''/.tmp'')"
proof -
  have "k \<in> set (env_keys env) \<longleftrightarrow> k \<noteq> [] \<and> map_of env k \<noteq> None" for k
    by (auto simp: env_keys_def map_of_eq_None_iff)
  moreover have "distinct (env_keys env)" by (simp add: env_keys_def)
  moreover have "map_of env k = Some v \<Longrightarrow> env_value env k = v" for k v by (simp add: env_value_def)
  ultimately show ?thesis
    using composed_run [OF assms, of home] by (simp add: var_def map_of_env work_tail_def del: map_of_append rev_map)
qed

theorem composeShell_faithful_witness:
  "\<exists>s st. composeShell ''~/.vci/state/work/run_a'' [''echo'', ''a b; rm -rf ~''] [(''K'', ''$(id)'')] [] = Inr s
    \<and> sh_script (login ''/home/ci'') s = Some st
    \<and> executed st = Some [''echo'', ''a b; rm -rf ~''] \<and> var (vars st) ''K'' = ''$(id)''"
proof -
  let ?wd = "''~/.vci/state/work/run_a''"
  have os: "\<not> IsWindowsOS []" by (simp add: IsWindowsOS_def EqualFold_def TrimSpace_def runes_def)
  have "ValidateRemotePath ?wd = Inr ()"
    unfolding ValidateRemotePath_iff by (rule exI [of _ "''run_a''"]) (simp add: ValidName_def alnum_def safe_char_def)
  then obtain s where s: "composeShell ?wd [''echo'', ''a b; rm -rf ~''] [(''K'', ''$(id)'')] [] = Inr s"
    using os unfolding composeShell_def by simp
  have key: "validEnvKey ''K''" by (simp add: validEnvKey_def alnum_def is_digit_def)
  obtain st where st: "sh_script (login ''/home/ci'') s = Some st"
    and ex: "executed st = Some (map (remote_value ''/home/ci'' ?wd) [''echo'', ''a b; rm -rf ~''])"
    and env: "\<forall>k v. k \<noteq> [] \<and> map_of [(''K'', ''$(id)'')] k = Some v \<longrightarrow> var (vars st) k = v"
    using composeShell_faithful [OF s os, of "''/home/ci''"] key by force
  have "map (remote_value ''/home/ci'' ?wd) [''echo'', ''a b; rm -rf ~''] = [''echo'', ''a b; rm -rf ~'']"
    by (simp add: remote_value_def HasPrefix_def)
  moreover have "var (vars st) ''K'' = ''$(id)''" using env by simp
  ultimately show ?thesis using s st ex by auto
qed

text \<open>The directory that \<open>TMPDIR\<close> names is not among those the command makes: \<open>mkdir\<close> runs after \<open>HOME\<close>
  was changed, and the tilde in its arguments stands for the new value.\<close>

lemma composeShell_tmpdir_not_made:
  assumes "composeShell wd argv env os = Inr s" and "\<not> IsWindowsOS os" and "env = []"
  shows "\<exists>st. sh_script (login home) s = Some st
    \<and> made st = [home @ tl wd @ ''/.home'' @ tl wd @ ''/.home'', home @ tl wd @ ''/.home'' @ tl wd @ ''/.tmp'']
    \<and> var (vars st) ''TMPDIR'' \<notin> set (made st)"
  using composed_run [OF assms(1,2), of home] assms(3) by (simp add: var_def env_keys_def dir_names_def work_tail_def)

end
