(* ===== verification/Vci_Reaper_Laws.thy ===== *)
theory Vci_Reaper_Laws
  imports Vci_Reaper Vci_Lifecycle_Laws Vci_Host_Laws
begin

text \<open>
  What the maintenance pass guarantees: it leaves a worker with a live lease alone on every fault
  path, keeps the invariants of the store and the scheduler, removes only what it may remove, frees the
  machines of dead workers, and brings the cache within its limit by removing the oldest blobs.
\<close>

section \<open>The remote side\<close>

text \<open>\<open>ssh\<close> acts on the other machine: here only the clock, the faults to come and the random bytes move.\<close>

definition local_runner :: "('a os_state_scheme) runner \<Rightarrow> bool" where
  "local_runner ssh \<longleftrightarrow> (\<forall>c w. \<exists>t fs bs. snd (ssh c w) = w\<lparr>clock := t, faults := fs, entropy := bs\<rparr>)"

lemma bind_ret: "bindE (ret x) f = f x"
  by (simp add: bindE_def ret_def)

text \<open>A guarantee that does not look at the clock holds of every use of such a runner.\<close>

locale remote_guarantee = os_guarantee R for R :: "'a os_state_scheme \<Rightarrow> 'a os_state_scheme \<Rightarrow> bool" +
  assumes env: "R w (w\<lparr>clock := t, faults := fs, entropy := bs\<rparr>)"
begin

lemma always_exec [always_intro]:
  assumes "local_runner ssh"
  shows "always R (exec ssh exe args inp)"
proof (rule alwaysI)
  fix w r w'
  assume "exec ssh exe args inp w = (r, w')"
  then have "w' = snd (ssh \<lparr>Executable = exe, Args = args, Stdin = inp\<rparr> w)"
    by (auto simp: exec_def split: prod.splits)
  with assms show "R w w'" unfolding local_runner_def using env by metis
qed

lemma always_CleanupRemote [always_intro]: "local_runner ssh \<Longrightarrow> always R (CleanupRemote ssh h p os)"
  unfolding CleanupRemote_def by (intro always_intro)

lemma always_ReapBundleCache [always_intro]: "local_runner ssh \<Longrightarrow> always R (ReapBundleCache (Some ssh) h root p policy now)"
  unfolding ReapBundleCache_def need_runner_def Let_def option.case bind_ret by (intro always_intro)

lemma always_ReapRemoteBundleCaches [always_intro]:
  "local_runner ssh \<Longrightarrow> always R (ReapRemoteBundleCaches ssh report cfg now)"
  unfolding ReapRemoteBundleCaches_def reap_cache_def by (intro always_intro)

end

section \<open>Live workers\<close>

definition guarded :: "run_id \<Rightarrow> run_record \<Rightarrow> lease json option \<Rightarrow> 'a store_state_scheme \<Rightarrow> bool" where
  "guarded rid r v w \<longleftrightarrow> record_of w rid = Some r \<and> run_file lease_json w rid = v"

text \<open>A run with the record \<open>r\<close> and the lease file \<open>v\<close> keeps its record, its lease, the files of its workspace and its claim.\<close>

definition spared :: "run_id \<Rightarrow> run_record \<Rightarrow> lease json option \<Rightarrow> 'a reap_state_scheme \<Rightarrow> 'a reap_state_scheme \<Rightarrow> bool" where
  "spared rid r v w w' \<longleftrightarrow> (guarded rid r v w \<longrightarrow> guarded rid r v w'
     \<and> map_option we_files (map_of (work w') rid) = map_option we_files (map_of (work w) rid)
     \<and> (\<forall>m. claim_at w m rid \<noteq> None \<longrightarrow> claim_at w' m rid \<noteq> None))"

lemma guarded_env [simp]: "guarded rid r v (w\<lparr>clock := t\<rparr>) = guarded rid r v w"
  "guarded rid r v (w\<lparr>faults := fs\<rparr>) = guarded rid r v w" "guarded rid r v (w\<lparr>entropy := bs\<rparr>) = guarded rid r v w"
  by (simp_all add: guarded_def record_of_def run_file_def)

interpretation spared: remote_guarantee "spared rid r v" for rid r v
proof
  fix u v' w :: "'a reap_state_scheme"
  show "spared rid r v w w" by (simp add: spared_def)
  assume "spared rid r v u v'" and "spared rid r v v' w"
  then show "spared rid r v u w" by (simp add: spared_def)
next
  fix w :: "'a reap_state_scheme" and t fs bs
  show "spared rid r v w (w\<lparr>faults := fs\<rparr>)" "spared rid r v w (w\<lparr>entropy := bs\<rparr>)"
    and "spared rid r v w (w\<lparr>clock := t, faults := fs, entropy := bs\<rparr>)"
    by (simp_all add: spared_def claim_at_def claim_files_def)
qed

lemma spared_idle:
  assumes "idle w (w' :: 'a reap_state_scheme)"
  shows "spared rid r v w w'"
proof -
  have "work w' = work w" and "claims w' = claims w" by (rule idle_field [OF assms], simp)+
  moreover have "guarded rid r v w' = guarded rid r v w"
    using idle_run_file [OF assms, of lease_json rid] idle_record_of [OF assms, of rid] by (simp add: guarded_def empty_run_def)
  ultimately show ?thesis by (simp add: spared_def claim_at_def claim_files_def)
qed

lemma spared_quiet: "quiet w w' \<Longrightarrow> spared rid r v w (w' :: 'a reap_state_scheme)"
  by (intro spared_idle quiet_idle)

lemma always_quiet_spared: "always quiet m \<Longrightarrow> always (spared rid r v) (m :: ('a reap_state_scheme, 'b) io)"
  by (erule always_mono) (rule spared_quiet)

lemmas spared_reads [always_intro] = always_quiet_spared [OF quiet_Load] always_quiet_spared [OF quiet_list_runs]
  always_quiet_spared [OF quiet_LoadChildren]

lemma put_run_frame: "work (put_run n upd w) = work w" "claims (put_run n upd w) = claims (w :: 'a reap_state_scheme)"
  by (simp_all add: put_run_def split: option.split entry.split)

lemma spared_put_run:
  assumes "n \<noteq> rid \<or> (\<forall>d. run_json (upd d) = run_json d \<and> lease_json (upd d) = lease_json d)"
  shows "spared rid r v w (put_run n upd (w :: 'a reap_state_scheme))"
proof -
  have "run_file run_json (put_run n upd w) rid = run_file run_json w rid"
    and "run_file lease_json (put_run n upd w) rid = run_file lease_json w rid"
    using assms by (auto simp: run_file_put_run) (auto simp: run_file_def split: option.splits entry.splits)
  then show ?thesis by (simp add: spared_def guarded_def record_of_def put_run_frame claim_at_def claim_files_def)
qed

lemma spared_Mutate:
  assumes "n \<noteq> rid" and "\<And>b q. fn b = Inr q \<Longrightarrow> ID q = ID b"
  shows "always (spared rid r v) (Mutate n (\<lambda>b. lift_result (fn b)) :: ('a reap_state_scheme, run_record) io)"
proof (rule alwaysI)
  fix w w' :: "'a reap_state_scheme" and res
  assume "Mutate n (\<lambda>b. lift_result (fn b)) w = (res, w')"
  then show "spared rid r v w w'"
  proof (cases rule: Mutate_cases)
    case (save before w1 q w2 x)
    then have "ID before = n" by (auto simp: record_of_def split: option.splits json.splits if_splits)
    with save assms(2) have n: "ID q = n" and w2: "w2 = w1" by auto
    from save(6) have "spared rid r v w1 w'"
    proof (cases rule: atomicJSON_cases)
      case (1 e)
      then show ?thesis by (simp add: w2 spared_quiet)
    next
      case (2 d)
      have "spared rid r v w1 (put_run n (run_json_update (\<lambda>_. Some (Json q))) w1)" using assms(1) by (simp add: spared_put_run)
      with 2 show ?thesis by (auto simp: w2 n intro: spared.trans spared_quiet)
    qed
    with save(1) show ?thesis by (blast intro: spared.trans spared_idle)
  qed (auto intro: spared_idle)
qed

lemma spared_StoreTransition: "n \<noteq> rid \<Longrightarrow> always (spared rid r v) (StoreTransition n to now :: ('a reap_state_scheme, run_record) io)"
  unfolding StoreTransition_def by (rule spared_Mutate) (auto dest: transitionRecord_ID)

text \<open>Releasing the claim of another run.\<close>

definition other_claims :: "run_id \<Rightarrow> 'a sched_state_scheme \<Rightarrow> 'a sched_state_scheme \<Rightarrow> bool" where
  "other_claims n w w' \<longleftrightarrow> shrinks w w' \<and> (\<forall>m rid. rid \<noteq> n \<longrightarrow> claim_at w' m rid = claim_at w m rid)"

interpretation other_claims: os_guarantee "other_claims n" for n
  by unfold_locales (auto simp: other_claims_def shrinks.refl shrinks.faults shrinks.entropy claim_at_def claim_files_def
    intro: shrinks.trans)

lemma other_claims_quiet: "always quiet m \<Longrightarrow> always (other_claims n) (m :: ('a sched_state_scheme, 'b) io)"
  by (erule always_mono) (auto simp: other_claims_def quiet_claim_at quiet_shrinks)

lemma other_claims_Release: "always (other_claims n) (Release l m n)"
proof -
  have rm: "always (other_claims n) (remove_claim m n)"
    by (rule alwaysI) (auto simp: other_claims_def dest: remove_claim_any alwaysD [OF shrinks_remove_claim])
  show ?thesis
    unfolding Release_def withLock_def
    by (intro always_intro rm other_claims_quiet [OF quiet_lstat_claim] other_claims_quiet [OF quiet_validateClaimFile])
qed

lemma shrinks_guarded: "shrinks w w' \<Longrightarrow> guarded rid r v w' = guarded rid r v (w :: 'a reap_state_scheme) \<and> work w' = work w"
proof -
  assume "shrinks w w'"
  then have "runs w' = runs w" and "work w' = work w" by (rule shrinks_field, simp)+
  then show ?thesis by (simp add: guarded_def record_of_def run_file_def)
qed

lemma spared_Release: "n \<noteq> rid \<Longrightarrow> always (spared rid r v) (Release l m n :: ('a reap_state_scheme, unit) io)"
  by (rule always_mono [OF other_claims_Release]) (auto simp: spared_def other_claims_def dest: shrinks_guarded)

lemma spared_Reap:
  assumes "\<not> IsTerminal (State r)"
  shows "always (spared rid r v) (Reap l Load :: ('a reap_state_scheme, int) io)"
proof (rule alwaysI)
  fix w w' :: "'a reap_state_scheme" and q
  assume run: "Reap l Load w = (q, w')"
  have "always keeps_live (Reap l Load :: ('a reap_state_scheme, int) io)"
    unfolding Reap_def withLock_def by (intro always_intro store_loader.reapClaims_live)
  then have live: "keeps_live w w'" using run by (rule alwaysD)
  note shrunk = shrinks_guarded [OF alwaysD [OF shrinks_Reap run], of rid r v]
  have "live_run w rid" if "guarded rid r v w" using that assms by (simp add: guarded_def live_run_def)
  with live shrunk show "spared rid r v w w'" by (auto simp: spared_def keeps_live_def)
qed

lemma quiet_ReadLease [always_intro]: "always quiet (ReadLease rid)"
  unfolding ReadLease_def by (intro always_intro)

lemma quiet_ReadHasNoLease: "always quiet (ReadHasNoLease rid)"
  unfolding ReadHasNoLease_def by (intro always_intro)

lemma quiet_ReservationFor: "always quiet (ReservationFor l m rid)"
  unfolding ReservationFor_def withLock_def by (intro always_intro)

lemmas spared_reads2 [always_intro] = always_quiet_spared [OF quiet_ReadLease] always_quiet_spared [OF quiet_ReadHasNoLease]
  always_quiet_spared [OF quiet_ReservationFor]

lemma ReadLease_Inr: "ReadLease rid w = (Inr v, w') \<Longrightarrow> run_file lease_json w rid = Some (Json v)"
  by (auto simp: ReadLease_def runDir_def read_lease_def bindE_Inr dest: read_run_Inr)

lemma ReadLease_present:
  assumes "run_file lease_json w rid = Some (Json v)" and "ReadLease rid w = (Inl e, w')"
  shows "\<not> IsNotExist e"
proof
  assume "IsNotExist e"
  then have e: "e = ENotExist" by (cases e) auto
  with assms(2) obtain w1 where "os_call w = (Inr (), w1)" and "entry_file lease_json (map_of (runs w1) rid) = Inl ENotExist"
    by (auto simp: ReadLease_def runDir_def read_lease_def read_run_def bindE_Inl decode_json_def ensure_def os_call_def
        split: if_splits json.splits list.splits option.splits) (metis json.exhaust)
  moreover from this(1) have "map_of (runs w1) rid = map_of (runs w) rid"
    by (auto simp: quiet_def dest!: os_call_quiet)
  ultimately show False using assms(1) by (auto simp: run_file_Some entry_file_def entry_dir_def)
qed

definition active_state :: "run_state \<Rightarrow> bool" where
  "active_state s \<longleftrightarrow> s = RunStaging \<or> s = RunRunning \<or> s = RunCommitting"

lemma spared_mark: "n \<noteq> rid \<Longrightarrow> always (spared rid r v) (mark n to now tick report :: ('a reap_state_scheme, reap_report) io)"
  unfolding mark_def by (intro always_intro spared_StoreTransition)

lemma spared_reap_run_other:
  assumes "n \<noteq> rid"
  shows "always (spared rid r v) (reap_run l now acc n :: ('a reap_state_scheme, reap_report \<times> run_id list) io)"
  unfolding reap_run_def reap_queued_def reap_staging_def mark_lost_def ignore_def
  by (intro always_intro spared_mark spared_Release assms)

lemma reap_run_live:
  assumes "active_state (State r)" and "now - renewalGrace < ExpiresAt v"
    and "guarded rid r (Some (Json v)) w" and "reap_run l now acc rid w = (q, w')"
  shows "quiet w w'"
proof -
  obtain report active where acc: "acc = (report, active)" by force
  obtain x w1 where ld: "Load rid w = (x, w1)" by force
  have q1: "quiet w w1" using ld by (rule alwaysD [OF quiet_Load])
  show ?thesis
  proof (cases x)
    case (Inl e)
    with assms(4) ld q1 show ?thesis by (simp add: acc reap_run_def attempt_bind)
  next
    case (Inr r')
    with ld have "record_of w rid = Some r'" by (auto dest: Load_Inr)
    with assms(3) have r: "r' = r" by (simp add: guarded_def)
    obtain y w2 where rl: "ReadLease rid w1 = (y, w2)" by force
    have q2: "quiet w w2" using rl q1 by (blast intro: quiet.trans dest: alwaysD [OF quiet_ReadLease])
    have lease: "run_file lease_json w1 rid = Some (Json v)"
      using assms(3) run_file_quiet [OF q1, of lease_json rid] by (simp add: guarded_def)
    have "(case y of Inr v' \<Rightarrow> v' = v | Inl e \<Rightarrow> \<not> IsNotExist e)"
      using rl lease by (cases y) (auto dest: ReadLease_Inr ReadLease_present)
    with assms(1,2,4) ld Inr r rl q2 show ?thesis
      by (cases y) (auto simp: acc reap_run_def attempt_bind active_state_def)
  qed
qed

lemma spared_reap_run:
  assumes "active_state (State r)" and "now - renewalGrace < ExpiresAt v"
  shows "always (spared rid r (Some (Json v))) (reap_run l now acc n :: ('a reap_state_scheme, reap_report \<times> run_id list) io)"
proof (cases "n = rid")
  case True
  show ?thesis
  proof (rule alwaysI)
    fix w w' :: "'a reap_state_scheme" and q
    assume "reap_run l now acc n w = (q, w')"
    with True reap_run_live [OF assms, of rid w l acc q w'] show "spared rid r (Some (Json v)) w w'"
      by (cases "guarded rid r (Some (Json v)) w") (simp_all add: spared_quiet, simp add: spared_def)
  qed
next
  case False
  then show ?thesis by (rule spared_reap_run_other)
qed

text \<open>Work directories.\<close>

lemma guarded_work [simp]: "guarded rid r v (w\<lparr>work := x\<rparr>) = guarded rid r v w" "guarded rid r v (w\<lparr>trees := y\<rparr>) = guarded rid r v w"
  by (simp_all add: guarded_def record_of_def run_file_def)

lemma claim_at_work [simp]: "claim_at (w\<lparr>work := x\<rparr>) m rid = claim_at w m rid" "claim_at (w\<lparr>trees := y\<rparr>) m rid = claim_at w m rid"
  by (simp_all add: claim_at_def claim_files_def)

lemma spared_put_work:
  "n \<noteq> rid \<or> (\<forall>e. we_files (upd e) = we_files e) \<Longrightarrow> always (spared rid r v) (modify (put_work n upd))"
  by (auto simp: always_def modify_def spared_def put_work_def update_conv' split: option.splits)

lemma spared_removeTree: "n \<noteq> rid \<Longrightarrow> always (spared rid r v) (removeTree n)"
proof -
  assume "n \<noteq> rid"
  then have "always (spared rid r v) (modify (del_work n))"
    by (simp add: always_def modify_def spared_def del_work_def delete_conv')
  then show ?thesis unfolding removeTree_def using \<open>n \<noteq> rid\<close> by (intro always_intro spared_put_work) auto
qed

lemma spared_reap_partial: "n \<noteq> rid \<Longrightarrow> always (spared rid r v) (reap_partial now active report n)"
  unfolding reap_partial_def Let_def by (intro always_intro spared_removeTree)

context guarantee
begin

lemma always_foldE_in: "(\<And>acc x. x \<in> set xs \<Longrightarrow> always R (f acc x)) \<Longrightarrow> always R (foldE f acc xs)"
proof (induction xs arbitrary: acc)
  case (Cons x xs)
  then show ?case by (simp add: always_bindE)
qed (simp add: always_ret)

lemma always_asks_bind: "(\<And>w. always R (f (g w))) \<Longrightarrow> always R (bindE (asks g) f)"
  by (rule always_bind_result) (auto intro: always_intro)

end

lemma spared_reap_partials:
  "\<not> HasSuffix rid ''.partial'' \<Longrightarrow> always (spared rid r v) (reap_partials now active report)"
  unfolding reap_partials_def
  by (intro spared.always_bindE spared.always_os_call spared.always_asks_bind spared.always_foldE_in spared_reap_partial) auto

lemma spared_reap_sub:
  "(\<And>e. we_files (drop_it e) = we_files e) \<Longrightarrow> always (spared rid r v) (reap_sub now get drop_it n k)"
  unfolding reap_sub_def by (intro always_intro spared_put_work) auto

lemma spared_reap_workspace:
  assumes "n \<noteq> rid \<or> \<not> terminal"
  shows "always (spared rid r v) (reap_workspace now acc n terminal)"
proof -
  have "always (spared rid r v) (removeTree n)" if terminal using assms that by (simp add: spared_removeTree)
  then show ?thesis
    unfolding reap_workspace_def Let_def by (intro always_intro spared_reap_sub) auto
qed

lemma spared_reap_work:
  assumes "\<not> IsTerminal (State r)"
  shows "always (spared rid r v) (reap_work now acc n)"
proof (rule alwaysI)
  fix w w' :: "'b reap_state_scheme" and q
  assume run: "reap_work now acc n w = (q, w')"
  show "spared rid r v w w'"
  proof (cases "guarded rid r v w \<and> ValidRunID n")
    case True
    obtain x w1 where ld: "Load n w = (x, w1)" by force
    let ?terminal = "case x of Inr r' \<Rightarrow> IsTerminal (State r') | Inl _ \<Rightarrow> False"
    have "n \<noteq> rid \<or> \<not> ?terminal"
      using True ld assms by (cases x) (auto simp: guarded_def dest: Load_Inr)
    moreover have "reap_workspace now acc n ?terminal w1 = (q, w')"
      using run ld True by (simp add: reap_work_def attempt_bind)
    ultimately have "spared rid r v w1 w'" by (blast intro: alwaysD [OF spared_reap_workspace])
    moreover have "spared rid r v w w1" using ld by (intro spared_quiet) (rule alwaysD [OF quiet_Load])
    ultimately show ?thesis by (rule spared.trans [rotated])
  next
    case False
    with run show ?thesis by (auto simp: reap_work_def spared_def)
  qed
qed

lemma spared_reapWorkDirs: "\<not> IsTerminal (State r) \<Longrightarrow> always (spared rid r v) (reapWorkDirs now)"
  unfolding reapWorkDirs_def by (intro always_intro spared_reap_work)

lemma spared_trees [always_intro]: "always (spared rid r v) (modify (\<lambda>w. w\<lparr>trees := f w\<rparr>))"
  by (simp add: always_def modify_def spared_def)

lemma spared_RemoveAll [always_intro]: "always (spared rid r v) (RemoveAll p)"
  unfolding RemoveAll_def remove_path_def by (intro always_intro)

lemma spared_reapTransferDirs: "always (spared rid r v) (reapTransferDirs l now)"
  unfolding reapTransferDirs_def reap_transfer_def by (intro always_intro)

lemma spared_reapRemoteTurds: "local_runner ssh \<Longrightarrow> always (spared rid r v) (reapRemoteTurds ssh now)"
  unfolding reapRemoteTurds_def reap_remote_def by (intro always_intro)

lemma spared_ReapArtifacts: "always (spared rid r v) (ReapArtifacts now :: ('a reap_state_scheme, int) io)"
proof -
  have "always (spared rid r v) (modify (put_run n (artifacts_dir_update f)) :: ('a reap_state_scheme, unit) io)" for n f
    unfolding always_def modify_def by (simp add: spared_put_run)
  then show ?thesis
    unfolding ReapArtifacts_def reap_artifacts_def
    by (intro always_intro always_quiet_spared [OF read_run_quiet])
qed

lemma spared_cleanSharedSource [always_intro]: "always (spared rid r v) (cleanSharedSource l p)"
  unfolding cleanSharedSource_def ignore_def by (intro always_intro)

lemma spared_finish_parent:
  assumes "ID p \<noteq> rid \<or> Children p = []"
  shows "always (spared rid r v) (finish_parent l now p)"
proof (cases "Children p = []")
  case True
  then show ?thesis unfolding finish_parent_def by (simp add: always_intro)
next
  case False
  have "always (spared rid r v) (Mutate (ID p) (\<lambda>r. lift_result (Inr
      (if IsTerminal (State r) then r else r\<lparr>State := s, UpdatedAt := now\<rparr>))) :: ('b reap_state_scheme, run_record) io)" for s
    using assms False by (intro spared_Mutate) auto
  then show ?thesis unfolding finish_parent_def Let_def by (intro always_intro)
qed

lemma record_of_ID: "record_of w rid = Some r \<Longrightarrow> ID r = rid"
  by (auto simp: record_of_def split: option.splits json.splits if_splits)

lemma spared_aggregate_parent:
  assumes "Children r = []"
  shows "always (spared rid r v) (aggregate_parent l now n)"
proof (rule alwaysI)
  fix w w' :: "'b reap_state_scheme" and q
  assume run: "aggregate_parent l now n w = (q, w')"
  obtain x w1 where ld: "Load n w = (x, w1)" by force
  have q1: "spared rid r v w w1" using ld by (intro spared_quiet) (rule alwaysD [OF quiet_Load])
  show "spared rid r v w w'"
  proof (cases x)
    case (Inl e)
    with run ld q1 show ?thesis by (simp add: aggregate_parent_def attempt_bind)
  next
    case (Inr p)
    with ld have p: "record_of w n = Some p" by (auto dest: Load_Inr)
    show ?thesis
    proof (cases "guarded rid r v w")
      case True
      with p assms have "ID p \<noteq> rid \<or> Children p = []" by (metis guarded_def option.inject record_of_ID)
      moreover from run ld Inr have "finish_parent l now p w1 = (q, w')" by (simp add: aggregate_parent_def attempt_bind)
      ultimately have "spared rid r v w1 w'" by (blast intro: alwaysD [OF spared_finish_parent])
      with q1 show ?thesis by (rule spared.trans)
    qed (simp add: spared_def)
  qed
qed

lemma spared_Run:
  assumes "active_state (State r)" and "now - renewalGrace < ExpiresAt v" and "Children r = []"
    and "\<not> HasSuffix rid ''.partial''" and "local_runner ssh"
  shows "always (spared rid r (Some (Json v))) (Run l ssh now)"
proof -
  have nt: "\<not> IsTerminal (State r)" using assms(1) by (auto simp: active_state_def IsTerminal_def)
  have "always (spared rid r (Some (Json v))) (aggregateParents l now)"
    unfolding aggregateParents_def by (intro always_intro spared_aggregate_parent assms(3))
  then show ?thesis
    unfolding Run_def
    by (intro always_intro spared_reap_run spared_reap_partials spared_reapTransferDirs spared_reapWorkDirs
        spared_reapRemoteTurds spared_Reap spared_ReapArtifacts nt assms)
qed

text \<open>
  The whole work directory of one run, its \<open>.tmp\<close> and \<open>.home\<close> included: only \<open>reap_work\<close> of that run can
  touch them, and it does not when it can read the lease.
\<close>

definition work_kept :: "run_id \<Rightarrow> 'a reap_state_scheme \<Rightarrow> 'a reap_state_scheme \<Rightarrow> bool" where
  "work_kept rid w w' \<longleftrightarrow> map_of (work w') rid = map_of (work w) rid"

interpretation work_kept: remote_guarantee "work_kept rid" for rid
  by unfold_locales (simp_all add: work_kept_def)

lemma work_kept_same: "work w' = work w \<Longrightarrow> work_kept rid w w'"
  by (simp add: work_kept_def)

lemma work_kept_idle: "idle w w' \<Longrightarrow> work_kept rid w (w' :: 'a reap_state_scheme)"
  by (rule work_kept_same, erule idle_field) simp

lemma always_quiet_work: "always quiet m \<Longrightarrow> always (work_kept rid) (m :: ('a reap_state_scheme, 'b) io)"
  by (erule always_mono) (blast intro: work_kept_idle quiet_idle)

lemmas work_reads [always_intro] = always_quiet_work [OF quiet_Load] always_quiet_work [OF quiet_list_runs]
  always_quiet_work [OF quiet_LoadChildren] always_quiet_work [OF read_run_quiet] always_quiet_work [OF quiet_ReadLease]
  always_quiet_work [OF quiet_ReadHasNoLease] always_quiet_work [OF quiet_ReservationFor]

lemma always_shrinks_work: "always shrinks m \<Longrightarrow> always (work_kept rid) (m :: ('a reap_state_scheme, 'b) io)"
  by (erule always_mono) (metis shrinks_guarded work_kept_same)

lemma work_Mutate [always_intro]: "always (work_kept rid) (Mutate n (\<lambda>b. lift_result (fn b)) :: ('a reap_state_scheme, run_record) io)"
proof (rule alwaysI)
  fix w w' :: "'a reap_state_scheme" and res
  assume "Mutate n (\<lambda>b. lift_result (fn b)) w = (res, w')"
  then show "work_kept rid w w'"
  proof (cases rule: Mutate_cases)
    case (save before w1 q w2 x)
    from save(6) have "work_kept rid w2 w'"
    proof (cases rule: atomicJSON_cases)
      case (1 e)
      then show ?thesis by (blast intro: work_kept_idle quiet_idle)
    next
      case (2 d)
      have "work_kept rid w2 (put_run (ID q) (run_json_update (\<lambda>_. Some (Json q))) w2)" by (simp add: work_kept_def put_run_frame)
      with 2 show ?thesis by (blast intro: work_kept.trans work_kept_idle quiet_idle)
    qed
    with save(1,3) show ?thesis by (auto intro: work_kept.trans work_kept_idle)
  qed (auto intro: work_kept_idle)
qed

lemma work_modify [always_intro]: "always (work_kept rid) (modify (put_run n upd))" "always (work_kept rid) (modify (\<lambda>w. w\<lparr>trees := f w\<rparr>))"
  by (simp_all add: always_def modify_def work_kept_def put_run_frame)

lemma work_reap_run: "always (work_kept rid) (reap_run l now acc n)"
  unfolding reap_run_def reap_queued_def reap_staging_def mark_lost_def mark_def ignore_def StoreTransition_def
  by (intro always_intro always_shrinks_work [OF shrinks_Release])

lemma work_reap_partials: "\<not> HasSuffix rid ''.partial'' \<Longrightarrow> always (work_kept rid) (reap_partials now active report)"
proof -
  assume suffix: "\<not> HasSuffix rid ''.partial''"
  have "always (work_kept rid) (modify (put_work n upd))" "always (work_kept rid) (modify (del_work n))" if "n \<noteq> rid"
    for n upd
    using that by (auto simp: always_def modify_def work_kept_def put_work_def del_work_def update_conv' delete_conv' split: option.splits)
  then have partial: "always (work_kept rid) (reap_partial now active report n)" if "n \<noteq> rid" for report n
    unfolding reap_partial_def Let_def removeTree_def using that by (intro always_intro) auto
  have "always (work_kept rid) (foldE (reap_partial now active) report (filter (\<lambda>n. HasSuffix n ''.partial'') ns))" for ns
    using suffix by (intro work_kept.always_foldE_in partial) auto
  then show ?thesis
    unfolding reap_partials_def by (intro work_kept.always_bindE [OF work_kept.always_os_call] work_kept.always_asks_bind)
qed

lemma work_reap_work: "n \<noteq> rid \<Longrightarrow> always (work_kept rid) (reap_work now acc n)"
proof -
  assume "n \<noteq> rid"
  then have "always (work_kept rid) (modify (put_work n upd))" "always (work_kept rid) (modify (del_work n))" for upd
    by (auto simp: always_def modify_def work_kept_def put_work_def del_work_def update_conv' delete_conv' split: option.splits)
  then show ?thesis
    unfolding reap_work_def reap_workspace_def reap_sub_def removeTree_def Let_def by (intro always_intro)
qed

lemma work_others: "always (work_kept rid) (reapTransferDirs l now)" "local_runner ssh \<Longrightarrow> always (work_kept rid) (reapRemoteTurds ssh now)"
    "always (work_kept rid) (ReapArtifacts now)" "always (work_kept rid) (aggregateParents l now)"
  unfolding reapTransferDirs_def reap_transfer_def RemoveAll_def remove_path_def reapRemoteTurds_def reap_remote_def ReapArtifacts_def
    reap_artifacts_def aggregateParents_def aggregate_parent_def finish_parent_def cleanSharedSource_def ignore_def Let_def
  by (intro always_intro; assumption?)+

lemma spent_mkdir_run [always_intro]: "always spent (mkdir_run rid)"
  unfolding mkdir_run_def in_run_def by (intro always_intro) (simp add: spent_add_run)

lemma spent_put_run [always_intro]: "always spent (modify (put_run rid upd))"
  by (intro always_intro) simp

lemma spent_Mutate: "always spent (Mutate rid (\<lambda>b. lift_result (fn b)))"
  unfolding Mutate_def Acquire_def runDir_def saveUnlocked_def atomicJSON_def in_run_def by (intro always_intro)

lemma spent_reap_run: "always spent (reap_run l now acc n)"
  unfolding reap_run_def reap_queued_def reap_staging_def mark_lost_def mark_def ignore_def StoreTransition_def
    ReservationFor_def Release_def ReadHasNoLease_def ReadLease_def read_lease_def runDir_def
  by (intro always_intro spent_Mutate)

lemma spent_work: "faults (put_work n upd w) = faults w" "faults (del_work n w) = faults w"
  by (simp_all add: put_work_def del_work_def split: option.split)

lemma spent_sweep: "always spent (reap_partials now active report)" "always spent (reapTransferDirs l now)"
    "always spent (reap_work now acc n)"
  unfolding reap_partials_def reap_partial_def removeTree_def ReadLease_def read_lease_def runDir_def reapTransferDirs_def
    reap_transfer_def RemoveAll_def remove_path_def reap_work_def reap_workspace_def reap_sub_def Let_def
  by (intro always_intro; simp add: spent_work)+

text \<open>What a part of the pass keeps when it starts without a fault.\<close>

definition intact :: "run_id \<Rightarrow> run_record \<Rightarrow> lease json option \<Rightarrow> 'a reap_state_scheme \<Rightarrow> 'a reap_state_scheme \<Rightarrow> bool" where
  "intact rid r v w w' \<longleftrightarrow> (faults w = [] \<and> guarded rid r v w \<longrightarrow> faults w' = [] \<and> guarded rid r v w' \<and> work_kept rid w w')"

interpretation intact: guarantee "intact rid r v" for rid r v
  by unfold_locales (auto simp: intact_def work_kept_def)

lemma always_intact:
  "always spent m \<Longrightarrow> always (spared rid r v) m \<Longrightarrow> always (work_kept rid) m \<Longrightarrow> always (intact rid r v) m"
  by (simp add: always_def intact_def spent_def spared_def)

lemma intact_reap_work:
  assumes "\<not> IsTerminal (State r)" and "now - renewalGrace < ExpiresAt v"
  shows "always (intact rid r (Some (Json v))) (reap_work now acc n)"
proof (cases "n = rid")
  case False
  then show ?thesis by (intro always_intact spent_sweep spared_reap_work work_reap_work assms)
next
  case True
  show ?thesis
  proof (rule alwaysI)
    fix w w' :: "'b reap_state_scheme" and q
    assume run: "reap_work now acc n w = (q, w')"
    show "intact rid r (Some (Json v)) w w'"
    proof (cases "faults w = [] \<and> guarded rid r (Some (Json v)) w")
      case g: True
      then have rec: "record_of w rid = Some r" and ls: "run_file lease_json w rid = Some (Json v)" by (auto simp: guarded_def)
      from rec obtain d where d: "map_of (runs w) rid = Some (Sub d)" and valid: "ValidRunID rid"
        by (auto simp: record_of_def run_file_Some split: option.splits json.splits if_splits)
      from ls d have "lease_json d = Some (Json v)" by (simp add: run_file_def)
      then have "ReadLease rid w = (Inr v, w)"
        using g d ValidRunID_ValidName [OF valid]
        by (simp add: ReadLease_def runDir_def read_lease_def io_eval read_run_ok entry_file_def entry_dir_def decode_json_def)
      then have "w' = w"
        using run True assms valid Load_ok [OF conjunct1 [OF g] rec] 
        by (cases acc) (simp add: reap_work_def reap_workspace_def io_eval)
      then show ?thesis using intact.refl by blast
    qed (auto simp: intact_def)
  qed
qed

definition whole :: "run_id \<Rightarrow> run_record \<Rightarrow> lease json option \<Rightarrow> 'a reap_state_scheme \<Rightarrow> 'a reap_state_scheme \<Rightarrow> bool" where
  "whole rid r v w w' \<longleftrightarrow> (faults w = [] \<and> guarded rid r v w \<longrightarrow> work_kept rid w w')"

lemma whole_bind:
  assumes "always (intact rid r v) m" and "\<And>x. always (whole rid r v) (f x)"
  shows "always (whole rid r v) (bindE m f)"
proof (rule alwaysI)
  fix w q w'
  assume "bindE m f w = (q, w')"
  with assms(1) show "whole rid r v w w'"
  proof (cases rule: bind_always_cases)
    case (error e)
    then show ?thesis by (simp add: whole_def intact_def)
  next
    case (step x w1)
    from alwaysD [OF assms(2) step(3)] step(1) show ?thesis by (auto simp: whole_def intact_def work_kept_def)
  qed
qed

lemma whole_kept: "always (work_kept rid) m \<Longrightarrow> always (whole rid r v) m"
  by (simp add: always_def whole_def)

lemma whole_Run:
  assumes "active_state (State r)" and "now - renewalGrace < ExpiresAt v" and "\<not> HasSuffix rid ''.partial''" and "local_runner ssh"
  shows "always (whole rid r (Some (Json v))) (Run l ssh now)"
proof -
  have nt: "\<not> IsTerminal (State r)" using assms(1) by (auto simp: active_state_def IsTerminal_def)
  let ?I = "intact rid r (Some (Json v)) :: 'a reap_state_scheme \<Rightarrow> 'a reap_state_scheme \<Rightarrow> bool"
  have call: "always ?I os_call" "always ?I (list_runs :: ('a reap_state_scheme, string list) io)"
    unfolding list_runs_def by (intro always_intact always_intro)+
  have runs: "always ?I (foldE (reap_run l now) a ns)" for a ns
    by (intro intact.always_foldE always_intact spent_reap_run spared_reap_run work_reap_run assms)
  have sweep: "always ?I (reap_partials now active report)" "always ?I (reapTransferDirs l now)" for active report
    by (intro always_intact spent_sweep spared_reap_partials spared_reapTransferDirs work_reap_partials work_others assms)+
  have works: "always ?I (reapWorkDirs now)"
    unfolding reapWorkDirs_def
    by (intro intact.always_bindE call intact.always_asks intact.always_foldE intact_reap_work nt assms)
  show ?thesis
    unfolding Run_def
    apply (rule whole_bind [OF call(2)], rule whole_bind [OF runs])
    apply (rule always_case_prod, rule whole_bind [OF sweep(1)], rule whole_bind [OF sweep(2)], rule whole_bind [OF works])
    by (intro whole_kept always_intro work_others always_shrinks_work [OF shrinks_Reap] assms)
qed

text \<open>
  C7: The maintenance pass leaves a working run alone. Whatever fails during the pass, a run that is
  staging, running or committing and holds a lease that has not been expired for the grace period keeps
  its record, its lease, the files of its workspace and its claim on the machine; and when no call of the
  operating system fails before the work directories are swept, its whole work directory, with the temporary
  directories \<open>.tmp\<close> and \<open>.home\<close> that its jobs use. On a fault path those two are not protected: a lease that
  cannot be read counts as none there (\<open>Vci_Reaper_Examples.unreadable_lease_loses_tmp\<close>).
\<close>

theorem live_worker_spared:
  assumes "Run l ssh now w = (res, w')" and "local_runner ssh"
    and "record_of w rid = Some r" and "active_state (State r)" and "Children r = []"
    and "run_file lease_json w rid = Some (Json v)" and "now - renewalGrace < ExpiresAt v"
    and "\<not> HasSuffix rid ''.partial''"
  shows "record_of w' rid = Some r \<and> run_file lease_json w' rid = Some (Json v)
    \<and> map_option we_files (map_of (work w') rid) = map_option we_files (map_of (work w) rid)
    \<and> (\<forall>m. claim_at w m rid \<noteq> None \<longrightarrow> claim_at w' m rid \<noteq> None)
    \<and> (faults w = [] \<longrightarrow> map_of (work w') rid = map_of (work w) rid)"
  using alwaysD [OF spared_Run [OF assms(4,7,5,8,2)] assms(1)] alwaysD [OF whole_Run [OF assms(4,7,8,2)] assms(1)] assms(3,6)
  by (simp add: spared_def guarded_def whole_def work_kept_def)

section \<open>The invariants of the coordinator\<close>

lemma safe_same:
  assumes "claims w' = claims w" and "\<And>rid. run_file run_json w' rid = run_file run_json w rid"
    and "\<And>rid. run_file result_json w' rid = run_file result_json w rid"
  shows "safe_change cfg w (w' :: 'a sched_state_scheme)"
proof -
  have "claim_count w' m = claim_count w m" for m
    using assms(1) by (simp add: claim_count_def claim_set_def claim_at_def claim_files_def)
  with assms show ?thesis by (simp add: safe_change_def within_capacity_def record_of_def)
qed

interpretation safe: remote_guarantee "safe_change cfg" for cfg
proof
  fix u v w :: "'a sched_state_scheme"
  show "safe_change cfg w w" by (simp add: safe_change_def)
  assume "safe_change cfg u v" and "safe_change cfg v w"
  then show "safe_change cfg u w" unfolding safe_change_def by blast
next
  fix w :: "'a sched_state_scheme" and t fs bs
  show "safe_change cfg w (w\<lparr>faults := fs\<rparr>)" "safe_change cfg w (w\<lparr>entropy := bs\<rparr>)"
    and "safe_change cfg w (w\<lparr>clock := t, faults := fs, entropy := bs\<rparr>)"
    by (rule safe_same; simp add: run_file_def)+
qed

lemma safe_quiet: "quiet w w' \<Longrightarrow> safe_change cfg w (w' :: 'a sched_state_scheme)"
  by (rule safe_same) (auto simp: quiet_def run_file_def)

lemma always_quiet_safe: "always quiet m \<Longrightarrow> always (safe_change cfg) (m :: ('a sched_state_scheme, 'b) io)"
  by (erule always_mono) (rule safe_quiet)

lemmas safe_reads [always_intro] = always_quiet_safe [OF quiet_Load] always_quiet_safe [OF quiet_list_runs]
  always_quiet_safe [OF quiet_LoadChildren] always_quiet_safe [OF quiet_ReadLease] always_quiet_safe [OF quiet_ReadHasNoLease]
  always_quiet_safe [OF quiet_ReservationFor] always_quiet_safe [OF read_run_quiet]

text \<open>What the pass changes beyond runs and claims is of no concern to the invariants.\<close>

lemma safe_other [always_intro]:
  "(\<And>w. runs (g w) = runs w \<and> claims (g w) = claims w) \<Longrightarrow> always (safe_change cfg) (modify g)"
  by (simp add: always_def modify_def safe_same run_file_def)

lemma safe_work [always_intro]: "always (safe_change cfg) (modify (put_work n upd))" "always (safe_change cfg) (modify (del_work n))"
  by (rule safe_other, simp add: put_work_def del_work_def split: option.split)+

lemma safe_trees [always_intro]: "always (safe_change cfg) (modify (\<lambda>w. w\<lparr>trees := f w\<rparr>))"
  by (rule safe_other) simp

lemma safe_RemoveAll [always_intro]: "always (safe_change cfg) (RemoveAll p)"
  unfolding RemoveAll_def remove_path_def by (intro always_intro)

lemma safe_put_artifacts [always_intro]: "always (safe_change cfg) (modify (put_run n (artifacts_dir_update f)))"
proof -
  have "safe_change cfg w (put_run n (artifacts_dir_update f) w)" for w :: "'a sched_state_scheme"
  proof (rule safe_same)
    show "claims (put_run n (artifacts_dir_update f) w) = claims w"
      by (simp add: put_run_def split: option.split entry.split)
    fix rid
    show "run_file run_json (put_run n (artifacts_dir_update f) w) rid = run_file run_json w rid"
      and "run_file result_json (put_run n (artifacts_dir_update f) w) rid = run_file result_json w rid"
      by (auto simp: run_file_put_run) (auto simp: run_file_def split: option.splits entry.splits)
  qed
  then show ?thesis by (simp add: always_def modify_def)
qed

locale checked_config =
  fixes cfg :: config
  assumes valid: "Validate cfg = Inr ()" and names: "distinct (map fst (Machines cfg))"
begin

lemma safe_steps: "always (sched_step cfg)\<^sup>*\<^sup>* m \<Longrightarrow> always (safe_change cfg) (m :: ('a sched_state_scheme, 'b) io)"
  by (erule always_mono) (rule steps_safe [OF _ valid names])

lemma safe_parts [always_intro]:
  "always (safe_change cfg) (StoreTransition n to now :: ('a sched_state_scheme, run_record) io)"
  "always (safe_change cfg) (Release l m n :: ('a sched_state_scheme, unit) io)"
  "always (safe_change cfg) (Reap l Load :: ('a sched_state_scheme, int) io)"
  "always (safe_change cfg) (Mutate n (\<lambda>r. lift_result (Inr
      (if IsTerminal (State r) then r else r\<lparr>State := s, UpdatedAt := t\<rparr>))) :: ('a sched_state_scheme, run_record) io)"
     apply (rule safe_steps, rule steps_StoreTransition)
    apply (rule safe_steps, rule steps_Release)
   apply (rule safe_steps, rule always_step, erule sched_step.reap)
  apply (rule safe_steps, rule always_step, rule sched_step.store, rule store_step.mutate [rotated], assumption, auto)
  done

lemma safe_reap_run [always_intro]: "always (safe_change cfg) (reap_run l now acc n)"
  unfolding reap_run_def reap_queued_def reap_staging_def mark_lost_def mark_def ignore_def by (intro always_intro)

lemma safe_reap_partials [always_intro]: "always (safe_change cfg) (reap_partials now a rep)"
  unfolding reap_partials_def reap_partial_def removeTree_def Let_def by (intro always_intro)

lemma safe_reapTransferDirs [always_intro]: "always (safe_change cfg) (reapTransferDirs l now)"
  unfolding reapTransferDirs_def reap_transfer_def by (intro always_intro)

lemma safe_reapWorkDirs [always_intro]: "always (safe_change cfg) (reapWorkDirs now)"
  unfolding reapWorkDirs_def reap_work_def reap_workspace_def reap_sub_def removeTree_def Let_def by (intro always_intro)

lemma safe_reapRemoteTurds [always_intro]: "local_runner ssh \<Longrightarrow> always (safe_change cfg) (reapRemoteTurds ssh now)"
  unfolding reapRemoteTurds_def reap_remote_def by (intro always_intro)

lemma safe_ReapArtifacts [always_intro]: "always (safe_change cfg) (ReapArtifacts now)"
  unfolding ReapArtifacts_def reap_artifacts_def by (intro always_intro)

lemma safe_aggregateParents [always_intro]: "always (safe_change cfg) (aggregateParents l now)"
  unfolding aggregateParents_def aggregate_parent_def finish_parent_def cleanSharedSource_def ignore_def Let_def
  by (intro always_intro)

lemma safe_Run: "local_runner ssh \<Longrightarrow> always (safe_change cfg) (Run l ssh now)"
  unfolding Run_def by (intro always_intro)

end

text \<open>The configuration a fresh root starts from is a checked one.\<close>

interpretation default: checked_config Defaults
  by unfold_locales (simp_all add: validate_eval)

text \<open>
  C14: The maintenance pass keeps the invariants of the coordinator whatever fails in it: no machine
  goes over its capacity, no terminal record changes, no published result is replaced or removed.
\<close>

theorem maintenance_safe:
  assumes "Validate cfg = Inr ()" and "distinct (map fst (Machines cfg))" and "local_runner ssh"
  shows "always (safe_change cfg) (Run l ssh now :: ('a reap_state_scheme, reap_report) io)"
proof -
  from assms(1,2) have "checked_config cfg" by unfold_locales
  then show ?thesis using assms(3) by (rule checked_config.safe_Run)
qed

section \<open>What may be deleted\<close>

text \<open>A relative path that does not climb leads strictly below its base.\<close>

lemma strip_common_split: "strip_common as bs = (as', bs') \<Longrightarrow> \<exists>cs. as = cs @ as' \<and> bs = cs @ bs'"
proof (induction as bs rule: strip_common.induct)
  case (1 a as b bs)
  then show ?case by (auto split: if_splits)
qed auto

lemma Rel_below:
  assumes "Rel base p = Some rel" and "rel \<noteq> ''.''" and "\<not> HasPrefix rel ''..''"
  shows "\<exists>ts. path_segs p = path_segs base @ ts \<and> ts \<noteq> []"
proof -
  obtain bs ts where st: "strip_common (path_segs base) (path_segs p) = (bs, ts)" by force
  from assms st have ne: "Clean base \<noteq> Clean p" and abs: "IsAbs base = IsAbs p"
    and rel: "rel = Join (replicate (length bs) ''..'' @ ts) ''/''"
    by (auto simp: Rel_def split: if_splits)
  have "bs = []"
  proof (rule ccontr)
    assume "bs \<noteq> []"
    then obtain b bs' where "bs = b # bs'" by (cases bs) auto
    then have "HasPrefix rel ''..''"
      unfolding rel by (cases "replicate (length bs') ''..'' @ ts") (simp_all add: HasPrefix_def)
    with assms(3) show False ..
  qed
  with strip_common_split [OF st] have segs: "path_segs p = path_segs base @ ts" by simp
  moreover have "ts \<noteq> []"
  proof
    assume "ts = []"
    with segs abs have "Clean base = Clean p" by (simp add: Clean_def)
    with ne show False ..
  qed
  ultimately show ?thesis by blast
qed

definition strictly_below :: "string list \<Rightarrow> string list \<Rightarrow> bool" where
  "strictly_below b p \<longleftrightarrow> below b p \<and> length b < length p"

lemma below_append: "below (b @ ts) p \<Longrightarrow> ts \<noteq> [] \<Longrightarrow> strictly_below b p"
proof -
  assume "below (b @ ts) p" and "ts \<noteq> []"
  then have take: "take (length b + length ts) p = b @ ts" by (simp add: below_def)
  then have "length b + length ts \<le> length p" by (metis length_append length_take min.cobounded1 nat_le_linear take_all)
  moreover have "take (length b) p = b"
    using arg_cong [OF take, of "take (length b)"] by (simp add: min_absorb1)
  ultimately show ?thesis using \<open>ts \<noteq> []\<close> by (cases ts) (auto simp: strictly_below_def below_def)
qed

definition confined :: "layout \<Rightarrow> 'a reap_state_scheme \<Rightarrow> 'a reap_state_scheme \<Rightarrow> bool" where
  "confined l w w' \<longleftrightarrow> blobs w' = blobs w
     \<and> (\<forall>t \<in> set (trees w). \<not> strictly_below (path_segs (TempDir l)) (fst t) \<longrightarrow> t \<in> set (trees w'))"

interpretation confined: remote_guarantee "confined l" for l
  by unfold_locales (auto simp: confined_def)

lemma confined_idle: "idle w w' \<Longrightarrow> confined l w (w' :: 'a reap_state_scheme)"
proof -
  assume "idle w w'"
  then have "trees w' = trees w" and "blobs w' = blobs w" by (rule idle_field, simp)+
  then show ?thesis by (simp add: confined_def)
qed

lemma always_quiet_confined: "always quiet m \<Longrightarrow> always (confined l) (m :: ('a reap_state_scheme, 'b) io)"
  by (erule always_mono) (blast intro: confined_idle quiet_idle)

lemma always_shrinks_confined: "always shrinks m \<Longrightarrow> always (confined l) (m :: ('a reap_state_scheme, 'b) io)"
proof (erule always_mono)
  fix u v :: "'a reap_state_scheme"
  assume "shrinks u v"
  then have "trees v = trees u" and "blobs v = blobs u" by (rule shrinks_field, simp)+
  then show "confined l u v" by (simp add: confined_def)
qed

lemmas confined_reads [always_intro] = always_quiet_confined [OF quiet_Load] always_quiet_confined [OF quiet_list_runs]
  always_quiet_confined [OF quiet_LoadChildren] always_quiet_confined [OF quiet_ReadLease] always_quiet_confined [OF quiet_ReadHasNoLease]
  always_quiet_confined [OF quiet_ReservationFor] always_quiet_confined [OF read_run_quiet]
  always_shrinks_confined [OF shrinks_Release] always_shrinks_confined [OF shrinks_Reap]

lemma put_run_confined: "confined l w (put_run n upd (w :: 'a reap_state_scheme))"
  by (simp add: confined_def put_run_def split: option.split entry.split)

lemma confined_Mutate [always_intro]: "always (confined l) (Mutate n (\<lambda>b. lift_result (fn b)) :: ('a reap_state_scheme, run_record) io)"
proof (rule alwaysI)
  fix w w' :: "'a reap_state_scheme" and res
  assume "Mutate n (\<lambda>b. lift_result (fn b)) w = (res, w')"
  then show "confined l w w'"
  proof (cases rule: Mutate_cases)
    case (save before w1 q w2 x)
    from save(6) have "confined l w2 w'"
      by (cases rule: atomicJSON_cases) (blast intro: confined_idle quiet_idle confined.trans put_run_confined)+
    with save(1,3) show ?thesis by (auto intro: confined.trans confined_idle)
  qed (auto intro: confined_idle)
qed

lemma confined_other:
  "(\<And>w. trees (g w) = trees w \<and> blobs (g w) = blobs w) \<Longrightarrow> always (confined l) (modify g)"
  by (simp add: always_def modify_def confined_def)

lemma confined_work [always_intro]: "always (confined l) (modify (put_work n upd))" "always (confined l) (modify (del_work n))"
  "always (confined l) (modify (put_run n upd'))"
  by (rule confined_other, simp add: put_work_def del_work_def put_run_def split: option.split entry.split)+

lemma confined_RemoveAll:
  assumes "ts \<noteq> []"
  shows "always (confined l) (RemoveAll (path_segs (TempDir l) @ ts))"
proof -
  have "always (confined l) (remove_path failed q)" if "below (path_segs (TempDir l) @ ts) q" for failed q
  proof -
    have "strictly_below (path_segs (TempDir l)) q" using that assms by (rule below_append)
    then have "always (confined l) (modify (\<lambda>w. w\<lparr>trees := filter (\<lambda>t. fst t \<noteq> q) (trees w)\<rparr>))"
      by (auto simp: always_def modify_def confined_def)
    then show ?thesis unfolding remove_path_def by (intro always_intro)
  qed
  then show ?thesis
    unfolding RemoveAll_def by (intro confined.always_asks_bind confined.always_bindE confined.always_foldE_in always_intro) auto
qed

lemma confined_cleanSharedSource [always_intro]: "always (confined l) (cleanSharedSource l p)"
proof (cases "\<exists>rel. Rel (TempDir l) p = Some rel \<and> rel \<noteq> ''.'' \<and> \<not> HasPrefix rel ''..''")
  case True
  then obtain ts where "path_segs p = path_segs (TempDir l) @ ts" "ts \<noteq> []" using Rel_below by blast
  then show ?thesis
    unfolding cleanSharedSource_def ignore_def by (intro always_intro) (simp add: confined_RemoveAll)
next
  case False
  then show ?thesis unfolding cleanSharedSource_def by (auto intro!: always_intro split: option.split)
qed

lemma confined_Run:
  assumes "local_runner ssh"
  shows "always (confined l) (Run l ssh now)"
proof -
  have "always (confined l) (reap_run l now acc n)" for acc n
    unfolding reap_run_def reap_queued_def reap_staging_def mark_lost_def mark_def StoreTransition_def ignore_def
    by (intro always_intro)
  moreover have "always (confined l) (reap_partials now a rep)" for a rep
    unfolding reap_partials_def reap_partial_def removeTree_def Let_def by (intro always_intro)
  moreover have "always (confined l) (reapTransferDirs l now)"
    unfolding reapTransferDirs_def reap_transfer_def by (intro always_intro confined_RemoveAll) simp
  moreover have "always (confined l) (reapWorkDirs now)"
    unfolding reapWorkDirs_def reap_work_def reap_workspace_def reap_sub_def removeTree_def Let_def by (intro always_intro)
  moreover have "always (confined l) (reapRemoteTurds ssh now)"
    unfolding reapRemoteTurds_def reap_remote_def using assms by (intro always_intro)
  moreover have "always (confined l) (ReapArtifacts now)"
    unfolding ReapArtifacts_def reap_artifacts_def by (intro always_intro)
  moreover have "always (confined l) (aggregateParents l now)"
    unfolding aggregateParents_def aggregate_parent_def finish_parent_def Let_def by (intro always_intro)
  ultimately show ?thesis unfolding Run_def by (intro always_intro)
qed

text \<open>
  C35: The pass deletes source trees only below the coordinator's temporary directory, whatever source
  path a build recorded: a checkout anywhere else, and the temporary directory itself, stay.
\<close>

theorem sources_outside_temp_kept:
  assumes "Run l ssh now w = (res, w')" and "local_runner ssh"
    and "t \<in> set (trees w)" and "\<not> strictly_below (path_segs (TempDir l)) (fst t)"
  shows "t \<in> set (trees w')"
  using alwaysD [OF confined_Run [OF assms(2)] assms(1)] assms(3,4) by (simp add: confined_def)

section \<open>Retention\<close>

definition total_size :: "blob_entry list \<Rightarrow> int" where
  "total_size bs = sum_list (map Size bs)"

lemma total_size_simps [simp]: "total_size [] = 0" "total_size (b # bs) = Size b + total_size bs"
  "total_size (as @ bs) = total_size as + total_size bs"
  by (simp_all add: total_size_def)

lemma total_size_nonneg: "(\<And>b. b \<in> set bs \<Longrightarrow> 0 \<le> Size b) \<Longrightarrow> 0 \<le> total_size bs"
  by (induction bs) auto

lemma total_size_perm: "mset as = mset bs \<Longrightarrow> total_size as = total_size bs"
  unfolding total_size_def by (metis mset_map sum_mset_sum_list)

lemma wrap64_small: "0 \<le> x \<Longrightarrow> x < 2 ^ 63 \<Longrightarrow> wrap64 x = x"
  by simp

lemma wrapped_total:
  assumes "\<And>b. b \<in> set bs \<Longrightarrow> 0 \<le> Size b" and "0 \<le> acc" and "acc + total_size bs < 2 ^ 63"
  shows "foldl (\<lambda>t e. wrap64 (t + Size e)) acc bs = acc + total_size bs"
  using assms
proof (induction bs arbitrary: acc)
  case (Cons b bs)
  then have "0 \<le> total_size bs" by (auto intro: total_size_nonneg)
  moreover have "0 \<le> Size b" using Cons.prems(1) by simp
  ultimately have "wrap64 (acc + Size b) = acc + Size b" using Cons.prems(2,3) by (intro wrap64_small) auto
  with Cons \<open>0 \<le> Size b\<close> show ?case by (simp add: add.assoc)
qed simp

text \<open>The loop removes a prefix of the sorted entries, as short as the limit allows.\<close>

lemma enforce_loop_spec:
  assumes "faults w = []" and "\<And>b. b \<in> set es \<Longrightarrow> 0 \<le> Size b" and "tot = total_size es" and "tot < 2 ^ 63"
    and "0 \<le> RemovedBytes rep" and "RemovedBytes rep + tot < 2 ^ 63" and "0 \<le> limit"
  shows "\<exists>k. k \<le> length es \<and> enforce_loop limit tot rep es w
      = (Inr \<lparr>RemovedBytes = RemovedBytes rep + total_size (take k es), RemovedEntries = RemovedEntries rep + int k\<rparr>,
         w\<lparr>blobs := filter (\<lambda>b. Path b \<notin> Path ` set (take k es)) (blobs w)\<rparr>)
    \<and> total_size (drop k es) \<le> limit \<and> (0 < k \<longrightarrow> limit < total_size (drop (k - 1) es))"
  using assms
proof (induction es arbitrary: w tot rep)
  case Nil
  then show ?case by simp
next
  case (Cons e es)
  show ?case
  proof (cases "tot \<le> limit")
    case True
    with Cons.prems show ?thesis by (intro exI [of _ 0]) simp
  next
    case False
    let ?w = "w\<lparr>blobs := filter (\<lambda>b. Path b \<noteq> Path e) (blobs w)\<rparr>"
    let ?rep = "\<lparr>RemovedBytes = RemovedBytes rep + Size e, RemovedEntries = RemovedEntries rep + 1\<rparr>"
    have pos: "0 \<le> total_size es" using Cons.prems(2) by (intro total_size_nonneg) simp
    have e: "0 \<le> Size e" using Cons.prems(2) by simp
    have w1: "wrap64 (tot - Size e) = total_size es" and w2: "wrap64 (RemovedBytes rep + Size e) = RemovedBytes rep + Size e"
      using Cons.prems(3-6) pos e by (auto intro!: wrap64_small)
    from Cons.IH [of ?w "total_size es" ?rep] Cons.prems pos e obtain k where k: "k \<le> length es"
      and run: "enforce_loop limit (total_size es) ?rep es ?w
        = (Inr \<lparr>RemovedBytes = RemovedBytes ?rep + total_size (take k es), RemovedEntries = RemovedEntries ?rep + int k\<rparr>,
           ?w\<lparr>blobs := filter (\<lambda>b. Path b \<notin> Path ` set (take k es)) (blobs ?w)\<rparr>)"
      and le: "total_size (drop k es) \<le> limit" and gt: "0 < k \<longrightarrow> limit < total_size (drop (k - 1) es)"
      by auto
    have "enforce_loop limit tot rep (e # es) w = enforce_loop limit (total_size es) ?rep es ?w"
      using False Cons.prems(1) by (simp add: remove_def io_eval w1 w2)
    moreover have "filter (\<lambda>b. Path b \<notin> Path ` set (take k es)) (blobs ?w)
        = filter (\<lambda>b. Path b \<notin> Path ` set (take (Suc k) (e # es))) (blobs w)"
      by (auto intro: filter_cong simp: conj_commute)
    moreover have "limit < total_size (drop k (e # es))" using gt False Cons.prems(3) by (cases k) auto
    ultimately show ?thesis
      using run k le by (intro exI [of _ "Suc k"]) (simp add: add.assoc)
  qed
qed

text \<open>
  C34: Without faults, enforcing the retention limit brings the cached blobs within it by removing the
  oldest ones: what is removed is no newer than anything kept, the report counts exactly the removed
  entries and bytes, and the last removal was needed. Sizes are added in 64-bit arithmetic.
\<close>

theorem Enforce_oldest_first:
  assumes "Enforce limit w = (res, w')" and "faults w = []" and "0 \<le> limit"
    and "distinct (map Path (blobs w))" and "\<And>b. b \<in> set (blobs w) \<Longrightarrow> 0 \<le> Size b" and "total_size (blobs w) < 2 ^ 63"
  shows "\<exists>removed. mset (blobs w) = mset removed + mset (blobs w')
    \<and> res = Inr \<lparr>RemovedBytes = total_size removed, RemovedEntries = int (length removed)\<rparr>
    \<and> total_size (blobs w') \<le> limit
    \<and> (\<forall>old \<in> set removed. \<forall>b \<in> set (blobs w'). ModTime old \<le> ModTime b)
    \<and> (removed \<noteq> [] \<longrightarrow> limit < total_size (blobs w') + Size (last removed))"
proof -
  define es where "es = go_sort (\<lambda>a b. ModTime a < ModTime b) (blobs w)"
  have ms: "mset es = mset (blobs w)" and st: "set es = set (blobs w)" by (simp_all add: es_def)
  have sorted: "sorted_wrt (\<lambda>a b. ModTime a \<le> ModTime b) es"
    using go_sort_sorted [of "blobs w" "\<lambda>a b. ModTime a < ModTime b"]
    by (simp add: es_def weak_order_on_def not_less)
  have size: "total_size es = total_size (blobs w)" using ms by (rule total_size_perm)
  have nonneg: "\<And>b. b \<in> set es \<Longrightarrow> 0 \<le> Size b" using assms(5) st by simp
  have "foldl (\<lambda>t e. wrap64 (t + Size e)) 0 es = total_size es"
    using wrapped_total [OF nonneg, where acc = 0] assms(6) size by simp
  with assms(1,2) have run: "enforce_loop limit (total_size es) \<lparr>RemovedBytes = 0, RemovedEntries = 0\<rparr> es w = (res, w')"
    by (simp add: Enforce_def files_def io_eval Let_def es_def)
  from enforce_loop_spec [OF assms(2) nonneg refl, where rep = "\<lparr>RemovedBytes = 0, RemovedEntries = 0\<rparr>" and limit = limit and es = es] assms(3,6) size
  obtain k where k: "k \<le> length es" and res: "res = Inr \<lparr>RemovedBytes = total_size (take k es), RemovedEntries = int k\<rparr>"
    and bl: "blobs w' = filter (\<lambda>b. Path b \<notin> Path ` set (take k es)) (blobs w)"
    and le: "total_size (drop k es) \<le> limit" and gt: "0 < k \<longrightarrow> limit < total_size (drop (k - 1) es)"
    using run by auto
  have "distinct (map Path es)" using assms(4) ms by (metis mset_eq_imp_distinct_iff mset_map)
  then have disj: "Path ` set (take k es) \<inter> Path ` set (drop k es) = {}"
    by (metis append_take_drop_id distinct_append list.set_map map_append)
  have "filter (\<lambda>b. Path b \<notin> Path ` set (take k es)) (take k es @ drop k es) = drop k es"
    unfolding filter_append using disj by (auto simp: filter_empty_conv filter_id_conv)
  then have kept: "mset (blobs w') = mset (drop k es)"
    unfolding bl by (metis append_take_drop_id ms mset_filter)
  have "mset (blobs w) = mset (take k es) + mset (blobs w')"
    unfolding kept by (metis append_take_drop_id ms mset_append)
  moreover have "total_size (blobs w') = total_size (drop k es)" using kept by (rule total_size_perm)
  moreover have "ModTime old \<le> ModTime b" if "old \<in> set (take k es)" and "b \<in> set (blobs w')" for old b
    using sorted that kept by (metis append_take_drop_id set_mset_mset sorted_wrt_append)
  moreover have "limit < total_size (drop k es) + Size (last (take k es))" if "take k es \<noteq> []"
  proof -
    from that k have k0: "0 < k" and "k - 1 < length es" by auto
    then have "drop (k - 1) es = es ! (k - 1) # drop k es" using Cons_nth_drop_Suc [of "k - 1" es] by simp
    moreover have "last (take k es) = es ! (k - 1)" using k k0 that by (simp add: last_conv_nth)
    ultimately show ?thesis using gt k0 by simp
  qed
  ultimately show ?thesis using res k le by (intro exI [of _ "take k es"]) simp
qed

section \<open>Dead workers\<close>

text \<open>The transition of a readable run to a state it may take, with no fault to come.\<close>

lemma Mutate_saves:
  assumes "faults w = []" and "record_of w rid = Some r" and "fn r = Inr r'" and "ID r' = rid" and "validateRecord r' = Inr ()"
    and "\<not> IsTerminal (State r)"
  shows "Mutate rid (\<lambda>b. lift_result (fn b)) w = (Inr r', put_run rid (run_json_update (\<lambda>_. Some (Json r'))) w)
    \<and> record_of (put_run rid (run_json_update (\<lambda>_. Some (Json r'))) w) rid = Some r'"
proof -
  from assms(2) obtain d where d: "map_of (runs w) rid = Some (Sub d)" and valid: "ValidRunID rid"
    by (auto simp: record_of_def run_file_Some split: option.splits json.splits if_splits)
  note name = ValidRunID_ValidName [OF valid]
  from Load_ok [OF assms(1,2)] valid have load: "loadPath rid w = (Inr r, w)"
    by (simp add: Load_def runDir_def guard_bind name)
  let ?w = "put_run rid (run_json_update (\<lambda>_. Some (Json r'))) w"
  have "saveUnlocked r' w = (Inr (), ?w)"
    unfolding saveUnlocked_eq [OF assms(5)] assms(4) by (rule atomicJSON_ok [OF assms(1) d])
  with load assms name have "Mutate rid (\<lambda>b. lift_result (fn b)) w = (Inr r', ?w)"
    by (simp add: Mutate_def runDir_def io_eval Acquire_ok [OF assms(1) d])
  moreover have "record_of ?w rid = Some r'"
    using d valid assms(4,5) by (simp add: record_of_def run_file_put_run)
  ultimately show ?thesis by blast
qed

definition dead_lease :: "int \<Rightarrow> lease json option \<Rightarrow> bool" where
  "dead_lease now v \<longleftrightarrow> v = None \<or> (\<exists>x. v = Some (Json x) \<and> ExpiresAt x \<le> now - renewalGrace)"

definition lost_at :: "int \<Rightarrow> run_record \<Rightarrow> run_record" where
  "lost_at now r = r\<lparr>State := RunLost, UpdatedAt := now\<rparr>"

lemma mark_lost_ok:
  assumes "faults w = []" and "record_of w rid = Some r" and "State r = RunRunning \<or> State r = RunCommitting"
  shows "mark_lost rid now report w = (Inr (report\<lparr>MarkedLost := MarkedLost report + 1\<rparr>),
      put_run rid (run_json_update (\<lambda>_. Some (Json (lost_at now r)))) w)
    \<and> record_of (put_run rid (run_json_update (\<lambda>_. Some (Json (lost_at now r)))) w) rid = Some (lost_at now r)"
proof -
  have v: "validateRecord r = Inr ()" and "ID r = rid"
    using assms(2) by (auto simp: record_of_def split: option.splits json.splits if_splits)
  let ?w = "put_run rid (run_json_update (\<lambda>_. Some (Json (lost_at now r)))) w"
  have "StoreTransition rid RunLost now w = (Inr (lost_at now r), ?w) \<and> record_of ?w rid = Some (lost_at now r)"
    unfolding StoreTransition_def
  proof (rule Mutate_saves [OF assms(1,2)])
    show "transitionRecord RunLost now r = Inr (lost_at now r)"
      using assms(3) by (auto simp: transitionRecord_def Transition_def CanTransition_def lost_at_def)
  qed (use assms(3) v \<open>ID r = rid\<close> in \<open>auto simp: lost_at_def validateRecord_def IsTerminal_def\<close>)
  then show ?thesis by (auto simp: mark_lost_def mark_def attempt_bind)
qed

lemma reap_run_dead:
  assumes "faults w = []" and g: "guarded rid r v w" and st: "State r = RunRunning \<or> State r = RunCommitting"
    and dead: "dead_lease now v" and run: "reap_run l now acc rid w = (res, w')"
  shows "record_of w' rid = Some (lost_at now r)"
proof -
  obtain report active where acc: "acc = (report, active)" by force
  from g have rec: "record_of w rid = Some r" and ls: "run_file lease_json w rid = v" by (auto simp: guarded_def)
  from rec obtain d where d: "map_of (runs w) rid = Some (Sub d)" and valid: "ValidRunID rid"
    by (auto simp: record_of_def run_file_Some split: option.splits json.splits if_splits)
  from ls d have dv: "lease_json d = v" by (simp add: run_file_def)
  have "ReadLease rid w = ((case v of None \<Rightarrow> Inl ENotExist | Some j \<Rightarrow> decode_json j), w)"
    using assms(1) d dv ValidRunID_ValidName [OF valid]
    by (simp add: ReadLease_def runDir_def read_lease_def io_eval read_run_ok entry_file_def entry_dir_def split: option.split)
  with dead have "\<exists>y. ReadLease rid w = (y, w) \<and> (case y of Inl e \<Rightarrow> IsNotExist e | Inr x \<Rightarrow> \<not> now - renewalGrace < ExpiresAt x)"
    by (auto simp: dead_lease_def decode_json_def)
  then obtain y where y: "ReadLease rid w = (y, w)" "case y of Inl e \<Rightarrow> IsNotExist e | Inr x \<Rightarrow> \<not> now - renewalGrace < ExpiresAt x"
    by blast
  obtain rep w1 where mk: "mark_lost rid now report w = (Inr rep, w1)" and "record_of w1 rid = Some (lost_at now r)"
    using mark_lost_ok [OF assms(1) rec st] by blast
  moreover have "w' = w1"
    using run st y mk by (cases y) (auto simp: acc reap_run_def io_eval Load_ok [OF assms(1) rec])
  ultimately show ?thesis by simp
qed

lemma reap_runs_dead:
  assumes "foldE (reap_run l now) acc ns w = (Inr res, w')" and "faults w = []" and "rid \<in> set ns"
    and "guarded rid r v w" and "State r = RunRunning \<or> State r = RunCommitting" and "dead_lease now v"
  shows "record_of (w' :: 'a reap_state_scheme) rid = Some (lost_at now r)"
  using assms(1-4)
proof (induction ns arbitrary: acc w)
  case (Cons n ns)
  from Cons.prems(1) obtain a w1 where step: "reap_run l now acc n w = (Inr a, w1)"
    and rest: "foldE (reap_run l now) a ns w1 = (Inr res, w')" by (auto simp: bindE_Inr)
  have f1: "faults w1 = []" using spent_reap_run step Cons.prems(2) by (rule spentD)
  show ?case
  proof (cases "n = rid")
    case True
    from reap_run_dead [OF Cons.prems(2,4) assms(5,6)] step True have lost: "record_of w1 rid = Some (lost_at now r)" by blast
    have "always (safe_change Defaults) (foldE (reap_run l now) a ns :: ('a reap_state_scheme, reap_report \<times> run_id list) io)"
      by (intro always_intro)
    with rest have "safe_change Defaults w1 w'" by (blast dest: alwaysD)
    with lost show ?thesis by (auto simp: safe_change_def lost_at_def IsTerminal_def)
  next
    case False
    with step Cons.prems(4) have "guarded rid r v w1"
      by (auto dest: alwaysD [OF spared_reap_run_other] simp: spared_def)
    with Cons.IH [OF rest f1] Cons.prems(3) False show ?thesis by simp
  qed
qed simp

text \<open>The steps after the claims were reaped leave the claims alone.\<close>

definition claims_kept :: "'a sched_state_scheme \<Rightarrow> 'a sched_state_scheme \<Rightarrow> bool" where
  "claims_kept w w' \<longleftrightarrow> claims w' = claims w"

interpretation claims_kept: os_guarantee claims_kept
  by unfold_locales (simp_all add: claims_kept_def)

lemma claims_kept_idle: "idle w w' \<Longrightarrow> claims_kept w (w' :: 'a sched_state_scheme)"
  unfolding claims_kept_def by (erule idle_field) simp

lemma always_quiet_claims: "always quiet m \<Longrightarrow> always claims_kept (m :: ('a sched_state_scheme, 'b) io)"
  by (erule always_mono) (blast intro: claims_kept_idle quiet_idle)

lemmas claims_reads [always_intro] = always_quiet_claims [OF quiet_Load] always_quiet_claims [OF quiet_list_runs]
  always_quiet_claims [OF quiet_LoadChildren] always_quiet_claims [OF read_run_quiet]

lemma claims_put_run: "claims_kept w (put_run n upd (w :: 'a sched_state_scheme))"
  by (simp add: claims_kept_def put_run_def split: option.split entry.split)

lemma claims_Mutate [always_intro]: "always claims_kept (Mutate n (\<lambda>b. lift_result (fn b)) :: ('a sched_state_scheme, run_record) io)"
proof (rule alwaysI)
  fix w w' :: "'a sched_state_scheme" and res
  assume "Mutate n (\<lambda>b. lift_result (fn b)) w = (res, w')"
  then show "claims_kept w w'"
  proof (cases rule: Mutate_cases)
    case (save before w1 q w2 x)
    from save(6) have "claims_kept w2 w'"
      by (cases rule: atomicJSON_cases) (blast intro: claims_kept_idle quiet_idle claims_kept.trans claims_put_run)+
    with save(1,3) show ?thesis by (auto intro: claims_kept.trans claims_kept_idle)
  qed (auto intro: claims_kept_idle)
qed

lemma claims_modify [always_intro]: "always claims_kept (modify (put_run n upd))" "always claims_kept (modify (\<lambda>w. w\<lparr>trees := f w\<rparr>))"
  by (simp_all add: always_def modify_def claims_put_run) (simp add: claims_kept_def)

lemma claims_after_reap: "always claims_kept (ReapArtifacts now)" "always claims_kept (aggregateParents l now)"
  unfolding ReapArtifacts_def reap_artifacts_def aggregateParents_def aggregate_parent_def finish_parent_def
    cleanSharedSource_def ignore_def RemoveAll_def remove_path_def Let_def
  by (intro always_intro)+

lemma Reap_claims:
  assumes "Reap l Load w = (Inr k, w')" and "ValidName m"
  shows "claim_set w' m \<subseteq> {rid. live_run w rid}"
  using Reap_claim_set [OF assms] by blast

text \<open>
  C8: The maintenance pass gives up a worker that died: when a pass that starts without a fault
  completes, a run that was running or committing and whose lease is missing, or expired for the grace
  period, is lost, stamped with the time of the pass, and holds no claim on any machine.
\<close>

theorem dead_worker_freed:
  assumes "Run l ssh now w = (Inr report, w')" and "faults w = []" and "local_runner ssh"
    and "record_of w rid = Some r" and "State r = RunRunning \<or> State r = RunCommitting"
    and "dead_lease now (run_file lease_json w rid)"
  shows "record_of w' rid = Some (lost_at now r) \<and> (\<forall>m. ValidName m \<longrightarrow> rid \<notin> claim_set w' m)"
proof -
  let ?ns = "filter (\<lambda>n. is_sub (map_of (runs w) n)) (dir_names (runs w))"
  from assms(1) obtain acc w1 rep1 w2 k1 w3 t w4 c w5 rel w6 k7 w7 w8
    where runs: "foldE (reap_run l now) (empty_report, []) ?ns w = (Inr acc, w1)"
    and parts: "reap_partials now (snd acc) (fst acc) w1 = (Inr rep1, w2)" "reapTransferDirs l now w2 = (Inr k1, w3)"
      "reapWorkDirs now w3 = (Inr t, w4)" "reapRemoteTurds ssh now w4 = (Inr c, w5)"
    and reap: "Reap l Load w5 = (Inr rel, w6)"
    and after: "ReapArtifacts now w6 = (Inr k7, w7)" "aggregateParents l now w7 = (Inr w8, w')"
    by (auto simp: Run_def bindE_Inr list_runs_ok [OF assms(2)] case_prod_beta)
  have "rid \<in> set ?ns" using record_of_sub [OF assms(4)] by simp
  from reap_runs_dead [OF runs assms(2) this _ assms(5,6)] assms(4)
  have lost1: "record_of w1 rid = Some (lost_at now r)" by (simp add: guarded_def)
  have "safe_change Defaults w1 w5"
    using parts by (blast intro: safe.trans dest: alwaysD [OF default.safe_reap_partials]
        alwaysD [OF default.safe_reapTransferDirs] alwaysD [OF default.safe_reapWorkDirs]
        alwaysD [OF default.safe_reapRemoteTurds [OF assms(3)]])
  with lost1 have lost5: "record_of w5 rid = Some (lost_at now r)"
    by (auto simp: safe_change_def lost_at_def IsTerminal_def)
  then have dead: "\<not> live_run w5 rid" by (simp add: live_run_def lost_at_def IsTerminal_def)
  have "safe_change Defaults w5 w'"
    using reap after by (blast intro: safe.trans dest: alwaysD [OF default.safe_parts(3)]
        alwaysD [OF default.safe_ReapArtifacts] alwaysD [OF default.safe_aggregateParents])
  with lost5 have "record_of w' rid = Some (lost_at now r)"
    by (auto simp: safe_change_def lost_at_def IsTerminal_def)
  moreover have "claims w' = claims w6"
    using alwaysD [OF claims_after_reap(1) after(1)] alwaysD [OF claims_after_reap(2) after(2)] by (simp add: claims_kept_def)
  then have "claim_set w' m = claim_set w6 m" for m
    by (simp add: claim_set_def claim_at_def claim_files_def)
  ultimately show ?thesis using Reap_claims [OF reap] dead by blast
qed

end
