(* ===== verification/Vci_Reaper_Examples.thy ===== *)
theory Vci_Reaper_Examples
  imports Vci_Reaper_Laws
begin

text \<open>
  The maintenance pass on concrete states: one running run that holds a lease, a claim and a workspace,
  one whose worker left nothing, a source tree inside and one outside the temporary directory, and two blobs.
\<close>

definition example_reap :: reap_state where
  "example_reap = \<lparr>faults = [], clock = 10, entropy = [], windows = False, config_file = Some [],
     runs = [(''run_a'', Sub ((empty_run 1)\<lparr>run_json := Some (Json (example_record ''run_a'' RunRunning [])),
       lease_json := Some (Json example_lease)\<rparr>))],
     claims = [(''m1'', Sub [(claim_name ''run_a'', ClaimJson (new_claim ''m1'' ''run_a'' 5))])],
     launched = [], work = [(''run_a'', \<lparr>we_dir = True, we_mtime = 1, we_tmp = Some 1, we_home = None, we_files = [(''f'', Regular ''x'')]\<rparr>)],
     trees = [([''home'', ''me''], \<lparr>ti_dir = True, ti_mtime = 0\<rparr>)],
     blobs = [\<lparr>Path = ''b'', Size = 30, ModTime = 2\<rparr>, \<lparr>Path = ''a'', Size = 20, ModTime = 1\<rparr>]\<rparr>"

definition example_orphan :: "run_record \<Rightarrow> reap_state" where
  "example_orphan r = \<lparr>faults = [], clock = 10, entropy = [], windows = False, config_file = Some [],
     runs = [(''run_a'', Sub ((empty_run 10)\<lparr>run_json := Some (Json r)\<rparr>))],
     claims = [], launched = [], work = [], trees = [], blobs = []\<rparr>"

definition no_ssh :: "'a os_state_scheme runner" where
  "no_ssh c w = (\<lparr>ExitCode = 255, RunErr = Some (EOs ''unreachable''), Output = [], ErrOutput = [], CtxErr = None\<rparr>, w)"

lemma local_no_ssh: "local_runner no_ssh"
proof -
  have "\<exists>t fs bs. w = w\<lparr>clock := t, faults := fs, entropy := bs\<rparr>" for w :: "'a os_state_scheme"
    by (rule exI [of _ "clock w"], rule exI [of _ "faults w"], rule exI [of _ "entropy w"]) simp
  then show ?thesis by (simp add: local_runner_def no_ssh_def)
qed

lemma example_reap_facts:
  "record_of example_reap ''run_a'' = Some (example_record ''run_a'' RunRunning [])"
  "run_file lease_json example_reap ''run_a'' = Some (Json example_lease)"
  "claim_at example_reap ''m1'' ''run_a'' \<noteq> None"
  by (simp_all add: example_reap_def record_of_def run_file_def validateRecord_def example_record_def example_ids ensure_def
      claim_at_def claim_files_def)

theorem live_worker_spared_witness:
  "record_of (snd (Run example_layout no_ssh 20 example_reap)) ''run_a'' = Some (example_record ''run_a'' RunRunning [])
    \<and> claim_at (snd (Run example_layout no_ssh 20 example_reap)) ''m1'' ''run_a'' \<noteq> None
    \<and> map_of (work (snd (Run example_layout no_ssh 20 example_reap))) ''run_a''
      = Some \<lparr>we_dir = True, we_mtime = 1, we_tmp = Some 1, we_home = None, we_files = [(''f'', Regular ''x'')]\<rparr>"
proof -
  obtain res w' where run: "Run example_layout no_ssh 20 example_reap = (res, w')" by force
  have "active_state (State (example_record ''run_a'' RunRunning []))" and "Children (example_record ''run_a'' RunRunning []) = []"
    and "20 - renewalGrace < ExpiresAt example_lease" and "\<not> HasSuffix ''run_a'' ''.partial''"
    by (simp_all add: active_state_def example_record_def renewalGrace_def example_lease_def HasSuffix_def)
  note spared = live_worker_spared [OF run local_no_ssh example_reap_facts(1) this(1,2) example_reap_facts(2) this(3,4)]
  have "faults example_reap = []" and "map_of (work example_reap) ''run_a''
      = Some \<lparr>we_dir = True, we_mtime = 1, we_tmp = Some 1, we_home = None, we_files = [(''f'', Regular ''x'')]\<rparr>"
    by (simp_all add: example_reap_def)
  with spared show ?thesis using example_reap_facts(3) run by simp
qed

theorem maintenance_safe_witness:
  "safe_change example_config example_reap (snd (Run example_layout no_ssh 20 example_reap))"
proof -
  have "always (safe_change example_config) (Run example_layout no_ssh 20 :: (reap_state, reap_report) io)"
    by (rule maintenance_safe [OF example_config_valid example_m1(4) local_no_ssh])
  then show ?thesis by (simp add: always_def)
qed

theorem sources_outside_temp_kept_witness:
  "([''home'', ''me''], \<lparr>ti_dir = True, ti_mtime = 0\<rparr>) \<in> set (trees (snd (Run example_layout no_ssh 20 example_reap)))"
proof -
  obtain res w' where run: "Run example_layout no_ssh 20 example_reap = (res, w')" by force
  have "\<not> strictly_below (path_segs (TempDir example_layout)) [''home'', ''me'']"
    by (simp add: strictly_below_def below_def example_layout_def TempDir_def StateDir_def FJoin_def Clean_def IsAbs_def HasPrefix_def
        path_segs_def norm_def)
  with sources_outside_temp_kept [OF run local_no_ssh, of "([''home'', ''me''], \<lparr>ti_dir = True, ti_mtime = 0\<rparr>)"] run
  show ?thesis by (simp add: example_reap_def)
qed

theorem Enforce_oldest_first_witness:
  "blobs (snd (Enforce 40 example_reap)) = [\<lparr>Path = ''b'', Size = 30, ModTime = 2\<rparr>]
    \<and> total_size (blobs (snd (Enforce 40 example_reap))) \<le> 40"
proof -
  obtain res w' where run: "Enforce 40 example_reap = (res, w')" by force
  have "blobs (snd (Enforce 40 example_reap)) = [\<lparr>Path = ''b'', Size = 30, ModTime = 2\<rparr>]"
    by (simp add: Enforce_def files_def io_eval example_reap_def go_sort_def remove_def wrap64_small)
  moreover have "total_size (blobs w') \<le> 40"
  proof -
    have f: "faults example_reap = []" and d: "distinct (map Path (blobs example_reap))" and t: "total_size (blobs example_reap) < 2 ^ 63"
      and n: "\<And>b. b \<in> set (blobs example_reap) \<Longrightarrow> 0 \<le> Size b"
      by (auto simp: example_reap_def)
    from Enforce_oldest_first [OF run f _ d n t] show ?thesis by auto
  qed
  ultimately show ?thesis using run by simp
qed

section \<open>A worker that left nothing\<close>

abbreviation orphan_record :: run_record where
  "orphan_record \<equiv> example_record ''run_a'' RunRunning []"

abbreviation lost_record :: run_record where
  "lost_record \<equiv> lost_at 20 orphan_record"

lemma orphan_facts [simp]:
  "faults (example_orphan r) = []" "claims (example_orphan r) = []" "work (example_orphan r) = []"
  "trees (example_orphan r) = []" "dir_names (runs (example_orphan r)) = [''run_a'']"
  "is_sub (map_of (runs (example_orphan r)) ''run_a'')" "run_file lease_json (example_orphan r) ''run_a'' = None"
  by (simp_all add: example_orphan_def dir_names_def is_sub_def run_file_def empty_run_def)

lemma orphan_record_of: "record_of (example_orphan orphan_record) ''run_a'' = Some orphan_record"
  "record_of (example_orphan lost_record) ''run_a'' = Some lost_record"
  by (simp_all add: example_orphan_def record_of_def run_file_def validateRecord_def example_record_def example_ids ensure_def lost_at_def)

lemma orphan_put: "put_run ''run_a'' (run_json_update (\<lambda>_. Some (Json r))) (example_orphan r0) = example_orphan r"
  by (simp add: put_run_def example_orphan_def empty_run_def)

lemma orphan_lease: "ReadLease ''run_a'' (example_orphan r) = (Inl ENotExist, example_orphan r)"
  by (simp add: ReadLease_def runDir_def read_lease_def io_eval read_run_ok ValidRunID_ValidName example_ids entry_file_def
      entry_dir_def example_orphan_def empty_run_def)

lemma orphan_reaped:
  "reap_run example_layout 20 (empty_report, []) ''run_a'' (example_orphan orphan_record)
    = (Inr (empty_report\<lparr>MarkedLost := 1\<rparr>, []), example_orphan lost_record)"
proof -
  have "State orphan_record = RunRunning" by (simp add: example_record_def)
  with mark_lost_ok [OF _ orphan_record_of(1), of 20 empty_report] show ?thesis
    by (simp add: reap_run_def io_eval Load_ok [OF _ orphan_record_of(1)] orphan_lease orphan_put empty_report_def)
qed

lemma orphan_run: "\<exists>rep. Run example_layout no_ssh 20 (example_orphan orphan_record) = (Inr rep, example_orphan lost_record)"
proof -
  note load = Load_ok [OF _ orphan_record_of(2)]
  have st: "State lost_record = RunLost" "Children lost_record = []" "UpdatedAt lost_record = 20" "ConfigSnapshot lost_record = Garbled"
    by (simp_all add: lost_at_def example_record_def)
  have "reapRemoteTurds no_ssh 20 (example_orphan lost_record) = (Inr 0, example_orphan lost_record)"
    by (simp add: reapRemoteTurds_def reap_remote_def io_eval list_runs_ok load orphan_lease example_ids st remoteHostFor_def)
  moreover have "Reap example_layout Load (example_orphan lost_record) = (Inr 0, example_orphan lost_record)"
    by (simp add: Reap_def withLock_ok reapClaims_def enumerateClaims_def io_eval machine_dirs_def dir_names_def)
  moreover have "ReapArtifacts 20 (example_orphan lost_record) = (Inr 0, example_orphan lost_record)"
    by (simp add: ReapArtifacts_def reap_artifacts_def io_eval list_runs_ok load example_ids st transferStaleAge_def)
  moreover have "aggregateParents example_layout 20 (example_orphan lost_record) = (Inr (), example_orphan lost_record)"
    by (simp add: aggregateParents_def aggregate_parent_def finish_parent_def io_eval list_runs_ok load st)
  moreover have "reap_partials 20 [] rep (example_orphan lost_record) = (Inr rep, example_orphan lost_record)"
    "reapTransferDirs example_layout 20 (example_orphan lost_record) = (Inr 0, example_orphan lost_record)"
    "reapWorkDirs 20 (example_orphan lost_record) = (Inr (0, 0), example_orphan lost_record)" for rep
    by (simp_all add: reap_partials_def reapTransferDirs_def reapWorkDirs_def temp_entries_def io_eval dir_names_def)
  ultimately show ?thesis by (simp add: Run_def io_eval list_runs_ok orphan_reaped)
qed

theorem dead_worker_freed_witness:
  "record_of (snd (Run example_layout no_ssh 20 (example_orphan orphan_record))) ''run_a'' = Some lost_record"
proof -
  obtain rep where run: "Run example_layout no_ssh 20 (example_orphan orphan_record) = (Inr rep, example_orphan lost_record)"
    using orphan_run by blast
  have "State orphan_record = RunRunning \<or> State orphan_record = RunCommitting" by (simp add: example_record_def)
  from dead_worker_freed [OF run _ local_no_ssh orphan_record_of(1) this] run show ?thesis by (simp add: dead_lease_def)
qed

text \<open>
  A lease that cannot be read protects the run's record, but not its temporary directory:
  \<open>reapWorkDirs\<close> treats every error of reading the lease as the absence of a lease.
\<close>

lemma unreadable_lease_loses_tmp:
  assumes "faults w = []" and "ReadLease n w = (Inl e, w)" and "map_of (work w) n = Some d"
    and "we_tmp d = Some t" and "t \<le> now - transferStaleAge"
  shows "map_option we_tmp (map_of (work (snd (reap_workspace now acc n False w))) n) = Some None"
proof -
  let ?w = "put_work n (we_tmp_update (\<lambda>_. None)) w"
  have "reap_sub now we_tmp (we_tmp_update (\<lambda>_. None)) n k w = (Inr (k + 1), ?w)" for k
    using assms by (simp add: reap_sub_def io_eval)
  moreover have "map_of (work ?w) n = Some (we_tmp_update (\<lambda>_. None) d)" and "faults ?w = []"
    using assms by (simp_all add: put_work_def update_conv')
  then have "map_option we_tmp (map_of (work (snd (reap_sub now we_home (we_home_update (\<lambda>_. None)) n k ?w))) n) = Some None" for k
    by (auto simp: reap_sub_def io_eval put_work_def update_conv' split: option.split)
  ultimately show ?thesis
    using assms(2) by (cases acc) (auto simp: reap_workspace_def io_eval split: prod.split sum.split, (metis snd_conv)+)
qed

end
