(* ===== verification/Vci_BundleCache.thy ===== *)
theory Vci_BundleCache
  imports Vci_Host Vci_Scheduler
begin

text \<open>
  \<open>internal/bundlecache/cache.go\<close>: the bounded cache of Git bundles on a worker.

  The state is the directory \<open>v1\<close> below a cache root: projects, their entries, and in an entry the
  bundle, the metadata with its time of modification, the marker \<open>complete\<close> and the directory of claim
  markers (each with its kind and time). A file is written in place: a failed write leaves it empty.
\<close>

section \<open>State\<close>

record cache_meta =
  m_Bytes :: int
  m_LastUsed :: int

record cache_entry =
  ce_bundle :: "string option"
  ce_meta :: "(cache_meta json \<times> int) option"
  ce_complete :: bool
  ce_claims :: "(bool \<times> int) dir option"
  ce_mtime :: int

record cache_state = os_state +
  cache :: "cache_entry entry dir entry dir"

record bundle_entry =
  Base :: string
  Bytes :: int
  LastUsed :: int

definition empty_entry :: "int \<Rightarrow> cache_entry" where
  "empty_entry t = \<lparr>ce_bundle = None, ce_meta = None, ce_complete = False, ce_claims = None, ce_mtime = t\<rparr>"

definition project_entries :: "'a cache_state_scheme \<Rightarrow> string \<Rightarrow> cache_entry entry dir option" where
  "project_entries w project = (case map_of (cache w) project of Some (Sub d) \<Rightarrow> Some d | _ \<Rightarrow> None)"

definition entry_at :: "'a cache_state_scheme \<Rightarrow> string \<Rightarrow> string \<Rightarrow> cache_entry option" where
  "entry_at w project base = (case project_entries w project of
       None \<Rightarrow> None
     | Some d \<Rightarrow> (case map_of d base of Some (Sub e) \<Rightarrow> Some e | _ \<Rightarrow> None))"

definition put_entry :: "string \<Rightarrow> string \<Rightarrow> (cache_entry \<Rightarrow> cache_entry) \<Rightarrow> 'a cache_state_scheme \<Rightarrow> 'a cache_state_scheme" where
  "put_entry project base upd w = (case (project_entries w project, entry_at w project base) of
       (Some d, Some e) \<Rightarrow> w\<lparr>cache := AList.update project (Sub (AList.update base (Sub (upd e)) d)) (cache w)\<rparr>
     | _ \<Rightarrow> w)"

definition del_entry :: "string \<Rightarrow> string \<Rightarrow> 'a cache_state_scheme \<Rightarrow> 'a cache_state_scheme" where
  "del_entry project base w = (case project_entries w project of
       None \<Rightarrow> w
     | Some d \<Rightarrow> w\<lparr>cache := AList.update project (Sub (AList.delete base d)) (cache w)\<rparr>)"

text \<open>\<open>os.MkdirAll\<close> of an entry.\<close>

definition add_entry :: "string \<Rightarrow> string \<Rightarrow> 'a cache_state_scheme \<Rightarrow> 'a cache_state_scheme" where
  "add_entry project base w = (case map_of (cache w) project of
       Some Stray \<Rightarrow> w
     | Some (Sub d) \<Rightarrow> (case map_of d base of
           Some _ \<Rightarrow> w
         | None \<Rightarrow> w\<lparr>cache := AList.update project (Sub (AList.update base (Sub (empty_entry (clock w))) d)) (cache w)\<rparr>)
     | None \<Rightarrow> w\<lparr>cache := AList.update project (Sub [(base, Sub (empty_entry (clock w)))]) (cache w)\<rparr>)"

definition mkdir_entry :: "string \<Rightarrow> string \<Rightarrow> ('a cache_state_scheme, unit) io" where
  "mkdir_entry project base = bindE os_call (\<lambda>_. bindE (modify (add_entry project base)) (\<lambda>_.
     bindE (asks (\<lambda>w. entry_at w project base)) (\<lambda>e. guard (e \<noteq> None) (EOs ''not a directory''))))"

text \<open>\<open>os.WriteFile\<close>: open and truncate, write, close.\<close>

definition write_in :: "string \<Rightarrow> string \<Rightarrow> (int \<Rightarrow> cache_entry \<Rightarrow> cache_entry) \<Rightarrow> (int \<Rightarrow> cache_entry \<Rightarrow> cache_entry) \<Rightarrow> ('a cache_state_scheme, unit) io" where
  "write_in project base truncated written =
     bindE os_call (\<lambda>_. bindE Now (\<lambda>t. bindE (modify (put_entry project base (truncated t))) (\<lambda>_.
     bindE os_call (\<lambda>_. bindE (modify (put_entry project base (written t))) (\<lambda>_. os_call)))))"

section \<open>Names\<close>

definition validSegment :: "string \<Rightarrow> bool" where
  "validSegment s \<longleftrightarrow> s \<noteq> [] \<and> s \<noteq> ''.'' \<and> s \<noteq> ''..'' \<and> \<not> ContainsAny s [slash, backslash]
     \<and> list_all (\<lambda>r. (97 \<le> r \<and> r \<le> 122) \<or> (65 \<le> r \<and> r \<le> 90) \<or> (48 \<le> r \<and> r \<le> 57) \<or> r = 46 \<or> r = 45 \<or> r = 95)
         (runes s)"

definition checkSegment :: "string \<Rightarrow> string \<Rightarrow> unit result" where
  "checkSegment what s = ensure (validSegment s)
     (Errf (''bundlecache: invalid %s %q: must be a single path segment of letters, digits, '' @ Join (map shellQuote [''.'', ''-'', ''_'']) '', '')
       [what, s])"

definition entryDir :: "string \<Rightarrow> string \<Rightarrow> unit result" where
  "entryDir project base = checks [checkSegment ''project'' project, checkSegment ''base'' base]"

section \<open>Operations\<close>

definition lookup_entry :: "'a cache_state_scheme \<Rightarrow> string \<Rightarrow> string \<Rightarrow> cache_entry result" where
  "lookup_entry w project base = (case map_of (cache w) project of
       None \<Rightarrow> Inl ENotExist
     | Some Stray \<Rightarrow> Inl (EOs ''not a directory'')
     | Some (Sub d) \<Rightarrow> (case map_of d base of
           None \<Rightarrow> Inl ENotExist
         | Some Stray \<Rightarrow> Inl (EOs ''not a directory'')
         | Some (Sub e) \<Rightarrow> Inr e))"

definition stat_entry :: "string \<Rightarrow> string \<Rightarrow> (cache_entry \<Rightarrow> 'b option) \<Rightarrow> ('a cache_state_scheme, 'b) io" where
  "stat_entry project base f = bindE os_call (\<lambda>_. bindE (asks (\<lambda>w. lookup_entry w project base)) (\<lambda>e.
     case e of Inl x \<Rightarrow> throw x | Inr d \<Rightarrow> (case f d of None \<Rightarrow> throw ENotExist | Some x \<Rightarrow> ret x)))"

definition list_bases :: "string \<Rightarrow> ('a cache_state_scheme, string list) io" where
  "list_bases project = bindE os_call (\<lambda>_. bindE (asks (\<lambda>w. map_of (cache w) project)) (\<lambda>e. case e of
       None \<Rightarrow> throw ENotExist
     | Some Stray \<Rightarrow> throw (EOs ''not a directory'')
     | Some (Sub d) \<Rightarrow> ret (filter (\<lambda>n. is_sub (map_of d n) \<and> validSegment n) (dir_names d))))"

definition IsHit :: "string \<Rightarrow> string \<Rightarrow> ('a cache_state_scheme, bool) io" where
  "IsHit project base =
     bindE (lift_result (entryDir project base)) (\<lambda>_.
     bindE (attempt (stat_entry project base (\<lambda>e. if ce_complete e then Some () else None))) (\<lambda>x. case x of
       Inr _ \<Rightarrow> ret True
     | Inl e \<Rightarrow> if IsNotExist e then ret False else throw e))"

definition admit_files :: "string \<Rightarrow> string \<Rightarrow> string \<Rightarrow> int \<Rightarrow> ('a cache_state_scheme, unit) io" where
  "admit_files project base bundle now =
     bindE (write_in project base (\<lambda>_. ce_bundle_update (\<lambda>_. Some [])) (\<lambda>_. ce_bundle_update (\<lambda>_. Some bundle))) (\<lambda>_.
     bindE (write_in project base (\<lambda>t. ce_meta_update (\<lambda>_. Some (Garbled, t)))
       (\<lambda>t. ce_meta_update (\<lambda>_. Some (Json \<lparr>m_Bytes = int (length bundle), m_LastUsed = now\<rparr>, t)))) (\<lambda>_.
     bindE os_call (\<lambda>_. bindE (modify (put_entry project base (ce_complete_update (\<lambda>_. True)))) (\<lambda>_. os_call))))"

definition Admit :: "string \<Rightarrow> string \<Rightarrow> string \<Rightarrow> bundle_cache_policy \<Rightarrow> int \<Rightarrow> ('a cache_state_scheme, bool) io" where
  "Admit project base bundle policy now =
     bindE (lift_result (entryDir project base)) (\<lambda>_.
     if 0 < AdmissionBytes policy \<and> int (length bundle) < AdmissionBytes policy then ret False
     else bindE (mkdir_entry project base) (\<lambda>_. bindE (admit_files project base bundle now) (\<lambda>_. ret True)))"

definition AcquireActiveClaim :: "string \<Rightarrow> string \<Rightarrow> string \<Rightarrow> ('a cache_state_scheme, unit) io" where
  "AcquireActiveClaim project base claimID =
     bindE (lift_result (entryDir project base)) (\<lambda>_.
     bindE (lift_result (checkSegment ''claimID'' claimID)) (\<lambda>_.
     bindE (attempt (stat_entry project base Some)) (\<lambda>x. case x of
       Inl e \<Rightarrow> if IsNotExist e then throw (Errf ''bundlecache: no entry for project %q base %q'' [project, base]) else throw e
     | Inr _ \<Rightarrow>
         bindE os_call (\<lambda>_.
         bindE (modify (put_entry project base (ce_claims_update (\<lambda>c. case c of None \<Rightarrow> Some [] | Some d \<Rightarrow> Some d)))) (\<lambda>_.
         bindE os_call (\<lambda>_. bindE Now (\<lambda>t.
         modify (put_entry project base (ce_claims_update (map_option (AList.update claimID (False, t)))))))))))) "

definition ReleaseActiveClaim :: "string \<Rightarrow> string \<Rightarrow> string \<Rightarrow> ('a cache_state_scheme, unit) io" where
  "ReleaseActiveClaim project base claimID =
     bindE (lift_result (entryDir project base)) (\<lambda>_.
     bindE (lift_result (checkSegment ''claimID'' claimID)) (\<lambda>_.
     bindE (attempt (stat_entry project base (\<lambda>e. case ce_claims e of None \<Rightarrow> None | Some d \<Rightarrow> map_of d claimID))) (\<lambda>x. case x of
       Inl e \<Rightarrow> if IsNotExist e then ret () else throw e
     | Inr _ \<Rightarrow> modify (put_entry project base (ce_claims_update (map_option (AList.delete claimID)))))))"

definition UpdateLastUse :: "string \<Rightarrow> string \<Rightarrow> int \<Rightarrow> ('a cache_state_scheme, unit) io" where
  "UpdateLastUse project base now =
     bindE (lift_result (entryDir project base)) (\<lambda>_.
     bindE (stat_entry project base ce_meta) (\<lambda>(j, _).
     bindE (lift_result (decode_json j)) (\<lambda>m.
     write_in project base (\<lambda>t. ce_meta_update (\<lambda>_. Some (Garbled, t)))
       (\<lambda>t. ce_meta_update (\<lambda>_. Some (Json (m\<lparr>m_LastUsed := now\<rparr>), t))))))"

definition list_one :: "string \<Rightarrow> bundle_entry list \<Rightarrow> string \<Rightarrow> ('a cache_state_scheme, bundle_entry list) io" where
  "list_one project out base =
     bindE (attempt (stat_entry project base (\<lambda>e. if ce_complete e then Some () else None))) (\<lambda>x. case x of
       Inl _ \<Rightarrow> ret out
     | Inr _ \<Rightarrow> bindE (attempt (stat_entry project base ce_meta)) (\<lambda>y. ret (case y of
           Inr (Json m, _) \<Rightarrow> out @ [\<lparr>Base = base, Bytes = m_Bytes m, LastUsed = m_LastUsed m\<rparr>]
         | _ \<Rightarrow> out)))"

definition ListEntries :: "string \<Rightarrow> ('a cache_state_scheme, bundle_entry list) io" where
  "ListEntries project =
     bindE (lift_result (checkSegment ''project'' project)) (\<lambda>_.
     bindE (attempt (list_bases project)) (\<lambda>x. case x of
       Inl e \<Rightarrow> if IsNotExist e then ret [] else throw e
     | Inr ns \<Rightarrow>
         bindE (foldE (list_one project) [] ns) (\<lambda>out.
         ret (go_sort (\<lambda>a b. Base a < Base b) out))))"

definition withinLimits :: "bundle_entry list \<Rightarrow> bundle_cache_policy \<Rightarrow> bool" where
  "withinLimits entries p \<longleftrightarrow> \<not> (0 < MaxEntries p \<and> MaxEntries p < int (length entries))
     \<and> \<not> (0 < MaxCacheBytes p \<and> MaxCacheBytes p < foldl (\<lambda>t e. wrap64 (t + Bytes e)) 0 entries)"

definition marker_count :: "(bool \<times> int) dir \<Rightarrow> nat" where
  "marker_count d = length (filter (\<lambda>n. (case map_of d n of Some (is_dir, _) \<Rightarrow> \<not> is_dir | None \<Rightarrow> False) \<and> validSegment n) (dir_names d))"

definition activeClaims :: "string \<Rightarrow> string \<Rightarrow> ('a cache_state_scheme, nat) io" where
  "activeClaims project base =
     bindE (lift_result (entryDir project base)) (\<lambda>_.
     bindE (attempt (stat_entry project base ce_claims)) (\<lambda>x. case x of
       Inl e \<Rightarrow> if IsNotExist e then ret 0 else throw e
     | Inr d \<Rightarrow> ret (marker_count d)))"

text \<open>The loop over the sorted entries: \<open>kept\<close> are the claimed ones passed already, \<open>rest\<close> those to come.\<close>

fun evict_loop :: "string \<Rightarrow> bundle_cache_policy \<Rightarrow> bundle_entry list \<Rightarrow> bundle_entry list \<Rightarrow> nat \<Rightarrow> ('a cache_state_scheme, nat) io" where
  "evict_loop project p kept [] removed = ret removed"
| "evict_loop project p kept (e # rest) removed =
     (if withinLimits (kept @ e # rest) p then ret removed
      else bindE (activeClaims project (Base e)) (\<lambda>n.
        if 0 < n then evict_loop project p (kept @ [e]) rest removed
        else bindE (lift_result (entryDir project (Base e))) (\<lambda>_.
          bindE os_call (\<lambda>_. bindE (modify (del_entry project (Base e))) (\<lambda>_.
          evict_loop project p kept rest (removed + 1))))))"

definition EvictLRU :: "string \<Rightarrow> bundle_cache_policy \<Rightarrow> ('a cache_state_scheme, nat) io" where
  "EvictLRU project p =
     bindE (ListEntries project) (\<lambda>entries.
     if withinLimits entries p then ret 0
     else evict_loop project p [] (go_sort (\<lambda>a b. LastUsed a < LastUsed b) entries) 0)"

section \<open>Stale entries and claims\<close>

definition entryAge :: "string \<Rightarrow> string \<Rightarrow> int \<Rightarrow> ('a cache_state_scheme, int) io" where
  "entryAge project base now =
     bindE (attempt (stat_entry project base ce_meta)) (\<lambda>x. case x of
       Inr (_, t) \<Rightarrow> ret (now - t)
     | Inl e \<Rightarrow> if \<not> IsNotExist e then throw e
         else bindE (stat_entry project base (\<lambda>d. Some (ce_mtime d))) (\<lambda>t. ret (now - t)))"

definition reap_marker :: "string \<Rightarrow> string \<Rightarrow> int \<Rightarrow> int \<Rightarrow> nat \<Rightarrow> string \<Rightarrow> ('a cache_state_scheme, nat) io" where
  "reap_marker project base now claimTTL removed c =
     bindE (attempt (stat_entry project base (\<lambda>e. case ce_claims e of None \<Rightarrow> None | Some d \<Rightarrow> map_of d c))) (\<lambda>x. case x of
       Inr (False, t) \<Rightarrow>
         if claimTTL < now - t
         then bindE os_call (\<lambda>_. bindE (modify (put_entry project base (ce_claims_update (map_option (AList.delete c))))) (\<lambda>_.
           ret (removed + 1)))
         else ret removed
     | _ \<Rightarrow> ret removed)"

definition reap_claims_of :: "string \<Rightarrow> string \<Rightarrow> int \<Rightarrow> int \<Rightarrow> nat \<Rightarrow> ('a cache_state_scheme, nat) io" where
  "reap_claims_of project base now claimTTL removed =
     bindE (attempt (stat_entry project base ce_claims)) (\<lambda>x. case x of
       Inl e \<Rightarrow> if IsNotExist e then ret removed else throw e
     | Inr d \<Rightarrow> foldE (reap_marker project base now claimTTL) removed (dir_names d))"

definition reap_entry :: "int \<Rightarrow> int \<Rightarrow> int \<Rightarrow> string \<Rightarrow> nat \<Rightarrow> string \<Rightarrow> ('a cache_state_scheme, nat) io" where
  "reap_entry now partialAge claimTTL project removed base =
     bindE (attempt (stat_entry project base (\<lambda>e. if ce_complete e then Some () else None))) (\<lambda>x.
     bindE (case x of
         Inl e \<Rightarrow> if IsNotExist e then bindE (entryAge project base now) (\<lambda>age. ret (partialAge < age)) else ret False
       | Inr _ \<Rightarrow> ret False) (\<lambda>stale.
     if stale then bindE os_call (\<lambda>_. bindE (modify (del_entry project base)) (\<lambda>_. ret (removed + 1)))
     else reap_claims_of project base now claimTTL removed))"

definition reap_project :: "int \<Rightarrow> int \<Rightarrow> int \<Rightarrow> nat \<Rightarrow> string \<Rightarrow> ('a cache_state_scheme, nat) io" where
  "reap_project now partialAge claimTTL removed project =
     bindE (list_bases project) (foldE (reap_entry now partialAge claimTTL project) removed)"

definition ReapStale :: "int \<Rightarrow> int \<Rightarrow> int \<Rightarrow> ('a cache_state_scheme, nat) io" where
  "ReapStale now partialAge claimTTL =
     bindE os_call (\<lambda>_.
     bindE (asks (\<lambda>w. filter (\<lambda>n. is_sub (map_of (cache w) n) \<and> validSegment n) (dir_names (cache w))))
       (foldE (reap_project now partialAge claimTTL) 0))"

end
