(* ===== verification/Vci_BundleCache_Laws.thy ===== *)
theory Vci_BundleCache_Laws
  imports Vci_BundleCache Vci_Scheduler_Laws "HOL-Library.Sublist"
begin

text \<open>
  Properties of the bundle cache: a first admission is a hit only when it is whole, and eviction
  never takes a claimed entry, takes the least recently used of the others, and stops as soon as the
  limits hold.
\<close>

section \<open>Lookup and update\<close>

lemma project_put_entry: "project_entries (put_entry p b upd w) q =
    (if q = p then map_option (\<lambda>d. case entry_at w p b of None \<Rightarrow> d | Some e \<Rightarrow> AList.update b (Sub (upd e)) d) (project_entries w p)
     else project_entries w q)"
  by (auto simp: put_entry_def project_entries_def update_conv' split: option.splits entry.splits)

lemma entry_put_entry: "entry_at (put_entry p b upd w) q c =
    (if q = p \<and> c = b then map_option upd (entry_at w p b) else entry_at w q c)"
  by (auto simp: entry_at_def project_put_entry update_conv' split: option.splits entry.splits)

lemma entry_del_entry: "entry_at (del_entry p b w) q c = (if q = p \<and> c = b then None else entry_at w q c)"
  by (auto simp: entry_at_def del_entry_def project_entries_def update_conv' delete_conv' split: option.splits entry.splits)

lemma entry_at_quiet: "quiet w w' \<Longrightarrow> entry_at w' p b = entry_at (w :: 'a cache_state_scheme) p b"
  by (auto simp: quiet_def entry_at_def project_entries_def)

lemma entries_quiet: "quiet w w' \<Longrightarrow> entry_at w' = entry_at (w :: 'a cache_state_scheme)"
  by (simp add: fun_eq_iff entry_at_quiet)

lemma entry_at_os: "os_call w = (r, w') \<Longrightarrow> entry_at w' p b = entry_at (w :: 'a cache_state_scheme) p b"
  by (blast dest: os_call_quiet entry_at_quiet)

lemma entry_add_entry: "entry_at (add_entry p b w) q c = entry_at w q c
    \<or> (q = p \<and> c = b \<and> entry_at w p b = None \<and> entry_at (add_entry p b w) p b = Some (empty_entry (clock w)))"
  by (auto simp: add_entry_def entry_at_def project_entries_def update_conv' split: option.splits entry.splits)

lemma lookup_entry_at: "entry_at w p b = Some e \<longleftrightarrow> lookup_entry w p b = Inr e"
  by (auto simp: entry_at_def lookup_entry_def project_entries_def split: option.splits entry.splits)

section \<open>Eviction\<close>

text \<open>The plan of an eviction, on the sorted entries alone: \<open>claimed\<close> entries are passed over.\<close>

fun evict_plan :: "(string \<Rightarrow> bool) \<Rightarrow> bundle_cache_policy \<Rightarrow> bundle_entry list \<Rightarrow> bundle_entry list \<Rightarrow> bundle_entry list" where
  "evict_plan claimed p kept [] = []"
| "evict_plan claimed p kept (e # rest) =
     (if withinLimits (kept @ e # rest) p then []
      else if claimed (Base e) then evict_plan claimed p (kept @ [e]) rest
      else e # evict_plan claimed p kept rest)"

lemma fold_wrap64: "foldl (\<lambda>t e. wrap64 (t + f e)) (wrap64 a) xs = wrap64 (a + sum_list (map f xs))"
proof (induction xs arbitrary: a)
  case (Cons x xs)
  have "wrap64 (wrap64 a + f x) = wrap64 (a + f x)" by (simp add: wrap64_eq mod_simps algebra_simps)
  with Cons [of "a + f x"] show ?case by (simp add: add.assoc)
qed simp

lemma withinLimits_mset:
  assumes "mset xs = mset ys"
  shows "withinLimits xs p = withinLimits ys p"
proof -
  have total: "foldl (\<lambda>t e. wrap64 (t + Bytes e)) 0 zs = wrap64 (sum_mset (image_mset Bytes (mset zs)))" for zs
    using fold_wrap64 [of Bytes 0 zs] by (simp add: sum_mset_sum_list [symmetric] wrap64_eq)
  show ?thesis unfolding withinLimits_def total assms using assms by (metis size_mset)
qed

lemma subseq_mem: "subseq xs ys \<Longrightarrow> x \<in> set xs \<Longrightarrow> x \<in> set ys"
  by (induction rule: list_emb.induct) auto

lemma sorted_wrt_subseq: "subseq xs ys \<Longrightarrow> sorted_wrt P ys \<Longrightarrow> sorted_wrt P xs"
  by (induction rule: list_emb.induct) (auto dest: subseq_mem)

lemma distinct_subseq: "subseq xs ys \<Longrightarrow> distinct ys \<Longrightarrow> distinct xs"
  by (induction rule: list_emb.induct) (auto dest: subseq_mem)

lemma plan_subseq: "subseq (evict_plan cl p kept rest) (filter (\<lambda>e. \<not> cl (Base e)) rest)"
  by (induction rest arbitrary: kept) auto

lemma plan_subset: "set (evict_plan cl p kept rest) \<subseteq> {e \<in> set rest. \<not> cl (Base e)}"
  by (induction rest arbitrary: kept) auto

lemma filter_without:
  assumes "e \<notin> set xs" and "e \<notin> set ys"
  shows "filter (\<lambda>x. x \<notin> insert e S) (xs @ e # ys) = filter (\<lambda>x. x \<notin> S) (xs @ ys)"
proof -
  have "filter (\<lambda>x. x \<notin> insert e S) zs = filter (\<lambda>x. x \<notin> S) zs" if "e \<notin> set zs" for zs
    using that by (intro filter_cong) auto
  with assms show ?thesis by simp
qed

lemma plan_stops: "distinct (kept @ rest) \<Longrightarrow>
    withinLimits (filter (\<lambda>e. e \<notin> set (evict_plan cl p kept rest)) (kept @ rest)) p
    \<or> (\<forall>e \<in> set rest - set (evict_plan cl p kept rest). cl (Base e))"
proof (induction rest arbitrary: kept)
  case (Cons e rest)
  have split: "filter (\<lambda>x. x \<noteq> e \<and> x \<notin> set (evict_plan cl p kept rest)) (kept @ e # rest)
      = filter (\<lambda>x. x \<notin> set (evict_plan cl p kept rest)) (kept @ rest)"
    using Cons.prems filter_without [of e kept rest "set (evict_plan cl p kept rest)"] by auto
  show ?case
    using Cons.IH [of "kept @ [e]"] Cons.IH [of kept] Cons.prems
    by (auto simp del: filter_append simp: split)
qed simp

lemma plan_needed: "distinct (kept @ rest) \<Longrightarrow> k < length (evict_plan cl p kept rest) \<Longrightarrow>
    \<not> withinLimits (filter (\<lambda>e. e \<notin> set (take k (evict_plan cl p kept rest))) (kept @ rest)) p"
proof (induction rest arbitrary: kept k)
  case (Cons e rest)
  have split: "filter (\<lambda>x. x \<notin> insert e (set (take j (evict_plan cl p kept rest)))) (kept @ e # rest)
      = filter (\<lambda>x. x \<notin> set (take j (evict_plan cl p kept rest))) (kept @ rest)" for j
    using Cons.prems by (intro filter_without) auto
  show ?case
    using Cons.IH [of "kept @ [e]" k] Cons.IH [of kept "k - 1"] Cons.prems split [of "k - 1"]
    by (cases k) (auto simp del: filter_append split: if_splits)
qed simp

lemma plan_oldest:
  assumes "sorted_wrt (\<lambda>a b. LastUsed a \<le> LastUsed b) rest"
    and "v \<in> set (evict_plan cl p kept rest)" and "e \<in> set rest" and "\<not> cl (Base e)" and "e \<notin> set (evict_plan cl p kept rest)"
  shows "LastUsed v \<le> LastUsed e"
  using assms
proof (induction rest arbitrary: kept)
  case (Cons x rest)
  then show ?case using plan_subset [of cl p kept rest] plan_subset [of cl p "kept @ [x]" rest]
    by (auto split: if_splits)
qed simp

text \<open>What the listing reads: the entries that are complete and whose metadata parse.\<close>

definition entry_info :: "'a cache_state_scheme \<Rightarrow> string \<Rightarrow> string \<Rightarrow> bundle_entry option" where
  "entry_info w project base = (case entry_at w project base of
       Some e \<Rightarrow> (case ce_meta e of
           Some (Json m, _) \<Rightarrow> if ce_complete e then Some \<lparr>Base = base, Bytes = m_Bytes m, LastUsed = m_LastUsed m\<rparr> else None
         | _ \<Rightarrow> None)
     | None \<Rightarrow> None)"

definition claimed :: "'a cache_state_scheme \<Rightarrow> string \<Rightarrow> string \<Rightarrow> bool" where
  "claimed w project base \<longleftrightarrow> (case entry_at w project base of
       Some e \<Rightarrow> (case ce_claims e of Some d \<Rightarrow> 0 < marker_count d | None \<Rightarrow> False)
     | None \<Rightarrow> False)"

definition bases :: "'a cache_state_scheme \<Rightarrow> string \<Rightarrow> string list" where
  "bases w project = (case project_entries w project of
       None \<Rightarrow> [] | Some d \<Rightarrow> filter (\<lambda>n. is_sub (map_of d n) \<and> validSegment n) (dir_names d))"

definition entries :: "'a cache_state_scheme \<Rightarrow> string \<Rightarrow> bundle_entry list" where
  "entries w project = go_sort (\<lambda>a b. Base a < Base b) (List.map_filter (entry_info w project) (bases w project))"

lemma is_sub_entry: "b \<in> set (bases w p) \<longleftrightarrow> validSegment b \<and> (\<exists>e. entry_at w p b = Some e)"
  by (auto simp: bases_def entry_at_def is_sub_def dir_names_dom simp del: set_dir_names split: option.splits entry.splits)

lemma entry_info_Base: "entry_info w p b = Some e \<Longrightarrow> Base e = b \<and> entry_at w p b \<noteq> None"
  by (auto simp: entry_info_def split: option.splits json.splits if_splits)

lemma in_entries: "e \<in> set (entries w p) \<longleftrightarrow> entry_info w p (Base e) = Some e \<and> validSegment (Base e)"
proof -
  have "e \<in> set (entries w p) \<longleftrightarrow> (\<exists>b \<in> set (bases w p). entry_info w p b = Some e)"
    by (force simp: entries_def map_filter_def)
  also have "\<dots> \<longleftrightarrow> entry_info w p (Base e) = Some e \<and> validSegment (Base e)"
    using entry_info_Base is_sub_entry by blast
  finally show ?thesis .
qed

lemma distinct_entries: "distinct (entries w p)" "inj_on Base (set (entries w p))"
proof -
  have "distinct (bases w p)" by (simp add: bases_def split: option.split)
  moreover have "inj_on (\<lambda>b. the (entry_info w p b)) {b. entry_info w p b \<noteq> None}"
    by (rule inj_onI) (metis (mono_tags, lifting) entry_info_Base mem_Collect_eq option.collapse)
  ultimately have "distinct (List.map_filter (entry_info w p) (bases w p))"
    by (auto simp: map_filter_def distinct_map inj_on_def)
  then show "distinct (entries w p)" by (metis entries_def mset_go_sort mset_eq_imp_distinct_iff)
  show "inj_on Base (set (entries w p))" by (rule inj_onI) (metis in_entries option.inject)
qed

lemma list_one_ok: "faults w = [] \<Longrightarrow> entry_at w p b = Some e \<Longrightarrow>
    list_one p out b w = (Inr (out @ (case entry_info w p b of None \<Rightarrow> [] | Some i \<Rightarrow> [i])), w)"
  by (auto simp: list_one_def stat_entry_def io_eval lookup_entry_at entry_info_def split: option.splits json.splits)

lemma list_fold_ok: "faults w = [] \<Longrightarrow> \<forall>b \<in> set bs. entry_at w p b \<noteq> None \<Longrightarrow>
    foldE (list_one p) out bs w = (Inr (out @ List.map_filter (entry_info w p) bs), w)"
  by (induction bs arbitrary: out) (auto simp: io_eval list_one_ok map_filter_simps split: option.splits)

lemma ListEntries_ok:
  assumes "faults w = []" and "validSegment p" and "map_of (cache w) p \<noteq> Some Stray"
  shows "ListEntries p w = (Inr (entries w p), w)"
proof -
  have "list_bases p w = (if map_of (cache w) p = None then Inl ENotExist else Inr (bases w p), w)"
    using assms by (auto simp: list_bases_def io_eval bases_def project_entries_def split: option.splits entry.splits)
  moreover have "bases w p = []" if "map_of (cache w) p = None"
    using that by (simp add: bases_def project_entries_def)
  ultimately show ?thesis
    using assms list_fold_ok [of w "bases w p" p "[]"] is_sub_entry [of _ w p]
    by (auto simp: ListEntries_def io_eval lift_bind checkSegment_def ensure_def entries_def go_sort_def map_filter_simps)
qed

lemma activeClaims_ok: "faults w = [] \<Longrightarrow> validSegment p \<Longrightarrow> validSegment b \<Longrightarrow> entry_at w p b = Some e \<Longrightarrow>
    activeClaims p b w = (Inr (case ce_claims e of None \<Rightarrow> 0 | Some d \<Rightarrow> marker_count d), w)"
  by (auto simp: activeClaims_def stat_entry_def io_eval lift_bind entryDir_def checkSegment_def ensure_def lookup_entry_at
      split: option.splits)

lemma plan_cong: "(\<And>e. e \<in> set rest \<Longrightarrow> cl (Base e) = cl' (Base e)) \<Longrightarrow> evict_plan cl p kept rest = evict_plan cl' p kept rest"
  by (induction rest arbitrary: kept) auto

lemma evict_loop_ok:
  assumes "faults w = []" and "validSegment p" and "distinct (map Base rest)"
    and "\<And>e. e \<in> set rest \<Longrightarrow> validSegment (Base e) \<and> entry_at w p (Base e) \<noteq> None"
  shows "evict_loop p pol kept rest n w =
    (Inr (n + length (evict_plan (claimed w p) pol kept rest)),
     foldl (\<lambda>v e. del_entry p (Base e) v) w (evict_plan (claimed w p) pol kept rest))"
  using assms
proof (induction rest arbitrary: kept n w)
  case (Cons e rest)
  let ?v = "del_entry p (Base e) w"
  have faults: "faults ?v = []" using Cons.prems(1) by (simp add: del_entry_def split: option.split)
  have "evict_plan (claimed ?v p) pol kept rest = evict_plan (claimed w p) pol kept rest"
    using Cons.prems(3) by (intro plan_cong) (auto simp: claimed_def entry_del_entry image_iff)
  moreover have "evict_loop p pol kept rest (n + 1) ?v =
      (Inr (n + 1 + length (evict_plan (claimed ?v p) pol kept rest)),
       foldl (\<lambda>v e. del_entry p (Base e) v) ?v (evict_plan (claimed ?v p) pol kept rest))"
    using Cons.prems faults by (intro Cons.IH) (auto simp: entry_del_entry image_iff)
  moreover obtain d where d: "entry_at w p (Base e) = Some d" "validSegment (Base e)" using Cons.prems(4) [of e] by auto
  moreover have "claimed w p (Base e) \<longleftrightarrow> 0 < (case ce_claims d of None \<Rightarrow> 0 | Some c \<Rightarrow> marker_count c)"
    using d by (simp add: claimed_def split: option.split)
  ultimately show ?case
    using Cons.prems Cons.IH [of w "kept @ [e]" n]
    by (simp add: io_eval activeClaims_ok lift_bind entryDir_def checkSegment_def ensure_def)
qed simp

text \<open>
  C9: Evicting from a project within reach of the file system removes exactly a list of entries that
  are complete and free of claims, in the order of their last use, none younger than a claim-free entry
  that stays; it goes on until the limits of the policy hold or only claimed entries are left, every one
  of its removals was needed, and the count it returns is their number.
\<close>

theorem EvictLRU_spec:
  assumes "faults w = []" and "validSegment project" and "map_of (cache w) project \<noteq> Some Stray"
  shows "\<exists>vs. EvictLRU project pol w = (Inr (length vs), foldl (\<lambda>v e. del_entry project (Base e) v) w vs)
    \<and> distinct vs \<and> sorted_wrt (\<lambda>a b. LastUsed a \<le> LastUsed b) vs
    \<and> set vs \<subseteq> {e \<in> set (entries w project). \<not> claimed w project (Base e)}
    \<and> (\<forall>v \<in> set vs. \<forall>e \<in> set (entries w project) - set vs. claimed w project (Base e) \<or> LastUsed v \<le> LastUsed e)
    \<and> (let left = filter (\<lambda>e. e \<notin> set vs) (entries w project)
       in withinLimits left pol \<or> list_all (\<lambda>e. claimed w project (Base e)) left)
    \<and> (\<forall>k < length vs. \<not> withinLimits (filter (\<lambda>e. e \<notin> set (take k vs)) (entries w project)) pol)"
proof -
  let ?es = "entries w project"
  let ?s = "go_sort (\<lambda>a b. LastUsed a < LastUsed b) ?es"
  let ?vs = "if withinLimits ?es pol then [] else evict_plan (claimed w project) pol [] ?s"
  have sorted: "sorted_wrt (\<lambda>a b. LastUsed a \<le> LastUsed b) ?s"
    using go_sort_sorted [of ?es "\<lambda>a b. LastUsed a < LastUsed b"] by (simp add: weak_order_on_def not_less)
  have dist: "distinct ?s" using distinct_entries(1) [of w project] by (metis mset_go_sort mset_eq_imp_distinct_iff)
  have inj: "distinct (map Base ?s)" using dist distinct_entries(2) [of w project] by (simp add: distinct_map)
  have perm: "withinLimits (filter f ?es) pol = withinLimits (filter f ?s) pol" for f
    by (rule withinLimits_mset) (simp add: mset_filter)
  have within: "withinLimits ?es pol = withinLimits ?s pol" by (rule withinLimits_mset) simp
  have run: "EvictLRU project pol w = (Inr (length ?vs), foldl (\<lambda>v e. del_entry project (Base e) v) w ?vs)"
    using assms evict_loop_ok [of w project ?s pol "[]" 0] inj in_entries [of _ w project] entry_info_Base [of w project]
    by (simp add: EvictLRU_def io_eval ListEntries_ok)
  have seq: "subseq ?vs ?s" using plan_subseq [of "claimed w project" pol "[]" ?s] by (auto intro: subseq_order.order_trans)
  have "sorted_wrt (\<lambda>a b. LastUsed a \<le> LastUsed b) ?vs" using seq sorted by (rule sorted_wrt_subseq)
  moreover have "distinct ?vs" using seq dist by (rule distinct_subseq)
  moreover have "set ?vs \<subseteq> {e \<in> set ?es. \<not> claimed w project (Base e)}"
    using plan_subset [of "claimed w project" pol "[]" ?s] by auto
  moreover have "\<forall>v \<in> set ?vs. \<forall>e \<in> set ?es - set ?vs. claimed w project (Base e) \<or> LastUsed v \<le> LastUsed e"
    using plan_oldest [OF sorted, of _ "claimed w project" pol "[]"] by (auto split: if_splits)
  moreover have "withinLimits (filter (\<lambda>e. e \<notin> set ?vs) ?es) pol \<or> list_all (\<lambda>e. claimed w project (Base e)) (filter (\<lambda>e. e \<notin> set ?vs) ?es)"
    using plan_stops [of "[]" ?s "claimed w project" pol] dist within by (auto simp: perm list_all_iff)
  moreover have "\<forall>k < length ?vs. \<not> withinLimits (filter (\<lambda>e. e \<notin> set (take k ?vs)) ?es) pol"
    using plan_needed [of "[]" ?s _ "claimed w project" pol] dist by (auto simp: perm)
  ultimately show ?thesis using run unfolding Let_def by blast
qed

section \<open>Claims protect\<close>

lemma os_call_err: "os_call w = (Inl ENotExist, w') \<Longrightarrow> False"
  by (auto simp: os_call_def split: list.splits option.splits)

lemma lookup_quiet: "quiet w w' \<Longrightarrow> lookup_entry w' p b = lookup_entry (w :: 'a cache_state_scheme) p b"
  by (auto simp: quiet_def lookup_entry_def)

lemma stat_entry_quiet: "stat_entry p b f w = (r, w') \<Longrightarrow> quiet w w' \<and> (\<forall>x. r = Inr x \<longrightarrow> (\<exists>e. entry_at w p b = Some e \<and> f e = Some x))
    \<and> (\<forall>e. r = Inl ENotExist \<longrightarrow> entry_at w p b = Some e \<longrightarrow> f e = None)"
  unfolding stat_entry_def
  by (elim bindE_cases; frule os_call_quiet)
    (auto dest: os_call_err simp: lookup_entry_at lookup_quiet split: sum.splits option.splits)

lemma activeClaims_zero:
  assumes "activeClaims p b w = (r, w')"
  shows "entry_at w' = entry_at w \<and> (r = Inr 0 \<longrightarrow> \<not> claimed w p b)"
  using assms unfolding activeClaims_def
  by (auto elim!: bindE_cases dest!: stat_entry_quiet simp: attempt_eq claimed_def IsNotExist_iff entry_at_quiet fun_eq_iff
      split: sum.splits if_splits option.splits)

lemma claimed_frame: "entry_at w' p b = entry_at w p b \<Longrightarrow> claimed w' p b = claimed w p b"
  by (simp add: claimed_def)

lemma evict_loop_spares:
  "evict_loop p pol kept rest n w = (r, w') \<Longrightarrow> claimed w q b \<Longrightarrow> entry_at w' q b = entry_at w q b"
proof (induction rest arbitrary: kept n w)
  case (Cons e rest)
  have step: "entry_at w' q b = entry_at w q b"
    if "entry_at v = entry_at w" "\<not> claimed w p (Base e)" "evict_loop p pol kept rest k (del_entry p (Base e) v) = (r, w')" for v k
  proof -
    have "entry_at (del_entry p (Base e) v) q b = entry_at w q b" using that Cons.prems(2) by (auto simp: entry_del_entry)
    with Cons.IH [OF that(3)] Cons.prems(2) claimed_frame show ?thesis by metis
  qed
  have skip: "entry_at w' q b = entry_at w q b"
    if "entry_at v = entry_at w" "evict_loop p pol (kept @ [e]) rest n v = (r, w')" for v
    using Cons.IH [OF that(2)] Cons.prems(2) that(1) claimed_frame by metis
  from Cons.prems(1) consider (same) "w' = w"
    | (refused) x where "activeClaims p (Base e) w = (x, w')"
    | (claimed) m v where "activeClaims p (Base e) w = (Inr m, v)" "evict_loop p pol (kept @ [e]) rest n v = (r, w')"
    | (stuck) v x where "activeClaims p (Base e) w = (Inr 0, v)" "os_call v = (x, w')"
    | (bad) v where "activeClaims p (Base e) w = (Inr 0, v)" "w' = v"
    | (gone) v u where "activeClaims p (Base e) w = (Inr 0, v)" "os_call v = (Inr (), u)"
        "evict_loop p pol kept rest (n + 1) (del_entry p (Base e) u) = (r, w')"
    by (auto elim!: bindE_cases split: if_splits)
  then show ?case
  proof cases
    case (claimed m v)
    then show ?thesis using activeClaims_zero [OF claimed(1)] skip by blast
  next
    case (gone v u)
    then show ?thesis using activeClaims_zero [OF gone(1)] entries_quiet [OF os_call_quiet [OF gone(2)]] step by metis
  qed (use activeClaims_zero entries_quiet os_call_quiet in metis)+
qed simp

lemma ListEntries_quiet: "always quiet (ListEntries p :: ('a cache_state_scheme, bundle_entry list) io)"
  unfolding ListEntries_def list_bases_def list_one_def stat_entry_def
  by (intro always_intro quiet.always_foldE) (auto intro!: always_intro split: entry.split)

text \<open>
  Whatever the file system does, an eviction leaves every entry with an active claim as it was.
\<close>

theorem claimed_entry_kept:
  assumes "EvictLRU project pol w = (r, w')" and "claimed w q base"
  shows "entry_at w' q base = entry_at w q base"
proof -
  have list: "entry_at v' = entry_at v" if "ListEntries project v = (x, v')" for v v' :: "'a cache_state_scheme" and x
    using alwaysD [OF ListEntries_quiet that] by (rule entries_quiet)
  from assms(1) consider v x where "ListEntries project w = (x, v)" "w' = v"
    | v es where "ListEntries project w = (Inr es, v)"
        "evict_loop project pol [] (go_sort (\<lambda>a b. LastUsed a < LastUsed b) es) 0 v = (r, w')"
    unfolding EvictLRU_def by (auto elim!: bindE_cases split: if_splits)
  then show ?thesis
  proof cases
    case (2 v es)
    then have "entry_at w' q base = entry_at v q base"
      using evict_loop_spares [OF 2(2)] claimed_frame [of v q base w] list assms(2) by simp
    with list [OF 2(1)] show ?thesis by simp
  qed (use list in simp)
qed

section \<open>Admission\<close>

lemma write_in_entry:
  assumes "write_in p b tr wr w = (r, w')" and "entry_at w p b = Some e"
  shows "(\<exists>t. entry_at w' p b = Some (wr t (tr t e)) \<or> (r \<noteq> Inr () \<and> entry_at w' p b \<in> {Some e, Some (tr t e)}))
    \<and> (\<forall>q c. (q, c) \<noteq> (p, b) \<longrightarrow> entry_at w' q c = entry_at w q c)"
  using assms unfolding write_in_def Now_def
  by (auto elim!: bindE_cases dest!: os_call_quiet simp: entry_put_entry entry_at_quiet)

lemma mkdir_entry_entry:
  assumes "mkdir_entry p b w = (r, w')"
  shows "(entry_at w' p b = entry_at w p b \<or> (\<exists>t. entry_at w' p b = Some (empty_entry t)))
    \<and> (r = Inr () \<longrightarrow> entry_at w' p b \<noteq> None) \<and> (\<forall>q c. (q, c) \<noteq> (p, b) \<longrightarrow> entry_at w' q c = entry_at w q c)"
proof -
  from assms consider (fault) e where "os_call w = (Inl e, w')" "r = Inl e"
    | (made) v where "os_call w = (Inr (), v)" "w' = add_entry p b v" "r = ensure (entry_at w' p b \<noteq> None) (EOs ''not a directory'')"
    unfolding mkdir_entry_def by (auto elim!: bindE_cases)
  then show ?thesis
  proof cases
    case (made v)
    then have "entry_at v = entry_at w" by (blast dest: os_call_quiet entries_quiet)
    with made entry_add_entry [of p b v] show ?thesis by (auto simp: ensure_def)
  qed (use os_call_quiet entries_quiet in fastforce)
qed

definition whole :: "string \<Rightarrow> int \<Rightarrow> cache_entry \<Rightarrow> bool" where
  "whole bundle now e \<longleftrightarrow> ce_bundle e = Some bundle
     \<and> (\<exists>t. ce_meta e = Some (Json \<lparr>m_Bytes = int (length bundle), m_LastUsed = now\<rparr>, t))"

lemma admit_files_entry:
  assumes "admit_files p b bundle now w = (r, w')" and "entry_at w p b = Some e" and "\<not> ce_complete e"
  shows "(\<exists>e'. entry_at w' p b = Some e' \<and> (ce_complete e' \<longrightarrow> whole bundle now e') \<and> (r = Inr () \<longrightarrow> ce_complete e'))
    \<and> (\<forall>q c. (q, c) \<noteq> (p, b) \<longrightarrow> entry_at w' q c = entry_at w q c)"
proof -
  let ?B = "write_in p b (\<lambda>_. ce_bundle_update (\<lambda>_. Some [])) (\<lambda>_. ce_bundle_update (\<lambda>_. Some bundle))"
  let ?M = "write_in p b (\<lambda>t. ce_meta_update (\<lambda>_. Some (Garbled, t)))
       (\<lambda>t. ce_meta_update (\<lambda>_. Some (Json \<lparr>m_Bytes = int (length bundle), m_LastUsed = now\<rparr>, t)))"
  from assms(1) consider (one) x where "?B w = (Inl x, w')" "r = Inl x"
    | (two) v x where "?B w = (Inr (), v)" "?M v = (Inl x, w')" "r = Inl x"
    | (three) v u x where "?B w = (Inr (), v)" "?M v = (Inr (), u)" "os_call u = (Inl x, w')" "r = Inl x"
    | (four) v u u' where "?B w = (Inr (), v)" "?M v = (Inr (), u)" "os_call u = (Inr (), u')"
        "os_call (put_entry p b (ce_complete_update (\<lambda>_. True)) u') = (r, w')"
    unfolding admit_files_def by (auto elim!: bindE_cases)
  then show ?thesis
  proof cases
    case one
    with write_in_entry [OF one(1) assms(2)] assms(3) show ?thesis by (auto simp: whole_def)
  next
    case (two v x)
    from write_in_entry [OF two(1) assms(2)] have v: "entry_at v p b = Some (e\<lparr>ce_bundle := Some bundle\<rparr>)"
        "\<forall>q c. (q, c) \<noteq> (p, b) \<longrightarrow> entry_at v q c = entry_at w q c" by auto
    with write_in_entry [OF two(2) v(1)] two(3) assms(3) show ?thesis by (auto simp: whole_def)
  next
    case (three v u x)
    from write_in_entry [OF three(1) assms(2)] have v: "entry_at v p b = Some (e\<lparr>ce_bundle := Some bundle\<rparr>)"
        "\<forall>q c. (q, c) \<noteq> (p, b) \<longrightarrow> entry_at v q c = entry_at w q c" by auto
    with write_in_entry [OF three(2) v(1)] three(4) entries_quiet [OF os_call_quiet [OF three(3)]] assms(3)
    show ?thesis by (auto simp: whole_def)
  next
    case (four v u u')
    from write_in_entry [OF four(1) assms(2)] have v: "entry_at v p b = Some (e\<lparr>ce_bundle := Some bundle\<rparr>)"
        "\<forall>q c. (q, c) \<noteq> (p, b) \<longrightarrow> entry_at v q c = entry_at w q c" by auto
    with write_in_entry [OF four(2) v(1)] entries_quiet [OF os_call_quiet [OF four(3)]]
      entries_quiet [OF os_call_quiet [OF four(4)]]
    show ?thesis by (auto simp: whole_def entry_put_entry)
  qed
qed

text \<open>
  C12: The complete marker is written last. Whatever the file system does during the admission of a
  bundle for which there was no complete entry, if the entry is a hit afterwards it holds the whole
  bundle and its metadata; a successful admission is a hit; a bundle below the threshold is not
  admitted and changes nothing; and no other entry of the cache is touched.
\<close>

theorem Admit_hit_intact:
  assumes "Admit project base bundle policy now w = (r, w')"
    and "\<And>e. entry_at w project base = Some e \<Longrightarrow> \<not> ce_complete e"
  shows "(\<forall>e. entry_at w' project base = Some e \<and> ce_complete e \<longrightarrow> whole bundle now e)
    \<and> (r = Inr True \<longrightarrow> (\<exists>e. entry_at w' project base = Some e \<and> ce_complete e))
    \<and> (r = Inr False \<longrightarrow> w' = w \<and> int (length bundle) < AdmissionBytes policy)
    \<and> (\<forall>q c. (q, c) \<noteq> (project, base) \<longrightarrow> entry_at w' q c = entry_at w q c)"
proof -
  from assms(1) consider (refused) x where "w' = w" "r = Inl x"
    | (small) "w' = w" "r = Inr False" "int (length bundle) < AdmissionBytes policy"
    | (dir) x where "mkdir_entry project base w = (Inl x, w')" "r = Inl x"
    | (stored) v s where "mkdir_entry project base w = (Inr (), v)" "admit_files project base bundle now v = (s, w')"
        "r \<noteq> Inr False" "r = Inr True \<longrightarrow> s = Inr ()"
    unfolding Admit_def by (auto elim!: bindE_cases split: if_splits)
  then show ?thesis
  proof cases
    case (dir x)
    with mkdir_entry_entry [OF dir(1)] assms(2) show ?thesis by (auto simp: empty_entry_def)
  next
    case (stored v s)
    from mkdir_entry_entry [OF stored(1)] assms(2) obtain e where "entry_at v project base = Some e" "\<not> ce_complete e"
      by (auto simp: empty_entry_def)
    from admit_files_entry [OF stored(2) this] mkdir_entry_entry [OF stored(1)] stored(3-) show ?thesis by auto
  qed (use assms(2) in auto)
qed

section \<open>Examples\<close>

text \<open>Three complete entries of a project; the oldest one is claimed.\<close>

definition example_entry :: "string \<Rightarrow> int \<Rightarrow> (bool \<times> int) dir option \<Rightarrow> cache_entry entry" where
  "example_entry bundle used cs = Sub \<lparr>ce_bundle = Some bundle,
     ce_meta = Some (Json \<lparr>m_Bytes = int (length bundle), m_LastUsed = used\<rparr>, used),
     ce_complete = True, ce_claims = cs, ce_mtime = used\<rparr>"

definition example_cache :: cache_state where
  "example_cache = \<lparr>faults = [], clock = 9, entropy = [], windows = False,
     cache = [(''p'', Sub [(''a'', example_entry ''aa'' 1 (Some [(''c'', False, 2)])),
                          (''b'', example_entry ''bb'' 3 None), (''d'', example_entry ''dd'' 2 None)])]\<rparr>"

definition one_entry :: bundle_cache_policy where
  "one_entry = \<lparr>MaxEntries = 1, MaxCacheBytes = 0, AdmissionBytes = 0\<rparr>"

lemma example_segments: "validSegment ''p''" "validSegment ''a''" "validSegment ''b''" "validSegment ''c''" "validSegment ''d''"
  by code_simp+

lemma example_claimed: "claimed example_cache ''p'' ''a''"
  by (simp add: claimed_def entry_at_def project_entries_def example_cache_def example_entry_def marker_count_def
      dir_names_def example_segments)

lemma EvictLRU_spec_witness:
  "\<exists>vs. EvictLRU ''p'' one_entry example_cache = (Inr (length vs), foldl (\<lambda>v e. del_entry ''p'' (Base e) v) example_cache vs)
    \<and> distinct vs \<and> sorted_wrt (\<lambda>a b. LastUsed a \<le> LastUsed b) vs
    \<and> set vs \<subseteq> {e \<in> set (entries example_cache ''p''). \<not> claimed example_cache ''p'' (Base e)}
    \<and> (\<forall>v \<in> set vs. \<forall>e \<in> set (entries example_cache ''p'') - set vs.
        claimed example_cache ''p'' (Base e) \<or> LastUsed v \<le> LastUsed e)
    \<and> (let left = filter (\<lambda>e. e \<notin> set vs) (entries example_cache ''p'')
       in withinLimits left one_entry \<or> list_all (\<lambda>e. claimed example_cache ''p'' (Base e)) left)
    \<and> (\<forall>k < length vs. \<not> withinLimits (filter (\<lambda>e. e \<notin> set (take k vs)) (entries example_cache ''p'')) one_entry)"
  by (rule EvictLRU_spec) (simp_all add: example_cache_def example_segments)

lemma claimed_entry_kept_witness:
  "entry_at (snd (EvictLRU ''p'' one_entry (example_cache\<lparr>faults := replicate 12 None @ [Some ''io'']\<rparr>))) ''p'' ''a''
    = entry_at example_cache ''p'' ''a''"
proof -
  let ?w = "example_cache\<lparr>faults := replicate 12 None @ [Some ''io'']\<rparr>"
  have same: "entry_at ?w = entry_at example_cache" by (simp add: fun_eq_iff entry_at_def project_entries_def)
  then have "claimed ?w ''p'' ''a''" using example_claimed by (simp add: claimed_def)
  then have "entry_at (snd (EvictLRU ''p'' one_entry ?w)) ''p'' ''a'' = entry_at ?w ''p'' ''a''"
    by (rule claimed_entry_kept [OF prod.collapse [symmetric]])
  then show ?thesis using same by simp
qed

text \<open>An admission that is cut short by a full disk while the metadata are written is not a hit.\<close>

lemma Admit_hit_intact_witness:
  "let w' = snd (Admit ''p'' ''e'' ''ee'' one_entry 7 (example_cache\<lparr>faults := replicate 5 None @ [Some ''no space'']\<rparr>))
   in entry_at w' ''p'' ''e'' \<noteq> None \<and> (\<forall>e. entry_at w' ''p'' ''e'' = Some e \<longrightarrow> ce_complete e \<longrightarrow> whole ''ee'' 7 e)"
proof -
  let ?w = "example_cache\<lparr>faults := replicate 5 None @ [Some ''no space'']\<rparr>"
  have "validSegment ''e''" by code_simp
  then have "entry_at (snd (Admit ''p'' ''e'' ''ee'' one_entry 7 ?w)) ''p'' ''e'' \<noteq> None"
    by (simp add: Admit_def admit_files_def io_eval lift_bind entryDir_def checkSegment_def ensure_def example_segments one_entry_def
        mkdir_entry_def guard_def write_in_def Now_def os_call_def example_cache_def add_entry_def entry_at_def project_entries_def
        put_entry_def numeral_eq_Suc)
  moreover have "entry_at ?w ''p'' ''e'' = None" by (simp add: example_cache_def entry_at_def project_entries_def)
  ultimately show ?thesis
    using Admit_hit_intact [of "''p''" "''e''" "''ee''" one_entry 7 ?w, OF prod.collapse [symmetric]] by (auto simp: Let_def)
qed

text \<open>
  The hypothesis of the property above matters: admitting a bundle again writes over the old one in
  place while the marker is still there, so an interrupted second admission is a hit on an empty bundle.
\<close>

lemma readmission_torn:
  "let w' = snd (Admit ''p'' ''b'' ''new'' one_entry 7 (example_cache\<lparr>faults := [None, None, Some ''no space'']\<rparr>))
   in \<exists>e. entry_at w' ''p'' ''b'' = Some e \<and> ce_complete e \<and> ce_bundle e = Some []"
  by (simp add: Let_def Admit_def admit_files_def io_eval lift_bind entryDir_def checkSegment_def ensure_def example_segments one_entry_def
      mkdir_entry_def guard_def write_in_def Now_def os_call_def example_cache_def add_entry_def entry_at_def project_entries_def
      put_entry_def example_entry_def)

end
