(* ===== verification/Vci_Fs.thy ===== *)
theory Vci_Fs
  imports Vci_IO Vci_Path
begin

text \<open>
  A POSIX file system as the worker commands see it through package \<open>os\<close>: directories with their
  entries and times, files as links to inodes (two names may share one), symbolic links that path
  resolution follows (at most forty of them), and special files. Every call may fail; a removal that
  fails removes nothing.
\<close>

section \<open>Trees\<close>

datatype fnode =
    FDir int "(string \<times> fnode) list"
  | FFile nat
  | FLink string
  | FDev

record inode =
  i_data :: string
  i_mode :: nat
  i_mtime :: int

record fs_state = os_state +
  disk :: fnode
  inodes :: "(nat \<times> inode) list"
  cwd :: "string list"

fun node_at :: "fnode \<Rightarrow> string list \<Rightarrow> fnode option" where
  "node_at n [] = Some n"
| "node_at (FDir t es) (k # ks) = (case map_of es k of None \<Rightarrow> None | Some c \<Rightarrow> node_at c ks)"
| "node_at _ (k # ks) = None"

text \<open>Changing the node at a path, and nothing else.\<close>

fun map_at :: "string list \<Rightarrow> (fnode \<Rightarrow> fnode) \<Rightarrow> fnode \<Rightarrow> fnode" where
  "map_at [] f n = f n"
| "map_at (k # ks) f (FDir t es) =
     (case map_of es k of None \<Rightarrow> FDir t es | Some c \<Rightarrow> FDir t (AList.update k (map_at ks f c) es))"
| "map_at (k # ks) f n = n"

text \<open>Setting or removing the entry of a directory, whose time changes.\<close>

definition set_entry :: "int \<Rightarrow> string \<Rightarrow> fnode option \<Rightarrow> fnode \<Rightarrow> fnode" where
  "set_entry now k v n = (case n of
       FDir t es \<Rightarrow> FDir now (case v of None \<Rightarrow> AList.delete k es | Some m \<Rightarrow> AList.update k m es)
     | _ \<Rightarrow> n)"

definition put_at :: "int \<Rightarrow> string list \<Rightarrow> fnode option \<Rightarrow> fnode \<Rightarrow> fnode" where
  "put_at now p v n = (if p = [] then n else map_at (butlast p) (set_entry now (last p) v) n)"

section \<open>Path resolution\<close>

abbreviation enotdir :: err where "enotdir \<equiv> EOs ''not a directory''"
abbreviation eexist :: err where "eexist \<equiv> EOs ''file exists''"
abbreviation eisdir :: err where "eisdir \<equiv> EOs ''is a directory''"

text \<open>
  The location a path names: segments are walked from a directory \<open>cur\<close>; a symbolic link is replaced
  by its target, the last one only if \<open>follow\<close>. The last segment may be missing, the others may not.
\<close>

function resolve :: "fnode \<Rightarrow> bool \<Rightarrow> nat \<Rightarrow> string list \<Rightarrow> string list \<Rightarrow> string list result" where
  "resolve root follow n cur [] = Inr cur"
| "resolve root follow n cur (s # rest) =
     (if s = [] \<or> s = ''.'' then resolve root follow n cur rest
      else if s = ''..'' then resolve root follow n (butlast cur) rest
      else case node_at root (cur @ [s]) of
          None \<Rightarrow> if rest = [] then Inr (cur @ [s]) else Inl ENotExist
        | Some (FDir t es) \<Rightarrow> resolve root follow n (cur @ [s]) rest
        | Some (FLink target) \<Rightarrow>
            if rest = [] \<and> \<not> follow then Inr (cur @ [s])
            else if n = 0 then Inl (EOs ''too many levels of symbolic links'')
            else resolve root follow (n - 1) (if IsAbs target then [] else cur) (Split slash target @ rest)
        | Some _ \<Rightarrow> if rest = [] then Inr (cur @ [s]) else Inl enotdir)"
  by pat_completeness auto

termination
  by (relation "measures [\<lambda>(_, _, n, _, _). n, \<lambda>(_, _, _, _, rest). length rest]") auto

definition locate :: "bool \<Rightarrow> string \<Rightarrow> 'a fs_state_scheme \<Rightarrow> string list result" where
  "locate follow p w = resolve (disk w) follow 40 (if IsAbs p then [] else cwd w) (Split slash p)"

definition at_path :: "bool \<Rightarrow> string \<Rightarrow> ('a fs_state_scheme, string list \<times> fnode option) io" where
  "at_path follow p = bindE os_call (\<lambda>_. bindE (asks (locate follow p)) (\<lambda>r. case r of
       Inl e \<Rightarrow> throw e
     | Inr q \<Rightarrow> bindE (asks (\<lambda>w. node_at (disk w) q)) (\<lambda>n. ret (q, n))))"

section \<open>Calls\<close>

datatype file_kind = KDir | KRegular | KSymlink | KSpecial

record file_info =
  fi_kind :: file_kind
  fi_size :: int
  fi_mode :: nat
  fi_mtime :: int

definition the_inode :: "'a fs_state_scheme \<Rightarrow> nat \<Rightarrow> inode" where
  "the_inode w i = (case map_of (inodes w) i of Some d \<Rightarrow> d | None \<Rightarrow> \<lparr>i_data = [], i_mode = 0, i_mtime = 0\<rparr>)"

definition info_of :: "'a fs_state_scheme \<Rightarrow> fnode \<Rightarrow> file_info" where
  "info_of w n = (case n of
       FDir t es \<Rightarrow> \<lparr>fi_kind = KDir, fi_size = 0, fi_mode = 493, fi_mtime = t\<rparr>
     | FFile i \<Rightarrow> (let d = the_inode w i in \<lparr>fi_kind = KRegular, fi_size = int (length (i_data d)), fi_mode = i_mode d, fi_mtime = i_mtime d\<rparr>)
     | FLink target \<Rightarrow> \<lparr>fi_kind = KSymlink, fi_size = int (length target), fi_mode = 511, fi_mtime = 0\<rparr>
     | FDev \<Rightarrow> \<lparr>fi_kind = KSpecial, fi_size = 0, fi_mode = 420, fi_mtime = 0\<rparr>)"

definition stat_with :: "bool \<Rightarrow> string \<Rightarrow> ('a fs_state_scheme, file_info) io" where
  "stat_with follow p = bindE (at_path follow p) (\<lambda>(_, n). case n of
       None \<Rightarrow> throw ENotExist
     | Some m \<Rightarrow> bindE (asks (\<lambda>w. info_of w m)) ret)"

definition Stat :: "string \<Rightarrow> ('a fs_state_scheme, file_info) io" where "Stat = stat_with True"
definition Lstat :: "string \<Rightarrow> ('a fs_state_scheme, file_info) io" where "Lstat = stat_with False"

text \<open>\<open>os.ReadDir\<close>: the entries by name.\<close>

definition ReadDir :: "string \<Rightarrow> ('a fs_state_scheme, (string \<times> fnode) list) io" where
  "ReadDir p = bindE (at_path True p) (\<lambda>(_, n). case n of
       None \<Rightarrow> throw ENotExist
     | Some (FDir t es) \<Rightarrow> ret (sort_key fst es)
     | Some _ \<Rightarrow> throw enotdir)"

definition ReadFile :: "string \<Rightarrow> ('a fs_state_scheme, string) io" where
  "ReadFile p = bindE (at_path True p) (\<lambda>(_, n). case n of
       None \<Rightarrow> throw ENotExist
     | Some (FFile i) \<Rightarrow> asks (\<lambda>w. i_data (the_inode w i))
     | Some (FDir _ _) \<Rightarrow> throw eisdir
     | Some _ \<Rightarrow> throw (EOs ''not a regular file''))"

definition Readlink :: "string \<Rightarrow> ('a fs_state_scheme, string) io" where
  "Readlink p = bindE (at_path False p) (\<lambda>(_, n). case n of
       None \<Rightarrow> throw ENotExist
     | Some (FLink target) \<Rightarrow> ret target
     | Some _ \<Rightarrow> throw (EOs ''invalid argument''))"

definition set_disk :: "(int \<Rightarrow> fnode \<Rightarrow> fnode) \<Rightarrow> ('a fs_state_scheme, unit) io" where
  "set_disk f = modify (\<lambda>w. w\<lparr>disk := f (clock w) (disk w)\<rparr>)"

text \<open>\<open>os.MkdirAll\<close>: every leading part of the path is entered if it is a directory and made if it is missing.\<close>

definition mkdir_one :: "string \<Rightarrow> ('a fs_state_scheme, unit) io" where
  "mkdir_one p = bindE (at_path True p) (\<lambda>(q, n). case n of
       Some (FDir _ _) \<Rightarrow> ret ()
     | Some _ \<Rightarrow> throw enotdir
     | None \<Rightarrow> bindE (asks (locate False p)) (\<lambda>r. if r = Inr q then set_disk (\<lambda>t. put_at t q (Some (FDir t []))) else throw eexist))"

definition path_prefixes :: "string \<Rightarrow> string list" where
  "path_prefixes p = map (\<lambda>i. (if IsAbs p then [slash] else []) @ Join (take i (path_segs p)) ''/'') [1 ..< length (path_segs p) + 1]"

definition MkdirAll :: "string \<Rightarrow> ('a fs_state_scheme, unit) io" where
  "MkdirAll p = forE (path_prefixes p) mkdir_one"

text \<open>\<open>os.OpenFile\<close> with \<open>O_CREATE\<close>: the inode of the file that is open; \<open>O_TRUNC\<close> empties it.\<close>

definition fresh_inode :: "'a fs_state_scheme \<Rightarrow> nat" where
  "fresh_inode w = Suc (fold max (map fst (inodes w)) 0)"

fun open_node :: "bool \<Rightarrow> nat \<Rightarrow> string list \<times> fnode option \<Rightarrow> ('a fs_state_scheme, nat) io" where
  "open_node trunc mode (q, None) = bindE (asks fresh_inode) (\<lambda>i.
     bindE (modify (\<lambda>w. w\<lparr>inodes := AList.update i \<lparr>i_data = [], i_mode = mode, i_mtime = clock w\<rparr> (inodes w),
       disk := put_at (clock w) q (Some (FFile i)) (disk w)\<rparr>)) (\<lambda>_. ret i))"
| "open_node trunc mode (q, Some (FFile i)) =
     bindE (modify (\<lambda>w. if trunc then w\<lparr>inodes := AList.update i ((the_inode w i)\<lparr>i_data := [], i_mtime := clock w\<rparr>) (inodes w)\<rparr> else w)) (\<lambda>_.
     ret i)"
| "open_node trunc mode (q, Some (FDir _ _)) = throw eisdir"
| "open_node trunc mode (q, Some _) = throw (EOs ''not a regular file'')"

definition open_create :: "bool \<Rightarrow> string \<Rightarrow> nat \<Rightarrow> ('a fs_state_scheme, nat) io" where
  "open_create trunc p mode = bindE (at_path True p) (open_node trunc mode)"

definition write_inode :: "nat \<Rightarrow> string \<Rightarrow> ('a fs_state_scheme, unit) io" where
  "write_inode i d = bindE os_call (\<lambda>_.
     modify (\<lambda>w. w\<lparr>inodes := AList.update i ((the_inode w i)\<lparr>i_data := i_data (the_inode w i) @ d, i_mtime := clock w\<rparr>) (inodes w)\<rparr>))"

definition WriteFile :: "string \<Rightarrow> string \<Rightarrow> nat \<Rightarrow> ('a fs_state_scheme, unit) io" where
  "WriteFile p d mode = bindE (open_create True p mode) (\<lambda>i. bindE (write_inode i d) (\<lambda>_. os_call))"

text \<open>Changing the mode or the time of what a path names.\<close>

definition set_meta :: "string \<Rightarrow> (inode \<Rightarrow> inode) \<Rightarrow> (int \<Rightarrow> int) \<Rightarrow> ('a fs_state_scheme, unit) io" where
  "set_meta p f g = bindE (at_path True p) (\<lambda>(q, n). case n of
       None \<Rightarrow> throw ENotExist
     | Some (FFile i) \<Rightarrow> modify (\<lambda>w. w\<lparr>inodes := AList.update i (f (the_inode w i)) (inodes w)\<rparr>)
     | Some (FDir t es) \<Rightarrow> set_disk (\<lambda>_. map_at q (\<lambda>_. FDir (g t) es))
     | Some _ \<Rightarrow> ret ())"

definition Chmod :: "string \<Rightarrow> nat \<Rightarrow> ('a fs_state_scheme, unit) io" where
  "Chmod p mode = set_meta p (i_mode_update (\<lambda>_. mode)) (\<lambda>t. t)"

definition Chtimes :: "string \<Rightarrow> int \<Rightarrow> ('a fs_state_scheme, unit) io" where
  "Chtimes p t = set_meta p (i_mtime_update (\<lambda>_. t)) (\<lambda>_. t)"

definition RemoveAll :: "string \<Rightarrow> ('a fs_state_scheme, unit) io" where
  "RemoveAll p = bindE (attempt (at_path False p)) (\<lambda>r. case r of
       Inl e \<Rightarrow> if IsNotExist e then ret () else throw e
     | Inr (q, n) \<Rightarrow> if n = None then ret () else if q = [] then throw (EOs ''invalid argument'')
         else set_disk (\<lambda>t. put_at t q None))"

definition Remove :: "string \<Rightarrow> ('a fs_state_scheme, unit) io" where
  "Remove p = bindE (at_path False p) (\<lambda>(q, n). case n of
       None \<Rightarrow> throw ENotExist
     | Some (FDir t es) \<Rightarrow> if es \<noteq> [] \<or> q = [] then throw (EOs ''directory not empty'') else set_disk (\<lambda>t. put_at t q None)
     | Some _ \<Rightarrow> set_disk (\<lambda>t. put_at t q None))"

definition Symlink :: "string \<Rightarrow> string \<Rightarrow> ('a fs_state_scheme, unit) io" where
  "Symlink target p = bindE (at_path False p) (\<lambda>(q, n).
     if target = [] then throw ENotExist else if n \<noteq> None then throw eexist
     else set_disk (\<lambda>t. put_at t q (Some (FLink target))))"

definition Link :: "string \<Rightarrow> string \<Rightarrow> ('a fs_state_scheme, unit) io" where
  "Link old new = bindE (at_path False old) (\<lambda>(_, m). bindE (at_path False new) (\<lambda>(q, n). case m of
       None \<Rightarrow> throw ENotExist
     | Some (FDir _ _) \<Rightarrow> throw (EOs ''operation not permitted'')
     | Some node \<Rightarrow> if n \<noteq> None then throw eexist else set_disk (\<lambda>t. put_at t q (Some node))))"

end
