(* ===== verification/Vci_Json.thy ===== *)
theory Vci_Json
  imports Vci_Text
begin

text \<open>
  The JSON text of small metadata files: the grammar \<open>encoding/json\<close> accepts, and the decoding of one
  integer field of an object. A number keeps its text; a string is the bytes it stands for. The
  parser is fuelled by twice the length of the text, for every character opens at most one level.
\<close>

datatype jvalue = JNull | JBool bool | JNum string | JStr string | JArr "jvalue list" | JObj "(string \<times> jvalue) list"

section \<open>Reading\<close>

definition json_space :: "char \<Rightarrow> bool" where
  "json_space c \<longleftrightarrow> c \<in> {CHR '' '', CHR 0x09, CHR 0x0A, CHR 0x0D}"

definition skip_space :: "string \<Rightarrow> string" where
  "skip_space s = dropWhile json_space s"

definition hex_value :: "char \<Rightarrow> nat option" where
  "hex_value c = (let n = of_char c in
     if 48 \<le> n \<and> n \<le> 57 then Some (n - 48) else if 65 \<le> n \<and> n \<le> 70 then Some (n - 55)
     else if 97 \<le> n \<and> n \<le> 102 then Some (n - 87) else None)"

text \<open>The bytes of a rune below \<open>2\<^sup>1\<^sup>6\<close>; a surrogate becomes the replacement character.\<close>

definition utf8_of :: "nat \<Rightarrow> string" where
  "utf8_of r = (let r = (if 55296 \<le> r \<and> r \<le> 57343 then 65533 else r) in
     map char_of (if r < 128 then [r] else if r < 2048 then [192 + r div 64, 128 + r mod 64]
       else [224 + r div 4096, 128 + r div 64 mod 64, 128 + r mod 64]))"

definition json_escape :: "char \<Rightarrow> char option" where
  "json_escape c =
     (if c = CHR 0x22 \<or> c = CHR 0x5C \<or> c = CHR ''/'' then Some c
      else map_of [(CHR ''b'', CHR 0x08), (CHR ''f'', CHR 0x0C), (CHR ''n'', CHR 0x0A), (CHR ''r'', CHR 0x0D), (CHR ''t'', CHR 0x09)] c)"

text \<open>The rest of a string literal after its opening quote.\<close>

fun json_string :: "string \<Rightarrow> (string \<times> string) option" where
  "json_string [] = None"
| "json_string (c # cs) =
     (if c = CHR 0x22 then Some ([], cs)
      else if (of_char c :: nat) < 32 then None
      else if c \<noteq> CHR 0x5C then map_option (apfst (Cons c)) (json_string cs)
      else case cs of
          [] \<Rightarrow> None
        | e # es \<Rightarrow>
            if e = CHR ''u'' then
              (case map hex_value (take 4 es) of
                 [Some a, Some b, Some c, Some d] \<Rightarrow>
                   map_option (apfst (append (utf8_of (a * 4096 + b * 256 + c * 16 + d)))) (json_string (drop 4 es))
               | _ \<Rightarrow> None)
            else case json_escape e of None \<Rightarrow> None | Some x \<Rightarrow> map_option (apfst (Cons x)) (json_string es))"

text \<open>A number: its text and what follows, where the text has the form of the grammar.\<close>

definition json_number :: "string \<Rightarrow> (string \<times> string) option" where
  "json_number s =
     (let (sign, s1) = (case s of c # cs \<Rightarrow> if c = CHR ''-'' then ([c], cs) else ([], s) | [] \<Rightarrow> ([], s));
          ds = takeWhile is_digit s1; s2 = dropWhile is_digit s1;
          whole = (if ds \<noteq> [] \<and> hd ds = CHR ''0'' then [CHR ''0''] else ds);
          s2 = (if ds \<noteq> [] \<and> hd ds = CHR ''0'' then tl s1 else s2);
          (frac, s3, ok1) = (case s2 of
              c # cs \<Rightarrow> if c = CHR ''.'' then (c # takeWhile is_digit cs, dropWhile is_digit cs, takeWhile is_digit cs \<noteq> []) else ([], s2, True)
            | [] \<Rightarrow> ([], s2, True));
          (exp, s4, ok2) = (case s3 of
              c # cs \<Rightarrow> if c = CHR ''e'' \<or> c = CHR ''E'' then
                  let (sg, es) = (case cs of d # ds \<Rightarrow> if d = CHR ''+'' \<or> d = CHR ''-'' then ([d], ds) else ([], cs) | [] \<Rightarrow> ([], cs))
                  in (c # sg @ takeWhile is_digit es, dropWhile is_digit es, takeWhile is_digit es \<noteq> [])
                else ([], s3, True)
            | [] \<Rightarrow> ([], s3, True))
      in if whole \<noteq> [] \<and> ok1 \<and> ok2 then Some (sign @ whole @ frac @ exp, s4) else None)"

fun json_value :: "nat \<Rightarrow> string \<Rightarrow> (jvalue \<times> string) option"
  and json_items :: "nat \<Rightarrow> string \<Rightarrow> (jvalue list \<times> string) option"
  and json_members :: "nat \<Rightarrow> string \<Rightarrow> ((string \<times> jvalue) list \<times> string) option" where
  "json_value 0 s = None"
| "json_value (Suc n) s =
     (case skip_space s of
        [] \<Rightarrow> None
      | c # cs \<Rightarrow>
          if c = CHR 0x22 then map_option (apfst JStr) (json_string cs)
          else if c = CHR ''{'' then
            (case skip_space cs of
               d # ds \<Rightarrow> if d = CHR ''}'' then Some (JObj [], ds) else map_option (apfst JObj) (json_members n cs)
             | [] \<Rightarrow> None)
          else if c = CHR ''['' then
            (case skip_space cs of
               d # ds \<Rightarrow> if d = CHR '']'' then Some (JArr [], ds) else map_option (apfst JArr) (json_items n cs)
             | [] \<Rightarrow> None)
          else if HasPrefix (c # cs) ''null'' then Some (JNull, drop 3 cs)
          else if HasPrefix (c # cs) ''true'' then Some (JBool True, drop 3 cs)
          else if HasPrefix (c # cs) ''false'' then Some (JBool False, drop 4 cs)
          else map_option (apfst JNum) (json_number (c # cs)))"
| "json_items 0 s = None"
| "json_items (Suc n) s =
     (case json_value n s of
        None \<Rightarrow> None
      | Some (v, s1) \<Rightarrow> (case skip_space s1 of
            c # cs \<Rightarrow> if c = CHR '','' then map_option (apfst (Cons v)) (json_items n cs)
              else if c = CHR '']'' then Some ([v], cs) else None
          | [] \<Rightarrow> None))"
| "json_members 0 s = None"
| "json_members (Suc n) s =
     (case skip_space s of
        [] \<Rightarrow> None
      | q # cs \<Rightarrow> if q \<noteq> CHR 0x22 then None else
          (case json_string cs of
             None \<Rightarrow> None
           | Some (k, s1) \<Rightarrow> (case skip_space s1 of
                 [] \<Rightarrow> None
               | c # s2 \<Rightarrow> if c \<noteq> CHR '':'' then None else
                   (case json_value n s2 of
                      None \<Rightarrow> None
                    | Some (v, s3) \<Rightarrow> (case skip_space s3 of
                          c # s4 \<Rightarrow> if c = CHR '','' then map_option (apfst (Cons (k, v))) (json_members n s4)
                            else if c = CHR ''}'' then Some ([(k, v)], s4) else None
                        | [] \<Rightarrow> None)))))"

definition json_parse :: "string \<Rightarrow> jvalue option" where
  "json_parse s = (case json_value (2 * length s + 2) s of
       Some (v, rest) \<Rightarrow> if skip_space rest = [] then Some v else None
     | None \<Rightarrow> None)"

section \<open>Decoding an integer field\<close>

text \<open>
  \<open>json.Unmarshal\<close> into a structure with one \<open>int64\<close> field: every member whose name is that of the
  field up to case sets it, \<open>null\<close> leaves it, and a value that does not fit is an error.
\<close>

fun set_int_field :: "string \<Rightarrow> int \<Rightarrow> (string \<times> jvalue) list \<Rightarrow> int option" where
  "set_int_field name x [] = Some x"
| "set_int_field name x ((k, v) # ms) =
     (if \<not> EqualFold k name then set_int_field name x ms
      else case v of
          JNull \<Rightarrow> set_int_field name x ms
        | JNum t \<Rightarrow> (case Atoi t of Inr i \<Rightarrow> set_int_field name i ms | Inl _ \<Rightarrow> None)
        | _ \<Rightarrow> None)"

definition unmarshal_int :: "string \<Rightarrow> string \<Rightarrow> int option" where
  "unmarshal_int name data = (case json_parse data of
       Some (JObj ms) \<Rightarrow> set_int_field name 0 ms
     | Some JNull \<Rightarrow> Some 0
     | _ \<Rightarrow> None)"

end
