(* ===== verification/Vci_Worker.thy ===== *)
theory Vci_Worker
  imports Vci_Host Vci_Fs Vci_Json
begin

text \<open>
  \<open>internal/cli/internal.go\<close>: the commands a worker runs for the coordinator, on the worker's own file
  system. The archive on standard input is the list of members the tar reader yields, each with its
  body (and whether the body could be read to its end), and whether the archive ends well. The
  eviction loop has no bound in the code: here it runs on fuel, and \<open>Vci_Worker_Laws\<close> shows how much
  is always enough.
\<close>

section \<open>State\<close>

record worker_state = fs_state +
  home :: "string option"

datatype typeflag = TypeReg | TypeDir | TypeSymlink | TypeLink | TypeOther

record tar_member =
  h_Name :: string
  h_Typeflag :: typeflag
  h_Linkname :: string
  h_Mode :: nat
  h_Body :: string
  h_BodyOK :: bool

record archive =
  members :: "tar_member list"
  well_ended :: bool

section \<open>Paths\<close>

definition UserHomeDir :: "('a worker_state_scheme, string) io" where
  "UserHomeDir = bindE (asks home) (\<lambda>h. case h of None \<Rightarrow> throw (Errf ''$HOME is not defined'' []) | Some d \<Rightarrow> ret d)"

definition expandWorkerPath :: "string \<Rightarrow> ('a worker_state_scheme, string) io" where
  "expandWorkerPath p =
     (if p = ''~'' then wrapE ''resolve worker home: %w'' [] UserHomeDir
      else if HasPrefix p ''~/'' then
        bindE (wrapE ''resolve worker home: %w'' [] UserHomeDir) (\<lambda>h. ret (FJoin [h, TrimPrefix p ''~/'']))
      else ret p)"

definition safePathPrefix :: "string \<Rightarrow> string \<Rightarrow> unit result" where
  "safePathPrefix what p = checks
     [ensure (p \<noteq> []) (Errf ''%s path is empty'' [what]),
      ensure (\<not> HasPrefix p ''-'') (Errf ''%s path %q looks like an option flag'' [what, p]),
      ensure (\<not> has_control p) (Errf ''%s path %q contains control characters'' [what, p])]"

text \<open>The segment \<open>segs[len(segs)-i]\<close>.\<close>

definition from_end :: "string list \<Rightarrow> nat \<Rightarrow> string" where
  "from_end segs i = segs ! (length segs - i)"

definition resolveWorkerWorkDir :: "string \<Rightarrow> ('a worker_state_scheme, string) io" where
  "resolveWorkerWorkDir p =
     bindE (lift_result (safePathPrefix ''work'' p)) (\<lambda>_.
     bindE (expandWorkerPath p) (\<lambda>expanded.
     bindE (guard (IsAbs expanded) (Errf ''work path %q is not absolute'' [p])) (\<lambda>_.
     let segs = Split slash (Clean expanded) in
     bindE (guard (5 \<le> length segs) (Errf ''work path %q is not under .vci/state/work'' [p])) (\<lambda>_.
     let run = from_end segs 1 in
     bindE (guard (from_end segs 2 = ''work'' \<and> from_end segs 3 = ''state'' \<and> from_end segs 4 = ''.vci'' \<and> ValidRunID run)
       (Errf ''work path %q is not under .vci/state/work'' [p])) (\<lambda>_.
     ret (Clean expanded))))))"

definition resolveWorkerCacheEntry :: "string \<Rightarrow> ('a worker_state_scheme, string) io" where
  "resolveWorkerCacheEntry p =
     bindE (lift_result (safePathPrefix ''cache entry'' p)) (\<lambda>_.
     bindE (expandWorkerPath p) (\<lambda>expanded.
     bindE (guard (IsAbs expanded) (Errf ''cache entry path %q is not absolute'' [p])) (\<lambda>_.
     let segs = Split slash (Clean expanded) in
     bindE (guard (6 \<le> length segs) (Errf ''cache entry path %q is not under .vci/state/bundle-cache'' [p])) (\<lambda>_.
     let project = from_end segs 2; base = from_end segs 1 in
     bindE (guard (from_end segs 6 = ''.vci'' \<and> from_end segs 5 = ''state'' \<and> from_end segs 4 = ''bundle-cache''
         \<and> from_end segs 3 = ''v1'' \<and> validCacheSegment project \<and> validCacheSegment base)
       (Errf ''cache entry path %q is not under .vci/state/bundle-cache'' [p])) (\<lambda>_.
     ret (Clean expanded))))))"

definition resolveWorkerCacheProjectDir :: "string \<Rightarrow> ('a worker_state_scheme, string) io" where
  "resolveWorkerCacheProjectDir p =
     bindE (lift_result (safePathPrefix ''cache project'' p)) (\<lambda>_.
     bindE (expandWorkerPath p) (\<lambda>expanded.
     bindE (guard (IsAbs expanded) (Errf ''cache project path %q is not absolute'' [p])) (\<lambda>_.
     let segs = Split slash (Clean expanded) in
     bindE (guard (5 \<le> length segs) (Errf ''cache project path %q is not under .vci/state/bundle-cache'' [p])) (\<lambda>_.
     let project = from_end segs 1 in
     bindE (guard (from_end segs 5 = ''.vci'' \<and> from_end segs 4 = ''state'' \<and> from_end segs 3 = ''bundle-cache''
         \<and> from_end segs 2 = ''v1'' \<and> validCacheSegment project)
       (Errf ''cache project path %q is not under .vci/state/bundle-cache'' [p])) (\<lambda>_.
     ret (Clean expanded))))))"

definition resolveWorkerSeed :: "string \<Rightarrow> ('a worker_state_scheme, string) io" where
  "resolveWorkerSeed p = bindE (lift_result (safePathPrefix ''seed'' p)) (\<lambda>_. expandWorkerPath p)"

definition safeJoin :: "string \<Rightarrow> string \<Rightarrow> string result" where
  "safeJoin root name =
     (if name = [] \<or> IsAbs name then Inl (Errf ''archive member %q is not a relative path'' [name])
      else let clean = Clean name in
        if clean = ''..'' \<or> HasPrefix clean ''../'' then Inl (Errf ''archive member %q escapes the extraction root'' [name])
        else Inr (FJoin [root, clean]))"

section \<open>Archives\<close>

text \<open>The body of a member is copied until its end or until reading it fails.\<close>

definition copy_body :: "nat \<Rightarrow> tar_member \<Rightarrow> ('a worker_state_scheme, unit) io" where
  "copy_body i h = bindE (write_inode i (h_Body h)) (\<lambda>_. guard (h_BodyOK h) (EOs ''unexpected EOF''))"

definition extractMember :: "tar_member \<Rightarrow> string \<Rightarrow> ('a worker_state_scheme, unit) io" where
  "extractMember h target = (case h_Typeflag h of
       TypeDir \<Rightarrow> MkdirAll target
     | TypeReg \<Rightarrow>
         bindE (MkdirAll (Dir target)) (\<lambda>_.
         bindE (open_create True target (h_Mode h)) (\<lambda>i.
         bindE (attempt (copy_body i h)) (\<lambda>r. case r of
           Inl e \<Rightarrow> bindE (attempt os_call) (\<lambda>_. throw e)
         | Inr _ \<Rightarrow> bindE os_call (\<lambda>_. Chmod target (h_Mode h)))))
     | TypeSymlink \<Rightarrow>
         bindE (MkdirAll (Dir target)) (\<lambda>_.
         bindE (attempt (RemoveAll target)) (\<lambda>r. case r of
           Inl e \<Rightarrow> if \<not> IsNotExist e then throw e else Symlink (h_Linkname h) target
         | Inr _ \<Rightarrow> Symlink (h_Linkname h) target))
     | _ \<Rightarrow> ret ())"

definition extract_one :: "string \<Rightarrow> tar_member \<Rightarrow> ('a worker_state_scheme, unit) io" where
  "extract_one root h =
     bindE (lift_result (safeJoin root (h_Name h))) (\<lambda>target.
     if h_Typeflag h = TypeLink then
       bindE (lift_result (safeJoin root (h_Linkname h))) (\<lambda>linkTarget.
       bindE (MkdirAll (Dir target)) (\<lambda>_. Link linkTarget target))
     else wrapE ''extract %s: %w'' [h_Name h] (extractMember h target))"

definition extractTar :: "archive \<Rightarrow> string \<Rightarrow> ('a worker_state_scheme, unit) io" where
  "extractTar a root = bindE (forE (members a) (extract_one root)) (\<lambda>_.
     guard (well_ended a) (EWrap ''read archive: %w'' [] (EOs ''unexpected EOF'')))"

definition internalStage :: "string \<Rightarrow> archive option \<Rightarrow> ('a worker_state_scheme, unit) io" where
  "internalStage workDir stdin =
     bindE (resolveWorkerWorkDir workDir) (\<lambda>dir. case stdin of
       None \<Rightarrow> throw (Errf ''stage archive is required on stdin'' [])
     | Some a \<Rightarrow>
         bindE (wrapE ''clear %s: %w'' [dir] (RemoveAll dir)) (\<lambda>_.
         bindE (wrapE ''create %s: %w'' [dir] (MkdirAll dir)) (\<lambda>_.
         wrapE ''extract staged workspace: %w'' [] (extractTar a dir))))"

section \<open>Cache entries\<close>

definition internalProbeCache :: "string \<Rightarrow> ('a worker_state_scheme, bool) io" where
  "internalProbeCache entry =
     bindE (resolveWorkerCacheEntry entry) (\<lambda>dir.
     bindE (attempt (Stat (FJoin [dir, ''complete'']))) (\<lambda>r. case r of
       Inr _ \<Rightarrow> ret True
     | Inl e \<Rightarrow> if IsNotExist e then ret False else throw e))"

definition claim_id_error :: "string \<Rightarrow> err" where
  "claim_id_error claimID = Errf (''claim id %q must be a single path segment of letters, digits, '' @ Join (map shellQuote [''.'', ''-'', ''_'']) '', '') [claimID]"

definition internalAcquireClaim :: "string \<Rightarrow> string \<Rightarrow> ('a worker_state_scheme, unit) io" where
  "internalAcquireClaim entry claimID =
     bindE (resolveWorkerCacheEntry entry) (\<lambda>dir.
     bindE (guard (validCacheSegment claimID) (claim_id_error claimID)) (\<lambda>_.
     bindE (attempt (Stat (FJoin [dir, ''complete'']))) (\<lambda>r. case r of
       Inl e \<Rightarrow> if IsNotExist e then throw (Errf ''cache entry %s is not complete'' [dir]) else throw e
     | Inr _ \<Rightarrow>
         let claims = FJoin [dir, ''claims''] in
         bindE (MkdirAll claims) (\<lambda>_.
         bindE (open_create True (FJoin [claims, claimID]) 438) (\<lambda>_. os_call)))))"

definition internalReleaseClaim :: "string \<Rightarrow> string \<Rightarrow> ('a worker_state_scheme, unit) io" where
  "internalReleaseClaim entry claimID =
     bindE (resolveWorkerCacheEntry entry) (\<lambda>dir.
     bindE (guard (validCacheSegment claimID) (claim_id_error claimID)) (\<lambda>_.
     bindE (attempt (Remove (FJoin [dir, ''claims'', claimID]))) (\<lambda>r. case r of
       Inl e \<Rightarrow> if \<not> IsNotExist e then throw e else ret ()
     | Inr _ \<Rightarrow> ret ())))"

definition hasComplete :: "string \<Rightarrow> ('a worker_state_scheme, bool) io" where
  "hasComplete d = bindE (attempt (Stat (FJoin [d, ''complete'']))) (\<lambda>r.
     ret (case r of Inr info \<Rightarrow> fi_kind info = KRegular | Inl _ \<Rightarrow> False))"

definition claimsNonEmpty :: "string \<Rightarrow> ('a worker_state_scheme, bool) io" where
  "claimsNonEmpty d = bindE (attempt (ReadDir (FJoin [d, ''claims'']))) (\<lambda>r.
     ret (case r of Inr es \<Rightarrow> es \<noteq> [] | Inl _ \<Rightarrow> False))"

text \<open>The size, the time of \<open>meta.json\<close> and whether it could be read; \<open>0\<close> is the zero time.\<close>

definition entryMeta :: "string \<Rightarrow> ('a worker_state_scheme, int \<times> int \<times> bool) io" where
  "entryMeta d =
     (let metaPath = FJoin [d, ''meta.json''] in
      bindE (attempt (ReadFile metaPath)) (\<lambda>r. case r of
        Inl _ \<Rightarrow> ret (0, 0, False)
      | Inr data \<Rightarrow> (case unmarshal_int ''bytes'' data of
            None \<Rightarrow> ret (0, 0, False)
          | Some bytes \<Rightarrow> bindE (attempt (Stat metaPath)) (\<lambda>s. ret (case s of
                Inl _ \<Rightarrow> (bytes, 0, False)
              | Inr info \<Rightarrow> (bytes, fi_mtime info, True))))))"

section \<open>Eviction\<close>

definition count_entry :: "string \<Rightarrow> int \<times> int \<Rightarrow> string \<Rightarrow> ('a worker_state_scheme, int \<times> int) io" where
  "count_entry projDir = (\<lambda>(n, b) name.
     let d = FJoin [projDir, name] in
     bindE (hasComplete d) (\<lambda>c. if \<not> c then ret (n, b)
       else bindE (entryMeta d) (\<lambda>(bytes, _, _). ret (n + 1, wrap64 (b + bytes)))))"

text \<open>
  The candidate so far: its directory and its time. \<open>None\<close> stands for the empty string, and for the
  zero time of a candidate without readable metadata.
\<close>

type_synonym candidate = "(string \<times> int option) option"

definition older :: "string \<Rightarrow> candidate \<Rightarrow> string \<Rightarrow> ('a worker_state_scheme, candidate) io" where
  "older projDir best name =
     (let d = FJoin [projDir, name] in
      bindE (hasComplete d) (\<lambda>c. if \<not> c then ret best
        else bindE (claimsNonEmpty d) (\<lambda>claimed. if claimed then ret best
          else bindE (entryMeta d) (\<lambda>(_, mtime, ok). ret (case best of
              None \<Rightarrow> Some (d, if ok then Some mtime else None)
            | Some (oldest, None) \<Rightarrow> best
            | Some (oldest, Some oldestMod) \<Rightarrow>
                if ok \<and> mtime < oldestMod then Some (d, Some mtime) else best)))))"

datatype round = Done int | Again int

definition evict_round :: "string \<Rightarrow> int \<Rightarrow> int \<Rightarrow> int \<Rightarrow> ('a worker_state_scheme, round) io" where
  "evict_round projDir maxEntries maxBytes evicted =
     bindE (attempt (ReadDir projDir)) (\<lambda>r. case r of
       Inl e \<Rightarrow> if IsNotExist e then ret (Done evicted) else throw e
     | Inr entries \<Rightarrow>
         let names = map fst entries in
         bindE (foldE (count_entry projDir) (0, 0) names) (\<lambda>(n, b).
         if (maxEntries \<le> 0 \<or> n \<le> maxEntries) \<and> (maxBytes \<le> 0 \<or> b \<le> maxBytes) then ret (Done evicted)
         else bindE (foldE (older projDir) None names) (\<lambda>best. case best of
           None \<Rightarrow> ret (Done evicted)
         | Some (oldest, _) \<Rightarrow>
             bindE (wrapE ''remove LRU entry %s: %w'' [oldest] (RemoveAll oldest)) (\<lambda>_. ret (Again (evicted + 1))))))"

text \<open>The loop; \<open>None\<close> means that the fuel did not suffice.\<close>

fun evict_rounds :: "nat \<Rightarrow> string \<Rightarrow> int \<Rightarrow> int \<Rightarrow> int \<Rightarrow> 'a worker_state_scheme \<Rightarrow> (int result \<times> 'a worker_state_scheme) option" where
  "evict_rounds 0 projDir maxEntries maxBytes evicted w = None"
| "evict_rounds (Suc k) projDir maxEntries maxBytes evicted w =
     (case evict_round projDir maxEntries maxBytes evicted w of
        (Inl e, w') \<Rightarrow> Some (Inl e, w')
      | (Inr (Done n), w') \<Rightarrow> Some (Inr n, w')
      | (Inr (Again n), w') \<Rightarrow> evict_rounds k projDir maxEntries maxBytes n w')"

text \<open>Enough fuel: a round per entry of the directory, and one more.\<close>

definition entry_count :: "string \<Rightarrow> 'a fs_state_scheme \<Rightarrow> nat" where
  "entry_count d w = (case locate True d w of
       Inr q \<Rightarrow> (case node_at (disk w) q of Some (FDir t es) \<Rightarrow> length es | _ \<Rightarrow> 0)
     | Inl _ \<Rightarrow> 0)"

definition evictLRU :: "string \<Rightarrow> int \<Rightarrow> int \<Rightarrow> ('a worker_state_scheme, int) io" where
  "evictLRU projDir maxEntries maxBytes =
     (if maxEntries \<le> 0 \<and> maxBytes \<le> 0 then ret 0
      else (\<lambda>w. case evict_rounds (Suc (entry_count projDir w)) projDir maxEntries maxBytes 0 w of
          Some r \<Rightarrow> r
        | None \<Rightarrow> (Inl (EOs ''out of fuel''), w)))"

section \<open>Maintenance\<close>

definition writeCutoffRef :: "string \<Rightarrow> int \<Rightarrow> ('a worker_state_scheme, unit) io" where
  "writeCutoffRef p cutoff = bindE (open_create False p 420) (\<lambda>_. bindE os_call (\<lambda>_. Chtimes p cutoff))"

definition reap_incomplete :: "string \<Rightarrow> int \<Rightarrow> int \<Rightarrow> string \<Rightarrow> ('a worker_state_scheme, int) io" where
  "reap_incomplete proj partialMod stale name =
     (let d = FJoin [proj, name] in
      bindE (attempt (Stat d)) (\<lambda>r. case r of
        Inl _ \<Rightarrow> ret stale
      | Inr info \<Rightarrow> if fi_kind info \<noteq> KDir then ret stale else
          bindE (attempt (Stat (FJoin [d, ''complete'']))) (\<lambda>c.
          if (case c of Inr fi \<Rightarrow> fi_kind fi = KRegular | Inl _ \<Rightarrow> False) then ret stale
          else bindE (attempt (Stat (FJoin [d, ''meta.json'']))) (\<lambda>m.
            let mtime = (case m of Inr metaInfo \<Rightarrow> fi_mtime metaInfo | Inl _ \<Rightarrow> fi_mtime info) in
            if \<not> mtime < partialMod then ret stale
            else bindE (wrapE ''remove stale entry %s: %w'' [d] (RemoveAll d)) (\<lambda>_. ret (stale + 1))))))"

definition reap_stale_claim :: "string \<Rightarrow> int \<Rightarrow> int \<Rightarrow> string \<Rightarrow> ('a worker_state_scheme, int) io" where
  "reap_stale_claim claims claimMod stale c =
     (let marker = FJoin [claims, c] in
      bindE (attempt (Stat marker)) (\<lambda>r. case r of
        Inl _ \<Rightarrow> ret stale
      | Inr info \<Rightarrow> if fi_kind info \<noteq> KRegular \<or> \<not> fi_mtime info < claimMod then ret stale
          else bindE (wrapE ''remove stale claim %s: %w'' [marker] (Remove marker)) (\<lambda>_. ret (stale + 1))))"

definition reap_entry_claims :: "string \<Rightarrow> int \<Rightarrow> int \<Rightarrow> string \<Rightarrow> ('a worker_state_scheme, int) io" where
  "reap_entry_claims proj claimMod stale name =
     (let claims = FJoin [proj, name, ''claims''] in
      bindE (attempt (ReadDir claims)) (\<lambda>r. case r of
        Inl _ \<Rightarrow> ret stale
      | Inr es \<Rightarrow> foldE (reap_stale_claim claims claimMod) stale (map fst es)))"

definition remove_if_there :: "string \<Rightarrow> ('a worker_state_scheme, unit) io" where
  "remove_if_there p = bindE (attempt (Remove p)) (\<lambda>r. case r of
       Inl e \<Rightarrow> if IsNotExist e then ret () else throw e
     | Inr _ \<Rightarrow> ret ())"

definition internalReapCache :: "string \<Rightarrow> string \<Rightarrow> string \<Rightarrow> string \<Rightarrow> int \<Rightarrow> int \<Rightarrow> int \<Rightarrow> int \<Rightarrow> ('a worker_state_scheme, int \<times> int) io" where
  "internalReapCache projDir refDir partialRef claimRef partialCutoff claimCutoff maxEntries maxBytes =
     bindE (resolveWorkerCacheProjectDir projDir) (\<lambda>proj.
     bindE (guard (refDir = proj @ ''/.vci-reap'' \<and> partialRef = refDir @ ''/partial'' \<and> claimRef = refDir @ ''/claim'')
       (Errf ''reap reference paths do not derive from the project dir'' [])) (\<lambda>_.
     bindE (MkdirAll refDir) (\<lambda>_.
     bindE (writeCutoffRef partialRef partialCutoff) (\<lambda>_.
     bindE (writeCutoffRef claimRef claimCutoff) (\<lambda>_.
     bindE (Stat partialRef) (\<lambda>partialInfo.
     bindE (Stat claimRef) (\<lambda>claimInfo.
     bindE (attempt (ReadDir proj)) (\<lambda>r.
     bindE (case r of Inr es \<Rightarrow> ret (map fst es) | Inl e \<Rightarrow> if IsNotExist e then ret [] else throw e) (\<lambda>entries.
     bindE (foldE (reap_incomplete proj (fi_mtime partialInfo)) 0 entries) (\<lambda>stale0.
     bindE (foldE (reap_entry_claims proj (fi_mtime claimInfo)) stale0 entries) (\<lambda>stale.
     bindE (evictLRU proj maxEntries maxBytes) (\<lambda>evicted.
     bindE (remove_if_there partialRef) (\<lambda>_.
     bindE (remove_if_there claimRef) (\<lambda>_.
     bindE (Remove refDir) (\<lambda>_.
     ret (stale, evicted))))))))))))))))"

end
