(* ===== verification/Vci_Reconstruct.thy ===== *)
theory Vci_Reconstruct
  imports Vci_Worker
begin

text \<open>
  \<open>internal/cli/internal_reconstruct.go\<close>, and the dispatch of the worker commands from
  \<open>internal/cli/internal.go\<close>. Git is a parameter, as the process runner is elsewhere: it may change the
  file system. \<open>untar\<close> is the reading of an archive from the bytes of a file. The walk over a tree
  reads every directory when it comes to it, as \<open>filepath.WalkDir\<close> does; its fuel is the longest path
  the kernel accepts.
\<close>

section \<open>Times\<close>

definition days_in :: "int \<Rightarrow> int \<Rightarrow> int" where
  "days_in y m = (if m = 12 then 31 else month_start y (m + 1) - month_start y m)"

definition take_num :: "nat \<Rightarrow> string \<Rightarrow> (int \<times> string) option" where
  "take_num n s = (if length (take n s) = n \<and> list_all is_digit (take n s) then Some (int (digits_value (take n s)), drop n s) else None)"

definition take_char :: "char \<Rightarrow> string \<Rightarrow> string option" where
  "take_char c s = (case s of d # ds \<Rightarrow> if d = c then Some ds else None | [] \<Rightarrow> None)"

text \<open>An hour may have one digit.\<close>

definition take_hour :: "string \<Rightarrow> (int \<times> string) option" where
  "take_hour s = (case take_num 2 s of Some r \<Rightarrow> Some r | None \<Rightarrow> take_num 1 s)"

definition nanos :: "string \<Rightarrow> int" where
  "nanos ds = int (digits_value (take 9 ds)) * 10 ^ (9 - length (take 9 ds))"

definition take_fraction :: "string \<Rightarrow> int \<times> string" where
  "take_fraction s = (case s of
       c # ds \<Rightarrow> if (c = CHR ''.'' \<or> c = CHR '','') \<and> takeWhile is_digit ds \<noteq> []
         then (nanos (takeWhile is_digit ds), dropWhile is_digit ds) else (0, s)
     | [] \<Rightarrow> (0, s))"

definition take_zone :: "string \<Rightarrow> int option" where
  "take_zone s = (case s of
       [] \<Rightarrow> None
     | c # cs \<Rightarrow> if c = CHR ''Z'' then (if cs = [] then Some 0 else None)
         else if c = CHR ''+'' \<or> c = CHR ''-'' then
           Option.bind (take_num 2 cs) (\<lambda>(h, s1). Option.bind (take_char (CHR '':'') s1) (\<lambda>s2.
           Option.bind (take_num 2 s2) (\<lambda>(m, s3).
           if s3 = [] \<and> h \<le> 24 \<and> m < 60 then Some ((if c = CHR ''-'' then -1 else 1) * (h * 3600 + m * 60)) else None)))
         else None)"

text \<open>\<open>time.Parse(time.RFC3339, s)\<close>.\<close>

definition parse_rfc3339 :: "string \<Rightarrow> int option" where
  "parse_rfc3339 s =
     Option.bind (take_num 4 s) (\<lambda>(y, s). Option.bind (take_char (CHR ''-'') s) (\<lambda>s.
     Option.bind (take_num 2 s) (\<lambda>(mo, s). Option.bind (take_char (CHR ''-'') s) (\<lambda>s.
     Option.bind (take_num 2 s) (\<lambda>(d, s). Option.bind (take_char (CHR ''T'') s) (\<lambda>s.
     Option.bind (take_hour s) (\<lambda>(h, s). Option.bind (take_char (CHR '':'') s) (\<lambda>s.
     Option.bind (take_num 2 s) (\<lambda>(mi, s). Option.bind (take_char (CHR '':'') s) (\<lambda>s.
     Option.bind (take_num 2 s) (\<lambda>(sec, s). case take_fraction s of (ns, s) \<Rightarrow>
     Option.bind (take_zone s) (\<lambda>z.
     if 1 \<le> mo \<and> mo \<le> 12 \<and> 1 \<le> d \<and> d \<le> days_in y mo \<and> h < 24 \<and> mi < 60 \<and> sec < 60
     then Some (((month_start y mo + d - 1) * 86400 + h * 3600 + mi * 60 + sec - z) * second + ns) else None))))))))))))"

section \<open>Walking a tree\<close>

definition kind_of :: "fnode \<Rightarrow> file_kind" where
  "kind_of n = (case n of FDir _ _ \<Rightarrow> KDir | FFile _ \<Rightarrow> KRegular | FLink _ \<Rightarrow> KSymlink | FDev \<Rightarrow> KSpecial)"

definition path_max :: nat where "path_max = 4096"

text \<open>
  The visitor answers whether it returned \<open>SkipDir\<close>: on a directory that passes over its entries, on
  anything else over the entries after it in the same directory.
\<close>

function walk :: "nat \<Rightarrow> (string \<Rightarrow> file_kind \<Rightarrow> ('a fs_state_scheme, bool) io) \<Rightarrow> string \<Rightarrow> file_kind \<Rightarrow> ('a fs_state_scheme, bool) io"
  and walk_entries :: "nat \<Rightarrow> (string \<Rightarrow> file_kind \<Rightarrow> ('a fs_state_scheme, bool) io) \<Rightarrow> string \<Rightarrow> (string \<times> fnode) list \<Rightarrow> ('a fs_state_scheme, bool) io" where
  "walk 0 f p k = throw (EOs ''file name too long'')"
| "walk (Suc n) f p k = bindE (f p k) (\<lambda>skip.
     if skip \<or> k \<noteq> KDir then ret (skip \<and> k \<noteq> KDir)
     else bindE (ReadDir p) (\<lambda>es. walk_entries n f p es))"
| "walk_entries n f p [] = ret False"
| "walk_entries n f p (e # es) = bindE (walk n f (FJoin [p, fst e]) (kind_of (snd e))) (\<lambda>skip.
     if skip then ret False else walk_entries n f p es)"
  by pat_completeness auto

termination
  by (relation "measures [\<lambda>x. case x of Inl (n, _) \<Rightarrow> 2 * n | Inr (n, _) \<Rightarrow> 2 * n + 1, \<lambda>x. case x of Inl _ \<Rightarrow> 0 | Inr (_, _, _, es) \<Rightarrow> length es]") auto

definition WalkDir :: "(string \<Rightarrow> file_kind \<Rightarrow> ('a fs_state_scheme, bool) io) \<Rightarrow> string \<Rightarrow> ('a fs_state_scheme, unit) io" where
  "WalkDir f root = bindE (Lstat root) (\<lambda>info. bindE (walk path_max f root (fi_kind info)) (\<lambda>_. ret ()))"

section \<open>Copying the seed\<close>

definition copyFile :: "string \<Rightarrow> string \<Rightarrow> nat \<Rightarrow> ('a fs_state_scheme, unit) io" where
  "copyFile src dst mode =
     bindE (ReadFile src) (\<lambda>data.
     bindE (open_create True dst mode) (\<lambda>i.
     bindE (attempt (write_inode i data)) (\<lambda>r. case r of
       Inl e \<Rightarrow> bindE (attempt os_call) (\<lambda>_. throw e)
     | Inr _ \<Rightarrow> bindE os_call (\<lambda>_. Chmod dst mode))))"

definition copy_visit :: "string \<Rightarrow> string \<Rightarrow> string \<Rightarrow> file_kind \<Rightarrow> ('a fs_state_scheme, bool) io" where
  "copy_visit src dst p k =
     (if p = dst \<or> HasPrefix p (dst @ ''/'') then ret (k = KDir)
      else case Rel src p of
          None \<Rightarrow> throw (Errf ''Rel: cannot make %s relative to %s'' [p, src])
        | Some rel \<Rightarrow>
            if rel = ''.vci'' then ret True
            else bindE (Lstat p) (\<lambda>info.
              let target = FJoin [dst, rel] in
              case fi_kind info of
                KSymlink \<Rightarrow>
                  bindE (Readlink p) (\<lambda>link.
                  bindE (MkdirAll (Dir target)) (\<lambda>_.
                  bindE (attempt (RemoveAll target)) (\<lambda>r.
                  bindE (case r of Inl e \<Rightarrow> if \<not> IsNotExist e then throw e else Symlink link target | Inr _ \<Rightarrow> Symlink link target) (\<lambda>_.
                  ret False))))
              | KDir \<Rightarrow> bindE (MkdirAll target) (\<lambda>_. ret False)
              | KRegular \<Rightarrow> bindE (MkdirAll (Dir target)) (\<lambda>_. bindE (copyFile p target (fi_mode info)) (\<lambda>_. ret False))
              | KSpecial \<Rightarrow> ret False))"

definition copyTree :: "string \<Rightarrow> string \<Rightarrow> ('a fs_state_scheme, unit) io" where
  "copyTree src dst = WalkDir (copy_visit (Clean src) (Clean dst)) (Clean src)"

section \<open>Local changes\<close>

definition runGit :: "'s runner \<Rightarrow> string \<Rightarrow> string list \<Rightarrow> ('s, unit) io" where
  "runGit git dir args = bindE (exec git ''git'' ([''-C'', dir] @ args) None) (\<lambda>r. case RunErr r of
       None \<Rightarrow> ret ()
     | Some e \<Rightarrow> throw (Errf (''git %s: %v'' @ [CHR 0x0A] @ ''%s'') [Join args '' '', err_text e, TrimSpace (Output r)]))"

definition apply_patch :: "'a worker_state_scheme runner \<Rightarrow> string \<Rightarrow> string \<Rightarrow> tar_member \<Rightarrow> ('a worker_state_scheme, unit) io" where
  "apply_patch git workDir payloadDir h =
     (if h_Name h \<noteq> ''patch'' then ret ()
      else bindE (guard (h_BodyOK h) (EOs ''unexpected EOF'')) (\<lambda>_.
        let patchPath = FJoin [payloadDir, ''patch''] in
        bindE (WriteFile patchPath (h_Body h) 420) (\<lambda>_.
        runGit git workDir [''apply'', ''--binary'', ''--whitespace=nowarn'', patchPath])))"

definition extract_change :: "string \<Rightarrow> tar_member \<Rightarrow> ('a worker_state_scheme, unit) io" where
  "extract_change workDir h =
     (if \<not> HasPrefix (h_Name h) ''f/'' then ret ()
      else bindE (lift_result (safeJoin workDir (TrimPrefix (h_Name h) ''f/''))) (\<lambda>target.
        wrapE ''extract local change %s: %w'' [h_Name h] (extractMember h target)))"

definition read_to_end :: "archive \<Rightarrow> ('a worker_state_scheme, unit) io" where
  "read_to_end a = guard (well_ended a) (EWrap ''read local-change archive: %w'' [] (EOs ''unexpected EOF''))"

definition applyLocalChanges :: "'a worker_state_scheme runner \<Rightarrow> (string \<Rightarrow> archive) \<Rightarrow> string \<Rightarrow> string \<Rightarrow> string \<Rightarrow> ('a worker_state_scheme, unit) io" where
  "applyLocalChanges git untar workDir payloadDir lcPath =
     bindE (ReadFile lcPath) (\<lambda>d1.
     bindE (forE (members (untar d1)) (apply_patch git workDir payloadDir)) (\<lambda>_.
     bindE (read_to_end (untar d1)) (\<lambda>_.
     bindE (ReadFile lcPath) (\<lambda>d2.
     bindE (forE (members (untar d2)) (extract_change workDir)) (\<lambda>_.
     read_to_end (untar d2))))))"

section \<open>Admission\<close>

definition meta_text :: "int \<Rightarrow> int \<Rightarrow> string" where
  "meta_text bundleBytes lastUsed =
     ''{'' @ go_quote ''bytes'' @ '':'' @ itoa bundleBytes @ '','' @ go_quote ''last_used'' @ '':'' @ go_quote (rfc3339 lastUsed) @ ''}''"

definition admitBundle :: "string \<Rightarrow> string \<Rightarrow> int \<Rightarrow> int \<Rightarrow> ('a worker_state_scheme, unit) io" where
  "admitBundle entry bundlePath bundleBytes lastUsed =
     bindE (MkdirAll entry) (\<lambda>_.
     bindE (ReadFile bundlePath) (\<lambda>data.
     bindE (open_create True (FJoin [entry, ''bundle'']) 438) (\<lambda>i.
     bindE (attempt (write_inode i data)) (\<lambda>r. case r of
       Inl e \<Rightarrow> bindE (attempt os_call) (\<lambda>_. throw e)
     | Inr _ \<Rightarrow>
         bindE os_call (\<lambda>_.
         bindE (WriteFile (FJoin [entry, ''meta.json'']) (meta_text bundleBytes lastUsed) 420) (\<lambda>_.
         WriteFile (FJoin [entry, ''complete'']) [] 420))))))"

section \<open>Reconstruction\<close>

record reconstruct_args =
  ra_entry :: string
  ra_useCached :: bool
  ra_admit :: bool
  ra_evict :: bool
  ra_noSeed :: bool
  ra_bundleBytes :: int
  ra_lastUsed :: int
  ra_maxEntries :: int
  ra_maxBytes :: int
  ra_positionals :: "string list"

definition no_args :: reconstruct_args where
  "no_args = \<lparr>ra_entry = [], ra_useCached = False, ra_admit = False, ra_evict = False, ra_noSeed = False, ra_bundleBytes = 0,
     ra_lastUsed = 0, ra_maxEntries = 0, ra_maxBytes = 0, ra_positionals = []\<rparr>"

definition parse_count :: "string \<Rightarrow> string \<Rightarrow> int result" where
  "parse_count what s = (case Atoi s of Inr n \<Rightarrow> if n < 0 then Inl (Errf (''invalid '' @ what @ '' %q'') [s]) else Inr n
     | Inl _ \<Rightarrow> Inl (Errf (''invalid '' @ what @ '' %q'') [s]))"

fun parse_reconstruct :: "reconstruct_args \<Rightarrow> string list \<Rightarrow> reconstruct_args result" where
  "parse_reconstruct a [] = Inr a"
| "parse_reconstruct a (x # xs) =
     (if x = ''--no-seed'' then parse_reconstruct (a\<lparr>ra_noSeed := True\<rparr>) xs
      else if x = ''--use-cached'' then parse_reconstruct (a\<lparr>ra_useCached := True\<rparr>) xs
      else if x = ''--cache'' then
        (case xs of [] \<Rightarrow> Inl (Errf ''--cache requires a value'' []) | v # ys \<Rightarrow> parse_reconstruct (a\<lparr>ra_entry := v\<rparr>) ys)
      else if x = ''--admit'' then
        (case xs of
           v # u # ys \<Rightarrow> (case parse_count ''bundle bytes'' v of
               Inl e \<Rightarrow> Inl e
             | Inr n \<Rightarrow> (case parse_rfc3339 u of
                   None \<Rightarrow> Inl (Errf ''invalid last-used time %q'' [u])
                 | Some t \<Rightarrow> parse_reconstruct (a\<lparr>ra_bundleBytes := n, ra_lastUsed := t, ra_admit := True\<rparr>) ys))
         | _ \<Rightarrow> Inl (Errf ''--admit requires <bundleBytes> <rfc3339>'' []))
      else if x = ''--evict'' then
        (case xs of
           v # u # ys \<Rightarrow> (case parse_count ''maxEntries'' v of
               Inl e \<Rightarrow> Inl e
             | Inr n \<Rightarrow> (case parse_count ''maxBytes'' u of
                   Inl e \<Rightarrow> Inl e
                 | Inr m \<Rightarrow> parse_reconstruct (a\<lparr>ra_maxEntries := n, ra_maxBytes := m, ra_evict := True\<rparr>) ys))
         | _ \<Rightarrow> Inl (Errf ''--evict requires <maxEntries> <maxBytes>'' []))
      else parse_reconstruct (a\<lparr>ra_positionals := ra_positionals a @ [x]\<rparr>) xs)"

text \<open>The checks of the arguments, with the paths resolved: the work directory, the seed and the entry.\<close>

definition reconstruct_paths :: "reconstruct_args \<Rightarrow> ('a worker_state_scheme, string \<times> string \<times> string) io" where
  "reconstruct_paths a =
     bindE (guard (1 \<le> length (ra_positionals a) \<and> length (ra_positionals a) \<le> 2) (Errf ''usage: internal-reconstruct <workDir> [<seed>] [--no-seed] [--cache <entry> [--use-cached] [--admit <bundleBytes> <rfc3339> [--evict <maxEntries> <maxBytes>]]]'' [])) (\<lambda>_.
     bindE (resolveWorkerWorkDir (hd (ra_positionals a))) (\<lambda>workDir.
     let seed = (if length (ra_positionals a) = 2 then ra_positionals a ! 1 else []) in
     bindE (guard (ra_noSeed a \<or> seed \<noteq> []) (Errf ''seed path is required unless --no-seed is given'' [])) (\<lambda>_.
     bindE (if ra_noSeed a then ret seed else resolveWorkerSeed seed) (\<lambda>seed.
     bindE (if ra_entry a \<noteq> [] then resolveWorkerCacheEntry (ra_entry a) else ret []) (\<lambda>entry.
     bindE (guard (\<not> (ra_useCached a \<and> entry = [])) (Errf ''--use-cached requires --cache'' [])) (\<lambda>_.
     bindE (guard (\<not> (ra_admit a \<and> entry = [])) (Errf ''--admit requires --cache'' [])) (\<lambda>_.
     bindE (guard (\<not> (ra_evict a \<and> entry = [])) (Errf ''--evict requires --cache'' [])) (\<lambda>_.
     ret (workDir, seed, entry)))))))))"

definition import_bundles :: "'a worker_state_scheme runner \<Rightarrow> bool \<Rightarrow> string \<Rightarrow> string \<Rightarrow> string \<Rightarrow> ('a worker_state_scheme, unit) io" where
  "import_bundles git useCached workDir payloadDir entry =
     (let unbundle_it = (\<lambda>b. attempt (runGit git workDir [''bundle'', ''unbundle'', b])) in
      if useCached then
        bindE (unbundle_it (FJoin [entry, ''bundle''])) (\<lambda>_.
        bindE (attempt (Stat (FJoin [payloadDir, ''bundle'']))) (\<lambda>s.
        bindE (if (case s of Inr info \<Rightarrow> 0 < fi_size info | Inl _ \<Rightarrow> False)
          then bindE (unbundle_it (FJoin [payloadDir, ''bundle''])) (\<lambda>_. ret ()) else ret ()) (\<lambda>_.
        bindE Now (\<lambda>t. Chtimes (FJoin [entry, ''meta.json'']) t))))
      else bindE (unbundle_it (FJoin [payloadDir, ''bundle''])) (\<lambda>_. ret ()))"

definition checkout_head :: "'a worker_state_scheme runner \<Rightarrow> string \<Rightarrow> string \<Rightarrow> ('a worker_state_scheme, unit) io" where
  "checkout_head git workDir payloadDir =
     bindE (wrapE ''read submitted head: %w'' [] (ReadFile (FJoin [payloadDir, ''head'']))) (\<lambda>data.
     bindE (guard (TrimSpace data \<noteq> []) (Errf ''submitted head is empty'' [])) (\<lambda>_.
     runGit git workDir [''checkout'', ''-q'', TrimSpace data]))"

definition local_changes :: "'a worker_state_scheme runner \<Rightarrow> (string \<Rightarrow> archive) \<Rightarrow> string \<Rightarrow> string \<Rightarrow> ('a worker_state_scheme, unit) io" where
  "local_changes git untar workDir payloadDir =
     (let lcPath = FJoin [payloadDir, ''lc.tar''] in
      bindE (attempt (Stat lcPath)) (\<lambda>s.
      bindE (guard (case s of Inr info \<Rightarrow> fi_kind info = KRegular | Inl _ \<Rightarrow> False) (Errf ''local-change archive is missing'' [])) (\<lambda>_.
      applyLocalChanges git untar workDir payloadDir lcPath)))"

definition internalReconstruct ::
  "'a worker_state_scheme runner \<Rightarrow> (string \<Rightarrow> archive) \<Rightarrow> string list \<Rightarrow> archive option \<Rightarrow> ('a worker_state_scheme, unit) io" where
  "internalReconstruct git untar args stdin =
     bindE (lift_result (parse_reconstruct no_args args)) (\<lambda>a.
     bindE (reconstruct_paths a) (\<lambda>(workDir, seed, entry). case stdin of
       None \<Rightarrow> throw (Errf ''reconstruction payload is required on stdin'' [])
     | Some payload \<Rightarrow>
         let payloadDir = FJoin [workDir, ''.vci-payload''] in
         bindE (MkdirAll workDir) (\<lambda>_.
         bindE (MkdirAll payloadDir) (\<lambda>_.
         bindE (wrapE ''extract payload: %w'' [] (extractTar payload payloadDir)) (\<lambda>_.
         bindE (if ra_noSeed a then ret () else wrapE ''copy seed: %w'' [] (copyTree seed workDir)) (\<lambda>_.
         bindE (runGit git workDir [''init'', ''-q'']) (\<lambda>_.
         bindE (import_bundles git (ra_useCached a) workDir payloadDir entry) (\<lambda>_.
         bindE (checkout_head git workDir payloadDir) (\<lambda>_.
         bindE (local_changes git untar workDir payloadDir) (\<lambda>_.
         bindE (if ra_admit a then
             bindE (admitBundle entry (FJoin [payloadDir, ''bundle'']) (ra_bundleBytes a) (ra_lastUsed a)) (\<lambda>_.
             if ra_evict a then bindE (evictLRU (Dir entry) (ra_maxEntries a) (ra_maxBytes a)) (\<lambda>_. ret ()) else ret ())
           else ret ()) (\<lambda>_.
         RemoveAll payloadDir)))))))))))"

section \<open>Dispatch\<close>

text \<open>The exit code and what is printed on standard output.\<close>

definition usage :: "string \<Rightarrow> ('s, int \<times> string) io" where
  "usage text_of = throw (Errf (''usage: '' @ text_of) [])"

definition run_reap :: "string list \<Rightarrow> ('a worker_state_scheme, int \<times> string) io" where
  "run_reap args = (case args of
       [projDir, refDir, partialRef, claimRef, pc, cc, me, mb] \<Rightarrow>
         (case parse_rfc3339 pc of
            None \<Rightarrow> throw (Errf ''invalid partial cutoff %q'' [pc])
          | Some partialCutoff \<Rightarrow> (case parse_rfc3339 cc of
                None \<Rightarrow> throw (Errf ''invalid claim cutoff %q'' [cc])
              | Some claimCutoff \<Rightarrow>
                  bindE (lift_result (parse_count ''maxEntries'' me)) (\<lambda>maxEntries.
                  bindE (lift_result (parse_count ''maxBytes'' mb)) (\<lambda>maxBytes.
                  bindE (internalReapCache projDir refDir partialRef claimRef partialCutoff claimCutoff maxEntries maxBytes) (\<lambda>(stale, evicted).
                  ret (0, ''stale='' @ itoa stale @ '' evicted='' @ itoa evicted @ [CHR 0x0A]))))))
     | _ \<Rightarrow> usage ''internal-reap-cache <projDir> <refDir> <partialRef> <claimRef> <partialCutoff> <claimCutoff> <maxEntries> <maxBytes>'')"

definition runInternal ::
  "'a worker_state_scheme runner \<Rightarrow> (string \<Rightarrow> archive) \<Rightarrow> string \<Rightarrow> string list \<Rightarrow> archive option \<Rightarrow> ('a worker_state_scheme, int \<times> string) io" where
  "runInternal git untar name args stdin =
     (if name = ''internal-stage'' then
        (case args of [d] \<Rightarrow> bindE (internalStage d stdin) (\<lambda>_. ret (0, [])) | _ \<Rightarrow> usage ''internal-stage <workDir>'')
      else if name = ''internal-probe-cache'' then
        (case args of [e] \<Rightarrow> bindE (internalProbeCache e) (\<lambda>found. ret (if found then 0 else 1, []))
         | _ \<Rightarrow> usage ''internal-probe-cache <entry>'')
      else if name = ''internal-acquire-claim'' then
        (case args of [e, c] \<Rightarrow> bindE (internalAcquireClaim e c) (\<lambda>_. ret (0, []))
         | _ \<Rightarrow> usage ''internal-acquire-claim <entry> <claimID>'')
      else if name = ''internal-release-claim'' then
        (case args of [e, c] \<Rightarrow> bindE (internalReleaseClaim e c) (\<lambda>_. ret (0, []))
         | _ \<Rightarrow> usage ''internal-release-claim <entry> <claimID>'')
      else if name = ''internal-reap-cache'' then run_reap args
      else if name = ''internal-reconstruct'' then bindE (internalReconstruct git untar args stdin) (\<lambda>_. ret (0, []))
      else throw (Errf ''unknown internal command %q'' [name]))"

text \<open>The process: exit code, standard output, standard error.\<close>

definition runInternalCommand ::
  "'a worker_state_scheme runner \<Rightarrow> (string \<Rightarrow> archive) \<Rightarrow> string \<Rightarrow> string list \<Rightarrow> archive option
   \<Rightarrow> 'a worker_state_scheme \<Rightarrow> (int \<times> string \<times> string) \<times> 'a worker_state_scheme" where
  "runInternalCommand git untar name args stdin w =
     (case runInternal git untar name args stdin w of
        (Inl e, w') \<Rightarrow> ((1, [], ''vci '' @ name @ '': '' @ err_text e @ [CHR 0x0A]), w')
      | (Inr (code, out), w') \<Rightarrow> ((code, out, []), w'))"

end
