(* ===== verification/Vci_Time.thy ===== *)
theory Vci_Time
  imports Vci_Reconstruct
begin

text \<open>
  The times the coordinator writes are the times the worker reads: the calendar of \<open>rfc3339\<close> is right
  for every year of four digits, and \<open>parse_rfc3339\<close> undoes it to the second.
\<close>

section \<open>The calendar\<close>

lemma div_step:
  fixes y k :: int
  assumes "0 < k"
  shows "y div k = (y - 1) div k + (if k dvd y then 1 else 0)"
proof (cases "k dvd y")
  case True
  then obtain q where "y = k * q" by blast
  then have "y - 1 = k * (q - 1) + (k - 1)" by (simp add: algebra_simps)
  then have "(y - 1) div k = q - 1" using assms by (intro int_div_pos_eq [of _ _ _ "k - 1"]) auto
  with True \<open>y = k * q\<close> assms show ?thesis by simp
next
  case False
  then have "0 < y mod k" using assms by (metis mod_0_imp_dvd order_le_less pos_mod_sign)
  then have "(y - 1) div k = y div k"
    using assms pos_mod_bound [of k y] mult_div_mod_eq [of k y] by (intro int_div_pos_eq [of _ _ _ "y mod k - 1"]) linarith+
  with False show ?thesis by simp
qed

lemma div_bounds: "0 < k \<Longrightarrow> k * (z div k) \<le> z \<and> z - (k - 1) \<le> k * (z div k)" for z k :: int
  using mult_div_mod_eq [of k z] pos_mod_bound [of k z] pos_mod_sign [of k z] by linarith

lemma year_start_Suc: "year_start (y + 1) = year_start y + 365 + (if leap_year y then 1 else 0)"
proof -
  have nested: "400 dvd y \<Longrightarrow> 100 dvd y" "100 dvd y \<Longrightarrow> 4 dvd y"
    by (erule dvd_trans [rotated], simp)+
  have leap: "leap_year y \<longleftrightarrow> 4 dvd y \<and> (\<not> 100 dvd y \<or> 400 dvd y)"
    unfolding leap_year_def dvd_eq_mod_eq_0 by blast
  have count: "365 * y + (p + (if a then 1 else 0)) - (q + (if b then 1 else 0)) + (r + (if c then 1 else 0)) - n
      = 365 * (y - 1) + p - q + r - n + 365 + (if a \<and> (\<not> b \<or> c) then 1 else 0)"
    if "c \<longrightarrow> b" "b \<longrightarrow> a" for a b c and p q r n :: int
    using that by (cases a; cases b; cases c) simp_all
  have steps: "y div 4 = (y - 1) div 4 + (if 4 dvd y then 1 else 0)" "y div 100 = (y - 1) div 100 + (if 100 dvd y then 1 else 0)"
    "y div 400 = (y - 1) div 400 + (if 400 dvd y then 1 else 0)" by (rule div_step, simp)+
  show ?thesis
    unfolding year_start_def leap add_diff_cancel_right' steps
    by (rule count) (use nested in blast)+
qed

text \<open>The average length of a year gives the year up to one.\<close>

lemma year_guess:
  fixes d :: int
  defines "y \<equiv> (d + 719162) * 400 div 146097 + 1"
  shows "year_start (y - 1) \<le> d \<and> d < year_start (y + 2)"
proof -
  let ?n = "d + 719162"
  have q: "146097 * (y - 1) \<le> ?n * 400" "?n * 400 < 146097 * y"
    using div_bounds [of 146097 "?n * 400"] unfolding y_def by auto
  have lower: "400 * year_start (z + 1) \<le> 146097 * z + 396 - 400 * 719162" for z :: int
    using div_bounds [of 4 z] div_bounds [of 100 z] div_bounds [of 400 z] by (simp add: year_start_def)
  have upper: "146097 * z - 699 - 400 * 719162 \<le> 400 * year_start (z + 1)" for z :: int
    using div_bounds [of 4 z] div_bounds [of 100 z] div_bounds [of 400 z] by (simp add: year_start_def)
  from lower [of "y - 2"] q have "400 * year_start (y - 1) \<le> 400 * d" by simp
  moreover from upper [of "y + 1"] q have "400 * d < 400 * year_start (y + 2)" by (simp add: add.commute)
  ultimately show ?thesis by simp
qed

lemma year_of_correct: "year_start (year_of d) \<le> d \<and> d < year_start (year_of d + 1)"
proof -
  define y where "y = (d + 719162) * 400 div 146097 + 1"
  have "year_start (y - 1) \<le> d" "d < year_start (y + 2)" using year_guess [of d] by (simp_all add: y_def)
  moreover have "year_of d = (if d < year_start y then y - 1 else if year_start (y + 1) \<le> d then y + 1 else y)"
    by (simp add: year_of_def y_def Let_def)
  ultimately show ?thesis by (auto simp: add.commute)
qed

lemma month_starts:
  "month_start y 1 = year_start y"
  "month_start y 2 = year_start y + 31"
  "month_start y 3 = year_start y + 59 + (if leap_year y then 1 else 0)"
  "month_start y 4 = year_start y + 90 + (if leap_year y then 1 else 0)"
  "month_start y 5 = year_start y + 120 + (if leap_year y then 1 else 0)"
  "month_start y 6 = year_start y + 151 + (if leap_year y then 1 else 0)"
  "month_start y 7 = year_start y + 181 + (if leap_year y then 1 else 0)"
  "month_start y 8 = year_start y + 212 + (if leap_year y then 1 else 0)"
  "month_start y 9 = year_start y + 243 + (if leap_year y then 1 else 0)"
  "month_start y 10 = year_start y + 273 + (if leap_year y then 1 else 0)"
  "month_start y 11 = year_start y + 304 + (if leap_year y then 1 else 0)"
  "month_start y 12 = year_start y + 334 + (if leap_year y then 1 else 0)"
  by (simp_all add: month_start_def)

lemma month_of_correct:
  assumes "year_start y \<le> d" and "d < year_start (y + 1)"
  defines "m \<equiv> month_of y d"
  shows "1 \<le> m \<and> m \<le> 12 \<and> month_start y m \<le> d \<and> d - month_start y m + 1 \<le> days_in y m"
  using assms(1,2) unfolding m_def month_of_def year_start_Suc days_in_def
  by (auto simp: month_starts split: if_splits)

section \<open>Digits\<close>

lemma nat_text_length: "k < 10 ^ n \<Longrightarrow> 0 < n \<Longrightarrow> length (nat_text k) \<le> n"
proof (induction n arbitrary: k)
  case (Suc n)
  show ?case
  proof (cases "k < 10")
    case False
    then have "k div 10 < 10 ^ n" "0 < n" using Suc.prems by (cases n; auto)+
    with Suc.IH [of "k div 10"] False show ?thesis by (subst nat_text.simps) simp
  qed (subst nat_text.simps, simp)
qed simp

lemma digits_value_zeros: "digits_value (replicate j (CHR ''0'') @ s) = digits_value s"
  by (induction j) (auto simp: digits_value_def)

lemma pad_digits:
  assumes "0 \<le> i" and "i < 10 ^ n" and "0 < n"
  shows "length (pad n i) = n \<and> list_all is_digit (pad n i) \<and> digits_value (pad n i) = nat i"
proof -
  have "nat i < 10 ^ n" using assms by (simp add: nat_less_iff)
  then have "length (nat_text (nat i)) \<le> n" using assms(3) by (rule nat_text_length)
  moreover have "itoa i = nat_text (nat i)" using assms(1) by (simp add: itoa_def)
  moreover have "list_all is_digit (replicate j (CHR ''0''))" for j by (induction j) (auto simp: is_digit_def)
  ultimately show ?thesis using nat_text_value [of "nat i"] by (simp add: pad_def Let_def digits_value_zeros)
qed

lemma take_num_pad: "0 \<le> i \<Longrightarrow> i < 10 ^ n \<Longrightarrow> 0 < n \<Longrightarrow> take_num n (pad n i @ s) = Some (i, s)"
  using pad_digits [of i n] by (simp add: take_num_def)

lemma take_char_here [simp]: "take_char c (c # s) = Some s"
  by (simp add: take_char_def)

section \<open>Round trip\<close>

definition four_digit_year :: "int \<Rightarrow> bool" where
  "four_digit_year t \<longleftrightarrow> year_start 0 \<le> t div second div 86400 \<and> t div second div 86400 < year_start 10000"

lemma year_start_mono: "y \<le> z \<Longrightarrow> year_start y \<le> year_start z"
proof (induction "nat (z - y)" arbitrary: z)
  case (Suc n)
  then have "year_start y \<le> year_start (z - 1)" by simp
  also have "\<dots> \<le> year_start z" using year_start_Suc [of "z - 1"] by simp
  finally show ?case .
qed simp

lemma parse_rfc3339_rfc3339:
  assumes "four_digit_year t"
  shows "parse_rfc3339 (rfc3339 t) = Some (t div second * second)"
proof -
  define secs where "secs = t div second"
  define d where "d = secs div 86400"
  define s where "s = secs mod 86400"
  define y where "y = year_of d"
  define m where "m = month_of y d"
  have y: "year_start y \<le> d" "d < year_start (y + 1)" using year_of_correct [of d] by (simp_all add: y_def)
  have range: "year_start 0 \<le> d" "d < year_start 10000" using assms by (simp_all add: four_digit_year_def d_def secs_def)
  have "0 \<le> y" using range(1) y(2) year_start_mono [of "y + 1" 0] by linarith
  moreover have "y < 10000" using range(2) y(1) year_start_mono [of 10000 y] by linarith
  moreover note m = month_of_correct [OF y, folded m_def]
  moreover have days: "days_in y m \<le> 31"
  proof -
    have "m = 1 \<or> m = 2 \<or> m = 3 \<or> m = 4 \<or> m = 5 \<or> m = 6 \<or> m = 7 \<or> m = 8 \<or> m = 9 \<or> m = 10 \<or> m = 11 \<or> m = 12"
      using m [THEN conjunct1] m [THEN conjunct2, THEN conjunct1] by presburger
    then show ?thesis by (elim disjE) (simp_all add: days_in_def month_starts)
  qed
  moreover have "0 \<le> s" "s < 86400" by (simp_all add: s_def)
  moreover have total: "d * 86400 + s = secs" by (simp add: d_def s_def)
  ultimately have parsed: "parse_rfc3339 (rfc3339 t) =
      Some (((month_start y m + (d - month_start y m + 1) - 1) * 86400 + s div 3600 * 3600 + s div 60 mod 60 * 60 + s mod 60 - 0) * second + 0)"
    unfolding rfc3339_def Let_def secs_def [symmetric] d_def [symmetric] s_def [symmetric] y_def [symmetric] m_def [symmetric]
    by (simp add: parse_rfc3339_def take_num_pad take_hour_def take_fraction_def take_zone_def)
  have "s div 3600 * 3600 + s div 60 mod 60 * 60 + s mod 60 = s"
  proof -
    have "s div 3600 = s div 60 div 60" using zdiv_zmult2_eq [of 60 s 60] by simp
    moreover have "s div 60 div 60 * 60 + s div 60 mod 60 = s div 60" "s div 60 * 60 + s mod 60 = s" by (rule div_mult_mod_eq)+
    ultimately show ?thesis by linarith
  qed
  with parsed total show ?thesis by (simp add: secs_def algebra_simps)
qed

end
