(* ===== verification/Vci_Fs_Laws.thy ===== *)
theory Vci_Fs_Laws
  imports Vci_Fs "HOL-Library.Sublist"
begin

text \<open>
  Laws of the file system: what an update changes and what it leaves, how resolution follows a path
  through existing directories, and that removing an entry can only make a resolution fail.
\<close>

section \<open>Nodes\<close>

lemma node_at_append: "node_at n (p @ q) = Option.bind (node_at n p) (\<lambda>m. node_at m q)"
  by (induction n p rule: node_at.induct) (auto split: option.split)

lemma node_at_dirs: "node_at n (p @ k # q) = Some m \<Longrightarrow> \<exists>t es. node_at n p = Some (FDir t es)"
  by (auto simp: node_at_append split: bind_splits elim: node_at.elims)

lemma node_at_map_at: "node_at (map_at p f n) (p @ q) = Option.bind (node_at n p) (\<lambda>m. node_at (f m) q)"
  by (induction p f n rule: map_at.induct) (auto simp: update_conv' split: option.split)

lemma map_at_outside: "\<not> prefix p q \<Longrightarrow> \<not> prefix q p \<Longrightarrow> node_at (map_at p f n) q = node_at n q"
proof (induction p f n arbitrary: q rule: map_at.induct)
  case (2 k ks f t es)
  then show ?case by (cases q) (auto simp: update_conv' split: option.split)
qed auto

lemma map_at_above: "strict_prefix q p \<Longrightarrow> node_at n q = Some (FDir t es) \<Longrightarrow> \<exists>es'. node_at (map_at p f n) q = Some (FDir t es')"
proof (induction p f n arbitrary: q rule: map_at.induct)
  case (2 k ks f t es)
  then show ?case by (cases q) (auto simp: update_conv' split: option.splits)
qed (auto simp: strict_prefix_def prefix_Cons)

text \<open>The kind of what is at a path, with the times and entries of a directory left out.\<close>

fun shape :: "fnode \<Rightarrow> fnode" where
  "shape (FDir t es) = FDir 0 []"
| "shape n = n"

definition shape_at :: "fnode \<Rightarrow> string list \<Rightarrow> fnode option" where
  "shape_at n p = map_option shape (node_at n p)"

lemma put_at_node:
  "node_at n p = Some (FDir t es) \<Longrightarrow> node_at (put_at now (p @ [k]) v n) (p @ k # q) = Option.bind v (\<lambda>m. node_at m q)"
  by (auto simp: put_at_def node_at_map_at set_entry_def update_conv' delete_conv' split: option.split)

lemma put_at_dir:
  "node_at n p = Some (FDir t es) \<Longrightarrow>
    node_at (put_at now (p @ [k]) v n) p = Some (FDir now (case v of None \<Rightarrow> AList.delete k es | Some m \<Rightarrow> AList.update k m es))"
  using node_at_map_at [of p _ n "[]"] by (simp add: put_at_def set_entry_def)

lemma put_at_other:
  assumes "node_at n p = Some (FDir t es)" and "\<not> prefix (p @ [k]) q"
  shows "shape_at (put_at now (p @ [k]) v n) q = shape_at n q \<and> (\<not> prefix q p \<longrightarrow> node_at (put_at now (p @ [k]) v n) q = node_at n q)"
proof -
  consider (below) r where "q = p @ r" | (above) "strict_prefix q p" | (apart) "\<not> prefix p q" "\<not> prefix q p"
    by (auto simp: strict_prefix_def prefix_def)
  then show ?thesis
  proof cases
    case below
    with assms put_at_dir [OF assms(1), of now k v] show ?thesis
      by (cases r) (auto simp: shape_at_def node_at_append update_conv' delete_conv' split: option.split)
  next
    case above
    then obtain r where "p = q @ r" "r \<noteq> []" by (auto simp: strict_prefix_def prefix_def)
    with assms node_at_dirs [of n q "hd r" "tl r"] obtain u fs where "node_at n q = Some (FDir u fs)" by auto
    with map_at_above [OF above this, of "set_entry now k v"] show ?thesis
      using above by (auto simp: put_at_def shape_at_def strict_prefix_def)
  next
    case apart
    then show ?thesis by (simp add: put_at_def shape_at_def map_at_outside)
  qed
qed

lemma update_same: "map_of es k = Some c \<Longrightarrow> AList.update k c es = es"
  by (induction es) auto

lemma map_at_same: "(\<And>m. node_at n p = Some m \<Longrightarrow> f m = m) \<Longrightarrow> map_at p f n = n"
  by (induction p f n rule: map_at.induct) (auto simp: update_same split: option.splits)

text \<open>Adding a node without entries where there was none.\<close>

definition leaf :: "fnode \<Rightarrow> bool" where
  "leaf n \<longleftrightarrow> (case n of FDir t es \<Rightarrow> es = [] | _ \<Rightarrow> True)"

lemma leaf_below: "leaf n \<Longrightarrow> node_at n (k # r) = None"
  by (cases n) (auto simp: leaf_def)

lemma put_at_lost: "\<not> (\<exists>t es. node_at n p = Some (FDir t es)) \<Longrightarrow> put_at now (p @ [k]) v n = n"
  unfolding put_at_def by (auto intro!: map_at_same simp: set_entry_def split: fnode.splits)

lemma put_leaf_cases:
  assumes "leaf nd" and "q \<noteq> []" and "node_at (put_at now q (Some nd) n) x = Some m" and "shape m = m"
  shows "node_at n x = Some m \<or> (x = q \<and> m = nd) \<or> m = FDir 0 []"
proof -
  obtain p k where q: "q = p @ [k]" using assms(2) by (metis rev_exhaust)
  show ?thesis
  proof (cases "\<exists>t es. node_at n p = Some (FDir t es)")
    case True
    then obtain t es where dir: "node_at n p = Some (FDir t es)" by blast
    show ?thesis
    proof (cases "prefix q x")
      case True
      then obtain r where "x = p @ k # r" using q by (auto simp: prefix_def)
      then show ?thesis
        using put_at_node [OF dir, of now k "Some nd" r] assms leaf_below q by (cases r) auto
    next
      case False
      with put_at_other [OF dir, of k x now "Some nd"] assms(3,4) q have "Some m = map_option shape (node_at n x)"
        by (auto simp: shape_at_def)
      then obtain m0 where "node_at n x = Some m0" "shape m0 = m" by (cases "node_at n x") auto
      then show ?thesis by (cases m0) auto
    qed
  qed (use put_at_lost assms q in auto)
qed

section \<open>Resolution\<close>

text \<open>A path through a directory that resolves goes on from there, with at most the same budget of links.\<close>

lemma resolve_through:
  assumes "resolve root True n cur xs = Inr q" and "node_at root q = Some (FDir t es)" and "ys \<noteq> []"
  shows "\<exists>m. resolve root f n cur (xs @ ys) = resolve root f m q ys"
  using assms
proof (induction root True n cur xs rule: resolve.induct)
  case (2 root n cur s rest)
  then show ?case by (auto split: if_splits option.splits fnode.splits)
qed auto

text \<open>An entry that exists in a directory, not followed.\<close>

lemma resolve_entry:
  "plain_seg s \<Longrightarrow> node_at root (q @ [s]) = Some c \<Longrightarrow> resolve root False n q [s] = Inr (q @ [s])"
  by (auto simp: plain_seg_def split: fnode.split)

text \<open>When a tree differs from another only in that entries are gone, a path resolves as before or no longer.\<close>

lemma resolve_pruned:
  assumes "\<And>p. shape_at root' p = shape_at root p \<or> node_at root' p = None"
  shows "resolve root' f n cur xs = resolve root f n cur xs \<or> (\<exists>e. resolve root' f n cur xs = Inl e)
    \<or> (\<exists>q. resolve root' f n cur xs = Inr q \<and> node_at root' q = None)"
  using assms
proof (induction root f n cur xs rule: resolve.induct)
  case (2 root f n cur s rest)
  show ?case
  proof (cases "s = [] \<or> s = ''.'' \<or> s = ''..''")
    case True
    then show ?thesis using 2 by auto
  next
    case False
    show ?thesis
    proof (cases "node_at root' (cur @ [s])")
      case None
      with False show ?thesis by simp
    next
      case (Some m)
      with 2(5) [of "cur @ [s]"] obtain m0 where m0: "node_at root (cur @ [s]) = Some m0" "shape m0 = shape m"
        by (cases "node_at root (cur @ [s])") (auto simp: shape_at_def)
      show ?thesis
        using 2(3-4) [OF _ _ m0(1)] 2(5) False Some m0 by (cases m; cases m0) simp_all
    qed
  qed
qed simp

section \<open>Paths of entries\<close>

lemma Split_rooted: "Split slash (slash # s) = [] # Split slash s"
  by simp

lemma Split_clean:
  assumes "IsAbs d" and "path_segs d \<noteq> []"
  shows "Split slash (slash # Join (path_segs d) ''/'') = [] # path_segs d"
  using assms path_segs_rooted_plain [OF assms(1)] by (simp add: Split_Join plain_seg_def)

lemma Split_child:
  assumes "IsAbs d" and "plain_seg s"
  shows "Split slash (FJoin [d, s]) = [] # path_segs d @ [s]"
proof -
  have "Split slash (Join (path_segs d @ [s]) ''/'') = path_segs d @ [s]"
    using assms path_segs_rooted_plain [OF assms(1)] by (intro Split_Join) (auto simp: plain_seg_def)
  with assms FJoin_below [of d "[s]"] show ?thesis by simp
qed

text \<open>An absolute path in normal form, as \<open>filepath.Clean\<close> returns it.\<close>

definition clean_abs :: "string \<Rightarrow> bool" where
  "clean_abs d \<longleftrightarrow> IsAbs d \<and> Clean d = d"

lemma locate_segs:
  assumes "clean_abs d"
  shows "locate f d w = resolve (disk w) f 40 [] (path_segs d)"
proof -
  have d: "slash # Join (path_segs d) ''/'' = d" and abs: "IsAbs d" using assms by (auto simp: clean_abs_def Clean_def)
  have "Split slash d = [] # (if path_segs d = [] then [[]] else path_segs d)"
    using Split_clean [OF abs] Split_rooted [of "Join (path_segs d) ''/''"] unfolding d by (auto split: if_splits)
  then show ?thesis using abs by (simp add: locate_def)
qed

lemma locate_child_segs:
  "IsAbs d \<Longrightarrow> plain_seg s \<Longrightarrow> locate f (FJoin [d, s]) w = resolve (disk w) f 40 [] (path_segs d @ [s])"
  using FJoin_IsAbs [of d "[s]"] by (simp add: locate_def Split_child)

lemma locate_child:
  assumes "clean_abs d" and "plain_seg s" and "locate True d w = Inr q" and "node_at (disk w) q = Some (FDir t es)"
  shows "\<exists>m. locate f (FJoin [d, s]) w = resolve (disk w) f m q [s]"
  using assms resolve_through [of "disk w" 40 "[]" "path_segs d" q t es "[s]" f]
  by (simp add: locate_segs locate_child_segs clean_abs_def)

section \<open>Reading changes nothing\<close>

lemma locate_quiet: "quiet w w' \<Longrightarrow> locate f p w' = locate f p (w :: 'a fs_state_scheme)"
  by (auto simp: quiet_def locate_def)

lemma disk_quiet: "quiet w w' \<Longrightarrow> disk w' = disk (w :: 'a fs_state_scheme)" "quiet w w' \<Longrightarrow> inodes w' = inodes (w :: 'a fs_state_scheme)"
  by (auto simp: quiet_def)

lemma quiet_at_path [always_intro]: "always quiet (at_path f p :: ('a fs_state_scheme, _) io)"
  unfolding at_path_def by (intro always_intro)

lemma quiet_stat [always_intro]:
  "always quiet (stat_with f p :: ('a fs_state_scheme, _) io)"
  "always quiet (Stat p :: ('a fs_state_scheme, _) io)"
  "always quiet (Lstat p :: ('a fs_state_scheme, _) io)"
  unfolding Stat_def Lstat_def stat_with_def by (intro always_intro)+

lemma always_case_fnode [always_intro]:
  "(\<And>t es. always R (f t es)) \<Longrightarrow> (\<And>i. always R (g i)) \<Longrightarrow> (\<And>s. always R (h s)) \<Longrightarrow> always R k \<Longrightarrow>
    always R (case n of FDir t es \<Rightarrow> f t es | FFile i \<Rightarrow> g i | FLink s \<Rightarrow> h s | FDev \<Rightarrow> k)"
  by (simp split: fnode.split)

lemma quiet_reads [always_intro]:
  "always quiet (ReadDir p :: ('a fs_state_scheme, _) io)"
  "always quiet (ReadFile p :: ('a fs_state_scheme, _) io)"
  "always quiet (Readlink p :: ('a fs_state_scheme, _) io)"
  unfolding ReadDir_def ReadFile_def Readlink_def by (intro always_intro)+

lemma at_path_Inr:
  "at_path f p w = (Inr (q, n), w') \<Longrightarrow> locate f p w = Inr q \<and> n = node_at (disk w) q \<and> quiet w w'"
  unfolding at_path_def
  by (auto elim!: bindE_cases dest!: os_call_quiet simp: locate_quiet disk_quiet split: sum.splits)

lemma at_path_missing:
  "at_path f p w = (Inl ENotExist, w') \<Longrightarrow> locate f p w = Inl ENotExist"
  unfolding at_path_def os_call_def
  by (auto elim!: bindE_cases simp: locate_def split: sum.splits list.splits option.splits)

lemma ReadDir_Inr:
  "ReadDir p w = (Inr es', w') \<Longrightarrow> \<exists>q t es. locate True p w = Inr q \<and> node_at (disk w) q = Some (FDir t es) \<and> es' = sort_key fst es"
  unfolding ReadDir_def by (auto elim!: bindE_cases dest!: at_path_Inr split: option.splits fnode.splits)

section \<open>Well-formed names\<close>

lemma entry_smaller [termination_simp]: "(k, c) \<in> set es \<Longrightarrow> size c < Suc (size_list (size_prod (\<lambda>_. 0) size) es)"
  by (induction es) auto

text \<open>Every name is a single plain segment, once in its directory.\<close>

fun wf_disk :: "fnode \<Rightarrow> bool" where
  "wf_disk (FDir t es) \<longleftrightarrow> distinct (map fst es) \<and> (\<forall>(k, c) \<in> set es. plain_seg k \<and> wf_disk c)"
| "wf_disk _ \<longleftrightarrow> True"

lemma wf_entry: "wf_disk (FDir t es) \<Longrightarrow> map_of es k = Some c \<Longrightarrow> plain_seg k \<and> wf_disk c"
  by (auto dest!: map_of_SomeD)

lemma wf_node_at: "wf_disk n \<Longrightarrow> node_at n p = Some m \<Longrightarrow> wf_disk m"
  by (induction n p rule: node_at.induct) (auto split: option.splits dest: wf_entry simp del: wf_disk.simps)

lemma set_update: "set (AList.update k c es) \<subseteq> insert (k, c) (set es)"
  by (induction es) auto

lemma wf_update: "wf_disk (FDir t es) \<Longrightarrow> plain_seg k \<Longrightarrow> wf_disk c \<Longrightarrow> wf_disk (FDir u (AList.update k c es))"
  using set_update [of k c es] by (auto simp: distinct_update)

lemma wf_delete: "wf_disk (FDir t es) \<Longrightarrow> wf_disk (FDir u (AList.delete k es))"
  by (auto simp: AList.delete_eq distinct_map_filter)

lemma wf_set_entry: "wf_disk n \<Longrightarrow> plain_seg k \<Longrightarrow> (\<And>m. v = Some m \<Longrightarrow> wf_disk m) \<Longrightarrow> wf_disk (set_entry t k v n)"
  using wf_delete wf_update by (cases n; cases v) (simp_all add: set_entry_def del: wf_disk.simps(1))

lemma wf_map_at: "wf_disk n \<Longrightarrow> (\<And>m. wf_disk m \<Longrightarrow> wf_disk (f m)) \<Longrightarrow> wf_disk (map_at p f n)"
proof (induction p f n rule: map_at.induct)
  case (2 k ks f t es)
  then show ?case by (auto split: option.split dest: wf_entry intro: wf_update simp del: wf_disk.simps)
qed auto

lemma wf_put_at: "wf_disk n \<Longrightarrow> plain_seg (last p) \<Longrightarrow> (\<And>m. v = Some m \<Longrightarrow> wf_disk m) \<Longrightarrow> wf_disk (put_at t p v n)"
  by (auto simp: put_at_def intro!: wf_map_at wf_set_entry)

end
