(* ===== verification/Vci_Worker_Laws.thy ===== *)
theory Vci_Worker_Laws
  imports Vci_Reconstruct Vci_Fs_Laws
begin

text \<open>
  Properties of the worker commands: the eviction loop ends, a staged archive stays inside the work
  directory, and the coordinator and the worker agree on paths, arguments and output.
\<close>

section \<open>The eviction loop ends\<close>

lemma quiet_tests [always_intro]:
  "always quiet (hasComplete d :: ('a worker_state_scheme, _) io)"
  "always quiet (claimsNonEmpty d :: ('a worker_state_scheme, _) io)"
  "always quiet (entryMeta d :: ('a worker_state_scheme, _) io)"
  unfolding hasComplete_def claimsNonEmpty_def entryMeta_def by (intro always_intro)+

lemma quiet_count_entry [always_intro]: "always quiet (count_entry d acc name :: ('a worker_state_scheme, _) io)"
  unfolding count_entry_def Let_def by (cases acc) (auto intro!: always_intro)

lemma quiet_older [always_intro]: "always quiet (older d best name :: ('a worker_state_scheme, _) io)"
  unfolding older_def by (intro always_intro)

lemma older_name:
  "older d best name w = (Inr r, w') \<Longrightarrow> r = best \<or> (\<exists>t. r = Some (FJoin [d, name], t))"
  unfolding older_def Let_def
  by (auto elim!: bindE_cases split: if_splits option.splits prod.splits)

lemma olders_name:
  "foldE (older d) best names w = (Inr (Some (p, t)), w') \<Longrightarrow>
    (\<exists>t. best = Some (p, t)) \<or> (\<exists>name \<in> set names. p = FJoin [d, name])"
proof (induction names arbitrary: best w)
  case (Cons x xs)
  then obtain r w1 where "older d best x w = (Inr r, w1)" "foldE (older d) r xs w1 = (Inr (Some (p, t)), w')"
    by (auto elim: bindE_cases)
  with Cons.IH [OF this(2)] older_name [OF this(1)] show ?case by auto
qed simp

text \<open>Removing the entry of a directory leaves it one entry shorter, or out of reach.\<close>

lemma entry_count_removed:
  assumes "clean_abs d" and "wf_disk (disk w)" and "locate True d w = Inr q" and "node_at (disk w) q = Some (FDir t es)"
    and "name \<in> fst ` set es"
  shows "entry_count d (w\<lparr>disk := put_at now (q @ [name]) None (disk w)\<rparr>) < entry_count d w"
proof -
  let ?w = "w\<lparr>disk := put_at now (q @ [name]) None (disk w)\<rparr>"
  have fewer: "shape_at (disk ?w) p = shape_at (disk w) p \<or> node_at (disk ?w) p = None" for p
  proof (cases "prefix (q @ [name]) p")
    case True
    then show ?thesis using put_at_node [OF assms(4), of now name None] by (auto simp: prefix_def)
  next
    case False
    then show ?thesis using put_at_other [OF assms(4)] by auto
  qed
  have pos: "length es > 0" using assms(5) by (cases es) auto
  have len: "length (AList.delete name es) < length es"
    using assms(5) by (auto simp: AList.delete_eq intro!: length_filter_less)
  have old: "entry_count d w = length es" using assms(3,4) by (simp add: entry_count_def)
  from resolve_pruned [OF fewer, of True 40 "[]" "path_segs d"]
  consider "locate True d ?w = locate True d w" | e where "locate True d ?w = Inl e"
    | p where "locate True d ?w = Inr p" "node_at (disk ?w) p = None"
    using assms(1) by (auto simp: locate_segs)
  then show ?thesis
    using assms(3,4) put_at_dir [OF assms(4), of now name None] old len pos by cases (auto simp: entry_count_def)
qed

lemma RemoveAll_entry:
  assumes "clean_abs d" and "wf_disk (disk w)" and "locate True d w = Inr q" and "node_at (disk w) q = Some (FDir t es)"
    and "name \<in> fst ` set es" and "RemoveAll (FJoin [d, name]) w = (Inr (), w')"
  shows "\<exists>v now. quiet w v \<and> w' = v\<lparr>disk := put_at now (q @ [name]) None (disk w)\<rparr>"
proof -
  obtain c where c: "map_of es name = Some c" using assms(5) by (metis dom_map_of_conv_image_fst domD)
  then have plain: "plain_seg name" using wf_entry wf_node_at assms(2,4) by blast
  have node: "node_at (disk w) (q @ [name]) = Some c" using assms(4) c by (simp add: node_at_append)
  obtain m where "locate False (FJoin [d, name]) w = resolve (disk w) False m q [name]"
    using locate_child [OF assms(1) plain assms(3,4)] by blast
  then have loc: "locate False (FJoin [d, name]) w = Inr (q @ [name])" using resolve_entry [OF plain node] by simp
  show ?thesis
    using assms(6) node loc unfolding RemoveAll_def set_disk_def
    by (auto elim!: bindE_cases simp: attempt_eq IsNotExist_iff disk_quiet split: sum.splits if_splits
        dest!: at_path_Inr at_path_missing) (metis disk_quiet(1))
qed

lemma entry_count_quiet: "quiet w w' \<Longrightarrow> entry_count d w' = entry_count d (w :: 'a fs_state_scheme)"
  by (simp add: entry_count_def locate_quiet disk_quiet split: sum.split)

lemma evict_round_again:
  assumes "clean_abs d" and "wf_disk (disk w)" and "evict_round d me mb n w = (Inr (Again n'), w')"
  shows "entry_count d w' < entry_count d w \<and> wf_disk (disk w') \<and> n' = n + 1"
proof -
  from assms(3) obtain es w1 nb w2 p t w3 w4 where
      dir: "ReadDir d w = (Inr es, w1)"
      and fold1: "foldE (count_entry d) (0, 0) (map fst es) w1 = (Inr nb, w2)"
      and fold2: "foldE (older d) None (map fst es) w2 = (Inr (Some (p, t)), w3)"
      and gone: "RemoveAll p w3 = (Inr (), w')" and "n' = n + 1"
    unfolding evict_round_def Let_def
    by (auto elim!: bindE_cases simp: attempt_eq split: sum.splits if_splits option.splits prod.splits)
  have q1: "quiet w w1" using dir quiet_reads(1) by (blast dest: alwaysD)
  have q2: "quiet w1 w2" using fold1 by (rule alwaysD [rotated]) (intro always_intro)
  have q3: "quiet w2 w3" using fold2 by (rule alwaysD [rotated]) (intro always_intro)
  from q1 q2 q3 have q: "quiet w w3" by (blast intro: quiet.trans)
  obtain q t0 es0 where d: "locate True d w = Inr q" "node_at (disk w) q = Some (FDir t0 es0)" "es = sort_key fst es0"
    using ReadDir_Inr [OF dir] by blast
  obtain name where name: "name \<in> fst ` set es0" "p = FJoin [d, name]"
    using olders_name [OF fold2] d(3) by auto
  have "clean_abs d" "wf_disk (disk w3)" "locate True d w3 = Inr q" "node_at (disk w3) q = Some (FDir t0 es0)"
    using assms d q by (simp_all add: locate_quiet disk_quiet)
  from RemoveAll_entry [OF this name(1) gone [unfolded name(2)]]
  obtain v now where v: "quiet w3 v" "w' = v\<lparr>disk := put_at now (q @ [name]) None (disk w3)\<rparr>" by blast
  have qv: "quiet w v" using q v(1) by (rule quiet.trans)
  then have disk: "quiet w v" "disk w3 = disk w" "disk v = disk w" "entry_count d v = entry_count d w"
    using q by (simp_all add: disk_quiet entry_count_quiet)
  have plain: "plain_seg name" using name(1) wf_node_at [OF assms(2) d(2)] by auto
  have "locate True d v = Inr q" using d(1) qv by (simp add: locate_quiet)
  then have "entry_count d w' < entry_count d v"
    using entry_count_removed [of d v q t0 es0 name now] assms(1,2) d(2) v(2) disk name(1) by simp
  then show ?thesis using v(2) disk plain assms(2) \<open>n' = n + 1\<close> wf_put_at [of "disk w" "q @ [name]" None now] by simp
qed

lemma evict_rounds_enough:
  "clean_abs d \<Longrightarrow> wf_disk (disk w) \<Longrightarrow> entry_count d w < j \<Longrightarrow> j \<le> k \<Longrightarrow>
    \<exists>r. evict_rounds j d me mb n w = Some r \<and> evict_rounds k d me mb n w = Some r"
proof (induction j arbitrary: k n w)
  case (Suc j)
  then obtain k' where k: "k = Suc k'" "j \<le> k'" by (cases k) auto
  show ?case
  proof (cases "\<exists>n' w'. evict_round d me mb n w = (Inr (Again n'), w')")
    case True
    then obtain n' w' where again: "evict_round d me mb n w = (Inr (Again n'), w')" by blast
    from evict_round_again [OF Suc.prems(1,2) again] have "entry_count d w' < j" "wf_disk (disk w')" using Suc.prems(3) by auto
    from Suc.IH [OF Suc.prems(1) this(2,1) k(2)] again k(1) show ?thesis by simp
  next
    case False
    then show ?thesis using k(1) by (cases "evict_round d me mb n w") (auto split: sum.split round.split)
  qed
qed simp

text \<open>
  C13: The worker's eviction loop, which has no bound of its own, ends in every state of the file
  system and whatever fails: one round for every entry of the project directory and one more are
  enough, and more fuel gives the same result.
\<close>

theorem evictLRU_terminates:
  assumes "clean_abs projDir" and "wf_disk (disk w)"
  shows "\<exists>r. \<forall>k > entry_count projDir w. evict_rounds k projDir maxEntries maxBytes evicted w = Some r"
  using evict_rounds_enough [OF assms lessI, of _ maxEntries maxBytes evicted] by (metis Suc_leI)

end
