(* ===== verification/Vci_Confined.thy ===== *)
theory Vci_Confined
  imports Vci_Worker_Laws
begin

text \<open>
  Staging an archive stays inside the work directory: paths in normal form, what a member name can
  name, and the guarantee every call below a sealed directory keeps.
\<close>

section \<open>Normal forms of paths\<close>

lemma norm_rooted_plain: "list_all plain_seg ss \<Longrightarrow> norm r ss = ss"
  using norm_append_plain [of ss r "[]"] by (simp add: norm_def list_all_iff)

lemma segs_of_rooted:
  assumes "list_all plain_seg ss"
  shows "path_segs (slash # Join ss ''/'') = ss"
proof -
  have "Split slash (Join ss ''/'') = (if ss = [] then [[]] else ss)"
    using assms by (auto simp: Split_Join list_all_iff plain_seg_def)
  then show ?thesis
    using assms norm_append_plain [of ss True "[[]]"] by (simp add: path_segs_def IsAbs_def HasPrefix_def norm_def list_all_iff)
qed

lemma clean_of_segs: "list_all plain_seg ss \<Longrightarrow> clean_abs (slash # Join ss ''/'')"
  by (simp add: clean_abs_def Clean_def segs_of_rooted) (simp add: IsAbs_def HasPrefix_def)

lemma clean_abs_segs: "clean_abs p \<Longrightarrow> p = slash # Join (path_segs p) ''/'' \<and> list_all plain_seg (path_segs p)"
  using path_segs_rooted_plain [of p] by (auto simp: clean_abs_def Clean_def list_all_iff)

lemma Split_cat: "Split slash (a @ slash # b) = Split slash a @ Split slash b"
  by (induction a) auto

lemma Join_snoc: "ss \<noteq> [] \<Longrightarrow> Join (ss @ [s]) ''/'' = Join ss ''/'' @ slash # s"
  by (induction ss "''/''" rule: Join.induct) auto

lemma Dir_segs:
  assumes "list_all plain_seg ss"
  shows "Dir (slash # Join ss ''/'') = slash # Join (butlast ss) ''/''"
proof (cases ss rule: rev_cases)
  case Nil
  then show ?thesis by (simp add: Dir_def Clean_def path_segs_def norm_def IsAbs_def HasPrefix_def)
next
  case (snoc ts s)
  have cut: "dropWhile (\<lambda>c. c \<noteq> slash) (rev s @ slash # xs) = slash # xs" for xs
    using assms snoc by (subst dropWhile_append2) (auto simp: plain_seg_def)
  have plain: "list_all plain_seg ts" using assms snoc by simp
  show ?thesis
  proof (cases "ts = []")
    case True
    then show ?thesis using snoc cut [of "[]"] by (simp add: Dir_def Clean_def path_segs_def norm_def IsAbs_def HasPrefix_def)
  next
    case False
    have "path_segs (slash # Join ts ''/'' @ [slash]) = ts"
      using plain False norm_append_plain [of ts True "[[]]"]
      by (simp add: path_segs_def IsAbs_def HasPrefix_def norm_def Split_cat Split_Join list_all_iff plain_seg_def)
    then show ?thesis
      using snoc False cut [of "rev (Join ts ''/'') @ [slash]"] by (simp add: Dir_def Join_snoc Clean_def IsAbs_def HasPrefix_def)
  qed
qed

text \<open>A relative path in normal form: parent segments, then plain ones.\<close>

lemma norm_step_relative:
  assumes "slash \<notin> set s" and "list_all plain_seg ps"
  shows "\<exists>k' ps'. norm_step False (rev ps @ replicate k ''..'') s = rev ps' @ replicate k' ''..'' \<and> list_all plain_seg ps'"
proof (cases "s = [] \<or> s = ''.''")
  case True
  then show ?thesis using assms(2) by auto
next
  case False
  show ?thesis
  proof (cases "s = ''..''")
    case True
    show ?thesis
    proof (cases ps rule: rev_cases)
      case Nil
      with True show ?thesis by (cases k) (auto intro!: exI [of _ "Suc k"] exI [of _ "[]"])
    next
      case (snoc qs q)
      with True assms(2) show ?thesis by (auto simp: plain_seg_def intro!: exI [of _ k] exI [of _ qs])
    qed
  next
    case neq: False
    with False assms show ?thesis by (auto simp: plain_seg_def intro!: exI [of _ k] exI [of _ "ps @ [s]"])
  qed
qed

lemma norm_relative:
  assumes "list_all (\<lambda>s. slash \<notin> set s) ss"
  shows "\<exists>k ps. norm False ss = replicate k ''..'' @ ps \<and> list_all plain_seg ps"
proof -
  have "\<exists>k' ps'. foldl (norm_step False) (rev ps @ replicate k ''..'') ss = rev ps' @ replicate k' ''..'' \<and> list_all plain_seg ps'"
    if "list_all plain_seg ps" for k ps
    using assms that
  proof (induction ss arbitrary: k ps)
    case (Cons s ss)
    then obtain k' ps' where "norm_step False (rev ps @ replicate k ''..'') s = rev ps' @ replicate k' ''..''" "list_all plain_seg ps'"
      using norm_step_relative [of s ps k] by (auto simp del: norm_step.simps)
    with Cons show ?case by (simp del: norm_step.simps)
  qed auto
  from this [of "[]" 0] obtain k ps where "foldl (norm_step False) [] ss = rev ps @ replicate k ''..''" "list_all plain_seg ps"
    by (auto simp del: norm_step.simps)
  then show ?thesis by (intro exI [of _ k] exI [of _ ps]) (simp add: norm_def del: norm_step.simps)
qed

text \<open>A member name that \<open>safeJoin\<close> accepts names something at or below the root.\<close>

lemma safeJoin_below:
  assumes "safeJoin root name = Inr target" and "clean_abs root"
  shows "\<exists>ps. list_all plain_seg ps \<and> target = slash # Join (path_segs root @ ps) ''/''"
proof -
  let ?c = "Clean name"
  have rel: "\<not> IsAbs name" and up: "?c \<noteq> ''..''" "\<not> HasPrefix ?c ''../''" and t: "target = FJoin [root, ?c]"
    using assms(1) by (auto simp: safeJoin_def Let_def split: if_splits)
  have root: "IsAbs root" "root \<noteq> []" using assms(2) by (auto simp: clean_abs_def IsAbs_def HasPrefix_def)
  have "list_all (\<lambda>s. slash \<notin> set s) (Split slash name)" using Split_no_sep by (auto simp: list_all_iff)
  then obtain k ps where segs: "path_segs name = replicate k ''..'' @ ps" and plain: "list_all plain_seg ps"
    using norm_relative rel by (metis path_segs_def)
  have "k = 0"
  proof (rule ccontr)
    assume "k \<noteq> 0"
    then obtain j where "path_segs name = ''..'' # replicate j ''..'' @ ps" using segs by (cases k) auto
    with rel up show False
      by (cases "replicate j ''..'' @ ps") (auto simp: Clean_def HasPrefix_def)
  qed
  then have c: "?c = (if ps = [] then ''.'' else Join ps ''/'')" using segs rel by (simp add: Clean_def)
  have "path_segs (Join [root, ?c] ''/'') = path_segs root @ ps"
  proof (cases "ps = []")
    case True
    then show ?thesis using root c IsAbs_Join [of "[root, ''.'']"] by (simp add: path_segs_def norm_def Split_cat)
  next
    case False
    have "Split slash (Join ps ''/'') = ps" using plain False by (intro Split_Join) (auto simp: list_all_iff plain_seg_def)
    then show ?thesis
      using root c False plain norm_append_plain [of ps True "Split slash root"]
        IsAbs_Join [of "[root, Join ps ''/'']"] by (simp add: path_segs_def Split_cat list_all_iff)
  qed
  moreover have "IsAbs (Join [root, ?c] ''/'')" using root IsAbs_Join [of "[root, ?c]"] by simp
  ultimately have "target = slash # Join (path_segs root @ ps) ''/''" using t root by (simp add: FJoin_def Clean_def)
  with plain show ?thesis by blast
qed

section \<open>A sealed directory\<close>

text \<open>
  Nothing at, above or below the directory is a symbolic link, no file below it has a second name
  elsewhere, and every file has its inode.
\<close>

definition apart :: "string list \<Rightarrow> string list \<Rightarrow> bool" where
  "apart D q \<longleftrightarrow> \<not> prefix D q \<and> \<not> prefix q D"

definition inside :: "string list \<Rightarrow> fnode \<Rightarrow> nat \<Rightarrow> bool" where
  "inside D n i \<longleftrightarrow> (\<forall>q. node_at n q = Some (FFile i) \<longrightarrow> prefix D q)"

definition sealed :: "string list \<Rightarrow> 'a fs_state_scheme \<Rightarrow> bool" where
  "sealed D w \<longleftrightarrow> (\<forall>q t. node_at (disk w) q = Some (FLink t) \<longrightarrow> apart D q)
     \<and> (\<forall>q i. prefix D q \<longrightarrow> node_at (disk w) q = Some (FFile i) \<longrightarrow> inside D (disk w) i)
     \<and> (\<forall>q i. node_at (disk w) q = Some (FFile i) \<longrightarrow> i \<in> fst ` set (inodes w))"

definition unmoved :: "string list \<Rightarrow> 'a fs_state_scheme \<Rightarrow> 'a fs_state_scheme \<Rightarrow> bool" where
  "unmoved D w w' \<longleftrightarrow> (\<forall>q. apart D q \<longrightarrow> node_at (disk w') q = node_at (disk w) q
     \<and> (\<forall>i. node_at (disk w) q = Some (FFile i) \<longrightarrow> the_inode w' i = the_inode w i))"

definition confined :: "string list \<Rightarrow> 'a fs_state_scheme \<Rightarrow> 'a fs_state_scheme \<Rightarrow> bool" where
  "confined D w w' \<longleftrightarrow> (sealed D w \<longrightarrow> sealed D w' \<and> unmoved D w w')"

lemma unmoved_trans: "unmoved D u v \<Longrightarrow> unmoved D v w \<Longrightarrow> unmoved D u w"
  unfolding unmoved_def by metis

lemma confined_same:
  "disk w' = disk w \<Longrightarrow> inodes w' = inodes w \<Longrightarrow> confined D w (w' :: 'a fs_state_scheme)"
  by (simp add: confined_def sealed_def unmoved_def the_inode_def)

interpretation confined: os_guarantee "confined D :: 'a fs_state_scheme \<Rightarrow> 'a fs_state_scheme \<Rightarrow> bool"
proof unfold_locales
  show "confined D w w" for w :: "'a fs_state_scheme" by (simp add: confined_same)
  show "confined D u w" if "confined D u v" and "confined D v w" for u v w :: "'a fs_state_scheme"
    using that unfolding confined_def by (blast intro: unmoved_trans)
  show "confined D w (w\<lparr>faults := fs\<rparr>)" for w :: "'a fs_state_scheme" and fs by (simp add: confined_same)
  show "confined D w (w\<lparr>entropy := bs\<rparr>)" for w :: "'a fs_state_scheme" and bs by (simp add: confined_same)
qed

lemma confined_quiet: "always quiet m \<Longrightarrow> always (confined D) (m :: ('a fs_state_scheme, 'b) io)"
  by (erule always_mono) (simp add: confined_same disk_quiet)

text \<open>Paths on the way to the directory or below it lead where they say.\<close>

definition on_track :: "string list \<Rightarrow> string \<Rightarrow> bool" where
  "on_track D p \<longleftrightarrow> clean_abs p \<and> (prefix D (path_segs p) \<or> prefix (path_segs p) D)"

lemma resolve_straight:
  "resolve root f n cur xs = Inr q \<Longrightarrow> list_all plain_seg xs \<Longrightarrow>
    (\<And>ys t. prefix ys xs \<Longrightarrow> f \<or> ys \<noteq> xs \<Longrightarrow> node_at root (cur @ ys) \<noteq> Some (FLink t)) \<Longrightarrow> q = cur @ xs"
proof (induction root f n cur xs rule: resolve.induct)
  case (2 root f n cur s rest)
  have "\<And>ys t. prefix ys rest \<Longrightarrow> f \<or> ys \<noteq> rest \<Longrightarrow> node_at root ((cur @ [s]) @ ys) \<noteq> Some (FLink t)"
    using 2(7) [of "s # _"] by simp
  moreover have "f \<or> rest \<noteq> [] \<Longrightarrow> node_at root (cur @ [s]) \<noteq> Some (FLink t)" for t using 2(7) [of "[s]"] by auto
  ultimately show ?case
    using 2(3) [of "the (node_at root (cur @ [s]))"] 2(5,6)
    by (auto simp: plain_seg_def split: if_splits option.splits fnode.splits)
qed simp

lemma resolve_missing:
  "resolve root f n cur xs = Inl ENotExist \<Longrightarrow> list_all plain_seg xs \<Longrightarrow>
    (\<And>ys t. prefix ys xs \<Longrightarrow> f \<or> ys \<noteq> xs \<Longrightarrow> node_at root (cur @ ys) \<noteq> Some (FLink t)) \<Longrightarrow> node_at root (cur @ xs) = None"
proof (induction root f n cur xs rule: resolve.induct)
  case (2 root f n cur s rest)
  have "\<And>ys t. prefix ys rest \<Longrightarrow> f \<or> ys \<noteq> rest \<Longrightarrow> node_at root ((cur @ [s]) @ ys) \<noteq> Some (FLink t)"
    using 2(7) [of "s # _"] by simp
  moreover have "f \<or> rest \<noteq> [] \<Longrightarrow> node_at root (cur @ [s]) \<noteq> Some (FLink t)" for t using 2(7) [of "[s]"] by auto
  moreover have "node_at root (cur @ [s]) = None \<Longrightarrow> node_at root (cur @ s # rest) = None"
    using node_at_append [of root "cur @ [s]" rest] by simp
  ultimately show ?case
    using 2(3) [of "the (node_at root (cur @ [s]))"] 2(5,6)
    by (auto simp: plain_seg_def split: if_splits option.splits fnode.splits)
qed simp

lemma on_track_location:
  assumes "sealed D w" and "on_track D p" and "locate f p w = Inr q"
  shows "q = path_segs p"
proof -
  have "node_at (disk w) ys \<noteq> Some (FLink t)" if "prefix ys (path_segs p)" for ys t
  proof
    assume "node_at (disk w) ys = Some (FLink t)"
    then have "apart D ys" using assms(1) by (auto simp: sealed_def)
    then show False
      using that assms(2) unfolding on_track_def apart_def
      by (meson prefix_order.trans prefix_same_cases)
  qed
  then show ?thesis
    using resolve_straight [of "disk w" f 40 "[]" "path_segs p" q] assms(2,3) clean_abs_segs [of p]
    by (simp add: on_track_def locate_segs)
qed

section \<open>Updates keep it sealed\<close>

lemma put_leaf_apart:
  assumes "leaf nd" and "node_at n q = None" and "prefix D q \<or> prefix q D" and "apart D x"
  shows "node_at (put_at now q (Some nd) n) x = node_at n x"
proof (cases q rule: rev_cases)
  case (snoc p k)
  show ?thesis
  proof (cases "\<exists>t es. node_at n p = Some (FDir t es)")
    case True
    then obtain t es where dir: "node_at n p = Some (FDir t es)" by blast
    show ?thesis
    proof (cases "prefix q x")
      case True
      then obtain r where r: "x = q @ r" by (auto simp: prefix_def)
      then obtain j r' where "r = j # r'" using assms(3,4) by (cases r) (auto simp: apart_def)
      moreover have "node_at n x = None" using assms(2) r by (simp add: node_at_append)
      ultimately show ?thesis
        using put_at_node [OF dir, of now k "Some nd" r] assms(1) leaf_below [of nd j r'] r snoc by simp
    next
      case False
      have "\<not> prefix x p"
      proof
        assume "prefix x p"
        then have "prefix x q" using snoc by (auto intro: prefix_order.trans)
        then show False using assms(3,4) unfolding apart_def by (meson prefix_order.trans prefix_same_cases)
      qed
      then show ?thesis using put_at_other [OF dir, of k x] False snoc by simp
    qed
  qed (use put_at_lost snoc in auto)
qed (simp add: put_at_def)

lemma inside_fresh: "sealed D w \<Longrightarrow> inside D (disk w) (fresh_inode w)"
proof -
  assume sealed: "sealed D w"
  have "j \<le> fold max ns a" if "j \<in> set ns \<or> j \<le> a" for j a and ns :: "nat list"
    using that by (induction ns arbitrary: a) (auto intro: max.coboundedI1 max.coboundedI2)
  then have "j < fresh_inode w" if "j \<in> fst ` set (inodes w)" for j
    using that by (auto simp: fresh_inode_def less_Suc_eq_le)
  with sealed show ?thesis unfolding inside_def sealed_def by blast
qed

lemma confined_put:
  assumes "sealed D w" and "prefix D q \<or> prefix q D" and "q \<noteq> []" and "node_at (disk w) q = None"
    and "leaf nd" and "\<And>t. nd \<noteq> FLink t"
    and "\<And>i. nd = FFile i \<Longrightarrow> prefix D q \<and> inside D (disk w) i \<and> i \<in> fst ` set ins"
    and "fst ` set (inodes w) \<subseteq> fst ` set ins" and "\<And>j. \<not> inside D (disk w) j \<Longrightarrow> map_of ins j = map_of (inodes w) j"
  shows "sealed D (w\<lparr>inodes := ins, disk := put_at now q (Some nd) (disk w)\<rparr>)
    \<and> unmoved D w (w\<lparr>inodes := ins, disk := put_at now q (Some nd) (disk w)\<rparr>)"
proof -
  let ?n = "put_at now q (Some nd) (disk w)"
  have files: "node_at (disk w) x = Some (FFile i) \<or> (x = q \<and> nd = FFile i)" if "node_at ?n x = Some (FFile i)" for x i
    using put_leaf_cases [OF assms(5,3) that] by auto
  have links: "node_at (disk w) x = Some (FLink t)" if "node_at ?n x = Some (FLink t)" for x t
    using put_leaf_cases [OF assms(5,3) that] assms(6) by auto
  have in_kept: "inside D ?n i" if "inside D (disk w) i" for i
    using that files assms(7) unfolding inside_def by blast
  have inner: "inside D (disk w) i" if "prefix D x" "node_at ?n x = Some (FFile i)" for x i
    using files [OF that(2)] that(1) assms(1,7) by (auto simp: sealed_def)
  have table: "i \<in> fst ` set ins" if "node_at ?n x = Some (FFile i)" for x i
    using files [OF that] assms(1,7,8) unfolding sealed_def by blast
  have seal: "sealed D (w\<lparr>inodes := ins, disk := ?n\<rparr>)"
    using assms(1) links in_kept inner table unfolding sealed_def by simp
  have "\<not> inside D (disk w) i" if "apart D x" "node_at (disk w) x = Some (FFile i)" for x i
    using that by (auto simp: inside_def apart_def)
  then have "unmoved D w (w\<lparr>inodes := ins, disk := ?n\<rparr>)"
    using put_leaf_apart [OF assms(5,4,2)] assms(9) by (simp add: unmoved_def the_inode_def)
  with seal show ?thesis by blast
qed

lemma confined_inode:
  assumes "sealed D w" and "inside D (disk w) i"
  shows "sealed D (w\<lparr>inodes := AList.update i d (inodes w)\<rparr>) \<and> unmoved D w (w\<lparr>inodes := AList.update i d (inodes w)\<rparr>)"
proof -
  have "\<not> inside D (disk w) j" if "apart D x" "node_at (disk w) x = Some (FFile j)" for x j
    using that by (auto simp: inside_def apart_def)
  then show ?thesis
    using assms by (auto simp: sealed_def unmoved_def the_inode_def update_conv' dom_update)
qed

section \<open>Calls below the directory\<close>

lemma confinedI: "(\<And>w r w'. sealed D w \<Longrightarrow> m w = (r, w') \<Longrightarrow> sealed D w' \<and> unmoved D w w') \<Longrightarrow> always (confined D) m"
  by (rule alwaysI) (auto simp: confined_def)

lemma unmoved_quiet: "quiet w w1 \<Longrightarrow> sealed D w1 \<Longrightarrow> sealed D w' \<and> unmoved D w1 w' \<Longrightarrow> sealed D w' \<and> unmoved D w (w' :: 'a fs_state_scheme)"
  by (auto simp: unmoved_def disk_quiet the_inode_def)

lemma sealed_quiet: "quiet w w1 \<Longrightarrow> sealed D w1 = sealed D (w :: 'a fs_state_scheme)"
  by (simp add: sealed_def disk_quiet)

lemma same_unmoved: "quiet w w' \<Longrightarrow> sealed D w \<Longrightarrow> sealed D w' \<and> unmoved D w (w' :: 'a fs_state_scheme)"
  using confined_same [of w' w D] by (simp add: disk_quiet confined_def)

text \<open>Where a call goes on from the node it looked up.\<close>

lemma at_path_confined:
  assumes "on_track D p"
    and "\<And>w r w'. sealed D w \<Longrightarrow> f (path_segs p, node_at (disk w) (path_segs p)) w = (r, w') \<Longrightarrow> sealed D w' \<and> unmoved D w w'"
  shows "always (confined D) (bindE (at_path b p) f :: ('a fs_state_scheme, 'c) io)"
proof (rule confinedI)
  fix w r w'
  assume sealed: "sealed D w" and "bindE (at_path b p) f w = (r, w')"
  then consider e where "at_path b p w = (Inl e, w')" | q n w1 where "at_path b p w = (Inr (q, n), w1)" "f (q, n) w1 = (r, w')"
    by (auto elim!: bindE_cases)
  then show "sealed D w' \<and> unmoved D w w'"
  proof cases
    case 1
    then show ?thesis using same_unmoved [OF alwaysD [OF quiet_at_path] sealed] by blast
  next
    case (2 q n w1)
    from at_path_Inr [OF 2(1)] have q: "locate b p w = Inr q" "n = node_at (disk w) q" "quiet w w1" by auto
    have "q = path_segs p" using on_track_location [OF sealed assms(1) q(1)] .
    then have "sealed D w' \<and> unmoved D w1 w'"
      using assms(2) [of w1 r w'] 2(2) q sealed by (simp add: sealed_quiet disk_quiet)
    then show ?thesis using unmoved_quiet [OF q(3)] sealed q(3) by (simp add: sealed_quiet)
  qed
qed

lemma confined_put_dir:
  "sealed D w \<Longrightarrow> prefix D q \<or> prefix q D \<Longrightarrow> node_at (disk w) q = None \<Longrightarrow>
    sealed D (w\<lparr>disk := put_at now q (Some (FDir t [])) (disk w)\<rparr>) \<and> unmoved D w (w\<lparr>disk := put_at now q (Some (FDir t [])) (disk w)\<rparr>)"
  using confined_put [of D w q "FDir t []" "inodes w" now] by (cases "q = []") (auto simp: leaf_def)

lemma confined_mkdir_one: "on_track D p \<Longrightarrow> always (confined D) (mkdir_one p :: ('a fs_state_scheme, unit) io)"
  unfolding mkdir_one_def set_disk_def
proof (rule at_path_confined, assumption)
  fix w w' :: "'a fs_state_scheme" and r
  assume "on_track D p" and "sealed D w" and "(case (path_segs p, node_at (disk w) (path_segs p)) of (q, n) \<Rightarrow> case n of
       Some (FDir _ _) \<Rightarrow> ret ()
     | Some _ \<Rightarrow> throw enotdir
     | None \<Rightarrow> bindE (asks (locate False p)) (\<lambda>r. if r = Inr q then modify (\<lambda>w. w\<lparr>disk := put_at (clock w) q (Some (FDir (clock w) [])) (disk w)\<rparr>) else throw eexist))
      w = (r, w')"
  then show "sealed D w' \<and> unmoved D w w'"
    using confined_put_dir [of D w "path_segs p"] same_unmoved [OF quiet.refl, of D w]
    by (auto simp: on_track_def elim!: bindE_cases split: option.splits fnode.splits if_splits)
qed

lemma on_track_take:
  assumes "on_track D p"
  shows "on_track D (slash # Join (take i (path_segs p)) ''/'')"
proof -
  have plain: "list_all plain_seg (take i (path_segs p))"
    using assms clean_abs_segs [of p] by (auto simp: on_track_def list_all_iff dest: in_set_takeD)
  have "prefix (take i (path_segs p)) (path_segs p)" by (rule take_is_prefix)
  then have "prefix D (take i (path_segs p)) \<or> prefix (take i (path_segs p)) D"
    using assms unfolding on_track_def by (meson prefix_order.trans prefix_same_cases)
  with plain show ?thesis by (simp add: on_track_def clean_of_segs segs_of_rooted)
qed

lemma confined_MkdirAll: "on_track D p \<Longrightarrow> always (confined D) (MkdirAll p :: ('a fs_state_scheme, unit) io)"
proof -
  assume track: "on_track D p"
  then have "IsAbs p" by (simp add: on_track_def clean_abs_def)
  then have "on_track D x" if "x \<in> set (path_prefixes p)" for x
    using that on_track_take [OF track] by (auto simp: path_prefixes_def)
  then have "always (confined D) (forE xs mkdir_one :: ('a fs_state_scheme, unit) io)" if "set xs \<subseteq> set (path_prefixes p)" for xs
    using that by (induction xs) (auto intro!: always_intro confined_mkdir_one)
  then show ?thesis by (simp add: MkdirAll_def)
qed

lemma open_create_confined:
  assumes "sealed D w" and "on_track D p" and "prefix D (path_segs p)" and "open_create True p mode w = (r, w')"
  shows "sealed D w' \<and> unmoved D w w' \<and> (\<forall>i. r = Inr i \<longrightarrow> inside D (disk w') i)"
proof -
  from assms(4) consider (err) e where "at_path True p w = (Inl e, w')" "r = Inl e"
    | (at) q n w1 where "at_path True p w = (Inr (q, n), w1)"
        "open_node True mode (q, n) w1 = (r, w')"
    unfolding open_create_def by (auto elim!: bindE_cases)
  then show ?thesis
  proof cases
    case err
    then show ?thesis using same_unmoved [OF alwaysD [OF quiet_at_path] assms(1)] by blast
  next
    case (at q n w1)
    from at_path_Inr [OF at(1)] have q: "locate True p w = Inr q" "n = node_at (disk w) q" "quiet w w1" by auto
    have qp: "q = path_segs p" using on_track_location [OF assms(1,2) q(1)] .
    have seal: "sealed D w1" using assms(1) q(3) by (simp add: sealed_quiet)
    have node: "n = node_at (disk w1) q" using q by (simp add: disk_quiet)
    show ?thesis
    proof (cases n)
      case None
      let ?i = "fresh_inode w1"
      let ?ins = "AList.update ?i \<lparr>i_data = [], i_mode = mode, i_mtime = clock w1\<rparr> (inodes w1)"
      let ?w = "w1\<lparr>inodes := ?ins, disk := put_at (clock w1) q (Some (FFile ?i)) (disk w1)\<rparr>"
      have "w' = ?w" "r = Inr ?i" using at(2) None by (auto elim!: bindE_cases)
      moreover have "q \<noteq> []" using None node by auto
      moreover have "sealed D ?w \<and> unmoved D w1 ?w"
        by (rule confined_put [OF seal])
          (use None node qp assms(3) inside_fresh [OF seal] \<open>q \<noteq> []\<close> in \<open>auto simp: leaf_def dom_update update_conv'\<close>)
      moreover have "inside D (disk ?w) ?i"
        using put_leaf_cases [of "FFile ?i" q "clock w1" "disk w1"] inside_fresh [OF seal] assms(3) qp \<open>q \<noteq> []\<close>
        by (fastforce simp: inside_def leaf_def)
      ultimately show ?thesis using unmoved_quiet [OF q(3) seal] by blast
    next
      case (Some m)
      show ?thesis
      proof (cases m)
        case (FFile i)
        then have "inside D (disk w1) i" using Some node seal qp assms(3) by (auto simp: sealed_def)
        with confined_inode [OF seal this] at(2) Some FFile unmoved_quiet [OF q(3) seal] show ?thesis
          by (auto elim!: bindE_cases)
      qed (use at(2) Some same_unmoved [OF q(3) assms(1)] in auto)
    qed
  qed
qed

lemma write_inode_confined:
  assumes "sealed D w" and "inside D (disk w) i" and "write_inode i d w = (r, w')"
  shows "sealed D w' \<and> unmoved D w w' \<and> inside D (disk w') i"
proof -
  from assms(3) consider e where "os_call w = (Inl e, w')"
    | v x where "os_call w = (Inr (), v)" "w' = v\<lparr>inodes := AList.update i x (inodes v)\<rparr>"
    unfolding write_inode_def by (auto elim!: bindE_cases)
  then show ?thesis
  proof cases
    case 1
    then show ?thesis using same_unmoved [OF os_call_quiet assms(1)] disk_quiet(1) [OF os_call_quiet] assms(2) by metis
  next
    case (2 v x)
    have q: "quiet w v" using 2(1) by (rule os_call_quiet)
    then have "sealed D v" "inside D (disk v) i" using assms by (simp_all add: sealed_quiet disk_quiet)
    with confined_inode [OF this, of x] unmoved_quiet [OF q] 2(2) show ?thesis by simp
  qed
qed

lemma confined_Chmod: "on_track D p \<Longrightarrow> prefix D (path_segs p) \<Longrightarrow> always (confined D) (Chmod p mode :: ('a fs_state_scheme, unit) io)"
  unfolding Chmod_def set_meta_def set_disk_def
proof (rule at_path_confined, assumption)
  fix w w' :: "'a fs_state_scheme" and r
  assume D: "prefix D (path_segs p)" and sealed: "sealed D w" and run: "(case (path_segs p, node_at (disk w) (path_segs p)) of (q, n) \<Rightarrow> case n of
       None \<Rightarrow> throw ENotExist
     | Some (FFile i) \<Rightarrow> modify (\<lambda>w. w\<lparr>inodes := AList.update i (i_mode_update (\<lambda>_. mode) (the_inode w i)) (inodes w)\<rparr>)
     | Some (FDir t es) \<Rightarrow> modify (\<lambda>w. w\<lparr>disk := map_at q (\<lambda>_. FDir t es) (disk w)\<rparr>)
     | Some _ \<Rightarrow> ret ()) w = (r, w')"
  show "sealed D w' \<and> unmoved D w w'"
  proof (cases "node_at (disk w) (path_segs p)")
    case (Some m)
    show ?thesis
    proof (cases m)
      case (FFile i)
      with Some D sealed have "inside D (disk w) i" by (auto simp: sealed_def)
      with confined_inode [OF sealed this] run Some FFile show ?thesis by auto
    next
      case (FDir t es)
      then have "map_at (path_segs p) (\<lambda>_. FDir t es) (disk w) = disk w" using Some by (intro map_at_same) auto
      with run Some FDir same_unmoved [OF quiet.refl sealed] show ?thesis by auto
    qed (use run Some same_unmoved [OF quiet.refl sealed] in auto)
  qed (use run same_unmoved [OF quiet.refl sealed] in auto)
qed

lemma confined_Link:
  assumes "on_track D old" and "prefix D (path_segs old)" and "on_track D new" and "prefix D (path_segs new)"
  shows "always (confined D) (Link old new :: ('a fs_state_scheme, unit) io)"
proof (rule confinedI)
  fix w w' :: "'a fs_state_scheme" and r
  assume sealed: "sealed D w" and run: "Link old new w = (r, w')"
  from run consider (first) e where "at_path False old w = (Inl e, w')"
    | (second) q0 m w1 e where "at_path False old w = (Inr (q0, m), w1)" "at_path False new w1 = (Inl e, w')"
    | (same) q0 m w1 q n where "at_path False old w = (Inr (q0, m), w1)" "at_path False new w1 = (Inr (q, n), w')"
    | (link) q0 m w1 q w2 where "at_path False old w = (Inr (q0, Some m), w1)" "at_path False new w1 = (Inr (q, None), w2)"
        "\<And>t es. m \<noteq> FDir t es" "w' = w2\<lparr>disk := put_at (clock w2) q (Some m) (disk w2)\<rparr>"
    unfolding Link_def set_disk_def
    by (auto elim!: bindE_cases split: option.splits fnode.splits if_splits)
  then show "sealed D w' \<and> unmoved D w w'"
  proof cases
    case first
    then show ?thesis using same_unmoved [OF alwaysD [OF quiet_at_path] sealed] by blast
  next
    case second
    then have "quiet w w'" using alwaysD [OF quiet_at_path second(1)] alwaysD [OF quiet_at_path second(2)] by (rule_tac quiet.trans)
    then show ?thesis using sealed by (rule same_unmoved)
  next
    case same
    then have "quiet w w'" using alwaysD [OF quiet_at_path same(1)] alwaysD [OF quiet_at_path same(2)] by (rule_tac quiet.trans)
    then show ?thesis using sealed by (rule same_unmoved)
  next
    case link
    from at_path_Inr [OF link(1)] have old: "locate False old w = Inr q0" "node_at (disk w) q0 = Some m" "quiet w w1" by auto
    from at_path_Inr [OF link(2)] have new: "locate False new w1 = Inr q" "node_at (disk w1) q = None" "quiet w1 w2" by auto
    have q0: "q0 = path_segs old" using on_track_location [OF sealed assms(1) old(1)] .
    have seal1: "sealed D w1" using sealed old(3) by (simp add: sealed_quiet)
    have q: "q = path_segs new" using on_track_location [OF seal1 assms(3) new(1)] .
    have quiet: "quiet w w2" using old(3) new(3) by (rule quiet.trans)
    have disk: "disk w2 = disk w" "disk w2 = disk w1" "inodes w2 = inodes w"
      by (fact disk_quiet(1) [OF quiet] disk_quiet(1) [OF new(3)] disk_quiet(2) [OF quiet])+
    have seal: "sealed D w2" using sealed quiet by (simp add: sealed_quiet)
    have "sealed D w' \<and> unmoved D w2 w'"
    proof -
      have "sealed D (w2\<lparr>inodes := inodes w2, disk := put_at (clock w2) q (Some m) (disk w2)\<rparr>)
          \<and> unmoved D w2 (w2\<lparr>inodes := inodes w2, disk := put_at (clock w2) q (Some m) (disk w2)\<rparr>)"
      proof (rule confined_put [OF seal])
        show "prefix D q \<or> prefix q D" "q \<noteq> []" "node_at (disk w2) q = None" using q assms(4) new(2) disk by auto
        show "leaf m" using link(3) by (cases m) (auto simp: leaf_def)
        show "m \<noteq> FLink t" for t using old(2) q0 assms(2) sealed by (auto simp: sealed_def apart_def)
        show "prefix D q \<and> inside D (disk w2) i \<and> i \<in> fst ` set (inodes w2)" if "m = FFile i" for i
          using that old(2) q0 q assms(2,4) seal disk by (auto simp: sealed_def)
      qed auto
      then show ?thesis using link(4) by simp
    qed
    then show ?thesis using unmoved_quiet [OF quiet seal] by blast
  qed
qed

section \<open>Extraction\<close>

lemma on_track_below:
  assumes "path_segs root = D" and "clean_abs root" and "list_all plain_seg ps"
  shows "on_track D (slash # Join (D @ ps) ''/'')" "prefix D (path_segs (slash # Join (D @ ps) ''/''))"
    "on_track D (Dir (slash # Join (D @ ps) ''/''))"
proof -
  have plain: "list_all plain_seg (D @ ps)" using assms clean_abs_segs [of root] by simp
  then have segs: "path_segs (slash # Join (D @ ps) ''/'') = D @ ps" by (rule segs_of_rooted)
  with plain show "on_track D (slash # Join (D @ ps) ''/'')" "prefix D (path_segs (slash # Join (D @ ps) ''/''))"
    by (simp_all add: on_track_def clean_of_segs)
  then have "on_track D (slash # Join (take (length (D @ ps) - 1) (D @ ps)) ''/'')" using on_track_take segs by metis
  then show "on_track D (Dir (slash # Join (D @ ps) ''/''))" using Dir_segs [OF plain] by (simp add: butlast_conv_take)
qed

lemma confined_write_body:
  assumes "on_track D p" and "prefix D (path_segs p)"
  shows "always (confined D) (bindE (open_create True p mode) (\<lambda>i. bindE (attempt (copy_body i h)) (\<lambda>r. case r of
           Inl e \<Rightarrow> bindE (attempt os_call) (\<lambda>_. throw e)
         | Inr _ \<Rightarrow> bindE os_call (\<lambda>_. Chmod p mode))) :: ('a worker_state_scheme, unit) io)"
proof (rule confinedI)
  fix w w' :: "'a worker_state_scheme" and r
  let ?tail = "\<lambda>r. case r of Inl e \<Rightarrow> bindE (attempt os_call) (\<lambda>_. throw e) | Inr _ \<Rightarrow> bindE os_call (\<lambda>_. Chmod p mode)"
  assume sealed: "sealed D w" and run: "bindE (open_create True p mode) (\<lambda>i. bindE (attempt (copy_body i h)) ?tail) w = (r, w')"
  from run consider e where "open_create True p mode w = (Inl e, w')"
    | i v x u where "open_create True p mode w = (Inr i, v)" "copy_body i h v = (x, u)" "?tail x u = (r, w')"
    by (auto elim!: bindE_cases simp: attempt_eq)
  then show "sealed D w' \<and> unmoved D w w'"
  proof cases
    case 1
    then show ?thesis using open_create_confined [OF sealed assms 1] by simp
  next
    case (2 i v x u)
    from open_create_confined [OF sealed assms 2(1)] have v: "sealed D v" "unmoved D w v" "inside D (disk v) i" by auto
    obtain y where y: "write_inode i (h_Body h) v = (y, u)"
      using 2(2) unfolding copy_body_def by (auto elim!: bindE_cases)
    from write_inode_confined [OF v(1,3) y] have u: "sealed D u" "unmoved D v u" by auto
    have "always (confined D) (?tail x :: ('a worker_state_scheme, unit) io)"
      using confined_Chmod [OF assms] by (cases x) (auto intro!: always_intro)
    then have "confined D u w'" using 2(3) by (rule alwaysD)
    then show ?thesis using u v unmoved_trans unfolding confined_def by metis
  qed
qed

text \<open>A member that is no symbolic link.\<close>

lemma confined_extract_one:
  assumes "path_segs root = D" and "clean_abs root" and "h_Typeflag h \<noteq> TypeSymlink"
  shows "always (confined D) (extract_one root h :: ('a worker_state_scheme, unit) io)"
proof -
  have safe: "always (confined D) (bindE (lift_result (safeJoin root name)) f :: ('a worker_state_scheme, unit) io)"
    if "\<And>ps. list_all plain_seg ps \<Longrightarrow> always (confined D) (f (slash # Join (D @ ps) ''/''))" for name f
  proof (rule confined.always_bind_result)
    show "always (confined D) (f x)" if "lift_result (safeJoin root name) w = (Inr x, w')" for x w w'
    proof -
      have "safeJoin root name = Inr x" using that by simp
      then obtain ps where "list_all plain_seg ps" "x = slash # Join (path_segs root @ ps) ''/''"
        using safeJoin_below assms(2) by blast
      then show ?thesis using assms(1) \<open>\<And>ps. list_all plain_seg ps \<Longrightarrow> always (confined D) (f (slash # Join (D @ ps) ''/''))\<close> by simp
    qed
  qed (intro always_intro)
  show ?thesis
    unfolding extract_one_def
  proof (rule safe)
    fix ps
    assume ps: "list_all plain_seg ps"
    let ?t = "slash # Join (D @ ps) ''/''"
    note track = on_track_below [OF assms(1,2) ps]
    have link: "always (confined D) (bindE (lift_result (safeJoin root (h_Linkname h))) (\<lambda>linkTarget.
        bindE (MkdirAll (Dir ?t)) (\<lambda>_. Link linkTarget ?t)) :: ('a worker_state_scheme, unit) io)"
      by (intro safe confined.always_bindE confined_MkdirAll track(3) confined_Link track(1,2) on_track_below [OF assms(1,2)])
    have "always (confined D) (extractMember h ?t :: ('a worker_state_scheme, unit) io)"
      using assms(3) confined.always_bindE [OF confined_MkdirAll [OF track(3)] confined_write_body [OF track(1,2)]]
        confined_MkdirAll [OF track(1)] confined.always_ret
      unfolding extractMember_def by (cases "h_Typeflag h") auto
    with link show "always (confined D) (if h_Typeflag h = TypeLink then bindE (lift_result (safeJoin root (h_Linkname h))) (\<lambda>linkTarget.
        bindE (MkdirAll (Dir ?t)) (\<lambda>_. Link linkTarget ?t)) else wrapE ''extract %s: %w'' [h_Name h] (extractMember h ?t)
        :: ('a worker_state_scheme, unit) io)"
      by (auto intro!: always_intro)
  qed
qed

lemma confined_extractTar:
  assumes "path_segs root = D" and "clean_abs root" and "list_all (\<lambda>h. h_Typeflag h \<noteq> TypeSymlink) (members a)"
  shows "always (confined D) (extractTar a root :: ('a worker_state_scheme, unit) io)"
proof -
  have "always (confined D) (forE hs (extract_one root) :: ('a worker_state_scheme, unit) io)"
    if "list_all (\<lambda>h. h_Typeflag h \<noteq> TypeSymlink) hs" for hs
    using that confined_extract_one [OF assms(1,2)] by (induction hs) (auto intro!: confined.always_ret confined.always_bindE)
  with assms(3) show ?thesis unfolding extractTar_def by (intro confined.always_bindE confined.always_guard)
qed

section \<open>Staging\<close>

lemma Clean_clean_abs: "IsAbs p \<Longrightarrow> clean_abs (Clean p) \<and> path_segs (Clean p) = path_segs p"
  using path_segs_rooted_plain [of p] clean_of_segs [of "path_segs p"] segs_of_rooted [of "path_segs p"]
  by (simp add: Clean_def list_all_iff)

lemma last_four:
  assumes "4 < length segs"
  shows "\<exists>pre. segs = pre @ [from_end segs 4, from_end segs 3, from_end segs 2, from_end segs 1] \<and> pre \<noteq> []"
proof -
  have "drop (length segs - 4) segs = [from_end segs 4, from_end segs 3, from_end segs 2, from_end segs 1]"
    using assms by (auto simp: list_eq_iff_nth_eq from_end_def less_Suc_eq numeral_eq_Suc intro!: arg_cong [of _ _ "(!) segs"])
  then show ?thesis
    using assms by (intro exI [of _ "take (length segs - 4) segs"]) (metis append_take_drop_id length_greater_0_conv length_take min_less_iff_conj zero_less_diff order.strict_trans zero_less_numeral)
qed

lemma resolveWorkerWorkDir_shape:
  assumes "resolveWorkerWorkDir p w = (Inr dir, w')"
  shows "w' = w \<and> clean_abs dir \<and> (\<exists>pre run. path_segs dir = pre @ [''.vci'', ''state'', ''work'', run] \<and> ValidRunID run)"
proof -
  from assms obtain ex where ex: "IsAbs ex" "dir = Clean ex" "w' = w"
    and len: "5 \<le> length (Split slash (Clean ex))"
    and shape: "from_end (Split slash (Clean ex)) 2 = ''work''" "from_end (Split slash (Clean ex)) 3 = ''state''"
      "from_end (Split slash (Clean ex)) 4 = ''.vci''" "ValidRunID (from_end (Split slash (Clean ex)) 1)"
    unfolding resolveWorkerWorkDir_def expandWorkerPath_def UserHomeDir_def Let_def
    by (auto elim!: bindE_cases split: if_splits option.splits)
  have "Split slash (Clean ex) = [] # path_segs ex"
    using len Split_clean [OF ex(1)] ex(1) by (cases "path_segs ex = []") (auto simp: Clean_def)
  with last_four [of "Split slash (Clean ex)"] len shape
  obtain pre where "[] # path_segs ex = pre @ [''.vci'', ''state'', ''work'', from_end (Split slash (Clean ex)) 1]" "pre \<noteq> []"
    by auto
  then have "path_segs ex = tl pre @ [''.vci'', ''state'', ''work'', from_end (Split slash (Clean ex)) 1]" by (cases pre) auto
  then have "\<exists>pre run. path_segs dir = pre @ [''.vci'', ''state'', ''work'', run] \<and> ValidRunID run"
    using Clean_clean_abs [OF ex(1)] ex(2) shape(4) by auto
  with Clean_clean_abs [OF ex(1)] ex show ?thesis by simp
qed

text \<open>No symbolic link on the way to the directory, and every file has its inode.\<close>

definition clear_way :: "string list \<Rightarrow> 'a fs_state_scheme \<Rightarrow> bool" where
  "clear_way D w \<longleftrightarrow> (\<forall>q t. strict_prefix q D \<longrightarrow> node_at (disk w) q \<noteq> Some (FLink t))
     \<and> (\<forall>q i. node_at (disk w) q = Some (FFile i) \<longrightarrow> i \<in> fst ` set (inodes w))"

lemma sealed_when_gone:
  assumes "clear_way D w" and "node_at (disk w) D = None"
  shows "sealed D w"
proof -
  have "\<not> prefix D q" if "node_at (disk w) q = Some m" for q m
    using that assms(2) by (auto simp: prefix_def node_at_append)
  then show ?thesis using assms(1) unfolding sealed_def clear_way_def apart_def by (metis prefix_order.less_le option.distinct(1) assms(2))
qed

lemma RemoveAll_seals:
  assumes "clear_way (path_segs dir) w" and "clean_abs dir" and "RemoveAll dir w = (r, w')"
  shows "unmoved (path_segs dir) w w' \<and> (r = Inr () \<longrightarrow> sealed (path_segs dir) w')"
proof -
  let ?D = "path_segs dir"
  have plain: "list_all plain_seg ?D" using assms(2) clean_abs_segs by blast
  have loc: "q = ?D" if "locate False dir w = Inr q" for q
    using resolve_straight [of "disk w" False 40 "[]" ?D q] that assms(1,2) plain
    by (simp add: locate_segs clear_way_def strict_prefix_def)
  from assms(3) consider (stay) x where "at_path False dir w = (x, w')" "r \<noteq> Inr ()"
    | (none) "at_path False dir w = (Inl ENotExist, w')"
    | (empty) q where "at_path False dir w = (Inr (q, None), w')"
    | (gone) q n v where "at_path False dir w = (Inr (q, Some n), v)" "q \<noteq> []"
        "w' = v\<lparr>disk := put_at (clock v) q None (disk v)\<rparr>"
    unfolding RemoveAll_def set_disk_def
    by (auto elim!: bindE_cases simp: attempt_eq IsNotExist_iff split: sum.splits if_splits)
  moreover have kept: "unmoved ?D w w' \<and> sealed ?D w'" if "quiet w w'" "node_at (disk w) ?D = None"
    using sealed_when_gone [OF assms(1) that(2)] same_unmoved that(1) by blast
  ultimately show ?thesis
  proof cases
    case stay
    then have "quiet w w'" using quiet_at_path by (blast dest: alwaysD)
    then show ?thesis using stay(2) by (simp add: unmoved_def disk_quiet the_inode_def)
  next
    case none
    have "node_at (disk w) ?D = None"
      using resolve_missing [of "disk w" False 40 "[]" ?D] at_path_missing [OF none] assms(1,2) plain
      by (simp add: locate_segs clear_way_def strict_prefix_def)
    then show ?thesis using kept alwaysD [OF quiet_at_path none] by blast
  next
    case (empty q)
    then show ?thesis using kept at_path_Inr [OF empty] loc by auto
  next
    case (gone q n v)
    from at_path_Inr [OF gone(1)] have v: "quiet w v" "q = ?D" "node_at (disk w) q = Some n" using loc by auto
    obtain p k where pk: "?D = p @ [k]" using gone(2) v(2) by (metis rev_exhaust)
    then obtain t es where dir: "node_at (disk w) p = Some (FDir t es)" using v node_at_dirs [of "disk w" p k "[]"] by auto
    let ?n = "put_at (clock v) ?D None (disk w)"
    have w': "disk w' = ?n" "inodes w' = inodes w" using gone(3) v by (simp_all add: disk_quiet)
    have none: "node_at ?n ?D = None" using put_at_node [OF dir, of "clock v" k None "[]"] pk by simp
    have other: "node_at ?n q = node_at (disk w) q" if "apart ?D q" for q
      using put_at_other [OF dir, of k q "clock v" None] that pk by (auto simp: apart_def)
    have same: "node_at (disk w) q = Some m" if "node_at ?n q = Some m" "shape m = m" "m \<noteq> FDir 0 []" for q m
    proof -
      have "\<not> prefix ?D q" using that(1) none by (auto simp: prefix_def node_at_append)
      with put_at_other [OF dir, of k q "clock v" None] that(1,2) pk have "Some m = map_option shape (node_at (disk w) q)"
        by (auto simp: shape_at_def)
      then obtain m0 where "node_at (disk w) q = Some m0" "shape m0 = m" by (cases "node_at (disk w) q") auto
      with that(3) show ?thesis by (cases m0) auto
    qed
    have "clear_way ?D w'" using assms(1) w' same unfolding clear_way_def by fastforce
    then have "sealed ?D w'" using none w' by (intro sealed_when_gone) auto
    moreover have "unmoved ?D w w'" using other w' by (simp add: unmoved_def the_inode_def)
    ultimately show ?thesis by blast
  qed
qed

text \<open>
  C6: Staging an archive without symbolic links, when no symbolic link lies on the way to the work
  directory, changes nothing on the worker outside that directory and the directories that lead to
  it: neither which files and directories exist elsewhere nor the content, mode or time of any file,
  whatever the member names are and whatever fails. The directory is always one of the form
  \<open>.../.vci/state/work/<run>\<close> for a valid run.
\<close>

theorem stage_confined:
  assumes "resolveWorkerWorkDir workDir w = (Inr dir, v)" and "clear_way (path_segs dir) w"
    and "list_all (\<lambda>h. h_Typeflag h \<noteq> TypeSymlink) (members a)"
    and "internalStage workDir (Some a) w = (r, w')"
  shows "unmoved (path_segs dir) w w'
    \<and> (\<exists>pre run. path_segs dir = pre @ [''.vci'', ''state'', ''work'', run] \<and> ValidRunID run)"
proof -
  let ?D = "path_segs dir"
  note shape = resolveWorkerWorkDir_shape [OF assms(1)]
  let ?tail = "bindE (wrapE ''create %s: %w'' [dir] (MkdirAll dir)) (\<lambda>_. wrapE ''extract staged workspace: %w'' [] (extractTar a dir))"
  have "bindE (wrapE ''clear %s: %w'' [dir] (RemoveAll dir)) (\<lambda>_. ?tail) w = (r, w')"
    using assms(4) shape assms(1) by (simp add: internalStage_def bind_eval [of "resolveWorkerWorkDir workDir"])
  then consider (stuck) s where "RemoveAll dir w = (Inl s, w')"
    | (cleared) u where "RemoveAll dir w = (Inr (), u)" "?tail u = (r, w')"
    by (rule bindE_cases) (auto simp: wrapE_def split: prod.splits sum.splits)
  then have "unmoved ?D w w'"
  proof cases
    case stuck
    then show ?thesis using RemoveAll_seals [OF assms(2)] shape by blast
  next
    case (cleared u)
    from RemoveAll_seals [OF assms(2) _ cleared(1)] shape have u: "unmoved ?D w u" "sealed ?D u" by auto
    have "on_track ?D dir" using shape by (simp add: on_track_def)
    then have "always (confined ?D) (bindE (wrapE ''create %s: %w'' [dir] (MkdirAll dir))
        (\<lambda>_. wrapE ''extract staged workspace: %w'' [] (extractTar a dir)) :: ('a worker_state_scheme, unit) io)"
      using confined_MkdirAll confined_extractTar [OF refl _ assms(3)] shape
      by (intro confined.always_bindE confined.always_wrapE) auto
    then have "confined ?D u w'" using cleared(2) by (rule alwaysD)
    then show ?thesis using u unmoved_trans unfolding confined_def by blast
  qed
  with shape show ?thesis by blast
qed

end
