(* ===== verification/Vci_Protocol.thy ===== *)
theory Vci_Protocol
  imports Vci_Time Vci_Confined Vci_Reaper
begin

text \<open>
  The coordinator and the worker together: what \<open>host/ssh.go\<close> sends is what \<open>cli/internal.go\<close> reads.
  The remote command goes through a login shell that expands a leading tilde to the worker's home;
  the words sent here hold nothing else a shell would change.
\<close>

section \<open>The worker behind ssh\<close>

definition expand_tilde :: "string \<Rightarrow> string \<Rightarrow> string" where
  "expand_tilde h word = (if HasPrefix word ''~/'' then h @ drop 1 word else word)"

definition worker_ssh :: "'a worker_state_scheme runner \<Rightarrow> (string \<Rightarrow> archive) \<Rightarrow> string \<Rightarrow> 'a worker_state_scheme runner" where
  "worker_ssh git untar h c w = (case Args c of
       host # vci # name # args \<Rightarrow>
         (case runInternalCommand git untar name (map (expand_tilde h) args) None w of
            ((code, out, msg), w') \<Rightarrow>
              (\<lparr>ExitCode = code, RunErr = (if code = 0 then None else Some (EOs ''exit status'')),
                 Output = out, ErrOutput = msg, CtxErr = None\<rparr>, w'))
     | _ \<Rightarrow> (\<lparr>ExitCode = 127, RunErr = Some (EOs ''exit status''), Output = [], ErrOutput = [], CtxErr = None\<rparr>, w))"

section \<open>The printed counts\<close>

lemma digits_then: "list_all is_digit ds \<Longrightarrow> \<not> is_digit c \<Longrightarrow>
    takeWhile is_digit (ds @ c # r) = ds \<and> dropWhile is_digit (ds @ c # r) = c # r"
  by (induction ds) auto

lemma itoa_digits: "0 \<le> i \<Longrightarrow> list_all is_digit (itoa i) \<and> itoa i \<noteq> []"
  using nat_text_value [of "nat i"] by (simp add: itoa_def)

lemma parse_counts:
  assumes "0 \<le> s" "s < 2 ^ 63" "0 \<le> e" "e < 2 ^ 63"
  shows "parseReapOutput (''stale='' @ itoa s @ '' evicted='' @ itoa e @ [CHR 0x0A]) = Inr \<lparr>Stale = s, Evicted = e\<rparr>"
proof -
  have sp: "\<not> is_digit (CHR '' '')" "\<not> is_digit (CHR 0x0A)" by (simp_all add: is_digit_def)
  have "reap_line_at (''stale='' @ itoa s @ '' evicted='' @ itoa e @ [CHR 0x0A]) = Some (itoa s, itoa e)"
    using digits_then [of "itoa s" "CHR '' ''" "''evicted='' @ itoa e @ [CHR 0x0A]"] digits_then [of "itoa e" "CHR 0x0A" "[]"]
      itoa_digits assms sp
    by (simp add: reap_line_at_def HasPrefix_def Let_def)
  then have "reapOutputRe (''stale='' @ itoa s @ '' evicted='' @ itoa e @ [CHR 0x0A]) = Some (itoa s, itoa e)" by simp
  then show ?thesis using assms by (simp add: parseReapOutput_def Atoi_itoa)
qed

lemma parse_count_itoa: "0 \<le> i \<Longrightarrow> i < 2 ^ 63 \<Longrightarrow> parse_count what (itoa i) = Inr i"
  by (simp add: parse_count_def Atoi_itoa)

section \<open>The paths\<close>

lemma validCacheSegment_plain: "validCacheSegment s \<Longrightarrow> plain_seg s \<and> \<not> has_control s"
proof -
  assume valid: "validCacheSegment s"
  have "r \<notin> set (runes s)" if "r < 45" for r
    using valid that by (auto simp: validCacheSegment_def list_all_iff)
  moreover have "127 \<notin> set (runes s)" using valid by (auto simp: validCacheSegment_def list_all_iff)
  ultimately have "\<not> has_control s" by (auto simp: has_control_def control_rune_def list_ex_iff)
  moreover have "slash \<notin> set s" using valid by (auto simp: validCacheSegment_def ContainsAny_def list_ex_iff)
  ultimately show ?thesis using valid by (auto simp: validCacheSegment_def plain_seg_def)
qed

definition cache_path :: "string \<Rightarrow> string \<Rightarrow> string" where
  "cache_path h project = h @ ''/.vci/state/bundle-cache/v1/'' @ project"

lemma Join_cat: "xs \<noteq> [] \<Longrightarrow> ys \<noteq> [] \<Longrightarrow> Join (xs @ ys) [c] = Join xs [c] @ c # Join ys [c]"
  by (induction xs "[c]" rule: Join.induct) (auto simp: neq_Nil_conv)

lemma cache_path_segs:
  assumes "clean_abs h" and "h \<noteq> ''/''" and "plain_seg project"
  defines "P \<equiv> cache_path h project"
  shows "P = slash # Join (path_segs h @ [''.vci'', ''state'', ''bundle-cache'', ''v1'', project]) ''/''"
    and "clean_abs P" and "Split slash P = [] # path_segs h @ [''.vci'', ''state'', ''bundle-cache'', ''v1'', project]"
proof -
  have h: "slash # Join (path_segs h) ''/'' = h" "list_all plain_seg (path_segs h)" using clean_abs_segs [OF assms(1)] by auto
  then have ne: "path_segs h \<noteq> []" using assms(2) by (metis Join.simps(1))
  have plain: "list_all plain_seg (path_segs h @ [''.vci'', ''state'', ''bundle-cache'', ''v1'', project])"
    using h(2) assms(3) by (simp add: plain_seg_def)
  show P: "P = slash # Join (path_segs h @ [''.vci'', ''state'', ''bundle-cache'', ''v1'', project]) ''/''"
    using Join_cat [OF ne, of "[''.vci'', ''state'', ''bundle-cache'', ''v1'', project]" slash] h(1)
    by (simp add: P_def cache_path_def) 
  show clean: "clean_abs P" unfolding P by (rule clean_of_segs [OF plain])
  show "Split slash P = [] # path_segs h @ [''.vci'', ''state'', ''bundle-cache'', ''v1'', project]"
  proof -
    have "Split slash (Join (path_segs h @ [''.vci'', ''state'', ''bundle-cache'', ''v1'', project]) ''/'')
        = path_segs h @ [''.vci'', ''state'', ''bundle-cache'', ''v1'', project]"
      (is "Split slash (Join ?ss _) = _")
    proof (rule Split_Join)
      show "slash \<notin> set s" if "s \<in> set ?ss" for s
        using plain that unfolding list_all_iff plain_seg_def by blast
    qed simp
    then show ?thesis unfolding P by (simp only: Split_rooted)
  qed
qed

lemma has_control_append: "has_control (a @ b) \<longleftrightarrow> has_control a \<or> has_control b"
  by (auto simp: has_control_iff)

text \<open>The worker accepts the project directory the coordinator names.\<close>

lemma project_dir_accepted:
  assumes "clean_abs h" and "h \<noteq> ''/''" and "\<not> has_control h" and "validCacheSegment project"
  shows "resolveWorkerCacheProjectDir (cache_path h project) w = (Inr (cache_path h project), w)"
proof -
  let ?P = "cache_path h project"
  note plain = validCacheSegment_plain [OF assms(4)]
  note segs = cache_path_segs [OF assms(1,2) plain [THEN conjunct1]]
  have "\<not> has_control ''/.vci/state/bundle-cache/v1/''" by code_simp
  then have "\<not> has_control ?P" using assms(3) plain unfolding cache_path_def has_control_append by blast
  moreover have "?P \<noteq> []" "\<not> HasPrefix ?P ''-''" "\<not> HasPrefix ?P ''~/''" "?P \<noteq> ''~''" "IsAbs ?P"
    using segs(1) by (simp_all add: HasPrefix_def IsAbs_def)
  moreover have "Clean ?P = ?P" using segs(2) by (simp add: clean_abs_def)
  ultimately show ?thesis
    using segs(3) assms(4) unfolding resolveWorkerCacheProjectDir_def expandWorkerPath_def safePathPrefix_def Let_def
    by (simp add: io_eval lift_bind guard_bind ensure_def from_end_def nth_append numeral_eq_Suc)
qed

lemma expand_tilde_other: "s = c # cs \<Longrightarrow> c \<noteq> CHR ''~'' \<Longrightarrow> expand_tilde h s = s"
  by (simp add: expand_tilde_def HasPrefix_def)

lemma itoa_hd: "\<exists>c cs. itoa i = c # cs \<and> c \<noteq> CHR ''~''"
  using nat_text_hd [of "nat i"] by (auto simp: itoa_def is_digit_def)

lemma expand_tilde_itoa: "expand_tilde h (itoa i) = itoa i"
  using itoa_hd [of i] by (auto intro: expand_tilde_other)

lemma expand_tilde_rfc3339: "expand_tilde h (rfc3339 t) = rfc3339 t"
proof -
  have pad: "\<exists>c cs. pad n i = c # cs \<and> c \<noteq> CHR ''~''" for n i
    using itoa_hd [of i] by (cases "n - length (itoa i)") (auto simp: pad_def Let_def)
  obtain y s where "rfc3339 t = pad 4 y @ s" by (simp add: rfc3339_def Let_def)
  with pad [of 4 y] show ?thesis by (auto intro: expand_tilde_other)
qed

section \<open>Maintenance of the cache\<close>

text \<open>
  C10: The coordinator's maintenance of a worker's cache, through ssh and the worker's command line, is
  the worker's own pass: the command it composes is accepted for every valid project, carries the
  limits of the policy and the cutoff to the second, and the counts the worker prints are the counts
  the coordinator returns; a failed pass is reported as a remote exit.
\<close>

theorem reap_protocol:
  assumes "ValidateHost host = Inr ()" and "validCacheSegment project"
    and "clean_abs h" and "h \<noteq> ''/''" and "\<not> has_control h"
    and "now \<noteq> 0" and "four_digit_year (now - bundleCachePartialTTL)"
    and "0 \<le> MaxEntries pol" "MaxEntries pol < 2 ^ 63" "0 \<le> MaxCacheBytes pol" "MaxCacheBytes pol < 2 ^ 63"
    and "internalReapCache (cache_path h project) (cache_path h project @ ''/.vci-reap'')
      (cache_path h project @ ''/.vci-reap/partial'') (cache_path h project @ ''/.vci-reap/claim'')
      ((now - bundleCachePartialTTL) div second * second) ((now - bundleCacheClaimTTL) div second * second)
      (MaxEntries pol) (MaxCacheBytes pol) w = (r, w')"
    and "\<And>stale evicted. r = Inr (stale, evicted) \<Longrightarrow> 0 \<le> stale \<and> stale < 2 ^ 63 \<and> 0 \<le> evicted \<and> evicted < 2 ^ 63"
  shows "ReapBundleCache (Some (worker_ssh git untar h)) host workerCacheRoot project pol now w =
      ((case r of Inr (stale, evicted) \<Rightarrow> Inr \<lparr>Stale = stale, Evicted = evicted\<rparr>
        | Inl e \<Rightarrow> Inl (Errf ''reap cache %s: remote exit %d'' [host, itoa 1])), w')
    \<and> resolveWorkerCacheProjectDir (cache_path h project) w = (Inr (cache_path h project), w)"
proof -
  let ?P = "cache_path h project"
  let ?root = "''~/.vci/state/bundle-cache/v1/'' @ project"
  have dir: "cacheProjectDir workerCacheRoot project = Inr ?root"
    using assms(2) by (simp add: cacheProjectDir_def workerCacheRoot_def validateCacheSegment_def ensure_def cacheLayoutVersion_def)
  have words: "map (expand_tilde h) [?root, ?root @ ''/.vci-reap'', ?root @ ''/.vci-reap/partial'', ?root @ ''/.vci-reap/claim'']
      = [?P, ?P @ ''/.vci-reap'', ?P @ ''/.vci-reap/partial'', ?P @ ''/.vci-reap/claim'']"
    by (simp add: expand_tilde_def HasPrefix_def cache_path_def)
  let ?cut = "(now - bundleCachePartialTTL) div second * second"
  have ttl: "bundleCacheClaimTTL = bundleCachePartialTTL" by (simp add: bundleCacheClaimTTL_def bundleCachePartialTTL_def)
  have cut: "parse_rfc3339 (rfc3339 (now - bundleCachePartialTTL)) = Some ?cut" using parse_rfc3339_rfc3339 assms(7) .
  have run: "runInternal git untar ''internal-reap-cache'' (map (expand_tilde h)
      [?root, ?root @ ''/.vci-reap'', ?root @ ''/.vci-reap/partial'', ?root @ ''/.vci-reap/claim'',
       rfc3339 (now - bundleCachePartialTTL), rfc3339 (now - bundleCachePartialTTL), itoa (MaxEntries pol), itoa (MaxCacheBytes pol)]) None w
    = (case r of Inl e \<Rightarrow> Inl e | Inr (stale, evicted) \<Rightarrow> Inr (0, ''stale='' @ itoa stale @ '' evicted='' @ itoa evicted @ [CHR 0x0A]), w')"
    using words assms(8-12) cut ttl
    by (auto simp: runInternal_def run_reap_def expand_tilde_itoa expand_tilde_rfc3339 lift_bind parse_count_itoa io_eval
        split: sum.split prod.split)
  have sent: "worker_ssh git untar h \<lparr>Executable = ''ssh'', Args = [host, ''vci'', ''internal-reap-cache'', ?root, ?root @ ''/.vci-reap'',
      ?root @ ''/.vci-reap/partial'', ?root @ ''/.vci-reap/claim'', rfc3339 (now - bundleCachePartialTTL),
      rfc3339 (now - bundleCachePartialTTL), itoa (MaxEntries pol), itoa (MaxCacheBytes pol)], Stdin = None\<rparr> w =
    (case r of
       Inl e \<Rightarrow> \<lparr>ExitCode = 1, RunErr = Some (EOs ''exit status''), Output = [],
         ErrOutput = ''vci internal-reap-cache: '' @ err_text e @ [CHR 0x0A], CtxErr = None\<rparr>
     | Inr (stale, evicted) \<Rightarrow> \<lparr>ExitCode = 0, RunErr = None,
         Output = ''stale='' @ itoa stale @ '' evicted='' @ itoa evicted @ [CHR 0x0A], ErrOutput = [], CtxErr = None\<rparr>, w')"
    unfolding worker_ssh_def runInternalCommand_def using run by (simp split: sum.split prod.split)
  have "ReapBundleCache (Some (worker_ssh git untar h)) host workerCacheRoot project pol now w =
      ((case r of Inr (stale, evicted) \<Rightarrow> Inr \<lparr>Stale = stale, Evicted = evicted\<rparr>
        | Inl e \<Rightarrow> Inl (Errf ''reap cache %s: remote exit %d'' [host, itoa 1])), w')"
    using assms(1,6,13) dir sent parse_counts
    unfolding ReapBundleCache_def need_runner_def exec_def ttl remote_exit_def
    by (cases r) (auto simp: lift_bind io_eval Let_def)
  then show ?thesis using project_dir_accepted [OF assms(3-5,2)] by blast
qed

end
