(* ===== verification/Vci_Worker_Examples.thy ===== *)
theory Vci_Worker_Examples
  imports Vci_Protocol
begin

text \<open>
  The properties of the worker commands at concrete file systems, and two archives and trees on which
  the commands do less than their comments say.
\<close>

section \<open>A worker\<close>

definition example_worker :: worker_state where
  "example_worker = \<lparr>faults = [], clock = 5, entropy = [], windows = False,
     disk = FDir 0 [(''home'', FDir 0 [(''u'', FDir 0 [(''seed'', FDir 0
         [(''.vci'', FFile 2), (''main.go'', FFile 3)])])]), (''etc'', FDir 0 [(''x'', FFile 1)])],
     inodes = [(1, \<lparr>i_data = ''old'', i_mode = 420, i_mtime = 0\<rparr>), (2, \<lparr>i_data = ''note'', i_mode = 420, i_mtime = 0\<rparr>),
       (3, \<lparr>i_data = ''code'', i_mode = 420, i_mtime = 0\<rparr>)],
     cwd = [], home = Some ''/home/u''\<rparr>"

definition file_member :: "string \<Rightarrow> string \<Rightarrow> tar_member" where
  "file_member name body = \<lparr>h_Name = name, h_Typeflag = TypeReg, h_Linkname = [], h_Mode = 420, h_Body = body, h_BodyOK = True\<rparr>"

definition example_archive :: archive where
  "example_archive = \<lparr>members = [file_member ''src/a'' ''hello''], well_ended = True\<rparr>"

definition hostile_archive :: archive where
  "hostile_archive = \<lparr>members = [\<lparr>h_Name = ''a'', h_Typeflag = TypeSymlink, h_Linkname = ''/etc'', h_Mode = 511, h_Body = [], h_BodyOK = True\<rparr>,
     file_member ''a/x'' ''evil''], well_ended = True\<rparr>"

lemma staged: "fst (bindE (internalStage ''~/.vci/state/work/run_1'' (Some example_archive))
    (\<lambda>_. ReadFile ''/home/u/.vci/state/work/run_1/src/a'') example_worker) = Inr ''hello''"
  by code_simp

text \<open>
  A member name is checked, but a symbolic link that an earlier member left is followed: this archive
  writes outside the work directory.
\<close>

lemma stage_symlink_escapes:
  "fst (bindE (internalStage ''~/.vci/state/work/run_1'' (Some hostile_archive)) (\<lambda>_. ReadFile ''/etc/x'') example_worker) = Inr ''evil''"
  by code_simp

text \<open>
  A seed with a file named \<open>.vci\<close>: the visitor answers \<open>SkipDir\<close> for it, and every entry after it is
  left out of the copy, without an error.
\<close>

lemma seed_file_hides_tree:
  "fst (bindE (copyTree ''/home/u/seed'' ''/home/u/w'') (\<lambda>_. attempt (ReadFile ''/home/u/w/main.go'')) example_worker) = Inr (Inl ENotExist)"
  by code_simp

section \<open>Witnesses\<close>

fun every_node :: "(fnode \<Rightarrow> bool) \<Rightarrow> fnode \<Rightarrow> bool" where
  "every_node P (FDir t es) \<longleftrightarrow> P (FDir t es) \<and> (\<forall>(k, c) \<in> set es. every_node P c)"
| "every_node P n \<longleftrightarrow> P n"

lemma every_node_at: "every_node P n \<Longrightarrow> node_at n q = Some m \<Longrightarrow> P m"
proof (induction n q rule: node_at.induct)
  case (1 n)
  then show ?case by (cases n) auto
qed (auto split: option.splits dest!: map_of_SomeD)

lemma example_clear: "clear_way D example_worker"
proof -
  have "every_node (\<lambda>n. case n of FLink t \<Rightarrow> False | FFile i \<Rightarrow> i \<in> {1, 2, 3} | _ \<Rightarrow> True) (disk example_worker)"
    by (simp add: example_worker_def)
  from every_node_at [OF this] show ?thesis by (fastforce simp: clear_way_def example_worker_def split: fnode.splits)
qed

lemma stage_confined_witness:
  "unmoved [''home'', ''u'', ''.vci'', ''state'', ''work'', ''run_1''] example_worker
     (snd (internalStage ''~/.vci/state/work/run_1'' (Some example_archive) example_worker))"
proof -
  have dir: "fst (resolveWorkerWorkDir ''~/.vci/state/work/run_1'' example_worker) = Inr ''/home/u/.vci/state/work/run_1''"
    by code_simp
  have segs: "path_segs ''/home/u/.vci/state/work/run_1'' = [''home'', ''u'', ''.vci'', ''state'', ''work'', ''run_1'']"
    by code_simp
  have "list_all (\<lambda>h. h_Typeflag h \<noteq> TypeSymlink) (members example_archive)"
    by (simp add: example_archive_def file_member_def)
  from stage_confined [of _ example_worker _ "snd (resolveWorkerWorkDir ''~/.vci/state/work/run_1'' example_worker)",
      OF _ example_clear this prod.collapse [symmetric]] dir segs
  show ?thesis by (metis prod.collapse)
qed

text \<open>A project directory with two complete entries, one of them to be evicted.\<close>

definition example_cache_worker :: worker_state where
  "example_cache_worker = example_worker\<lparr>disk := FDir 0 [(''p'', FDir 0 [(''a'', FDir 0 [(''complete'', FFile 1)]), (''b'', FDir 0 [(''complete'', FFile 1)])])]\<rparr>"

lemma evictLRU_terminates_witness:
  "\<exists>r. \<forall>k > entry_count ''/p'' example_cache_worker. evict_rounds k ''/p'' 1 0 0 example_cache_worker = Some r"
proof (rule evictLRU_terminates)
  show "clean_abs ''/p''" unfolding clean_abs_def by code_simp
  show "wf_disk (disk example_cache_worker)" by (simp add: example_cache_worker_def plain_seg_def)
qed

section \<open>The maintenance pass\<close>

definition example_policy :: bundle_cache_policy where
  "example_policy = \<lparr>MaxEntries = 4, MaxCacheBytes = 0, AdmissionBytes = 0\<rparr>"

text \<open>The directory of the project is there, with one incomplete entry of the year 1970.\<close>

definition stale_worker :: worker_state where
  "stale_worker = example_worker\<lparr>clock := 10 ^ 18,
     disk := FDir 0 [(''h'', FDir 0 [(''.vci'', FDir 0 [(''state'', FDir 0 [(''bundle-cache'', FDir 0 [(''v1'', FDir 0
       [(''p'', FDir 0 [(''e'', FDir 0 [])])])])])])])]\<rparr>"

lemma stale_reaped:
  "fst (internalReapCache ''/h/.vci/state/bundle-cache/v1/p'' ''/h/.vci/state/bundle-cache/v1/p/.vci-reap''
     ''/h/.vci/state/bundle-cache/v1/p/.vci-reap/partial'' ''/h/.vci/state/bundle-cache/v1/p/.vci-reap/claim''
     999998200000000000 999998200000000000 4 0 stale_worker) = Inr (1, 0)"
  by code_simp

lemma reap_protocol_witness:
  "fst (ReapBundleCache (Some (worker_ssh (\<lambda>c w. (\<lparr>ExitCode = 0, RunErr = None, Output = [], ErrOutput = [], CtxErr = None\<rparr>, w))
     (\<lambda>_. example_archive) ''/h'')) ''w'' workerCacheRoot ''p'' example_policy (10 ^ 18) stale_worker) = Inr \<lparr>Stale = 1, Evicted = 0\<rparr>"
proof -
  let ?p = "''/h/.vci/state/bundle-cache/v1/p''"
  let ?r = "internalReapCache ?p (?p @ ''/.vci-reap'') (?p @ ''/.vci-reap/partial'') (?p @ ''/.vci-reap/claim'')
    999998200000000000 999998200000000000 4 0 stale_worker"
  have path: "cache_path ''/h'' ''p'' = ?p" by (simp add: cache_path_def)
  have r: "fst ?r = Inr (1, 0)" using stale_reaped by simp
  have year: "four_digit_year (10 ^ 18 - bundleCachePartialTTL)"
    by (simp add: four_digit_year_def year_start_def bundleCachePartialTTL_def)
  have host: "ValidateHost ''w'' = Inr ()"
    by (simp add: ValidateHost_def ValidateMachineHost_def ensure_def runes_def space_or_control_def IsSpace_def control_rune_def HasPrefix_def)
  have project: "validCacheSegment ''p''" by code_simp
  have home: "clean_abs ''/h''" "\<not> has_control ''/h''" unfolding clean_abs_def by code_simp+
  have cut: "(10 ^ 18 - bundleCachePartialTTL) div second * second = 999998200000000000"
    "(10 ^ 18 - bundleCacheClaimTTL) div second * second = 999998200000000000"
    by (simp_all add: bundleCachePartialTTL_def bundleCacheClaimTTL_def)
  have policy: "MaxEntries example_policy = 4" "MaxCacheBytes example_policy = 0" by (simp_all add: example_policy_def)
  show ?thesis
    using reap_protocol [OF host project home(1) _ home(2) _ year, where pol = example_policy and r = "fst ?r" and w' = "snd ?r" and w = stale_worker,
        unfolded path cut policy] r by simp
qed

text \<open>
  A session of \<open>cmd.exe\<close> does not expand the tilde. The project directory is then resolved but the
  reference paths are compared as they came, and the pass is always refused.
\<close>

lemma tilde_not_expanded:
  "fst (internalReapCache ''~/.vci/state/bundle-cache/v1/p'' ''~/.vci/state/bundle-cache/v1/p/.vci-reap''
     ''~/.vci/state/bundle-cache/v1/p/.vci-reap/partial'' ''~/.vci/state/bundle-cache/v1/p/.vci-reap/claim''
     999998200000000000 999998200000000000 4 0 stale_worker) = Inl (Errf ''reap reference paths do not derive from the project dir'' [])"
  by code_simp

section \<open>Unreadable metadata\<close>

text \<open>
  An entry without metadata that is first in the directory stays the candidate whatever comes after
  it: it is evicted before an older entry.
\<close>

definition no_meta_worker :: worker_state where
  "no_meta_worker = example_worker\<lparr>
     disk := FDir 0 [(''p'', FDir 0 [(''a'', FDir 0 [(''complete'', FFile 1)]), (''b'', FDir 0 [(''complete'', FFile 1), (''meta.json'', FFile 4)])])],
     inodes := (4, \<lparr>i_data = [CHR ''{'', CHR ''}''], i_mode = 420, i_mtime = 1\<rparr>) # inodes example_worker\<rparr>"

lemma no_meta_evicted_first:
  "fst (bindE (evictLRU ''/p'' 1 0) (\<lambda>n. bindE (hasComplete ''/p/a'') (\<lambda>a. bindE (hasComplete ''/p/b'') (\<lambda>b. ret (n, a, b)))) no_meta_worker)
    = Inr (1, False, True)"
  by code_simp

end
