(* ===== verification/Vci_Source.thy ===== *)
theory Vci_Source
  imports Vci_Reconstruct Vci_Glob
begin

text \<open>
  \<open>internal/source\<close>: the Git identity of a checkout (\<open>identity.go\<close>), the choice and the validation of
  the files a build consists of (\<open>select.go\<close>, \<open>submodule.go\<close>) and the pruning of excluded paths
  (\<open>exclusions.go\<close>). The file system is that of \<open>Vci_Fs\<close>; Git is the process runner, a parameter that
  may read and change it. A Go map that is ranged over is the list of its keys in the order the
  iteration takes.
\<close>

section \<open>Paths and strings\<close>

definition Abs :: "string \<Rightarrow> ('a fs_state_scheme, string) io" where
  "Abs p = (if IsAbs p then ret (Clean p)
     else bindE os_call (\<lambda>_. bindE (asks cwd) (\<lambda>d. ret (FJoin [slash # Join d ''/'', p]))))"

definition SplitN :: "char \<Rightarrow> nat \<Rightarrow> string \<Rightarrow> string list" where
  "SplitN c n s = (let ps = Split c s in
     if length ps \<le> n then ps else take (n - 1) ps @ [Join (drop (n - 1) ps) [c]])"

text \<open>The error a \<open>%w\<close> or \<open>%v\<close> verb prints when there is none.\<close>

definition opt_err :: "err option \<Rightarrow> err" where
  "opt_err e = (case e of Some e \<Rightarrow> e | None \<Rightarrow> EOs ''%!w(<nil>)'')"

abbreviation nul :: char where "nul \<equiv> CHR 0x00"
abbreviation nl :: char where "nl \<equiv> CHR 0x0A"

definition git :: "'s runner \<Rightarrow> string \<Rightarrow> string list \<Rightarrow> string option \<Rightarrow> ('s, run_result) io" where
  "git runner dir args stdin = exec runner ''git'' ([''-C'', dir] @ args) stdin"

definition git_failed :: "run_result \<Rightarrow> bool" where
  "git_failed r \<longleftrightarrow> RunErr r \<noteq> None \<or> ExitCode r \<noteq> 0"

section \<open>Identity\<close>

text \<open>Standard output of a command that must succeed.\<close>

definition git_stdout :: "'s runner \<Rightarrow> string \<Rightarrow> string list \<Rightarrow> ('s, string) io" where
  "git_stdout runner repoRoot args = bindE (git runner repoRoot args None) (\<lambda>r. case RunErr r of
       Some e \<Rightarrow> throw e
     | None \<Rightarrow> if ExitCode r \<noteq> 0 then throw (Errf ''git %s exited %d'' [Join args '' '', itoa (ExitCode r)]) else ret (Output r))"

definition runGitOutput :: "'s runner \<Rightarrow> string \<Rightarrow> string list \<Rightarrow> ('s, string) io" where
  "runGitOutput runner repoRoot args = bindE (git_stdout runner repoRoot args) (\<lambda>out. ret (TrimSpace out))"

record identity =
  id_RemoteURL :: string
  id_Head :: string
  id_Base :: string

text \<open>A command whose failure gives the empty string.\<close>

definition git_optional :: "'s runner \<Rightarrow> string \<Rightarrow> string list \<Rightarrow> ('s, string) io" where
  "git_optional runner repoRoot args = bindE (attempt (runGitOutput runner repoRoot args)) (\<lambda>x.
     ret (case x of Inl _ \<Rightarrow> [] | Inr s \<Rightarrow> s))"

definition CaptureIdentity :: "'s runner \<Rightarrow> string \<Rightarrow> ('s, identity) io" where
  "CaptureIdentity runner repoRoot =
     bindE (attempt (runGitOutput runner repoRoot [''rev-parse'', ''HEAD''])) (\<lambda>x. case x of
       Inl e \<Rightarrow> throw (EWrap ''%w: %v'' [err_text e] (ESent ErrNotGitRepository))
     | Inr head \<Rightarrow>
         bindE (git_optional runner repoRoot [''rev-parse'', ''HEAD^'']) (\<lambda>base.
         bindE (git_optional runner repoRoot [''remote'', ''get-url'', ''origin'']) (\<lambda>remote.
         ret \<lparr>id_RemoteURL = remote, id_Head = head, id_Base = base\<rparr>)))"

section \<open>Discovery\<close>

record repository =
  rp_Root :: string
  rp_Name :: string

definition Discover :: "'a fs_state_scheme runner \<Rightarrow> string \<Rightarrow> ('a fs_state_scheme, repository) io" where
  "Discover runner path =
     bindE (wrapE ''resolve source path: %w'' [] (Abs path)) (\<lambda>absolute.
     bindE (wrapE ''inspect source path: %w'' [] (Stat absolute)) (\<lambda>info.
     let absolute = (if fi_kind info \<noteq> KDir then Dir absolute else absolute) in
     bindE (git runner absolute [''rev-parse'', ''--show-toplevel''] None) (\<lambda>r.
     bindE (guard (\<not> git_failed r) (EWrap ''source is not a Git repository: %w'' [] (opt_err (RunErr r)))) (\<lambda>_.
     bindE (guard (TrimSpace (Output r) \<noteq> []) (Errf ''git returned an empty source root'' [])) (\<lambda>_.
     bindE (wrapE ''resolve Git root: %w'' [] (Abs (TrimSpace (Output r)))) (\<lambda>root.
     ret \<lparr>rp_Root = root, rp_Name = Base root\<rparr>))))))"

definition MatchProject :: "string \<Rightarrow> string list \<Rightarrow> string result" where
  "MatchProject repositoryName configured =
     (case find (\<lambda>name. name = repositoryName) configured of
        Some name \<Rightarrow> Inr name
      | None \<Rightarrow> (case find (\<lambda>name. EqualFold name repositoryName) configured of
            Some name \<Rightarrow> Inr name
          | None \<Rightarrow> Inl (Errf ''project %q is not configured'' [repositoryName])))"

section \<open>Validation of entries\<close>

record input_repository =
  ir_Root :: string
  ir_Prefix :: string
  ir_Files :: "string list"

record source_input =
  si_Root :: string
  si_ProjectName :: string
  si_Files :: "string list"
  si_Repositories :: "input_repository list"
  si_LFSFiles :: "string list"

definition validateRepoRelativePath :: "string \<Rightarrow> bool" where
  "validateRepoRelativePath p \<longleftrightarrow> p \<noteq> [] \<and> \<not> Contains p [nl] \<and> \<not> (IsAbs p \<or> HasPrefix p ''/'')
     \<and> list_all (\<lambda>segment. \<not> (segment = [] \<or> segment = ''.'' \<or> segment = ''..'')) (Split slash p)"

fun check_segments :: "string \<Rightarrow> string list \<Rightarrow> unit result" where
  "check_segments p [] = Inr ()"
| "check_segments p (segment # rest) =
     (if segment = ''..'' then Inl (Errf ''source: relative-segment entry rejected: %q'' [p])
      else if segment = [] then Inl (Errf ''source: empty path segment in %q'' [p])
      else check_segments p rest)"

text \<open>What is decided without looking at the root: the cleaned entry.\<close>

definition clean_entry :: "string \<Rightarrow> string result" where
  "clean_entry p =
     (if p = [] then Inl (Errf ''source: empty entry rejected'' [])
      else if Contains p [nl] then Inl (Errf ''source: filename containing newline is not supported: %q'' [p])
      else if HasPrefix p ''/'' \<or> IsAbs p then Inl (Errf ''source: absolute path rejected: %q'' [p])
      else if HasSuffix p ''/'' then Inl (Errf ''source: trailing-slash entry rejected: %q'' [p])
      else case check_segments p (Split slash p) of
          Inl e \<Rightarrow> Inl e
        | Inr _ \<Rightarrow>
            let clean = Clean p in
            if clean = ''.'' \<or> clean = ''..'' then Inl (Errf ''source: relative-segment entry rejected: %q'' [p])
            else if HasPrefix clean ''../'' \<or> Contains clean ''/../'' \<or> HasSuffix clean ''/..''
            then Inl (Errf ''source: path escapes input root: %q'' [p])
            else Inr clean)"

definition canonicalEntry :: "string \<Rightarrow> string \<Rightarrow> ('a fs_state_scheme, string) io" where
  "canonicalEntry root p =
     bindE (lift_result (clean_entry p)) (\<lambda>clean.
     bindE (Abs root) (\<lambda>rootAbs.
     bindE (Abs (FJoin [rootAbs, clean])) (\<lambda>fullAbs.
     let rootAbs = Clean rootAbs; fullAbs = Clean fullAbs in
     if fullAbs \<noteq> rootAbs \<and> \<not> HasPrefix fullAbs (rootAbs @ ''/'')
     then throw (Errf ''source: path escapes root: %q'' [p]) else ret clean)))"

definition isStrictAncestor :: "string \<Rightarrow> string \<Rightarrow> bool" where
  "isStrictAncestor a b \<longleftrightarrow> a \<noteq> b \<and> HasPrefix b (a @ ''/'')"

definition kindLabel :: "bool \<Rightarrow> string" where
  "kindLabel isDir = (if isDir then ''directory'' else ''file'')"

definition fileVsDirCollision :: "string \<Rightarrow> string \<Rightarrow> string \<Rightarrow> ('a fs_state_scheme, unit) io" where
  "fileVsDirCollision root a b =
     bindE (attempt (Lstat (FJoin [root, a]))) (\<lambda>x.
     bindE (attempt (Lstat (FJoin [root, b]))) (\<lambda>y. case (x, y) of
       (Inr aInfo, Inr bInfo) \<Rightarrow>
         let aIsDir = (fi_kind aInfo = KDir); bIsDir = (fi_kind bInfo = KDir) in
         if aIsDir = bIsDir then ret ()
         else if aIsDir \<and> isStrictAncestor a b then ret ()
         else if bIsDir \<and> isStrictAncestor b a then ret ()
         else throw (Errf ''source: %q (%s) conflicts with %q (%s)'' [a, kindLabel aIsDir, b, kindLabel bIsDir])
     | _ \<Rightarrow> ret ()))"

text \<open>The loop that cleans and deduplicates, used for the files and for those of each repository.\<close>

definition add_clean :: "string \<Rightarrow> (string \<Rightarrow> bool) \<Rightarrow> string list \<Rightarrow> string \<Rightarrow> ('a fs_state_scheme, string list) io" where
  "add_clean root keep cleaned p = bindE (canonicalEntry root p) (\<lambda>clean.
     ret (if \<not> keep clean \<or> clean \<in> set cleaned then cleaned else cleaned @ [clean]))"

definition check_collisions :: "string \<Rightarrow> string list \<Rightarrow> ('a fs_state_scheme, unit) io" where
  "check_collisions root cleaned = forE cleaned (\<lambda>p. forE cleaned (\<lambda>other.
     if other = p then ret ()
     else if isStrictAncestor p other \<or> isStrictAncestor other p then fileVsDirCollision root p other
     else ret ()))"

definition slash_prefix :: "string \<Rightarrow> string" where
  "slash_prefix prefix = (if prefix \<noteq> [] \<and> \<not> HasSuffix prefix ''/'' then prefix @ ''/'' else prefix)"

definition clean_repository :: "string \<Rightarrow> input_repository list \<Rightarrow> input_repository \<Rightarrow> ('a fs_state_scheme, input_repository list) io" where
  "clean_repository root acc r =
     (let prefix = slash_prefix (ir_Prefix r) in
      bindE (foldE (add_clean root (\<lambda>clean. \<not> (prefix \<noteq> [] \<and> \<not> HasPrefix clean prefix))) [] (ir_Files r)) (\<lambda>repoFiles.
      ret (acc @ [\<lparr>ir_Root = ir_Root r, ir_Prefix = ir_Prefix r, ir_Files = sort repoFiles\<rparr>])))"

definition ValidateInput :: "source_input \<Rightarrow> ('a fs_state_scheme, source_input) io" where
  "ValidateInput input =
     bindE (foldE (add_clean (si_Root input) (\<lambda>_. True)) [] (si_Files input)) (\<lambda>files.
     let cleaned = sort files in
     bindE (check_collisions (si_Root input) cleaned) (\<lambda>_.
     bindE (foldE (clean_repository (si_Root input)) [] (si_Repositories input)) (\<lambda>repos.
     bindE (foldE (add_clean (si_Root input) (\<lambda>_. True)) [] (si_LFSFiles input)) (\<lambda>lfs.
     ret \<lparr>si_Root = si_Root input, si_ProjectName = si_ProjectName input, si_Files = cleaned, si_Repositories = repos,
       si_LFSFiles = lfs\<rparr>))))"

section \<open>Repositories and submodules\<close>

definition linked_worktree :: err where
  "linked_worktree = Errf ''unsupported source: linked Git worktrees (.git file) are not supported'' []"

text \<open>A path Git lists: skipped when it is empty, a \<open>.gitmodules\<close> file or deleted.\<close>

definition select_path :: "string \<Rightarrow> string list \<Rightarrow> string \<Rightarrow> ('a fs_state_scheme, string list) io" where
  "select_path repoRoot selected p =
     (if p = [] then ret selected
      else if Contains p [nl] then throw (Errf ''unsupported source: filename containing newline is not supported: %q'' [p])
      else if Base p = ''.gitmodules'' then ret selected
      else bindE (attempt (Lstat (FJoin [repoRoot, p]))) (\<lambda>x. case x of
          Inl e \<Rightarrow> if IsNotExist e then ret selected else throw (EWrap ''stat source file %s: %w'' [p] e)
        | Inr _ \<Rightarrow> ret (if p \<in> set selected then selected else selected @ [p])))"

definition selectRepositoryFiles :: "'a fs_state_scheme runner \<Rightarrow> string \<Rightarrow> bool \<Rightarrow> ('a fs_state_scheme, string list) io" where
  "selectRepositoryFiles runner repoRoot topLevel =
     (let gitPath = FJoin [repoRoot, ''.git''] in
      bindE (wrapE ''stat %s: %w'' [gitPath] (Lstat gitPath)) (\<lambda>fi.
      bindE (guard (\<not> (topLevel \<and> fi_kind fi \<noteq> KDir)) linked_worktree) (\<lambda>_.
      bindE (git runner repoRoot [''ls-files'', ''-z'', ''--cached'', ''--others'', ''--exclude-standard''] None) (\<lambda>r.
      bindE (guard (\<not> git_failed r) (EWrap ''git ls-files: %w (%s)'' [TrimSpace (ErrOutput r)] (opt_err (RunErr r)))) (\<lambda>_.
      foldE (select_path repoRoot) [] (Split nul (Output r)))))))"

definition truncate_text :: "string \<Rightarrow> nat \<Rightarrow> string" where
  "truncate_text s most = (if length s \<le> most then s else take most s @ ''...'')"

definition sub_err :: "string \<Rightarrow> string list \<Rightarrow> err" where
  "sub_err f args = EWrap (''%w: '' @ f) args (ESent ErrSubmoduleUnavailable)"

fun scan_stage :: "string list \<Rightarrow> string list \<Rightarrow> string list result" where
  "scan_stage gitlinks [] = Inr gitlinks"
| "scan_stage gitlinks (record_of # rest) =
     (if record_of = [] then scan_stage gitlinks rest
      else if CHR 0x09 \<notin> set record_of then Inl (sub_err ''malformed stage record (no tab): %q'' [truncate_text record_of 64])
      else
        let meta = takeWhile (\<lambda>c. c \<noteq> CHR 0x09) record_of;
            path = drop (length meta + 1) record_of;
            fields = SplitN (CHR '' '') 3 meta in
        if length fields \<noteq> 3 then Inl (sub_err ''malformed stage record (need mode/hash/stage): %q'' [truncate_text meta 64])
        else if fields ! 0 \<noteq> ''160000'' then scan_stage gitlinks rest
        else if path = [] then Inl (sub_err ''empty gitlink path'' [])
        else if Contains path [nl] then Inl (sub_err ''newline in gitlink path'' [])
        else if fields ! 2 \<noteq> ''0'' then Inl (sub_err ''unmerged gitlink %q (stage=%s)'' [path, fields ! 2])
        else if path \<in> set gitlinks then Inl (sub_err ''duplicate gitlink %q'' [path])
        else scan_stage (gitlinks @ [path]) rest)"

definition listGitlinks :: "'s runner \<Rightarrow> string \<Rightarrow> ('s, string list) io" where
  "listGitlinks runner repoRoot =
     bindE (git runner repoRoot [''ls-files'', ''-z'', ''--stage''] None) (\<lambda>r.
     bindE (guard (\<not> git_failed r) (EWrap ''git ls-files --stage: %w (%s)'' [TrimSpace (ErrOutput r)] (opt_err (RunErr r)))) (\<lambda>_.
     lift_result (scan_stage [] (Split nul (Output r)))))"

definition verifyChildTopLevel :: "'a fs_state_scheme runner \<Rightarrow> string \<Rightarrow> ('a fs_state_scheme, string) io" where
  "verifyChildTopLevel runner childRoot =
     bindE (git runner childRoot [''rev-parse'', ''--show-toplevel''] None) (\<lambda>r.
     bindE (guard (\<not> git_failed r) (EWrap ''git rev-parse: %w'' [] (opt_err (RunErr r)))) (\<lambda>_.
     bindE (guard (TrimSpace (Output r) \<noteq> []) (Errf ''empty toplevel'' [])) (\<lambda>_.
     bindE (Abs (TrimSpace (Output r))) (\<lambda>root.
     bindE (Abs childRoot) (\<lambda>_. ret root)))))"

definition prefixIsDirectory :: "string \<Rightarrow> ('a fs_state_scheme, bool) io" where
  "prefixIsDirectory path = bindE (attempt (Lstat path)) (\<lambda>x. ret (case x of Inl _ \<Rightarrow> False | Inr fi \<Rightarrow> fi_kind fi = KDir))"

record graph =
  gr_files :: "string list"
  gr_repos :: "input_repository list"
  gr_seen :: "string list"

definition see :: "string \<Rightarrow> graph \<Rightarrow> graph" where
  "see p g = (if p \<in> set (gr_seen g) then g else g\<lparr>gr_seen := p # gr_seen g, gr_files := gr_files g @ [p]\<rparr>)"

text \<open>The entries of one repository: its directory, and its files below the prefix.\<close>

definition add_selected :: "string \<Rightarrow> string \<Rightarrow> graph \<Rightarrow> string \<Rightarrow> graph result" where
  "add_selected repoRoot prefix g rel =
     (if \<not> validateRepoRelativePath (prefix @ rel) then Inl (Errf ''unsupported source: path %q from %s'' [prefix @ rel, repoRoot])
      else Inr (see (prefix @ rel) g))"

definition repository_entries :: "string \<Rightarrow> string \<Rightarrow> string list \<Rightarrow> graph \<Rightarrow> ('s, graph) io" where
  "repository_entries repoRoot prefix selected g =
     (let dirEntry = TrimSuffix prefix ''/'' in
      bindE (foldE (\<lambda>g rel. lift_result (add_selected repoRoot prefix g rel)) (if dirEntry \<noteq> [] then see dirEntry g else g) selected) (\<lambda>g1.
      ret (g1\<lparr>gr_repos := gr_repos g1 @ [\<lparr>ir_Root = repoRoot, ir_Prefix = dirEntry, ir_Files = selected\<rparr>]\<rparr>)))"

text \<open>The checks on a submodule; the root of the child.\<close>

definition child_repository :: "'a fs_state_scheme runner \<Rightarrow> string \<Rightarrow> string \<Rightarrow> string \<Rightarrow> ('a fs_state_scheme, string) io" where
  "child_repository runner repoRoot prefix gl =
     bindE (guard (validateRepoRelativePath gl) (Errf ''unsupported source: submodule path %q from %s'' [gl, repoRoot])) (\<lambda>_.
     let childRoot = FJoin [repoRoot, gl] in
     bindE (prefixIsDirectory childRoot) (\<lambda>is_dir.
     bindE (guard is_dir (sub_err ''%s is not a directory'' [prefix @ gl])) (\<lambda>_.
     bindE (attempt (verifyChildTopLevel runner childRoot)) (\<lambda>x. case x of
       Inl e \<Rightarrow> throw (sub_err ''%s: %v'' [prefix @ gl, err_text e])
     | Inr childRepoRoot \<Rightarrow>
         bindE (guard (childRepoRoot = childRoot)
           (sub_err ''%s resolves to %s, not the expected child directory'' [prefix @ gl, childRepoRoot])) (\<lambda>_.
         ret childRepoRoot)))))"

text \<open>
  The recursion into submodules makes the root of the repository longer at every level, so that a
  path the kernel accepts bounds its depth.
\<close>

primrec collectRepository :: "nat \<Rightarrow> 'a fs_state_scheme runner \<Rightarrow> string \<Rightarrow> string \<Rightarrow> graph \<Rightarrow> ('a fs_state_scheme, graph) io" where
  "collectRepository 0 runner repoRoot prefix g = throw (EOs ''file name too long'')"
| "collectRepository (Suc n) runner repoRoot prefix g =
     bindE (selectRepositoryFiles runner repoRoot (prefix = [])) (\<lambda>selected.
     bindE (repository_entries repoRoot prefix selected g) (\<lambda>g1.
     bindE (listGitlinks runner repoRoot) (\<lambda>gitlinks.
     foldE (\<lambda>g gl. bindE (child_repository runner repoRoot prefix gl) (\<lambda>childRoot.
         collectRepository n runner childRoot (prefix @ gl @ ''/'') g)) g1 gitlinks)))"

section \<open>Git LFS\<close>

definition lfsPointerVersion :: string where "lfsPointerVersion = ''https://git-lfs.github.com/spec/v1''"

definition isLFSPointer :: "string \<Rightarrow> bool" where
  "isLFSPointer body =
     (case Split nl body of
        l0 # l1 # l2 # _ \<Rightarrow>
          let oidLine = SplitN (CHR '' '') 2 l1; hex = TrimPrefix (oidLine ! 1) ''sha256:''; sizeLine = SplitN (CHR '' '') 2 l2 in
          l0 = ''version '' @ lfsPointerVersion
          \<and> length oidLine = 2 \<and> oidLine ! 0 = ''oid''
          \<and> length hex = 64 \<and> list_all (\<lambda>r. (48 \<le> r \<and> r \<le> 57) \<or> (97 \<le> r \<and> r \<le> 102)) (runes hex)
          \<and> length sizeLine = 2 \<and> sizeLine ! 0 = ''size'' \<and> sizeLine ! 1 \<noteq> []
          \<and> list_all (\<lambda>r. 48 \<le> r \<and> r \<le> 57) (runes (sizeLine ! 1))
      | _ \<Rightarrow> False)"

fun lfs_triples :: "string \<Rightarrow> string list \<Rightarrow> string list \<Rightarrow> string list" where
  "lfs_triples prefix attributed (path # attr # value # rest) =
     lfs_triples prefix
       (if path = [] \<or> attr \<noteq> ''filter'' \<or> value \<noteq> ''lfs'' \<or> prefix @ path \<in> set attributed then attributed
        else attributed @ [prefix @ path]) rest"
| "lfs_triples prefix attributed _ = attributed"

definition repository_lfs :: "'s runner \<Rightarrow> string list \<Rightarrow> input_repository \<Rightarrow> ('s, string list) io" where
  "repository_lfs runner attributed repo =
     (if ir_Files repo = [] then ret attributed
      else
        bindE (git runner (ir_Root repo) [''check-attr'', ''-z'', ''--stdin'', ''filter'']
          (Some (concat (map (\<lambda>rel. rel @ [nul]) (ir_Files repo))))) (\<lambda>r.
        bindE (guard (\<not> git_failed r) (EWrap ''git check-attr: %w (%s)'' [TrimSpace (ErrOutput r)] (opt_err (RunErr r)))) (\<lambda>_.
        ret (lfs_triples (slash_prefix (ir_Prefix repo)) attributed (Split nul (Output r))))))"

definition collectLFSAttributes :: "'s runner \<Rightarrow> input_repository list \<Rightarrow> ('s, string list) io" where
  "collectLFSAttributes runner repos = foldE (repository_lfs runner) [] repos"

definition check_pointer :: "string \<Rightarrow> string \<Rightarrow> ('a fs_state_scheme, unit) io" where
  "check_pointer snapRoot topRel =
     (let full = FJoin [snapRoot, topRel] in
      bindE (attempt (Lstat full)) (\<lambda>x. case x of
        Inl _ \<Rightarrow> ret ()
      | Inr fi \<Rightarrow>
          if fi_kind fi \<noteq> KRegular then ret ()
          else bindE (wrapE ''read lfs-attributed file %s: %w'' [topRel] (ReadFile full)) (\<lambda>data.
            guard (\<not> isLFSPointer data) (EWrap ''%w: %s'' [topRel] (ESent ErrLFSContentUnavailable)))))"

definition ValidateLFSPointers :: "string \<Rightarrow> string list \<Rightarrow> ('a fs_state_scheme, unit) io" where
  "ValidateLFSPointers snapRoot attributed = forE attributed (check_pointer snapRoot)"

section \<open>The input of a build\<close>

definition add_marker :: "string \<Rightarrow> graph \<Rightarrow> string \<Rightarrow> ('a fs_state_scheme, graph) io" where
  "add_marker topRoot g marker = bindE (attempt (Lstat (FJoin [topRoot, marker]))) (\<lambda>x.
     ret (case x of Inl _ \<Rightarrow> g | Inr _ \<Rightarrow> see marker g))"

definition buildGraph :: "'a fs_state_scheme runner \<Rightarrow> string \<Rightarrow> ('a fs_state_scheme, source_input) io" where
  "buildGraph runner topRoot =
     bindE (collectRepository path_max runner topRoot [] \<lparr>gr_files = [], gr_repos = [], gr_seen = []\<rparr>) (\<lambda>g.
     bindE (foldE (add_marker topRoot) g [''.git/HEAD'', ''.git/objects'', ''.git/refs'']) (\<lambda>g.
     bindE (collectLFSAttributes runner (gr_repos g)) (\<lambda>attributed.
     ValidateInput \<lparr>si_Root = topRoot, si_ProjectName = Base topRoot, si_Files = gr_files g, si_Repositories = gr_repos g,
       si_LFSFiles = attributed\<rparr>)))"

definition SelectBuildInput :: "'a fs_state_scheme runner \<Rightarrow> string \<Rightarrow> ('a fs_state_scheme, source_input) io" where
  "SelectBuildInput runner sourcePath =
     bindE (Abs sourcePath) (\<lambda>absPath.
     bindE (attempt (Lstat (FJoin [absPath, ''.git'']))) (\<lambda>x.
     bindE (guard (case x of Inl _ \<Rightarrow> True | Inr fi \<Rightarrow> fi_kind fi = KDir) linked_worktree) (\<lambda>_.
     bindE (Discover runner sourcePath) (\<lambda>repo.
     bindE (wrapE ''stat .git: %w'' [] (Lstat (FJoin [rp_Root repo, ''.git'']))) (\<lambda>fi.
     bindE (guard (fi_kind fi = KDir) linked_worktree) (\<lambda>_.
     buildGraph runner (rp_Root repo)))))))"

section \<open>Exclusions\<close>

definition excludedPath :: "string \<Rightarrow> string \<Rightarrow> string list \<Rightarrow> bool" where
  "excludedPath rel name globs \<longleftrightarrow> list_ex (\<lambda>g. path_match g rel = Some True \<or> path_match g name = Some True) globs"

definition exclude_visit :: "string \<Rightarrow> string list \<Rightarrow> string \<Rightarrow> file_kind \<Rightarrow> ('a fs_state_scheme, bool) io" where
  "exclude_visit dir globs p k = (case Rel dir p of
       None \<Rightarrow> throw (Errf ''Rel: cannot make %s relative to %s'' [p, dir])
     | Some rel \<Rightarrow>
         if rel = ''.'' then ret False
         else if Base p = ''.git'' \<or> Base p = ''.vci'' then ret (k = KDir)
         else if \<not> excludedPath rel (Base p) globs then ret False
         else if k = KDir then bindE (RemoveAll p) (\<lambda>_. ret True)
         else bindE (Remove p) (\<lambda>_. ret False))"

definition ApplyExclusions :: "string \<Rightarrow> string list \<Rightarrow> ('a fs_state_scheme, unit) io" where
  "ApplyExclusions dir globs = (if globs = [] then ret () else WalkDir (exclude_visit dir globs) dir)"

end
