(* ===== verification/Vci_Source_Laws.thy ===== *)
theory Vci_Source_Laws
  imports Vci_Source Vci_Confined
begin

text \<open>
  What the validation of a build's input promises: the two validators of \<open>internal/source\<close> accept the
  same normal forms, and what \<open>ValidateInput\<close> lets through is sorted, free of duplicates and below the root.
\<close>

section \<open>Entries\<close>

lemma norm_without_parents:
  "list_all (\<lambda>s. s \<noteq> [] \<and> s \<noteq> ''..'' \<and> slash \<notin> set s) ss \<Longrightarrow> norm r ss = filter (\<lambda>s. s \<noteq> ''.'') ss"
proof -
  assume ss: "list_all (\<lambda>s. s \<noteq> [] \<and> s \<noteq> ''..'' \<and> slash \<notin> set s) ss"
  have "foldl (norm_step r) acc ss = rev (filter (\<lambda>s. s \<noteq> ''.'') ss) @ acc" for acc
    using ss by (induction ss arbitrary: acc) auto
  from this [of "[]"] show ?thesis by (simp add: norm_def del: norm_step.simps)
qed

text \<open>An entry that is accepted: no newline, no empty and no parent segment, and not only dots.\<close>

definition good_entry :: "string \<Rightarrow> bool" where
  "good_entry p \<longleftrightarrow> nl \<notin> set p \<and> list_all (\<lambda>s. s \<noteq> [] \<and> s \<noteq> ''..'') (Split slash p) \<and> \<not> list_all (\<lambda>s. s = ''.'') (Split slash p)"

definition undotted :: "string \<Rightarrow> string list" where
  "undotted p = filter (\<lambda>s. s \<noteq> ''.'') (Split slash p)"

lemma Contains_nl: "Contains p [nl] \<longleftrightarrow> nl \<in> set p"
  by (auto simp: Contains_iff in_set_conv_decomp)

lemma abs_has_empty: "IsAbs p \<Longrightarrow> [] \<in> set (Split slash p)"
  by (cases p) (auto simp: IsAbs_def HasPrefix_def)

lemma trailing_has_empty: "HasSuffix p ''/'' \<Longrightarrow> [] \<in> set (Split slash p)"
  by (auto simp: HasSuffix_iff Split_cat)

lemma check_segments_ok: "check_segments p ss = Inr () \<longleftrightarrow> list_all (\<lambda>s. s \<noteq> [] \<and> s \<noteq> ''..'') ss"
  by (induction ss) auto

lemma undotted_plain: "good_entry p \<Longrightarrow> list_all plain_seg (undotted p) \<and> undotted p \<noteq> []"
  using Split_no_sep [of _ slash p] by (auto simp: good_entry_def undotted_def plain_seg_def list_all_iff filter_empty_conv)

lemma good_relative: "list_all (\<lambda>s. s \<noteq> [] \<and> s \<noteq> ''..'') (Split slash p) \<Longrightarrow> \<not> IsAbs p \<and> p \<noteq> [] \<and> \<not> HasSuffix p ''/''"
  using abs_has_empty [of p] trailing_has_empty [of p] by (cases "p = []") (auto simp: list_all_iff)

lemma path_segs_undotted:
  assumes "list_all (\<lambda>s. s \<noteq> [] \<and> s \<noteq> ''..'') (Split slash p)"
  shows "path_segs p = undotted p"
  unfolding path_segs_def undotted_def
  by (rule norm_without_parents) (use assms Split_no_sep [of _ slash p] in \<open>auto simp: list_all_iff\<close>)

lemma Join_plain_split: "list_all plain_seg ss \<Longrightarrow> ss \<noteq> [] \<Longrightarrow> Split slash (Join ss ''/'') = ss"
  by (rule Split_Join) (auto simp: list_all_iff plain_seg_def)

text \<open>No text made of plain segments looks like a parent.\<close>

lemma plain_not_parent:
  assumes "list_all plain_seg ss" and "ss \<noteq> []" and c: "c = Join ss ''/''"
  shows "c \<noteq> ''.'' \<and> c \<noteq> ''..'' \<and> \<not> HasPrefix c ''../'' \<and> \<not> Contains c ''/../'' \<and> \<not> HasSuffix c ''/..''"
proof -
  have segs: "Split slash c = ss" using assms by (simp add: Join_plain_split)
  have no: "''..'' \<notin> set (Split slash c) \<and> ''.'' \<notin> set (Split slash c)"
    using assms(1) segs by (auto simp: list_all_iff plain_seg_def)
  have "\<not> Contains c ''/../''"
  proof
    assume "Contains c ''/../''"
    then obtain a b where "c = a @ slash # ''..'' @ slash # b" by (auto simp: Contains_iff)
    with no show False by (simp add: Split_cat)
  qed
  moreover have "\<not> HasPrefix c ''../''"
  proof
    assume "HasPrefix c ''../''"
    then obtain b where "c = ''..'' @ slash # b" by (auto simp: HasPrefix_iff)
    with no Split_cat [of "''..''" b] show False by simp
  qed
  moreover have "\<not> HasSuffix c ''/..''"
  proof
    assume "HasSuffix c ''/..''"
    then obtain a where "c = a @ slash # ''..''" by (auto simp: HasSuffix_iff)
    with no show False by (simp add: Split_cat)
  qed
  moreover have "c \<noteq> ''.'' \<and> c \<noteq> ''..''" using no by auto
  ultimately show ?thesis by blast
qed

lemma clean_entry_ok: "clean_entry p = Inr c \<longleftrightarrow> good_entry p \<and> c = Join (undotted p) ''/''"
proof (cases "list_all (\<lambda>s. s \<noteq> [] \<and> s \<noteq> ''..'') (Split slash p)")
  case False
  then show ?thesis
    by (auto simp: clean_entry_def good_entry_def check_segments_ok split: sum.splits)
next
  case True
  note rel = good_relative [OF True]
  have clean: "Clean p = (if undotted p = [] then ''.'' else Join (undotted p) ''/'')"
    using rel path_segs_undotted [OF True] by (simp add: Clean_def)
  have good: "good_entry p \<longleftrightarrow> nl \<notin> set p \<and> undotted p \<noteq> []"
    using True by (auto simp: good_entry_def undotted_def filter_empty_conv list_all_iff)
  show ?thesis
    using rel True clean good undotted_plain [of p] plain_not_parent [of "undotted p" "Join (undotted p) ''/''"]
    by (auto simp: clean_entry_def check_segments_ok [THEN iffD2] Contains_nl IsAbs_def Let_def)
qed

lemma validateRepoRelativePath_iff:
  "validateRepoRelativePath p \<longleftrightarrow> nl \<notin> set p \<and> list_all plain_seg (Split slash p)"
  using good_relative [of p] Split_no_sep [of _ slash p]
  by (cases "p = []") (auto simp: validateRepoRelativePath_def Contains_nl list_all_iff plain_seg_def IsAbs_def dest: abs_has_empty)

lemma clean_entry_valid: "clean_entry p = Inr p \<longleftrightarrow> validateRepoRelativePath p"
proof
  assume "clean_entry p = Inr p"
  then have "good_entry p" and p: "p = Join (undotted p) ''/''" by (auto simp: clean_entry_ok)
  then show "validateRepoRelativePath p"
    using undotted_plain [of p] Join_plain_split [of "undotted p"]
    by (metis good_entry_def validateRepoRelativePath_iff)
next
  assume v: "validateRepoRelativePath p"
  then have plain: "list_all plain_seg (Split slash p)" and nl: "nl \<notin> set p" by (auto simp: validateRepoRelativePath_iff)
  then have "hd (Split slash p) \<in> set (Split slash p)" and "hd (Split slash p) \<noteq> ''.''"
    by (auto simp: list_all_iff plain_seg_def)
  with plain nl have "good_entry p" by (auto simp: good_entry_def list_all_iff plain_seg_def)
  moreover have "undotted p = Split slash p"
    unfolding undotted_def using plain by (intro filter_True) (auto simp: list_all_iff plain_seg_def)
  ultimately show "clean_entry p = Inr p" by (simp only: clean_entry_ok Join_Split)
qed

lemma set_Join: "set (Join ss ''/'') \<subseteq> \<Union> (set ` set ss) \<union> {slash}"
  by (induction ss "''/''" rule: Join.induct) auto

lemma nl_undotted: "nl \<notin> set p \<Longrightarrow> nl \<notin> set (Join (undotted p) ''/'')"
proof
  assume "nl \<notin> set p" and "nl \<in> set (Join (undotted p) ''/'')"
  then obtain part where "part \<in> set (Split slash p)" "nl \<in> set part"
    using set_Join [of "undotted p"] by (force simp: undotted_def)
  with \<open>nl \<notin> set p\<close> set_Split [of p slash] show False by blast
qed

lemma clean_entry_result: "clean_entry p = Inr c \<Longrightarrow> validateRepoRelativePath c"
  using undotted_plain [of p] nl_undotted [of p]
  by (auto simp: clean_entry_ok validateRepoRelativePath_iff Join_plain_split good_entry_def)

section \<open>Below the root\<close>

definition proper_root :: "string \<Rightarrow> bool" where
  "proper_root root \<longleftrightarrow> IsAbs root \<and> path_segs root \<noteq> []"

text \<open>Below a proper root the last test of \<open>canonicalEntry\<close> never fires, and no system call is made.\<close>

lemma canonicalEntry_eq:
  assumes "proper_root root"
  shows "canonicalEntry root p w = (clean_entry p, w)"
proof (cases "clean_entry p")
  case (Inl e)
  then show ?thesis by (simp add: canonicalEntry_def lift_bind)
next
  case (Inr c)
  then have plain: "list_all plain_seg (undotted p)" "undotted p \<noteq> []" and c: "c = Join (undotted p) ''/''"
    using undotted_plain [of p] by (auto simp: clean_entry_ok)
  have abs: "IsAbs root" and ne: "path_segs root \<noteq> []" using assms by (auto simp: proper_root_def)
  let ?r = "Clean root" and ?f = "slash # Join (path_segs root @ undotted p) ''/''"
  have r: "?r = slash # Join (path_segs root) ''/''" using abs by (simp add: Clean_def)
  have rplain: "list_all plain_seg (path_segs root)" using path_segs_rooted_plain [OF abs] by (auto simp: list_all_iff)
  have rc: "IsAbs ?r" "Clean ?r = ?r" "path_segs ?r = path_segs root"
    using clean_of_segs [OF rplain] segs_of_rooted [OF rplain] by (auto simp: r clean_abs_def)
  have "FJoin [?r, c] = FJoin (?r # undotted p)"
    using plain(2) by (cases "undotted p") (auto simp: FJoin_def c r)
  also have "\<dots> = ?f" using FJoin_below [OF rc(1), of "undotted p"] plain(1) rc(3) by (auto simp: list_all_iff)
  finally have join: "FJoin [?r, c] = ?f" .
  have "clean_abs ?f" using clean_of_segs [of "path_segs root @ undotted p"] rplain plain by simp
  then have f: "IsAbs ?f" "Clean ?f = ?f" by (auto simp: clean_abs_def)
  have cat: "Join (xs @ ys) ''/'' = Join xs ''/'' @ slash # Join ys ''/''" if "xs \<noteq> []" "ys \<noteq> []" for xs ys
    using that by (induction xs "''/''" rule: Join.induct) (cases ys; simp)+
  have "HasPrefix ?f (?r @ ''/'')"
    using cat [OF ne plain(2)] by (simp add: r HasPrefix_iff)
  then show ?thesis
    using Inr abs rc f join by (simp add: canonicalEntry_def Abs_def io_eval Let_def)
qed

text \<open>
  C28: How the two validators of a source path relate, below any absolute root but the root of the file system:
  \<open>validateRepoRelativePath\<close>, the gate for what Git lists, accepts a path iff \<open>canonicalEntry\<close>, the gate before
  a snapshot, accepts it under the same name; and every name \<open>canonicalEntry\<close> gives out is one the first gate
  accepts. They do not accept the same paths: \<open>canonicalEntry\<close> also takes a path that it has to clean, such as
  \<open>lib/./a.go\<close>. So a path that passes the first gate is never renamed or refused by the second, and one that
  passes the second only has another name.
\<close>

theorem validators_agree:
  assumes "IsAbs root" and "path_segs root \<noteq> []"
  shows "(validateRepoRelativePath p \<longleftrightarrow> canonicalEntry root p w = (Inr p, w))
    \<and> (\<forall>c w'. canonicalEntry root p w = (Inr c, w') \<longrightarrow> validateRepoRelativePath c)"
  using assms by (auto simp: canonicalEntry_eq proper_root_def clean_entry_valid dest: clean_entry_result)

definition ex_disk :: fs_state where
  "ex_disk = \<lparr>faults = [], clock = 0, entropy = [], windows = False, disk = FDir 0 [], inodes = [], cwd = []\<rparr>"

lemma validators_agree_witness:
  "IsAbs ''/src/app'' \<and> path_segs ''/src/app'' \<noteq> [] \<and> validateRepoRelativePath ''lib/a.go''
   \<and> canonicalEntry ''/src/app'' ''lib/a.go'' ex_disk = (Inr ''lib/a.go'', ex_disk)
   \<and> \<not> validateRepoRelativePath ''lib/./a.go'' \<and> canonicalEntry ''/src/app'' ''lib/./a.go'' ex_disk \<noteq> (Inr ''lib/./a.go'', ex_disk)
   \<and> canonicalEntry ''/src/app'' ''lib/./a.go'' ex_disk = (Inr ''lib/a.go'', ex_disk)"
proof -
  have "IsAbs ''/src/app''" "path_segs ''/src/app'' \<noteq> []" "validateRepoRelativePath ''lib/a.go''" "\<not> validateRepoRelativePath ''lib/./a.go''"
    by code_simp+
  moreover have "clean_entry ''lib/./a.go'' = Inr ''lib/a.go''" by code_simp
  ultimately show ?thesis
    using validators_agree [of "''/src/app''" _ ex_disk] by (simp add: canonicalEntry_eq proper_root_def)
qed

section \<open>The input of a build\<close>

lemma add_clean_eq: "proper_root root \<Longrightarrow> add_clean root keep acc p w = (case clean_entry p of
    Inl e \<Rightarrow> (Inl e, w) | Inr c \<Rightarrow> (Inr (if \<not> keep c \<or> c \<in> set acc then acc else acc @ [c]), w))"
  by (simp add: add_clean_def bindE_def canonicalEntry_eq ret_def split: sum.split)

lemma add_clean_all:
  assumes root: "proper_root root" and "foldE (add_clean root keep) acc ps w = (Inr out, w')" and "distinct acc"
  shows "w' = w \<and> distinct out \<and> (\<forall>p \<in> set ps. \<exists>c. clean_entry p = Inr c)
    \<and> set out = set acc \<union> {c. keep c \<and> (\<exists>p \<in> set ps. clean_entry p = Inr c)}"
  using assms(2,3)
proof (induction ps arbitrary: acc)
  case (Cons p ps)
  then obtain x w1 where "add_clean root keep acc p w = (Inr x, w1)" and x: "foldE (add_clean root keep) x ps w1 = (Inr out, w')"
    by (auto simp: bindE_Inr)
  with add_clean_eq [OF root, of keep acc p w] obtain c where c: "clean_entry p = Inr c"
      and rest: "foldE (add_clean root keep) (if \<not> keep c \<or> c \<in> set acc then acc else acc @ [c]) ps w = (Inr out, w')"
    by (auto split: sum.splits)
  have "distinct (if \<not> keep c \<or> c \<in> set acc then acc else acc @ [c])" using Cons.prems by auto
  from Cons.IH [OF rest this] c show ?case by auto
qed auto

lemma check_collisions_quiet: "always quiet (check_collisions root cleaned :: ('a fs_state_scheme, unit) io)"
  unfolding check_collisions_def fileVsDirCollision_def by (intro always_intro)

lemma clean_repository_all:
  assumes root: "proper_root root" and "foldE (clean_repository root) acc rs w = (Inr out, w')"
    and "\<forall>r \<in> set acc. list_all validateRepoRelativePath (ir_Files r)"
  shows "w' = w \<and> (\<forall>r \<in> set out. list_all validateRepoRelativePath (ir_Files r))"
  using assms(2,3)
proof (induction rs arbitrary: acc)
  case (Cons r rs)
  from Cons.prems(1) obtain x w1 where step: "clean_repository root acc r w = (Inr x, w1)"
      and rest: "foldE (clean_repository root) x rs w1 = (Inr out, w')"
    by (auto simp: bindE_Inr)
  from step obtain fs keep where fs: "foldE (add_clean root keep) [] (ir_Files r) w = (Inr fs, w1)"
      and x: "x = acc @ [\<lparr>ir_Root = ir_Root r, ir_Prefix = ir_Prefix r, ir_Files = sort fs\<rparr>]"
    unfolding clean_repository_def Let_def bindE_Inr by auto
  have "w1 = w" and "\<forall>f \<in> set fs. validateRepoRelativePath f"
    using add_clean_all [OF root fs] clean_entry_result by auto
  with Cons.IH [of x] rest Cons.prems(2) x show ?case by (auto simp: list_all_iff)
qed auto

text \<open>
  A validated input is well formed, whatever the file system answers: its files are sorted and
  distinct, exactly the cleaned forms of the files given (none is dropped and none is refused in
  silence), every one is a relative path without empty, dot or parent segments and without a newline,
  as are the files of every repository and the files with the LFS attribute, and the validation has
  changed nothing.
\<close>

theorem ValidateInput_wf:
  assumes "IsAbs (si_Root input)" and "path_segs (si_Root input) \<noteq> []" and "ValidateInput input w = (Inr out, w')"
  shows "sorted (si_Files out) \<and> distinct (si_Files out)
    \<and> set (si_Files out) = {c. \<exists>p \<in> set (si_Files input). clean_entry p = Inr c}
    \<and> (\<forall>p \<in> set (si_Files input). \<exists>c. clean_entry p = Inr c)
    \<and> list_all validateRepoRelativePath (si_Files out @ si_LFSFiles out)
    \<and> (\<forall>r \<in> set (si_Repositories out). list_all validateRepoRelativePath (ir_Files r))
    \<and> disk w' = disk w \<and> inodes w' = inodes w"
proof -
  let ?root = "si_Root input"
  have root: "proper_root ?root" using assms(1,2) by (simp add: proper_root_def)
  from assms(3) obtain files w1 w2 repos w3 lfs w4 where
      files: "foldE (add_clean ?root (\<lambda>_. True)) [] (si_Files input) w = (Inr files, w1)"
    and coll: "check_collisions ?root (sort files) w1 = (Inr (), w2)"
    and repos: "foldE (clean_repository ?root) [] (si_Repositories input) w2 = (Inr repos, w3)"
    and lfs: "foldE (add_clean ?root (\<lambda>_. True)) [] (si_LFSFiles input) w3 = (Inr lfs, w4)"
    and out: "si_Files out = sort files" "si_Repositories out = repos" "si_LFSFiles out = lfs" and w': "w' = w4"
    by (auto simp: ValidateInput_def bindE_Inr Let_def)
  note f = add_clean_all [OF root files] and r = clean_repository_all [OF root repos] and l = add_clean_all [OF root lfs]
  have "quiet w1 w2" by (rule alwaysD [OF check_collisions_quiet coll])
  with f r l w' have "disk w' = disk w \<and> inodes w' = inodes w" by (auto simp: disk_quiet)
  with f r l out clean_entry_result show ?thesis by (auto simp: list_all_iff)
qed

definition ex_input :: source_input where
  "ex_input = \<lparr>si_Root = ''/src/app'', si_ProjectName = ''app'', si_Files = [''sub'', ''main.go'', ''sub/x.go'', ''./main.go''],
     si_Repositories = [\<lparr>ir_Root = ''/src/app'', ir_Prefix = [], ir_Files = [''main.go'']\<rparr>, \<lparr>ir_Root = ''/src/app/sub'', ir_Prefix = ''sub'', ir_Files = [''x.go'']\<rparr>],
     si_LFSFiles = [''sub/x.go'']\<rparr>"

definition ex_output :: source_input where
  "ex_output = \<lparr>si_Root = ''/src/app'', si_ProjectName = ''app'', si_Files = [''main.go'', ''sub'', ''sub/x.go''],
     si_Repositories = [\<lparr>ir_Root = ''/src/app'', ir_Prefix = [], ir_Files = [''main.go'']\<rparr>, \<lparr>ir_Root = ''/src/app/sub'', ir_Prefix = ''sub'', ir_Files = []\<rparr>],
     si_LFSFiles = [''sub/x.go'']\<rparr>"

text \<open>The files of a submodule, which are recorded relative to it, are dropped from its repository.\<close>

lemma submodule_files_dropped: "ValidateInput ex_input ex_disk = (Inr ex_output, ex_disk)"
  by code_simp

lemma ValidateInput_wf_witness:
  "ValidateInput ex_input ex_disk = (Inr ex_output, ex_disk) \<and> sorted (si_Files ex_output) \<and> distinct (si_Files ex_output)
   \<and> list_all validateRepoRelativePath (si_Files ex_output @ si_LFSFiles ex_output)"
proof -
  have "IsAbs (si_Root ex_input)" "path_segs (si_Root ex_input) \<noteq> []" by code_simp+
  from ValidateInput_wf [OF this submodule_files_dropped] submodule_files_dropped show ?thesis by blast
qed

end
