(* ===== verification/Vci_Submission.thy ===== *)
theory Vci_Submission
  imports Vci_Source Vci_Process
begin

text \<open>
  \<open>internal/source\<close>, the way of a client's work to the coordinator: Git bundles (\<open>bundle.go\<close>), the
  changes of the working tree (\<open>localchanges.go\<close>), the submission that frames both (\<open>submission.go\<close>)
  and the workspace made of them (\<open>workspace.go\<close>).

  Writing and reading the tar format is a pair of parameters: \<open>tar_write\<close> gives the bytes of a list of
  members or an error, \<open>untar\<close> the members of the bytes. \<open>tmp\<close> is the directory \<open>os.TempDir\<close> names.
\<close>

section \<open>Deferred calls and temporary files\<close>

text \<open>\<open>defer d\<close> before \<open>m\<close>: the state after both, the result of \<open>m\<close>.\<close>

definition deferE :: "('s, 'b) io \<Rightarrow> ('s, 'a) io \<Rightarrow> ('s, 'a) io" where
  [io_simps]: "deferE d m = (\<lambda>w. case m w of (r, w') \<Rightarrow> (r, snd (d w')))"

context guarantee
begin

lemma always_deferE [always_intro]: "always R d \<Longrightarrow> always R m \<Longrightarrow> always R (deferE d m)"
  by (auto simp: always_def deferE_def split: prod.splits) (metis snd_conv trans)

end

text \<open>On an error of \<open>m\<close>, run \<open>d\<close> before it is returned.\<close>

definition on_error :: "('s, 'b) io \<Rightarrow> ('s, 'a) io \<Rightarrow> ('s, 'a) io" where
  [io_simps]: "on_error d m = (\<lambda>w. case m w of (Inl e, w') \<Rightarrow> (Inl e, snd (d w')) | (Inr x, w') \<Rightarrow> (Inr x, w'))"

definition draw :: "('a os_state_scheme, nat) io" where
  "draw = (\<lambda>w. case entropy w of [] \<Rightarrow> (Inr 0, w) | n # ns \<Rightarrow> (Inr n, w\<lparr>entropy := ns\<rparr>))"

text \<open>A name in a directory that is not taken: the random part is drawn, and the next free one used.\<close>

definition free_name :: "string list \<Rightarrow> string \<Rightarrow> string \<Rightarrow> nat \<Rightarrow> string" where
  "free_name taken pre suf k = the (find (\<lambda>n. n \<notin> set taken) (map (\<lambda>i. pre @ nat_text (k + i) @ suf) [0 ..< Suc (length taken)]))"

definition temp_path :: "string \<Rightarrow> string \<Rightarrow> string \<Rightarrow> ('a fs_state_scheme, string) io" where
  "temp_path dir pre suf = bindE (at_path True dir) (\<lambda>(_, n). case n of
       Some (FDir t es) \<Rightarrow> bindE draw (\<lambda>k. ret (FJoin [dir, free_name (map fst es) pre suf k]))
     | Some _ \<Rightarrow> throw enotdir
     | None \<Rightarrow> throw ENotExist)"

text \<open>The new file, with its inode.\<close>

definition CreateTemp :: "string \<Rightarrow> string \<Rightarrow> string \<Rightarrow> ('a fs_state_scheme, string \<times> nat) io" where
  "CreateTemp dir pre suf = bindE (temp_path dir pre suf) (\<lambda>p. bindE (open_create False p 384) (\<lambda>i. ret (p, i)))"

definition MkdirTemp :: "string \<Rightarrow> string \<Rightarrow> ('a fs_state_scheme, string) io" where
  "MkdirTemp dir pre = bindE (temp_path dir pre []) (\<lambda>p. bindE (mkdir_one p) (\<lambda>_. ret p))"

section \<open>Bundles\<close>

definition updateRef :: "'s runner \<Rightarrow> string \<Rightarrow> string \<Rightarrow> string \<Rightarrow> ('s, unit) io" where
  "updateRef runner repoRoot ref sha =
     bindE (git runner repoRoot [''update-ref'', ref, sha] None) (\<lambda>r. case RunErr r of
       Some e \<Rightarrow> throw (EWrap ''update-ref %s: %w'' [ref] e)
     | None \<Rightarrow> guard (ExitCode r = 0) (Errf ''update-ref %s exited %d'' [ref, itoa (ExitCode r)]))"

definition delRef :: "'s runner \<Rightarrow> string \<Rightarrow> string \<Rightarrow> ('s, unit) io" where
  "delRef runner repoRoot ref = bindE (git runner repoRoot [''update-ref'', ''-d'', ref] None) (\<lambda>_. ret ())"

text \<open>The revisions of the bundle: those of the head, less those the receiver has.\<close>

definition bundle_range :: "'s runner \<Rightarrow> string \<Rightarrow> string \<Rightarrow> string \<Rightarrow> string \<Rightarrow> ('s, string) io" where
  "bundle_range runner repoRoot have headRef baseRef =
     (if have = [] then ret headRef
      else
        bindE (updateRef runner repoRoot baseRef have) (\<lambda>_.
        bindE (runGitOutput runner repoRoot [''rev-list'', ''--count'', baseRef @ ''..'' @ headRef]) (\<lambda>count.
        case Atoi count of
          Inl _ \<Rightarrow> throw (ESent ErrBundleEmpty)
        | Inr n \<Rightarrow> if n \<le> 0 then throw (ESent ErrBundleEmpty) else ret (baseRef @ ''..'' @ headRef))))"

definition write_bundle :: "'a fs_state_scheme runner \<Rightarrow> string \<Rightarrow> string \<Rightarrow> string \<Rightarrow> ('a fs_state_scheme, string) io" where
  "write_bundle runner tmp repoRoot rangeArg =
     bindE (CreateTemp tmp ''vci-bundle-'' ''.bundle'') (\<lambda>(tmpPath, _).
     on_error (attempt (Remove tmpPath))
       (bindE os_call (\<lambda>_.
        bindE (git runner repoRoot [''bundle'', ''create'', tmpPath, rangeArg] None) (\<lambda>r.
        bindE (case RunErr r of
            Some e \<Rightarrow> throw (EWrap ''git bundle create: %w'' [] e)
          | None \<Rightarrow> guard (ExitCode r = 0) (Errf ''git bundle create exited %d'' [itoa (ExitCode r)])) (\<lambda>_.
        bindE os_call (\<lambda>_. ret tmpPath))))))"

text \<open>The reader of the bundle stands for the path of its file.\<close>

definition CreateBundle :: "'a fs_state_scheme runner \<Rightarrow> string \<Rightarrow> string \<Rightarrow> string \<Rightarrow> string \<Rightarrow> ('a fs_state_scheme, string) io" where
  "CreateBundle runner tmp repoRoot have head =
     (if have \<noteq> [] \<and> have = head then throw (ESent ErrBundleEmpty)
      else bindE (rand_read 8) (\<lambda>rid.
        let ns = ''refs/vci/'' @ hex_bytes rid @ ''/''; headRef = ns @ ''head''; baseRef = ns @ ''base'' in
        bindE (updateRef runner repoRoot headRef head) (\<lambda>_.
        deferE (bindE (delRef runner repoRoot headRef) (\<lambda>_. delRef runner repoRoot baseRef))
          (bindE (bundle_range runner repoRoot have headRef baseRef) (\<lambda>rangeArg.
           write_bundle runner tmp repoRoot rangeArg)))))"

definition close_bundle :: "string \<Rightarrow> ('a fs_state_scheme, unit) io" where
  "close_bundle path = bindE (attempt os_call) (\<lambda>x. case x of
       Inl e \<Rightarrow> bindE (attempt (Remove path)) (\<lambda>_. throw e)
     | Inr _ \<Rightarrow> Remove path)"

text \<open>\<open>io.ReadAll\<close> and \<open>Close\<close>.\<close>

definition read_bundle :: "string \<Rightarrow> ('a fs_state_scheme, string) io" where
  "read_bundle path = deferE (attempt (close_bundle path)) (ReadFile path)"

section \<open>Local changes\<close>

record untracked_file =
  u_Path :: string
  u_Mode :: nat
  u_Symlink :: bool
  u_Link :: string
  u_Content :: string

record tree_changes =
  lc_Patch :: string
  lc_Untracked :: "untracked_file list"

definition no_changes :: tree_changes where
  "no_changes = \<lparr>lc_Patch = [], lc_Untracked = []\<rparr>"

text \<open>\<open>fs.ModeSymlink\<close>: the mode of a link is this bit and its permissions.\<close>

definition ModeSymlink :: nat where "ModeSymlink = 2 ^ 27"

definition captureFile :: "string \<Rightarrow> string \<Rightarrow> ('a fs_state_scheme, untracked_file) io" where
  "captureFile repoRoot rel =
     (let full = FJoin [repoRoot, rel] in
      bindE (wrapE ''stat %q: %w'' [rel] (Lstat full)) (\<lambda>fi.
      if fi_kind fi = KSymlink then
        bindE (wrapE ''readlink %q: %w'' [rel] (Readlink full)) (\<lambda>target.
        ret \<lparr>u_Path = rel, u_Mode = ModeSymlink + fi_mode fi, u_Symlink = True, u_Link = target, u_Content = []\<rparr>)
      else
        bindE (guard (fi_kind fi = KRegular) (Errf ''untracked %q is not a regular file or symlink'' [rel])) (\<lambda>_.
        bindE (wrapE ''read %q: %w'' [rel] (ReadFile full)) (\<lambda>data.
        ret \<lparr>u_Path = rel, u_Mode = fi_mode fi, u_Symlink = False, u_Link = [], u_Content = data\<rparr>))))"

definition CaptureLocalChanges :: "'a fs_state_scheme runner \<Rightarrow> string \<Rightarrow> ('a fs_state_scheme, tree_changes) io" where
  "CaptureLocalChanges runner repoRoot =
     bindE (git_stdout runner repoRoot [''diff'', ''HEAD'', ''--binary'', ''--no-renames'']) (\<lambda>patch.
     bindE (runGitOutput runner repoRoot [''ls-files'', ''--others'', ''--exclude-standard'', ''-z'']) (\<lambda>paths.
     bindE (foldE (\<lambda>files p. if p = [] then ret files else bindE (captureFile repoRoot p) (\<lambda>f. ret (files @ [f]))) []
       (Split nul paths)) (\<lambda>files.
     ret \<lparr>lc_Patch = patch, lc_Untracked = sort_key u_Path files\<rparr>)))"

text \<open>The permission bits of a mode.\<close>

definition perm :: "nat \<Rightarrow> nat" where "perm m = m mod 512"

definition unsafe_untracked :: "string \<Rightarrow> bool" where
  "unsafe_untracked rel \<longleftrightarrow> rel = ''.'' \<or> rel = ''..'' \<or> HasPrefix rel ''../'' \<or> HasPrefix rel ''/''
     \<or> rel = ''.git'' \<or> HasPrefix rel ''.git/'' \<or> rel = ''.vci'' \<or> HasPrefix rel ''.vci/''"

definition writeUntracked :: "string \<Rightarrow> untracked_file \<Rightarrow> ('a fs_state_scheme, unit) io" where
  "writeUntracked workspace f =
     (let rel = Clean (u_Path f); full = FJoin [workspace, rel] in
      bindE (guard (\<not> unsafe_untracked rel) (Errf ''unsafe untracked path %q'' [u_Path f])) (\<lambda>_.
      bindE (MkdirAll (Dir full)) (\<lambda>_.
      if u_Symlink f then bindE (attempt (Remove full)) (\<lambda>_. Symlink (u_Link f) full)
      else bindE (WriteFile full (u_Content f) (perm (u_Mode f))) (\<lambda>_. Chmod full (perm (u_Mode f))))))"

definition ApplyLC :: "'a fs_state_scheme runner \<Rightarrow> string \<Rightarrow> tree_changes \<Rightarrow> ('a fs_state_scheme, unit) io" where
  "ApplyLC runner workspace lc =
     bindE (if lc_Patch lc = [] then ret ()
       else bindE (git runner workspace [''apply'', ''--binary'', ''--whitespace=nowarn'', ''-''] (Some (lc_Patch lc))) (\<lambda>r. case RunErr r of
           Some e \<Rightarrow> throw (EWrap ''git apply: %w'' [] e)
         | None \<Rightarrow> guard (ExitCode r = 0) (Errf ''git apply exited %d'' [itoa (ExitCode r)]))) (\<lambda>_.
     forE (lc_Untracked lc) (writeUntracked workspace))"

type_synonym tar_writer = "tar_member list \<Rightarrow> string result"
type_synonym tar_reader = "string \<Rightarrow> archive"

definition reg_entry :: "string \<Rightarrow> string \<Rightarrow> nat \<Rightarrow> tar_member" where
  "reg_entry name data mode =
     \<lparr>h_Name = name, h_Typeflag = TypeReg, h_Linkname = [], h_Mode = mode, h_Body = data, h_BodyOK = True\<rparr>"

definition untracked_entry :: "untracked_file \<Rightarrow> tar_member" where
  "untracked_entry f =
     (if u_Symlink f then \<lparr>h_Name = ''f/'' @ u_Path f, h_Typeflag = TypeSymlink, h_Linkname = u_Link f, h_Mode = perm (u_Mode f),
        h_Body = [], h_BodyOK = True\<rparr>
      else reg_entry (''f/'' @ u_Path f) (u_Content f) (perm (u_Mode f)))"

definition writeLCTar :: "tree_changes \<Rightarrow> tar_member list" where
  "writeLCTar lc = (if lc_Patch lc = [] then [] else [reg_entry ''patch'' (lc_Patch lc) 420])
     @ map untracked_entry (sort_key u_Path (lc_Untracked lc))"

definition PackageLC :: "tar_writer \<Rightarrow> tree_changes \<Rightarrow> string result" where
  "PackageLC tar_write lc = tar_write (writeLCTar lc)"

definition unexpected_eof :: err where "unexpected_eof = EOs ''unexpected EOF''"

definition read_change :: "tree_changes \<Rightarrow> tar_member \<Rightarrow> tree_changes result" where
  "read_change lc h =
     (if h_Name h = ''patch'' then (if h_BodyOK h then Inr (lc\<lparr>lc_Patch := h_Body h\<rparr>) else Inl unexpected_eof)
      else if HasPrefix (h_Name h) ''f/'' then
        let path = TrimPrefix (h_Name h) ''f/'' in
        if h_Typeflag h = TypeSymlink then Inr (lc\<lparr>lc_Untracked := lc_Untracked lc
          @ [\<lparr>u_Path = path, u_Mode = perm (h_Mode h), u_Symlink = True, u_Link = h_Linkname h, u_Content = []\<rparr>]\<rparr>)
        else if h_BodyOK h then Inr (lc\<lparr>lc_Untracked := lc_Untracked lc
          @ [\<lparr>u_Path = path, u_Mode = perm (h_Mode h), u_Symlink = False, u_Link = [], u_Content = h_Body h\<rparr>]\<rparr>)
        else Inl unexpected_eof
      else Inl (Errf ''unexpected local-changes tar entry %q'' [h_Name h]))"

fun read_members :: "('b \<Rightarrow> tar_member \<Rightarrow> 'b result) \<Rightarrow> 'b \<Rightarrow> tar_member list \<Rightarrow> 'b result" where
  "read_members f acc [] = Inr acc"
| "read_members f acc (h # hs) = (case f acc h of Inl e \<Rightarrow> Inl e | Inr acc' \<Rightarrow> read_members f acc' hs)"

text \<open>Reading an archive to its end, where the reader may fail.\<close>

definition read_archive :: "string \<Rightarrow> ('b \<Rightarrow> tar_member \<Rightarrow> 'b result) \<Rightarrow> 'b \<Rightarrow> archive \<Rightarrow> 'b result" where
  "read_archive what f acc a = (case read_members f acc (members a) of
       Inl e \<Rightarrow> Inl e
     | Inr x \<Rightarrow> if well_ended a then Inr x else Inl (EWrap (''read '' @ what @ '' tar: %w'') [] unexpected_eof))"

definition UnpackageLC :: "tar_reader \<Rightarrow> string \<Rightarrow> tree_changes result" where
  "UnpackageLC untar data = read_archive ''local-changes'' read_change no_changes (untar data)"

section \<open>Submissions\<close>

record submission =
  s_Head :: string
  s_Base :: string
  s_RemoteURL :: string
  s_Have :: string
  s_Bundle :: string
  s_LocalChanges :: tree_changes

definition no_submission :: submission where
  "no_submission = \<lparr>s_Head = [], s_Base = [], s_RemoteURL = [], s_Have = [], s_Bundle = [], s_LocalChanges = no_changes\<rparr>"

text \<open>\<open>json.Marshal\<close> of a string: UTF-8 text, with the characters of HTML and of control escaped.\<close>

definition json_char :: "char \<Rightarrow> string" where
  "json_char c =
     (let n = of_char c :: nat; bs = CHR 0x5C; u = [bs, CHR ''u'', CHR ''0'', CHR ''0'', hex_digit (n div 16), hex_digit (n mod 16)] in
      if n = 34 \<or> n = 92 then [bs, c]
      else if n = 8 then [bs, CHR ''b''] else if n = 12 then [bs, CHR ''f''] else if n = 10 then [bs, CHR ''n'']
      else if n = 13 then [bs, CHR ''r''] else if n = 9 then [bs, CHR ''t'']
      else if n < 32 \<or> n = 60 \<or> n = 62 \<or> n = 38 then u
      else [c])"

definition json_text :: "string \<Rightarrow> string" where
  "json_text s = [CHR 0x22] @ concat (map json_char s) @ [CHR 0x22]"

definition json_object :: "(string \<times> string) list \<Rightarrow> string" where
  "json_object ms = ''{'' @ Join (map (\<lambda>(k, v). json_text k @ '':'' @ json_text v) ms) '','' @ ''}''"

definition submissionMeta :: "submission \<Rightarrow> string" where
  "submissionMeta s = json_object [(''head'', s_Head s), (''base'', s_Base s), (''remote_url'', s_RemoteURL s), (''have'', s_Have s)]"

definition PackageSubmission :: "tar_writer \<Rightarrow> submission \<Rightarrow> string result" where
  "PackageSubmission tar_write s = (case PackageLC tar_write (s_LocalChanges s) of
       Inl e \<Rightarrow> Inl e
     | Inr lcBytes \<Rightarrow> tar_write ([reg_entry ''meta.json'' (submissionMeta s) 420]
         @ (if s_Bundle s = [] then [] else [reg_entry ''bundle'' (s_Bundle s) 420]) @ [reg_entry ''lc.tar'' lcBytes 420]))"

text \<open>\<open>json.Unmarshal\<close> into the string fields of a structure.\<close>

fun set_fields :: "(string \<times> (string \<Rightarrow> 'b \<Rightarrow> 'b)) list \<Rightarrow> 'b \<Rightarrow> (string \<times> jvalue) list \<Rightarrow> 'b option" where
  "set_fields fs x [] = Some x"
| "set_fields fs x ((k, v) # ms) = (case find (\<lambda>(name, _). EqualFold k name) fs of
       None \<Rightarrow> set_fields fs x ms
     | Some (_, upd) \<Rightarrow> (case v of
           JNull \<Rightarrow> set_fields fs x ms
         | JStr t \<Rightarrow> set_fields fs (upd t x) ms
         | _ \<Rightarrow> None))"

definition meta_fields :: "(string \<times> (string \<Rightarrow> submission \<Rightarrow> submission)) list" where
  "meta_fields = [(''head'', \<lambda>v. s_Head_update (\<lambda>_. v)), (''base'', \<lambda>v. s_Base_update (\<lambda>_. v)),
     (''remote_url'', \<lambda>v. s_RemoteURL_update (\<lambda>_. v)), (''have'', \<lambda>v. s_Have_update (\<lambda>_. v))]"

definition no_meta :: "submission \<Rightarrow> submission" where
  "no_meta s = s\<lparr>s_Head := [], s_Base := [], s_RemoteURL := [], s_Have := []\<rparr>"

definition decode_meta :: "string \<Rightarrow> submission \<Rightarrow> submission result" where
  "decode_meta data s = (case json_parse data of
       Some (JObj ms) \<Rightarrow> (case set_fields meta_fields (no_meta s) ms of
           Some s' \<Rightarrow> Inr s'
         | None \<Rightarrow> Inl (Errf ''decode submission meta: json: cannot unmarshal'' []))
     | Some JNull \<Rightarrow> Inr (no_meta s)
     | _ \<Rightarrow> Inl (Errf ''decode submission meta: invalid JSON'' []))"

text \<open>A member of a submission; the second component holds the bytes of the local changes.\<close>

definition read_submission :: "submission \<times> string option \<Rightarrow> tar_member \<Rightarrow> (submission \<times> string option) result" where
  "read_submission acc h = (case acc of (s, lc) \<Rightarrow>
     if h_Name h = ''meta.json'' then
       (if \<not> h_BodyOK h then Inl unexpected_eof
        else case decode_meta (h_Body h) s of Inl e \<Rightarrow> Inl e | Inr s' \<Rightarrow> Inr (s', lc))
     else if h_Name h = ''bundle'' then (if h_BodyOK h then Inr (s\<lparr>s_Bundle := h_Body h\<rparr>, lc) else Inl unexpected_eof)
     else if h_Name h = ''lc.tar'' then (if h_BodyOK h then Inr (s, Some (h_Body h)) else Inl unexpected_eof)
     else Inl (Errf ''unexpected submission tar entry %q'' [h_Name h]))"

definition UnpackageSubmission :: "tar_reader \<Rightarrow> string \<Rightarrow> submission result" where
  "UnpackageSubmission untar data =
     (case read_archive ''submission'' read_submission (no_submission, None) (untar data) of
        Inl e \<Rightarrow> Inl e
      | Inr (s, None) \<Rightarrow> Inr s
      | Inr (s, Some lcBytes) \<Rightarrow> (case UnpackageLC untar lcBytes of
            Inl e \<Rightarrow> Inl e
          | Inr lc \<Rightarrow> Inr (s\<lparr>s_LocalChanges := lc\<rparr>)))"

section \<open>Workspaces\<close>

definition copy_entry :: "string \<Rightarrow> string \<Rightarrow> (string \<Rightarrow> bool) \<Rightarrow> string \<Rightarrow> file_kind \<Rightarrow> ('a fs_state_scheme, bool) io" where
  "copy_entry src dst skip path k = (case Rel src path of
       None \<Rightarrow> throw (Errf ''Rel: cannot make %s relative to %s'' [path, src])
     | Some rel \<Rightarrow>
         if rel = ''.'' then ret False
         else if skip (Base path) then ret (k = KDir)
         else bindE (Lstat path) (\<lambda>info.
           let target = FJoin [dst, rel] in
           case fi_kind info of
             KSymlink \<Rightarrow> bindE (Readlink path) (\<lambda>link. bindE (Symlink link target) (\<lambda>_. ret False))
           | KDir \<Rightarrow> bindE (MkdirAll target) (\<lambda>_. ret False)
           | KRegular \<Rightarrow>
               bindE (ReadFile path) (\<lambda>data.
               bindE (WriteFile target data (perm (fi_mode info))) (\<lambda>_.
               bindE (Chmod target (perm (fi_mode info))) (\<lambda>_. ret False)))
           | KSpecial \<Rightarrow> throw (Errf ''copy %q: unsupported file type'' [rel])))"

definition CopyWorkspace :: "string \<Rightarrow> string \<Rightarrow> (string \<Rightarrow> bool) \<Rightarrow> ('a fs_state_scheme, unit) io" where
  "CopyWorkspace src dst skip = bindE (MkdirAll dst) (\<lambda>_. WalkDir (copy_entry src dst skip) src)"

definition stage_bundle :: "string \<Rightarrow> string \<Rightarrow> ('a fs_state_scheme, string) io" where
  "stage_bundle tmp bundle =
     bindE (CreateTemp tmp ''vci-recv-'' ''.bundle'') (\<lambda>(tmpPath, i).
     bindE (attempt (write_inode i bundle)) (\<lambda>x. case x of
       Inl e \<Rightarrow> bindE (attempt os_call) (\<lambda>_. bindE (attempt (Remove tmpPath)) (\<lambda>_. throw (EWrap ''stage bundle: %w'' [] e)))
     | Inr _ \<Rightarrow> bindE (attempt os_call) (\<lambda>y. case y of
           Inl e \<Rightarrow> bindE (attempt (Remove tmpPath)) (\<lambda>_. throw (EWrap ''close staged bundle: %w'' [] e))
         | Inr _ \<Rightarrow> ret tmpPath)))"

definition AdvanceToHead :: "'a fs_state_scheme runner \<Rightarrow> string \<Rightarrow> string \<Rightarrow> string \<Rightarrow> string \<Rightarrow> ('a fs_state_scheme, unit) io" where
  "AdvanceToHead runner tmp workspace head bundle =
     bindE (stage_bundle tmp bundle) (\<lambda>tmpPath.
     deferE (attempt (Remove tmpPath))
       (bindE (wrapE ''git bundle unbundle: %w'' [] (runGitOutput runner workspace [''bundle'', ''unbundle'', tmpPath])) (\<lambda>_.
        bindE (wrapE ''git checkout %s: %w'' [head] (runGitOutput runner workspace [''checkout'', ''-q'', head])) (\<lambda>_. ret ()))))"

definition initSubmodules :: "'s runner \<Rightarrow> string \<Rightarrow> ('s, unit) io" where
  "initSubmodules runner workspace =
     bindE (wrapE ''init submodules: %w'' [] (runGitOutput runner workspace [''submodule'', ''update'', ''--init'', ''--recursive''])) (\<lambda>_. ret ())"

definition ReconstructWorkspace ::
  "'a fs_state_scheme runner \<Rightarrow> string \<Rightarrow> string \<Rightarrow> string \<Rightarrow> string \<Rightarrow> string option \<Rightarrow> tree_changes \<Rightarrow> string list \<Rightarrow> ('a fs_state_scheme, unit) io" where
  "ReconstructWorkspace runner tmp seedPath workspace head bundle lc exclusions =
     bindE (if seedPath = [] then
         bindE (guard (bundle \<noteq> None) (Errf ''cannot reconstruct without a seed or a bundle'' [])) (\<lambda>_.
         bindE (MkdirAll workspace) (\<lambda>_.
         bindE (wrapE ''init workspace: %w'' [] (runGitOutput runner workspace [''init'', ''-q''])) (\<lambda>_. ret ())))
       else wrapE ''copy seed: %w'' [] (CopyWorkspace seedPath workspace (\<lambda>name. name = ''.vci''))) (\<lambda>_.
     bindE (case bundle of None \<Rightarrow> ret () | Some b \<Rightarrow> AdvanceToHead runner tmp workspace head b) (\<lambda>_.
     bindE (initSubmodules runner workspace) (\<lambda>_.
     bindE (ApplyLC runner workspace lc) (\<lambda>_.
     ApplyExclusions workspace exclusions))))"

end
