(* ===== verification/Vci_Submission_Laws.thy ===== *)
theory Vci_Submission_Laws
  imports Vci_Submission
begin

text \<open>
  What a client submits is what the coordinator reads: the metadata survives its JSON text, the local
  changes survive their archive, and the submission survives the archive around both.
\<close>

section \<open>JSON text\<close>

lemma hex_digits: "\<forall>n \<in> set [0 ..< 16]. hex_value (hex_digit n) = Some n"
  by code_simp

lemma hex_value_digit: "n < 16 \<Longrightarrow> hex_value (hex_digit n) = Some n"
  using hex_digits by simp

lemma append_one: "(@) [c] = (#) c"
  by (simp add: fun_eq_iff)

lemma escaped_chars: "map char_of [34, 92, 8, 12, 10, 13, 9 :: nat]
    = [CHR 0x22, CHR 0x5C, CHR 0x08, CHR 0x0C, CHR 0x0A, CHR 0x0D, CHR 0x09]"
  by code_simp

lemma json_string_u:
  assumes "n < 128"
  shows "json_string (CHR 0x5C # CHR ''u'' # CHR ''0'' # CHR ''0'' # hex_digit (n div 16) # hex_digit (n mod 16) # t)
    = map_option (apfst (Cons (char_of n))) (json_string t)"
proof -
  have zero: "hex_value (CHR ''0'') = Some 0" by (simp add: hex_value_def)
  have "utf8_of (n div 16 * 16 + n mod 16) = [char_of n]" using assms by (simp add: utf8_of_def)
  moreover have "n div 16 < 16" and "n mod 16 < 16" using assms by auto
  ultimately show ?thesis using zero
    by (subst json_string.simps) (simp add: hex_value_digit append_one del: json_string.simps)
qed

lemma json_string_char:
  assumes c: "of_char c < (128 :: nat)"
  shows "json_string (json_char c @ t) = map_option (apfst (Cons c)) (json_string t)"
proof -
  define n where "n = (of_char c :: nat)"
  have cn: "c = char_of n" by (simp add: n_def)
  have n: "n < 128" using c by (simp add: n_def)
  consider "n \<in> {34, 92, 8, 12, 10, 13, 9}" | "n < 32 \<or> n = 60 \<or> n = 62 \<or> n = 38" "n \<notin> {34, 92, 8, 12, 10, 13, 9}"
    | "\<not> (n < 32 \<or> n = 60 \<or> n = 62 \<or> n = 38)" "n \<notin> {34, 92, 8, 12, 10, 13, 9}" by blast
  then show ?thesis
  proof cases
    case 1
    with escaped_chars have "c \<in> {CHR 0x22, CHR 0x5C, CHR 0x08, CHR 0x0C, CHR 0x0A, CHR 0x0D, CHR 0x09}" by (auto simp: cn)
    then show ?thesis by (elim insertE emptyE) (simp_all add: json_char_def json_escape_def Let_def)
  next
    case 2
    then have "json_char c = [CHR 0x5C, CHR ''u'', CHR ''0'', CHR ''0'', hex_digit (n div 16), hex_digit (n mod 16)]"
      by (auto simp: json_char_def Let_def n_def [symmetric])
    then show ?thesis using json_string_u [OF n, of t] by (simp add: cn)
  next
    case 3
    then have "json_char c = [c]" and "c \<noteq> CHR 0x22" and "c \<noteq> CHR 0x5C"
      by (auto simp: json_char_def Let_def n_def)
    with 3 show ?thesis by (auto simp: n_def [symmetric])
  qed
qed

definition ascii :: "string \<Rightarrow> bool" where
  "ascii s \<longleftrightarrow> list_all (\<lambda>c. of_char c < (128 :: nat)) s"

lemma json_string_text: "ascii s \<Longrightarrow> json_string (concat (map json_char s) @ CHR 0x22 # t) = Some (s, t)"
  unfolding ascii_def by (induction s) (simp_all add: json_string_char)

lemma json_value_text: "ascii s \<Longrightarrow> json_value (Suc n) (json_text s @ t) = Some (JStr s, t)"
  by (simp add: json_text_def skip_space_def json_space_def json_string_text)

lemma json_text_quote: "json_text s = CHR 0x22 # concat (map json_char s) @ [CHR 0x22]"
  by (simp add: json_text_def)

definition member_text :: "string \<times> string \<Rightarrow> string" where
  "member_text m = json_text (fst m) @ '':'' @ json_text (snd m)"

lemma json_members_text:
  assumes "ms \<noteq> []" and "\<forall>(k, v) \<in> set ms. ascii k \<and> ascii v" and "Suc (length ms) \<le> n"
  shows "json_members n (Join (map member_text ms) '','' @ ''}'' @ t) = Some (map (apsnd JStr) ms, t)"
  using assms
proof (induction ms arbitrary: n)
  case Nil
  then show ?case by simp
next
  case (Cons m ms)
  obtain k v where m: "m = (k, v)" by force
  obtain n' where n: "n = Suc (Suc n')" using Cons.prems by (cases n; cases "n - 1") auto
  have kv: "ascii k" "ascii v" using Cons.prems m by auto
  have val: "json_value (Suc n') (json_text v @ u) = Some (JStr v, u)" for u by (rule json_value_text [OF kv(2)])
  note step = json_string_text [OF kv(1)] val
  show ?case
  proof (cases ms)
    case Nil
    then show ?thesis
      by (simp add: m n member_text_def json_text_quote [of k] skip_space_def json_space_def step del: json_value.simps(2) json_string.simps)
  next
    case (Cons m' ms')
    have ih: "json_members (Suc n') (Join (map member_text ms) '','' @ ''}'' @ t) = Some (map (apsnd JStr) ms, t)"
      by (rule Cons.IH) (use Cons Cons.prems n in auto)
    have "Join (map member_text (m # ms)) '','' @ ''}'' @ t
        = CHR 0x22 # concat (map json_char k) @ CHR 0x22 # CHR '':'' # json_text v @ CHR '','' # Join (map member_text ms) '','' @ ''}'' @ t"
      using Cons by (simp add: m member_text_def json_text_quote [of k])
    then show ?thesis using ih unfolding n
      by (subst json_members.simps) (simp add: m skip_space_def json_space_def step del: json_value.simps json_string.simps json_members.simps)
  qed
qed

lemma length_Join: "length ms \<le> Suc (length (Join ms '',''))"
  by (induction ms "'',''" rule: Join.induct) auto

lemma json_parse_object:
  assumes "ms \<noteq> []" and "\<forall>(k, v) \<in> set ms. ascii k \<and> ascii v"
  shows "json_parse (json_object ms) = Some (JObj (map (apsnd JStr) ms))"
proof -
  have obj: "json_object ms = CHR ''{'' # Join (map member_text ms) '','' @ ''}''"
    by (simp add: json_object_def member_text_def [abs_def] case_prod_unfold)
  have fuel: "Suc (length ms) \<le> Suc (2 * length (json_object ms))"
    using length_Join [of "map member_text ms"] by (simp add: obj)
  obtain q cs where q: "Join (map member_text ms) '','' = CHR 0x22 # cs"
    using assms(1) by (cases ms; cases "tl ms") (auto simp: member_text_def json_text_quote)
  show ?thesis
    using json_members_text [OF assms fuel, of "[]"] q
    by (simp add: json_parse_def obj skip_space_def json_space_def del: json_members.simps)
qed

lemma ascii_keys: "list_all ascii [''head'', ''base'', ''remote_url'', ''have'']"
  by code_simp

definition ascii_meta :: "submission \<Rightarrow> bool" where
  "ascii_meta s \<longleftrightarrow> ascii (s_Head s) \<and> ascii (s_Base s) \<and> ascii (s_RemoteURL s) \<and> ascii (s_Have s)"

lemma decode_meta_text:
  assumes "ascii_meta s"
  shows "decode_meta (submissionMeta s) s0
    = Inr (s0\<lparr>s_Head := s_Head s, s_Base := s_Base s, s_RemoteURL := s_RemoteURL s, s_Have := s_Have s\<rparr>)"
proof -
  define ms where "ms = [(''head'', s_Head s), (''base'', s_Base s), (''remote_url'', s_RemoteURL s), (''have'', s_Have s)]"
  have "json_parse (submissionMeta s) = Some (JObj (map (apsnd JStr) ms))"
    unfolding submissionMeta_def ms_def [symmetric] using assms ascii_keys
    by (intro json_parse_object) (auto simp: ms_def ascii_meta_def)
  then show ?thesis
    by (simp add: decode_meta_def ms_def no_meta_def meta_fields_def EqualFold_def fold_rune_def runes_def)
qed

section \<open>Archives\<close>

text \<open>The members the sources write, and what is asked of the two halves of the tar format on them:
  reading back what was written gives the same members.\<close>

definition plain_member :: "tar_member \<Rightarrow> bool" where
  "plain_member h \<longleftrightarrow> h_Name h \<noteq> [] \<and> nul \<notin> set (h_Name h) \<and> \<not> HasSuffix (h_Name h) ''/'' \<and> h_Mode h < 512 \<and> h_BodyOK h
     \<and> (h_Typeflag h = TypeReg \<and> h_Linkname h = [] \<or> h_Typeflag h = TypeSymlink \<and> nul \<notin> set (h_Linkname h) \<and> h_Body h = [])"

definition tar_reads_back :: "tar_writer \<Rightarrow> tar_reader \<Rightarrow> bool" where
  "tar_reads_back tar_write untar \<longleftrightarrow> (\<forall>ms b. list_all plain_member ms \<longrightarrow> tar_write ms = Inr b \<longrightarrow>
     untar b = \<lparr>members = ms, well_ended = True\<rparr>)"

text \<open>A file as the capture records it: a path Git can list, and no link text for a regular file. An archive
  holds the permission bits of its mode, which are all that \<open>ApplyLC\<close> uses.\<close>

definition capturable :: "untracked_file \<Rightarrow> bool" where
  "capturable f \<longleftrightarrow> u_Path f \<noteq> [] \<and> nul \<notin> set (u_Path f) \<and> \<not> HasSuffix (u_Path f) ''/''
     \<and> (if u_Symlink f then u_Content f = [] \<and> nul \<notin> set (u_Link f) else u_Link f = [])"

definition archived :: "untracked_file \<Rightarrow> untracked_file" where
  "archived f = f\<lparr>u_Mode := perm (u_Mode f)\<rparr>"

lemma perm_small: "perm m < 512" "m < 512 \<Longrightarrow> perm m = m" "perm (ModeSymlink + m) = perm m"
  using mod_mult_self2 [of m 512 262144] by (simp_all add: perm_def ModeSymlink_def add.commute)

lemma reg_entry_plain:
  "name \<noteq> [] \<Longrightarrow> nul \<notin> set name \<Longrightarrow> \<not> HasSuffix name ''/'' \<Longrightarrow> mode < 512 \<Longrightarrow> plain_member (reg_entry name data mode)"
  by (simp add: plain_member_def reg_entry_def)

lemma HasSuffix_last: "HasSuffix s [c] \<longleftrightarrow> s \<noteq> [] \<and> last s = c"
  by (cases s rule: rev_cases) (auto simp: HasSuffix_def)

lemma untracked_entry_plain: "capturable f \<Longrightarrow> plain_member (untracked_entry f)"
  by (auto simp: capturable_def untracked_entry_def plain_member_def reg_entry_def perm_small HasSuffix_last)

lemma read_change_untracked:
  "capturable f \<Longrightarrow> read_change lc (untracked_entry f) = Inr (lc\<lparr>lc_Untracked := lc_Untracked lc @ [archived f]\<rparr>)"
  by (cases f) (auto simp: capturable_def archived_def untracked_entry_def read_change_def reg_entry_def perm_def TrimPrefix_def HasPrefix_def)

lemma read_untracked_all:
  "list_all capturable fs \<Longrightarrow> read_members read_change lc (map untracked_entry fs) = Inr (lc\<lparr>lc_Untracked := lc_Untracked lc @ map archived fs\<rparr>)"
  by (induction fs arbitrary: lc) (simp_all add: read_change_untracked)

lemma writeLCTar_plain: "list_all capturable (lc_Untracked lc) \<Longrightarrow> list_all plain_member (writeLCTar lc)"
  by (auto simp: writeLCTar_def list_all_iff untracked_entry_plain intro!: reg_entry_plain) (simp add: HasSuffix_def)

lemma UnpackageLC_PackageLC:
  assumes tar: "tar_reads_back tar_write untar" and fs: "list_all capturable (lc_Untracked lc)" and b: "PackageLC tar_write lc = Inr b"
  shows "UnpackageLC untar b = Inr (lc\<lparr>lc_Untracked := map archived (sort_key u_Path (lc_Untracked lc))\<rparr>)"
proof -
  have "untar b = \<lparr>members = writeLCTar lc, well_ended = True\<rparr>"
    using tar b writeLCTar_plain [OF fs] by (auto simp: tar_reads_back_def PackageLC_def)
  moreover have "list_all capturable (sort_key u_Path (lc_Untracked lc))" using fs by (simp add: list_all_iff)
  then have "read_members read_change no_changes (writeLCTar lc) = Inr (lc\<lparr>lc_Untracked := map archived (sort_key u_Path (lc_Untracked lc))\<rparr>)"
    by (auto simp: writeLCTar_def read_untracked_all no_changes_def read_change_def reg_entry_def)
  ultimately show ?thesis by (simp add: UnpackageLC_def read_archive_def)
qed

section \<open>Submissions\<close>

text \<open>
  C21: What the client packages is what the coordinator unpacks: for every submission whose metadata is
  ASCII text and whose untracked files are as the capture records them, a submission that could be
  packaged unpacks without an error to the same submission, with the untracked files by path and with the
  permission bits of their modes (a link's mode loses the bit that says it is one, which another field
  says too). The tar format is used only through its promise to read back what was written.
\<close>

theorem submission_roundtrip:
  assumes "tar_reads_back tar_write untar"
    and "ascii_meta s" and "list_all capturable (lc_Untracked (s_LocalChanges s))"
    and "PackageSubmission tar_write s = Inr b"
  shows "UnpackageSubmission untar b
    = Inr (s\<lparr>s_LocalChanges := (s_LocalChanges s)\<lparr>lc_Untracked := map archived (sort_key u_Path (lc_Untracked (s_LocalChanges s)))\<rparr>\<rparr>)"
proof -
  obtain lcBytes where lc: "PackageLC tar_write (s_LocalChanges s) = Inr lcBytes"
    using assms(4) by (auto simp: PackageSubmission_def split: sum.splits)
  define ms where "ms = [reg_entry ''meta.json'' (submissionMeta s) 420]
    @ (if s_Bundle s = [] then [] else [reg_entry ''bundle'' (s_Bundle s) 420]) @ [reg_entry ''lc.tar'' lcBytes 420]"
  have "list_all plain_member ms"
    by (auto simp: ms_def HasSuffix_def intro!: reg_entry_plain)
  moreover have "tar_write ms = Inr b" using assms(4) lc by (simp add: PackageSubmission_def ms_def)
  ultimately have arch: "untar b = \<lparr>members = ms, well_ended = True\<rparr>"
    using assms(1) by (simp add: tar_reads_back_def)
  have "read_members read_submission (no_submission, None) ms = Inr (s\<lparr>s_LocalChanges := no_changes\<rparr>, Some lcBytes)"
    by (auto simp: ms_def read_submission_def reg_entry_def decode_meta_text [OF assms(2)] no_submission_def)
  then show ?thesis
    using UnpackageLC_PackageLC [OF assms(1,3) lc] by (simp add: UnpackageSubmission_def read_archive_def arch)
qed

section \<open>An example\<close>

text \<open>A commit with one new file and one new link, and a tar format that knows the two archives in question.\<close>

definition ex_file :: untracked_file where
  "ex_file = \<lparr>u_Path = ''notes.txt'', u_Mode = 420, u_Symlink = False, u_Link = [], u_Content = ''todo''\<rparr>"

definition ex_link :: untracked_file where
  "ex_link = \<lparr>u_Path = ''latest'', u_Mode = ModeSymlink + 511, u_Symlink = True, u_Link = ''notes.txt'', u_Content = []\<rparr>"

definition ex_submission :: submission where
  "ex_submission = \<lparr>s_Head = ''c2'', s_Base = ''c1'', s_RemoteURL = ''https://h/r?a=1&b=2'', s_Have = ''c1'', s_Bundle = ''objects'',
     s_LocalChanges = \<lparr>lc_Patch = ''diff'', lc_Untracked = [ex_file, ex_link]\<rparr>\<rparr>"

definition ex_members :: "tar_member list" where
  "ex_members = [reg_entry ''meta.json'' (submissionMeta ex_submission) 420, reg_entry ''bundle'' ''objects'' 420, reg_entry ''lc.tar'' ''LC'' 420]"

definition ex_tar_write :: tar_writer where
  "ex_tar_write ms = (if ms = writeLCTar (s_LocalChanges ex_submission) then Inr ''LC''
     else if ms = ex_members then Inr ''SUB'' else Inl (EOs ''no space left on device''))"

definition ex_untar :: tar_reader where
  "ex_untar b = \<lparr>members = (if b = ''LC'' then writeLCTar (s_LocalChanges ex_submission) else ex_members), well_ended = True\<rparr>"

lemma ex_tar: "tar_reads_back ex_tar_write ex_untar"
  by (auto simp: tar_reads_back_def ex_tar_write_def ex_untar_def split: if_splits)

lemma ex_archives_differ: "ex_members \<noteq> writeLCTar (s_LocalChanges ex_submission)"
  by (simp add: ex_members_def writeLCTar_def ex_submission_def reg_entry_def)

theorem submission_roundtrip_witness:
  "PackageSubmission ex_tar_write ex_submission = Inr ''SUB''
   \<and> UnpackageSubmission ex_untar ''SUB'' = Inr (ex_submission\<lparr>s_LocalChanges :=
       (s_LocalChanges ex_submission)\<lparr>lc_Untracked := [ex_link\<lparr>u_Mode := 511\<rparr>, ex_file]\<rparr>\<rparr>)"
proof -
  have pack: "PackageSubmission ex_tar_write ex_submission = Inr ''SUB''"
    using ex_archives_differ
    by (simp add: PackageSubmission_def PackageLC_def ex_tar_write_def ex_members_def) (simp add: ex_submission_def)
  have "ascii_meta ex_submission" by (simp add: ascii_meta_def ex_submission_def ascii_def)
  moreover have "list_all capturable (lc_Untracked (s_LocalChanges ex_submission))"
    by (simp add: ex_submission_def ex_file_def ex_link_def capturable_def HasSuffix_def)
  moreover have "map archived (sort_key u_Path (lc_Untracked (s_LocalChanges ex_submission))) = [ex_link\<lparr>u_Mode := 511\<rparr>, ex_file]"
    by (simp add: ex_submission_def ex_file_def ex_link_def archived_def perm_small)
  ultimately show ?thesis using submission_roundtrip [OF ex_tar _ _ pack] pack by simp
qed

end
