(* ===== verification/Vci_Envelope.thy ===== *)
theory Vci_Envelope
  imports Vci_Submission Vci_Setup Vci_Reaper
begin

text \<open>
  The JSON envelope that every command but three prints, and that a client reads back from its coordinator
  over ssh: printing JSON values, the response of a command (\<open>cli/core.go\<close>), the two readers of a remote
  response (\<open>validEnvelope\<close> in \<open>app/remote.go\<close>, \<open>decodeRemoteResponse\<close> in \<open>cli/run.go\<close>) and the mapping of
  errors to their public codes (\<open>classify\<close>).
\<close>

section \<open>Printing JSON\<close>

text \<open>\<open>json.Marshal\<close> of a value: no blanks, and the strings with the characters of HTML escaped.\<close>

fun json_print :: "jvalue \<Rightarrow> string"
  and json_print_items :: "jvalue list \<Rightarrow> string list"
  and json_print_members :: "(string \<times> jvalue) list \<Rightarrow> string list" where
  "json_print JNull = ''null''"
| "json_print (JBool b) = (if b then ''true'' else ''false'')"
| "json_print (JNum t) = t"
| "json_print (JStr s) = json_text s"
| "json_print (JArr xs) = ''['' @ Join (json_print_items xs) '','' @ '']''"
| "json_print (JObj ms) = ''{'' @ Join (json_print_members ms) '','' @ ''}''"
| "json_print_items [] = []"
| "json_print_items (x # xs) = json_print x # json_print_items xs"
| "json_print_members [] = []"
| "json_print_members ((k, v) # ms) = (json_text k @ '':'' @ json_print v) # json_print_members ms"

text \<open>
  A value decoded into \<open>any\<close>: an object is a map, so a later member of a name replaces an earlier one and
  the names are sorted when it is printed again; a number goes through a \<open>float64\<close>, which is the parameter
  \<open>num\<close> (the text of a number to the text it is printed as again, when it is in range).
\<close>

definition insert_member :: "string \<Rightarrow> jvalue \<Rightarrow> (string \<times> jvalue) list \<Rightarrow> (string \<times> jvalue) list" where
  "insert_member k v ms = insort_key fst (k, v) (filter (\<lambda>m. fst m \<noteq> k) ms)"

fun any_value :: "(string \<Rightarrow> string option) \<Rightarrow> jvalue \<Rightarrow> jvalue option"
  and any_items :: "(string \<Rightarrow> string option) \<Rightarrow> jvalue list \<Rightarrow> jvalue list option"
  and any_members :: "(string \<Rightarrow> string option) \<Rightarrow> (string \<times> jvalue) list \<Rightarrow> (string \<times> jvalue) list \<Rightarrow> (string \<times> jvalue) list option" where
  "any_value num JNull = Some JNull"
| "any_value num (JBool b) = Some (JBool b)"
| "any_value num (JNum t) = map_option JNum (num t)"
| "any_value num (JStr s) = Some (JStr s)"
| "any_value num (JArr xs) = map_option JArr (any_items num xs)"
| "any_value num (JObj ms) = map_option JObj (any_members num [] ms)"
| "any_items num [] = Some []"
| "any_items num (x # xs) = (case any_value num x of None \<Rightarrow> None | Some y \<Rightarrow> map_option (Cons y) (any_items num xs))"
| "any_members num acc [] = Some acc"
| "any_members num acc ((k, v) # ms) = (case any_value num v of
     None \<Rightarrow> None
   | Some u \<Rightarrow> any_members num (insert_member k u acc) ms)"

section \<open>Responses\<close>

record details =
  dt_Version :: string
  dt_Commit :: string
  dt_BuildDate :: string
  dt_GoVersion :: string
  dt_OS :: string
  dt_Arch :: string

record version_schemas =
  vs_Envelope :: int
  vs_ConfigCurrent :: int
  vs_ConfigSupported :: "int list"
  vs_Run :: int
  vs_Execution :: int
  vs_Claim :: int

text \<open>
  The dynamic types of the field \<open>Data any\<close>: the values of the application, a map written out by the
  command, and what was decoded from a remote response.
\<close>

datatype data =
    DVersion details version_schemas
  | DReport reap_report retention_report
  | DMachines "machine_view list"
  | DProjects "(string \<times> project) list"
  | DSummary summary_view
  | DRecord run_record
  | DObj "(string \<times> jvalue) list"
  | DJson jvalue

record response =
  rs_SchemaVersion :: int
  rs_Command :: string
  rs_OK :: bool
  rs_Data :: "data option"
  rs_Error :: "vci_error option"

definition EnvelopeSchemaVersion :: int where "EnvelopeSchemaVersion = 1"

definition Success :: "string \<Rightarrow> data option \<Rightarrow> response" where
  "Success command d = \<lparr>rs_SchemaVersion = EnvelopeSchemaVersion, rs_Command = command, rs_OK = True,
     rs_Data = Some (case d of None \<Rightarrow> DObj [] | Some v \<Rightarrow> v), rs_Error = None\<rparr>"

definition Failure :: "string \<Rightarrow> vci_error \<Rightarrow> response" where
  "Failure command e = \<lparr>rs_SchemaVersion = EnvelopeSchemaVersion, rs_Command = command, rs_OK = False,
     rs_Data = Some (DObj []), rs_Error = Some e\<rparr>"

text \<open>
  The JSON of a response, as \<open>json.NewEncoder\<close> writes it. \<open>marshal\<close> is the encoding of the values of the
  application by the tags of their fields; the keys of a map are sorted.
\<close>

definition data_json :: "(data \<Rightarrow> jvalue) \<Rightarrow> data \<Rightarrow> jvalue" where
  "data_json marshal d = (case d of DObj ms \<Rightarrow> JObj (sort_key fst ms) | DJson v \<Rightarrow> v | _ \<Rightarrow> marshal d)"

definition error_json :: "vci_error \<Rightarrow> jvalue" where
  "error_json e = JObj [(''code'', JStr (e_code e)), (''class'', JStr (class_text (e_class e))),
     (''message'', JStr (e_message e)), (''retryable'', JBool (e_retryable e))]"

definition response_json :: "(data \<Rightarrow> jvalue) \<Rightarrow> response \<Rightarrow> jvalue" where
  "response_json marshal r = JObj [(''schema_version'', JNum (itoa (rs_SchemaVersion r))), (''command'', JStr (rs_Command r)),
     (''ok'', JBool (rs_OK r)), (''data'', case rs_Data r of None \<Rightarrow> JNull | Some d \<Rightarrow> data_json marshal d),
     (''error'', case rs_Error r of None \<Rightarrow> JNull | Some e \<Rightarrow> error_json e)]"

definition Encode :: "(data \<Rightarrow> jvalue) \<Rightarrow> response \<Rightarrow> string" where
  "Encode marshal r = json_print (response_json marshal r) @ [CHR 0x0A]"

section \<open>Reading a response\<close>

text \<open>
  \<open>json.Unmarshal\<close> into a structure: a field is a name and what its value does to the structure, \<open>None\<close> when
  the value does not fit; every member whose name is that of a field up to case is decoded into it.
\<close>

fun unmarshal_fields :: "(string \<times> (jvalue \<Rightarrow> 'b \<Rightarrow> 'b option)) list \<Rightarrow> 'b \<Rightarrow> (string \<times> jvalue) list \<Rightarrow> 'b option" where
  "unmarshal_fields fs x [] = Some x"
| "unmarshal_fields fs x ((k, v) # ms) = (case find (\<lambda>(name, _). EqualFold k name) fs of
       None \<Rightarrow> unmarshal_fields fs x ms
     | Some (_, upd) \<Rightarrow> (case upd v x of None \<Rightarrow> None | Some y \<Rightarrow> unmarshal_fields fs y ms))"

definition unmarshal_struct :: "(string \<times> (jvalue \<Rightarrow> 'b \<Rightarrow> 'b option)) list \<Rightarrow> 'b \<Rightarrow> jvalue \<Rightarrow> 'b option" where
  "unmarshal_struct fs x v = (case v of JObj ms \<Rightarrow> unmarshal_fields fs x ms | JNull \<Rightarrow> Some x | _ \<Rightarrow> None)"

definition into_int :: "(int \<Rightarrow> 'b \<Rightarrow> 'b) \<Rightarrow> jvalue \<Rightarrow> 'b \<Rightarrow> 'b option" where
  "into_int upd v x = (case v of
       JNum t \<Rightarrow> (case Atoi t of Inr i \<Rightarrow> Some (upd i x) | Inl _ \<Rightarrow> None)
     | JNull \<Rightarrow> Some x
     | _ \<Rightarrow> None)"

definition into_string :: "(string \<Rightarrow> 'b \<Rightarrow> 'b) \<Rightarrow> jvalue \<Rightarrow> 'b \<Rightarrow> 'b option" where
  "into_string upd v x = (case v of JStr s \<Rightarrow> Some (upd s x) | JNull \<Rightarrow> Some x | _ \<Rightarrow> None)"

definition into_bool :: "(bool \<Rightarrow> 'b \<Rightarrow> 'b) \<Rightarrow> jvalue \<Rightarrow> 'b \<Rightarrow> 'b option" where
  "into_bool upd v x = (case v of JBool b \<Rightarrow> Some (upd b x) | JNull \<Rightarrow> Some x | _ \<Rightarrow> None)"

subsection \<open>The envelope, as the application checks it\<close>

record envelope =
  en_SchemaVersion :: int
  en_Command :: "string option"
  en_OK :: "bool option"
  en_Data :: "jvalue option"
  en_Error :: "jvalue option"

definition envelope_fields :: "(string \<times> (jvalue \<Rightarrow> envelope \<Rightarrow> envelope option)) list" where
  "envelope_fields =
     [(''schema_version'', into_int (\<lambda>i. en_SchemaVersion_update (\<lambda>_. i))),
      (''command'', \<lambda>v x. case v of
          JNull \<Rightarrow> Some (x\<lparr>en_Command := None\<rparr>) | JStr s \<Rightarrow> Some (x\<lparr>en_Command := Some s\<rparr>) | _ \<Rightarrow> None),
      (''ok'', \<lambda>v x. case v of
          JNull \<Rightarrow> Some (x\<lparr>en_OK := None\<rparr>) | JBool b \<Rightarrow> Some (x\<lparr>en_OK := Some b\<rparr>) | _ \<Rightarrow> None),
      (''data'', \<lambda>v x. Some (x\<lparr>en_Data := Some v\<rparr>)),
      (''error'', \<lambda>v x. Some (x\<lparr>en_Error := Some v\<rparr>))]"

definition remote_error_fields :: "(string \<times> (jvalue \<Rightarrow> string \<times> string \<times> string \<Rightarrow> (string \<times> string \<times> string) option)) list" where
  "remote_error_fields =
     [(''code'', into_string (\<lambda>s (c, k, m). (s, k, m))), (''class'', into_string (\<lambda>s (c, k, m). (c, s, m))),
      (''message'', into_string (\<lambda>s (c, k, m). (c, k, s)))]"

definition no_error :: "jvalue option \<Rightarrow> bool" where
  "no_error e \<longleftrightarrow> e = None \<or> e = Some JNull"

definition valid_remote_error :: "jvalue \<Rightarrow> bool" where
  "valid_remote_error v = (case unmarshal_struct remote_error_fields ([], [], []) v of
       None \<Rightarrow> False
     | Some (code, cls, message) \<Rightarrow> code \<noteq> [] \<and> cls \<noteq> [] \<and> message \<noteq> [])"

definition validEnvelope :: "string \<Rightarrow> bool" where
  "validEnvelope bytes = (case json_parse bytes of
       None \<Rightarrow> False
     | Some v \<Rightarrow> (case unmarshal_struct envelope_fields
           \<lparr>en_SchemaVersion = 0, en_Command = None, en_OK = None, en_Data = None, en_Error = None\<rparr> v of
         None \<Rightarrow> False
       | Some x \<Rightarrow>
           if en_SchemaVersion x \<noteq> EnvelopeSchemaVersion \<or> en_Command x = None \<or> en_Command x = Some [] \<or> en_OK x = None \<or> en_Data x = None
           then False
           else if en_OK x = Some True then no_error (en_Error x)
           else if no_error (en_Error x) then False
           else valid_remote_error (the (en_Error x))))"

subsection \<open>The envelope, as the command line decodes it\<close>

definition zero_error :: vci_error where
  "zero_error = \<lparr>e_code = [], e_class = FailureOther [], e_message = [], e_retryable = False\<rparr>"

definition error_fields :: "(string \<times> (jvalue \<Rightarrow> vci_error \<Rightarrow> vci_error option)) list" where
  "error_fields =
     [(''code'', into_string (\<lambda>s. e_code_update (\<lambda>_. s))), (''class'', into_string (\<lambda>s. e_class_update (\<lambda>_. class_of s))),
      (''message'', into_string (\<lambda>s. e_message_update (\<lambda>_. s))), (''retryable'', into_bool (\<lambda>b. e_retryable_update (\<lambda>_. b)))]"

text \<open>A pointer is allocated when it is nil and decoded into when it is not.\<close>

definition response_fields :: "(string \<Rightarrow> string option) \<Rightarrow> (string \<times> (jvalue \<Rightarrow> response \<Rightarrow> response option)) list" where
  "response_fields num =
     [(''schema_version'', into_int (\<lambda>i. rs_SchemaVersion_update (\<lambda>_. i))),
      (''command'', into_string (\<lambda>s. rs_Command_update (\<lambda>_. s))),
      (''ok'', into_bool (\<lambda>b. rs_OK_update (\<lambda>_. b))),
      (''data'', \<lambda>v x. case v of
          JNull \<Rightarrow> Some (x\<lparr>rs_Data := None\<rparr>)
        | _ \<Rightarrow> map_option (\<lambda>u. x\<lparr>rs_Data := Some (DJson u)\<rparr>) (any_value num v)),
      (''error'', \<lambda>v x. case v of
          JNull \<Rightarrow> Some (x\<lparr>rs_Error := None\<rparr>)
        | _ \<Rightarrow> map_option (\<lambda>e. x\<lparr>rs_Error := Some e\<rparr>)
            (unmarshal_struct error_fields (case rs_Error x of None \<Rightarrow> zero_error | Some e \<Rightarrow> e) v))]"

definition zero_response :: response where
  "zero_response = \<lparr>rs_SchemaVersion = 0, rs_Command = [], rs_OK = False, rs_Data = None, rs_Error = None\<rparr>"

definition decode_response :: "(string \<Rightarrow> string option) \<Rightarrow> string \<Rightarrow> response option" where
  "decode_response num raw = (case json_parse raw of
       None \<Rightarrow> None
     | Some v \<Rightarrow> unmarshal_struct (response_fields num) zero_response v)"

text \<open>\<open>jerr\<close> is the text of the error of \<open>json.Unmarshal\<close> on input it does not accept.\<close>

definition decodeRemoteResponse :: "(string \<Rightarrow> string option) \<Rightarrow> (string \<Rightarrow> string) \<Rightarrow> string \<Rightarrow> string \<Rightarrow> response \<times> int" where
  "decodeRemoteResponse num jerr command raw = (case decode_response num raw of
       None \<Rightarrow> (Failure command (NewError ''remote_invalid_response'' FailureInfrastructure (jerr raw) True), 2)
     | Some r \<Rightarrow>
         if rs_SchemaVersion r \<noteq> EnvelopeSchemaVersion then
           (Failure command (NewError ''remote_schema_mismatch'' FailureInfrastructure ''remote response schema is unsupported'' True), 2)
         else if rs_Command r \<noteq> command \<or> rs_Data r = None \<or> (\<not> rs_OK r \<and> rs_Error r = None) \<or> (rs_OK r \<and> rs_Error r \<noteq> None) then
           (Failure command (NewError ''remote_invalid_response'' FailureInfrastructure ''remote response has an invalid envelope'' True), 2)
         else if \<not> rs_OK r then (r, 2)
         else (r, 0))"

definition errorEnvelope :: "(string \<Rightarrow> string option) \<Rightarrow> string \<Rightarrow> vci_error option" where
  "errorEnvelope num raw = (case decode_response num raw of
       None \<Rightarrow> None
     | Some r \<Rightarrow> if rs_SchemaVersion r \<noteq> EnvelopeSchemaVersion \<or> rs_OK r then None else rs_Error r)"

section \<open>Public errors\<close>

text \<open>\<open>strings.ToLower\<close>, as far as a search for ASCII words can tell: a rune that is not ASCII keeps its place.\<close>

definition ToLower :: "string \<Rightarrow> string" where
  "ToLower s = map (\<lambda>r. char_of (if r < 128 then r else 255)) (map lower_rune (runes s))"

definition mentions :: "string \<Rightarrow> string list \<Rightarrow> bool" where
  "mentions lower words \<longleftrightarrow> list_ex (Contains lower) words"

text \<open>The sentinels, in the order they are asked for.\<close>

definition typed_classes :: "(sentinel \<times> string \<times> failure_class \<times> bool) list" where
  "typed_classes =
     [(ErrSubmoduleUnavailable, ''submodule_unavailable'', FailureConfiguration, False),
      (ErrLFSContentUnavailable, ''lfs_content_unavailable'', FailureConfiguration, False),
      (ErrHostedFallbackNotConfigured, ''hosted_fallback_not_configured'', FailureConfiguration, False),
      (ErrHostedFallbackInvalid, ''hosted_fallback_invalid'', FailureConfiguration, False),
      (ErrHostedSourceUnavailable, ''hosted_source_unavailable'', FailureInfrastructure, True),
      (ErrHostedSourceIntegrityFailed, ''hosted_source_integrity_failed'', FailureInfrastructure, False),
      (ErrRuntimeUnavailable, ''runtime_unavailable'', FailureInfrastructure, True),
      (ErrRuntimeImageNotFound, ''runtime_image_not_found'', FailureConfiguration, False)]"

definition classify_text :: "string \<Rightarrow> string \<times> failure_class \<times> bool" where
  "classify_text lower =
     (if mentions lower [''cannot be aborted'', ''is terminal''] then (''terminal_run'', FailureState, False)
      else if mentions lower [''ownership'', ''leased'', ''lease''] then (''stale_ownership'', FailureState, True)
      else if mentions lower [''already has a result'', ''publish''] then (''publication_failed'', FailureState, False)
      else if mentions lower [''ssh'', ''tar:'', ''unreachable'', ''connection'', ''invalid json'', ''invalid response'',
          ''select build input'', ''unsupported source'', ''source cache''] then (''remote_unavailable'', FailureInfrastructure, True)
      else if mentions lower [''lock''] then (''lock_failed'', FailureState, True)
      else (''operation_failed'', FailureConfiguration, False))"

definition classify :: "err \<Rightarrow> string \<times> failure_class \<times> string \<times> bool" where
  "classify e =
     (let message = err_text e in
      if err_is e ErrNoCapacity then (''machine_unavailable'', FailureState, message, True)
      else case as_busy e of
          Some live \<Rightarrow> (''coordinator_busy'', FailureState, err_text (EBusy live), True)
        | None \<Rightarrow> (case find (\<lambda>(s, _). err_is e s) typed_classes of
              Some (_, code, cls, retryable) \<Rightarrow> (code, cls, message, retryable)
            | None \<Rightarrow> (case classify_text (ToLower message) of (code, cls, retryable) \<Rightarrow> (code, cls, message, retryable))))"

definition classified :: "err \<Rightarrow> vci_error" where
  "classified e = (case classify e of (code, cls, message, retryable) \<Rightarrow> NewError code cls message retryable)"

definition appFailure :: "string \<Rightarrow> err \<Rightarrow> response" where
  "appFailure command e = Failure command (classified e)"

definition artifactsError :: "err \<Rightarrow> vci_error" where
  "artifactsError e =
     (if err_is e ErrRunNotFound \<or> err_is e ErrArtifactNotFound then NewError ''not_found'' FailureConfiguration (err_text e) False
      else if err_is e ErrInvalidArtifactPath then NewError ''invalid_arguments'' FailureUsage (err_text e) False
      else if err_is e ErrTargetSelect then NewError ''invalid_arguments'' FailureUsage (err_text e) False
      else classified e)"

definition logsError :: "err \<Rightarrow> vci_error" where
  "logsError e =
     (if err_is e ErrRunNotFound \<or> err_is e ErrLogNotFound then NewError ''not_found'' FailureConfiguration (err_text e) False
      else if err_is e ErrInvalidLogStream then NewError ''invalid_arguments'' FailureUsage (err_text e) False
      else if err_is e ErrTargetSelect then NewError ''invalid_arguments'' FailureUsage (err_text e) False
      else classified e)"

end
