(* ===== verification/Vci_Version.thy ===== *)
theory Vci_Version
  imports Vci_Envelope
begin

text \<open>
  \<open>internal/version\<close>: the identity of the running binary, from the release variables the linker sets, the
  build information of the Go toolchain and the tracked file \<open>VERSION\<close>; and the schema versions beside it.
\<close>

definition Cut :: "char \<Rightarrow> string \<Rightarrow> string \<times> string \<times> bool" where
  "Cut c s = (case dropWhile (\<lambda>x. x \<noteq> c) s of
       [] \<Rightarrow> (s, [], False)
     | _ # rest \<Rightarrow> (takeWhile (\<lambda>x. x \<noteq> c) s, rest, True))"

section \<open>Semantic versions\<close>

definition numeric_ident :: "string \<Rightarrow> bool" where
  "numeric_ident s \<longleftrightarrow> s \<noteq> [] \<and> list_all is_digit s \<and> (s = ''0'' \<or> hd s \<noteq> CHR ''0'')"

definition ident_char :: "char \<Rightarrow> bool" where
  "ident_char c \<longleftrightarrow> alnum c \<or> c = CHR ''-''"

definition idents :: "string \<Rightarrow> bool" where
  "idents s \<longleftrightarrow> list_all (\<lambda>p. p \<noteq> [] \<and> list_all ident_char p) (Split CHR ''.'' s)"

text \<open>\<open>semverPattern\<close>: neither the core nor a pre-release holds a plus, and the core holds no hyphen.\<close>

definition ValidVersion :: "string \<Rightarrow> bool" where
  "ValidVersion s =
     (case Cut CHR ''+'' s of (main, build, has_build) \<Rightarrow>
      case Cut CHR ''-'' main of (core, pre, has_pre) \<Rightarrow>
        length (Split CHR ''.'' core) = 3 \<and> list_all numeric_ident (Split CHR ''.'' core)
        \<and> (has_pre \<longrightarrow> idents pre) \<and> (has_build \<longrightarrow> idents build))"

definition normalize :: "string \<Rightarrow> string" where
  "normalize value = TrimPrefix (TrimSpace value) ''v''"

section \<open>The running binary\<close>

text \<open>\<open>debug.BuildInfo\<close>, and what the linker and the platform set.\<close>

record build_info =
  bi_MainVersion :: string
  bi_Settings :: "(string \<times> string) list"

record binary =
  embeddedVersion :: string
  releaseVersion :: string
  releaseCommit :: string
  releaseDate :: string
  runtimeBuildInfo :: "build_info option"
  goVersion :: string
  goOS :: string
  goArch :: string

definition resolvedVersion :: "binary \<Rightarrow> string" where
  "resolvedVersion b =
     (let trimmed = TrimSpace (embeddedVersion b); base = (if ValidVersion trimmed then trimmed else ''0.0.0'') in
      if ValidVersion (normalize (releaseVersion b)) then normalize (releaseVersion b)
      else case runtimeBuildInfo b of
          Some info \<Rightarrow> if ValidVersion (normalize (bi_MainVersion info)) then normalize (bi_MainVersion info) else base @ ''-dev''
        | None \<Rightarrow> base @ ''-dev'')"

definition resolvedSetting :: "build_info option \<Rightarrow> string \<Rightarrow> string \<Rightarrow> string" where
  "resolvedSetting info key override =
     (if TrimSpace override \<noteq> [] then TrimSpace override
      else case info of
          None \<Rightarrow> ''unknown''
        | Some i \<Rightarrow> (case find (\<lambda>(k, v). k = key \<and> TrimSpace v \<noteq> [] \<and> v \<noteq> ''unknown'') (bi_Settings i) of
              Some (k, v) \<Rightarrow> TrimSpace v
            | None \<Rightarrow> ''unknown''))"

definition CurrentDetails :: "binary \<Rightarrow> details" where
  "CurrentDetails b = \<lparr>dt_Version = resolvedVersion b,
     dt_Commit = resolvedSetting (runtimeBuildInfo b) ''vcs.revision'' (releaseCommit b),
     dt_BuildDate = resolvedSetting (runtimeBuildInfo b) ''vcs.time'' (releaseDate b),
     dt_GoVersion = goVersion b, dt_OS = goOS b, dt_Arch = goArch b\<rparr>"

text \<open>The versions of the schemas: configurations of version 1 and 2 are read, 2 is written.\<close>

definition currentSchemas :: version_schemas where
  "currentSchemas = \<lparr>vs_Envelope = EnvelopeSchemaVersion, vs_ConfigCurrent = 2,
     vs_ConfigSupported = map int (filter (\<lambda>v. supportedSchemaVersions (int v)) [0 ..< 10]),
     vs_Run = 1, vs_Execution = 1, vs_Claim = ClaimSchemaVersion\<rparr>"

definition currentVersionData :: "binary \<Rightarrow> data" where
  "currentVersionData b = DVersion (CurrentDetails b) currentSchemas"

end
