(* ===== verification/Vci_Manifest.thy ===== *)
theory Vci_Manifest
  imports Vci_Submission
begin

text \<open>
  \<open>internal/source\<close>, pinned sources: the manifest of a tree and its store of blobs (\<open>manifest.go\<close>),
  snapshots and their digest (\<open>snapshot.go\<close>), and the checkout of a hosted commit (\<open>hosted.go\<close>). The
  hash is a parameter, \<open>sha\<close>, from bytes to the hexadecimal digest. Files get the mode they are created
  with (no umask); directory modes are not part of the model.
\<close>

section \<open>Walking with a result\<close>

text \<open>\<open>filepath.WalkDir\<close> with a visitor that appends to a variable of its caller.\<close>

function walk_fold :: "nat \<Rightarrow> ('b \<Rightarrow> string \<Rightarrow> file_kind \<Rightarrow> ('a fs_state_scheme, 'b \<times> bool) io) \<Rightarrow> 'b \<Rightarrow> string \<Rightarrow> file_kind \<Rightarrow> ('a fs_state_scheme, 'b \<times> bool) io"
  and walk_fold_entries :: "nat \<Rightarrow> ('b \<Rightarrow> string \<Rightarrow> file_kind \<Rightarrow> ('a fs_state_scheme, 'b \<times> bool) io) \<Rightarrow> 'b \<Rightarrow> string \<Rightarrow> (string \<times> fnode) list \<Rightarrow> ('a fs_state_scheme, 'b \<times> bool) io" where
  "walk_fold 0 f acc p k = throw (EOs ''file name too long'')"
| "walk_fold (Suc n) f acc p k = bindE (f acc p k) (\<lambda>(acc, skip).
     if skip \<or> k \<noteq> KDir then ret (acc, skip \<and> k \<noteq> KDir)
     else bindE (ReadDir p) (\<lambda>es. walk_fold_entries n f acc p es))"
| "walk_fold_entries n f acc p [] = ret (acc, False)"
| "walk_fold_entries n f acc p (e # es) = bindE (walk_fold n f acc (FJoin [p, fst e]) (kind_of (snd e))) (\<lambda>(acc, skip).
     if skip then ret (acc, False) else walk_fold_entries n f acc p es)"
  by pat_completeness auto

termination
  by (relation "measures [\<lambda>x. case x of Inl (n, _) \<Rightarrow> 2 * n | Inr (n, _) \<Rightarrow> 2 * n + 1, \<lambda>x. case x of Inl _ \<Rightarrow> 0 | Inr (_, _, _, _, es) \<Rightarrow> length es]") auto

definition WalkDirFold :: "('b \<Rightarrow> string \<Rightarrow> file_kind \<Rightarrow> ('a fs_state_scheme, 'b \<times> bool) io) \<Rightarrow> 'b \<Rightarrow> string \<Rightarrow> ('a fs_state_scheme, 'b) io" where
  "WalkDirFold f acc root = bindE (Lstat root) (\<lambda>info. bindE (walk_fold path_max f acc root (fi_kind info)) (\<lambda>(acc, _). ret acc))"

text \<open>\<open>os.Rename\<close>; an existing directory is never replaced.\<close>

definition Rename :: "string \<Rightarrow> string \<Rightarrow> ('a fs_state_scheme, unit) io" where
  "Rename old new = bindE (at_path False old) (\<lambda>(q, m). bindE (at_path False new) (\<lambda>(q', n). case (m, n) of
       (None, _) \<Rightarrow> throw ENotExist
     | (Some node, Some (FDir _ _)) \<Rightarrow> throw eexist
     | (Some node, _) \<Rightarrow>
         if take (length q) q' = q then (if q' = q then ret () else throw (EOs ''invalid argument''))
         else set_disk (\<lambda>t d. put_at t q' (Some node) (put_at t q None d))))"

text \<open>\<open>os.Mkdir\<close>.\<close>

definition Mkdir :: "string \<Rightarrow> ('a fs_state_scheme, unit) io" where
  "Mkdir p = bindE (at_path False p) (\<lambda>(q, n). if n \<noteq> None then throw eexist else set_disk (\<lambda>t. put_at t q (Some (FDir t []))))"

section \<open>Manifests\<close>

record manifest_entry =
  e_Path :: string
  e_Kind :: string
  e_Mode :: nat
  e_Size :: int
  e_Digest :: string
  e_Target :: string

record manifest =
  mf_Version :: int
  mf_Entries :: "manifest_entry list"
  mf_Digest :: string

definition isGitComponent :: "string \<Rightarrow> bool" where
  "isGitComponent rel \<longleftrightarrow> list_ex (\<lambda>segment. segment = ''.git'') (Split slash rel)"

definition isExcludedComponent :: "string \<Rightarrow> bool" where
  "isExcludedComponent rel \<longleftrightarrow> isGitComponent rel \<or> Base rel = ''.gitmodules''"

text \<open>The text of the manifest that is hashed: \<open>json.Marshal\<close> of the version and the entries.\<close>

definition json_fields :: "(string \<times> string) list \<Rightarrow> string" where
  "json_fields ms = ''{'' @ Join (map (\<lambda>(k, v). json_text k @ '':'' @ v) ms) '','' @ ''}''"

definition entry_text :: "manifest_entry \<Rightarrow> string" where
  "entry_text e = json_fields ([(''path'', json_text (e_Path e)), (''kind'', json_text (e_Kind e)), (''mode'', itoa (int (e_Mode e)))]
     @ (if e_Size e = 0 then [] else [(''size'', itoa (e_Size e))])
     @ (if e_Digest e = [] then [] else [(''digest'', json_text (e_Digest e))])
     @ (if e_Target e = [] then [] else [(''target'', json_text (e_Target e))]))"

definition canonical_text :: "int \<Rightarrow> manifest_entry list \<Rightarrow> string" where
  "canonical_text version entries =
     json_fields [(''version'', itoa version), (''entries'', ''['' @ Join (map entry_text entries) '','' @ '']'')]"

type_synonym blobs = "(string \<times> string) list"

definition build_file :: "(string \<Rightarrow> string) \<Rightarrow> string \<Rightarrow> string \<Rightarrow> file_info \<Rightarrow> manifest_entry \<Rightarrow> blobs \<Rightarrow> ('a fs_state_scheme, manifest_entry \<times> blobs) io" where
  "build_file sha path rel info e blobs =
     bindE (ReadFile path) (\<lambda>data.
     bindE (Stat path) (\<lambda>afterInfo.
     bindE (guard (fi_size afterInfo = fi_size info \<and> fi_mtime afterInfo = fi_mtime info) (Errf ''source_changed_during_staging: %s'' [rel])) (\<lambda>_.
     let digest = sha data in
     ret (e\<lparr>e_Kind := ''file'', e_Size := fi_size info, e_Digest := digest\<rparr>, AList.update digest data blobs))))"

definition build_visit :: "(string \<Rightarrow> string) \<Rightarrow> string \<Rightarrow> manifest_entry list \<times> blobs \<Rightarrow> string \<Rightarrow> file_kind
    \<Rightarrow> ('a fs_state_scheme, (manifest_entry list \<times> blobs) \<times> bool) io" where
  "build_visit sha root acc path k = (case acc of (entries, blobs) \<Rightarrow>
     if path = root then ret (acc, False)
     else case Rel root path of
         None \<Rightarrow> throw (Errf ''Rel: cannot make %s relative to %s'' [path, root])
       | Some rel \<Rightarrow>
           if isExcludedComponent rel then ret (acc, k = KDir)
           else
             bindE (Lstat path) (\<lambda>info.
             let e = \<lparr>e_Path = rel, e_Kind = [], e_Mode = perm (fi_mode info), e_Size = 0, e_Digest = [], e_Target = []\<rparr> in
             bindE (if k = KSymlink then bindE (Readlink path) (\<lambda>target. ret (e\<lparr>e_Kind := ''symlink'', e_Target := target\<rparr>, blobs))
               else if k = KDir then ret (e\<lparr>e_Kind := ''dir''\<rparr>, blobs)
               else if fi_kind info = KRegular then build_file sha path rel info e blobs
               else throw (Errf ''unsupported source file: %s'' [rel])) (\<lambda>(e', blobs').
             ret ((entries @ [e'], blobs'), False))))"

definition BuildManifest :: "(string \<Rightarrow> string) \<Rightarrow> string \<Rightarrow> ('a fs_state_scheme, manifest \<times> blobs) io" where
  "BuildManifest sha root =
     bindE (WalkDirFold (build_visit sha root) ([], []) root) (\<lambda>(entries, blobs).
     let sorted_entries = sort_key e_Path entries in
     ret (\<lparr>mf_Version = 1, mf_Entries = sorted_entries, mf_Digest = sha (canonical_text 1 sorted_entries)\<rparr>, blobs))"

definition check_lfs_file :: "string \<Rightarrow> string \<Rightarrow> ('a fs_state_scheme, unit) io" where
  "check_lfs_file root rel =
     (let full = FJoin [root, rel] in
      bindE (wrapE ''lfs-attributed file %s: %w'' [rel] (Lstat full)) (\<lambda>info.
      bindE (guard (fi_kind info = KRegular) (Errf ''lfs-attributed file %s is not regular'' [rel])) (\<lambda>_.
      bindE (wrapE ''read lfs-attributed file %s: %w'' [rel] (ReadFile full)) (\<lambda>data.
      guard (\<not> isLFSPointer data) (EWrap ''%w: %s'' [rel] (ESent ErrLFSContentUnavailable))))))"

definition BuildWithValidation :: "(string \<Rightarrow> string) \<Rightarrow> string \<Rightarrow> string list \<Rightarrow> ('a fs_state_scheme, manifest \<times> blobs) io" where
  "BuildWithValidation sha root lfsFiles =
     bindE (BuildManifest sha root) (\<lambda>mb. bindE (forE lfsFiles (check_lfs_file root)) (\<lambda>_. ret mb))"

section \<open>The store of blobs\<close>

definition write_temp :: "string \<Rightarrow> nat \<Rightarrow> string \<Rightarrow> nat \<Rightarrow> string \<Rightarrow> ('a fs_state_scheme, unit) io" where
  "write_temp name i data mode path =
     bindE (Chmod name mode) (\<lambda>_.
     bindE (write_inode i data) (\<lambda>_.
     bindE os_call (\<lambda>_. bindE os_call (\<lambda>_. Rename name path))))"

definition atomicWrite :: "string \<Rightarrow> string \<Rightarrow> nat \<Rightarrow> ('a fs_state_scheme, unit) io" where
  "atomicWrite path data mode =
     bindE (MkdirAll (Dir path)) (\<lambda>_.
     bindE (CreateTemp (Dir path) ''.vci-'' []) (\<lambda>(name, i).
     deferE (attempt (Remove name)) (write_temp name i data mode path)))"

definition putBlob :: "(string \<Rightarrow> string) \<Rightarrow> layout \<Rightarrow> string \<times> string \<Rightarrow> ('a fs_state_scheme, unit) io" where
  "putBlob sha l blob = (case blob of (digest, data) \<Rightarrow>
     bindE (guard (sha data = digest) (Errf ''blob digest mismatch: %s'' [digest])) (\<lambda>_.
     let path = FJoin [BlobsDir l, digest] in
     bindE (attempt (ReadFile path)) (\<lambda>x. case x of
       Inr existing \<Rightarrow> guard (existing = data) (Errf ''existing blob is corrupt: %s'' [digest])
     | Inl _ \<Rightarrow> atomicWrite path data 256)))"

text \<open>\<open>json.MarshalIndent\<close> and \<open>json.Unmarshal\<close> of a whole manifest are a pair of parameters.\<close>

record manifest_codec =
  mf_encode :: "manifest \<Rightarrow> string"
  mf_decode :: "string \<Rightarrow> manifest result"

definition ensure_layout :: "layout \<Rightarrow> ('a fs_state_scheme, unit) io" where
  "ensure_layout l = bindE (guard (l \<noteq> []) (Errf ''vci root is empty'' [])) (\<lambda>_.
     forE (layout_dirs l) (\<lambda>dir.
       bindE (wrapE ''create %s: %w'' [dir] (MkdirAll dir)) (\<lambda>_. wrapE ''protect %s: %w'' [dir] (Chmod dir 448))))"

definition PutManifestAndBlobs :: "(string \<Rightarrow> string) \<Rightarrow> manifest_codec \<Rightarrow> layout \<Rightarrow> manifest \<Rightarrow> blobs \<Rightarrow> ('a fs_state_scheme, unit) io" where
  "PutManifestAndBlobs sha codec l m blobs =
     bindE (ensure_layout l) (\<lambda>_.
     bindE (forE blobs (putBlob sha l)) (\<lambda>_.
     atomicWrite (FJoin [ManifestsDir l, mf_Digest m @ ''.json'']) (mf_encode codec m) 384))"

definition LoadManifest :: "manifest_codec \<Rightarrow> layout \<Rightarrow> string \<Rightarrow> ('a fs_state_scheme, manifest) io" where
  "LoadManifest codec l digest =
     bindE (guard (digest \<noteq> []) (Errf ''manifest digest is empty'' [])) (\<lambda>_.
     bindE (ReadFile (FJoin [ManifestsDir l, digest @ ''.json''])) (\<lambda>data.
     bindE (lift_result (mf_decode codec data)) (\<lambda>m.
     bindE (guard (mf_Digest m = digest) (Errf ''manifest digest mismatch: %s'' [digest])) (\<lambda>_.
     ret m))))"

definition safeJoin_source :: "string \<Rightarrow> string \<Rightarrow> ('a fs_state_scheme, string) io" where
  "safeJoin_source root rel =
     bindE (guard (\<not> (rel = [] \<or> IsAbs rel \<or> HasPrefix rel ''../'' \<or> Clean rel = ''..'')) (Errf ''unsafe source path %q'' [rel])) (\<lambda>_.
     let path = FJoin [root, rel] in
     bindE (Abs root) (\<lambda>cleanRoot.
     bindE (Abs path) (\<lambda>cleanPath.
     bindE (guard (cleanPath = cleanRoot \<or> HasPrefix cleanPath (cleanRoot @ ''/'')) (Errf ''source path escapes workspace: %q'' [rel])) (\<lambda>_.
     ret path))))"

definition materialize_entry :: "(string \<Rightarrow> string) \<Rightarrow> layout \<Rightarrow> string \<Rightarrow> manifest_entry \<Rightarrow> ('a fs_state_scheme, unit) io" where
  "materialize_entry sha l destination e =
     bindE (safeJoin_source destination (e_Path e)) (\<lambda>path.
     if e_Kind e = ''dir'' then bindE (MkdirAll path) (\<lambda>_. Chmod path (e_Mode e))
     else if e_Kind e = ''file'' then
       bindE (wrapE ''read blob %s: %w'' [e_Digest e] (ReadFile (FJoin [BlobsDir l, e_Digest e]))) (\<lambda>data.
       bindE (guard (sha data = e_Digest e) (Errf ''source blob corrupt: %s'' [e_Digest e])) (\<lambda>_.
       bindE (MkdirAll (Dir path)) (\<lambda>_.
       bindE (WriteFile path data (e_Mode e)) (\<lambda>_. Chmod path (e_Mode e)))))
     else if e_Kind e = ''symlink'' then bindE (MkdirAll (Dir path)) (\<lambda>_. Symlink (e_Target e) path)
     else throw (Errf ''unsupported manifest kind %q'' [e_Kind e]))"

text \<open>Directories first, then the other entries, each by path.\<close>

definition materialize_order :: "manifest_entry list \<Rightarrow> manifest_entry list" where
  "materialize_order es = sort_key e_Path (filter (\<lambda>e. e_Kind e = ''dir'') es) @ sort_key e_Path (filter (\<lambda>e. e_Kind e \<noteq> ''dir'') es)"

definition Materialize :: "(string \<Rightarrow> string) \<Rightarrow> layout \<Rightarrow> manifest \<Rightarrow> string \<Rightarrow> ('a fs_state_scheme, unit) io" where
  "Materialize sha l m destination =
     bindE (MkdirAll destination) (\<lambda>_.
     bindE (forE (materialize_order (mf_Entries m)) (materialize_entry sha l destination)) (\<lambda>_.
     bindE (BuildManifest sha destination) (\<lambda>(actual, _).
     guard (mf_Digest actual = mf_Digest m) (Errf ''materialized workspace does not match manifest'' []))))"

section \<open>Snapshots\<close>

definition allowedTopLevelGitMarkers :: "string \<Rightarrow> bool" where
  "allowedTopLevelGitMarkers p \<longleftrightarrow> p \<in> {''.git/HEAD'', ''.git/objects'', ''.git/refs''}"

definition snapshot_entry :: "string \<Rightarrow> string \<Rightarrow> string \<Rightarrow> ('a fs_state_scheme, unit) io" where
  "snapshot_entry inputRoot root p =
     (if isExcludedComponent p \<and> \<not> allowedTopLevelGitMarkers p then ret ()
      else
        let src = FJoin [inputRoot, p]; dest = FJoin [root, p]; parent = wrapE ''snapshot mkdir parent %s: %w'' [p] (MkdirAll (Dir dest)) in
        bindE (wrapE ''snapshot stat %s: %w'' [p] (Lstat src)) (\<lambda>fi. case fi_kind fi of
          KDir \<Rightarrow> wrapE ''snapshot mkdir %s: %w'' [p] (MkdirAll dest)
        | KSymlink \<Rightarrow>
            bindE (wrapE ''snapshot readlink %s: %w'' [p] (Readlink src)) (\<lambda>target.
            bindE parent (\<lambda>_. wrapE ''snapshot symlink %s: %w'' [p] (Symlink target dest)))
        | KRegular \<Rightarrow>
            bindE (wrapE ''snapshot read %s: %w'' [p] (ReadFile src)) (\<lambda>data.
            bindE parent (\<lambda>_. wrapE ''snapshot write %s: %w'' [p] (WriteFile dest data (perm (fi_mode fi)))))
        | KSpecial \<Rightarrow> throw (Errf ''snapshot: unsupported source entry %s'' [p])))"

definition MaterializeSnapshot :: "source_input \<Rightarrow> string \<Rightarrow> ('a fs_state_scheme, string) io" where
  "MaterializeSnapshot input destParent =
     bindE (ValidateInput input) (\<lambda>validated.
     bindE (wrapE ''snapshot mkdir: %w'' [] (MkdirTemp destParent ''vci-snapshot-'')) (\<lambda>root.
     on_error (attempt (RemoveAll root))
       (bindE (wrapE ''snapshot protect: %w'' [] (Chmod root 448)) (\<lambda>_.
        bindE (forE (si_Files validated) (snapshot_entry (si_Root validated) root)) (\<lambda>_.
        bindE (ValidateLFSPointers root (si_LFSFiles validated)) (\<lambda>_. ret root))))))"

record canonical_input =
  c_Path :: string
  c_Kind :: string
  c_Mode :: string
  c_Target :: string
  c_Bytes :: string

text \<open>\<open>%o\<close>.\<close>

fun octal :: "nat \<Rightarrow> string" where
  "octal n = (if n < 8 then [digit n] else octal (n div 8) @ [digit (n mod 8)])"

definition canonical_visit :: "string \<Rightarrow> canonical_input list \<Rightarrow> string \<Rightarrow> file_kind \<Rightarrow> ('a fs_state_scheme, canonical_input list \<times> bool) io" where
  "canonical_visit root entries path k = (case Rel root path of
       None \<Rightarrow> throw (Errf ''Rel: cannot make %s relative to %s'' [path, root])
     | Some rel \<Rightarrow>
         if rel = ''.'' then ret (entries, False)
         else
           bindE (Lstat path) (\<lambda>info.
           let e = \<lparr>c_Path = rel, c_Kind = [], c_Mode = [], c_Target = [], c_Bytes = []\<rparr> in
           bindE (if k = KSymlink then
               bindE (wrapE ''snapshot digest readlink %s: %w'' [rel] (Readlink path)) (\<lambda>target. ret (e\<lparr>c_Kind := ''symlink'', c_Target := target\<rparr>))
             else if k = KDir then ret (e\<lparr>c_Kind := ''dir''\<rparr>)
             else if fi_kind info = KRegular then
               bindE (wrapE ''snapshot digest read %s: %w'' [rel] (ReadFile path)) (\<lambda>data.
               ret (e\<lparr>c_Kind := ''file'', c_Mode := octal (perm (fi_mode info)), c_Bytes := data\<rparr>))
             else throw (Errf ''snapshot digest: unsupported entry %s'' [rel])) (\<lambda>e'.
           ret (entries @ [e'], False))))"

definition CanonicalizeSnapshot :: "string \<Rightarrow> ('a fs_state_scheme, canonical_input list) io" where
  "CanonicalizeSnapshot root = bindE (WalkDirFold (canonical_visit root) [] root) (\<lambda>entries. ret (sort_key c_Path entries))"

text \<open>What is written to the hash for an entry.\<close>

definition canonical_bytes :: "canonical_input \<Rightarrow> string" where
  "canonical_bytes e = c_Path e @ [nul] @ c_Kind e @ [nul] @ c_Mode e @ [nul] @ c_Target e @ [nul]
     @ (if c_Kind e = ''file'' then c_Bytes e else []) @ [nul]"

definition CanonicalDigest :: "(string \<Rightarrow> string) \<Rightarrow> canonical_input list \<Rightarrow> string" where
  "CanonicalDigest sha canonical = ''sha256-'' @ sha (concat (map canonical_bytes canonical))"

section \<open>Hosted checkouts\<close>

text \<open>The environment is the list of the entries \<open>NAME=value\<close>; an entry without an equals sign is dropped.\<close>

definition env_name :: "string \<Rightarrow> string" where
  "env_name kv = takeWhile (\<lambda>c. c \<noteq> CHR ''='') kv"

definition safeCheckoutEnv :: "string list \<Rightarrow> string list" where
  "safeCheckoutEnv environ =
     filter (\<lambda>kv. CHR ''='' \<in> set kv \<and> env_name kv \<notin> {''GIT_TERMINAL_PROMPT'', ''GIT_ASKPASS'', ''GIT_ASKPASS_REQUIRE''}) environ
     @ [''GIT_TERMINAL_PROMPT=0'', ''GIT_ASKPASS=true'', ''GIT_ASKPASS_REQUIRE=force'']"

text \<open>A runner that is given the environment of the process.\<close>

type_synonym 's env_runner = "string list \<Rightarrow> 's runner"

definition runHostedGitRead :: "'s env_runner \<Rightarrow> string list \<Rightarrow> string list \<Rightarrow> ('s, string) io" where
  "runHostedGitRead runner env args = bindE (exec (runner env) ''git'' args None) (\<lambda>r. case RunErr r of
       Some e \<Rightarrow> throw (Errf ''%v (stderr=%q)'' [err_text e, TrimSpace (ErrOutput r)])
     | None \<Rightarrow> if ExitCode r \<noteq> 0 then throw (Errf ''exit %d (stderr=%q)'' [itoa (ExitCode r), TrimSpace (ErrOutput r)])
         else ret (Output r))"

definition runHostedGit :: "'s env_runner \<Rightarrow> string list \<Rightarrow> string list \<Rightarrow> ('s, unit) io" where
  "runHostedGit runner env args = bindE (runHostedGitRead runner env args) (\<lambda>_. ret ())"

definition hosted_err :: "sentinel \<Rightarrow> string \<Rightarrow> string list \<Rightarrow> err" where
  "hosted_err s f args = EWrap (''%w: '' @ f) args (ESent s)"

text \<open>One step of the checkout: its error is reported as an unavailable source.\<close>

definition hosted_step :: "string \<Rightarrow> ('s, 'b) io \<Rightarrow> ('s, 'b) io" where
  "hosted_step what m = bindE (attempt m) (\<lambda>x. case x of
       Inl e \<Rightarrow> throw (hosted_err ErrHostedSourceUnavailable (what @ '': %v'') [err_text e])
     | Inr v \<Rightarrow> ret v)"

definition fetch_commit :: "'s env_runner \<Rightarrow> string list \<Rightarrow> string \<Rightarrow> hosted_fallback \<Rightarrow> ('s, unit) io" where
  "fetch_commit runner env checkoutDir h =
     bindE (hosted_step ''git init'' (runHostedGit runner env [''init'', ''-q'', checkoutDir])) (\<lambda>_.
     bindE (hosted_step ''git remote add'' (runHostedGit runner env [''-C'', checkoutDir, ''remote'', ''add'', ''origin'', URL h])) (\<lambda>_.
     bindE (hosted_step ''git fetch'' (runHostedGit runner env [''-c'', ''core.hooksPath=/dev/null'', ''-c'', ''protocol.file.allow=never'',
       ''-c'', ''protocol.version=2'', ''-C'', checkoutDir, ''fetch'', ''--depth=1'', ''--no-tags'', ''origin'', Commit h])) (\<lambda>_.
     hosted_step ''git checkout'' (runHostedGit runner env [''-c'', ''core.hooksPath=/dev/null'', ''-C'', checkoutDir,
       ''checkout'', ''--detach'', ''--quiet'', ''FETCH_HEAD'']))))"

definition verify_head :: "'s env_runner \<Rightarrow> string list \<Rightarrow> string \<Rightarrow> hosted_fallback \<Rightarrow> ('s, unit) io" where
  "verify_head runner env checkoutDir h =
     bindE (hosted_step ''git rev-parse HEAD'' (runHostedGitRead runner env [''-C'', checkoutDir, ''rev-parse'', ''--verify'', ''HEAD''])) (\<lambda>out.
     let head = TrimSpace out in
     bindE (guard (head \<noteq> []) (hosted_err ErrHostedSourceIntegrityFailed ''empty HEAD after checkout'' [])) (\<lambda>_.
     guard (head = Commit h) (hosted_err ErrHostedSourceIntegrityFailed ''HEAD %s does not match pinned %s'' [head, Commit h])))"

definition Checkout :: "'a fs_state_scheme env_runner \<Rightarrow> string list \<Rightarrow> layout \<Rightarrow> string \<Rightarrow> hosted_fallback \<Rightarrow> ('a fs_state_scheme, string) io" where
  "Checkout runner environ l projectName h =
     bindE (guard (ValidName projectName) (hosted_err ErrHostedFallbackInvalid ''project name %q is invalid'' [projectName])) (\<lambda>_.
     bindE (guard (URL h \<noteq> [] \<and> Commit h \<noteq> []) (hosted_err ErrHostedFallbackInvalid ''validated URL or commit is empty'' [])) (\<lambda>_.
     bindE (wrapE ''prepare hosted checkout dir: %w'' [] (ensure_layout l)) (\<lambda>_.
     bindE (wrapE ''create hosted parent: %w'' [] (MkdirTemp (TempDir l) ''vci-hosted-'')) (\<lambda>parent.
     on_error (attempt (RemoveAll parent))
       (bindE (wrapE ''protect hosted parent: %w'' [] (Chmod parent 448)) (\<lambda>_.
        let checkoutDir = FJoin [parent, projectName]; env = safeCheckoutEnv environ in
        bindE (wrapE ''create hosted checkout: %w'' [] (Mkdir checkoutDir)) (\<lambda>_.
        bindE (fetch_commit runner env checkoutDir h) (\<lambda>_.
        bindE (verify_head runner env checkoutDir h) (\<lambda>_. ret checkoutDir)))))))))"

text \<open>\<open>filepath.EvalSymlinks\<close> of an absolute path.\<close>

definition EvalSymlinks :: "string \<Rightarrow> ('a fs_state_scheme, string) io" where
  "EvalSymlinks p = bindE (at_path True p) (\<lambda>(q, n). case n of None \<Rightarrow> throw ENotExist | Some _ \<Rightarrow> ret (slash # Join q ''/''))"

text \<open>Upwards to a directory whose name has the prefix; every step makes the path shorter, so that its
  length bounds the steps.\<close>

primrec hosted_root :: "nat \<Rightarrow> string \<Rightarrow> string option" where
  "hosted_root 0 target = None"
| "hosted_root (Suc n) target =
     (if HasPrefix (Base target) ''vci-hosted-'' then Some target
      else if Dir target = target then None else hosted_root n (Dir target))"

text \<open>The walk that makes everything removable passes over whatever fails.\<close>

primrec chmod_sweep :: "nat \<Rightarrow> string \<Rightarrow> file_kind \<Rightarrow> ('a fs_state_scheme, unit) io" where
  "chmod_sweep 0 p k = ret ()"
| "chmod_sweep (Suc n) p k =
     bindE (attempt (Chmod p (if k = KDir then 448 else 384))) (\<lambda>_.
     if k \<noteq> KDir then ret ()
     else bindE (attempt (ReadDir p)) (\<lambda>x. case x of
         Inl _ \<Rightarrow> ret ()
       | Inr es \<Rightarrow> forE es (\<lambda>e. chmod_sweep n (FJoin [p, fst e]) (kind_of (snd e)))))"

definition outside_temp :: "string \<Rightarrow> string \<Rightarrow> ('a fs_state_scheme, bool) io" where
  "outside_temp tempDir target =
     (if tempDir = [] then ret False
      else bindE (attempt (EvalSymlinks tempDir)) (\<lambda>x. ret (case x of
          Inl _ \<Rightarrow> False
        | Inr realTmp \<Rightarrow> (case Rel realTmp target of None \<Rightarrow> True | Some rel \<Rightarrow> rel = ''..'' \<or> HasPrefix rel ''../''))))"

definition remove_hosted :: "string \<Rightarrow> ('a fs_state_scheme, unit) io" where
  "remove_hosted target =
     bindE (attempt (Lstat target)) (\<lambda>y.
     bindE (case y of Inl _ \<Rightarrow> ret () | Inr info \<Rightarrow> chmod_sweep path_max target (fi_kind info)) (\<lambda>_.
     bindE (attempt (RemoveAll target)) (\<lambda>z. case z of
       Inl e \<Rightarrow> throw (hosted_err ErrHostedSourceUnavailable ''remove %s: %v'' [target, err_text e])
     | Inr _ \<Rightarrow> ret ())))"

definition cleanUnder :: "string \<Rightarrow> string \<Rightarrow> ('a fs_state_scheme, unit) io" where
  "cleanUnder root tempDir =
     bindE (guard (root \<noteq> []) (hosted_err ErrHostedSourceUnavailable ''empty root'' [])) (\<lambda>_.
     bindE (attempt (EvalSymlinks root)) (\<lambda>x. case x of
       Inl e \<Rightarrow> if IsNotExist e then ret () else throw (hosted_err ErrHostedSourceUnavailable ''resolve root: %v'' [err_text e])
     | Inr real \<Rightarrow> (case hosted_root (Suc (length real)) real of
           None \<Rightarrow> throw (hosted_err ErrHostedSourceIntegrityFailed ''%s is not inside a vci-hosted root'' [root])
         | Some target \<Rightarrow>
             bindE (outside_temp tempDir target) (\<lambda>out.
             bindE (guard (\<not> out) (hosted_err ErrHostedSourceIntegrityFailed ''%s is outside the vci temp dir'' [target])) (\<lambda>_.
             remove_hosted target)))))"

definition CleanUnder :: "string \<Rightarrow> string \<Rightarrow> ('a fs_state_scheme, unit) io" where "CleanUnder root tempDir = cleanUnder root tempDir"
definition CleanHosted :: "string \<Rightarrow> ('a fs_state_scheme, unit) io" where "CleanHosted root = cleanUnder root []"

end
