(* ===== verification/Vci_Runtime.thy ===== *)
theory Vci_Runtime
  imports Vci_Lifecycle Vci_Manifest
begin

text \<open>
  \<open>internal/runtime\<close>: the executors of a job, bare (\<open>Local\<close>), in a container (\<open>Docker\<close>, \<open>docker.go\<close>) and in
  a virtual machine (\<open>VM\<close>, \<open>vm.go\<close>), and the supervised process under them (\<open>RunSupervised\<close> of
  \<open>internal/process/process.go\<close>).

  The state of a coordinator is the run store with the scheduler (\<open>app_state\<close>) beside a file system for
  everything else: sources, workspaces, temporary files. Programs on the file system run on that part
  and share the clock, the faults and the random bytes (\<open>on_fs\<close>). Starting a process and waiting for it are
  parameters; both may change the files.
\<close>

section \<open>The state of the coordinator\<close>

text \<open>\<open>ctx_done\<close> and \<open>ownership_lost\<close> are the variables the goroutines of a worker share: whether its context
  has ended, and whether its lease is lost. \<open>watch_ended\<close> says that the watch of the cancellation has returned.\<close>

record build_state = app_state +
  filesys :: fs_state
  ctx_done :: bool
  watch_ended :: bool
  ownership_lost :: bool

definition files_view :: "'a build_state_scheme \<Rightarrow> fs_state" where
  "files_view w = (filesys w)\<lparr>faults := faults w, clock := clock w, entropy := entropy w, windows := windows w\<rparr>"

definition on_fs :: "(fs_state, 'b) io \<Rightarrow> ('a build_state_scheme, 'b) io" where
  "on_fs m = (\<lambda>w. case m (files_view w) of (r, f) \<Rightarrow> (r, w\<lparr>filesys := f, faults := faults f, entropy := entropy f\<rparr>))"

section \<open>Supervised processes\<close>

record proc_command =
  pc_Executable :: string
  pc_Args :: "string list"
  pc_Dir :: string
  pc_Env :: "string list"

text \<open>What a process that was waited for leaves: its output as it was written, how it ended, and the error
  of waiting for it, with whether that is the error of a bad exit.\<close>

record child =
  ch_Stdout :: "string list"
  ch_Stderr :: "string list"
  ch_ExitCode :: int
  ch_Signal :: "string option"
  ch_WaitErr :: "(err \<times> bool) option"

record proc_result =
  pr_ExitCode :: int
  pr_Signaled :: bool
  pr_Signal :: string

record 'e outcome =
  oc_Result :: 'e
  oc_Err :: "err option"
  oc_IsExit :: bool
  oc_Stdout :: "string list"
  oc_Stderr :: "string list"

text \<open>Starting a process gives its number; waiting for it, after its context has ended or not, the rest.\<close>

record 'x spawner =
  sp_start :: "proc_command \<Rightarrow> 'x \<Rightarrow> int result \<times> 'x"
  sp_wait :: "int \<Rightarrow> bool \<Rightarrow> proc_command \<Rightarrow> 'x \<Rightarrow> child \<times> 'x"

definition no_result :: proc_result where
  "no_result = \<lparr>pr_ExitCode = 0, pr_Signaled = False, pr_Signal = []\<rparr>"

definition context_canceled :: err where "context_canceled = EOs ''context canceled''"

definition child_result :: "child \<Rightarrow> proc_result" where
  "child_result c = \<lparr>pr_ExitCode = ch_ExitCode c, pr_Signaled = (ch_Signal c \<noteq> None), pr_Signal = (case ch_Signal c of None \<Rightarrow> [] | Some s \<Rightarrow> s)\<rparr>"

text \<open>\<open>onStart\<close> is the caller's, \<open>during\<close> what happens beside the process until it has ended. A caller whose
  \<open>onStart\<close> fails has the process killed and reaped.\<close>

definition RunSupervised ::
  "fs_state spawner \<Rightarrow> proc_command \<Rightarrow> (int \<Rightarrow> int \<Rightarrow> ('a build_state_scheme, unit) io) \<Rightarrow> ('a build_state_scheme, unit) io
   \<Rightarrow> ('a build_state_scheme, proc_result outcome) io" where
  "RunSupervised sp cmd onStart during =
     bindE (attempt (on_fs (sp_start sp cmd))) (\<lambda>s. case s of
       Inl e \<Rightarrow> ret \<lparr>oc_Result = no_result, oc_Err = Some e, oc_IsExit = False, oc_Stdout = [], oc_Stderr = []\<rparr>
     | Inr pid \<Rightarrow>
         bindE Now (\<lambda>started.
         bindE (attempt (onStart pid started)) (\<lambda>x. case x of
           Inl e \<Rightarrow>
             bindE (on_fs (\<lambda>f. case sp_wait sp pid True cmd f of (c, f') \<Rightarrow> (Inr c, f'))) (\<lambda>c.
             ret \<lparr>oc_Result = no_result, oc_Err = Some e, oc_IsExit = False, oc_Stdout = ch_Stdout c, oc_Stderr = ch_Stderr c\<rparr>)
         | Inr _ \<Rightarrow>
             bindE during (\<lambda>_.
             bindE (asks ctx_done) (\<lambda>cancelled.
             bindE (on_fs (\<lambda>f. case sp_wait sp pid cancelled cmd f of (c, f') \<Rightarrow> (Inr c, f'))) (\<lambda>c.
             ret \<lparr>oc_Result = child_result c,
               oc_Err = (case ch_WaitErr c of Some (e, _) \<Rightarrow> Some e | None \<Rightarrow> if cancelled then Some context_canceled else None),
               oc_IsExit = (case ch_WaitErr c of Some (_, b) \<Rightarrow> b | None \<Rightarrow> False),
               oc_Stdout = ch_Stdout c, oc_Stderr = ch_Stderr c\<rparr>))))))"

section \<open>Requests and results\<close>

record request =
  rq_Executable :: string
  rq_Args :: "string list"
  rq_Workspace :: string
  rq_Environment :: "string go_map"

text \<open>What the machine offers the executors: processes, the search path, the user and the group.\<close>

record machine_env =
  me_spawn :: "fs_state spawner"
  me_LookPath :: "string \<Rightarrow> string result"
  me_PATH :: string
  me_uid :: int
  me_gid :: int

definition exec_result_of :: "proc_result \<Rightarrow> string \<Rightarrow> int \<Rightarrow> int \<Rightarrow> exec_result" where
  "exec_result_of r resolved started finished =
     \<lparr>xr_ExitCode = pr_ExitCode r, xr_Signaled = pr_Signaled r, xr_Signal = pr_Signal r, xr_ResolvedExecutable = resolved,
       xr_StartedAt = started, xr_FinishedAt = finished\<rparr>"

definition zero_result :: exec_result where
  "zero_result = \<lparr>xr_ExitCode = 0, xr_Signaled = False, xr_Signal = [], xr_ResolvedExecutable = [], xr_StartedAt = 0, xr_FinishedAt = 0\<rparr>"

text \<open>An executor that fails before it has a process.\<close>

definition not_started :: "err \<Rightarrow> exec_result outcome" where
  "not_started e = \<lparr>oc_Result = zero_result, oc_Err = Some e, oc_IsExit = False, oc_Stdout = [], oc_Stderr = []\<rparr>"

definition env_entries :: "string go_map \<Rightarrow> string list" where
  "env_entries env = map (\<lambda>(k, v). k @ ''='' @ v) env"

text \<open>Running the command and reading its result; \<open>judge\<close> decides what is returned beside the result.\<close>

definition supervise ::
  "machine_env \<Rightarrow> proc_command \<Rightarrow> string \<Rightarrow> (int \<Rightarrow> int \<Rightarrow> ('a build_state_scheme, unit) io) \<Rightarrow> ('a build_state_scheme, unit) io \<Rightarrow> (proc_result outcome \<Rightarrow> err option)
   \<Rightarrow> ('a build_state_scheme, exec_result outcome) io" where
  "supervise me cmd resolved onStart during judge =
     bindE Now (\<lambda>started.
     bindE (RunSupervised (me_spawn me) cmd onStart during) (\<lambda>o1.
     bindE Now (\<lambda>finished.
     ret \<lparr>oc_Result = exec_result_of (oc_Result o1) resolved started finished, oc_Err = judge o1, oc_IsExit = oc_IsExit o1,
       oc_Stdout = oc_Stdout o1, oc_Stderr = oc_Stderr o1\<rparr>)))"

section \<open>Bare execution\<close>

definition local_error :: "proc_result outcome \<Rightarrow> err option" where
  "local_error o1 = (if pr_ExitCode (oc_Result o1) = 0 then oc_Err o1 else None)"

definition ExecuteLocal :: "machine_env \<Rightarrow> request \<Rightarrow> (int \<Rightarrow> int \<Rightarrow> ('a build_state_scheme, unit) io) \<Rightarrow> ('a build_state_scheme, unit) io
   \<Rightarrow> ('a build_state_scheme, exec_result outcome) io" where
  "ExecuteLocal me rq onStart during =
     (if rq_Workspace rq = [] then ret (not_started (Errf ''workspace is required'' []))
      else case me_LookPath me (rq_Executable rq) of
          Inl e \<Rightarrow> ret (not_started (EWrap ''resolve executable %q: %w'' [rq_Executable rq] e))
        | Inr resolved \<Rightarrow>
            let home = FJoin [rq_Workspace rq, ''.home'']; temp = FJoin [rq_Workspace rq, ''.tmp''] in
            bindE (attempt (bindE (on_fs (MkdirAll home)) (\<lambda>_. on_fs (MkdirAll temp)))) (\<lambda>x. case x of
              Inl e \<Rightarrow> ret (not_started e)
            | Inr _ \<Rightarrow> supervise me
                \<lparr>pc_Executable = resolved, pc_Args = rq_Args rq, pc_Dir = rq_Workspace rq,
                  pc_Env = [''PATH='' @ me_PATH me, ''HOME='' @ home, ''TMPDIR='' @ temp] @ env_entries (rq_Environment rq)\<rparr>
                resolved onStart during local_error))"

section \<open>Containers\<close>

record resources =
  rs_CPUs :: int
  rs_Memory :: string

definition DefaultResources :: resources where
  "DefaultResources = \<lparr>rs_CPUs = 2, rs_Memory = ''4g''\<rparr>"

definition resourcesOrDefault :: "resources \<Rightarrow> resources" where
  "resourcesOrDefault r = \<lparr>rs_CPUs = (if rs_CPUs r \<le> 0 then rs_CPUs DefaultResources else rs_CPUs r),
     rs_Memory = (if rs_Memory r = [] then rs_Memory DefaultResources else rs_Memory r)\<rparr>"

definition no_resources :: resources where "no_resources = \<lparr>rs_CPUs = 0, rs_Memory = []\<rparr>"

definition unavailable :: "string \<Rightarrow> string list \<Rightarrow> err" where
  "unavailable f args = EWrap (''%w: '' @ f) args (ESent ErrRuntimeUnavailable)"

text \<open>The arguments, for a workspace that has already been made absolute where that is wanted.\<close>

definition docker_args :: "machine_env \<Rightarrow> string \<Rightarrow> resources \<Rightarrow> string \<Rightarrow> string list \<Rightarrow> string list" where
  "docker_args me img res ws argv =
     (let r = resourcesOrDefault res in
      [''run'', ''--rm'', ''-v'', ws @ '':/vci/work:ro'', ''-w'', ''/vci/work'', ''--network'', ''none'',
       ''--user'', itoa (me_uid me) @ '':'' @ itoa (me_gid me), ''--cpus'', itoa (rs_CPUs r), ''--memory'', rs_Memory r]
      @ [img] @ argv)"

definition docker_check :: "string \<Rightarrow> string \<Rightarrow> unit result" where
  "docker_check img workspace = checks
     [ensure (img \<noteq> []) (unavailable ''image is empty'' []), ensure (workspace \<noteq> []) (unavailable ''workspace is empty'' [])]"

definition abs_workspace :: "string \<Rightarrow> ('a build_state_scheme, string) io" where
  "abs_workspace workspace = bindE (attempt (on_fs (Abs workspace))) (\<lambda>x. case x of
       Inl e \<Rightarrow> throw (unavailable ''resolve workspace: %v'' [err_text e])
     | Inr ws \<Rightarrow> ret ws)"

definition DockerCommandArgv :: "machine_env \<Rightarrow> string \<Rightarrow> resources \<Rightarrow> string \<Rightarrow> string list \<Rightarrow> ('a build_state_scheme, string list) io" where
  "DockerCommandArgv me img res workspace argv =
     bindE (lift_result (docker_check img workspace)) (\<lambda>_. bindE (abs_workspace workspace) (\<lambda>ws. ret (docker_args me img res ws argv)))"

definition DockerCommandArgvRemote :: "machine_env \<Rightarrow> string \<Rightarrow> resources \<Rightarrow> string \<Rightarrow> string list \<Rightarrow> string list result" where
  "DockerCommandArgvRemote me img res workspace argv =
     (case docker_check img workspace of Inl e \<Rightarrow> Inl e | Inr _ \<Rightarrow> Inr (docker_args me img res workspace argv))"

definition maxClassifyStderr :: nat where "maxClassifyStderr = 64 * 1024"

text \<open>The recorder of standard error keeps the last bytes of what went through it.\<close>

definition record_tail :: "nat \<Rightarrow> string \<Rightarrow> string \<Rightarrow> string" where
  "record_tail most buf p = last_n most (buf @ p)"

definition recorded :: "nat \<Rightarrow> string list \<Rightarrow> string" where
  "recorded most ps = foldl (record_tail most) [] ps"

definition imageNotFoundSignatures :: "string list" where
  "imageNotFoundSignatures = [''no such image'', ''manifest unknown'', ''pull access denied'', ''repository does not exist'']"

text \<open>\<open>strings.ToLower\<close>, for the search of ASCII text in it.\<close>

definition ascii_lower :: "string \<Rightarrow> string" where
  "ascii_lower s = map (\<lambda>c. if 65 \<le> (of_char c :: nat) \<and> (of_char c :: nat) \<le> 90 then char_of (of_char c + 32 :: nat) else c) s"

definition imageNotFoundStderr :: "string \<Rightarrow> bool" where
  "imageNotFoundStderr buf \<longleftrightarrow> buf \<noteq> [] \<and> list_ex (\<lambda>s. Contains (ascii_lower buf) s) imageNotFoundSignatures"

definition docker_error :: "proc_result outcome \<Rightarrow> err option" where
  "docker_error o1 = (case oc_Err o1 of
       None \<Rightarrow> None
     | Some e \<Rightarrow>
         if oc_IsExit o1 then
           if pr_ExitCode (oc_Result o1) = 125 then
             if imageNotFoundStderr (recorded maxClassifyStderr (oc_Stderr o1)) then Some (EWrap ''%w: %v'' [err_text e] (ESent ErrRuntimeImageNotFound))
             else Some (unavailable ''%v'' [err_text e])
           else None
         else if Contains (err_text e) ''executable file not found'' then Some (unavailable ''docker binary not found in PATH'' [])
         else Some (unavailable ''%v'' [err_text e]))"

definition container_env :: "string go_map \<Rightarrow> string list" where
  "container_env env = [''PATH=/usr/local/sbin:/usr/local/bin:/usr/sbin:/usr/bin:/sbin:/bin'', ''HOME=/tmp'', ''TMPDIR=/tmp''] @ env_entries env"

definition ExecuteDocker :: "machine_env \<Rightarrow> string \<Rightarrow> request \<Rightarrow> (int \<Rightarrow> int \<Rightarrow> ('a build_state_scheme, unit) io) \<Rightarrow> ('a build_state_scheme, unit) io
   \<Rightarrow> ('a build_state_scheme, exec_result outcome) io" where
  "ExecuteDocker me img rq onStart during =
     (if rq_Workspace rq = [] then ret (not_started (Errf ''workspace is required'' []))
      else bindE (attempt (DockerCommandArgv me img no_resources (rq_Workspace rq) (rq_Executable rq # rq_Args rq))) (\<lambda>x. case x of
          Inl e \<Rightarrow> ret (not_started e)
        | Inr args \<Rightarrow> supervise me
            \<lparr>pc_Executable = ''docker'', pc_Args = args, pc_Dir = [], pc_Env = container_env (rq_Environment rq)\<rparr>
            ''docker'' onStart during docker_error))"

section \<open>Virtual machines\<close>

definition vm_args :: "string \<Rightarrow> resources \<Rightarrow> string \<Rightarrow> string \<Rightarrow> string list \<Rightarrow> string list" where
  "vm_args snapshot res binary ws argv =
     (let r = resourcesOrDefault res in
      (if binary = [] then ''tart'' else binary)
      # [''run'', ''--no-gui'', ''--dir'', ws @ '':/vci/work'', ''--workdir'', ''/vci/work'', ''--cpus'', itoa (rs_CPUs r), ''--memory'', rs_Memory r]
      @ [snapshot, ''--''] @ argv)"

definition vm_check :: "string \<Rightarrow> string \<Rightarrow> unit result" where
  "vm_check snapshot workspace = checks
     [ensure (snapshot \<noteq> []) (unavailable ''snapshot is empty'' []), ensure (workspace \<noteq> []) (unavailable ''workspace is empty'' [])]"

definition VMCommandArgv :: "string \<Rightarrow> resources \<Rightarrow> string \<Rightarrow> string \<Rightarrow> string list \<Rightarrow> ('a build_state_scheme, string list) io" where
  "VMCommandArgv snapshot res binary workspace argv =
     bindE (lift_result (vm_check snapshot workspace)) (\<lambda>_. bindE (abs_workspace workspace) (\<lambda>ws. ret (vm_args snapshot res binary ws argv)))"

definition VMCommandArgvRemote :: "string \<Rightarrow> resources \<Rightarrow> string \<Rightarrow> string \<Rightarrow> string list \<Rightarrow> string list result" where
  "VMCommandArgvRemote snapshot res binary workspace argv =
     (case vm_check snapshot workspace of Inl e \<Rightarrow> Inl e | Inr _ \<Rightarrow> Inr (vm_args snapshot res binary workspace argv))"

definition vm_error :: "string \<Rightarrow> proc_result outcome \<Rightarrow> err option" where
  "vm_error binary o1 = (case oc_Err o1 of
       None \<Rightarrow> None
     | Some e \<Rightarrow>
         if oc_IsExit o1 then None
         else if Contains (err_text e) ''executable file not found'' then Some (unavailable ''%s binary not found in PATH'' [binary])
         else Some (unavailable ''%v'' [err_text e]))"

definition ExecuteVM :: "machine_env \<Rightarrow> string \<Rightarrow> string \<Rightarrow> request \<Rightarrow> (int \<Rightarrow> int \<Rightarrow> ('a build_state_scheme, unit) io) \<Rightarrow> ('a build_state_scheme, unit) io
   \<Rightarrow> ('a build_state_scheme, exec_result outcome) io" where
  "ExecuteVM me snapshot binary rq onStart during =
     (if rq_Workspace rq = [] then ret (not_started (Errf ''workspace is required'' []))
      else bindE (attempt (VMCommandArgv snapshot no_resources binary (rq_Workspace rq) (rq_Executable rq # rq_Args rq))) (\<lambda>x. case x of
          Inl e \<Rightarrow> ret (not_started e)
        | Inr args \<Rightarrow>
            let exe = (if binary = [] then ''tart'' else binary) in
            supervise me
              \<lparr>pc_Executable = exe, pc_Args = tl args, pc_Dir = rq_Workspace rq, pc_Env = container_env (rq_Environment rq)\<rparr>
              exe onStart during (vm_error exe)))"

end
