(* ===== verification/Vci_Remote.thy ===== *)
theory Vci_Remote
  imports Vci_Runtime Vci_Reaper
begin

text \<open>
  The half of \<open>internal/app/remote.go\<close> that runs a target on another machine: the payloads a worker
  reconstructs its workspace from, the choice between a seeded checkout, the bundle cache and a full copy
  (\<open>stageOrReconstruct\<close>), and the run itself (\<open>executeRemote\<close>). The file of the local changes of a run is a
  file of its run directory, so it is named by the run.
\<close>

section \<open>The environment\<close>

text \<open>
  What the coordinator uses and does not contain: TOML, the digest of a configuration snapshot, programs
  run to their end (given whether the context has ended), also with an environment of their own, the two
  halves of the tar format, SHA-256, the codec of manifests, \<open>os.TempDir\<close>, \<open>os.Environ\<close>, and the machine.
\<close>

record build_env =
  be_toml :: toml
  be_digest :: "run_snapshot \<Rightarrow> string"
  be_run :: "bool \<Rightarrow> fs_state runner"
  be_run_env :: "fs_state env_runner"
  be_tar :: tar_writer
  be_untar :: tar_reader
  be_sha :: "string \<Rightarrow> string"
  be_codec :: manifest_codec
  be_tmp :: string
  be_environ :: "string list"
  be_machine :: machine_env

definition with_run :: "build_env \<Rightarrow> (fs_state runner \<Rightarrow> (fs_state, 'b) io) \<Rightarrow> ('a build_state_scheme, 'b) io" where
  "with_run env m = bindE (asks ctx_done) (\<lambda>c. on_fs (m (be_run env c)))"

text \<open>A program with its output: the runner keeps what it writes.\<close>

definition tee :: "'s runner \<Rightarrow> ('s \<times> string \<times> string) runner" where
  "tee run cmd = (\<lambda>(w, out, err). case run cmd w of (r, w') \<Rightarrow> (r, (w', out @ Output r, err @ ErrOutput r)))"

definition logged :: "('s \<times> string \<times> string, 'b) io \<Rightarrow> ('s, 'b result \<times> string \<times> string) io" where
  "logged m = (\<lambda>w. case m (w, [], []) of (r, (w', out, err)) \<Rightarrow> (Inr (r, out, err), w'))"

definition Sprintf :: "string \<Rightarrow> string list \<Rightarrow> string" where
  "Sprintf f args = err_text (Errf f args)"

definition index_panic :: err where "index_panic = EOs ''index out of range''"

definition unavailableError :: "err \<Rightarrow> err" where
  "unavailableError e = EWrap ''%w: %v'' [err_text e] (ESent ErrTargetUnavailable)"

section \<open>Machines and executors\<close>

definition zero_machine :: machine where
  "zero_machine = \<lparr>MaxConcurrent = 0, Host = [], Runtime = [], Image = [], Snapshot = [], OS = [], SourcePaths = [],
     BundleCache = \<lparr>MaxEntries = 0, MaxCacheBytes = 0, AdmissionBytes = 0\<rparr>\<rparr>"

definition lookupMachine :: "run_snapshot \<Rightarrow> string \<Rightarrow> machine" where
  "lookupMachine sn name =
     (if name = [] then zero_machine else case map_of (sn_machines sn) name of Some m \<Rightarrow> m | None \<Rightarrow> zero_machine)"

definition resolvedMachine :: "run_snapshot \<Rightarrow> machine" where
  "resolvedMachine sn = lookupMachine sn
     (if sn_machine sn = [] then (case TargetMachines (sn_project_config sn) of [] \<Rightarrow> [] | m # _ \<Rightarrow> m) else sn_machine sn)"

datatype executor = Docker string | VM string string | Local

definition selectExecutor :: "run_snapshot \<Rightarrow> executor" where
  "selectExecutor sn =
     (let m = resolvedMachine sn in
      if Runtime m = ''docker'' then Docker (Image m)
      else if Runtime m = ''vm'' then VM (Snapshot m) ''tart''
      else Local)"

definition ExecuteSupervised :: "machine_env \<Rightarrow> executor \<Rightarrow> request \<Rightarrow> (int \<Rightarrow> int \<Rightarrow> ('a build_state_scheme, unit) io)
    \<Rightarrow> ('a build_state_scheme, unit) io \<Rightarrow> ('a build_state_scheme, exec_result outcome) io" where
  "ExecuteSupervised me ex rq onStart during = (case ex of
       Docker img \<Rightarrow> ExecuteDocker me img rq onStart during
     | VM snapshot binary \<Rightarrow> ExecuteVM me snapshot binary rq onStart during
     | Local \<Rightarrow> ExecuteLocal me rq onStart during)"

definition remoteArgv :: "machine_env \<Rightarrow> machine \<Rightarrow> string \<Rightarrow> string list \<Rightarrow> string list result" where
  "remoteArgv me m remoteWorkDir command =
     (if Runtime m = ''docker'' then
        (case DockerCommandArgvRemote me (Image m) no_resources remoteWorkDir command of
           Inl e \<Rightarrow> Inl e
         | Inr args \<Rightarrow> Inr (''docker'' # args))
      else if Runtime m = ''vm'' then VMCommandArgvRemote (Snapshot m) no_resources ''tart'' remoteWorkDir command
      else Inr command)"

section \<open>Payloads\<close>

definition payload_bundle :: "build_env \<Rightarrow> string \<Rightarrow> string \<Rightarrow> string \<Rightarrow> ('a build_state_scheme, string) io" where
  "payload_bundle env sourceRoot have head =
     bindE (attempt (with_run env (\<lambda>run. CreateBundle run (be_tmp env) sourceRoot have head))) (\<lambda>x. case x of
       Inl e \<Rightarrow> if err_is e ErrBundleEmpty then ret [] else throw (EWrap ''create worker bundle: %w'' [] e)
     | Inr path \<Rightarrow> wrapE ''read worker bundle: %w'' [] (on_fs (read_bundle path)))"

definition payload_tar :: "build_env \<Rightarrow> run_id \<Rightarrow> string \<Rightarrow> string \<Rightarrow> ('a build_state_scheme, string) io" where
  "payload_tar env rid head bundle =
     bindE (wrapE ''read durable local-change archive: %w'' [] (read_run submission_lc rid)) (\<lambda>lc.
     lift_result (be_tar env ([reg_entry ''head'' (TrimSpace head @ [newline]) 420]
       @ (if bundle = [] then [] else [reg_entry ''bundle'' bundle 420])
       @ [reg_entry ''lc.tar'' lc 420])))"

definition workerPayload :: "build_env \<Rightarrow> string \<Rightarrow> string \<Rightarrow> string \<Rightarrow> run_id \<Rightarrow> ('a build_state_scheme, string) io" where
  "workerPayload env sourceRoot have head rid =
     bindE (payload_bundle env sourceRoot have head) (\<lambda>bundle. payload_tar env rid head bundle)"

definition noSeedPayload :: "build_env \<Rightarrow> string \<Rightarrow> string \<Rightarrow> run_id \<Rightarrow> ('a build_state_scheme, string \<times> int) io" where
  "noSeedPayload env sourceRoot head rid =
     bindE (payload_bundle env sourceRoot [] head) (\<lambda>bundle.
     bindE (payload_tar env rid head bundle) (\<lambda>payload.
     ret (payload, int (length bundle))))"

section \<open>Staging\<close>

definition source_path :: "machine \<Rightarrow> string \<Rightarrow> string" where
  "source_path m project = (case map_of (SourcePaths m) project of Some p \<Rightarrow> p | None \<Rightarrow> [])"

definition lc_regular :: "run_id \<Rightarrow> ('a store_state_scheme, bool) io" where
  "lc_regular rid = bindE (attempt (read_run submission_lc rid)) (\<lambda>x. ret (case x of Inl _ \<Rightarrow> False | Inr _ \<Rightarrow> True))"

definition seededReconstructionEligible :: "machine \<Rightarrow> project \<Rightarrow> string \<Rightarrow> run_id \<Rightarrow> ('a store_state_scheme, bool) io" where
  "seededReconstructionEligible m project name rid =
     (if source_path m name = [] then ret False else if ExcludedPaths project \<noteq> [] then ret False else lc_regular rid)"

definition noSeedCacheEligible :: "machine \<Rightarrow> project \<Rightarrow> string \<Rightarrow> run_id \<Rightarrow> string \<Rightarrow> ('a store_state_scheme, bool) io" where
  "noSeedCacheEligible m project name rid submittedHead =
     (if source_path m name \<noteq> [] then ret False else if ExcludedPaths project \<noteq> [] then ret False
      else if submittedHead = [] then ret False else lc_regular rid)"

definition no_cache :: no_seed_cache_spec where
  "no_cache = \<lparr>nc_Root = [], nc_Project = [], nc_Base = [], nc_UseCached = False, nc_Admit = False, nc_Evict = False,
     nc_MaxEntries = 0, nc_MaxBytes = 0, nc_BundleBytes = 0, nc_Now = 0\<rparr>"

definition oversize_warning :: "string \<Rightarrow> int \<Rightarrow> string \<Rightarrow> int \<Rightarrow> string" where
  "oversize_warning name bytes host limit = Sprintf
     (''project %q bundle is %d bytes, exceeding machine %q bundle_cache.max_bytes of %d; ''
      @ ''the machine has no local seed, so the bundle was transferred one-shot and not cached. ''
      @ ''Configure a source path for project %q on machine %q to enable seeded reconstruction, ''
      @ ''or raise bundle_cache.max_bytes to at least %d to admit the bundle into the worker cache.'')
     [name, itoa bytes, host, itoa limit, name, host, itoa bytes]"

definition cache_hit :: "build_env \<Rightarrow> machine \<Rightarrow> string \<Rightarrow> run_id \<Rightarrow> string \<Rightarrow> string \<Rightarrow> string \<Rightarrow> string \<Rightarrow> ('a build_state_scheme, string) io" where
  "cache_hit env m name rid sourceRoot submittedHead base remoteWorkDir =
     (let claimID = last (Split CHR ''/'' remoteWorkDir) in
      bindE (with_run env (\<lambda>run. AcquireBundleClaim (Some run) (Host m) workerCacheRoot name base claimID)) (\<lambda>_.
      deferE (ignore (with_run env (\<lambda>run. ReleaseBundleClaim (Some run) (Host m) workerCacheRoot name base claimID)))
        (bindE (workerPayload env sourceRoot base submittedHead rid) (\<lambda>payload.
         bindE (with_run env (\<lambda>run. StreamNoSeedReconstruct (Some run) (Host m) remoteWorkDir
           (no_cache\<lparr>nc_Root := workerCacheRoot, nc_Project := name, nc_Base := base, nc_UseCached := True\<rparr>) (Some payload))) (\<lambda>_.
         ret [])))))"

definition cache_miss :: "build_env \<Rightarrow> machine \<Rightarrow> string \<Rightarrow> run_id \<Rightarrow> string \<Rightarrow> string \<Rightarrow> string \<Rightarrow> string \<Rightarrow> ('a build_state_scheme, string) io" where
  "cache_miss env m name rid sourceRoot submittedHead base remoteWorkDir =
     (let policy = EffectiveBundleCache (BundleCache m) in
      bindE (noSeedPayload env sourceRoot submittedHead rid) (\<lambda>(payload, bytes).
      if MaxCacheBytes policy < bytes then
        bindE (with_run env (\<lambda>run. StreamNoSeedReconstruct (Some run) (Host m) remoteWorkDir no_cache (Some payload))) (\<lambda>_.
        ret (oversize_warning name bytes (Host m) (MaxCacheBytes policy)))
      else
        bindE (if AdmissionBytes policy \<le> bytes then bindE Now (\<lambda>now. ret
            \<lparr>nc_Root = workerCacheRoot, nc_Project = name, nc_Base = base, nc_UseCached = False, nc_Admit = True, nc_Evict = True,
              nc_MaxEntries = MaxEntries policy, nc_MaxBytes = MaxCacheBytes policy, nc_BundleBytes = bytes, nc_Now = now\<rparr>)
          else ret no_cache) (\<lambda>cache.
        bindE (with_run env (\<lambda>run. StreamNoSeedReconstruct (Some run) (Host m) remoteWorkDir cache (Some payload))) (\<lambda>_.
        ret []))))"

definition stageNoSeedReconstruct ::
  "build_env \<Rightarrow> machine \<Rightarrow> string \<Rightarrow> run_id \<Rightarrow> string \<Rightarrow> string \<Rightarrow> string \<Rightarrow> ('a build_state_scheme, string) io" where
  "stageNoSeedReconstruct env m name rid sourceRoot submittedHead remoteWorkDir =
     bindE (attempt (with_run env (\<lambda>run. CaptureIdentity run sourceRoot))) (\<lambda>x.
     let base = (case x of Inl _ \<Rightarrow> [] | Inr i \<Rightarrow> id_Base i) in
     if base = [] then
       bindE (noSeedPayload env sourceRoot submittedHead rid) (\<lambda>(payload, _).
       bindE (with_run env (\<lambda>run. StreamNoSeedReconstruct (Some run) (Host m) remoteWorkDir no_cache (Some payload))) (\<lambda>_.
       ret []))
     else
       bindE (with_run env (\<lambda>run. ProbeBundleCache (Some run) (Host m) workerCacheRoot name base)) (\<lambda>hit.
       if hit then cache_hit env m name rid sourceRoot submittedHead base remoteWorkDir
       else cache_miss env m name rid sourceRoot submittedHead base remoteWorkDir))"

definition stat_dir :: "string \<Rightarrow> ('a fs_state_scheme, bool) io" where
  "stat_dir p = bindE (Stat p) (\<lambda>i. ret (fi_kind i = KDir))"

definition full_stage :: "build_env \<Rightarrow> machine \<Rightarrow> string \<Rightarrow> string \<Rightarrow> ('a build_state_scheme, string) io" where
  "full_stage env m workspace remoteWorkDir =
     bindE (wrapE ''stage remote workspace: %w'' [] (with_run env (\<lambda>run. StageRemote run stat_dir (Host m) remoteWorkDir workspace))) (\<lambda>_.
     ret [])"

definition seeded_stage :: "build_env \<Rightarrow> machine \<Rightarrow> string \<Rightarrow> run_id \<Rightarrow> string \<Rightarrow> string \<Rightarrow> string \<Rightarrow> ('a build_state_scheme, unit) io" where
  "seeded_stage env m seed rid sourceRoot submittedHead remoteWorkDir =
     bindE (with_run env (\<lambda>run. ProbeSeedHead (Some run) (Host m) seed)) (\<lambda>seedHead.
     bindE (guard (seedHead \<noteq> []) (Errf ''no seed'' [])) (\<lambda>_.
     bindE (workerPayload env sourceRoot seedHead submittedHead rid) (\<lambda>payload.
     with_run env (\<lambda>run. StreamReconstruct (Some run) (Host m) seed remoteWorkDir (Some payload)))))"

definition stageOrReconstruct ::
  "build_env \<Rightarrow> machine \<Rightarrow> project \<Rightarrow> string \<Rightarrow> run_id \<Rightarrow> string \<Rightarrow> string \<Rightarrow> string \<Rightarrow> string \<Rightarrow> ('a build_state_scheme, string) io" where
  "stageOrReconstruct env m project name rid sourceRoot workspace submittedHead remoteWorkDir =
     bindE (seededReconstructionEligible m project name rid) (\<lambda>seeded.
     if seeded then
       bindE (attempt (seeded_stage env m (source_path m name) rid sourceRoot submittedHead remoteWorkDir)) (\<lambda>x. case x of
         Inl _ \<Rightarrow> full_stage env m workspace remoteWorkDir
       | Inr _ \<Rightarrow> ret [])
     else
       bindE (noSeedCacheEligible m project name rid submittedHead) (\<lambda>cached.
       if cached then
         bindE (attempt (stageNoSeedReconstruct env m name rid sourceRoot submittedHead remoteWorkDir)) (\<lambda>x. case x of
           Inl _ \<Rightarrow> full_stage env m workspace remoteWorkDir
         | Inr warning \<Rightarrow> ret warning)
       else full_stage env m workspace remoteWorkDir))"

section \<open>Running\<close>

text \<open>The files of a directory as the collection of artifacts walks them.\<close>

primrec tree_of :: "(nat \<Rightarrow> inode) \<Rightarrow> fnode \<Rightarrow> node" where
  "tree_of i (FDir t es) = Folder (map (map_prod id (tree_of i)) es)"
| "tree_of i (FFile n) = Regular (i_data (i n))"
| "tree_of i (FLink s) = SymlinkTo s"
| "tree_of i FDev = Special"

definition collect_workspace :: "string \<Rightarrow> run_id \<Rightarrow> string list \<Rightarrow> ('a build_state_scheme, string list \<times> bool \<times> err option) io" where
  "collect_workspace path rid globs =
     bindE (attempt (on_fs (at_path False path))) (\<lambda>x. case x of
       Inr (_, Some n) \<Rightarrow> bindE (asks (\<lambda>w. tree_of (the_inode (filesys w)) n)) (\<lambda>tree. CollectArtifacts tree rid globs)
     | _ \<Rightarrow>
         if globs = [] then ret ([], False, None)
         else bindE (attempt (wrapE ''mkdir artifacts: %w'' [] (mkdir_artifacts rid))) (\<lambda>y.
           ret ([], False, Some (case y of Inl e \<Rightarrow> e | Inr _ \<Rightarrow> (case x of Inl e \<Rightarrow> e | Inr _ \<Rightarrow> ENotExist)))))"

record remote_outcome =
  ro_Result :: exec_result
  ro_Artifacts :: "string list"
  ro_Truncated :: bool
  ro_Warning :: string
  ro_Err :: "err option"
  ro_Stdout :: "string list"
  ro_Stderr :: "string list"

definition remote_failed :: "exec_result \<Rightarrow> string \<Rightarrow> string \<Rightarrow> err \<Rightarrow> remote_outcome" where
  "remote_failed r out err e = \<lparr>ro_Result = r, ro_Artifacts = [], ro_Truncated = False, ro_Warning = [], ro_Err = Some e, ro_Stdout = [out], ro_Stderr = [err]\<rparr>"

definition fetch_artifacts :: "build_env \<Rightarrow> layout \<Rightarrow> run_id \<Rightarrow> machine \<Rightarrow> project \<Rightarrow> string \<Rightarrow> ('a build_state_scheme, string list \<times> bool) io" where
  "fetch_artifacts env l rid m project remoteWorkDir =
     (if Artifacts project = [] then ret ([], False)
      else
        bindE (wrapE ''artifact fetch dir: %w'' [] (on_fs (MkdirTemp (TempDir l) ''vci-fetch-''))) (\<lambda>fetchParent.
        deferE (ignore (on_fs (Vci_Fs.RemoveAll fetchParent)))
          (bindE (with_run env (\<lambda>run. FetchRemote run (Host m) remoteWorkDir fetchParent)) (\<lambda>_.
           bindE (collect_workspace (FJoin [fetchParent, rid]) rid (Artifacts project)) (\<lambda>(collected, truncated, err). case err of
             Some e \<Rightarrow> throw (EWrap ''collect remote artifacts: %w'' [] e)
           | None \<Rightarrow> ret (collected, truncated))))))"

definition run_remote :: "build_env \<Rightarrow> layout \<Rightarrow> run_id \<Rightarrow> machine \<Rightarrow> project \<Rightarrow> string \<Rightarrow> string \<Rightarrow> string list
    \<Rightarrow> ('a build_state_scheme, unit) io \<Rightarrow> ('a build_state_scheme, remote_outcome) io" where
  "run_remote env l rid m project remoteWorkDir warning argv during =
     bindE Now (\<lambda>started.
     bindE during (\<lambda>_.
     bindE (with_run env (\<lambda>run. logged (RunRemote (Some (tee run)) (Host m) remoteWorkDir argv (Environment project) (OS m)))) (\<lambda>(r, out, err).
     bindE Now (\<lambda>finished.
     case argv of
       [] \<Rightarrow> throw index_panic
     | exe # _ \<Rightarrow>
         let result = \<lparr>xr_ExitCode = (case r of Inl _ \<Rightarrow> 0 | Inr c \<Rightarrow> c), xr_Signaled = False, xr_Signal = [], xr_ResolvedExecutable = exe,
               xr_StartedAt = started, xr_FinishedAt = finished\<rparr> in
         bindE (attempt (fetch_artifacts env l rid m project remoteWorkDir)) (\<lambda>x. ret (case x of
           Inl e \<Rightarrow> remote_failed result out err e
         | Inr (collected, truncated) \<Rightarrow>
             \<lparr>ro_Result = result, ro_Artifacts = collected, ro_Truncated = truncated, ro_Warning = warning,
               ro_Err = (case r of Inl e \<Rightarrow> Some (unavailableError e) | Inr _ \<Rightarrow> None), ro_Stdout = [out], ro_Stderr = [err]\<rparr>))))))"

definition executeRemote :: "build_env \<Rightarrow> layout \<Rightarrow> run_id \<Rightarrow> machine \<Rightarrow> string \<Rightarrow> string \<Rightarrow> string \<Rightarrow> project \<Rightarrow> string \<Rightarrow> string
    \<Rightarrow> ('a build_state_scheme, unit) io \<Rightarrow> ('a build_state_scheme, remote_outcome) io" where
  "executeRemote env l rid m machineName sourceRoot workspace project name submittedHead during =
     (case RemoteWorkDir rid of
        Inl e \<Rightarrow> ret (remote_failed zero_result [] [] e)
      | Inr remoteWorkDir \<Rightarrow>
          deferE (ignore (on_fs (CleanupRemote (be_run env False) (Host m) remoteWorkDir (OS m))))
            (bindE (attempt (stageOrReconstruct env m project name rid sourceRoot workspace submittedHead remoteWorkDir)) (\<lambda>x. case x of
               Inl e \<Rightarrow> ret (remote_failed zero_result [] [] (unavailableError e))
             | Inr warning \<Rightarrow>
                 let cmd = (if ResolveCommand project machineName = [] then Command project else ResolveCommand project machineName) in
                 (case remoteArgv (be_machine env) m remoteWorkDir cmd of
                    Inl e \<Rightarrow> ret (remote_failed zero_result [] [] e)
                  | Inr argv \<Rightarrow> run_remote env l rid m project remoteWorkDir warning argv during))))"

end
