(* ===== verification/Vci_Client.thy ===== *)
theory Vci_Client
  imports Vci_Envelope Vci_Remote
begin

text \<open>
  The half of \<open>internal/app/remote.go\<close> that a client root runs: the commands it forwards to its coordinator
  over ssh, and the build it submits (\<open>RemoteBuild\<close>). The state is that of the client: its configuration and
  its files; the coordinator is behind the runner.
\<close>

section \<open>Roles\<close>

definition remoteOrchestrator :: "build_env \<Rightarrow> ('a build_state_scheme, string) io" where
  "remoteOrchestrator env =
     bindE (LoadConfig (be_toml env)) (\<lambda>cfg.
     ret (if Orchestrator cfg = OrchestratorSelf then [] else Orchestrator cfg))"

definition RemoteConfigured :: "build_env \<Rightarrow> ('a build_state_scheme, bool) io" where
  "RemoteConfigured env = bindE (remoteOrchestrator env) (\<lambda>host. ret (host \<noteq> []))"

text \<open>The host, which is empty for a coordinator; the Go function says so once more as a flag.\<close>

definition remoteTarget :: "build_env \<Rightarrow> ('a build_state_scheme, string \<times> bool) io" where
  "remoteTarget env = bindE (remoteOrchestrator env) (\<lambda>host. ret (host, host \<noteq> []))"

section \<open>Commands over ssh\<close>

definition buildRemoteCommand :: "string \<Rightarrow> string list \<Rightarrow> string" where
  "buildRemoteCommand name args = ''vci '' @ Join (shellQuote name # map shellQuote args) '' ''"

text \<open>A program run with the context of the client.\<close>

definition exec_ssh :: "build_env \<Rightarrow> string \<Rightarrow> string \<Rightarrow> string option \<Rightarrow> ('a build_state_scheme, run_result) io" where
  "exec_ssh env host command stdin = with_run env (\<lambda>run. exec run ''ssh'' [host, command] stdin)"

definition ssh_message :: "run_result \<Rightarrow> err \<Rightarrow> string" where
  "ssh_message r e = (if TrimSpace (ErrOutput r) = [] then err_text e else TrimSpace (ErrOutput r))"

definition ssh_failed :: "string \<Rightarrow> run_result \<Rightarrow> err \<Rightarrow> string result" where
  "ssh_failed host r e =
     (if validEnvelope (Output r) then Inr (Output r) else Inl (Errf ''ssh %s: %s'' [host, ssh_message r e]))"

definition ssh_output :: "string \<Rightarrow> run_result \<Rightarrow> string result" where
  "ssh_output host r = (case RunErr r of
       Some e \<Rightarrow> ssh_failed host r e
     | None \<Rightarrow> if validEnvelope (Output r) then Inr (Output r) else Inl (Errf ''remote vci returned invalid JSON'' []))"

definition runSSH :: "build_env \<Rightarrow> string \<Rightarrow> string \<Rightarrow> ('a build_state_scheme, string) io" where
  "runSSH env host command = bindE (exec_ssh env host command None) (\<lambda>r. lift_result (ssh_output host r))"

definition runSSHRaw :: "build_env \<Rightarrow> string \<Rightarrow> string \<Rightarrow> ('a build_state_scheme, string) io" where
  "runSSHRaw env host command =
     bindE (exec_ssh env host command None) (\<lambda>r. lift_result (case RunErr r of
       Some e \<Rightarrow> ssh_failed host r e
     | None \<Rightarrow> Inr (Output r)))"

text \<open>What a client root does with a command; \<open>None\<close> says that this root is a coordinator.\<close>

definition on_remote :: "build_env \<Rightarrow> (string \<Rightarrow> ('a build_state_scheme, string) io) \<Rightarrow> ('a build_state_scheme, string option) io" where
  "on_remote env m =
     bindE (remoteTarget env) (\<lambda>(host, remote).
     if \<not> remote then ret None else bindE (m host) (\<lambda>raw. ret (Some raw)))"

definition RemoteCheck :: "build_env \<Rightarrow> run_id \<Rightarrow> ('a build_state_scheme, string option) io" where
  "RemoteCheck env rid = on_remote env (\<lambda>host. runSSH env host (''vci check '' @ shellQuote rid))"

definition RemoteAbort :: "build_env \<Rightarrow> run_id \<Rightarrow> ('a build_state_scheme, string option) io" where
  "RemoteAbort env rid = on_remote env (\<lambda>host. runSSH env host (''vci abort '' @ shellQuote rid))"

definition RemoteCommand :: "build_env \<Rightarrow> string \<Rightarrow> string list \<Rightarrow> ('a build_state_scheme, string option) io" where
  "RemoteCommand env name args = on_remote env (\<lambda>host. runSSH env host (buildRemoteCommand name args))"

definition RemoteLog :: "build_env \<Rightarrow> run_id \<Rightarrow> string \<Rightarrow> string \<Rightarrow> int \<Rightarrow> ('a build_state_scheme, string option) io" where
  "RemoteLog env rid machine stream tail = on_remote env (\<lambda>host.
     runSSHRaw env host (buildRemoteCommand ''logs'' ([rid]
       @ (if machine \<noteq> [] then [''--machine'', machine] else [])
       @ (if stream = ''stderr'' then [''--stderr''] else [])
       @ (if 0 < tail then [''--tail'', itoa tail] else []))))"

definition RemoteGetArtifact :: "build_env \<Rightarrow> run_id \<Rightarrow> string \<Rightarrow> string \<Rightarrow> ('a build_state_scheme, string option) io" where
  "RemoteGetArtifact env rid machine rel = on_remote env (\<lambda>host.
     runSSHRaw env host (buildRemoteCommand ''artifacts'' ([''get'']
       @ (if machine \<noteq> [] then [''--machine'', machine] else []) @ [rid, rel])))"

section \<open>Submitting a build\<close>

definition have_fields :: "(string \<times> (jvalue \<Rightarrow> string \<Rightarrow> string option)) list" where
  "have_fields = [(''have'', into_string (\<lambda>s _. s))]"

definition seed_fields :: "(string \<times> (jvalue \<Rightarrow> string \<Rightarrow> string option)) list" where
  "seed_fields = [(''data'', \<lambda>v x. unmarshal_struct have_fields x v)]"

definition remoteSeedHead :: "build_env \<Rightarrow> (string \<Rightarrow> string) \<Rightarrow> string \<Rightarrow> string \<Rightarrow> ('a build_state_scheme, string) io" where
  "remoteSeedHead env jerr host project =
     bindE (runSSH env host (buildRemoteCommand ''probe-seed'' [project])) (\<lambda>raw.
     case (case json_parse raw of None \<Rightarrow> None | Some v \<Rightarrow> unmarshal_struct seed_fields [] v) of
       None \<Rightarrow> throw (EWrap ''decode probe-seed response: %w'' [] (EOs (jerr raw)))
     | Some have \<Rightarrow> ret have)"

definition deltaBase :: "build_env \<Rightarrow> string \<Rightarrow> string \<Rightarrow> string \<Rightarrow> ('a build_state_scheme, string) io" where
  "deltaBase env repoRoot have head =
     (if have = [] then ret []
      else bindE (with_run env (\<lambda>run. exec run ''git'' [''-C'', repoRoot, ''merge-base'', ''--is-ancestor'', have, head] None)) (\<lambda>r.
        ret (if RunErr r \<noteq> None \<or> ExitCode r \<noteq> 0 then [] else have)))"

definition capture_submission :: "build_env \<Rightarrow> string \<Rightarrow> identity \<Rightarrow> string \<Rightarrow> ('a build_state_scheme, string) io" where
  "capture_submission env sourcePath identity have =
     bindE (wrapE ''create bundle: %w'' [] (with_run env (\<lambda>run. CreateBundle run (be_tmp env) sourcePath have (id_Head identity)))) (\<lambda>bundleRC.
     bindE (wrapE ''read bundle: %w'' [] (on_fs (read_bundle bundleRC))) (\<lambda>bundle.
     bindE (with_run env (\<lambda>run. CaptureLocalChanges run sourcePath)) (\<lambda>lc.
     lift_result (PackageSubmission (be_tar env)
       \<lparr>s_Head = id_Head identity, s_Base = id_Base identity, s_RemoteURL = id_RemoteURL identity, s_Have = have,
         s_Bundle = bundle, s_LocalChanges = lc\<rparr>))))"

definition remote_build :: "build_env \<Rightarrow> (string \<Rightarrow> string) \<Rightarrow> string \<Rightarrow> string \<Rightarrow> ('a build_state_scheme, string) io" where
  "remote_build env jerr sourcePath host =
     bindE (wrapE ''discover source: %w'' [] (with_run env (\<lambda>run. Discover run sourcePath))) (\<lambda>repo.
     bindE (guard (ValidName (rp_Name repo)) (Errf ''repository name %q cannot name a remote project'' [rp_Name repo])) (\<lambda>_.
     bindE (with_run env (\<lambda>run. CaptureIdentity run sourcePath)) (\<lambda>identity.
     bindE (remoteSeedHead env jerr host (rp_Name repo)) (\<lambda>seed.
     bindE (deltaBase env sourcePath seed (id_Head identity)) (\<lambda>have.
     bindE (capture_submission env sourcePath identity have) (\<lambda>submission.
     bindE (exec_ssh env host (buildRemoteCommand ''build'' [''--from-submission'', rp_Name repo]) (Some submission)) (\<lambda>r.
     lift_result (ssh_output host r))))))))"

definition RemoteBuild :: "build_env \<Rightarrow> (string \<Rightarrow> string) \<Rightarrow> string \<Rightarrow> ('a build_state_scheme, string option) io" where
  "RemoteBuild env jerr sourcePath = on_remote env (remote_build env jerr sourcePath)"

end
