(* ===== verification/Vci_Args.thy ===== *)
theory Vci_Args
  imports Vci_Version Vci_Client
begin

text \<open>
  The arguments of the commands that have options: \<open>setup\<close> (\<open>cli/setup.go\<close>), \<open>artifacts\<close> and \<open>logs\<close>
  (\<open>cli/data.go\<close>), \<open>watch\<close> (\<open>cli/watch.go\<close>) and \<open>wait-ready\<close> (\<open>cli/run.go\<close>). A refused argument is a
  public error; what is accepted is handed on as a value.
\<close>

definition usage_error :: "string \<Rightarrow> vci_error" where
  "usage_error message = NewError ''invalid_arguments'' FailureUsage message False"

type_synonym 'a checked = "vci_error + 'a"

section \<open>The first argument\<close>

definition command_names :: "string list" where
  "command_names = [''version'', ''build'', ''check'', ''watch'', ''abort'', ''projects'', ''machines'', ''setup'', ''internal-run'',
     ''artifacts'', ''logs'', ''probe-seed'', ''wait-ready'', ''internal-stage'', ''internal-probe-cache'', ''internal-acquire-claim'',
     ''internal-release-claim'', ''internal-reap-cache'', ''internal-reconstruct'']"

definition command_required :: vci_error where
  "command_required = NewError ''command_required'' FailureUsage ''A command is required.'' False"

definition unknown_command :: "string \<Rightarrow> vci_error" where
  "unknown_command name = NewError ''unknown_command'' FailureUsage (Sprintf ''Command %q is not recognized.'' [name]) False"

definition Parse :: "string list \<Rightarrow> (string \<times> string list) checked" where
  "Parse args = (case args of
       [] \<Rightarrow> Inl command_required
     | name # rest \<Rightarrow> if name \<in> set command_names then Inr (name, rest) else Inl (unknown_command name))"

section \<open>Waiting and watching\<close>

definition wait_usage :: vci_error where
  "wait_usage = usage_error ''--interval must be an integer between 1 and 3600 seconds.''"

fun parse_wait :: "int \<Rightarrow> string list \<Rightarrow> int checked" where
  "parse_wait interval [] = Inr interval"
| "parse_wait interval (a # args) =
     (if a = ''--interval'' then
        (case args of
           [] \<Rightarrow> Inl (usage_error ''--interval requires a value.'')
         | v # rest \<Rightarrow> (case Atoi v of
               Inr secs \<Rightarrow> if secs < 1 \<or> 3600 < secs then Inl wait_usage else parse_wait (secs * second) rest
             | Inl _ \<Rightarrow> Inl wait_usage))
      else Inl (usage_error (Sprintf ''Unknown wait-ready flag %q.'' [a])))"

definition watchUsage :: vci_error where
  "watchUsage = usage_error ''Usage: watch <run-id> [--interval <seconds>] [--exit-status].''"

definition defaultWatchInterval :: int where "defaultWatchInterval = 3 * second"
definition watchIntervalMin :: int where "watchIntervalMin = 1"
definition watchIntervalMax :: int where "watchIntervalMax = 3600"

fun watch_flags :: "int \<Rightarrow> bool \<Rightarrow> string list \<Rightarrow> (int \<times> bool) checked" where
  "watch_flags interval exitStatus [] = Inr (interval, exitStatus)"
| "watch_flags interval exitStatus (a # args) =
     (if a = ''--exit-status'' then watch_flags interval True args
      else if a = ''--interval'' then
        (case args of
           [] \<Rightarrow> Inl (usage_error ''--interval requires a value between 1 and 3600 seconds.'')
         | v # rest \<Rightarrow> (case Atoi v of
               Inr secs \<Rightarrow> if secs < watchIntervalMin \<or> watchIntervalMax < secs then Inl wait_usage
                 else watch_flags (secs * second) exitStatus rest
             | Inl _ \<Rightarrow> Inl wait_usage))
      else Inl (usage_error (Sprintf ''Unknown watch flag %q.'' [a])))"

definition parseWatchArgs :: "string list \<Rightarrow> (run_id \<times> int \<times> bool) checked" where
  "parseWatchArgs args = (case args of
       [] \<Rightarrow> Inl watchUsage
     | rid # flags \<Rightarrow> if \<not> ValidRunID rid then Inl watchUsage
         else (case watch_flags defaultWatchInterval False flags of
             Inl e \<Rightarrow> Inl e
           | Inr (interval, exitStatus) \<Rightarrow> Inr (rid, interval, exitStatus)))"

section \<open>Artifacts and logs\<close>

fun extractMachine :: "string \<Rightarrow> string list \<Rightarrow> string list \<Rightarrow> (string \<times> string list) checked" where
  "extractMachine machine out [] = Inr (machine, out)"
| "extractMachine machine out (a # args) =
     (if a = ''--machine'' then
        (case args of [] \<Rightarrow> Inl (usage_error ''--machine requires a value.'') | v # rest \<Rightarrow> extractMachine v out rest)
      else extractMachine machine (out @ [a]) args)"

record logs_args =
  la_id :: run_id
  la_stream :: string
  la_tail :: int
  la_machine :: string

definition tailMin :: int where "tailMin = 1"
definition tailMax :: int where "tailMax = 100000"

definition tail_usage :: vci_error where
  "tail_usage = usage_error ''--tail must be an integer between 1 and 100000.''"

fun logs_flags :: "logs_args \<Rightarrow> string list \<Rightarrow> logs_args checked" where
  "logs_flags la [] = Inr la"
| "logs_flags la (a # args) =
     (if a = ''--stderr'' then logs_flags (la\<lparr>la_stream := ''stderr''\<rparr>) args
      else if a = ''--machine'' then
        (case args of [] \<Rightarrow> Inl (usage_error ''--machine requires a value.'') | v # rest \<Rightarrow> logs_flags (la\<lparr>la_machine := v\<rparr>) rest)
      else if a = ''--tail'' then
        (case args of
           [] \<Rightarrow> Inl (usage_error ''--tail requires a value between 1 and 100000.'')
         | v # rest \<Rightarrow> (case Atoi v of
               Inr n \<Rightarrow> if n < tailMin \<or> tailMax < n then Inl tail_usage else logs_flags (la\<lparr>la_tail := n\<rparr>) rest
             | Inl _ \<Rightarrow> Inl tail_usage))
      else Inl (usage_error (Sprintf ''Unknown logs flag %q.'' [a])))"

definition parseLogsArgs :: "string list \<Rightarrow> logs_args checked" where
  "parseLogsArgs args = (case args of
       rid # flags \<Rightarrow> if ValidRunID rid
         then logs_flags \<lparr>la_id = rid, la_stream = ''stdout'', la_tail = 0, la_machine = []\<rparr> flags
         else Inl (usage_error ''Usage: logs <run-id> [--machine <name>] [--stderr] [--tail <n>].'')
     | [] \<Rightarrow> Inl (usage_error ''Usage: logs <run-id> [--machine <name>] [--stderr] [--tail <n>].''))"

text \<open>The loop of \<open>tailLines\<close>: what follows the \<open>skip\<close>-th newline, and the whole text when there is none.\<close>

fun skip_lines :: "int \<Rightarrow> string \<Rightarrow> string \<Rightarrow> string" where
  "skip_lines skip text_all [] = text_all"
| "skip_lines skip text_all (c # cs) =
     (if c = newline then (if skip - 1 = 0 then cs else skip_lines (skip - 1) text_all cs) else skip_lines skip text_all cs)"

definition count_lines :: "string \<Rightarrow> int" where
  "count_lines text_all = int (count_list text_all newline) + (if last text_all \<noteq> newline then 1 else 0)"

definition tailLines :: "string \<Rightarrow> int \<Rightarrow> string" where
  "tailLines text_all n =
     (if n \<le> 0 \<or> text_all = [] then []
      else if count_lines text_all \<le> n then text_all
      else skip_lines (count_lines text_all - n) text_all text_all)"

section \<open>Setup\<close>

definition option_value :: "string \<Rightarrow> string list \<Rightarrow> (string \<times> string list) checked" where
  "option_value message args = (case args of [] \<Rightarrow> Inl (usage_error message) | v # rest \<Rightarrow> Inr (v, rest))"

definition machine_option :: "string \<Rightarrow> string \<Rightarrow> machine \<Rightarrow> machine checked" where
  "machine_option a v m =
     (if a = ''--capacity'' then
        (case Atoi v of
           Inr n \<Rightarrow> if n \<le> 0 then Inl (usage_error ''--capacity must be a positive integer.'') else Inr (m\<lparr>MaxConcurrent := n\<rparr>)
         | Inl _ \<Rightarrow> Inl (usage_error ''--capacity must be a positive integer.''))
      else if a = ''--host'' then
        (case ValidateMachineHost v of Inl e \<Rightarrow> Inl (usage_error (err_text e)) | Inr _ \<Rightarrow> Inr (m\<lparr>Host := v\<rparr>))
      else if a = ''--runtime'' then Inr (m\<lparr>Runtime := v\<rparr>)
      else if a = ''--image'' then Inr (m\<lparr>Image := v\<rparr>)
      else if a = ''--snapshot'' then Inr (m\<lparr>Snapshot := v\<rparr>)
      else
        (let os = ToLower (TrimSpace v) in
         case ValidateMachineOS os of Inl e \<Rightarrow> Inl (usage_error (err_text e)) | Inr _ \<Rightarrow> Inr (m\<lparr>OS := os\<rparr>)))"

definition machine_option_missing :: "(string \<times> string) list" where
  "machine_option_missing =
     [(''--capacity'', ''--capacity requires a positive integer.''), (''--host'', ''--host requires an ssh destination.''),
      (''--runtime'', ''--runtime requires a value (docker, or empty for bare).''), (''--image'', ''--image requires an image reference.''),
      (''--snapshot'', ''--snapshot requires a snapshot reference.''), (''--os'', ''--os requires a value (windows, linux, or darwin).'')]"

fun machine_options :: "machine \<Rightarrow> string list \<Rightarrow> machine checked" where
  "machine_options m [] = Inr m"
| "machine_options m (a # args) = (case map_of machine_option_missing a of
       None \<Rightarrow> Inl (usage_error (Sprintf ''Unknown machine option %q.'' [a]))
     | Some missing \<Rightarrow> (case args of
           [] \<Rightarrow> Inl (usage_error missing)
         | v # rest \<Rightarrow> (case machine_option a v m of Inl e \<Rightarrow> Inl e | Inr m' \<Rightarrow> machine_options m' rest)))"

fun source_path_options :: "string go_map \<Rightarrow> string list \<Rightarrow> string go_map checked" where
  "source_path_options paths [] = Inr paths"
| "source_path_options paths (a # args) =
     (if a \<noteq> ''--source-path'' then Inl (usage_error (Sprintf ''Unknown machine option %q.'' [a]))
      else case args of
          [] \<Rightarrow> Inl (usage_error ''--source-path requires project=path.'')
        | v # rest \<Rightarrow> (case Cut CHR ''='' v of (project, p, ok) \<Rightarrow>
            if \<not> ok \<or> project = [] then Inl (usage_error (Sprintf ''--source-path %q must be project=path.'' [v]))
            else source_path_options (AList.update project p paths) rest))"

fun exclude_options :: "string list \<Rightarrow> string list \<Rightarrow> string list checked" where
  "exclude_options excluded [] = Inr excluded"
| "exclude_options excluded (a # args) =
     (if a \<noteq> ''--exclude'' then Inl (usage_error (Sprintf ''Unknown project option %q.'' [a]))
      else case args of
          [] \<Rightarrow> Inl (usage_error ''--exclude requires a glob.'')
        | v # rest \<Rightarrow> exclude_options (excluded @ [v]) rest)"

record project_args =
  pa_machines :: "string list"
  pa_executable :: string
  pa_args :: "string list"
  pa_artifacts :: "string list"

definition project_option_missing :: "(string \<times> string) list" where
  "project_option_missing =
     [(''--machine'', ''--machine requires a name.''), (''--command'', ''--command requires a name.''),
      (''--arg'', ''--arg requires a value.''), (''--artifact'', ''--artifact requires a glob.'')]"

definition project_option :: "string \<Rightarrow> string \<Rightarrow> project_args \<Rightarrow> project_args" where
  "project_option a v pa =
     (if a = ''--machine'' then pa\<lparr>pa_machines := pa_machines pa @ [v]\<rparr>
      else if a = ''--command'' then pa\<lparr>pa_executable := v\<rparr>
      else if a = ''--arg'' then pa\<lparr>pa_args := pa_args pa @ [v]\<rparr>
      else pa\<lparr>pa_artifacts := pa_artifacts pa @ [v]\<rparr>)"

fun project_options :: "project_args \<Rightarrow> string list \<Rightarrow> project_args checked" where
  "project_options pa [] = Inr pa"
| "project_options pa (a # args) = (case map_of project_option_missing a of
       None \<Rightarrow> Inl (usage_error (Sprintf ''Unknown project option %q.'' [a]))
     | Some missing \<Rightarrow> (case args of
           [] \<Rightarrow> Inl (usage_error missing)
         | v # rest \<Rightarrow> project_options (project_option a v pa) rest))"

fun hosted_options :: "string \<Rightarrow> string \<Rightarrow> string list \<Rightarrow> (string \<times> string) checked" where
  "hosted_options url commit [] = Inr (url, commit)"
| "hosted_options url commit (a # args) =
     (if a = ''--url'' then
        (case args of [] \<Rightarrow> Inl (usage_error ''--url requires a value.'') | v # rest \<Rightarrow> hosted_options v commit rest)
      else if a = ''--commit'' then
        (case args of [] \<Rightarrow> Inl (usage_error ''--commit requires a value.'') | v # rest \<Rightarrow> hosted_options url v rest)
      else Inl (usage_error (Sprintf ''Unknown hosted option %q.'' [a])))"

end
