(* ===== verification/Vci_Build.thy ===== *)
theory Vci_Build
  imports Vci_Remote
begin

text \<open>
  \<open>internal/app/build.go\<close>: admitting a build (from a checkout, a pinned source or a client's submission)
  and fanning it out into one run per machine, and the worker that executes one of those runs.

  A worker shares the store with other processes and with two goroutines of its own. What they do is an
  argument of the execution: at each point of the worker, an arbitrary program of the others and the
  ticks at which its watch of the cancellation and its renewal of the lease wake up.
\<close>

section \<open>Snapshots\<close>

definition buildParentSnapshot :: "string \<Rightarrow> project \<Rightarrow> config \<Rightarrow> run_snapshot" where
  "buildParentSnapshot name project cfg =
     \<lparr>sn_project = name, sn_project_config = project, sn_machine = [], sn_machines = Machines cfg, sn_stdout_bytes = StdoutBytes cfg,
       sn_stderr_bytes = StderrBytes cfg, sn_retention = RetentionBytes cfg, sn_source_head = [], sn_provenance = None\<rparr>"

definition buildStagedSnapshot :: "string \<Rightarrow> project \<Rightarrow> string \<Rightarrow> config \<Rightarrow> string \<Rightarrow> string go_map option \<Rightarrow> run_snapshot" where
  "buildStagedSnapshot name project machine cfg sourceHead provenance =
     \<lparr>sn_project = name, sn_project_config = project, sn_machine = machine, sn_machines = Machines cfg, sn_stdout_bytes = StdoutBytes cfg,
       sn_stderr_bytes = StderrBytes cfg, sn_retention = RetentionBytes cfg, sn_source_head = sourceHead, sn_provenance = provenance\<rparr>"

section \<open>Admission\<close>

definition remove_run :: "run_id \<Rightarrow> ('a store_state_scheme, unit) io" where
  "remove_run rid = bindE os_call (\<lambda>_. modify (runs_update (AList.delete rid)))"

definition rollbackRuns :: "layout \<Rightarrow> run_id list \<Rightarrow> ('a store_state_scheme, unit) io" where
  "rollbackRuns l rids = forE rids (\<lambda>rid. case RunDir l rid of Inl _ \<Rightarrow> ret () | Inr _ \<Rightarrow> ignore (remove_run rid))"

record staging =
  sg_cfg :: config
  sg_name :: string
  sg_project :: project
  sg_sourcePath :: string
  sg_sourceDigest :: string
  sg_sourceHead :: string
  sg_provenance :: "string go_map option"
  sg_now :: int

definition stage_child :: "(run_snapshot \<Rightarrow> string) \<Rightarrow> staging \<Rightarrow> run_id \<Rightarrow> string \<Rightarrow> ('a store_state_scheme, run_id) io" where
  "stage_child digest sg parentID machine =
     bindE (NewRunID (sg_now sg)) (\<lambda>childID.
     bindE (lift_result (NewRunFromID digest childID (sg_name sg) machine (ResolveCommand (sg_project sg) machine) (sg_sourceDigest sg)
       (buildStagedSnapshot (sg_name sg) (sg_project sg) machine (sg_cfg sg) (sg_sourceHead sg) (sg_provenance sg)) (sg_now sg))) (\<lambda>child.
     bindE (Save (child\<lparr>ParentRunID := parentID, SourcePath := sg_sourcePath sg\<rparr>)) (\<lambda>_.
     ret (ID child))))"

fun stage_children :: "(run_snapshot \<Rightarrow> string) \<Rightarrow> layout \<Rightarrow> staging \<Rightarrow> run_id \<Rightarrow> run_id list \<Rightarrow> string list \<Rightarrow> ('a store_state_scheme, run_id list) io" where
  "stage_children digest l sg parentID created [] = ret created"
| "stage_children digest l sg parentID created (machine # machines) =
     bindE (on_error (rollbackRuns l created) (stage_child digest sg parentID machine)) (\<lambda>childID.
     stage_children digest l sg parentID (created @ [childID]) machines)"

definition stage_parent :: "(run_snapshot \<Rightarrow> string) \<Rightarrow> staging \<Rightarrow> run_id \<Rightarrow> run_id list \<Rightarrow> ('a store_state_scheme, run_record) io" where
  "stage_parent digest sg parentID childIDs =
     bindE (lift_result (NewParentRun digest parentID (sg_name sg) (Command (sg_project sg)) childIDs
       (buildParentSnapshot (sg_name sg) (sg_project sg) (sg_cfg sg)) (sg_now sg))) (\<lambda>p.
     let parent = p\<lparr>SourcePath := sg_sourcePath sg\<rparr> in
     bindE (Save parent) (\<lambda>_. ret parent))"

definition stageFanout :: "(run_snapshot \<Rightarrow> string) \<Rightarrow> layout \<Rightarrow> staging \<Rightarrow> ('a store_state_scheme, run_record) io" where
  "stageFanout digest l sg =
     bindE (NewRunID (sg_now sg)) (\<lambda>parentID.
     bindE (stage_children digest l sg parentID [] (TargetMachines (sg_project sg))) (\<lambda>childIDs.
     on_error (rollbackRuns l childIDs) (stage_parent digest sg parentID childIDs)))"

definition Prepare :: "build_env \<Rightarrow> layout \<Rightarrow> string \<Rightarrow> ('a build_state_scheme, run_record) io" where
  "Prepare env l sourcePath =
     bindE (on_fs (ensure_layout l)) (\<lambda>_.
     admitAndStage (
       bindE (LoadConfig (be_toml env)) (\<lambda>cfg.
       bindE (with_run env (\<lambda>run. Discover run sourcePath)) (\<lambda>repo.
       bindE (lift_result (MatchProject (rp_Name repo) (map fst (Projects cfg)))) (\<lambda>name.
       let project = the (map_of (Projects cfg) name) in
       bindE (guard (TargetMachines project \<noteq> []) (Errf ''project %q has no attached machines'' [name])) (\<lambda>_.
       bindE (with_run env (\<lambda>run. SelectBuildInput run (rp_Root repo))) (\<lambda>_.
       bindE Now (\<lambda>now.
       stageFanout (be_digest env) l
         \<lparr>sg_cfg = cfg, sg_name = name, sg_project = project, sg_sourcePath = rp_Root repo, sg_sourceDigest = [], sg_sourceHead = [],
           sg_provenance = None, sg_now = now\<rparr>))))))))"

definition client_root_error :: "config \<Rightarrow> err" where
  "client_root_error cfg = Errf ''client root: orchestrator = %q'' [Orchestrator cfg]"

definition hosted_project :: "config \<Rightarrow> string \<Rightarrow> (project \<times> hosted_fallback) result" where
  "hosted_project cfg name =
     (if Orchestrator cfg \<noteq> OrchestratorSelf then Inl (client_root_error cfg)
      else if \<not> ValidName name then Inl (EWrap ''%w: project name %q is invalid'' [name] (ESent ErrHostedFallbackInvalid))
      else case map_of (Projects cfg) name of
          None \<Rightarrow> Inl (EWrap ''%w: project %q'' [name] (ESent ErrHostedFallbackNotConfigured))
        | Some project \<Rightarrow>
            if TargetMachines project = [] then Inl (Errf ''project %q has no attached machines'' [name])
            else (case ValidateHosted (HostedFallback project) of Inl e \<Rightarrow> Inl e | Inr validated \<Rightarrow> Inr (project, validated)))"

definition hosted_manifest :: "build_env \<Rightarrow> layout \<Rightarrow> string \<Rightarrow> ('a build_state_scheme, manifest) io" where
  "hosted_manifest env l checkoutRoot =
     bindE (with_run env (\<lambda>run. SelectBuildInput run checkoutRoot)) (\<lambda>graph.
     bindE (wrapE ''prepare hosted snapshot dir: %w'' [] (on_fs (MkdirTemp (TempDir l) ''vci-snapshot-''))) (\<lambda>snapParent.
     deferE (ignore (on_fs (Vci_Fs.RemoveAll snapParent)))
       (bindE (on_fs (MaterializeSnapshot graph snapParent)) (\<lambda>_.
        bindE (on_fs (BuildWithValidation (be_sha env) checkoutRoot (si_LFSFiles graph))) (\<lambda>(manifest, blobs).
        bindE (on_fs (PutManifestAndBlobs (be_sha env) (be_codec env) l manifest blobs)) (\<lambda>_.
        ret manifest))))))"

definition PrepareHosted :: "build_env \<Rightarrow> layout \<Rightarrow> string \<Rightarrow> ('a build_state_scheme, run_record) io" where
  "PrepareHosted env l name =
     bindE (on_fs (ensure_layout l)) (\<lambda>_.
     bindE (LoadConfig (be_toml env)) (\<lambda>cfg.
     bindE (lift_result (hosted_project cfg name)) (\<lambda>(project, validated).
     bindE (on_fs (Checkout (be_run_env env) (be_environ env) l name validated)) (\<lambda>checkoutRoot.
     deferE (ignore (on_fs (CleanUnder checkoutRoot (TempDir l))))
       (bindE (hosted_manifest env l checkoutRoot) (\<lambda>manifest.
        bindE Now (\<lambda>now.
        admitAndStage (stageFanout (be_digest env) l
          \<lparr>sg_cfg = cfg, sg_name = name, sg_project = project, sg_sourcePath = [], sg_sourceDigest = mf_Digest manifest, sg_sourceHead = Commit validated,
            sg_provenance = Some [(''kind'', ''hosted_git''), (''url'', URL validated), (''commit'', Commit validated)], sg_now = now\<rparr>))))))))"

section \<open>Submissions\<close>

definition localSeed :: "config \<Rightarrow> string \<Rightarrow> string result" where
  "localSeed cfg name =
     (let project = (case map_of (Projects cfg) name of Some p \<Rightarrow> TargetMachines p | None \<Rightarrow> []);
          machine = (\<lambda>n. case map_of (Machines cfg) n of Some m \<Rightarrow> m | None \<Rightarrow> zero_machine)
      in case find (\<lambda>n. Host (machine n) = [] \<and> source_path (machine n) name \<noteq> []) project of
           Some n \<Rightarrow> Inr (source_path (machine n) name)
         | None \<Rightarrow> Inl (Errf ''no local source path configured for project %q'' [name]))"

definition ProbeSeed :: "build_env \<Rightarrow> string \<Rightarrow> ('a build_state_scheme, string) io" where
  "ProbeSeed env name =
     bindE (LoadConfig (be_toml env)) (\<lambda>cfg.
     bindE (guard (Orchestrator cfg = OrchestratorSelf) (client_root_error cfg)) (\<lambda>_.
     case localSeed cfg name of
       Inl _ \<Rightarrow> ret []
     | Inr seed \<Rightarrow>
         bindE (with_run env (\<lambda>run. git run seed [''rev-parse'', ''HEAD''] None)) (\<lambda>r.
         ret (if RunErr r = None then TrimSpace (Output r) else []))))"

definition submission_project :: "config \<Rightarrow> string \<Rightarrow> project result" where
  "submission_project cfg name =
     (if Orchestrator cfg \<noteq> OrchestratorSelf then Inl (client_root_error cfg)
      else case map_of (Projects cfg) name of
          None \<Rightarrow> Inl (Errf ''project %q is not configured'' [name])
        | Some project \<Rightarrow> if TargetMachines project = [] then Inl (Errf ''project %q has no attached machines'' [name]) else Inr project)"

definition reconstruct_submission :: "build_env \<Rightarrow> layout \<Rightarrow> string \<Rightarrow> project \<Rightarrow> string \<Rightarrow> submission \<Rightarrow> string \<Rightarrow> ('a build_state_scheme, run_record) io" where
  "reconstruct_submission env l name project seed sub tempRoot =
     (let reconDir = FJoin [tempRoot, name] in
      bindE (wrapE ''reconstruct workspace: %w'' [] (with_run env (\<lambda>run. ReconstructWorkspace run (be_tmp env) seed reconDir (s_Head sub)
        (if s_Bundle sub = [] then None else Some (s_Bundle sub)) (s_LocalChanges sub) (ExcludedPaths project)))) (\<lambda>_.
      bindE (Prepare env l reconDir) (\<lambda>prepared.
      let parent = prepared\<lparr>SourcePath := tempRoot\<rparr> in
      bindE (Save parent) (\<lambda>_. ret parent))))"

definition write_lc :: "string \<Rightarrow> run_record \<Rightarrow> ('a store_state_scheme, unit) io" where
  "write_lc lc child =
     bindE (guard (ValidName (ID child)) (Errf ''invalid run id %q'' [ID child])) (\<lambda>_.
     bindE os_call (\<lambda>_. bindE (in_run (ID child)) (\<lambda>_.
     modify (put_run (ID child) (submission_lc_update (\<lambda>_. Some lc))))))"

definition PrepareFromSubmission :: "build_env \<Rightarrow> layout \<Rightarrow> string \<Rightarrow> string \<Rightarrow> ('a build_state_scheme, run_record) io" where
  "PrepareFromSubmission env l name data =
     bindE (on_fs (ensure_layout l)) (\<lambda>_.
     bindE (LoadConfig (be_toml env)) (\<lambda>cfg.
     bindE (lift_result (submission_project cfg name)) (\<lambda>project.
     let seed = (case localSeed cfg name of Inl _ \<Rightarrow> [] | Inr p \<Rightarrow> p) in
     bindE (lift_result (UnpackageSubmission (be_untar env) data)) (\<lambda>sub.
     bindE (wrapE ''create reconstruction dir: %w'' [] (on_fs (MkdirTemp (TempDir l) ''vci-recon-''))) (\<lambda>tempRoot.
     bindE (on_error (ignore (on_fs (Vci_Fs.RemoveAll tempRoot))) (reconstruct_submission env l name project seed sub tempRoot)) (\<lambda>parent.
     bindE (lift_result (PackageLC (be_tar env) (s_LocalChanges sub))) (\<lambda>lc.
     bindE (LoadChildren (ID parent)) (\<lambda>children.
     bindE (forE children (write_lc lc)) (\<lambda>_.
     ret parent)))))))))"

section \<open>The worker\<close>

datatype worker_point = Claimed | Started | Populated | Executing | Executed | Collected | Committing | Published

record 's worker_events =
  ev_others :: "worker_point \<Rightarrow> ('s, unit) io"
  ev_watch :: "worker_point \<Rightarrow> int list"
  ev_renew :: "worker_point \<Rightarrow> int list"

definition others :: "'s worker_events \<Rightarrow> worker_point \<Rightarrow> ('s, unit) io" where
  "others ev p = ignore (ev_others ev p)"

definition leaseTTL :: int where "leaseTTL = 30 * minute"

text \<open>What runs beside the worker at a point: the others, then the two goroutines unless they have returned.\<close>

definition background :: "'a build_state_scheme worker_events \<Rightarrow> run_id \<Rightarrow> string \<Rightarrow> worker_point \<Rightarrow> ('a build_state_scheme, unit) io" where
  "background ev rid owner p =
     bindE (others ev p) (\<lambda>_.
     bindE (asks watch_ended) (\<lambda>ended.
     bindE (if ended then ret False else watchCancellation rid (map WatchTick (ev_watch ev p))) (\<lambda>c.
     bindE (asks ownership_lost) (\<lambda>lost.
     bindE (if lost then ret False else renewLease rid owner leaseTTL (map WatchTick (ev_renew ev p))) (\<lambda>gone.
     modify (\<lambda>w. w\<lparr>ctx_done := ctx_done w \<or> c \<or> gone, watch_ended := ended \<or> c, ownership_lost := lost \<or> gone\<rparr>))))))"

definition removeOwned :: "string \<Rightarrow> ('a fs_state_scheme, unit) io" where
  "removeOwned path =
     bindE (attempt (WalkDir (\<lambda>p k. bindE (attempt (Chmod p (if k = KDir then 448 else 384))) (\<lambda>_. ret False)) path)) (\<lambda>_.
     Vci_Fs.RemoveAll path)"

definition cleanReconstructStaging :: "layout \<Rightarrow> string \<Rightarrow> ('a fs_state_scheme, unit) io" where
  "cleanReconstructStaging l sourcePath =
     (if sourcePath = [] then ret ()
      else case Rel (TempDir l) (Dir sourcePath) of
          None \<Rightarrow> ret ()
        | Some rel \<Rightarrow> if rel = ''.'' \<or> HasPrefix rel ''..'' then ret () else ignore (Vci_Fs.RemoveAll (Dir sourcePath)))"

definition populateWorkspace :: "build_env \<Rightarrow> layout \<Rightarrow> run_record \<Rightarrow> project \<Rightarrow> string \<Rightarrow> ('a fs_state_scheme, unit) io" where
  "populateWorkspace env l r project partial =
     (if SourcePath r \<noteq> [] then
        bindE (CopyWorkspace (SourcePath r) partial (\<lambda>name. name = ''.vci'' \<or> name = ''.git'')) (\<lambda>_.
        ApplyExclusions partial (ExcludedPaths project))
      else
        bindE (LoadManifest (be_codec env) l (SourceDigest r)) (\<lambda>manifest.
        Materialize (be_sha env) l manifest partial))"

text \<open>The state a worker records, and the class of the failure.\<close>

definition verdict :: "bool \<Rightarrow> err option \<Rightarrow> int \<Rightarrow> run_state \<times> string" where
  "verdict cancelled execErr exitCode =
     (if cancelled then (RunAborted, [])
      else case execErr of
          Some e \<Rightarrow> if err_is e ErrTargetUnavailable then (RunUnavailable, ''infrastructure'') else (RunFailed, ''infrastructure'')
        | None \<Rightarrow> if exitCode \<noteq> 0 then (RunFailed, ''job'') else (RunSucceeded, []))"

definition transition_now :: "run_id \<Rightarrow> run_state \<Rightarrow> ('a store_state_scheme, run_record) io" where
  "transition_now rid s = bindE Now (\<lambda>now. StoreTransition rid s now)"

definition drop_workspace :: "string \<Rightarrow> ('a build_state_scheme, unit) io" where
  "drop_workspace workspace = ignore (on_fs (removeOwned workspace))"

text \<open>A log is created or truncated. In the run directory it is a regular file or absent.\<close>

definition put_log :: "string \<Rightarrow> string \<Rightarrow> run_dir \<Rightarrow> run_dir" where
  "put_log name data = log_files_update (AList.update name (Regular data))"

definition open_log :: "run_id \<Rightarrow> string \<Rightarrow> ('a store_state_scheme, unit) io" where
  "open_log rid name =
     bindE os_call (\<lambda>_.
     bindE (asks (log_node rid name)) (\<lambda>n.
     bindE (case n of
         Inl e \<Rightarrow> if IsNotExist e then in_run rid else throw e
       | Inr (Regular _) \<Rightarrow> ret ()
       | Inr _ \<Rightarrow> throw (EOs ''not a regular file'')) (\<lambda>_.
     modify (put_run rid (put_log name [])))))"

definition log_pair :: "run_snapshot \<Rightarrow> string list \<Rightarrow> string list \<Rightarrow> string limit_writer \<times> string limit_writer" where
  "log_pair sn out err = (writes file_writer (New [] (sn_stdout_bytes sn)) out, writes file_writer (New [] (sn_stderr_bytes sn)) err)"

text \<open>What an execution leaves, local or remote.\<close>

definition local_outcome :: "exec_result outcome \<Rightarrow> remote_outcome" where
  "local_outcome o1 = \<lparr>ro_Result = oc_Result o1, ro_Artifacts = [], ro_Truncated = False, ro_Warning = [], ro_Err = oc_Err o1,
     ro_Stdout = oc_Stdout o1, ro_Stderr = oc_Stderr o1\<rparr>"

definition execute_local :: "build_env \<Rightarrow> run_snapshot \<Rightarrow> run_record \<Rightarrow> project \<Rightarrow> string \<Rightarrow> string
    \<Rightarrow> ('a build_state_scheme, unit) io \<Rightarrow> ('a build_state_scheme, remote_outcome) io" where
  "execute_local env sn r project owner workspace during =
     (let cmd = (if ResolveCommand project (Machine r) = [] then RunCommand r else ResolveCommand project (Machine r)) in
      case cmd of
        [] \<Rightarrow> throw index_panic
      | exe # args \<Rightarrow>
          bindE (ExecuteSupervised (be_machine env) (selectExecutor sn)
            \<lparr>rq_Executable = exe, rq_Args = args, rq_Workspace = workspace, rq_Environment = Environment project\<rparr>
            (\<lambda>pid started. WriteExecution (ID r) \<lparr>x_SchemaVersion = 1, x_RunID = ID r, x_Owner = owner, x_PID = pid, x_PGID = pid,
              x_StartedAt = started, x_CancellationRequestedAt = None, x_CancellationPhase = CancellationNone\<rparr>) during) (\<lambda>o1.
          bindE (attempt (ReadExecution (ID r))) (\<lambda>x.
          bindE (case x of
              Inl _ \<Rightarrow> ret ()
            | Inr e \<Rightarrow> ignore (WriteExecution (ID r) (e\<lparr>x_CancellationPhase := CancellationReaped\<rparr>))) (\<lambda>_.
          ret (local_outcome o1)))))"

definition submitted_head :: "build_env \<Rightarrow> run_snapshot \<Rightarrow> run_record \<Rightarrow> ('a build_state_scheme, string) io" where
  "submitted_head env sn r =
     (if sn_source_head sn = [] \<and> SourcePath r \<noteq> [] then
        bindE (attempt (with_run env (\<lambda>run. CaptureIdentity run (SourcePath r)))) (\<lambda>x. ret (case x of Inl _ \<Rightarrow> [] | Inr i \<Rightarrow> id_Head i))
      else ret (sn_source_head sn))"

definition execute_run :: "build_env \<Rightarrow> layout \<Rightarrow> run_snapshot \<Rightarrow> run_record \<Rightarrow> project \<Rightarrow> string \<Rightarrow> string
    \<Rightarrow> ('a build_state_scheme, unit) io \<Rightarrow> ('a build_state_scheme, remote_outcome) io" where
  "execute_run env l sn r project owner workspace during =
     (let m = resolvedMachine sn in
      if Host m \<noteq> [] then
        bindE (submitted_head env sn r) (\<lambda>head.
        executeRemote env l (ID r) m (Machine r) (SourcePath r) workspace project (Project r) head during)
      else execute_local env sn r project owner workspace during)"

definition run_result_of :: "layout \<Rightarrow> run_snapshot \<Rightarrow> run_record \<Rightarrow> remote_outcome \<Rightarrow> run_state \<Rightarrow> string \<Rightarrow> string list \<Rightarrow> bool \<Rightarrow> build_result" where
  "run_result_of l sn r ro state failure collected truncated =
     (let dir = FJoin [RunsDir l, ID r]; (out, err) = log_pair sn (ro_Stdout ro) (ro_Stderr ro) in
      \<lparr>br_RunID = ID r, br_Project = Project r, br_Machine = Machine r, br_State = state, br_SourceDigest = SourceDigest r,
        br_ConfigDigest = ConfigDigest r, br_ConfigSnapshot = ConfigSnapshot r, br_ExitCode = xr_ExitCode (ro_Result ro), br_Failure = failure,
        br_StdoutPath = FJoin [dir, ''stdout.log''], br_StderrPath = FJoin [dir, ''stderr.log''], br_StdoutTruncated = lw_truncated out,
        br_StderrTruncated = lw_truncated err, br_Artifacts = collected, br_ArtifactsTruncated = truncated,
        br_Warnings = (if ro_Warning ro = [] then [] else [ro_Warning ro]), br_Executor = ro_Result ro\<rparr>)"

text \<open>Publishing: the run is committing, its result is written, then its final state; a failure in between
  removes the workspace and leaves the run to the reaper.\<close>

definition publish_run :: "'a build_state_scheme worker_events \<Rightarrow> run_id \<Rightarrow> string \<Rightarrow> build_result \<Rightarrow> ('a build_state_scheme, run_record) io" where
  "publish_run ev rid owner result =
     bindE (transition_now rid RunCommitting) (\<lambda>_.
     bindE (background ev rid owner Committing) (\<lambda>_.
     bindE (PublishResult rid result) (\<lambda>_.
     bindE (background ev rid owner Published) (\<lambda>_.
     transition_now rid (br_State result)))))"

definition clean_run :: "run_id \<Rightarrow> string \<Rightarrow> ('a build_state_scheme, unit) io" where
  "clean_run rid workspace =
     bindE (ignore (RemoveExecution rid)) (\<lambda>_.
     bindE (ignore (bindE os_call (\<lambda>_. modify (put_run rid (submission_lc_update (\<lambda>_. None)))))) (\<lambda>_.
     bindE (attempt (on_fs (removeOwned workspace))) (\<lambda>x. case x of
         Inr _ \<Rightarrow> ret ()
       | Inl e \<Rightarrow> ignore (bindE os_call (\<lambda>_. modify (put_run rid (cleanup_pending_update (\<lambda>_. Some (err_text e)))))))))"

definition commit_run :: "'a build_state_scheme worker_events \<Rightarrow> run_id \<Rightarrow> string \<Rightarrow> string \<Rightarrow> build_result \<Rightarrow> ('a build_state_scheme, build_result) io" where
  "commit_run ev rid owner workspace result =
     bindE (on_error (drop_workspace workspace) (publish_run ev rid owner result)) (\<lambda>_.
     bindE (clean_run rid workspace) (\<lambda>_.
     ret result))"

definition collect_local :: "run_snapshot \<Rightarrow> run_id \<Rightarrow> string \<Rightarrow> remote_outcome \<Rightarrow> ('a build_state_scheme, string list \<times> bool) io" where
  "collect_local sn rid workspace ro =
     (if Host (resolvedMachine sn) = [] \<and> Artifacts (sn_project_config sn) \<noteq> [] then
        bindE (collect_workspace workspace rid (Artifacts (sn_project_config sn))) (\<lambda>(collected, truncated, err). case err of
          Some e \<Rightarrow> throw (EWrap ''collect artifacts: %w'' [] e)
        | None \<Rightarrow> ret (collected, truncated))
      else ret (ro_Artifacts ro, ro_Truncated ro))"

definition finish_run :: "'a build_state_scheme worker_events \<Rightarrow> layout \<Rightarrow> run_snapshot \<Rightarrow> run_record \<Rightarrow> string \<Rightarrow> string \<Rightarrow> remote_outcome
    \<Rightarrow> ('a build_state_scheme, build_result) io" where
  "finish_run ev l sn r owner workspace ro =
     bindE (asks ownership_lost) (\<lambda>lost.
     if lost then
       bindE (drop_workspace workspace) (\<lambda>_.
       bindE (ignore (RemoveExecution (ID r))) (\<lambda>_.
       throw (Errf ''run %s lost worker ownership'' [ID r])))
     else
       bindE (on_error (drop_workspace workspace) (collect_local sn (ID r) workspace ro)) (\<lambda>(collected, truncated).
       bindE (background ev (ID r) owner Collected) (\<lambda>_.
       bindE (attempt (Load (ID r))) (\<lambda>latest.
       bindE (asks ctx_done) (\<lambda>ended.
       let (state, failure) = verdict (cancelledByWorker ended latest) (ro_Err ro) (xr_ExitCode (ro_Result ro)) in
       commit_run ev (ID r) owner workspace (run_result_of l sn r ro state failure collected truncated))))))"

text \<open>The logs hold what the limits let through.\<close>

definition write_logs :: "run_snapshot \<Rightarrow> run_id \<Rightarrow> remote_outcome \<Rightarrow> ('a store_state_scheme, unit) io" where
  "write_logs sn rid ro =
     (let (out, err) = log_pair sn (ro_Stdout ro) (ro_Stderr ro) in
      modify (put_run rid (put_log ''stdout.log'' (lw_w out) \<circ> put_log ''stderr.log'' (lw_w err))))"

definition run_staged :: "build_env \<Rightarrow> 'a build_state_scheme worker_events \<Rightarrow> layout \<Rightarrow> run_snapshot \<Rightarrow> run_record \<Rightarrow> string \<Rightarrow> string
    \<Rightarrow> ('a build_state_scheme, build_result) io" where
  "run_staged env ev l sn r owner workspace =
     bindE (on_error (drop_workspace workspace)
       (bindE (transition_now (ID r) RunRunning) (\<lambda>_.
        bindE (open_log (ID r) ''stdout.log'') (\<lambda>_. open_log (ID r) ''stderr.log'')))) (\<lambda>_.
     let project = (if Command (sn_project_config sn) = [] then (sn_project_config sn)\<lparr>Command := RunCommand r\<rparr> else sn_project_config sn) in
     bindE (execute_run env l sn r project owner workspace (background ev (ID r) owner Executing)) (\<lambda>ro.
     bindE (write_logs sn (ID r) ro) (\<lambda>_.
     bindE (background ev (ID r) owner Executed) (\<lambda>_.
     finish_run ev l sn r owner workspace ro))))"

text \<open>Filling the workspace: a failure records the run as aborted when that was asked for, else as lost.\<close>

definition stage_run :: "build_env \<Rightarrow> layout \<Rightarrow> run_snapshot \<Rightarrow> run_record \<Rightarrow> string \<Rightarrow> string \<Rightarrow> ('a build_state_scheme, unit) io" where
  "stage_run env l sn r partial workspace =
     bindE (attempt (on_fs (populateWorkspace env l r (sn_project_config sn) partial))) (\<lambda>x. case x of
       Inl e \<Rightarrow>
         bindE (drop_workspace partial) (\<lambda>_.
         bindE (cancellationRequested (ID r)) (\<lambda>c.
         bindE (ignore (transition_now (ID r) (if c then RunAborted else RunLost))) (\<lambda>_.
         throw e)))
     | Inr _ \<Rightarrow>
         bindE (attempt (on_fs (Rename partial workspace))) (\<lambda>y. case y of
           Inl e \<Rightarrow>
             bindE (drop_workspace partial) (\<lambda>_.
             bindE (ignore (transition_now (ID r) RunLost)) (\<lambda>_.
             throw e))
         | Inr _ \<Rightarrow> ret ()))"

definition work_on :: "build_env \<Rightarrow> 'a build_state_scheme worker_events \<Rightarrow> layout \<Rightarrow> run_record \<Rightarrow> run_snapshot \<Rightarrow> string
    \<Rightarrow> ('a build_state_scheme, build_result) io" where
  "work_on env ev l r sn owner =
     (let partial = FJoin [WorkDir l, ID r @ ''.partial'']; workspace = FJoin [WorkDir l, ID r] in
      bindE (modify (\<lambda>w. w\<lparr>ctx_done := False, watch_ended := False, ownership_lost := False\<rparr>)) (\<lambda>_.
      bindE (background ev (ID r) owner Started) (\<lambda>_.
      bindE (cancellationRequested (ID r)) (\<lambda>c.
      if c then
        bindE (ignore (transition_now (ID r) RunAborted)) (\<lambda>_.
        throw (Errf ''run %s was cancelled before execution'' [ID r]))
      else
        bindE (stage_run env l sn r partial workspace) (\<lambda>_.
        deferE (if ParentRunID r = [] then on_fs (cleanReconstructStaging l (SourcePath r)) else ret ())
          (bindE (background ev (ID r) owner Populated) (\<lambda>_.
           bindE (cancellationRequested (ID r)) (\<lambda>c2.
           if c2 then
             bindE (drop_workspace workspace) (\<lambda>_.
             bindE (ignore (transition_now (ID r) RunAborted)) (\<lambda>_.
             throw (Errf ''run %s was cancelled during staging'' [ID r])))
           else run_staged env ev l sn r owner workspace))))))))"

definition leased_work :: "build_env \<Rightarrow> 'a build_state_scheme worker_events \<Rightarrow> layout \<Rightarrow> run_id \<Rightarrow> run_record \<Rightarrow> string
    \<Rightarrow> ('a build_state_scheme, build_result) io" where
  "leased_work env ev l rid r owner =
     bindE (others ev Claimed) (\<lambda>_.
     bindE (Load rid) (\<lambda>recheck.
     bindE (guard (State recheck = RunStaging)
       (Errf ''run %s left staging state before lease (state=%s)'' [rid, state_text (State recheck)])) (\<lambda>_.
     bindE (wrapE ''decode run configuration snapshot: %w'' [] (lift_result (decode_json (ConfigSnapshot r)))) (\<lambda>sn.
     work_on env ev l r sn owner))))"

definition reserved_work :: "build_env \<Rightarrow> 'a build_state_scheme worker_events \<Rightarrow> layout \<Rightarrow> run_id \<Rightarrow> run_record \<Rightarrow> ('a build_state_scheme, build_result) io" where
  "reserved_work env ev l rid r =
     bindE NewOwner (\<lambda>owner.
     bindE Now (\<lambda>now.
     bindE (ClaimLease rid owner now leaseTTL) (\<lambda>_.
     deferE (ignore (ReleaseLease rid owner)) (leased_work env ev l rid r owner))))"

definition execute_target :: "build_env \<Rightarrow> 'a build_state_scheme worker_events \<Rightarrow> layout \<Rightarrow> run_id \<Rightarrow> run_record \<Rightarrow> ('a build_state_scheme, build_result) io" where
  "execute_target env ev l rid r0 =
     bindE (guard (State r0 \<noteq> RunAborted) (Errf ''run %s was aborted'' [rid])) (\<lambda>_.
     bindE (wrapE ''scheduler reservation missing for %s on %s: %w'' [rid, Machine r0] (ReservationFor l (Machine r0) rid)) (\<lambda>_.
     bindE (if State r0 = RunQueued then transition_now rid RunStaging else ret r0) (\<lambda>r.
     bindE (guard (State r = RunStaging) (Errf ''run %s is not in staging state (state=%s)'' [rid, state_text (State r)])) (\<lambda>_.
     deferE (ignore (Release l (Machine r) rid)) (reserved_work env ev l rid r)))))"

text \<open>A parent has its first target reserved and executed. The call nests once: a target that could be
  reserved names a machine, so it is not a parent again.\<close>

definition reserve_first :: "build_env \<Rightarrow> layout \<Rightarrow> run_id \<Rightarrow> ('a build_state_scheme, run_id) io" where
  "reserve_first env l rid =
     bindE (LoadConfig (be_toml env)) (\<lambda>cfg.
     bindE (attempt (LoadChildren rid)) (\<lambda>x. case x of
       Inl e \<Rightarrow> throw (EWrap ''build %s has no targets to execute: %w'' [rid] e)
     | Inr [] \<Rightarrow> throw (Errf ''build %s has no targets to execute: %!w(<nil>)'' [rid])
     | Inr (child # _) \<Rightarrow>
         bindE Now (\<lambda>now.
         bindE (Reserve l Load cfg (Machine child) (ID child) now) (\<lambda>_.
         ret (ID child)))))"

primrec execute_prepared :: "nat \<Rightarrow> build_env \<Rightarrow> 'a build_state_scheme worker_events \<Rightarrow> layout \<Rightarrow> run_id \<Rightarrow> ('a build_state_scheme, build_result) io" where
  "execute_prepared 0 env ev l rid = throw (EOs ''stack exhausted'')"
| "execute_prepared (Suc n) env ev l rid =
     bindE (Load rid) (\<lambda>r.
     if Children r \<noteq> [] \<and> Machine r = [] then bindE (reserve_first env l rid) (execute_prepared n env ev l)
     else execute_target env ev l rid r)"

definition ExecutePrepared :: "build_env \<Rightarrow> 'a build_state_scheme worker_events \<Rightarrow> layout \<Rightarrow> run_id \<Rightarrow> ('a build_state_scheme, build_result) io" where
  "ExecutePrepared = execute_prepared 2"

definition execute_child :: "build_env \<Rightarrow> 'a build_state_scheme worker_events \<Rightarrow> layout \<Rightarrow> config \<Rightarrow> int \<Rightarrow> run_record \<Rightarrow> ('a build_state_scheme, unit) io" where
  "execute_child env ev l cfg now child =
     bindE (attempt (Reserve l Load cfg (Machine child) (ID child) now)) (\<lambda>x. case x of
       Inl _ \<Rightarrow> ret ()
     | Inr _ \<Rightarrow> ignore (ExecutePrepared env ev l (ID child)))"

definition BuildFromSubmission :: "build_env \<Rightarrow> 'a build_state_scheme worker_events \<Rightarrow> layout \<Rightarrow> string \<Rightarrow> string \<Rightarrow> ('a build_state_scheme, build_summary) io" where
  "BuildFromSubmission env ev l name data =
     bindE (PrepareFromSubmission env l name data) (\<lambda>parent.
     bindE (LoadConfig (be_toml env)) (\<lambda>cfg.
     bindE (attempt (LoadChildren (ID parent))) (\<lambda>x.
     bindE Now (\<lambda>now.
     bindE (forE (case x of Inl _ \<Rightarrow> [] | Inr children \<Rightarrow> children) (execute_child env ev l cfg now)) (\<lambda>_.
     bindE (BuildSummaryView (ID parent)) (\<lambda>view. case view of
       SumBuild summary \<Rightarrow> ret summary
     | _ \<Rightarrow> throw (Errf ''build %s produced an unexpected summary'' [ID parent])))))))"

definition Check :: "run_id \<Rightarrow> ('a store_state_scheme, summary_view) io" where
  "Check rid = BuildSummaryView rid"

end
