(* ===== verification/Vci_Cli.thy ===== *)
theory Vci_Cli
  imports Vci_Args Vci_Build Vci_Reconstruct
begin

text \<open>
  The command line, \<open>internal/cli\<close>: what each command asks of the application, whether it is forwarded to a
  coordinator, and the envelope, bytes and exit code that come out (\<open>run.go\<close>, \<open>setup.go\<close>, \<open>data.go\<close>,
  \<open>watch.go\<close>, \<open>version.go\<close>, \<open>core.go\<close>).

  The two loops that wait (\<open>wait-ready\<close>, \<open>watch\<close>) poll until something changes, which no bound limits: they
  are given a number of polls, and a program that has used them up is still waiting (\<open>None\<close>).
\<close>

section \<open>State and environment\<close>

text \<open>
  The state of the coordinator, with the inventory of the files the reaper goes through, the home directory
  a worker resolves, and the two streams of the process.
\<close>

record cli_state = build_state +
  work_dirs :: "work_entry dir"
  tree_dirs :: "(string list \<times> tree_info) list"
  blob_files :: "blob_entry list"
  home_dir :: "string option"
  stdout :: string
  stderr :: string

text \<open>
  The environment: the variable \<open>VCI_ROOT\<close>, the home of the user, standard input, the running binary, the
  codec of the values of the application, of numbers and of JSON errors, what happens to the state while the
  process sleeps, and the programs maintenance and the worker commands start.
\<close>

record cli_env =
  ce_build :: build_env
  ce_events :: "cli_state worker_events"
  ce_root :: string
  ce_home :: "string result"
  ce_stdin :: string
  ce_binary :: binary
  ce_marshal :: "data \<Rightarrow> jvalue"
  ce_num :: "string \<Rightarrow> string option"
  ce_jerr :: "string \<Rightarrow> string"
  ce_pause :: "int \<Rightarrow> cli_state \<Rightarrow> cli_state"
  ce_ssh :: "reap_state runner"
  ce_worker :: "worker_state runner"

definition Default :: "string result \<Rightarrow> layout result" where
  "Default user_home = (case user_home of
       Inl e \<Rightarrow> Inl (EWrap ''resolve home directory: %w'' [] e)
     | Inr h \<Rightarrow> Inr (FJoin [h, ''.vci'']))"

definition resolveLayout :: "cli_env \<Rightarrow> layout result" where
  "resolveLayout env = (if ce_root env \<noteq> [] then Inr (Clean (ce_root env)) else Default (ce_home env))"

subsection \<open>The other views of the state\<close>

definition reap_view :: "cli_state \<Rightarrow> reap_state" where
  "reap_view w = \<lparr>faults = faults w, clock = clock w, entropy = entropy w, windows = windows w, config_file = config_file w,
     runs = runs w, claims = claims w, launched = launched w, work = work_dirs w, trees = tree_dirs w, blobs = blob_files w\<rparr>"

definition with_reap :: "reap_state \<Rightarrow> cli_state \<Rightarrow> cli_state" where
  "with_reap r w = w\<lparr>faults := faults r, entropy := entropy r, config_file := config_file r, runs := runs r, claims := claims r,
     launched := launched r, work_dirs := work r, tree_dirs := trees r, blob_files := blobs r\<rparr>"

definition on_reap :: "(reap_state, 'b) io \<Rightarrow> (cli_state, 'b) io" where
  "on_reap m = (\<lambda>w. case m (reap_view w) of (r, v) \<Rightarrow> (r, with_reap v w))"

definition worker_view :: "cli_state \<Rightarrow> worker_state" where
  "worker_view w = fs_state.extend (files_view w) (worker_state.fields (home_dir w))"

definition with_worker :: "worker_state \<Rightarrow> cli_state \<Rightarrow> cli_state" where
  "with_worker v w = w\<lparr>filesys := fs_state.truncate v, faults := faults v, entropy := entropy v\<rparr>"

section \<open>Output\<close>

definition write_out :: "string \<Rightarrow> (cli_state, unit) io" where
  "write_out s = bindE os_call (\<lambda>_. modify (\<lambda>w. w\<lparr>stdout := stdout w @ s\<rparr>))"

definition write_err :: "string \<Rightarrow> (cli_state, unit) io" where
  "write_err s = ignore (bindE os_call (\<lambda>_. modify (\<lambda>w. w\<lparr>stderr := stderr w @ s\<rparr>)))"

definition print_err :: "err \<Rightarrow> (cli_state, unit) io" where
  "print_err e = write_err (err_text e @ [newline])"

definition WriteResponse :: "cli_env \<Rightarrow> response \<Rightarrow> (cli_state, unit) io" where
  "WriteResponse env r = write_out (Encode (ce_marshal env) r)"

definition writeFailure :: "cli_env \<Rightarrow> string \<Rightarrow> vci_error \<Rightarrow> (cli_state, int) io" where
  "writeFailure env command e = bindE (attempt (WriteResponse env (Failure command e))) (\<lambda>x. ret (case x of Inl _ \<Rightarrow> 1 | Inr _ \<Rightarrow> 2))"

text \<open>Bytes to standard output: a failed write is reported and ends the process with 1.\<close>

definition stream_out :: "string \<Rightarrow> (cli_state, int) io" where
  "stream_out s = bindE (attempt (write_out s)) (\<lambda>x. case x of
       Inl e \<Rightarrow> bindE (print_err e) (\<lambda>_. ret 1)
     | Inr _ \<Rightarrow> ret 0)"

text \<open>An error of the application becomes the failure of the command.\<close>

definition reply :: "string \<Rightarrow> ('s, response \<times> int) io \<Rightarrow> ('s, response \<times> int) io" where
  "reply command m = bindE (attempt m) (\<lambda>x. ret (case x of Inl e \<Rightarrow> (appFailure command e, 2) | Inr y \<Rightarrow> y))"

definition answer :: "string \<Rightarrow> data \<Rightarrow> ('s, response \<times> int) io" where
  "answer command d = ret (Success command (Some d), 0)"

definition refuse :: "string \<Rightarrow> vci_error \<Rightarrow> ('s, response \<times> int) io" where
  "refuse command e = ret (Failure command e, 2)"

definition decode_remote :: "cli_env \<Rightarrow> string \<Rightarrow> string \<Rightarrow> response \<times> int" where
  "decode_remote env = decodeRemoteResponse (ce_num env) (ce_jerr env)"

section \<open>Forwarded commands\<close>

text \<open>
  A client root forwards. Where the source asks the application again and is told that the root is a
  coordinator after all, it goes on locally (\<open>forward_or\<close>) or decodes no bytes (\<open>forward_only\<close>).
\<close>

definition forward_or :: "cli_env \<Rightarrow> string \<Rightarrow> (cli_state, string option) io \<Rightarrow> (cli_state, response \<times> int) io
    \<Rightarrow> (cli_state, response \<times> int) io" where
  "forward_or env command remote local =
     bindE (RemoteConfigured (ce_build env)) (\<lambda>configured.
     if configured then bindE remote (\<lambda>x. case x of Some raw \<Rightarrow> ret (decode_remote env command raw) | None \<Rightarrow> local)
     else local)"

definition raw_bytes :: "string option \<Rightarrow> string" where
  "raw_bytes x = (case x of None \<Rightarrow> [] | Some raw \<Rightarrow> raw)"

definition forward_only :: "cli_env \<Rightarrow> string \<Rightarrow> (cli_state, string option) io \<Rightarrow> (cli_state, response \<times> int) io
    \<Rightarrow> (cli_state, response \<times> int) io" where
  "forward_only env command remote local =
     bindE (RemoteConfigured (ce_build env)) (\<lambda>configured.
     if configured then bindE remote (\<lambda>x. ret (decode_remote env command (raw_bytes x))) else local)"

definition runVersion :: "cli_env \<Rightarrow> string list \<Rightarrow> (cli_state, response \<times> int) io" where
  "runVersion env args =
     (let command = ''version''; local = answer command (currentVersionData (ce_binary env)) in
      if args = [] then local
      else if args \<noteq> [''--coordinator''] then refuse command (usage_error ''Usage: version [--coordinator].'')
      else reply command (bindE (lift_result (resolveLayout env)) (\<lambda>_.
        forward_only env command (RemoteCommand (ce_build env) command []) local)))"

definition run_inventory :: "cli_env \<Rightarrow> string \<Rightarrow> (cli_state, response \<times> int) io" where
  "run_inventory env command =
     reply command (bindE (lift_result (resolveLayout env)) (\<lambda>l.
       forward_or env command (RemoteCommand (ce_build env) command [])
         (bindE (ReadInventory (be_toml (ce_build env)) l) (\<lambda>inventory.
          answer command (if command = ''machines'' then DMachines (inv_Machines inventory) else DProjects (inv_Projects inventory))))))"

section \<open>Builds\<close>

definition buildResponse :: "cli_env \<Rightarrow> string \<Rightarrow> layout \<Rightarrow> run_id \<Rightarrow> (cli_state, response \<times> int) io" where
  "buildResponse env command l parentID =
     bindE (DispatchPending (be_toml (ce_build env)) l) (\<lambda>_.
     reply command (bindE (BuildSummaryView parentID) (\<lambda>summary. answer command (DSummary summary))))"

definition build_usage :: vci_error where
  "build_usage = usage_error ''Usage: build <path> | build --hosted <project> | build --from-submission <project>.''"

definition build_submission :: "cli_env \<Rightarrow> layout \<Rightarrow> string \<Rightarrow> (cli_state, response \<times> int) io" where
  "build_submission env l name =
     bindE (PrepareFromSubmission (ce_build env) l name (ce_stdin env)) (\<lambda>r. buildResponse env ''build'' l (ID r))"

definition build_hosted :: "cli_env \<Rightarrow> layout \<Rightarrow> string \<Rightarrow> (cli_state, response \<times> int) io" where
  "build_hosted env l name =
     forward_only env ''build'' (RemoteCommand (ce_build env) ''build'' [''--hosted'', name])
       (bindE (PrepareHosted (ce_build env) l name) (\<lambda>r. buildResponse env ''build'' l (ID r)))"

definition build_path :: "cli_env \<Rightarrow> layout \<Rightarrow> string \<Rightarrow> (cli_state, response \<times> int) io" where
  "build_path env l path =
     forward_or env ''build'' (RemoteBuild (ce_build env) (ce_jerr env) path)
       (bindE (Prepare (ce_build env) l path) (\<lambda>r. buildResponse env ''build'' l (ID r)))"

definition run_build :: "cli_env \<Rightarrow> string list \<Rightarrow> (cli_state, response \<times> int) io" where
  "run_build env args = (case args of
       [path] \<Rightarrow> if path = ''--hosted'' \<or> path = ''--from-submission'' then refuse ''build'' build_usage
         else reply ''build'' (bindE (lift_result (resolveLayout env)) (\<lambda>l. build_path env l path))
     | [flag, name] \<Rightarrow> if flag = ''--from-submission'' then reply ''build'' (bindE (lift_result (resolveLayout env)) (\<lambda>l. build_submission env l name))
         else if flag = ''--hosted'' then reply ''build'' (bindE (lift_result (resolveLayout env)) (\<lambda>l. build_hosted env l name))
         else refuse ''build'' build_usage
     | _ \<Rightarrow> refuse ''build'' build_usage)"

section \<open>Runs\<close>

text \<open>The argument of a command that takes the identifier of a run, or the name of a project.\<close>

definition one_arg :: "(string \<Rightarrow> bool) \<Rightarrow> string \<Rightarrow> string \<Rightarrow> string list \<Rightarrow> (string \<Rightarrow> (cli_state, response \<times> int) io)
    \<Rightarrow> (cli_state, response \<times> int) io" where
  "one_arg ok command message args m = (case args of
       [a] \<Rightarrow> if ok a then m a else refuse command (usage_error message)
     | _ \<Rightarrow> refuse command (usage_error message))"

definition run_probe_seed :: "cli_env \<Rightarrow> string list \<Rightarrow> (cli_state, response \<times> int) io" where
  "run_probe_seed env args = one_arg ValidName ''probe-seed'' ''Usage: probe-seed <project>.'' args (\<lambda>name.
     reply ''probe-seed'' (bindE (lift_result (resolveLayout env)) (\<lambda>_.
       bindE (ProbeSeed (ce_build env) name) (\<lambda>have. answer ''probe-seed'' (DObj [(''have'', JStr have)])))))"

definition checkRun :: "cli_env \<Rightarrow> string list \<Rightarrow> (cli_state, response \<times> int) io" where
  "checkRun env args = one_arg ValidRunID ''check'' ''Usage: check <run-id>.'' args (\<lambda>rid.
     reply ''check'' (bindE (lift_result (resolveLayout env)) (\<lambda>_.
       forward_or env ''check'' (RemoteCheck (ce_build env) rid)
         (bindE (Check rid) (\<lambda>view. answer ''check'' (DSummary view))))))"

definition run_abort :: "cli_env \<Rightarrow> string list \<Rightarrow> (cli_state, response \<times> int) io" where
  "run_abort env args = one_arg ValidRunID ''abort'' ''Usage: abort <run-id>.'' args (\<lambda>rid.
     reply ''abort'' (bindE (lift_result (resolveLayout env)) (\<lambda>l.
       forward_or env ''abort'' (RemoteAbort (ce_build env) rid)
         (bindE (Abort l rid) (\<lambda>r. answer ''abort'' (DRecord r))))))"

definition run_internal_run :: "cli_env \<Rightarrow> string list \<Rightarrow> (cli_state, response \<times> int) io" where
  "run_internal_run env args = one_arg ValidRunID ''internal-run'' ''Usage: internal-run <run-id>.'' args (\<lambda>rid.
     reply ''internal-run'' (bindE (lift_result (resolveLayout env)) (\<lambda>l.
       bindE (ExecutePrepared (ce_build env) (ce_events env) l rid) (\<lambda>_.
       answer ''internal-run'' (DObj [(''run_id'', JStr rid), (''completed'', JBool True)])))))"

section \<open>Waiting for the coordinator\<close>

primrec wait_loop :: "nat \<Rightarrow> cli_env \<Rightarrow> int \<Rightarrow> (cli_state, (response \<times> int) option) io" where
  "wait_loop 0 env interval = ret None"
| "wait_loop (Suc n) env interval =
     bindE HasLiveBuild (\<lambda>live. case live of
       None \<Rightarrow> ret (Some (Success ''wait-ready'' (Some (DObj [(''ready'', JBool True), (''interval_seconds'', JNum (itoa (interval div second)))])), 0))
     | Some _ \<Rightarrow> bindE (modify (ce_pause env interval)) (\<lambda>_. wait_loop n env interval))"

definition wait_ready :: "nat \<Rightarrow> cli_env \<Rightarrow> string list \<Rightarrow> int \<Rightarrow> (cli_state, (response \<times> int) option) io" where
  "wait_ready polls env args interval =
     bindE (lift_result (resolveLayout env)) (\<lambda>_.
     bindE (RemoteConfigured (ce_build env)) (\<lambda>configured.
     if configured then bindE (RemoteCommand (ce_build env) ''wait-ready'' args) (\<lambda>x.
       ret (Some (decode_remote env ''wait-ready'' (raw_bytes x))))
     else wait_loop polls env interval))"

definition runWaitReady :: "nat \<Rightarrow> cli_env \<Rightarrow> string list \<Rightarrow> (cli_state, (response \<times> int) option) io" where
  "runWaitReady polls env args = (case parse_wait second args of
       Inl e \<Rightarrow> ret (Some (Failure ''wait-ready'' e, 2))
     | Inr interval \<Rightarrow> bindE (attempt (wait_ready polls env args interval)) (\<lambda>x. ret (case x of
           Inl e \<Rightarrow> Some (appFailure ''wait-ready'' e, 2)
         | Inr y \<Rightarrow> y)))"

section \<open>Artifacts and logs\<close>

text \<open>A failure of the application is mapped to its public error; an argument that is refused already is one.\<close>

definition or_error :: "(err \<Rightarrow> vci_error) \<Rightarrow> ('s, 'b) io \<Rightarrow> ('s, 'b checked) io" where
  "or_error f m = bindE (attempt m) (\<lambda>x. ret (case x of Inl e \<Rightarrow> Inl (f e) | Inr y \<Rightarrow> Inr y))"

definition and_then :: "('s, 'b checked) io \<Rightarrow> ('b \<Rightarrow> ('s, 'c checked) io) \<Rightarrow> ('s, 'c checked) io" where
  "and_then m f = bindE m (\<lambda>x. case x of Inl e \<Rightarrow> ret (Inl e) | Inr y \<Rightarrow> f y)"

definition remote_list :: "cli_env \<Rightarrow> string \<Rightarrow> data option checked" where
  "remote_list env raw = (case decode_response (ce_num env) raw of
       None \<Rightarrow> Inl (NewError ''remote_invalid_response'' FailureInfrastructure (ce_jerr env raw) True)
     | Some r \<Rightarrow>
         if rs_SchemaVersion r \<noteq> EnvelopeSchemaVersion \<or> rs_Command r \<noteq> ''artifacts'' \<or> \<not> rs_OK r \<or> rs_Error r \<noteq> None
         then Inl (NewError ''remote_invalid_response'' FailureInfrastructure ''remote artifacts ls response has an invalid envelope'' True)
         else Inr (rs_Data r))"

text \<open>No files are a nil slice, which is printed as \<open>null\<close>.\<close>

definition list_data :: "string list \<Rightarrow> bool \<Rightarrow> data" where
  "list_data names truncated = DObj [(''files'', if names = [] then JNull else JArr (map JStr names)), (''truncated'', JBool truncated)]"

definition list_artifacts :: "cli_env \<Rightarrow> string \<Rightarrow> run_id \<Rightarrow> (cli_state, data option checked) io" where
  "list_artifacts env machine rid =
     and_then (or_error artifactsError (bindE (lift_result (resolveLayout env)) (\<lambda>_. RemoteConfigured (ce_build env)))) (\<lambda>configured.
     if configured then
       and_then (or_error artifactsError (RemoteCommand (ce_build env) ''artifacts''
         ([''ls'', rid] @ (if machine \<noteq> [] then [''--machine'', machine] else [])))) (\<lambda>x. ret (remote_list env (raw_bytes x)))
     else
       and_then (or_error artifactsError (bindE (ResolveTarget rid machine) ListArtifacts)) (\<lambda>(names, truncated).
       ret (Inr (Some (list_data names truncated)))))"

definition runArtifactsList :: "cli_env \<Rightarrow> string list \<Rightarrow> (cli_state, data option checked) io" where
  "runArtifactsList env args = (case extractMachine [] [] args of
       Inl e \<Rightarrow> ret (Inl e)
     | Inr (machine, [rid]) \<Rightarrow> if ValidRunID rid then list_artifacts env machine rid
         else ret (Inl (usage_error ''Usage: artifacts ls <run-id>.''))
     | Inr _ \<Rightarrow> ret (Inl (usage_error ''Usage: artifacts ls <run-id>.'')))"

definition runArtifacts :: "cli_env \<Rightarrow> string list \<Rightarrow> (cli_state, data option checked) io" where
  "runArtifacts env args = (case args of
       [] \<Rightarrow> ret (Inl (usage_error ''Usage: artifacts ls <run-id>.''))
     | a # rest \<Rightarrow> if a = ''ls'' then runArtifactsList env rest
         else if a = ''get'' then ret (Inl (usage_error ''Usage: artifacts get <run-id> <rel>.''))
         else ret (Inl (usage_error (Sprintf ''Unknown artifacts operation %q.'' [a]))))"

text \<open>What a raw command prints: the bytes of the coordinator unless they are the envelope of an error.\<close>

definition relay :: "cli_env \<Rightarrow> string \<Rightarrow> string \<Rightarrow> (cli_state, int) io" where
  "relay env command raw = (case errorEnvelope (ce_num env) raw of
       Some e \<Rightarrow> writeFailure env command e
     | None \<Rightarrow> stream_out raw)"

definition get_remote_or_local :: "cli_env \<Rightarrow> (cli_state, string option) io
    \<Rightarrow> (cli_state, string) io \<Rightarrow> (cli_state, string + string) io" where
  "get_remote_or_local env remote local =
     bindE (lift_result (resolveLayout env)) (\<lambda>_.
     bindE (RemoteConfigured (ce_build env)) (\<lambda>configured.
     if configured then bindE remote (\<lambda>x. ret (Inl (raw_bytes x)))
     else bindE local (\<lambda>s. ret (Inr s))))"

definition stream_command :: "cli_env \<Rightarrow> string \<Rightarrow> (err \<Rightarrow> vci_error) \<Rightarrow> (string \<Rightarrow> (cli_state, int) io)
    \<Rightarrow> (cli_state, string option) io \<Rightarrow> (cli_state, string) io \<Rightarrow> (cli_state, int) io" where
  "stream_command env command f print remote local =
     bindE (attempt (get_remote_or_local env remote local)) (\<lambda>x. case x of
       Inl e \<Rightarrow> writeFailure env command (f e)
     | Inr (Inl raw) \<Rightarrow> relay env command raw
     | Inr (Inr s) \<Rightarrow> print s)"

definition get_usage :: vci_error where
  "get_usage = usage_error ''Usage: artifacts get <run-id> <rel>.''"

definition runArtifactsGet :: "cli_env \<Rightarrow> string list \<Rightarrow> (cli_state, int) io" where
  "runArtifactsGet env args = (case extractMachine [] [] args of
       Inl e \<Rightarrow> writeFailure env ''artifacts'' e
     | Inr (machine, [_, rid, rel]) \<Rightarrow>
         if \<not> ValidRunID rid then writeFailure env ''artifacts'' get_usage
         else (case validateArtifactRel rel of
             Inl e \<Rightarrow> writeFailure env ''artifacts'' (artifactsError e)
           | Inr _ \<Rightarrow> stream_command env ''artifacts'' artifactsError stream_out (RemoteGetArtifact (ce_build env) rid machine rel)
               (bindE (ResolveTarget rid machine) (\<lambda>target. bindE (GetArtifact target rel) (\<lambda>(s, n). ret s))))
     | Inr _ \<Rightarrow> writeFailure env ''artifacts'' get_usage)"

text \<open>The tail of a log is read before it is written.\<close>

definition print_tail :: "int \<Rightarrow> string \<Rightarrow> (cli_state, int) io" where
  "print_tail tail s =
     (if tail \<le> 0 then stream_out s
      else bindE (attempt os_call) (\<lambda>x. case x of
          Inl e \<Rightarrow> bindE (print_err e) (\<lambda>_. ret 1)
        | Inr _ \<Rightarrow> stream_out (tailLines s tail)))"

definition runLogs :: "cli_env \<Rightarrow> string list \<Rightarrow> (cli_state, int) io" where
  "runLogs env args = (case parseLogsArgs args of
       Inl e \<Rightarrow> writeFailure env ''logs'' e
     | Inr la \<Rightarrow> stream_command env ''logs'' logsError (print_tail (la_tail la))
         (RemoteLog (ce_build env) (la_id la) (la_machine la) (la_stream la) (la_tail la))
         (bindE (ResolveTarget (la_id la) (la_machine la)) (\<lambda>target. bindE (ReadLog target (la_stream la)) (\<lambda>(s, n). ret s))))"

end
