(* ===== verification/Vci_Commands.thy ===== *)
theory Vci_Commands
  imports Vci_Cli
begin

text \<open>
  \<open>setup\<close> (\<open>cli/setup.go\<close>), \<open>watch\<close> (\<open>cli/watch.go\<close>) and the program itself (\<open>Run\<close> and \<open>dispatch\<close> of
  \<open>cli/run.go\<close>).
\<close>

section \<open>Setup\<close>

definition setup_failed :: "string \<Rightarrow> err \<Rightarrow> vci_error" where
  "setup_failed code e = NewError code FailureConfiguration (err_text e) False"

definition role_error :: "err \<Rightarrow> vci_error" where
  "role_error e =
     (if is_not_exist e then NewError ''setup_not_initialized'' FailureConfiguration (''Run '' @ go_quote ''vci setup init'' @ '' first.'') False
      else setup_failed ''setup_not_coordinator'' e)"

definition requireCoordinatorRole :: "cli_env \<Rightarrow> (cli_state, unit checked) io" where
  "requireCoordinatorRole env = or_error role_error (RequireCoordinatorRole (be_toml (ce_build env)))"

definition checked_result :: "'b checked \<Rightarrow> ('s, 'b checked) io" where
  "checked_result x = ret x"

definition refused :: "string \<Rightarrow> ('s, 'b checked) io" where
  "refused message = ret (Inl (usage_error message))"

definition done_with :: "data \<Rightarrow> ('s, data checked) io" where
  "done_with d = ret (Inr d)"

definition setup_reap :: "cli_env \<Rightarrow> layout \<Rightarrow> string list \<Rightarrow> (cli_state, data checked) io" where
  "setup_reap env l args =
     and_then (requireCoordinatorRole env) (\<lambda>_.
     if args \<noteq> [] then refused ''setup reap takes no arguments.''
     else and_then (or_error (\<lambda>e. NewError ''maintenance_failed'' FailureState (err_text e) True)
       (on_reap (Maintain (be_toml (ce_build env)) l (ce_ssh env)))) (\<lambda>(reaped, retained). done_with (DReport reaped retained)))"

definition setup_init :: "cli_env \<Rightarrow> layout \<Rightarrow> string list \<Rightarrow> (cli_state, data checked) io" where
  "setup_init env l args =
     (if args \<noteq> [] then refused ''setup init takes no arguments.''
      else and_then (or_error (setup_failed ''setup_failed'') (Initialize (be_toml (ce_build env)) l)) (\<lambda>_.
        done_with (DObj [(''initialized'', JBool True)])))"

definition machine_usage :: string where
  "machine_usage = ''Usage: setup machine add|remove <name> [--capacity <positive-int>] [--host <ssh-destination>] [--runtime <docker|vm>] [--image <ref>] [--snapshot <ref>] [--os <windows|linux|darwin>].''"

definition machine_data :: "string \<Rightarrow> machine \<Rightarrow> data" where
  "machine_data name m = DObj ([(''machine'', JStr name), (''updated'', JBool True)]
     @ (if 0 < MaxConcurrent m then [(''max_concurrent'', JNum (itoa (MaxConcurrent m)))] else [])
     @ (if Host m \<noteq> [] then [(''host'', JStr (Host m))] else [])
     @ (if Runtime m \<noteq> [] then [(''runtime'', JStr (Runtime m))] else [])
     @ (if Image m \<noteq> [] then [(''image'', JStr (Image m))] else [])
     @ (if Snapshot m \<noteq> [] then [(''snapshot'', JStr (Snapshot m))] else [])
     @ (if OS m \<noteq> [] then [(''os'', JStr (OS m))] else []))"

definition updated :: "string \<Rightarrow> string \<Rightarrow> data" where
  "updated kind name = DObj [(kind, JStr name), (''updated'', JBool True)]"

definition machine_failed :: "(cli_state, unit) io \<Rightarrow> (cli_state, unit checked) io" where
  "machine_failed = or_error (setup_failed ''machine_update_failed'')"

definition put_source_paths :: "string go_map \<Rightarrow> machine \<Rightarrow> machine result" where
  "put_source_paths paths m = Inr (m\<lparr>SourcePaths := fold (\<lambda>(k, v). AList.update k v) paths (SourcePaths m)\<rparr>)"

definition setup_machine_add :: "cli_env \<Rightarrow> string \<Rightarrow> string list \<Rightarrow> (cli_state, data checked) io" where
  "setup_machine_add env name args =
     and_then (checked_result (machine_options zero_machine args)) (\<lambda>m.
     and_then (machine_failed (AddMachine (be_toml (ce_build env)) name m)) (\<lambda>_. done_with (machine_data name m)))"

definition setup_machine_remove :: "cli_env \<Rightarrow> string \<Rightarrow> string list \<Rightarrow> (cli_state, data checked) io" where
  "setup_machine_remove env name args =
     (if args \<noteq> [] then refused ''Usage: setup machine remove <name>.''
      else and_then (machine_failed (RemoveMachine (be_toml (ce_build env)) name)) (\<lambda>_. done_with (updated ''machine'' name)))"

definition setup_machine_update :: "cli_env \<Rightarrow> string \<Rightarrow> string list \<Rightarrow> (cli_state, data checked) io" where
  "setup_machine_update env name args =
     and_then (checked_result (source_path_options [] args)) (\<lambda>paths.
     if paths = [] then refused ''setup machine update requires at least one --source-path.''
     else and_then (machine_failed (UpdateMachine (be_toml (ce_build env)) name (put_source_paths paths))) (\<lambda>_.
       done_with (updated ''machine'' name)))"

definition setup_machine :: "cli_env \<Rightarrow> string list \<Rightarrow> (cli_state, data checked) io" where
  "setup_machine env args =
     and_then (requireCoordinatorRole env) (\<lambda>_. case args of
       operation # name # rest \<Rightarrow>
         if operation = ''add'' then setup_machine_add env name rest
         else if operation = ''remove'' then setup_machine_remove env name rest
         else if operation = ''update'' then setup_machine_update env name rest
         else refused ''Machine operation must be add, remove, or update.''
     | _ \<Rightarrow> refused machine_usage)"

definition project_usage :: string where
  "project_usage = ''Usage: setup project add <name> --machine <name> [--machine <name>...] --command <exe> [--arg <arg>] [--artifact <glob>].''
     @ [newline] @ ''       setup project hosted set <name> --url <url> --commit <object-id>''
     @ [newline] @ ''       setup project hosted clear <name>''"

definition hosted_usage :: string where
  "hosted_usage = ''Usage: setup project hosted set <name> --url <url> --commit <object-id>''
     @ [newline] @ ''       setup project hosted clear <name>''"

definition project_failed :: "(cli_state, unit) io \<Rightarrow> (cli_state, unit checked) io" where
  "project_failed = or_error (setup_failed ''project_update_failed'')"

definition hosted_failed :: "err \<Rightarrow> vci_error" where
  "hosted_failed e = setup_failed (if err_is e ErrHostedFallbackInvalid then ''hosted_fallback_invalid'' else ''hosted_update_failed'') e"

definition hosted_set :: "cli_env \<Rightarrow> string list \<Rightarrow> (cli_state, data checked) io" where
  "hosted_set env args = (case args of
       [] \<Rightarrow> refused ''Usage: setup project hosted set <name> --url <url> --commit <object-id>''
     | name # rest \<Rightarrow> and_then (checked_result (hosted_options [] [] rest)) (\<lambda>(url, commit).
         if url = [] \<or> commit = [] then refused ''hosted set requires --url and --commit.''
         else and_then (or_error hosted_failed (SetHostedFallback (be_toml (ce_build env)) name url commit)) (\<lambda>_.
           done_with (DObj [(''project'', JStr name), (''hosted_url'', JStr url), (''hosted_commit'', JStr commit), (''updated'', JBool True)]))))"

definition hosted_clear :: "cli_env \<Rightarrow> string list \<Rightarrow> (cli_state, data checked) io" where
  "hosted_clear env args = (case args of
       [name] \<Rightarrow> and_then (or_error (setup_failed ''hosted_update_failed'') (ClearHostedFallback (be_toml (ce_build env)) name)) (\<lambda>_.
         done_with (DObj [(''project'', JStr name), (''cleared'', JBool True)]))
     | _ \<Rightarrow> refused ''Usage: setup project hosted clear <name>.'')"

definition runSetupProjectHosted :: "cli_env \<Rightarrow> string list \<Rightarrow> (cli_state, data checked) io" where
  "runSetupProjectHosted env args = (case args of
       [] \<Rightarrow> refused hosted_usage
     | a # rest \<Rightarrow> if a = ''set'' then hosted_set env rest
         else if a = ''clear'' then hosted_clear env rest
         else refused (Sprintf ''Unknown hosted operation %q.'' [a]))"

definition setup_project_update :: "cli_env \<Rightarrow> string \<Rightarrow> string list \<Rightarrow> (cli_state, data checked) io" where
  "setup_project_update env name args =
     and_then (checked_result (exclude_options [] args)) (\<lambda>excluded.
     if excluded = [] then refused ''setup project update requires at least one --exclude.''
     else and_then (project_failed (UpdateProject (be_toml (ce_build env)) name (\<lambda>p. Inr (p\<lparr>ExcludedPaths := excluded\<rparr>)))) (\<lambda>_.
       done_with (updated ''project'' name)))"

definition project_of :: "project_args \<Rightarrow> project" where
  "project_of pa = \<lparr>TargetMachines = pa_machines pa, Command = pa_executable pa # pa_args pa, Commands = [], Environment = [],
     Artifacts = pa_artifacts pa, ExcludedPaths = [], HostedFallback = \<lparr>URL = [], Commit = []\<rparr>\<rparr>"

definition project_data :: "string \<Rightarrow> project_args \<Rightarrow> data" where
  "project_data name pa = DObj ([(''project'', JStr name), (''machines'', JArr (map JStr (pa_machines pa))),
       (''command'', JArr (map JStr (pa_executable pa # pa_args pa))), (''updated'', JBool True)]
     @ (if pa_artifacts pa \<noteq> [] then [(''artifacts'', JArr (map JStr (pa_artifacts pa)))] else []))"

definition setup_project_add :: "cli_env \<Rightarrow> string \<Rightarrow> string list \<Rightarrow> (cli_state, data checked) io" where
  "setup_project_add env name args =
     and_then (checked_result (project_options \<lparr>pa_machines = [], pa_executable = [], pa_args = [], pa_artifacts = []\<rparr> args)) (\<lambda>pa.
     if pa_machines pa = [] \<or> pa_executable pa = [] then refused ''Project requires --machine and --command.''
     else and_then (project_failed (AddProject (be_toml (ce_build env)) name (project_of pa))) (\<lambda>_. done_with (project_data name pa)))"

definition setup_project :: "cli_env \<Rightarrow> string list \<Rightarrow> (cli_state, data checked) io" where
  "setup_project env args =
     and_then (requireCoordinatorRole env) (\<lambda>_. case args of
       operation # name # rest \<Rightarrow>
         if operation = ''add'' then setup_project_add env name rest
         else if operation = ''hosted'' then runSetupProjectHosted env (name # rest)
         else if operation = ''update'' then setup_project_update env name rest
         else refused project_usage
     | _ \<Rightarrow> refused project_usage)"

definition setup_operation :: "cli_env \<Rightarrow> layout \<Rightarrow> string \<Rightarrow> string list \<Rightarrow> (cli_state, data checked) io" where
  "setup_operation env l operation args =
     (if operation = ''reap'' then setup_reap env l args
      else if operation = ''init'' then setup_init env l args
      else if operation = ''machine'' then setup_machine env args
      else if operation = ''project'' then setup_project env args
      else refused (Sprintf ''Unknown setup operation %q.'' [operation]))"

definition runSetup :: "cli_env \<Rightarrow> string list \<Rightarrow> (cli_state, data checked) io" where
  "runSetup env args = (case args of
       [] \<Rightarrow> ret (Inl (NewError ''setup_command_required'' FailureUsage ''A setup operation is required.'' False))
     | operation # rest \<Rightarrow> (case resolveLayout env of
           Inl e \<Rightarrow> ret (Inl (setup_failed ''setup_failed'' e))
         | Inr l \<Rightarrow> setup_operation env l operation rest))"

section \<open>Watching a run\<close>

definition state_fields :: "(string \<times> (jvalue \<Rightarrow> string \<Rightarrow> string option)) list" where
  "state_fields = [(''state'', into_string (\<lambda>s _. s))]"

definition known_states :: "(string \<times> run_state) list" where
  "known_states = map (\<lambda>s. (state_text s, s)) [RunQueued, RunStaging, RunRunning, RunCommitting, RunSucceeded, RunFailed, RunLost,
     RunAborted, RunUnavailable, RunAggregating]"

text \<open>The field \<open>state\<close> of what a check returned: a summary has one of its own type.\<close>

definition summary_state :: "summary_view \<Rightarrow> run_state" where
  "summary_state v = (case v of SumBuild b \<Rightarrow> bs_State b | SumResult r \<Rightarrow> br_State r | SumRecord r \<Rightarrow> State r)"

definition watchState :: "cli_env \<Rightarrow> data option \<Rightarrow> run_state option" where
  "watchState env d = (case d of
       Some (DSummary v) \<Rightarrow> if Valid (summary_state v) then Some (summary_state v) else None
     | _ \<Rightarrow> (case unmarshal_struct state_fields [] (case d of None \<Rightarrow> JNull | Some x \<Rightarrow> data_json (ce_marshal env) x) of
           None \<Rightarrow> None
         | Some s \<Rightarrow> map_of known_states s))"

definition watch_done :: "cli_env \<Rightarrow> bool \<Rightarrow> response \<Rightarrow> run_state \<Rightarrow> (cli_state, int) io" where
  "watch_done env exitStatus r state =
     bindE (attempt (WriteResponse env (Success ''watch'' (rs_Data r)))) (\<lambda>x. case x of
       Inl e \<Rightarrow> bindE (print_err e) (\<lambda>_. ret 1)
     | Inr _ \<Rightarrow> ret (if exitStatus \<and> state \<noteq> RunSucceeded then 1 else 0))"

definition watch_error :: "response \<Rightarrow> vci_error" where
  "watch_error r = (case rs_Error r of
       Some e \<Rightarrow> e
     | None \<Rightarrow> NewError ''watch_failed'' FailureInfrastructure ''check returned an invalid response'' True)"

definition print_progress :: "run_id \<Rightarrow> run_state \<Rightarrow> (cli_state, unit) io" where
  "print_progress rid state = write_err (''vci: '' @ rid @ '' '' @ state_text state @ [newline])"

primrec watch_loop :: "nat \<Rightarrow> cli_env \<Rightarrow> run_id \<Rightarrow> int \<Rightarrow> bool \<Rightarrow> run_state option \<Rightarrow> (cli_state, int option) io" where
  "watch_loop 0 env rid interval exitStatus seen = ret None"
| "watch_loop (Suc n) env rid interval exitStatus seen =
     bindE (checkRun env [rid]) (\<lambda>(r, code).
     if code \<noteq> 0 then bindE (writeFailure env ''watch'' (watch_error r)) (\<lambda>c. ret (Some c))
     else case watchState env (rs_Data r) of
         None \<Rightarrow> bindE (writeFailure env ''watch''
           (NewError ''invalid_response'' FailureInfrastructure ''run response has no valid state'' True)) (\<lambda>c. ret (Some c))
       | Some state \<Rightarrow>
           bindE (if seen = Some state then ret () else print_progress rid state) (\<lambda>_.
           if IsTerminal state then bindE (watch_done env exitStatus r state) (\<lambda>c. ret (Some c))
           else bindE (modify (ce_pause env interval)) (\<lambda>_. watch_loop n env rid interval exitStatus (Some state))))"

definition runWatch :: "nat \<Rightarrow> cli_env \<Rightarrow> string list \<Rightarrow> (cli_state, int option) io" where
  "runWatch polls env args = (case parseWatchArgs args of
       Inl e \<Rightarrow> bindE (writeFailure env ''watch'' e) (\<lambda>c. ret (Some c))
     | Inr (rid, interval, exitStatus) \<Rightarrow> watch_loop polls env rid interval exitStatus None)"

section \<open>The program\<close>

definition finished :: "('s, 'b) io \<Rightarrow> ('s, 'b option) io" where
  "finished m = bindE m (\<lambda>x. ret (Some x))"

definition run_setup :: "cli_env \<Rightarrow> string list \<Rightarrow> (cli_state, response \<times> int) io" where
  "run_setup env args = bindE (runSetup env args) (\<lambda>x. case x of
       Inl e \<Rightarrow> refuse ''setup'' e
     | Inr d \<Rightarrow> answer ''setup'' d)"

definition run_artifacts :: "cli_env \<Rightarrow> string list \<Rightarrow> (cli_state, response \<times> int) io" where
  "run_artifacts env args = bindE (runArtifacts env args) (\<lambda>x. case x of
       Inl e \<Rightarrow> refuse ''artifacts'' e
     | Inr d \<Rightarrow> ret (Success ''artifacts'' d, 0))"

definition dispatch :: "nat \<Rightarrow> cli_env \<Rightarrow> string \<Rightarrow> string list \<Rightarrow> (cli_state, (response \<times> int) option) io" where
  "dispatch polls env command args =
     (if command = ''version'' then finished (runVersion env args)
      else if command = [] then finished (refuse command command_required)
      else if command = ''setup'' then finished (run_setup env args)
      else if command = ''machines'' \<or> command = ''projects'' then finished (run_inventory env command)
      else if command = ''build'' then finished (run_build env args)
      else if command = ''probe-seed'' then finished (run_probe_seed env args)
      else if command = ''check'' then finished (checkRun env args)
      else if command = ''abort'' then finished (run_abort env args)
      else if command = ''internal-run'' then finished (run_internal_run env args)
      else if command = ''artifacts'' then finished (run_artifacts env args)
      else if command = ''wait-ready'' then runWaitReady polls env args
      else finished (refuse command (unknown_command command)))"

text \<open>The program ends with an envelope; one that cannot be written ends it with 1.\<close>

definition respond :: "cli_env \<Rightarrow> response \<times> int \<Rightarrow> (cli_state, int) io" where
  "respond env = (\<lambda>(r, code). bindE (attempt (WriteResponse env r)) (\<lambda>x. case x of
       Inl e \<Rightarrow> bindE (print_err e) (\<lambda>_. ret 1)
     | Inr _ \<Rightarrow> ret code))"

text \<open>
  The commands a worker is asked for act on the disk of the worker (\<open>filesys\<close>). The runs, the claims and the
  configuration of a root are other components of the state, so what such a command does to the files of a root
  on the same machine is not modelled: nothing is claimed about those files for the worker's commands.
\<close>

definition run_worker_command :: "cli_env \<Rightarrow> string \<Rightarrow> string list \<Rightarrow> (cli_state, int) io" where
  "run_worker_command env name args = (\<lambda>w.
     case runInternalCommand (ce_worker env) (be_untar (ce_build env)) name args (Some (be_untar (ce_build env) (ce_stdin env))) (worker_view w) of
       ((code, out, msg), v) \<Rightarrow> (Inr code, (with_worker v w)\<lparr>stdout := stdout w @ out, stderr := stderr w @ msg\<rparr>))"

definition RunCommand :: "nat \<Rightarrow> cli_env \<Rightarrow> string list \<Rightarrow> (cli_state, int option) io" where
  "RunCommand polls env args = (case Parse args of
       Inl e \<Rightarrow> finished (respond env (Failure (case args of [] \<Rightarrow> [] | name # _ \<Rightarrow> name) e, 2))
     | Inr (name, rest) \<Rightarrow>
         if name = ''artifacts'' \<and> rest \<noteq> [] \<and> hd rest = ''get'' then finished (runArtifactsGet env rest)
         else if name = ''logs'' then finished (runLogs env rest)
         else if name = ''watch'' then runWatch polls env rest
         else if HasPrefix name ''internal-'' \<and> name \<noteq> ''internal-run'' then finished (run_worker_command env name rest)
         else bindE (dispatch polls env name rest) (\<lambda>x. case x of
             None \<Rightarrow> ret None
           | Some y \<Rightarrow> finished (respond env y)))"

end
