(* ===== verification/Vci_Envelope_Laws.thy ===== *)
theory Vci_Envelope_Laws
  imports Vci_Envelope Vci_Submission_Laws Vci_Time
begin

text \<open>
  A printed JSON value is read back as it was, and the envelope of a response survives the way from the
  coordinator to its client: it passes the check of the application, decodes to the same response, and is
  printed again as the same bytes.
\<close>

section \<open>JSON values\<close>

text \<open>The values whose text the printer and the parser agree on: ASCII strings, and integers.\<close>

fun json_ok :: "jvalue \<Rightarrow> bool" where
  "json_ok JNull = True"
| "json_ok (JBool b) = True"
| "json_ok (JNum t) = (\<exists>i. t = itoa i)"
| "json_ok (JStr s) = ascii s"
| "json_ok (JArr xs) = (\<forall>x \<in> set xs. json_ok x)"
| "json_ok (JObj ms) = (\<forall>m \<in> set ms. ascii (fst m) \<and> json_ok (snd m))"

text \<open>The levels the parser opens.\<close>

fun jsize :: "jvalue \<Rightarrow> nat" and jsize_items :: "jvalue list \<Rightarrow> nat" and jsize_members :: "(string \<times> jvalue) list \<Rightarrow> nat" where
  "jsize JNull = 1"
| "jsize (JBool b) = 1"
| "jsize (JNum t) = 1"
| "jsize (JStr s) = 1"
| "jsize (JArr xs) = Suc (jsize_items xs)"
| "jsize (JObj ms) = Suc (jsize_members ms)"
| "jsize_items [] = 0"
| "jsize_items (x # xs) = Suc (jsize x + jsize_items xs)"
| "jsize_members [] = 0"
| "jsize_members ((k, v) # ms) = Suc (jsize v + jsize_members ms)"

text \<open>What may follow a value: nothing that would continue a number.\<close>

definition stops :: "string \<Rightarrow> bool" where
  "stops t \<longleftrightarrow> (case t of [] \<Rightarrow> True | c # _ \<Rightarrow> \<not> is_digit c \<and> c \<noteq> CHR ''.'' \<and> c \<noteq> CHR ''e'' \<and> c \<noteq> CHR ''E'')"

lemma stops_simps [simp]: "stops []" "stops (CHR '','' # t)" "stops (CHR '']'' # t)" "stops (CHR ''}'' # t)" "stops (CHR 0x0A # t)"
  by (simp_all add: stops_def is_digit_def)

lemma nat_text_zero: "hd (nat_text n) = CHR ''0'' \<Longrightarrow> n = 0"
proof (induction n rule: nat_text.induct)
  case (1 n)
  show ?case
  proof (cases "n < 10")
    case True
    have "of_char (digit n) = (48 :: nat)" using 1(2) True by (simp add: nat_text.simps [of n])
    then show ?thesis using digit_facts [OF True] by simp
  next
    case False
    then have "hd (nat_text (n div 10)) = CHR ''0''"
      using 1(2) nat_text_value [of "n div 10"] by (simp add: nat_text.simps [of n])
    from 1(1) [OF False this] False show ?thesis by simp
  qed
qed

lemma take_digits: "list_all is_digit ds \<Longrightarrow> stops t \<Longrightarrow> takeWhile is_digit (ds @ t) = ds \<and> dropWhile is_digit (ds @ t) = t"
  by (induction ds) (auto simp: stops_def split: list.splits)

lemma json_number_digits:
  assumes "stops t"
  shows "json_number (nat_text n @ t) = Some (nat_text n, t) \<and> json_number (CHR ''-'' # nat_text n @ t) = Some (CHR ''-'' # nat_text n, t)"
proof -
  have d: "list_all is_digit (nat_text n)" "nat_text n \<noteq> []" using nat_text_value by auto
  then obtain c cs where n: "nat_text n = c # cs" and c: "is_digit c" by (cases "nat_text n") auto
  then have nm: "c \<noteq> CHR ''-''" by (auto simp: is_digit_def)
  have zero: "cs = []" if "c = CHR ''0''"
    using nat_text_zero [of n] that n by (simp add: nat_text.simps [of 0])
  have tw: "takeWhile is_digit (c # cs @ t) = c # cs" "dropWhile is_digit (c # cs @ t) = t"
    using take_digits [OF d(1) assms] n by auto
  have main: "json_number (c # cs @ t) = Some (c # cs, t) \<and> json_number (CHR ''-'' # c # cs @ t) = Some (CHR ''-'' # c # cs, t)"
  proof (cases t)
    case Nil
    show ?thesis using nm zero tw unfolding Nil by (cases "c = CHR ''0''") (simp_all add: json_number_def)
  next
    case (Cons d ds)
    then have d: "d \<noteq> CHR ''.''" "d \<noteq> CHR ''e''" "d \<noteq> CHR ''E''" using assms by (auto simp: stops_def)
    show ?thesis using nm zero tw d unfolding Cons by (cases "c = CHR ''0''") (simp_all add: json_number_def)
  qed
  then show ?thesis by (simp add: n)
qed

lemma json_number_itoa: "stops t \<Longrightarrow> json_number (itoa i @ t) = Some (itoa i, t)"
  using json_number_digits by (simp add: itoa_def)

lemma itoa_start: "\<exists>c cs. itoa i = c # cs \<and> (is_digit c \<or> c = CHR ''-'')"
  using nat_text_hd [of "nat i"] nat_text_hd [of "nat (- i)"] by (auto simp: itoa_def)

lemma number_char:
  assumes "is_digit c \<or> c = CHR ''-''"
  shows "c \<noteq> CHR 0x22" "c \<noteq> CHR ''{''" "c \<noteq> CHR ''[''" "c \<noteq> CHR ''n''" "c \<noteq> CHR ''t''" "c \<noteq> CHR ''f''" "c \<noteq> CHR '']''"
    "\<not> json_space c"
  using assms by (auto simp: is_digit_def json_space_def)

lemma json_value_num: "stops t \<Longrightarrow> json_value (Suc n) (itoa i @ t) = Some (JNum (itoa i), t)"
proof -
  assume "stops t"
  obtain c cs where i: "itoa i = c # cs" and c: "is_digit c \<or> c = CHR ''-''" using itoa_start by blast
  show ?thesis
    using json_number_itoa [OF \<open>stops t\<close>, of i] number_char [OF c] by (simp add: i skip_space_def HasPrefix_def)
qed

lemma json_print_start: "json_ok v \<Longrightarrow> \<exists>c cs. json_print v = c # cs \<and> \<not> json_space c \<and> c \<noteq> CHR '']''"
proof (cases v)
  case (JNum t)
  assume "json_ok v"
  then obtain i where t: "t = itoa i" using JNum by auto
  obtain c cs where i: "itoa i = c # cs" and c: "is_digit c \<or> c = CHR ''-''" using itoa_start by blast
  show ?thesis using number_char(7,8) [OF c] by (simp add: JNum t i)
qed (auto simp: json_text_quote json_space_def)

lemma json_items_cons: "xs \<noteq> [] \<Longrightarrow> Join (json_print_items (x # xs)) '','' = json_print x @ CHR '','' # Join (json_print_items xs) '',''"
  by (cases xs) auto

lemma json_members_cons: "ms \<noteq> [] \<Longrightarrow> Join (json_print_members ((k, v) # ms)) '',''
    = json_text k @ CHR '':'' # json_print v @ CHR '','' # Join (json_print_members ms) '',''"
  by (cases ms) auto

lemmas one_json_level = skip_space_def json_space_def

lemma json_value_print:
  shows "json_ok v \<Longrightarrow> jsize v \<le> n \<Longrightarrow> stops t \<Longrightarrow> json_value n (json_print v @ t) = Some (v, t)"
    and "\<forall>x \<in> set xs. json_ok x \<Longrightarrow> xs \<noteq> [] \<Longrightarrow> jsize_items xs \<le> n \<Longrightarrow>
      json_items n (Join (json_print_items xs) '','' @ CHR '']'' # t) = Some (xs, t)"
    and "\<forall>m \<in> set ms. ascii (fst m) \<and> json_ok (snd m) \<Longrightarrow> ms \<noteq> [] \<Longrightarrow> jsize_members ms \<le> n \<Longrightarrow>
      json_members n (Join (json_print_members ms) '','' @ CHR ''}'' # t) = Some (ms, t)"
proof (induction v and xs and ms arbitrary: n t and n t and n t rule: json_print_json_print_items_json_print_members.induct)
  case 1
  then show ?case by (cases n) (auto simp: one_json_level HasPrefix_def)
next
  case (2 b)
  then show ?case by (cases n) (auto simp: one_json_level HasPrefix_def)
next
  case (3 u)
  then show ?case using json_value_num by (cases n) auto
next
  case (4 s)
  then show ?case using json_value_text by (cases n) auto
next
  case (5 xs)
  then obtain m where n: "n = Suc m" by (cases n) auto
  show ?case
  proof (cases "xs = []")
    case True
    then show ?thesis by (simp add: n one_json_level)
  next
    case False
    then obtain x ys where xs: "xs = x # ys" by (cases xs) auto
    then obtain c cs where "json_print x = c # cs" "\<not> json_space c" "c \<noteq> CHR '']''"
      using json_print_start [of x] 5 by auto
    moreover have "\<exists>u. Join (json_print_items xs) '','' = json_print x @ u" by (cases ys) (auto simp: xs)
    ultimately obtain u where start: "Join (json_print_items xs) '','' = c # u" "\<not> json_space c" "c \<noteq> CHR '']''" by auto
    have "json_items m (Join (json_print_items xs) '','' @ CHR '']'' # t) = Some (xs, t)" using 5 False by (simp add: n)
    then show ?thesis using start by (simp add: n skip_space_def) (simp add: json_space_def)
  qed
next
  case (6 ms)
  then obtain m where n: "n = Suc m" by (cases n) auto
  show ?case
  proof (cases "ms = []")
    case True
    then show ?thesis by (simp add: n one_json_level)
  next
    case False
    then obtain k v ns where ms: "ms = (k, v) # ns" by (cases ms) auto
    then have "\<exists>u. Join (json_print_members ms) '','' = CHR 0x22 # u" by (cases ns) (auto simp: json_text_quote)
    then obtain u where start: "Join (json_print_members ms) '','' = CHR 0x22 # u" by auto
    have "json_members m (Join (json_print_members ms) '','' @ CHR ''}'' # t) = Some (ms, t)" using 6 False by (simp add: n)
    then show ?thesis using start by (simp add: n one_json_level)
  qed
next
  case 7
  then show ?case by simp
next
  case (8 x xs)
  then obtain m where n: "n = Suc m" by (cases n) auto
  show ?case
  proof (cases "xs = []")
    case True
    have "json_value m (json_print x @ CHR '']'' # t) = Some (x, CHR '']'' # t)" using 8 by (simp add: n)
    then show ?thesis by (simp add: True n one_json_level)
  next
    case False
    have "json_value m (json_print x @ CHR '','' # u) = Some (x, CHR '','' # u)" for u using 8 by (simp add: n)
    moreover have "json_items m (Join (json_print_items xs) '','' @ CHR '']'' # t) = Some (xs, t)" using 8 False by (simp add: n)
    ultimately show ?thesis by (simp add: json_items_cons [OF False] n one_json_level del: json_print_items.simps)
  qed
next
  case 9
  then show ?case by simp
next
  case (10 k v ms)
  then obtain m where n: "n = Suc m" by (cases n) auto
  have key: "json_string (concat (map json_char k) @ CHR 0x22 # u) = Some (k, u)" for u
    using 10 by (simp add: json_string_text)
  show ?case
  proof (cases "ms = []")
    case True
    have "json_value m (json_print v @ CHR ''}'' # t) = Some (v, CHR ''}'' # t)" using 10 by (simp add: n)
    then show ?thesis by (simp add: True n one_json_level json_text_quote key del: json_string.simps)
  next
    case False
    have "json_value m (json_print v @ CHR '','' # u) = Some (v, CHR '','' # u)" for u using 10 by (simp add: n)
    moreover have "json_members m (Join (json_print_members ms) '','' @ CHR ''}'' # t) = Some (ms, t)" using 10 False by (simp add: n)
    ultimately show ?thesis
      by (simp add: json_members_cons [OF False] n one_json_level json_text_quote key del: json_print_members.simps json_string.simps)
  qed
qed

lemma jsize_length:
  shows "json_ok v \<Longrightarrow> jsize v \<le> 2 * length (json_print v)"
    and "\<forall>x \<in> set xs. json_ok x \<Longrightarrow> jsize_items xs \<le> 2 * length (Join (json_print_items xs) '','') + 2"
    and "\<forall>m \<in> set ms. json_ok (snd m) \<Longrightarrow> jsize_members ms \<le> 2 * length (Join (json_print_members ms) '','') + 2"
proof (induction v and xs and ms rule: json_print_json_print_items_json_print_members.induct)
  case (3 u)
  then obtain i where "u = itoa i" by auto
  then show ?case using itoa_start [of i] by auto
next
  case (8 x xs)
  show ?case
  proof (cases "xs = []")
    case True
    then show ?thesis using 8 by simp
  next
    case False
    then show ?thesis using 8 by (simp add: json_items_cons del: json_print_items.simps(2))
  qed
next
  case (10 k v ms)
  show ?case
  proof (cases "ms = []")
    case True
    then show ?thesis using 10 by simp
  next
    case False
    then show ?thesis using 10 by (simp add: json_members_cons json_text_def del: json_print_members.simps(2))
  qed
qed (auto simp: json_text_def)

lemma json_parse_print:
  assumes "json_ok v"
  shows "json_parse (json_print v) = Some v" and "json_parse (json_print v @ [CHR 0x0A]) = Some v"
  using json_value_print(1) [OF assms, of _ "[]"] json_value_print(1) [OF assms, of _ "[CHR 0x0A]"] jsize_length(1) [OF assms]
  by (simp_all add: json_parse_def one_json_level del: json_value.simps)

section \<open>Envelopes\<close>

lemma folds [simp]:
  "EqualFold ''schema_version'' ''schema_version''" "EqualFold ''command'' ''command''" "EqualFold ''ok'' ''ok''"
  "EqualFold ''data'' ''data''" "EqualFold ''error'' ''error''" "\<not> EqualFold ''command'' ''schema_version''"
  "\<not> EqualFold ''ok'' ''schema_version''" "\<not> EqualFold ''ok'' ''command''" "\<not> EqualFold ''data'' ''schema_version''"
  "\<not> EqualFold ''data'' ''command''" "\<not> EqualFold ''data'' ''ok''" "\<not> EqualFold ''error'' ''schema_version''"
  "\<not> EqualFold ''error'' ''command''" "\<not> EqualFold ''error'' ''ok''" "\<not> EqualFold ''error'' ''data''"
  "EqualFold ''code'' ''code''" "EqualFold ''class'' ''class''" "EqualFold ''message'' ''message''" "EqualFold ''retryable'' ''retryable''"
  "\<not> EqualFold ''class'' ''code''" "\<not> EqualFold ''message'' ''code''" "\<not> EqualFold ''message'' ''class''"
  "\<not> EqualFold ''retryable'' ''code''" "\<not> EqualFold ''retryable'' ''class''" "\<not> EqualFold ''retryable'' ''message''"
  by code_simp+

lemma ascii_names [simp]: "ascii ''schema_version''" "ascii ''command''" "ascii ''ok''" "ascii ''data''" "ascii ''error''"
    "ascii ''code''" "ascii ''class''" "ascii ''message''" "ascii ''retryable''"
  by (simp_all add: ascii_def)

definition error_wire :: "vci_error \<Rightarrow> bool" where
  "error_wire e \<longleftrightarrow> ascii (e_code e) \<and> ascii (class_text (e_class e)) \<and> ascii (e_message e) \<and> class_of (class_text (e_class e)) = e_class e"

text \<open>
  The responses that survive: ASCII text and integers a \<open>float64\<close> keeps, in the form the encoder gives maps;
  a success without an error or a failure with one.
\<close>

definition wire_ok :: "(string \<Rightarrow> string option) \<Rightarrow> (data \<Rightarrow> jvalue) \<Rightarrow> response \<Rightarrow> bool" where
  "wire_ok num marshal r \<longleftrightarrow> rs_SchemaVersion r = EnvelopeSchemaVersion \<and> ascii (rs_Command r)
     \<and> (case rs_Data r of None \<Rightarrow> False
        | Some d \<Rightarrow> json_ok (data_json marshal d) \<and> data_json marshal d \<noteq> JNull \<and> any_value num (data_json marshal d) = Some (data_json marshal d))
     \<and> (case rs_Error r of None \<Rightarrow> rs_OK r | Some e \<Rightarrow> \<not> rs_OK r \<and> error_wire e)"

definition decoded :: "(data \<Rightarrow> jvalue) \<Rightarrow> response \<Rightarrow> response" where
  "decoded marshal r = r\<lparr>rs_Data := map_option (\<lambda>d. DJson (data_json marshal d)) (rs_Data r)\<rparr>"

lemma unmarshal_object [simp]: "unmarshal_struct fs x (JObj ms) = unmarshal_fields fs x ms"
  by (simp add: unmarshal_struct_def)

lemma schema_text: "Atoi (itoa EnvelopeSchemaVersion) = Inr EnvelopeSchemaVersion"
  by (rule Atoi_itoa) (simp_all add: EnvelopeSchemaVersion_def)

lemma response_json_ok: "wire_ok num marshal r \<Longrightarrow> json_ok (response_json marshal r)"
  by (auto simp: wire_ok_def response_json_def error_json_def error_wire_def split: option.splits)

lemma parse_Encode: "wire_ok num marshal r \<Longrightarrow> json_parse (Encode marshal r) = Some (response_json marshal r)"
  using json_parse_print(2) [OF response_json_ok] by (simp add: Encode_def)

lemma error_fields_json: "error_wire e \<Longrightarrow> unmarshal_struct error_fields e0 (error_json e) = Some e"
  by (cases e) (simp add: error_json_def error_fields_def into_string_def into_bool_def error_wire_def)

lemma decode_Encode:
  assumes "wire_ok num marshal r"
  shows "decode_response num (Encode marshal r) = Some (decoded marshal r)"
proof -
  obtain d where d: "rs_Data r = Some d" "data_json marshal d \<noteq> JNull" "any_value num (data_json marshal d) = Some (data_json marshal d)"
    using assms by (auto simp: wire_ok_def split: option.splits)
  have data: "(case data_json marshal d of JNull \<Rightarrow> Some (x\<lparr>rs_Data := None\<rparr>)
      | _ \<Rightarrow> map_option (\<lambda>u. x\<lparr>rs_Data := Some (DJson u)\<rparr>) (any_value num (data_json marshal d)))
    = Some (x\<lparr>rs_Data := Some (DJson (data_json marshal d))\<rparr>)" for x
    using d(2,3) by (cases "data_json marshal d") simp_all
  have schema: "rs_SchemaVersion r = EnvelopeSchemaVersion" using assms by (simp add: wire_ok_def)
  have dec: "decode_response num (Encode marshal r) = unmarshal_struct (response_fields num) zero_response (response_json marshal r)"
    by (simp add: decode_response_def parse_Encode [OF assms])
  show ?thesis
  proof (cases "rs_Error r")
    case None
    then show ?thesis
      unfolding dec using d(1) schema
      by (cases r) (simp add: response_json_def
        response_fields_def into_int_def into_string_def into_bool_def schema_text zero_response_def data decoded_def)
  next
    case (Some e)
    then have "unmarshal_struct error_fields e0 (error_json e) = Some e" for e0
      using assms error_fields_json by (simp add: wire_ok_def)
    then have errf: "(case error_json e of JNull \<Rightarrow> Some (x\<lparr>rs_Error := None\<rparr>)
      | _ \<Rightarrow> map_option (\<lambda>e. x\<lparr>rs_Error := Some e\<rparr>) (unmarshal_struct error_fields (case rs_Error x of None \<Rightarrow> zero_error | Some e \<Rightarrow> e) (error_json e)))
      = Some (x\<lparr>rs_Error := Some e\<rparr>)" for x by (simp add: error_json_def)
    show ?thesis
      unfolding dec using d(1) schema Some
      by (cases r) (simp add: response_json_def
        response_fields_def into_int_def into_string_def into_bool_def schema_text zero_response_def data errf decoded_def)
  qed
qed

text \<open>The client decodes the response and prints the bytes it received.\<close>

lemma decodeRemoteResponse_Encode:
  assumes "wire_ok num marshal r"
  shows "decodeRemoteResponse num jerr (rs_Command r) (Encode marshal r) = (decoded marshal r, if rs_OK r then 0 else 2)"
  using assms by (auto simp: decodeRemoteResponse_def decode_Encode [OF assms] decoded_def wire_ok_def split: option.splits)

lemma Encode_decoded: "Encode marshal' (decoded marshal r) = Encode marshal r"
  by (simp add: Encode_def response_json_def decoded_def data_json_def split: option.splits)

lemma validEnvelope_Encode:
  assumes "wire_ok num marshal r" and "rs_Command r \<noteq> []"
    and "case rs_Error r of None \<Rightarrow> True | Some e \<Rightarrow> e_code e \<noteq> [] \<and> class_text (e_class e) \<noteq> [] \<and> e_message e \<noteq> []"
  shows "validEnvelope (Encode marshal r)"
proof -
  obtain d where d: "rs_Data r = Some d" using assms by (auto simp: wire_ok_def split: option.splits)
  have schema: "rs_SchemaVersion r = EnvelopeSchemaVersion" using assms by (simp add: wire_ok_def)
  show ?thesis
    using assms d schema
    by (cases "rs_Error r") (simp_all add: validEnvelope_def parse_Encode [OF assms(1)] response_json_def
      envelope_fields_def into_int_def into_string_def schema_text no_error_def wire_ok_def valid_remote_error_def error_json_def
      remote_error_fields_def)
qed

end
