(* ===== verification/Vci_Cli_Laws.thy ===== *)
theory Vci_Cli_Laws
  imports Vci_Commands Vci_Envelope_Laws Vci_Host_Laws
begin

text \<open>
  A client and its coordinator: the command line a client composes is read back by the shell as the words
  it was made of, and a forwarded command prints at the client the bytes it printed at the coordinator.
\<close>

section \<open>The remote command line\<close>

text \<open>
  The words of a command line without variables and operators, after the quotes are removed. An unquoted
  leading tilde would be expanded, so there is no result for it.
\<close>

fun item_char :: "sh_item \<Rightarrow> char option" where
  "item_char (Lit c) = Some c"
| "item_char (Quoted c) = Some c"
| "item_char (Var v) = None"
| "item_char (QVar v) = None"

fun token_text :: "sh_token \<Rightarrow> string option" where
  "token_text AndIf = None"
| "token_text (Word items) = (if items \<noteq> [] \<and> hd items = Lit CHR ''~'' then None else those (map item_char items))"

definition shell_words :: "string \<Rightarrow> string list option" where
  "shell_words line = (case sh_lex None line of None \<Rightarrow> None | Some ts \<Rightarrow> those (map token_text ts))"

declare token_text.simps(2) [simp del]

lemma those_some: "those (map (\<lambda>x. Some (f x)) xs) = Some (map f xs)"
  by (induction xs) auto

lemma token_quoted [simp]: "token_text (Word (map Quoted s)) = Some s"
proof -
  have "those (map item_char (map Quoted s)) = Some s" using those_some [of "\<lambda>c. c" s] by (simp add: comp_def)
  then show ?thesis by (cases s) (auto simp: token_text.simps)
qed

lemma token_plain [simp]: "w \<noteq> [] \<Longrightarrow> hd w \<noteq> CHR ''~'' \<Longrightarrow> token_text (Word (map Lit w)) = Some w"
  using those_some [of "\<lambda>c. c" w] by (cases w) (auto simp: token_text.simps comp_def)

lemmas token_words = token_plain [of "''vci''", simplified] token_plain [of "''check''", simplified] token_plain [of "''abort''", simplified]

lemma lex_quoted: "xs \<noteq> [] \<Longrightarrow> sh_lex None (Join (map shellQuote xs) '' '') = Some (map (\<lambda>a. Word (map Quoted a)) xs)"
proof (induction xs)
  case Nil
  then show ?case by simp
next
  case (Cons x xs)
  have one: "sh_lex None (shellQuote x @ rest) = sh_lex (Some (map Quoted x)) rest" for rest
    by (simp add: lex_shellQuote add_items_def)
  show ?case
  proof (cases xs)
    case Nil
    then show ?thesis using one [of "[]"] by (simp add: flush_def)
  next
    case (Cons y ys)
    have "Join (map shellQuote (x # xs)) '' '' = shellQuote x @ CHR '' '' # Join (map shellQuote xs) '' ''"
      by (simp add: local.Cons)
    then show ?thesis using one Cons.IH local.Cons by (simp add: flush_def)
  qed
qed

lemma vci_words:
  assumes "xs \<noteq> []"
  shows "shell_words (''vci '' @ Join (map shellQuote xs) '' '') = Some (''vci'' # xs)"
proof -
  have "sh_lex None (''vci'' @ '' '' @ u) = map_option (\<lambda>ts. Word (map Lit ''vci'') # ts) (sh_lex None u)" for u
    using lex_plain_start [of "''vci''" None "'' '' @ u"] by (simp add: plain_char_def alnum_def flush_def add_items_def)
  then have "sh_lex None (''vci '' @ Join (map shellQuote xs) '' '') = Some (Word (map Lit ''vci'') # map (\<lambda>a. Word (map Quoted a)) xs)"
    using lex_quoted [OF assms] by simp
  then show ?thesis using those_some [of "\<lambda>a. a" xs] by (simp add: shell_words_def token_words comp_def)
qed

text \<open>
  C38: Whatever the arguments hold (quotes, blanks, variables, operators, nothing at all), the shell of the
  coordinator's login splits the line a client sends into exactly the command and its arguments: no argument
  is joined, split, expanded or run.
\<close>

theorem remote_command_words: "shell_words (buildRemoteCommand name args) = Some (''vci'' # name # args)"
  using vci_words [of "name # args"] by (simp add: buildRemoteCommand_def)

lemma remote_check_words: "shell_words (''vci check '' @ shellQuote rid) = Some [''vci'', ''check'', rid]"
    "shell_words (''vci abort '' @ shellQuote rid) = Some [''vci'', ''abort'', rid]"
proof -
  have lit: "sh_lex None (shellQuote rid @ []) = Some [Word (map Quoted rid)]"
    unfolding lex_shellQuote by (simp add: add_items_def flush_def)
  have "sh_lex None (w @ '' '' @ u) = map_option (\<lambda>ts. Word (map Lit w) # ts) (sh_lex None u)" if "list_all plain_char w" "w \<noteq> []" for w u
    using lex_plain_start [OF that, of None "'' '' @ u"] by (simp add: flush_def add_items_def)
  note word = this [of "''vci''"] this [of "''check''"] this [of "''abort''"]
  show "shell_words (''vci check '' @ shellQuote rid) = Some [''vci'', ''check'', rid]"
    using word(1) [of "''check '' @ shellQuote rid"] word(2) [of "shellQuote rid"] lit
    by (simp add: shell_words_def plain_char_def alnum_def token_words)
  show "shell_words (''vci abort '' @ shellQuote rid) = Some [''vci'', ''abort'', rid]"
    using word(1) [of "''abort '' @ shellQuote rid"] word(3) [of "shellQuote rid"] lit
    by (simp add: shell_words_def plain_char_def alnum_def token_words)
qed

section \<open>Forwarded commands\<close>

text \<open>
  The coordinator behind ssh: its login shell splits the line, and \<open>vci\<close> runs with what it was sent on
  standard input. The state of the client is not changed.
\<close>

definition ssh_result :: "int \<Rightarrow> string \<Rightarrow> string \<Rightarrow> run_result" where
  "ssh_result code out msg = \<lparr>ExitCode = code, RunErr = (if code = 0 then None else Some (EOs ''exit status'')),
     Output = out, ErrOutput = msg, CtxErr = None\<rparr>"

definition coordinator_ssh :: "nat \<Rightarrow> cli_env \<Rightarrow> cli_state \<Rightarrow> 's runner" where
  "coordinator_ssh polls env wc c w = (case Args c of
       [host, line] \<Rightarrow> (case shell_words line of
           Some (p # args) \<Rightarrow>
             if p \<noteq> ''vci'' then (ssh_result 127 [] [], w)
             else (case RunCommand polls (env\<lparr>ce_stdin := (case Stdin c of None \<Rightarrow> [] | Some s \<Rightarrow> s)\<rparr>) args (wc\<lparr>stdout := [], stderr := []\<rparr>) of
                 (Inr (Some code), wc') \<Rightarrow> (ssh_result code (stdout wc') (stderr wc'), w)
               | (_, wc') \<Rightarrow> (ssh_result 255 (stdout wc') (stderr wc'), w))
         | _ \<Rightarrow> (ssh_result 127 [] [], w))
     | _ \<Rightarrow> (ssh_result 255 [] [], w))"

text \<open>A root whose configuration names a coordinator, on a system that does not fail.\<close>

definition client_of :: "cli_env \<Rightarrow> string \<Rightarrow> cli_state \<Rightarrow> bool" where
  "client_of env host w \<longleftrightarrow> faults w = [] \<and> host \<noteq> [] \<and> host \<noteq> OrchestratorSelf
     \<and> (\<exists>cfg. LoadConfig (be_toml (ce_build env)) w = (Inr cfg, w) \<and> Orchestrator cfg = host)"

lemma client_configured: "client_of env host w \<Longrightarrow> RemoteConfigured (ce_build env) w = (Inr True, w)"
  by (auto simp: client_of_def RemoteConfigured_def remoteOrchestrator_def io_eval)

lemma client_on_remote: "client_of env host w \<Longrightarrow> on_remote (ce_build env) m w = bindE (m host) (\<lambda>raw. ret (Some raw)) w"
  by (auto simp: client_of_def on_remote_def remoteTarget_def remoteOrchestrator_def io_eval)

definition after_ssh :: "cli_state \<Rightarrow> cli_state" where
  "after_ssh w = snd (on_fs (\<lambda>v. (Inr (), v)) w)"

lemma after_ssh_eq: "after_ssh w = w\<lparr>filesys := files_view w, faults := faults (files_view w), entropy := entropy (files_view w)\<rparr>"
  by (simp only: after_ssh_def on_fs_def prod.case snd_conv)

lemma read_updated: "faults (w\<lparr>filesys := a, faults := b, entropy := c\<rparr>) = b"
    "stdout (w\<lparr>filesys := a, faults := b, entropy := c\<rparr>) = stdout w" "stderr (w\<lparr>filesys := a, faults := b, entropy := c\<rparr>) = stderr w"
  for w :: cli_state
  by simp_all

lemma after_ssh [simp]: "faults (after_ssh w) = faults w" "stdout (after_ssh w) = stdout w" "stderr (after_ssh w) = stderr w"
  unfolding after_ssh_eq read_updated by (simp_all add: files_view_def)

lemma on_fs_after: "on_fs (Pair x) w = (x, after_ssh w)"
  by (simp only: on_fs_def after_ssh_def prod.case snd_conv)

lemma exec_ssh_coordinator:
  assumes "be_run b (ctx_done w) = coordinator_ssh polls cenv wc" and "shell_words line = Some (''vci'' # args)"
    and "RunCommand polls (cenv\<lparr>ce_stdin := []\<rparr>) args (wc\<lparr>stdout := [], stderr := []\<rparr>) = (Inr (Some code), wc')"
  shows "exec_ssh b host line None w = (Inr (ssh_result code (stdout wc') (stderr wc')), after_ssh w)"
proof -
  have "exec (coordinator_ssh polls cenv wc :: fs_state runner) ''ssh'' [host, line] None = (\<lambda>v. (Inr (ssh_result code (stdout wc') (stderr wc')), v))"
    using assms(2,3) by (simp add: exec_def coordinator_ssh_def fun_eq_iff)
  then show ?thesis using assms(1) by (simp add: exec_ssh_def with_run_def bindE_def asks_def on_fs_after)
qed

text \<open>An error that a client accepts names its code, its class and its message.\<close>

definition error_named :: "response \<Rightarrow> bool" where
  "error_named r \<longleftrightarrow> (case rs_Error r of None \<Rightarrow> True | Some e \<Rightarrow> e_code e \<noteq> [] \<and> class_text (e_class e) \<noteq> [] \<and> e_message e \<noteq> [])"

lemma runSSH_coordinator:
  assumes "be_run b (ctx_done w) = coordinator_ssh polls cenv wc" and "shell_words line = Some (''vci'' # args)"
    and "RunCommand polls (cenv\<lparr>ce_stdin := []\<rparr>) args (wc\<lparr>stdout := [], stderr := []\<rparr>) = (Inr (Some code), wc')"
    and "stdout wc' = Encode (ce_marshal cenv) r" and "wire_ok num (ce_marshal cenv) r" and "rs_Command r \<noteq> []" and "error_named r"
  shows "runSSH b host line w = (Inr (stdout wc'), after_ssh w)"
proof -
  have "validEnvelope (stdout wc')"
    using validEnvelope_Encode [OF assms(5,6)] assms(4,7) by (simp add: error_named_def)
  then show ?thesis
    unfolding runSSH_def using exec_ssh_coordinator [OF assms(1-3)]
    by (simp add: io_eval ssh_output_def ssh_failed_def ssh_result_def)
qed

text \<open>
  The commands of a client that are one question to the coordinator, with the arguments it sends. The others
  are not: \<open>build\<close> of a path sends a submission, \<open>logs\<close> and \<open>artifacts get\<close> relay bytes instead of an envelope,
  \<open>watch\<close> asks again and again, and \<open>probe-seed\<close>, \<open>setup\<close> and the worker's commands are never forwarded.
\<close>

inductive forwarded :: "string \<Rightarrow> string list \<Rightarrow> string list \<Rightarrow> bool" where
  check: "ValidRunID rid \<Longrightarrow> forwarded ''check'' [rid] [rid]"
| abort: "ValidRunID rid \<Longrightarrow> forwarded ''abort'' [rid] [rid]"
| machines: "forwarded ''machines'' [] []"
| projects: "forwarded ''projects'' [] []"
| hosted: "forwarded ''build'' [''--hosted'', name] [''--hosted'', name]"
| wait: "parse_wait second args = Inr interval \<Longrightarrow> forwarded ''wait-ready'' args args"
| version: "forwarded ''version'' [''--coordinator''] []"
| artifacts: "extractMachine [] [] args = Inr (machine, [rid]) \<Longrightarrow> ValidRunID rid \<Longrightarrow>
    forwarded ''artifacts'' (''ls'' # args) ([''ls'', rid] @ (if machine \<noteq> [] then [''--machine'', machine] else []))"

text \<open>What the client makes of the answer: only the list of artifacts is decoded by code of its own.\<close>

definition client_answer :: "cli_env \<Rightarrow> string \<Rightarrow> string \<Rightarrow> response \<times> int" where
  "client_answer env command raw = (if command = ''artifacts''
     then case remote_list env raw of Inl e \<Rightarrow> (Failure ''artifacts'' e, 2) | Inr d \<Rightarrow> (Success ''artifacts'' d, 0)
     else decode_remote env command raw)"

lemma client_answer_Encode:
  assumes "wire_ok (ce_num env) marshal r" and "rs_Command r = command" and "command = ''artifacts'' \<longrightarrow> rs_OK r"
  shows "client_answer env command (Encode marshal r) = (decoded marshal r, if rs_OK r then 0 else 2)"
proof (cases "command = ''artifacts''")
  case True
  then have "remote_list env (Encode marshal r) = Inr (rs_Data (decoded marshal r))"
    using assms by (auto simp: remote_list_def decode_Encode decoded_def wire_ok_def split: option.splits)
  moreover have "Success ''artifacts'' (rs_Data (decoded marshal r)) = decoded marshal r"
    using assms True by (cases r) (auto simp: Success_def decoded_def wire_ok_def split: option.splits)
  ultimately show ?thesis using assms True by (simp add: client_answer_def)
next
  case False
  with decodeRemoteResponse_Encode [OF assms(1)] assms(2) show ?thesis by (simp add: client_answer_def decode_remote_def)
qed

text \<open>What the client does with such a command: it asks the coordinator and decodes the answer.\<close>

lemma dispatch_forwarded:
  assumes "client_of env host w" and "resolveLayout env = Inr l" and "forwarded command args sent"
    and ssh: "\<And>line. shell_words line = Some (''vci'' # command # sent) \<Longrightarrow> runSSH (ce_build env) host line w = (Inr raw, w')"
  shows "dispatch n env command args w = (Inr (Some (client_answer env command raw)), w')"
proof -
  note c = client_configured [OF assms(1)] client_on_remote [OF assms(1)] client_answer_def
  have cmd: "RemoteCommand (ce_build env) command sent w = (Inr (Some raw), w')"
    using ssh [OF remote_command_words] by (simp add: RemoteCommand_def c io_eval)
  from assms(3) show ?thesis
  proof cases
    case (check rid)
    have "RemoteCheck (ce_build env) rid w = (Inr (Some raw), w')"
      using ssh remote_check_words(1) check by (simp add: RemoteCheck_def c io_eval)
    then have "checkRun env [rid] w = (Inr (decode_remote env ''check'' raw), w')"
      using check assms(2) by (simp add: checkRun_def one_arg_def reply_def lift_bind io_eval forward_or_def c)
    then show ?thesis by (simp add: check dispatch_def finished_def io_eval client_answer_def)
  next
    case (abort rid)
    have "RemoteAbort (ce_build env) rid w = (Inr (Some raw), w')"
      using ssh remote_check_words(2) abort by (simp add: RemoteAbort_def c io_eval)
    then have "run_abort env [rid] w = (Inr (decode_remote env ''abort'' raw), w')"
      using abort assms(2) by (simp add: run_abort_def one_arg_def reply_def lift_bind io_eval forward_or_def c)
    then show ?thesis by (simp add: abort dispatch_def finished_def io_eval client_answer_def)
  next
    case machines
    then show ?thesis
      using assms(2) cmd by (simp add: dispatch_def finished_def run_inventory_def reply_def lift_bind io_eval forward_or_def c)
  next
    case projects
    then show ?thesis
      using assms(2) cmd by (simp add: dispatch_def finished_def run_inventory_def reply_def lift_bind io_eval forward_or_def c)
  next
    case (hosted name)
    then have "run_build env args w = (Inr (decode_remote env ''build'' raw), w')"
      using assms(2) cmd
      by (simp add: run_build_def build_hosted_def reply_def lift_bind io_eval forward_only_def raw_bytes_def c)
    then show ?thesis by (simp add: hosted(1) dispatch_def finished_def io_eval client_answer_def)
  next
    case (wait interval)
    then have "wait_ready n env args interval w = (Inr (Some (decode_remote env ''wait-ready'' raw)), w')"
      using assms(2) cmd by (simp add: wait_ready_def lift_bind io_eval raw_bytes_def c)
    then show ?thesis using wait by (simp add: dispatch_def runWaitReady_def io_eval client_answer_def)
  next
    case version
    then show ?thesis
      using assms(2) cmd
      by (simp add: dispatch_def finished_def runVersion_def Let_def reply_def lift_bind io_eval forward_only_def raw_bytes_def c)
  next
    case (artifacts rest machine rid)
    have "list_artifacts env machine rid w = (Inr (remote_list env raw), w')"
      using assms(2) cmd artifacts
      by (simp add: list_artifacts_def and_then_def or_error_def lift_bind io_eval raw_bytes_def c)
    then have "run_artifacts env args w = (Inr (client_answer env ''artifacts'' raw), w')"
      using artifacts
      by (simp add: run_artifacts_def runArtifacts_def runArtifactsList_def io_eval client_answer_def refuse_def split: sum.split)
    then show ?thesis by (simp add: artifacts(1) dispatch_def finished_def io_eval)
  qed
qed

text \<open>
  C4: Asking through a client is asking the coordinator. A command that a client root forwards as one question
  (\<open>forwarded\<close>) prints at the client exactly the bytes it printed at the coordinator, and ends with the same
  exit code: the line is read back as the command and its arguments, the envelope passes the client's check,
  decodes to the response and is encoded again as the same bytes. This holds for successes and for failures,
  except that a failure of \<open>artifacts ls\<close> is replaced (\<open>Vci_Cli_Examples.list_failure_replaced\<close>); when no call of
  the operating system fails; and for answers that survive the wire (\<open>wire_ok\<close>): text in ASCII, and numbers
  that print the same after the client has read them as floating-point numbers, which not every integer does
  (those up to 2 to the power of 53 do).
\<close>

theorem forwarded_transparent:
  assumes "client_of env host w" and "resolveLayout env = Inr l" and "forwarded command args sent"
    and "be_run (ce_build env) (ctx_done w) = coordinator_ssh polls cenv wc"
    and "RunCommand polls (cenv\<lparr>ce_stdin := []\<rparr>) (command # sent) (wc\<lparr>stdout := [], stderr := []\<rparr>) = (Inr (Some code), wc')"
    and "stdout wc' = Encode (ce_marshal cenv) r" and "rs_Command r = command" and "code = (if rs_OK r then 0 else 2)"
    and "wire_ok (ce_num env) (ce_marshal cenv) r" and "error_named r" and "command = ''artifacts'' \<longrightarrow> rs_OK r"
  shows "\<exists>w'. RunCommand n env (command # args) w = (Inr (Some code), w') \<and> stdout w' = stdout w @ stdout wc' \<and> stderr w' = stderr w"
proof -
  have ne: "command \<noteq> []" using assms(3) by cases simp_all
  have "runSSH (ce_build env) host line w = (Inr (stdout wc'), after_ssh w)" if "shell_words line = Some (''vci'' # command # sent)" for line
    using runSSH_coordinator [OF assms(4) that assms(5,6,9)] ne assms(7,10) by simp
  then have "dispatch n env command args w = (Inr (Some (client_answer env command (stdout wc'))), after_ssh w)"
    by (rule dispatch_forwarded [OF assms(1-3)])
  moreover have "client_answer env command (stdout wc') = (decoded (ce_marshal cenv) r, code)"
    using client_answer_Encode [OF assms(9,7,11)] assms(6,8) by simp
  ultimately have d: "dispatch n env command args w = (Inr (Some (decoded (ce_marshal cenv) r, code)), after_ssh w)" by simp
  have "faults w = []" using assms(1) by (simp add: client_of_def)
  then have "respond env (decoded (ce_marshal cenv) r, code) (after_ssh w)
      = (Inr code, (after_ssh w)\<lparr>stdout := stdout w @ stdout wc'\<rparr>)"
    by (simp add: respond_def io_eval WriteResponse_def write_out_def Encode_decoded assms(6))
  moreover have "RunCommand n env (command # args) w = bindE (dispatch n env command args) (\<lambda>x. case x of
             None \<Rightarrow> ret None | Some y \<Rightarrow> finished (respond env y)) w"
    using assms(3) by cases (simp_all add: RunCommand_def Parse_def command_names_def HasPrefix_def)
  ultimately show ?thesis using d by (simp add: io_eval finished_def)
qed

end
