(* ===== verification/Vci_Client_Laws.thy ===== *)
theory Vci_Client_Laws
  imports Vci_Cli_Laws
begin

text \<open>
  What a client root keeps: a root whose configuration names a coordinator never changes a run, a claim or
  its configuration, whatever command of a user is run there.
\<close>

section \<open>A client root keeps nothing\<close>

definition is_client :: "toml \<Rightarrow> 'a config_state_scheme \<Rightarrow> bool" where
  "is_client t w \<longleftrightarrow> (\<exists>cfg. current t w = Some cfg \<and> Orchestrator cfg \<noteq> OrchestratorSelf \<and> Orchestrator cfg \<noteq> [])"

definition kept :: "toml \<Rightarrow> cli_state \<Rightarrow> cli_state \<Rightarrow> bool" where
  "kept t w w' \<longleftrightarrow> (is_client t w \<longrightarrow>
     runs w' = runs w \<and> claims w' = claims w \<and> launched w' = launched w \<and> config_file w' = config_file w)"

lemma is_client_file: "config_file w' = config_file w \<Longrightarrow> is_client t w' = is_client t w"
  by (simp add: is_client_def current_def)

interpretation kept: os_guarantee "kept t" for t
proof
  fix u v w :: cli_state and fs bs
  show "kept t w w" by (simp add: kept_def)
  show "kept t w (w\<lparr>faults := fs\<rparr>)" "kept t w (w\<lparr>entropy := bs\<rparr>)" by (simp_all add: kept_def)
  assume "kept t u v" and "kept t v w"
  then show "kept t u w" unfolding kept_def using is_client_file [of v u t] by auto
qed

lemma kept_modify:
  "(\<And>w. runs (g w) = runs w \<and> claims (g w) = claims w \<and> launched (g w) = launched w \<and> config_file (g w) = config_file w)
    \<Longrightarrow> always (kept t) (modify g)"
  by (simp add: always_def modify_def kept_def)

lemma client_on_fs [always_intro]: "always (kept t) (on_fs m)"
  by (auto simp: always_def on_fs_def kept_def split: prod.splits)

lemma kept_with_run [always_intro]: "always (kept t) (with_run env m)"
  unfolding with_run_def by (intro always_intro)

lemma kept_LoadConfig [always_intro]: "always (kept t) (LoadConfig t')"
  unfolding LoadConfig_def by (intro always_intro)

text \<open>A step that, in a client, only gives values of one kind: only those have to be followed.\<close>

lemma kept_when:
  assumes "always (kept t) m" and "\<And>w v w'. is_client t w \<Longrightarrow> m w = (Inr v, w') \<Longrightarrow> P v"
    and "\<And>v. P v \<Longrightarrow> always (kept t) (f v)"
  shows "always (kept t) (bindE m f)"
proof (rule alwaysI)
  fix w r w'
  assume run: "bindE m f w = (r, w')"
  show "kept t w w'"
  proof (cases "is_client t w")
    case False
    then show ?thesis by (simp add: kept_def)
  next
    case client: True
    obtain x w1 where m: "m w = (x, w1)" by (cases "m w") auto
    have k: "kept t w w1" using assms(1) m by (rule alwaysD)
    show ?thesis
    proof (cases x)
      case (Inl e)
      then show ?thesis using run m k by (simp add: bindE_def)
    next
      case (Inr v)
      then have "f v w1 = (r, w')" using run m by (simp add: bindE_def)
      then have "kept t w1 w'" using assms(2) [OF client] assms(3) m Inr by (blast dest: alwaysD)
      then show ?thesis using kept.trans [OF k] by blast
    qed
  qed
qed

lemma client_LoadConfig: "is_client t w \<Longrightarrow> LoadConfig t w = (Inr cfg, w') \<Longrightarrow> Orchestrator cfg \<noteq> OrchestratorSelf \<and> Orchestrator cfg \<noteq> []"
  using LoadConfig_current [of t w cfg w'] by (auto simp: is_client_def)

lemma RemoteConfigured_client: "is_client (be_toml b) w \<Longrightarrow> RemoteConfigured b w = (Inr v, w') \<Longrightarrow> v"
  by (auto simp: RemoteConfigured_def remoteOrchestrator_def bindE_Inr ret_def dest: client_LoadConfig)

lemma on_remote_client: "is_client (be_toml b) w \<Longrightarrow> on_remote b m w = (Inr v, w') \<Longrightarrow> v \<noteq> None"
  by (auto simp: on_remote_def remoteTarget_def remoteOrchestrator_def bindE_Inr ret_def split: if_splits dest: client_LoadConfig)

lemma kept_remote [always_intro]:
  "always (kept t) (RemoteConfigured b)" "(\<And>host. always (kept t) (m host)) \<Longrightarrow> always (kept t) (on_remote b m)"
  "always (kept t) (exec_ssh b host line stdin)" "always (kept t) (runSSH b host line)" "always (kept t) (runSSHRaw b host line)"
  unfolding RemoteConfigured_def remoteOrchestrator_def on_remote_def remoteTarget_def exec_ssh_def runSSH_def runSSHRaw_def
  by (intro always_intro; assumption)+

lemma kept_remote_build [always_intro]: "always (kept t) (remote_build b jerr path host)"
  unfolding remote_build_def remoteSeedHead_def deltaBase_def capture_submission_def by (intro always_intro)

lemma kept_output [always_intro]:
  "always (kept t) (write_out s)" "always (kept t) (write_err s)" "always (kept t) (writeFailure env c e)"
  "always (kept t) (stream_out s)" "always (kept t) (respond env y)"
  unfolding write_out_def write_err_def writeFailure_def stream_out_def respond_def WriteResponse_def print_err_def ignore_def
  by (auto intro!: always_intro kept_modify)

lemma kept_reply [always_intro]: "always (kept t) m \<Longrightarrow> always (kept t) (reply c m)"
    "always (kept t) m' \<Longrightarrow> always (kept t) (finished m')" "always (kept t) m'' \<Longrightarrow> always (kept t) (or_error f m'')"
  unfolding reply_def finished_def or_error_def by (intro always_intro; assumption)+

lemma kept_answer [always_intro]: "always (kept t) (answer c d)" "always (kept t) (refuse c e)" "always (kept t) (refused s)"
    "always (kept t) (done_with d)"
  unfolding answer_def refuse_def refused_def done_with_def by (intro always_intro)+

text \<open>A forwarded command never goes on locally.\<close>

lemma kept_forward_or:
  assumes "\<And>w v w'. is_client (be_toml (ce_build env)) w \<Longrightarrow> remote w = (Inr v, w') \<Longrightarrow> v \<noteq> None"
    and "always (kept (be_toml (ce_build env))) remote"
  shows "always (kept (be_toml (ce_build env))) (forward_or env c remote local)"
  unfolding forward_or_def
  by (rule kept_when [where P = "\<lambda>v. v"], intro always_intro, erule RemoteConfigured_client, assumption, simp,
      rule kept_when [where P = "\<lambda>v. v \<noteq> None"], rule assms(2), erule assms(1), assumption)
    (auto intro!: always_intro)

lemma kept_forward_only:
  assumes "always (kept (be_toml (ce_build env))) remote"
  shows "always (kept (be_toml (ce_build env))) (forward_only env c remote local)"
  unfolding forward_only_def
  by (rule kept_when [where P = "\<lambda>v. v"], intro always_intro, erule RemoteConfigured_client, assumption, simp)
    (intro always_intro assms)

lemma kept_RemoteCommand [always_intro]:
  "always (kept t) (RemoteCommand b name args)" "always (kept t) (RemoteCheck b rid)" "always (kept t) (RemoteAbort b rid)"
  "always (kept t) (RemoteBuild b jerr path)" "always (kept t) (RemoteLog b rid machine stream tail)"
  "always (kept t) (RemoteGetArtifact b rid machine rel)"
  unfolding RemoteCommand_def RemoteCheck_def RemoteAbort_def RemoteBuild_def RemoteLog_def RemoteGetArtifact_def
  by (intro always_intro)+

lemma remote_client:
  assumes "is_client (be_toml b) w"
  shows "RemoteCommand b name args w = (Inr v, w') \<Longrightarrow> v \<noteq> None" "RemoteCheck b rid w = (Inr v, w') \<Longrightarrow> v \<noteq> None"
    "RemoteAbort b rid w = (Inr v, w') \<Longrightarrow> v \<noteq> None" "RemoteBuild b jerr path w = (Inr v, w') \<Longrightarrow> v \<noteq> None"
  unfolding RemoteCommand_def RemoteCheck_def RemoteAbort_def RemoteBuild_def by (erule on_remote_client [OF assms])+

lemma kept_submission [always_intro]: "always (kept (be_toml b)) (PrepareFromSubmission b l name bytes)"
proof -
  have none: "submission_project cfg name = Inl (client_root_error cfg)" if "Orchestrator cfg \<noteq> OrchestratorSelf" for cfg
    using that by (simp add: submission_project_def)
  show ?thesis
    unfolding PrepareFromSubmission_def
    by (rule kept.always_bindE, intro always_intro, rule kept_when [where P = "\<lambda>cfg. Orchestrator cfg \<noteq> OrchestratorSelf"],
        intro always_intro, drule client_LoadConfig, assumption, simp, rule kept_when [where P = "\<lambda>_. False"], intro always_intro)
      (simp_all add: none lift_result_def)
qed

lemma kept_runs [always_intro]:
  "always (kept (be_toml (ce_build env))) (runVersion env args)" "always (kept (be_toml (ce_build env))) (run_inventory env c)"
  "always (kept (be_toml (ce_build env))) (checkRun env args)" "always (kept (be_toml (ce_build env))) (run_abort env args)"
  "always (kept (be_toml (ce_build env))) (run_probe_seed env args)"
  unfolding runVersion_def run_inventory_def checkRun_def run_abort_def run_probe_seed_def one_arg_def ProbeSeed_def Let_def
  by (intro always_intro kept_forward_or kept_forward_only; (erule remote_client)?; assumption?)+

lemma kept_build_submission:
  "always (kept (be_toml (ce_build env))) (build_submission env l name)"
proof -
  have no: "\<not> is_client (be_toml (ce_build env)) w" if run: "PrepareFromSubmission (ce_build env) l name (ce_stdin env) w = (Inr r, w')" for w :: cli_state and w' r
  proof
    assume client: "is_client (be_toml (ce_build env)) w"
    from run obtain w1 w2 cfg project where fs: "on_fs (ensure_layout l) w = (Inr (), w1)"
        and cfg: "LoadConfig (be_toml (ce_build env)) w1 = (Inr cfg, w2)" and ok: "submission_project cfg name = Inr project"
      unfolding PrepareFromSubmission_def by (auto simp: bindE_Inr lift_result_def)
    have "kept (be_toml (ce_build env)) w w1" using alwaysD [OF client_on_fs fs] .
    then have "is_client (be_toml (ce_build env)) w1" using client is_client_file [of w1 w] by (simp add: kept_def)
    from client_LoadConfig [OF this cfg] ok show False by (auto simp: submission_project_def split: if_splits)
  qed
  show ?thesis
    unfolding build_submission_def by (rule kept_when [where P = "\<lambda>_. False"], intro always_intro) (auto dest: no)
qed

lemma kept_run_build [always_intro]: "always (kept (be_toml (ce_build env))) (run_build env args)"
  unfolding run_build_def build_path_def build_hosted_def
  by (intro always_intro kept_build_submission kept_forward_or kept_forward_only; (erule remote_client)?; assumption?)

lemma role_client:
  assumes "is_client (be_toml (ce_build env)) w" and "requireCoordinatorRole env w = (Inr v, w')"
  shows "isl v"
proof (rule ccontr)
  assume "\<not> isl v"
  then obtain u where "v = Inr u" by (cases v) auto
  with assms(2) obtain w1 where "RequireCoordinatorRole (be_toml (ce_build env)) w = (Inr u, w1)"
    by (auto simp: requireCoordinatorRole_def or_error_def bindE_def attempt_def ret_def split: prod.splits sum.splits)
  then obtain cfg w2 where "LoadConfig (be_toml (ce_build env)) w = (Inr cfg, w2)" "Orchestrator cfg = OrchestratorSelf"
    by (auto simp: RequireCoordinatorRole_def bindE_Inr guard_def throw_def split: if_splits)
  with client_LoadConfig [OF assms(1)] show False by blast
qed

lemma kept_role:
  "always (kept (be_toml (ce_build env))) (and_then (requireCoordinatorRole env) f)"
  unfolding and_then_def
proof (rule kept_when [where P = isl])
  show "always (kept (be_toml (ce_build env))) (requireCoordinatorRole env)"
    unfolding requireCoordinatorRole_def RequireCoordinatorRole_def by (intro always_intro)
qed (auto dest: role_client simp: isl_def intro: always_intro)

lemma kept_initialize: "always (kept t) (InitializeConfig t')"
proof -
  have found: "r \<noteq> Inl ENotExist" if "is_client t w" "attempt (read_file config_file) w = (Inr r, w')" for w :: cli_state and r w'
    using that by (auto simp: is_client_def current_def attempt_def read_file_def os_call_def bindE_def asks_def ret_def throw_def
        split: option.splits list.splits)
  show ?thesis
    unfolding InitializeConfig_def acquire_def
    by (rule kept.always_bindE, intro always_intro, rule kept_when [where P = "\<lambda>r. r \<noteq> Inl ENotExist"], intro always_intro)
      (auto dest: found simp: IsNotExist_iff intro!: always_intro)
qed

lemma kept_setup [always_intro]: "always (kept (be_toml (ce_build env))) (run_setup env args)"
proof -
  have "always (kept (be_toml (ce_build env))) (setup_init env l xs)" for l xs
    unfolding setup_init_def Initialize_def and_then_def Ensure_def by (intro always_intro kept_initialize)
  then show ?thesis
    unfolding run_setup_def runSetup_def setup_operation_def setup_reap_def setup_machine_def setup_project_def
    by (intro always_intro kept_role)
qed

lemma kept_and_then [always_intro]:
  "always (kept t) m \<Longrightarrow> (\<And>v. always (kept t) (f v)) \<Longrightarrow> always (kept t) (and_then m f)"
  unfolding and_then_def by (intro always_intro)

lemma configured_client:
  assumes "is_client (be_toml (ce_build env)) w"
    and "or_error g (bindE (lift_result x) (\<lambda>_. RemoteConfigured (ce_build env))) w = (Inr v, w')"
  shows "v \<noteq> Inr False"
  using assms RemoteConfigured_client
  by (auto simp: or_error_def bindE_def attempt_def ret_def lift_result_def split: prod.splits sum.splits)

lemma kept_artifacts [always_intro]: "always (kept (be_toml (ce_build env))) (run_artifacts env args)"
proof -
  have "always (kept (be_toml (ce_build env))) (list_artifacts env machine rid)" for machine rid
    unfolding list_artifacts_def and_then_def [of "or_error _ (bindE _ _)"]
    by (rule kept_when [where P = "\<lambda>v. v \<noteq> Inr False"], intro always_intro, erule configured_client, assumption)
      (auto split: sum.split intro!: always_intro)
  then show ?thesis
    unfolding run_artifacts_def runArtifacts_def runArtifactsList_def by (intro always_intro)
qed

lemma kept_stream:
  assumes "always (kept (be_toml (ce_build env))) remote" and "\<And>s. always (kept (be_toml (ce_build env))) (print s)"
  shows "always (kept (be_toml (ce_build env))) (stream_command env c f print remote local)"
proof -
  have "always (kept (be_toml (ce_build env))) (get_remote_or_local env remote local)"
    unfolding get_remote_or_local_def
    by (rule kept.always_bindE, intro always_intro, rule kept_when [where P = "\<lambda>v. v"], intro always_intro,
        erule RemoteConfigured_client, assumption) (simp, intro always_intro assms)
  then show ?thesis unfolding stream_command_def relay_def by (intro always_intro assms(2))
qed

lemma kept_streams [always_intro]:
  "always (kept (be_toml (ce_build env))) (runArtifactsGet env args)" "always (kept (be_toml (ce_build env))) (runLogs env args)"
  unfolding runArtifactsGet_def runLogs_def print_tail_def print_err_def by (intro always_intro kept_stream)+

lemma kept_watch:
  assumes "\<And>d w. kept (be_toml (ce_build env)) w (ce_pause env d w)"
  shows "always (kept (be_toml (ce_build env))) (watch_loop n env rid interval exitStatus seen)"
proof (induction n arbitrary: seen)
  case 0
  then show ?case by (simp add: kept.always_ret)
next
  case (Suc n)
  have "always (kept (be_toml (ce_build env))) (modify (ce_pause env interval))" using assms by (simp add: always_def modify_def)
  note pause = this
  show ?case
    unfolding watch_loop.simps watch_done_def print_progress_def WriteResponse_def print_err_def by (intro always_intro Suc pause)
qed

lemma kept_wait: "always (kept (be_toml (ce_build env))) (runWaitReady polls env args)"
proof -
  have "always (kept (be_toml (ce_build env))) (wait_ready polls env args interval)" for interval
    unfolding wait_ready_def
    by (rule kept.always_bindE, intro always_intro, rule kept_when [where P = "\<lambda>v. v"], intro always_intro,
        erule RemoteConfigured_client, assumption) (simp, intro always_intro)
  then show ?thesis unfolding runWaitReady_def by (intro always_intro)
qed

text \<open>
  C37: A client root keeps nothing of a coordinator. Whatever command of a user is run there with whatever
  arguments, whatever fails and whatever the coordinator answers, no run, no claim, no launched worker and no
  byte of the configuration changes. The commands named \<open>internal-...\<close>, which coordinators send to their
  workers and which nobody forwards, are not meant: \<open>internal-run\<close> executes a run of this root, and a hostile
  archive given to \<open>internal-stage\<close> can write anywhere (\<open>Vci_Worker_Examples.stage_symlink_escapes\<close>). The
  sleep of a command that waits is taken to keep the root (third assumption), and the temporary files and the
  programs (\<open>git\<close>, \<open>ssh\<close>) of a submission work outside it, on the component \<open>filesys\<close>.
\<close>

theorem client_keeps_nothing:
  assumes "is_client (be_toml (ce_build env)) w" and "args = [] \<or> \<not> HasPrefix (hd args) ''internal-''"
    and "\<And>d v. kept (be_toml (ce_build env)) v (ce_pause env d v)"
    and "RunCommand polls env args w = (r, w')"
  shows "runs w' = runs w \<and> claims w' = claims w \<and> launched w' = launched w \<and> config_file w' = config_file w"
proof -
  have d: "always (kept (be_toml (ce_build env))) (dispatch polls env name rest)" if "\<not> HasPrefix name ''internal-''" for name rest
  proof -
    have "name \<noteq> ''internal-run''" using that by (auto simp: HasPrefix_def)
    then show ?thesis unfolding dispatch_def by (intro always_intro kept_wait; simp)
  qed
  have wa: "always (kept (be_toml (ce_build env))) (runWatch polls env rest)" for rest
    unfolding runWatch_def by (intro always_intro kept_watch assms(3))
  have "always (kept (be_toml (ce_build env))) (RunCommand polls env args)"
  proof (cases args)
    case Nil
    then show ?thesis by (auto simp: RunCommand_def Parse_def intro: always_intro)
  next
    case (Cons name rest)
    with assms(2) have "\<not> HasPrefix name ''internal-''" by simp
    then show ?thesis unfolding RunCommand_def Parse_def Cons
      by (intro always_intro wa d; simp add: Cons split: if_splits)
  qed
  from alwaysD [OF this assms(4)] assms(1) show ?thesis by (simp add: kept_def)
qed

end
