(* ===== verification/Vci_Output_Laws.thy ===== *)
theory Vci_Output_Laws
  imports Vci_Commands Vci_Store_Laws
begin

text \<open>
  The tail of a log is its last lines; a wait for the coordinator ends with the first poll that finds it
  idle; and a watch that ends with success has seen the run succeed.
\<close>

section \<open>The tail of a log\<close>

text \<open>The lines of a text, each with its newline; only the last may lack one.\<close>

fun lines_of :: "string \<Rightarrow> string list" where
  "lines_of [] = []"
| "lines_of (c # cs) =
     (if c = newline then [c] # lines_of cs
      else case lines_of cs of [] \<Rightarrow> [[c]] | l # ls \<Rightarrow> (c # l) # ls)"

lemma concat_lines: "concat (lines_of s) = s"
  by (induction s) (auto split: list.splits)

lemma lines_empty: "lines_of s = [] \<longleftrightarrow> s = []"
  by (cases s) (auto split: list.splits)

lemma length_lines: "s \<noteq> [] \<Longrightarrow> int (length (lines_of s)) = count_lines s"
proof (induction s)
  case (Cons c cs)
  then show ?case
    by (cases "cs = []") (auto simp: count_lines_def lines_empty split: list.splits)
qed simp

lemma skip_lines_concat:
  "0 < k \<Longrightarrow> k \<le> int (count_list s newline) \<Longrightarrow> skip_lines k t s = concat (drop (nat k) (lines_of s))"
proof (induction s arbitrary: k)
  case (Cons c cs)
  obtain j where k: "nat k = Suc j" using Cons.prems(1) by (cases "nat k") auto
  show ?case
  proof (cases "c = newline")
    case True
    show ?thesis
    proof (cases "k = 1")
      case True
      then show ?thesis using \<open>c = newline\<close> by (simp add: concat_lines)
    next
      case False
      then have "skip_lines (k - 1) t cs = concat (drop (nat (k - 1)) (lines_of cs))"
        using Cons \<open>c = newline\<close> by simp
      moreover have "nat (k - 1) = j" using k by simp
      ultimately show ?thesis using \<open>c = newline\<close> False k by simp
    qed
  next
    case False
    then have "skip_lines k t cs = concat (drop (nat k) (lines_of cs))" using Cons by simp
    moreover have "lines_of cs \<noteq> []" using Cons.prems False by (auto simp: lines_empty)
    ultimately show ?thesis using False k by (auto split: list.splits)
  qed
qed simp

text \<open>
  C40: The tail of a log is its last lines, byte for byte: the lines are the text cut after each newline, a
  last line without one counts, and a log of fewer lines is printed whole.
\<close>

theorem tailLines_spec: "tailLines s n = concat (last_n (nat n) (lines_of s))"
proof (cases "n \<le> 0 \<or> s = []")
  case True
  then show ?thesis by (auto simp: tailLines_def last_n_def)
next
  case False
  then have len: "int (length (lines_of s)) = count_lines s" by (simp add: length_lines)
  show ?thesis
  proof (cases "count_lines s \<le> n")
    case True
    then have "length (lines_of s) - nat n = 0" using len by linarith
    then show ?thesis using False True by (simp add: tailLines_def last_n_def concat_lines)
  next
    case more: False
    have "count_lines s - n \<le> int (count_list s newline)" using False by (simp add: count_lines_def)
    then have "skip_lines (count_lines s - n) s s = concat (drop (nat (count_lines s - n)) (lines_of s))"
      using more by (intro skip_lines_concat) auto
    moreover have "nat (count_lines s - n) = length (lines_of s) - nat n" using len more False by linarith
    ultimately show ?thesis using False more by (simp add: tailLines_def last_n_def)
  qed
qed

section \<open>Waiting\<close>

text \<open>The state at a poll: what the others did while the process slept.\<close>

primrec poll_state :: "cli_env \<Rightarrow> int \<Rightarrow> nat \<Rightarrow> cli_state \<Rightarrow> cli_state" where
  "poll_state env interval 0 w = w"
| "poll_state env interval (Suc k) w = poll_state env interval k (ce_pause env interval (snd (HasLiveBuild w)))"

definition idle :: "cli_state \<Rightarrow> bool" where
  "idle w \<longleftrightarrow> fst (HasLiveBuild w) = Inr None"

definition ready :: "int \<Rightarrow> response \<times> int" where
  "ready interval = (Success ''wait-ready'' (Some (DObj [(''ready'', JBool True), (''interval_seconds'', JNum (itoa (interval div second)))])), 0)"

lemma live_loop_Inr: "\<exists>v. fst (live_loop ns w) = Inr v"
proof (induction ns arbitrary: w)
  case (Cons n ns)
  obtain x w1 where "attempt (read_run run_json n) w = (Inr x, w1)" by (cases "read_run run_json n w") (auto simp: attempt_def)
  then show ?case using Cons [of w1] by (auto simp: bindE_def ret_def split: sum.splits json.splits)
qed (simp add: ret_def)

lemma HasLiveBuild_Inr: "\<exists>v. fst (HasLiveBuild w) = Inr v"
proof -
  obtain x w1 where "attempt list_runs w = (Inr x, w1)" by (cases "list_runs w") (auto simp: attempt_def)
  then show ?thesis using live_loop_Inr by (auto simp: HasLiveBuild_def bindE_def ret_def split: sum.splits)
qed

text \<open>
  C39: A wait ends as soon as the coordinator is idle, and only then: with any bound on the polls, it has
  answered that the coordinator is ready exactly when one of those polls found no live build, and is still
  waiting otherwise. No error of the store ends it, and it has no other answer.
\<close>

theorem wait_loop_ready:
  "fst (wait_loop n env interval w) = Inr (if \<exists>k < n. idle (poll_state env interval k w) then Some (ready interval) else None)"
proof (induction n arbitrary: w)
  case 0
  then show ?case by (simp add: ret_def)
next
  case (Suc n)
  obtain live w1 where h: "HasLiveBuild w = (Inr live, w1)" using HasLiveBuild_Inr [of w] by (cases "HasLiveBuild w") auto
  show ?case
  proof (cases live)
    case None
    then have "idle (poll_state env interval 0 w)" using h by (simp add: idle_def)
    then show ?thesis using h None by (auto simp: bindE_def ret_def ready_def)
  next
    case (Some rid)
    have "(\<exists>k < Suc n. idle (poll_state env interval k w)) \<longleftrightarrow> (\<exists>k < n. idle (poll_state env interval (Suc k) w))"
      using h Some by (auto simp: less_Suc_eq_0_disj idle_def)
    then show ?thesis using h Some Suc [of "ce_pause env interval w1"] by (simp add: bindE_def modify_def)
  qed
qed

section \<open>Watching\<close>

text \<open>
  A watch with \<open>--exit-status\<close> that ends with 0 has seen the run succeed: its last check answered without
  an error, and the state in that answer is \<open>succeeded\<close>. It never ends with 0 for a run that failed, was lost,
  aborted or unavailable, nor for an answer it could not read.
\<close>

theorem watch_success:
  assumes "watch_loop n env rid interval True seen w = (Inr (Some 0), w')"
  shows "\<exists>w0 r w1. checkRun env [rid] w0 = (Inr (r, 0), w1) \<and> watchState env (rs_Data r) = Some RunSucceeded"
  using assms
proof (induction n arbitrary: seen w)
  case 0
  then show ?case by (simp add: ret_def)
next
  case (Suc n)
  have fail: "writeFailure env c e v \<noteq> (Inr 0, v')" for c e v v'
    by (auto simp: writeFailure_def bindE_def attempt_def ret_def split: prod.splits sum.splits)
  from Suc.prems obtain r code w1 where c: "checkRun env [rid] w = (Inr (r, code), w1)"
    by (auto simp: bindE_Inr)
  show ?case
  proof (cases "code = 0 \<and> watchState env (rs_Data r) \<noteq> None")
    case False
    then show ?thesis using Suc.prems c fail by (auto simp: bindE_Inr ret_def split: if_splits option.splits)
  next
    case True
    then obtain state where s: "watchState env (rs_Data r) = Some state" and "code = 0" by auto
    show ?thesis
    proof (cases "IsTerminal state")
      case fin: True
      have "state = RunSucceeded"
        using Suc.prems c s fin \<open>code = 0\<close>
        by (auto simp: bindE_Inr ret_def watch_done_def split: sum.split_asm if_splits) (metis old.sum.exhaust old.unit.exhaust)+
      then show ?thesis using c s \<open>code = 0\<close> by blast
    next
      case False
      then obtain v where "watch_loop n env rid interval True (Some state) v = (Inr (Some 0), w')"
        using Suc.prems c s \<open>code = 0\<close> by (auto simp: bindE_Inr)
      then show ?thesis by (rule Suc.IH)
    qed
  qed
qed

end
