(* ===== verification/Vci_Build_Laws.thy ===== *)
theory Vci_Build_Laws
  imports Vci_Build Vci_Reaper_Laws
begin

text \<open>
  What the worker guarantees. Beside its transitions, its result and its lease, everything it does (files,
  processes, logs, artifacts) leaves the records, the results and the claims of the store alone, so that an
  invariant of the store operations is an invariant of a whole execution, whatever other processes do
  meanwhile, as long as they keep it too.
\<close>

section \<open>Changes outside the store\<close>

lemma run_file_put_other:
  "(\<And>d. f (upd d) = f d) \<Longrightarrow> (\<And>d t. f (d\<lparr>run_mtime := t\<rparr>) = f d) \<Longrightarrow> run_file f (put_run rid upd w) n = run_file f w n"
  by (auto simp: run_file_def put_run_def update_conv' split: option.splits entry.splits)

lemma run_file_put_artifacts:
  "(\<And>d a. f (d\<lparr>artifacts_dir := a\<rparr>) = f d) \<Longrightarrow> run_file f (put_artifacts rid x w) n = run_file f w n"
  by (auto simp: run_file_def put_artifacts_def update_conv' split: option.splits entry.splits)

lemma run_file_add_run: "(\<And>t. f (empty_run t) = None) \<Longrightarrow> run_file f (add_run rid w) n = run_file f w n"
  by (auto simp: run_file_def add_run_def update_conv' split: option.splits entry.splits)

lemma claims_put [simp]: "claims (put_run rid upd w) = claims w" "claims (put_artifacts rid n w) = claims w" "claims (add_run rid w) = claims w"
  by (simp_all add: put_run_def put_artifacts_def add_run_def split: option.split entry.split)

lemma always_case_executor [always_intro]:
  "(\<And>img. always R (f img)) \<Longrightarrow> (\<And>s b. always R (g s b)) \<Longrightarrow> always R h \<Longrightarrow>
    always R (case ex of Docker img \<Rightarrow> f img | VM s b \<Rightarrow> g s b | Local \<Rightarrow> h)"
  by (cases ex) auto

text \<open>The laws: a guarantee that only looks at records, results and claims, and holds of the store operations.\<close>

locale worker_guarantee = os_guarantee R for R :: "'a build_state_scheme \<Rightarrow> 'a build_state_scheme \<Rightarrow> bool" +
  assumes same: "claims w' = claims w \<Longrightarrow> (\<And>rid. run_file run_json w' rid = run_file run_json w rid)
      \<Longrightarrow> (\<And>rid. run_file result_json w' rid = run_file result_json w rid) \<Longrightarrow> R w w'"
    and transition: "always R (StoreTransition rid s now)"
    and publish: "always R (PublishResult rid v)"
    and lease: "always R (ClaimLease rid owner now ttl)" "always R (ReleaseLease rid owner)"
    and free: "always R (Release l m rid)"
    and watch: "always R (watchCancellation rid es)" "always R (renewLease rid owner ttl es)"
begin

lemmas store_ops [always_intro] = transition publish lease free watch

lemma always_quiet: "always quiet m \<Longrightarrow> always R m"
  by (erule always_mono) (auto simp: quiet_def run_file_def intro!: same)

lemma always_other: "(\<And>w. claims (g w) = claims w \<and> (\<forall>rid. run_file run_json (g w) rid = run_file run_json w rid)
    \<and> (\<forall>rid. run_file result_json (g w) rid = run_file result_json w rid)) \<Longrightarrow> always R (modify g)"
  by (auto simp: always_def modify_def intro!: same)

lemma always_put [always_intro]:
  "(\<And>d. run_json (upd d) = run_json d) \<Longrightarrow> (\<And>d. result_json (upd d) = result_json d) \<Longrightarrow> always R (modify (put_run rid upd))"
  by (rule always_other) (simp add: run_file_put_other)

lemma always_artifacts [always_intro]: "always R (modify (put_artifacts rid n))" "always R (modify (add_run rid))"
  by (rule always_other, simp add: run_file_put_artifacts run_file_add_run empty_run_def)+

lemma always_on_fs [always_intro]: "always R (on_fs m)"
  by (auto simp: always_def on_fs_def run_file_def split: prod.splits intro!: same)

lemma always_with_run [always_intro]: "always R (with_run env m)"
  unfolding with_run_def by (intro always_intro)

lemma always_flags [always_intro]: "always R (modify (\<lambda>w. w\<lparr>ctx_done := f w, watch_ended := g w, ownership_lost := h w\<rparr>))"
  by (rule always_other) (simp add: run_file_def)

lemma always_reads [always_intro]: "always R (read_run f rid)" "always R (Load rid)" "always R (LoadChildren rid)" "always R (ReadExecution rid)"
    "always R (ReservationFor l m rid)"
  by (rule always_quiet; simp add: read_run_quiet quiet_Load quiet_LoadChildren quiet_ReadExecution quiet_ReservationFor)+

lemma always_cancellationRequested [always_intro]: "always R (cancellationRequested rid)"
  unfolding cancellationRequested_def by (intro always_intro)

lemma always_ignore [always_intro]: "always R m \<Longrightarrow> always R (ignore m)"
  unfolding ignore_def by (intro always_intro)

lemma always_on_error [always_intro]:
  assumes "always R d" and "always R m"
  shows "always R (on_error d m)"
proof -
  have "R w (snd (d (snd (m w))))" and "R w (snd (m w))" for w
    using assms unfolding always_def by (blast intro: trans)+
  then show ?thesis
    unfolding always_def on_error_def by (simp split: prod.split sum.split) (metis snd_conv)
qed

lemma always_mkdir_run [always_intro]: "always R (mkdir_run rid)" "always R (in_run rid)"
  unfolding mkdir_run_def in_run_def by (intro always_intro)+

lemma always_execution [always_intro]: "always R (WriteExecution rid e)" "always R (RemoveExecution rid)"
  unfolding WriteExecution_def RemoveExecution_def atomicPrivateJSON_def by (intro always_intro; simp)+

lemma always_mkdir_artifacts [always_intro]: "always R (mkdir_artifacts rid)"
  unfolding mkdir_artifacts_def by (intro always_intro; simp)

lemma always_CollectArtifacts [always_intro]: "always R (CollectArtifacts ws rid globs)"
proof -
  have edit: "always R (edit_artifacts n f)" for n f
    unfolding edit_artifacts_def by (intro always_intro)
  have one: "always R (collect_one ws rid c rel)" for c rel
    unfolding collect_one_def copyRegular_def Let_def by (intro always_intro edit)
  have files: "always R (collect_files ws rid c rels)" for c rels
    by (induction rels arbitrary: c) (auto intro!: always_intro one split: sum.split)
  have glob: "always R (matchWorkspaceGlob ws g)" for g
    unfolding matchWorkspaceGlob_def walk_tree_def by (intro always_intro)
  have globs: "always R (collect_globs ws rid c gs)" for c gs
    by (induction gs arbitrary: c) (auto intro!: always_intro files glob split: sum.split option.split)
  show ?thesis
    unfolding CollectArtifacts_def by (intro always_intro globs)
qed

lemma always_RunSupervised [always_intro]:
  "(\<And>pid t. always R (onStart pid t)) \<Longrightarrow> always R during \<Longrightarrow> always R (RunSupervised sp cmd onStart during)"
  unfolding RunSupervised_def by (intro always_intro)

lemma always_abs_workspace [always_intro]: "always R (abs_workspace p)"
  unfolding abs_workspace_def by (intro always_intro)

lemma always_ExecuteSupervised [always_intro]:
  assumes "\<And>pid t. always R (onStart pid t)" and "always R during"
  shows "always R (ExecuteSupervised me ex rq onStart during)"
  unfolding ExecuteSupervised_def ExecuteDocker_def ExecuteVM_def ExecuteLocal_def supervise_def DockerCommandArgv_def VMCommandArgv_def Let_def
  by (intro always_intro assms)

lemma always_stage [always_intro]: "always R (stageOrReconstruct env m p n rid src ws h d)"
  unfolding stageOrReconstruct_def seededReconstructionEligible_def noSeedCacheEligible_def lc_regular_def full_stage_def seeded_stage_def
    stageNoSeedReconstruct_def cache_hit_def cache_miss_def workerPayload_def noSeedPayload_def payload_bundle_def payload_tar_def Let_def
  by (intro always_intro)

lemma always_executeRemote [always_intro]: "always R during \<Longrightarrow> always R (executeRemote env l rid m mn src ws p n h during)"
  unfolding executeRemote_def run_remote_def fetch_artifacts_def collect_workspace_def Let_def by (intro always_intro)

lemma always_transition_now [always_intro]: "always R (transition_now rid s)"
  unfolding transition_now_def by (intro always_intro)

lemma always_drop_workspace [always_intro]: "always R (drop_workspace p)"
  unfolding drop_workspace_def by (intro always_intro)

lemma always_logs [always_intro]: "always R (open_log rid name)" "always R (write_logs sn rid ro)"
proof -
  have node: "always R (case n of Regular s \<Rightarrow> f s | SymlinkTo t \<Rightarrow> g t | Special \<Rightarrow> h | Folder es \<Rightarrow> k es)"
    if "\<And>s. always R (f s)" "\<And>t. always R (g t)" "always R h" "\<And>es. always R (k es)" for n :: node and f g h k
    using that by (cases n) auto
  show "always R (open_log rid name)"
    unfolding open_log_def put_log_def by (intro always_intro node; simp)
  show "always R (write_logs sn rid ro)"
    unfolding write_logs_def put_log_def Let_def by (intro always_intro; simp)
qed

lemma always_stage_run [always_intro]: "always R (stage_run env l sn r partial ws)"
  unfolding stage_run_def by (intro always_intro)

end

text \<open>With other processes that keep the guarantee too.\<close>

locale worker_among = worker_guarantee R for R :: "'a build_state_scheme \<Rightarrow> 'a build_state_scheme \<Rightarrow> bool" +
  fixes ev :: "'a build_state_scheme worker_events"
  assumes ev: "always R (ev_others ev p)"
begin

lemma always_background [always_intro]: "always R (background ev rid owner p)" "always R (others ev p)"
  unfolding background_def others_def by (intro always_intro ev)+

lemma always_execute_run [always_intro]: "always R (execute_run env l sn r project owner ws (background ev rid owner p))"
  unfolding execute_run_def execute_local_def submitted_head_def Let_def by (intro always_intro)

lemma always_commit_run [always_intro]: "always R (commit_run ev rid owner ws result)"
  unfolding commit_run_def publish_run_def clean_run_def by (intro always_intro; simp)

lemma always_finish_run [always_intro]: "always R (finish_run ev l sn r owner ws ro)"
  unfolding finish_run_def collect_local_def collect_workspace_def Let_def by (intro always_intro)

lemma always_run_staged [always_intro]: "always R (run_staged env ev l sn r owner ws)"
  unfolding run_staged_def Let_def by (intro always_intro)

lemma always_work_on [always_intro]: "always R (work_on env ev l r sn owner)"
  unfolding work_on_def Let_def by (intro always_intro)

lemma always_execute_target: "always R (execute_target env ev l rid r)"
  unfolding execute_target_def reserved_work_def leased_work_def NewOwner_def by (intro always_intro)

end

section \<open>The invariants of the store\<close>

sublocale checked_config \<subseteq> worker: worker_guarantee "safe_change cfg :: 'a build_state_scheme \<Rightarrow> 'a build_state_scheme \<Rightarrow> bool"
proof
  show "always (safe_change cfg) (StoreTransition rid s now)" "always (safe_change cfg) (Release l m rid)"
    "always (safe_change cfg) (watchCancellation rid es)" "always (safe_change cfg) (renewLease rid owner ttl es)"
    for rid s now l m es owner ttl
    by (rule safe_steps, rule steps_StoreTransition steps_Release steps_watchCancellation steps_renewLease)+
  show "always (safe_change cfg) (PublishResult rid v)" "always (safe_change cfg) (ClaimLease rid owner now ttl)"
    "always (safe_change cfg) (ReleaseLease rid owner)" for rid v owner now ttl
    by (rule safe_steps, rule always_step, rule sched_step.store, erule store_step.publish store_step.claim store_step.release)+
qed (rule safe_same)

context checked_config
begin

lemma among:
  "(\<And>p. always (safe_change cfg) (ev_others ev p)) \<Longrightarrow> always (safe_change cfg) (execute_target env ev l rid r)"
  by (rule worker_among.always_execute_target)
    (intro worker_among.intro worker_among_axioms.intro worker.worker_guarantee_axioms)

end

definition no_events :: "'s worker_events" where
  "no_events = \<lparr>ev_others = (\<lambda>_. ret ()), ev_watch = (\<lambda>_. []), ev_renew = (\<lambda>_. [])\<rparr>"

interpretation alone: worker_among "safe_change Defaults" no_events
  by unfold_locales (simp add: no_events_def safe.always_ret)

text \<open>
  C17: A worker is safe on every outcome. Whatever fails, whatever its processes do, and among any other
  processes that are safe themselves, the execution of a run never puts a machine over its capacity, never
  changes the record of a finished run, and never replaces or removes a published result.
\<close>

theorem worker_safe:
  assumes "Validate cfg = Inr ()" and "distinct (map fst (Machines cfg))" and "\<And>p. always (safe_change cfg) (ev_others ev p)"
  shows "always (safe_change cfg) (execute_target env ev l rid r)"
  by (rule checked_config.among [OF checked_config.intro]; fact assms)

text \<open>A worker that is aborted by another process while it runs.\<close>

definition aborted_events :: "layout \<Rightarrow> run_id \<Rightarrow> ('a build_state_scheme) worker_events" where
  "aborted_events l rid = \<lparr>ev_others = (\<lambda>p. if p = Executing then ignore (Abort l rid) else ret ()),
     ev_watch = (\<lambda>_. [second]), ev_renew = (\<lambda>_. [10 * minute])\<rparr>"

theorem worker_safe_witness:
  "\<forall>env l rid r. always (safe_change Defaults) (execute_target env (aborted_events l rid) l rid r)"
proof (intro allI worker_safe)
  show "Validate Defaults = Inr ()" and "distinct (map fst (Machines Defaults))"
    by (rule default.valid default.names)+
  show "always (safe_change Defaults) (ev_others (aborted_events l rid) p)" for l rid p
    unfolding aborted_events_def by (simp add: safe.always_ret default.worker.always_ignore default.safe_steps steps_Abort)
qed

section \<open>Results\<close>

lemma StoreTransition_Inr:
  assumes "StoreTransition rid s now w = (Inr r, w')"
  shows "record_of w' rid = Some r \<and> State r = s \<and> ID r = rid"
  using assms unfolding StoreTransition_def
proof (cases rule: Mutate_cases)
  case (save before w1 r' w2 q)
  then have r: "r' = r" and q: "q = Inr ()" by (auto split: sum.splits)
  from save(2) have rid: "ValidRunID rid" "ID before = rid" by (auto simp: record_of_def split: option.splits json.splits if_splits)
  from save(3) r have tr: "transitionRecord s now before = Inr r" by (auto simp: lift_result_def)
  then have s: "State r = s" and "ID r = rid"
    using rid by (auto simp: transitionRecord_def split: sum.splits)
  with save(6) r have at: "atomicJSON rid (run_json_update (\<lambda>_. Some (Json r))) w2 = (Inr (), w')" by (simp add: q)
  then have "run_file run_json w' rid = Some (Json r)"
    by (cases rule: atomicJSON_cases) (auto simp: run_file_quiet run_file_put_run)
  with rid \<open>ID r = rid\<close> s save(5) r show ?thesis by (simp add: record_of_def)
qed auto

lemma atomicJSON_Inr:
  "atomicJSON rid upd w = (Inr x, w') \<Longrightarrow> (\<And>d t. f ((upd d)\<lparr>run_mtime := t\<rparr>) = Some y) \<Longrightarrow> run_file f w' rid = Some y"
  by (elim atomicJSON_cases) (auto simp: run_file_quiet run_file_put_run)

lemma PublishResult_Inr:
  assumes "PublishResult rid v w = (Inr x, w')"
  shows "run_file result_json w' rid = Some (Json v)"
  using assms unfolding PublishResult_def
  by (auto simp: throw_def split: sum.splits if_splits elim!: bindE_cases atomicJSON_Inr)

text \<open>Nothing but a transition changes the record.\<close>

lemma record_kept: "keeps_file run_json (\<lambda>_ _. True) w w' \<Longrightarrow> record_of w rid = Some r \<Longrightarrow> record_of w' rid = Some r"
  by (auto simp: record_of_def keeps_file_def split: option.splits json.splits if_splits)

lemma kept_on_fs [always_intro]: "always (keeps_file f P) (on_fs m)"
  by (auto simp: always_def on_fs_def keeps_file_def run_file_def split: prod.splits)

lemma result_steps: "always (sched_step Defaults)\<^sup>*\<^sup>* m \<Longrightarrow> always (keeps_file result_json (\<lambda>_ _. True)) m"
  by (erule always_mono) (rule result_file.sched_steps_kept [OF store_step_result])

interpretation results: worker_guarantee "keeps_file result_json (\<lambda>_ _. True) :: 'a build_state_scheme \<Rightarrow> 'a build_state_scheme \<Rightarrow> bool"
  by unfold_locales
    (simp add: keeps_file_def, (rule result_steps, (rule steps_StoreTransition steps_Release steps_watchCancellation steps_renewLease
      | (rule always_step, rule sched_step.store, erule store_step.publish store_step.claim store_step.release)))+)

lemma on_error_Inr: "on_error d m w = (Inr x, w') \<longleftrightarrow> m w = (Inr x, w')"
  by (auto simp: on_error_def split: prod.splits sum.splits)

lemma deferE_Inr: "deferE d m w = (Inr x, w') \<longleftrightarrow> (\<exists>w1. m w = (Inr x, w1) \<and> w' = snd (d w1))"
  by (auto simp: deferE_def split: prod.splits)

text \<open>What a run that has returned leaves: its result is published, and its record has the state of the result.\<close>

definition settled :: "build_result \<Rightarrow> 'a store_state_scheme \<Rightarrow> bool" where
  "settled v w \<longleftrightarrow> run_file result_json w (br_RunID v) = Some (Json v)
     \<and> (\<exists>r. record_of w (br_RunID v) = Some r \<and> State r = br_State v)"

definition keeps_settled :: "'a store_state_scheme \<Rightarrow> 'a store_state_scheme \<Rightarrow> bool" where
  "keeps_settled w w' \<longleftrightarrow> keeps_file run_json (\<lambda>_ _. True) w w' \<and> keeps_file result_json (\<lambda>_ _. True) w w'"

interpretation settled: os_guarantee keeps_settled
  by unfold_locales (auto simp: keeps_settled_def intro: rec_file.kept.trans result_file.kept.trans rec_file.kept.faults
      result_file.kept.faults rec_file.kept.entropy result_file.kept.entropy)

lemma keeps_settledD: "keeps_settled w w' \<Longrightarrow> settled v w \<Longrightarrow> settled v w'"
  by (auto simp: keeps_settled_def settled_def keeps_file_def intro: record_kept [unfolded keeps_file_def])

lemma keeps_settledI:
  "always (keeps_file run_json (\<lambda>_ _. True)) m \<Longrightarrow> always (keeps_file result_json (\<lambda>_ _. True)) m \<Longrightarrow> always keeps_settled m"
  by (simp add: always_def keeps_settled_def)

lemma settled_ops [always_intro]:
  "always keeps_settled (RemoveExecution rid :: ('a build_state_scheme, unit) io)"
  "always keeps_settled (ReleaseLease rid owner :: ('a build_state_scheme, unit) io)"
  "always keeps_settled (Release l m rid :: ('a build_state_scheme, unit) io)"
  "always keeps_settled (on_fs p :: ('a build_state_scheme, 'b) io)"
  by (rule keeps_settledI; intro always_intro rec_file.shrinks_kept [OF shrinks_Release] results.lease results.free results.always_execution)+

lemma settled_put [always_intro]:
  "(\<And>d. run_json (upd d) = run_json d) \<Longrightarrow> (\<And>d. result_json (upd d) = result_json d) \<Longrightarrow> always keeps_settled (modify (put_run rid upd))"
  by (rule keeps_settledI; intro always_intro; simp)

lemma settled_ignore [always_intro]: "always keeps_settled m \<Longrightarrow> always keeps_settled (ignore m)"
  unfolding ignore_def by (intro always_intro)

lemma settled_clean_run [always_intro]: "always keeps_settled (clean_run rid ws)"
  unfolding clean_run_def by (intro always_intro; simp)

lemma commit_run_Inr:
  assumes "commit_run ev rid owner ws result w = (Inr v, w')" and "br_RunID result = rid"
    and "worker_among (keeps_file result_json (\<lambda>_ _. True)) ev"
  shows "v = result \<and> settled result w'"
proof -
  from assms(1) obtain w1 u2 w2 u3 w3 r w4 w5 where
      pub: "PublishResult rid result w1 = (Inr u2, w2)" and bg: "background ev rid owner Published w2 = (Inr u3, w3)"
      and tr: "transition_now rid (br_State result) w3 = (Inr r, w4)"
      and clean: "clean_run rid ws w4 = (Inr (), w')" and "v = result"
    unfolding commit_run_def by (auto simp: bindE_Inr on_error_Inr publish_run_def ret_def)
  have "keeps_settled w4 w'"
    by (rule alwaysD [OF settled_clean_run clean])
  moreover note \<open>v = result\<close>
  moreover from pub have "run_file result_json w2 rid = Some (Json result)" by (rule PublishResult_Inr)
  then have "run_file result_json w4 rid = Some (Json result)"
    using alwaysD [OF worker_among.always_background(1) [OF assms(3)] bg] alwaysD [OF results.always_transition_now tr]
    by (simp add: keeps_file_def)
  moreover have "record_of w4 rid = Some r \<and> State r = br_State result"
    using tr by (auto simp: transition_now_def bindE_Inr dest: StoreTransition_Inr)
  ultimately show ?thesis
    using assms(2) keeps_settledD [of w4 w' result] by (simp add: settled_def)
qed

text \<open>The result of a worker: settled, of the run, in a final state that agrees with the exit code.\<close>

definition worker_returns :: "run_id \<Rightarrow> build_result \<Rightarrow> 'a store_state_scheme \<Rightarrow> bool" where
  "worker_returns rid v w \<longleftrightarrow> settled v w \<and> br_RunID v = rid \<and> br_State v \<in> {RunSucceeded, RunFailed, RunUnavailable, RunAborted}
     \<and> (br_State v = RunSucceeded \<longrightarrow> br_ExitCode v = 0)"

lemma verdict_final: "verdict c e x = (s, f) \<Longrightarrow> s \<in> {RunSucceeded, RunFailed, RunUnavailable, RunAborted} \<and> (s = RunSucceeded \<longrightarrow> x = 0)"
  by (auto simp: verdict_def split: if_splits option.splits)

lemma run_result_of_fields:
  "br_RunID (run_result_of l sn r ro s f c t) = ID r" "br_State (run_result_of l sn r ro s f c t) = s"
  "br_ExitCode (run_result_of l sn r ro s f c t) = xr_ExitCode (ro_Result ro)"
  by (simp_all add: run_result_of_def Let_def split: prod.split)

lemma finish_run_Inr:
  assumes "finish_run ev l sn r owner ws ro w = (Inr v, w')" and "worker_among (keeps_file result_json (\<lambda>_ _. True)) ev"
  shows "worker_returns (ID r) v w'"
proof -
  from assms(1) obtain c a b w1 where cm0: "(let (s, f) = verdict c (ro_Err ro) (xr_ExitCode (ro_Result ro)) in
      commit_run ev (ID r) owner ws (run_result_of l sn r ro s f a b)) w1 = (Inr v, w')"
    unfolding finish_run_def by (auto simp: bindE_Inr throw_def split: if_splits)
  obtain s f where vd: "verdict c (ro_Err ro) (xr_ExitCode (ro_Result ro)) = (s, f)" by force
  with cm0 have cm: "commit_run ev (ID r) owner ws (run_result_of l sn r ro s f a b) w1 = (Inr v, w')" by simp
  from commit_run_Inr [OF cm run_result_of_fields(1) assms(2)] verdict_final [OF vd] show ?thesis
    by (auto simp: worker_returns_def run_result_of_fields)
qed

lemma keeps_returns: "keeps_settled w w' \<Longrightarrow> worker_returns rid v w \<Longrightarrow> worker_returns rid v w'"
  by (auto simp: worker_returns_def intro: keeps_settledD)

lemma always_snd: "always R m \<Longrightarrow> R w (snd (m w))"
  by (simp add: always_def)

lemma work_on_Inr:
  assumes "work_on env ev l r sn owner w = (Inr v, w')" and "worker_among (keeps_file result_json (\<lambda>_ _. True)) ev"
  shows "worker_returns (ID r) v w'"
proof -
  define d :: "('a build_state_scheme, unit) io" where
    "d = (if ParentRunID r = [] then on_fs (cleanReconstructStaging l (SourcePath r)) else ret ())"
  from assms(1) obtain ws w1 w2 where "run_staged env ev l sn r owner ws w1 = (Inr v, w2)" and w': "w' = snd (d w2)"
    unfolding work_on_def Let_def d_def by (auto simp: bindE_Inr throw_def deferE_Inr split: if_splits)
  then obtain ro w3 where "finish_run ev l sn r owner ws ro w3 = (Inr v, w2)"
    unfolding run_staged_def Let_def by (auto simp: bindE_Inr)
  then have "worker_returns (ID r) v w2" using assms(2) by (rule finish_run_Inr)
  moreover have "always keeps_settled d" unfolding d_def by (intro always_intro)
  ultimately show ?thesis unfolding w' by (blast intro: keeps_returns always_snd)
qed

lemma reserved_work_Inr:
  assumes "reserved_work env ev l rid r w = (Inr v, w')" and "ID r = rid" and "worker_among (keeps_file result_json (\<lambda>_ _. True)) ev"
  shows "worker_returns rid v w'"
proof -
  from assms(1) obtain owner w1 w2 where lw: "leased_work env ev l rid r owner w1 = (Inr v, w2)" and w': "w' = snd (ignore (ReleaseLease rid owner) w2)"
    unfolding reserved_work_def by (auto simp: bindE_Inr deferE_Inr)
  from lw obtain sn w3 where "work_on env ev l r sn owner w3 = (Inr v, w2)"
    unfolding leased_work_def by (auto simp: bindE_Inr)
  from work_on_Inr [OF this assms(3)] have "worker_returns rid v w2" by (simp add: assms(2))
  moreover have "always keeps_settled (ignore (ReleaseLease rid owner) :: ('a build_state_scheme, unit) io)" by (intro always_intro)
  ultimately show ?thesis unfolding w' by (blast intro: keeps_returns always_snd)
qed

lemma execute_target_Inr:
  assumes "execute_target env ev l rid r0 w = (Inr v, w')" and "ID r0 = rid" and "worker_among (keeps_file result_json (\<lambda>_ _. True)) ev"
  shows "worker_returns rid v w'"
proof -
  from assms(1) obtain r w0 w1 w2 where r: "(if State r0 = RunQueued then transition_now rid RunStaging else ret r0) w0 = (Inr r, w1)"
      and wk: "reserved_work env ev l rid r w1 = (Inr v, w2)" and w': "w' = snd (ignore (Release l (Machine r) rid) w2)"
    unfolding execute_target_def by (auto simp: bindE_Inr deferE_Inr)
  from r assms(2) have "ID r = rid"
    by (auto simp: transition_now_def bindE_Inr ret_def split: if_splits dest: StoreTransition_Inr)
  with wk assms(3) have "worker_returns rid v w2" by (blast intro: reserved_work_Inr)
  moreover have "always keeps_settled (ignore (Release l (Machine r) rid) :: ('a build_state_scheme, unit) io)" by (intro always_intro)
  ultimately show ?thesis unfolding w' by (blast intro: keeps_returns always_snd)
qed

lemma execute_prepared_Inr:
  assumes "worker_among (keeps_file result_json (\<lambda>_ _. True)) ev" and "execute_prepared n env ev l rid w = (Inr v, w')"
  shows "worker_returns (br_RunID v) v w'"
  using assms(2)
proof (induction n arbitrary: rid w)
  case 0
  then show ?case by (simp add: throw_def)
next
  case (Suc n)
  from Suc.prems obtain r w1 where ld: "Load rid w = (Inr r, w1)" by (auto simp: bindE_Inr)
  show ?case
  proof (cases "Children r \<noteq> [] \<and> Machine r = []")
    case True
    with Suc.prems ld obtain rid' w2 where "execute_prepared n env ev l rid' w2 = (Inr v, w')"
      by (auto simp: bindE_Inr)
    then show ?thesis by (rule Suc.IH)
  next
    case False
    with Suc.prems ld have "execute_target env ev l rid r w1 = (Inr v, w')" by (simp add: bindE_def)
    moreover from ld have "ID r = rid" by (auto dest!: Load_Inr simp: record_of_def split: option.splits json.splits if_splits)
    ultimately have "worker_returns rid v w'" using assms(1) by (rule execute_target_Inr)
    then show ?thesis by (simp add: worker_returns_def)
  qed
qed

text \<open>
  C16: What a worker returns is what the store says. When an execution returns a result, that result is the
  one published for its run, the record of the run is in the state of the result, that state is final, and
  it is succeeded only if the process exited with zero; no matter what other processes do to the store
  meanwhile, as long as they leave published results alone.
\<close>

theorem worker_result:
  assumes "ExecutePrepared env ev l rid w = (Inr v, w')" and "\<And>p. always (keeps_file result_json (\<lambda>_ _. True)) (ev_others ev p)"
  shows "run_file result_json w' (br_RunID v) = Some (Json v) \<and> (\<exists>r. record_of w' (br_RunID v) = Some r \<and> State r = br_State v)
    \<and> br_State v \<in> {RunSucceeded, RunFailed, RunUnavailable, RunAborted} \<and> (br_State v = RunSucceeded \<longrightarrow> br_ExitCode v = 0)"
proof -
  have "worker_among (keeps_file result_json (\<lambda>_ _. True)) ev"
    by (intro worker_among.intro worker_among_axioms.intro results.worker_guarantee_axioms assms(2))
  from execute_prepared_Inr [OF this assms(1) [unfolded ExecutePrepared_def]] show ?thesis
    by (simp add: worker_returns_def settled_def)
qed

section \<open>Nesting\<close>

lemma bindE_cong_at: "(\<And>x w1. m w = (Inr x, w1) \<Longrightarrow> f x w1 = g x w1) \<Longrightarrow> bindE m f w = bindE m g w"
  by (auto simp: bindE_def split: prod.split sum.split)

lemma Reserve_keeps_records: "always (keeps_file run_json (\<lambda>_ _. True)) (Reserve l Load cfg m rid now :: ('a sched_state_scheme, unit) io)"
  unfolding Reserve_def future_claim_def
  by (intro always_intro rec_file.withLock_kept rec_file.shrinks_kept [OF store_loader.shrinks_reapClaims] rec_file.writeClaim_kept
      rec_file.always_quiet_kept [OF quiet_countActive])

lemma Reserve_machine: "Reserve l Load cfg m rid now w = (Inr u, w') \<Longrightarrow> m \<noteq> []"
  by (auto simp: Reserve_def bindE_Inr ValidName_def)

text \<open>A call on a run that names a machine does not nest.\<close>

lemma execute_prepared_leaf:
  assumes "record_of w rid = Some r" and "Machine r \<noteq> []"
  shows "execute_prepared (Suc n) env ev l rid w = execute_prepared (Suc 0) env ev l rid w"
  unfolding execute_prepared.simps using assms by (auto intro!: bindE_cong_at dest: Load_Inr)

lemma reserve_first_target:
  assumes "reserve_first env l rid w = (Inr child, w')"
  shows "\<exists>r. record_of w' child = Some r \<and> Machine r \<noteq> []"
proof -
  from assms obtain cfg w1 x w2 where at: "attempt (LoadChildren rid) w1 = (Inr x, w2)"
      and rest: "(case x of Inl e \<Rightarrow> throw (EWrap ''build %s has no targets to execute: %w'' [rid] e)
        | Inr [] \<Rightarrow> throw (Errf ''build %s has no targets to execute: %!w(<nil>)'' [rid])
        | Inr (child # _) \<Rightarrow> bindE Now (\<lambda>now. bindE (Reserve l Load cfg (Machine child) (ID child) now) (\<lambda>_. ret (ID child)))) w2
        = (Inr child, w')"
    unfolding reserve_first_def bindE_Inr by blast
  from rest obtain c cs where x: "x = Inr (c # cs)" by (auto simp: throw_def split: sum.splits list.splits)
  with at have lc: "LoadChildren rid w1 = (Inr (c # cs), w2)" by (simp add: attempt_eq)
  from rest x obtain now w3 where "Now w2 = (Inr now, w3)" and rs: "Reserve l Load cfg (Machine c) (ID c) now w3 = (Inr (), w')" and "child = ID c"
    by (auto simp: bindE_Inr ret_def)
  from lc have "record_of w2 (ID c) = Some c"
    using LoadChildren_records [OF lc, of c] record_of_quiet [OF alwaysD [OF quiet_LoadChildren lc]] by simp
  moreover have "w3 = w2" using \<open>Now w2 = (Inr now, w3)\<close> by (simp add: Now_def asks_def)
  ultimately show ?thesis
    using record_kept [OF alwaysD [OF Reserve_keeps_records rs]] Reserve_machine [OF rs] \<open>child = ID c\<close> by auto
qed

text \<open>
  C27: Executing a parent takes one nested call. With any deeper stack an execution does what it does with
  two frames, so that the bound of the model is never reached and the recursion of the code ends, whatever
  the records of the store say.
\<close>

theorem ExecutePrepared_depth: "execute_prepared (Suc (Suc n)) env ev l rid w = ExecutePrepared env ev l rid w"
proof -
  have step: "bindE (reserve_first env l rid) (execute_prepared (Suc n) env ev l) u
      = bindE (reserve_first env l rid) (execute_prepared (Suc 0) env ev l) u" for u
  proof (rule bindE_cong_at)
    fix child w1
    assume "reserve_first env l rid u = (Inr child, w1)"
    then obtain r where "record_of w1 child = Some r" and "Machine r \<noteq> []" by (auto dest: reserve_first_target)
    then show "execute_prepared (Suc n) env ev l child w1 = execute_prepared (Suc 0) env ev l child w1" by (rule execute_prepared_leaf)
  qed
  show ?thesis
    unfolding ExecutePrepared_def numeral_2_eq_2 execute_prepared.simps(2) [where n = "Suc n"]
      execute_prepared.simps(2) [where n = "Suc 0"]
  proof (rule bindE_cong_at)
    fix r w1
    show "(if Children r \<noteq> [] \<and> Machine r = [] then bindE (reserve_first env l rid) (execute_prepared (Suc n) env ev l)
        else execute_target env ev l rid r) w1
      = (if Children r \<noteq> [] \<and> Machine r = [] then bindE (reserve_first env l rid) (execute_prepared (Suc 0) env ev l)
        else execute_target env ev l rid r) w1"
      using step by (cases "Children r \<noteq> [] \<and> Machine r = []") (simp_all only: if_True if_False simp_thms)
  qed
qed

section \<open>Fan-out\<close>

lemma Save_Inr:
  assumes "Save r w = (Inr u, w')" and "ValidRunID (ID r)"
  shows "record_of w' (ID r) = Some r \<and> (\<forall>rid. rid \<noteq> ID r \<longrightarrow> run_file run_json w' rid = run_file run_json w rid)"
proof -
  from assms(1) obtain w1 where "validateRecord r = Inr ()" and idle: "idle w w1"
      and "atomicJSON (ID r) (run_json_update (\<lambda>_. Some (Json r))) w1 = (Inr u, w')"
    unfolding Save_def saveUnlocked_def
    by (auto simp: bindE_Inr lift_result_def runDir_def dest!: alwaysD [OF idle_mkdir_run] alwaysD [OF idle_Acquire] intro: idle.trans)
  moreover from this(3) have "run_file run_json w' (ID r) = Some (Json r) \<and> (\<forall>rid. rid \<noteq> ID r \<longrightarrow> run_file run_json w' rid = run_file run_json w1 rid)"
    by (cases rule: atomicJSON_cases) (auto simp: run_file_quiet run_file_put_run)
  ultimately show ?thesis
    using assms(2) by (simp add: record_of_def idle_run_file empty_run_def)
qed

text \<open>The run of a target as it is admitted.\<close>

definition admitted :: "staging \<Rightarrow> run_id \<Rightarrow> 'a store_state_scheme \<Rightarrow> run_id \<Rightarrow> string \<Rightarrow> bool" where
  "admitted sg parentID w rid machine \<longleftrightarrow> (\<exists>r. record_of w rid = Some r \<and> State r = RunQueued \<and> Machine r = machine \<and> ParentRunID r = parentID
     \<and> SourcePath r = sg_sourcePath sg \<and> SourceDigest r = sg_sourceDigest sg \<and> RunCommand r = ResolveCommand (sg_project sg) machine
     \<and> CancellationRequestedAt r = None)"

lemma admitted_same: "run_file run_json w' rid = run_file run_json w rid \<Longrightarrow> admitted sg p w rid m \<Longrightarrow> admitted sg p w' rid m"
  by (simp add: admitted_def record_of_def)

definition others_same :: "run_id set \<Rightarrow> 'a store_state_scheme \<Rightarrow> 'a store_state_scheme \<Rightarrow> bool" where
  "others_same S w w' \<longleftrightarrow> (\<forall>rid. rid \<notin> S \<longrightarrow> run_file run_json w' rid = run_file run_json w rid)"

lemma newRun_Inr: "newRun digest rid p m c sd sn st now = Inr r \<Longrightarrow> ValidRunID rid \<and> ID r = rid"
  by (auto simp: newRun_def split: if_splits)

lemma stage_child_Inr:
  assumes "stage_child digest sg parentID machine w = (Inr rid, w')"
  shows "admitted sg parentID w' rid machine \<and> others_same {rid} w w'"
proof -
  from assms obtain rid0 w1 c u where nid: "NewRunID (sg_now sg) w = (Inr rid0, w1)"
      and c: "NewRunFromID digest rid0 (sg_name sg) machine (ResolveCommand (sg_project sg) machine) (sg_sourceDigest sg)
        (buildStagedSnapshot (sg_name sg) (sg_project sg) machine (sg_cfg sg) (sg_sourceHead sg) (sg_provenance sg)) (sg_now sg) = Inr c"
      and sv: "Save (c\<lparr>ParentRunID := parentID, SourcePath := sg_sourcePath sg\<rparr>) w1 = (Inr u, w')" and rid: "rid = ID c"
    unfolding stage_child_def by (auto simp: bindE_Inr lift_result_def ret_def)
  from c rid have "ValidRunID rid" and id: "ID c = rid" by (auto simp: NewRunFromID_def dest: newRun_Inr)
  with Save_Inr [OF sv] c have "admitted sg parentID w' rid machine" and "others_same {rid} w1 w'"
    by (auto simp: admitted_def others_same_def NewRunFromID_def newRun_def split: if_splits)
  moreover have "others_same {rid} w w1"
    using nid by (auto simp: NewRunID_def newID_def rand_read_def bindE_Inr others_same_def run_file_def os_call_def ret_def split: list.splits option.splits)
  ultimately show ?thesis by (simp add: others_same_def)
qed

lemma stage_children_Inr:
  assumes "stage_children digest l sg parentID created machines w = (Inr rids, w')" and "distinct rids"
  shows "\<exists>new. rids = created @ new \<and> list_all2 (admitted sg parentID w') new machines \<and> others_same (set new) w w'"
  using assms
proof (induction machines arbitrary: created w)
  case Nil
  then show ?case by (simp add: ret_def others_same_def)
next
  case (Cons m ms)
  from Cons.prems(1) obtain rid w1 where sc: "stage_child digest sg parentID m w = (Inr rid, w1)"
      and rest: "stage_children digest l sg parentID (created @ [rid]) ms w1 = (Inr rids, w')"
    by (auto simp: bindE_Inr on_error_Inr)
  from Cons.IH [OF rest Cons.prems(2)] obtain new where new: "rids = (created @ [rid]) @ new"
      "list_all2 (admitted sg parentID w') new ms" "others_same (set new) w1 w'" by blast
  with Cons.prems(2) have "rid \<notin> set new" by simp
  with new(3) stage_child_Inr [OF sc] have "admitted sg parentID w' rid m" and "others_same (set (rid # new)) w w'"
    by (auto simp: others_same_def intro: admitted_same)
  with new show ?case by (intro exI [of _ "rid # new"]) simp
qed

text \<open>
  C19: An admitted build has one queued run per attached machine. When the fan-out succeeds, the parent is
  in the store, and its children are, in the order of the project's machines, queued runs of that machine
  with its command, of the same source and with this parent, and nothing else in the store has changed;
  provided the random identifiers drawn are distinct.
\<close>

theorem stageFanout_spec:
  assumes "stageFanout digest l sg w = (Inr parent, w')" and "distinct (ID parent # Children parent)"
  shows "record_of w' (ID parent) = Some parent \<and> State parent = RunQueued
    \<and> list_all2 (admitted sg (ID parent) w') (Children parent) (TargetMachines (sg_project sg))
    \<and> (\<forall>rid. rid \<notin> set (ID parent # Children parent) \<longrightarrow> run_file run_json w' rid = run_file run_json w rid)"
proof -
  from assms(1) obtain pid w1 rids w2 where pid: "NewRunID (sg_now sg) w = (Inr pid, w1)"
      and ch: "stage_children digest l sg pid [] (TargetMachines (sg_project sg)) w1 = (Inr rids, w2)"
      and sp: "stage_parent digest sg pid rids w2 = (Inr parent, w')"
    unfolding stageFanout_def by (auto simp: bindE_Inr on_error_Inr)
  from sp obtain u where p: "ValidRunID pid" "ID parent = pid" "Children parent = rids" "State parent = RunQueued" and sv: "Save parent w2 = (Inr u, w')"
    unfolding stage_parent_def Let_def
    by (auto simp: bindE_Inr lift_result_def ret_def NewParentRun_def newRun_def split: sum.splits if_splits)
  have "others_same {} w w1"
    using pid by (auto simp: NewRunID_def newID_def rand_read_def bindE_Inr others_same_def run_file_def os_call_def ret_def split: list.splits option.splits)
  moreover from stage_children_Inr [OF ch] p assms(2) have all: "list_all2 (admitted sg pid w2) rids (TargetMachines (sg_project sg))"
    and "others_same (set rids) w1 w2" by auto
  moreover from Save_Inr [OF sv] p have saved: "record_of w' pid = Some parent" "others_same {pid} w2 w'" by (auto simp: others_same_def)
  moreover have "list_all2 (admitted sg pid w') rids (TargetMachines (sg_project sg))"
  proof (rule list.rel_mono_strong [OF all])
    fix rid m
    assume "rid \<in> set rids" and adm: "admitted sg pid w2 rid m"
    with assms(2) p have "rid \<noteq> pid" by auto
    with saved(2) have "run_file run_json w' rid = run_file run_json w2 rid" by (simp add: others_same_def)
    then show "admitted sg pid w' rid m" using adm by (rule admitted_same)
  qed
  ultimately show ?thesis using p by (auto simp: others_same_def)
qed

end
