(* ===== verification/Vci_Manifest_Laws.thy ===== *)
theory Vci_Manifest_Laws
  imports Vci_Manifest
begin

text \<open>
  What a hosted checkout promises, and where the digest of a snapshot and the cleaning of a checkout
  fall short of what their comments say.
\<close>

section \<open>Pinned commits\<close>

lemma hosted_step_ok: "hosted_step what m w = (Inr v, w') \<Longrightarrow> m w = (Inr v, w')"
  by (auto simp: hosted_step_def attempt_bind split: prod.splits sum.splits)

lemma on_error_ok: "on_error d m w = (Inr v, w') \<Longrightarrow> m w = (Inr v, w')"
  by (auto simp: on_error_def split: prod.splits sum.splits)

lemma runHostedGitRead_ok:
  assumes "runHostedGitRead runner env args w = (Inr out, w')"
  shows "\<exists>r. runner env \<lparr>Executable = ''git'', Args = args, Stdin = None\<rparr> w = (r, w') \<and> RunErr r = None \<and> ExitCode r = 0 \<and> Output r = out"
  using assms by (auto simp: runHostedGitRead_def exec_def bindE_def ret_def throw_def split: prod.splits option.splits if_splits)

text \<open>
  C20: A hosted checkout that succeeds is at the pinned commit: the last thing it did was to ask Git for
  the head of the very directory it returns, with the prompts of Git switched off, and Git answered,
  without an error, with exactly the configured commit. The configured commit is not empty and the
  directory is the one named after the project.
\<close>

theorem hosted_checkout_pinned:
  assumes "Checkout runner environ l projectName h w = (Inr dir, w')"
  shows "\<exists>w1 r. runner (safeCheckoutEnv environ) \<lparr>Executable = ''git'', Args = [''-C'', dir, ''rev-parse'', ''--verify'', ''HEAD''], Stdin = None\<rparr> w1 = (r, w')
    \<and> RunErr r = None \<and> ExitCode r = 0 \<and> TrimSpace (Output r) = Commit h
    \<and> Commit h \<noteq> [] \<and> (\<exists>parent. dir = FJoin [parent, projectName]) \<and> ValidName projectName"
proof -
  let ?env = "safeCheckoutEnv environ"
  from assms obtain parent w0 w1 where
      ok: "ValidName projectName" "Commit h \<noteq> []" and dir: "dir = FJoin [parent, projectName]"
    and v: "verify_head runner ?env dir h w1 = (Inr (), w')"
    by (auto simp: Checkout_def bindE_Inr Let_def dest!: on_error_ok)
  from v obtain out w2 where out: "hosted_step ''git rev-parse HEAD'' (runHostedGitRead runner ?env [''-C'', dir, ''rev-parse'', ''--verify'', ''HEAD'']) w1 = (Inr out, w')"
      and head: "TrimSpace out = Commit h"
    by (auto simp: verify_head_def bindE_Inr Let_def)
  from runHostedGitRead_ok [OF hosted_step_ok [OF out]] head ok dir show ?thesis by auto
qed

section \<open>Cleaning\<close>

text \<open>A checkout with a symbolic link to a file of the user: cleaning removes the checkout and leaves the
  file without its mode.\<close>

definition linked_checkout :: fs_state where
  "linked_checkout = \<lparr>faults = [], clock = 5, entropy = [], windows = False,
     disk = FDir 0 [(''home'', FDir 0 [(''tool'', FFile 1)]), (''tmp'', FDir 0 [(''vci-hosted-1'', FDir 0 [(''app'', FDir 0 [(''bin'', FLink ''/home/tool'')])])])],
     inodes = [(1, \<lparr>i_data = ''#!'', i_mode = 493, i_mtime = 0\<rparr>)], cwd = []\<rparr>"

lemma clean_changes_link_targets:
  "let (r, w) = CleanHosted ''/tmp/vci-hosted-1/app'' linked_checkout in
     r = Inr () \<and> i_mode (the_inode linked_checkout 1) = 493 \<and> i_mode (the_inode w 1) = 384
     \<and> disk w = FDir 0 [(''home'', FDir 0 [(''tool'', FFile 1)]), (''tmp'', FDir 5 [])]"
  by code_simp

section \<open>Digests\<close>

text \<open>Two snapshots with different files and the same digest, whatever the hash is: a file holds the
  bytes that would describe the next one.\<close>

definition one_file :: "canonical_input list" where
  "one_file = [\<lparr>c_Path = ''a'', c_Kind = ''file'', c_Mode = ''644'', c_Target = [], c_Bytes = ''x'' @ [nul] @ ''b'' @ [nul] @ ''file'' @ [nul] @ ''644'' @ [nul, nul] @ ''y''\<rparr>]"

definition two_files :: "canonical_input list" where
  "two_files = [\<lparr>c_Path = ''a'', c_Kind = ''file'', c_Mode = ''644'', c_Target = [], c_Bytes = ''x''\<rparr>,
     \<lparr>c_Path = ''b'', c_Kind = ''file'', c_Mode = ''644'', c_Target = [], c_Bytes = ''y''\<rparr>]"

lemma digest_ambiguous: "one_file \<noteq> two_files \<and> CanonicalDigest sha one_file = CanonicalDigest sha two_files"
  by (simp add: one_file_def two_files_def CanonicalDigest_def canonical_bytes_def)

section \<open>An example\<close>

text \<open>A Git that does as it is told and answers with the commit.\<close>

definition ex_git :: "'s env_runner" where
  "ex_git env c w = (\<lparr>ExitCode = 0, RunErr = None, Output = (if ''rev-parse'' \<in> set (Args c) then ''c0ffee'' @ [nl] else []), ErrOutput = [], CtxErr = None\<rparr>, w)"

definition ex_hosted :: hosted_fallback where
  "ex_hosted = \<lparr>URL = ''https://h/r'', Commit = ''c0ffee''\<rparr>"

definition ex_root :: fs_state where
  "ex_root = \<lparr>faults = [], clock = 5, entropy = [7], windows = False, disk = FDir 0 [], inodes = [], cwd = []\<rparr>"

lemma ex_checkout: "fst (Checkout ex_git [''HOME=/r''] ''/v'' ''app'' ex_hosted ex_root) = Inr ''/v/state/tmp/vci-hosted-7/app''"
  by code_simp

lemma hosted_checkout_pinned_witness:
  "\<exists>w1 r. ex_git (safeCheckoutEnv [''HOME=/r'']) \<lparr>Executable = ''git'',
       Args = [''-C'', ''/v/state/tmp/vci-hosted-7/app'', ''rev-parse'', ''--verify'', ''HEAD''], Stdin = None\<rparr> w1
       = (r, snd (Checkout ex_git [''HOME=/r''] ''/v'' ''app'' ex_hosted ex_root))
     \<and> RunErr r = None \<and> ExitCode r = 0 \<and> TrimSpace (Output r) = ''c0ffee''"
proof -
  have "Checkout ex_git [''HOME=/r''] ''/v'' ''app'' ex_hosted ex_root
      = (Inr ''/v/state/tmp/vci-hosted-7/app'', snd (Checkout ex_git [''HOME=/r''] ''/v'' ''app'' ex_hosted ex_root))"
    using ex_checkout by (metis prod.collapse)
  from hosted_checkout_pinned [OF this] show ?thesis by (auto simp: ex_hosted_def)
qed

end
