(* ===== verification/Vci_Build_Examples.thy ===== *)
theory Vci_Build_Examples
  imports Vci_Build_Laws Vci_Manifest_Laws Vci_Scheduler_Examples
begin

text \<open>
  A worker on a concrete coordinator: one queued run of a checkout with one file, on a local machine whose
  process writes a line and exits with zero. The whole execution is evaluated.
\<close>

definition ex_spawn :: "fs_state spawner" where
  "ex_spawn = \<lparr>sp_start = (\<lambda>cmd f. (Inr 41, f)),
     sp_wait = (\<lambda>pid cancelled cmd f. (\<lparr>ch_Stdout = [''built''], ch_Stderr = [], ch_ExitCode = 0, ch_Signal = None, ch_WaitErr = None\<rparr>, f))\<rparr>"

definition ex_env :: build_env where
  "ex_env = \<lparr>be_toml = example_toml, be_digest = (\<lambda>_. ''d''), be_run = (\<lambda>_ _ f. (\<lparr>ExitCode = 0, RunErr = None, Output = [], ErrOutput = [], CtxErr = None\<rparr>, f)),
     be_run_env = ex_git, be_tar = (\<lambda>_. Inl (Errf ''tar'' [])), be_untar = (\<lambda>_. \<lparr>members = [], well_ended = True\<rparr>), be_sha = (\<lambda>s. s),
     be_codec = \<lparr>mf_encode = (\<lambda>_. []), mf_decode = (\<lambda>_. Inl (Errf ''json'' []))\<rparr>, be_tmp = ''/tmp'', be_environ = [],
     be_machine = \<lparr>me_spawn = ex_spawn, me_LookPath = (\<lambda>e. Inr (''/bin/'' @ e)), me_PATH = ''/bin'', me_uid = 1, me_gid = 1\<rparr>\<rparr>"

definition ex_record :: run_record where
  "ex_record = \<lparr>RunSchemaVersion = 1, ID = ''run_c'', Project = ''p1'', Machine = ''m1'', State = RunQueued, SourceDigest = [],
     SourcePath = ''/src'', ConfigDigest = ''d'', ConfigSnapshot = Json (buildStagedSnapshot ''p1'' example_project ''m1'' example_config [] None),
     RunCommand = [''make''], QueuedAt = 1, UpdatedAt = 1, CancellationRequestedAt = None, ParentRunID = ''run_p'', Children = []\<rparr>"

definition ex_files :: fs_state where
  "ex_files = \<lparr>faults = [], clock = 5, entropy = [], windows = False,
     disk = FDir 0 [(''src'', FDir 0 [(''main.c'', FFile 1)]), (''vci'', FDir 0 [(''state'', FDir 0 [(''work'', FDir 0 []), (''tmp'', FDir 0 [])])])],
     inodes = [(1, \<lparr>i_data = ''int'', i_mode = 420, i_mtime = 1\<rparr>)], cwd = []\<rparr>"

definition ex_build :: build_state where
  "ex_build = \<lparr>faults = [], clock = 5, entropy = [], windows = False, config_file = Some ''one'',
     runs = [(''run_c'', Sub ((empty_run 1)\<lparr>run_json := Some (Json ex_record)\<rparr>))],
     claims = [(''m1'', Sub [(claim_name ''run_c'', ClaimJson (new_claim ''m1'' ''run_c'' 5))])],
     launched = [], filesys = ex_files, ctx_done = False, watch_ended = False, ownership_lost = False\<rparr>"

lemma ex_run: "map_sum (\<lambda>_. ()) (\<lambda>v. (br_RunID v, br_State v, br_ExitCode v, br_StdoutPath v)) (fst (ExecutePrepared ex_env no_events ''/vci'' ''run_c'' ex_build))
    = Inr (''run_c'', RunSucceeded, 0, ''/vci/state/runs/run_c/stdout.log'')"
  by code_simp

text \<open>After it, the machine is free, the workspace is gone and the log is in place.\<close>

lemma ex_run_leaves: "let w = snd (ExecutePrepared ex_env no_events ''/vci'' ''run_c'' ex_build) in
    claim_files w ''m1'' = [] \<and> log_node ''run_c'' ''stdout.log'' w = Inr (Regular ''built'')
    \<and> node_at (disk (filesys w)) [''vci'', ''state'', ''work''] = Some (FDir 5 [])"
  by code_simp

theorem worker_result_witness:
  "\<exists>v r. run_file result_json (snd (ExecutePrepared ex_env no_events ''/vci'' ''run_c'' ex_build)) ''run_c'' = Some (Json v)
     \<and> record_of (snd (ExecutePrepared ex_env no_events ''/vci'' ''run_c'' ex_build)) ''run_c'' = Some r \<and> State r = RunSucceeded"
proof -
  obtain v where v: "fst (ExecutePrepared ex_env no_events ''/vci'' ''run_c'' ex_build) = Inr v"
      and id: "br_RunID v = ''run_c''" and st: "br_State v = RunSucceeded"
    using ex_run by (cases "fst (ExecutePrepared ex_env no_events ''/vci'' ''run_c'' ex_build)") auto
  from v have run: "ExecutePrepared ex_env no_events ''/vci'' ''run_c'' ex_build
      = (Inr v, snd (ExecutePrepared ex_env no_events ''/vci'' ''run_c'' ex_build))"
    by (metis prod.collapse)
  from worker_result [OF run] show ?thesis by (simp add: no_events_def result_file.kept.always_ret id st)
qed

section \<open>A partial admission\<close>

definition ex_staging :: staging where
  "ex_staging = \<lparr>sg_cfg = example_config, sg_name = ''p1'', sg_project = example_project, sg_sourcePath = ''/src'', sg_sourceDigest = [],
     sg_sourceHead = [], sg_provenance = None, sg_now = 5\<rparr>"

definition failing_store :: "nat \<Rightarrow> store_state" where
  "failing_store k = \<lparr>faults = replicate k None @ [Some ''EIO''], clock = 5, entropy = [1, 2, 3, 4, 5, 6, 7, 8, 9, 10, 11, 12], windows = False, config_file = None, runs = []\<rparr>"

text \<open>The directory of the only target cannot be synced after its record is in place. The admission fails,
  and the target stays behind: it is live and without a parent.\<close>

lemma admission_leftover: "let (r, w) = stageFanout (\<lambda>_. ''d'') ''/vci'' ex_staging (failing_store 12) in
    isl r \<and> length (runs w) = 1 \<and> (case fst (HasLiveBuild w) of Inr (Some _) \<Rightarrow> True | _ \<Rightarrow> False)"
  by code_simp

section \<open>A fan-out\<close>

definition ex_fanout :: staging where
  "ex_fanout = ex_staging\<lparr>sg_project := example_project\<lparr>TargetMachines := [''m1'', ''m2''], Commands := [(''m2'', [''ninja''])]\<rparr>\<rparr>"

definition ex_store :: store_state where
  "ex_store = \<lparr>faults = [], clock = 5, entropy = [1, 0, 0, 0, 0, 0, 2, 0, 0, 0, 0, 0, 3], windows = False, config_file = None, runs = []\<rparr>"

lemma ex_fanout_run: "map_sum (\<lambda>_. ()) (\<lambda>p. (ID p, Children p)) (fst (stageFanout (\<lambda>_. ''d'') ''/vci'' ex_fanout ex_store))
    = Inr (''run_5_010000000000'', [''run_5_020000000000'', ''run_5_030000000000''])"
  by code_simp

theorem stageFanout_spec_witness:
  "\<exists>r. record_of (snd (stageFanout (\<lambda>_. ''d'') ''/vci'' ex_fanout ex_store)) ''run_5_030000000000'' = Some r
     \<and> Machine r = ''m2'' \<and> ParentRunID r = ''run_5_010000000000'' \<and> RunCommand r = [''ninja'']"
proof -
  obtain p where p: "fst (stageFanout (\<lambda>_. ''d'') ''/vci'' ex_fanout ex_store) = Inr p"
      and ids: "ID p = ''run_5_010000000000''" "Children p = [''run_5_020000000000'', ''run_5_030000000000'']"
    using ex_fanout_run by (cases "fst (stageFanout (\<lambda>_. ''d'') ''/vci'' ex_fanout ex_store)") auto
  from p have "stageFanout (\<lambda>_. ''d'') ''/vci'' ex_fanout ex_store = (Inr p, snd (stageFanout (\<lambda>_. ''d'') ''/vci'' ex_fanout ex_store))"
    by (metis prod.collapse)
  from stageFanout_spec [OF this] show ?thesis
    by (auto simp: ids admitted_def ex_fanout_def ex_staging_def example_project_def ResolveCommand_def)
qed

end
