(* ===== verification/Vci_Cli_Examples.thy ===== *)
theory Vci_Cli_Examples
  imports Vci_Client_Laws Vci_Output_Laws Vci_Build_Examples
begin

text \<open>
  A client and a coordinator on concrete states: the coordinator has one queued run, and the client asks for it.
\<close>

definition ex_cli :: "build_state \<Rightarrow> cli_state" where
  "ex_cli b = \<lparr>faults = [], clock = clock b, entropy = [], windows = False, config_file = config_file b, runs = runs b, claims = claims b,
     launched = [], filesys = filesys b, ctx_done = False, watch_ended = False, ownership_lost = False, work_dirs = [], tree_dirs = [],
     blob_files = [], home_dir = None, stdout = [], stderr = []\<rparr>"

definition ex_marshal :: "data \<Rightarrow> jvalue" where
  "ex_marshal d = (case d of
       DSummary v \<Rightarrow> JObj [(''state'', JStr (state_text (summary_state v)))]
     | _ \<Rightarrow> JObj [])"

definition ex_binary :: binary where
  "ex_binary = \<lparr>embeddedVersion = ''0.1.0'', releaseVersion = [], releaseCommit = [], releaseDate = [], runtimeBuildInfo = None,
     goVersion = ''go1'', goOS = ''linux'', goArch = ''amd64''\<rparr>"

definition ex_cli_env :: "build_env \<Rightarrow> cli_env" where
  "ex_cli_env b = \<lparr>ce_build = b, ce_events = no_events, ce_root = ''/vci'', ce_home = Inr ''/root'', ce_stdin = [], ce_binary = ex_binary,
     ce_marshal = ex_marshal, ce_num = Some, ce_jerr = (\<lambda>_. ''invalid character''), ce_pause = (\<lambda>_ w. w),
     ce_ssh = (\<lambda>_ w. (ssh_result 255 [] [], w)), ce_worker = (\<lambda>_ w. (ssh_result 255 [] [], w))\<rparr>"

definition ex_coordinator :: cli_state where
  "ex_coordinator = ex_cli ex_build"

definition client_config :: config where
  "client_config = example_config\<lparr>Orchestrator := ''ci@host'', Machines := [], Projects := []\<rparr>"

definition client_toml :: toml where
  "client_toml = \<lparr>toml_decode = (\<lambda>_ _. Inr (client_config, \<lparr>orchestrator_defined = True, Undecoded = []\<rparr>)), toml_encode = (\<lambda>_. Inr [])\<rparr>"

definition ex_client_env :: cli_env where
  "ex_client_env = ex_cli_env (ex_env\<lparr>be_toml := client_toml, be_run := (\<lambda>_. coordinator_ssh 1 (ex_cli_env ex_env) ex_coordinator)\<rparr>)"

definition ex_client :: cli_state where
  "ex_client = ex_cli (ex_build\<lparr>runs := [], claims := []\<rparr>)"

lemma ex_client_of: "client_of ex_client_env ''ci@host'' ex_client"
proof -
  have "map_sum (\<lambda>_. ()) Orchestrator (fst (LoadConfig client_toml ex_client)) = Inr ''ci@host''" by code_simp
  moreover have "snd (LoadConfig client_toml ex_client) = ex_client"
    by (simp add: LoadConfig_def io_eval read_file_ok ex_client_def ex_cli_def ex_build_def lift_result_def)
  ultimately show ?thesis
    by (cases "LoadConfig client_toml ex_client"; cases "fst (LoadConfig client_toml ex_client)")
      (auto simp: client_of_def ex_client_env_def ex_cli_env_def ex_client_def ex_cli_def OrchestratorSelf_def)
qed

definition ex_answer :: response where
  "ex_answer = Success ''check'' (Some (DSummary (SumRecord ex_record)))"

lemma ex_asked:
  "map_sum (\<lambda>_. ()) (map_option id) (fst (RunCommand 1 ((ex_cli_env ex_env)\<lparr>ce_stdin := []\<rparr>) [''check'', ''run_c''] (ex_coordinator\<lparr>stdout := [], stderr := []\<rparr>)))
     = Inr (Some 0)"
  "stdout (snd (RunCommand 1 ((ex_cli_env ex_env)\<lparr>ce_stdin := []\<rparr>) [''check'', ''run_c''] (ex_coordinator\<lparr>stdout := [], stderr := []\<rparr>)))
     = Encode ex_marshal ex_answer"
  by code_simp+

lemma ex_wire: "wire_ok Some ex_marshal ex_answer"
  by (simp add: wire_ok_def ex_answer_def Success_def data_json_def ex_marshal_def summary_state_def ex_record_def ascii_def insert_member_def)

theorem forwarded_transparent_witness:
  "stdout (snd (RunCommand 1 ex_client_env [''check'', ''run_c''] ex_client)) = Encode ex_marshal ex_answer
     \<and> fst (RunCommand 1 ex_client_env [''check'', ''run_c''] ex_client) = Inr (Some 0)"
proof -
  let ?m = "RunCommand 1 ((ex_cli_env ex_env)\<lparr>ce_stdin := []\<rparr>) [''check'', ''run_c''] (ex_coordinator\<lparr>stdout := [], stderr := []\<rparr>)"
  have "fst ?m = Inr (Some 0)" using ex_asked(1) by (cases "fst ?m") auto
  then have asked: "?m = (Inr (Some 0), snd ?m)" by (metis prod.collapse)
  have "forwarded ''check'' [''run_c''] [''run_c'']" by (rule forwarded.check) code_simp
  note facts = forwarded_transparent [OF ex_client_of _ this _ asked, of "Clean ''/vci''" ex_answer 1]
  have "ce_marshal (ex_cli_env ex_env) = ex_marshal" "ce_num ex_client_env = Some" "resolveLayout ex_client_env = Inr (Clean ''/vci'')"
    "be_run (ce_build ex_client_env) (ctx_done ex_client) = coordinator_ssh 1 (ex_cli_env ex_env) ex_coordinator"
    "stdout ex_client = []" "rs_Command ex_answer = ''check''" "rs_OK ex_answer" "error_named ex_answer"
    by (simp_all add: ex_client_env_def ex_cli_env_def resolveLayout_def ex_client_def ex_cli_def ex_answer_def Success_def error_named_def)
  then obtain w' where "RunCommand 1 ex_client_env [''check'', ''run_c''] ex_client = (Inr (Some 0), w')"
      "stdout w' = Encode ex_marshal ex_answer"
    using facts ex_asked(2) ex_wire by auto
  then show ?thesis by simp
qed

section \<open>A client that is asked to abort\<close>

lemma ex_is_client: "is_client client_toml ex_coordinator"
proof -
  have "map_option Orchestrator (current client_toml ex_coordinator) = Some ''ci@host''" by code_simp
  then show ?thesis by (auto simp: is_client_def OrchestratorSelf_def)
qed

theorem client_keeps_nothing_witness:
  "runs (snd (RunCommand 1 ex_client_env [''abort'', ''run_c''] ex_coordinator)) = runs ex_coordinator"
proof -
  let ?m = "RunCommand 1 ex_client_env [''abort'', ''run_c''] ex_coordinator"
  have "is_client (be_toml (ce_build ex_client_env)) ex_coordinator"
    using ex_is_client by (simp add: ex_client_env_def ex_cli_env_def)
  moreover have "kept (be_toml (ce_build ex_client_env)) v (ce_pause ex_client_env d v)" for d v
    by (simp add: ex_client_env_def ex_cli_env_def kept_def)
  ultimately show ?thesis
    using client_keeps_nothing [of ex_client_env ex_coordinator "[''abort'', ''run_c'']" 1 "fst ?m" "snd ?m"]
    by (simp add: HasPrefix_def)
qed

section \<open>Watching a run that has succeeded\<close>

definition ex_done :: cli_state where
  "ex_done = ex_cli (ex_build\<lparr>runs := [(''run_c'', Sub ((empty_run 1)\<lparr>run_json := Some (Json (ex_record\<lparr>State := RunSucceeded\<rparr>))\<rparr>))]\<rparr>)"

lemma ex_watched: "map_sum (\<lambda>_. ()) (map_option id) (fst (watch_loop 1 (ex_cli_env ex_env) ''run_c'' 1 True None ex_done)) = Inr (Some 0)"
  by code_simp

theorem watch_success_witness:
  "\<exists>w0 r w1. checkRun (ex_cli_env ex_env) [''run_c''] w0 = (Inr (r, 0), w1)
     \<and> watchState (ex_cli_env ex_env) (rs_Data r) = Some RunSucceeded"
proof -
  let ?m = "watch_loop 1 (ex_cli_env ex_env) ''run_c'' 1 True None ex_done"
  have "fst ?m = Inr (Some 0)" using ex_watched by (cases "fst ?m") auto
  then have "?m = (Inr (Some 0), snd ?m)" by (metis prod.collapse)
  from watch_success [OF this] show ?thesis .
qed

section \<open>Where the code falls short\<close>

text \<open>A project named \<open>clock\<close> that is not configured is reported as a lock that may be tried again.\<close>

lemma clock_text: "err_text (Errf ''project %q is not configured'' [''clock'']) = ''project '' @ [CHR 0x22] @ ''clock'' @ [CHR 0x22] @ '' is not configured''"
  by (simp add: go_quote_def)

lemma clock_lower: "ToLower (''project '' @ [CHR 0x22] @ ''clock'' @ [CHR 0x22] @ '' is not configured'') = ''project '' @ [CHR 0x22] @ ''clock'' @ [CHR 0x22] @ '' is not configured''"
  by (simp add: ToLower_def runes_def lower_rune_def) (simp add: char_of_def bit_0)

lemma clock_class: "classify_text (''project '' @ [CHR 0x22] @ ''clock'' @ [CHR 0x22] @ '' is not configured'') = (''lock_failed'', FailureState, True)"
  by (simp add: classify_text_def mentions_def HasPrefix_def)

lemma classified_by_name: "classify (Errf ''project %q is not configured'' [''clock''])
    = (''lock_failed'', FailureState, err_text (Errf ''project %q is not configured'' [''clock'']), True)"
  unfolding classify_def clock_text Let_def by (simp add: clock_class [simplified] typed_classes_def clock_lower [simplified])

text \<open>When the coordinator's seed is at the head of the client already, nothing can be submitted: not even
  changes that are not committed, which need no bundle.\<close>

lemma up_to_date_refused:
  fixes w :: cli_state
  assumes "id_Head identity = have" and "have \<noteq> []"
  shows "fst (capture_submission env sourcePath identity have w) = Inl (EWrap ''create bundle: %w'' [] (ESent ErrBundleEmpty))"
proof -
  have "CreateBundle run (be_tmp env) sourcePath have (id_Head identity) = Pair (Inl (ESent ErrBundleEmpty))" for run :: "fs_state runner"
    using assms by (simp add: CreateBundle_def throw_def fun_eq_iff)
  then have "with_run env (\<lambda>run. CreateBundle run (be_tmp env) sourcePath have (id_Head identity)) w = (Inl (ESent ErrBundleEmpty), after_ssh w)"
    by (simp add: with_run_def bindE_def asks_def on_fs_after)
  then show ?thesis by (simp add: capture_submission_def bindE_def wrapE_def)
qed

text \<open>The failure that the coordinator reports for a list of artifacts does not reach the client's user.\<close>

lemma list_failure_replaced:
  assumes "wire_ok (ce_num env) marshal (Failure ''artifacts'' e)"
  shows "remote_list env (Encode marshal (Failure ''artifacts'' e))
    = Inl (NewError ''remote_invalid_response'' FailureInfrastructure ''remote artifacts ls response has an invalid envelope'' True)"
  using decode_Encode [OF assms] by (simp add: remote_list_def decoded_def Failure_def)

end
