(* ===== verification/Spec2Isabelle.thy ===== *)
theory Spec2Isabelle
  imports Vci_Reaper_Examples Vci_BundleCache_Laws Vci_Worker_Examples Vci_Source_Laws Vci_Submission_Laws
    Vci_Cli_Examples Vci_Protocol
begin

text \<open>
  A verification development of VCI, a coordinator of builds (\<open>src/\<close>, in Go).

  \<^bold>\<open>The program.\<close> A root directory is a coordinator or a client (\<open>orchestrator\<close> in its configuration). A
  coordinator admits one build at a time, fans it out into one run per machine of the project, reserves
  slots on the machines, starts a detached worker process per run, and keeps everything as files: the
  configuration, one directory per run with its record, lease, result, logs and artifacts, one directory per
  machine with a claim file per reserved slot. A worker stages a workspace (locally, or on another machine
  over ssh, from a seed, a bundle cache or a full copy), runs the command bare, in a container or in a virtual
  machine, collects the artifacts and publishes the result. A maintenance pass clears what dead workers left.
  A client forwards its commands over ssh and submits builds as Git bundles with local changes.

  \<^bold>\<open>Theories and sources\<close> (paths below \<open>src/internal/\<close>), in the order they import each other.

  \<^item> \<open>Vci_Prelude\<close>, \<open>Vci_IO\<close>, \<open>Vci_Text\<close>, \<open>Vci_Path\<close>, \<open>Vci_Glob\<close>, \<open>Vci_Json\<close>, \<open>Vci_Tree\<close>: what the sources use
    of Go's library: strings as bytes with their runes, wrap-around of \<open>int64\<close>, error values with their chains and
    texts, paths, patterns, JSON, file trees. \<open>Vci_IO\<close> has the programs of the model, \<open>('s, 'a) io\<close>: a function
    from a state to a result (an error or a value) and a state. Every call of the operating system may fail:
    the state carries a list of faults, which \<open>os_call\<close> consumes. A property that holds for every state holds
    for every pattern of faults. \<open>always R m\<close> is the guarantee that \<open>m\<close> keeps the relation \<open>R\<close> on success
    and on every error path; the locales \<open>guarantee\<close> and \<open>os_guarantee\<close> prove its composition once.
  \<^item> \<open>Vci_Model\<close> (\<open>model/model.go\<close>), \<open>Vci_Config\<close> (\<open>config/config.go\<close>, \<open>validation.go\<close>): names, the state
    machine of runs, the layout; the configuration, its validation and its locked, atomic mutation.
  \<^item> \<open>Vci_Process\<close> (\<open>process/process.go\<close>), \<open>Vci_Store\<close>, \<open>Vci_Store_Laws\<close> (\<open>store/store.go\<close>): logs with a limit,
    execution records; run records, leases, results, cancellation.
  \<^item> \<open>Vci_Scheduler\<close> and its laws (\<open>scheduler/\<close>): claims, the choice of a machine, reaping.
  \<^item> \<open>Vci_Artifacts\<close> (\<open>app/data.go\<close>), \<open>Vci_Setup\<close> (\<open>app/configure.go\<close>), \<open>Vci_Lifecycle\<close> (\<open>app/lifecycle.go\<close>,
    \<open>fanout.go\<close>, \<open>launch_unix.go\<close>).
  \<^item> \<open>Vci_Shell\<close>, \<open>Vci_Host\<close> (\<open>host/ssh.go\<close>): a POSIX shell for the composed command lines, and the transport.
  \<^item> \<open>Vci_Fs\<close>, \<open>Vci_Worker\<close>, \<open>Vci_Confined\<close>, \<open>Vci_Reconstruct\<close> (\<open>cli/internal.go\<close>, \<open>internal_reconstruct.go\<close>): a
    file system with links, modes and shared inodes, and the commands a remote worker runs on it.
    \<open>Vci_BundleCache\<close> (\<open>bundlecache/cache.go\<close>): the same cache as a library, on an abstract directory of entries.
  \<^item> \<open>Vci_Reaper\<close> (\<open>reaper/\<close>): the maintenance pass.
  \<^item> \<open>Vci_Source\<close>, \<open>Vci_Submission\<close>, \<open>Vci_Manifest\<close> (\<open>source/\<close>): the choice of a build's input, bundles, local
    changes and submissions, manifests, snapshots and hosted checkouts.
  \<^item> \<open>Vci_Runtime\<close> (\<open>runtime/\<close>), \<open>Vci_Remote\<close>, \<open>Vci_Client\<close> (\<open>app/remote.go\<close>), \<open>Vci_Build\<close> (\<open>app/build.go\<close>): the
    executors, the run on another machine, the client's half, the admission of builds and their workers.
  \<^item> \<open>Vci_Envelope\<close>, \<open>Vci_Version\<close>, \<open>Vci_Args\<close>, \<open>Vci_Cli\<close>, \<open>Vci_Commands\<close> (\<open>cli/\<close>, \<open>version/\<close>): the command line.
  \<^item> Where parts meet: \<open>Vci_Protocol\<close> (with \<open>Vci_Time\<close>) has the coordinator and the worker command it starts over ssh,
    \<open>Vci_Submission_Laws\<close> the client's submission and the coordinator that reads it, \<open>Vci_Cli_Laws\<close> and
    \<open>Vci_Client_Laws\<close> the client and the coordinator it forwards to, \<open>Vci_Build_Laws\<close> a worker among other processes.

  \<^bold>\<open>State.\<close> The records extend each other the way the layers use each other: \<open>os_state\<close> (faults, clock, random
  bytes), \<open>config_state\<close>, \<open>store_state\<close> (the directory of runs), \<open>sched_state\<close> (claims), \<open>app_state\<close> (launched workers),
  then \<open>build_state\<close> (with a file system for sources and workspaces), \<open>reap_state\<close> and \<open>cli_state\<close>. An operation is
  polymorphic in what extends its state, so that a property of the store is one of every layer above it. The
  files of the coordinator's own state are typed (a file holds a record, or is garbled), those of users are bytes.
  The two are components of their own: what a program or a worker's command writes through the file system does
  not reach the runs, the claims and the configuration, and no property speaks of such a write.

  \<^bold>\<open>What is proved.\<close> For the store and the scheduler, invariants over arbitrary interleavings of operations, with
  faults: a machine never holds more claims than its capacity, a finished record never changes (unless it is saved
  over, which the store does not refuse), a result is never replaced, a live lease excludes the other owners that can
  read it. For each operation above them (cancelling, dispatching,
  maintenance, a whole execution of a worker among other processes), that it is made of such steps, so the
  invariants carry over (\<open>cancellation_safe\<close>, \<open>maintenance_safe\<close>, \<open>worker_safe\<close>). Then the functional behaviour of
  the operations (choice of machines, reaping, aggregation of states, collection of artifacts, eviction,
  fan-out, results), round trips (submissions, envelopes, the maintenance protocol with a worker), the quoting of
  remote command lines against a model of the shell, confinement of staged archives, and how the two validators
  of a build's input agree. The \<open>Examples\<close> theories apply the properties at concrete states and hold the
  findings.

  \<^bold>\<open>Bounds and fuel.\<close> Loops over data are structural or have a measure. The eviction loop of the worker has as fuel the
  number of entries and one (\<open>evictLRU_terminates\<close> shows that it is enough); walks of a tree and nested submodules are
  bounded by the longest path, 4096; a path follows at most 40 links, as the system does; the JSON reader has twice
  the length of its text, which \<open>json_parse_print\<close> shows to be enough for what is printed; \<open>execute_prepared\<close> has two frames
  (\<open>ExecutePrepared_depth\<close>: more change nothing). The loops that wait for others, \<open>wait_loop\<close> and \<open>watch_loop\<close>, are given a
  number of polls and answer \<open>None\<close> when they are still waiting (\<open>wait_loop_ready\<close>).

  \<^bold>\<open>Parameters.\<close> The TOML codec, the tar format, SHA-256 and the digest of a snapshot, the JSON codec of manifests and of
  the values of the application, programs that are run (Git, ssh, tar, scp, docker, tart) with what they do to the
  files, the process spawner, and what other processes do at a point of an execution. Properties that rely on one
  name the law they rely on (for TOML and tar, that what was encoded decodes to itself).

  \<^bold>\<open>Not modelled.\<close> The Windows files (\<open>process_windows.go\<close>, \<open>launch_windows.go\<close>, \<open>lock_windows.go\<close>), which are the same
  operations on another system; \<open>cmd/vci/main.go\<close>; the attributes of started processes. Locks are taken as calls that
  may fail, and the critical sections they guard are atomic. A run of a program ends: time only passes between steps.
\<close>

end
